(* ===== verification/Prelude.thy ===== *)
theory Prelude
  imports Complex_Main "HOL-Library.Product_Lexorder" "HOL-Library.List_Lexorder"
    "HOL-Library.Multiset" "HOL-Library.Sublist"
begin

text \<open>
  Shared vocabulary of the development: Python strings as lists of code points, the exceptions
  the program raises as values of a sum type, time stamps and durations, the SQL statements the
  store issues as functions on lists of rows, and the lemmas on them that every component uses.

  \<^item> \<open>pystr\<close> is a Python \<open>str\<close>: a list of Unicode code points, so that \<open>length\<close> is Python's
    \<open>len\<close>. \<open>u ''...''\<close> embeds an ASCII literal.
  \<^item> \<open>exn + 'a\<close> is the outcome of a call: \<open>Inl\<close> a raised exception, \<open>Inr\<close> a returned value.
  \<^item> Instants are integers, the microseconds of a UTC \<open>datetime\<close> (its resolution); durations and
    other Python floats are rationals, so rounding of floats is not modelled.
\<close>

section \<open>Strings\<close>

type_synonym pystr = "nat list"

definition u :: "string \<Rightarrow> pystr" where
  "u s = map of_char s"

lemma u_inj [simp]: "u a = u b \<longleftrightarrow> a = b"
  by (simp add: u_def inj_def)

lemma u_Nil [simp]: "u [] = []"
  by (simp add: u_def)

lemma u_eq_Nil [simp]: "u a = [] \<longleftrightarrow> a = []" "[] = u a \<longleftrightarrow> a = []"
  by (simp_all add: u_def)

lemma length_u [simp]: "length (u a) = length a"
  by (simp add: u_def)

text \<open>Decimal notation of integers, as \<open>str(n)\<close> prints them.\<close>

fun str_nat :: "nat \<Rightarrow> pystr" where
  "str_nat n = (if n < 10 then [48 + n] else str_nat (n div 10) @ [48 + n mod 10])"

declare str_nat.simps [simp del]

definition str_int :: "int \<Rightarrow> pystr" where
  "str_int i = (if i < 0 then 45 # str_nat (nat (- i)) else str_nat (nat i))"

lemma str_nat_digits: "c \<in> set (str_nat n) \<Longrightarrow> 48 \<le> c \<and> c \<le> 57"
proof (induction n rule: str_nat.induct)
  case (1 n)
  then show ?case by (subst (asm) str_nat.simps) (auto split: if_splits)
qed

lemma str_nat_nonempty [simp]: "str_nat n \<noteq> []"
  by (subst str_nat.simps) simp

lemma str_nat_inject: "str_nat m = str_nat n \<longleftrightarrow> m = n"
proof (induction m arbitrary: n rule: str_nat.induct)
  case (1 m)
  show ?case
    by (subst str_nat.simps, subst (2) str_nat.simps)
      (use 1 in \<open>auto simp: append_eq_Cons_conv Cons_eq_append_conv\<close>,
       metis div_mult_mod_eq)
qed

text \<open>A Python value that may be \<open>None\<close> or the empty string is falsy in both cases.\<close>

definition truthy :: "pystr option \<Rightarrow> bool" where
  "truthy s = (case s of None \<Rightarrow> False | Some t \<Rightarrow> t \<noteq> [])"

lemma truthy_simps [simp]: "\<not> truthy None" "truthy (Some t) \<longleftrightarrow> t \<noteq> []"
  by (simp_all add: truthy_def)

section \<open>Exceptions and outcomes\<close>

datatype exn =
    AnalysisAttemptSuperseded pystr
  | IntegrityError
  | InvalidSignatureError pystr
  | GitHubConfigurationError pystr
  | AuthenticationError pystr
  | LLMError pystr
  | PatchError pystr
  | HTTPException nat pystr
  | TransportError pystr
  | HTTPStatusError nat
  | RedisError pystr
  | ValueError pystr
  | KeyError pystr
  | TypeError pystr
  | AssertionError pystr
  | OtherError pystr

text \<open>\<open>bindE m f\<close> runs \<open>f\<close> on the value of \<open>m\<close>; an exception of \<open>m\<close> propagates.\<close>

definition bindE :: "exn + 'a \<Rightarrow> ('a \<Rightarrow> exn + 'b) \<Rightarrow> exn + 'b" where
  "bindE m f = (case m of Inl e \<Rightarrow> Inl e | Inr a \<Rightarrow> f a)"

lemma bindE_simps [simp]: "bindE (Inl e) f = Inl e" "bindE (Inr a) f = f a"
  by (simp_all add: bindE_def)

text \<open>Evaluation decides a step before it looks at the steps that follow.\<close>

lemma bindE_unfold [code_unfold]: "bindE m f = (case m of Inl e \<Rightarrow> Inl e | Inr a \<Rightarrow> f a)"
  by (simp add: bindE_def)

lemma bindE_eq_Inr: "bindE m f = Inr b \<longleftrightarrow> (\<exists>a. m = Inr a \<and> f a = Inr b)"
  by (cases m) auto

lemma bindE_eq_Inl: "bindE m f = Inl e \<longleftrightarrow> m = Inl e \<or> (\<exists>a. m = Inr a \<and> f a = Inl e)"
  by (cases m) auto

text \<open>\<open>mapE f xs\<close> is a comprehension whose body may raise: the first exception wins.\<close>

fun mapE :: "('a \<Rightarrow> exn + 'b) \<Rightarrow> 'a list \<Rightarrow> exn + 'b list" where
  "mapE f [] = Inr []"
| "mapE f (x # xs) = bindE (f x) (\<lambda>y. bindE (mapE f xs) (\<lambda>ys. Inr (y # ys)))"

lemma mapE_Inr_length: "mapE f xs = Inr ys \<Longrightarrow> length ys = length xs"
  by (induction xs arbitrary: ys) (auto simp: bindE_eq_Inr)

lemma mapE_pure: "(\<And>x. x \<in> set xs \<Longrightarrow> f x = Inr (g x)) \<Longrightarrow> mapE f xs = Inr (map g xs)"
  by (induction xs) auto

text \<open>
  Code that changes state and may raise: the effects made before an exception stay. \<open>bindS\<close>
  sequences, \<open>tryS\<close> handles exceptions, \<open>liftS\<close> runs code that has no state of its own and
  \<open>transS\<close> a transaction, which leaves the state alone when it raises.
\<close>

type_synonym ('s, 'a) prog = "'s \<Rightarrow> (exn + 'a) \<times> 's"

definition retS :: "'a \<Rightarrow> ('s, 'a) prog" where
  "retS a s = (Inr a, s)"

definition raiseS :: "exn \<Rightarrow> ('s, 'a) prog" where
  "raiseS e s = (Inl e, s)"

definition bindS :: "('s, 'a) prog \<Rightarrow> ('a \<Rightarrow> ('s, 'b) prog) \<Rightarrow> ('s, 'b) prog" where
  "bindS m f s = (case m s of (Inl e, s') \<Rightarrow> (Inl e, s') | (Inr a, s') \<Rightarrow> f a s')"

definition tryS :: "('s, 'a) prog \<Rightarrow> (exn \<Rightarrow> ('s, 'a) prog) \<Rightarrow> ('s, 'a) prog" where
  "tryS m h s = (case m s of (Inl e, s') \<Rightarrow> h e s' | (Inr a, s') \<Rightarrow> (Inr a, s'))"

definition liftS :: "exn + 'a \<Rightarrow> ('s, 'a) prog" where
  "liftS r s = (r, s)"

definition updS :: "('s \<Rightarrow> 's) \<Rightarrow> ('s, unit) prog" where
  "updS f s = (Inr (), f s)"

definition transS :: "('s \<Rightarrow> exn + 'a \<times> 's) \<Rightarrow> ('s, 'a) prog" where
  "transS f s = (case f s of Inl e \<Rightarrow> (Inl e, s) | Inr (a, s') \<Rightarrow> (Inr a, s'))"

text \<open>\<open>try: m except e: h e else: k a\<close>, where neither clause is guarded.\<close>

definition tryElseS :: "('s, 'a) prog \<Rightarrow> (exn \<Rightarrow> ('s, 'b) prog) \<Rightarrow> ('a \<Rightarrow> ('s, 'b) prog) \<Rightarrow> ('s, 'b) prog" where
  "tryElseS m h k s = (case m s of (Inl e, s') \<Rightarrow> h e s' | (Inr a, s') \<Rightarrow> k a s')"

fun mapS :: "('a \<Rightarrow> ('s, 'b) prog) \<Rightarrow> 'a list \<Rightarrow> ('s, 'b list) prog" where
  "mapS f [] = retS []"
| "mapS f (x # xs) = bindS (f x) (\<lambda>y. bindS (mapS f xs) (\<lambda>ys. retS (y # ys)))"

lemma prog_simps [simp]:
  "retS a s = (Inr a, s)" "raiseS e s = (Inl e, s)" "liftS r s = (r, s)" "updS f s = (Inr (), f s)"
  by (simp_all add: retS_def raiseS_def liftS_def updS_def)

section \<open>Time\<close>

text \<open>
  A \<open>datetime\<close> is naive (a wall clock reading) or aware (a wall clock reading and the offset of
  its zone from UTC), both in microseconds.
\<close>

datatype datetime = Naive int | Aware int int

fun utc_micros :: "datetime \<Rightarrow> int" where
  "utc_micros (Naive t) = t"
| "utc_micros (Aware t off) = t - off"

definition total_seconds :: "int \<Rightarrow> rat" where
  "total_seconds d = of_int d / 1000000"

lemma total_seconds_nonneg [simp]: "0 \<le> total_seconds d \<longleftrightarrow> 0 \<le> d"
  by (simp add: total_seconds_def)

lemma total_seconds_mono: "a \<le> b \<Longrightarrow> total_seconds a \<le> total_seconds b"
  by (simp add: total_seconds_def divide_right_mono)

section \<open>SQL statements on lists of rows\<close>

text \<open>
  A table is the list of its rows in insertion order. \<open>UPDATE ... WHERE c\<close> rewrites the rows that
  satisfy the condition and reports how many there were; \<open>DELETE\<close> drops them; \<open>SELECT\<close> filters.
\<close>

definition sql_update :: "('r \<Rightarrow> bool) \<Rightarrow> ('r \<Rightarrow> 'r) \<Rightarrow> 'r list \<Rightarrow> 'r list \<times> nat" where
  "sql_update c f rows = (map (\<lambda>r. if c r then f r else r) rows, length (filter c rows))"

definition sql_delete :: "('r \<Rightarrow> bool) \<Rightarrow> 'r list \<Rightarrow> 'r list" where
  "sql_delete c rows = filter (\<lambda>r. \<not> c r) rows"

definition sql_select :: "('r \<Rightarrow> bool) \<Rightarrow> 'r list \<Rightarrow> 'r list" where
  "sql_select c rows = filter c rows"

text \<open>\<open>ORDER BY k DESC\<close> on a key.\<close>

definition order_desc :: "('r \<Rightarrow> 'k::linorder) \<Rightarrow> 'r list \<Rightarrow> 'r list" where
  "order_desc k rows = rev (sort_key k rows)"

definition first_row :: "'r list \<Rightarrow> 'r option" where
  "first_row rows = (case rows of [] \<Rightarrow> None | r # _ \<Rightarrow> Some r)"

named_theorems sql_simps

lemma first_row_simps [simp, sql_simps]: "first_row [] = None" "first_row (r # rs) = Some r"
  by (simp_all add: first_row_def)

lemma first_row_None [simp]: "first_row rows = None \<longleftrightarrow> rows = []"
  by (cases rows) auto

lemma first_row_in: "first_row rows = Some r \<Longrightarrow> r \<in> set rows"
  by (cases rows) auto

lemma fst_sql_update [simp]: "fst (sql_update c f rows) = map (\<lambda>r. if c r then f r else r) rows"
  by (simp add: sql_update_def)

lemma snd_sql_update [simp]: "snd (sql_update c f rows) = length (filter c rows)"
  by (simp add: sql_update_def)

lemma set_order_desc [simp]: "set (order_desc k rows) = set rows"
  by (simp add: order_desc_def)

lemma length_order_desc [simp]: "length (order_desc k rows) = length rows"
  by (simp add: order_desc_def)

lemma order_desc_Nil [simp]: "order_desc k rows = [] \<longleftrightarrow> rows = []"
  using length_order_desc[of k rows] by (metis length_0_conv)

lemma distinct_order_desc [simp]: "distinct (order_desc k rows) = distinct rows"
  by (simp add: order_desc_def)

lemma sorted_order_desc: "sorted_wrt (\<lambda>a b. k b \<le> k a) (order_desc k rows)"
  using sorted_sort_key[of k rows] by (simp add: order_desc_def sorted_wrt_rev sorted_map)

text \<open>
  The first row of an ordered selection is a row with the greatest key, which is how
  \<open>ORDER BY ... DESC LIMIT 1\<close> is used.
\<close>

lemma first_order_desc_max:
  assumes "first_row (order_desc k rows) = Some r" "r' \<in> set rows"
  shows "k r' \<le> k r"
proof -
  obtain rs where rs: "order_desc k rows = r # rs"
    using assms(1) by (cases "order_desc k rows") auto
  have "r' \<in> set (r # rs)" using assms(2) by (metis rs set_order_desc)
  with sorted_order_desc[of k rows] rs show ?thesis by auto
qed

text \<open>Tables with a primary key: at most one row answers a selection by key.\<close>

definition keyed :: "('r \<Rightarrow> 'k) \<Rightarrow> 'r list \<Rightarrow> bool" where
  "keyed k rows \<longleftrightarrow> distinct (map k rows)"

lemma keyed_Nil [simp]: "keyed k []"
  by (simp add: keyed_def)

lemma keyed_append_new: "keyed k (rows @ [r]) \<longleftrightarrow> keyed k rows \<and> k r \<notin> k ` set rows"
  by (auto simp: keyed_def)

lemma keyed_filter: "keyed k rows \<Longrightarrow> keyed k (filter c rows)"
  by (simp add: keyed_def distinct_map_filter)

lemma keyed_map_same:
  assumes "\<And>r. k (f r) = k r"
  shows "keyed k (map f rows) = keyed k rows"
  by (simp add: keyed_def comp_def assms)

lemma sql_update_key:
  assumes "\<And>r. k (f r) = k r"
  shows "keyed k (fst (sql_update c f rows)) = keyed k rows"
    and "k ` set (fst (sql_update c f rows)) = k ` set rows"
proof -
  have m: "map k (fst (sql_update c f rows)) = map k rows"
    by (simp add: assms)
  then show "keyed k (fst (sql_update c f rows)) = keyed k rows"
    by (simp only: keyed_def)
  from m show "k ` set (fst (sql_update c f rows)) = k ` set rows"
    by (metis set_map)
qed

lemma keyed_unique:
  assumes "keyed k rows" "r \<in> set rows" "r' \<in> set rows" "k r = k r'"
  shows "r = r'"
  using assms by (metis keyed_def distinct_map inj_onD)

lemma keyed_finer:
  assumes "keyed k rows" "\<And>r r'. k' r = k' r' \<Longrightarrow> k r = k r'"
  shows "keyed k' rows"
proof -
  have "inj_on k (set rows)" "distinct rows" using assms(1) by (simp_all add: keyed_def distinct_map)
  moreover have "inj_on k' (set rows)"
    using \<open>inj_on k (set rows)\<close> by (intro inj_onI) (blast dest: assms(2) inj_onD)
  ultimately show ?thesis by (simp add: keyed_def distinct_map)
qed

lemma distinct_map_sort_key: "distinct (map k (sort_key f xs)) \<longleftrightarrow> distinct (map k xs)"
proof (rule mset_eq_imp_distinct_iff)
  show "mset (map k (sort_key f xs)) = mset (map k xs)" by simp
qed

lemma sorted_order_desc_strict:
  assumes "keyed k rows"
  shows "sorted_wrt (\<lambda>a b. k b < k a) (order_desc k rows)"
proof -
  have "distinct (map k (sort_key k rows))"
    using assms by (simp only: keyed_def distinct_map_sort_key)
  then have "sorted_wrt (<) (map k (sort_key k rows))"
    by (simp add: strict_sorted_iff)
  then show ?thesis by (simp add: order_desc_def sorted_wrt_rev sorted_wrt_map)
qed

text \<open>In a strictly descending list, what lies below an element is what follows it.\<close>

lemma filter_below:
  assumes "sorted_wrt (\<lambda>a b. k b < (k a :: 'k::linorder)) (xs @ y # ys)"
  shows "filter (\<lambda>r. k r < k y) (xs @ y # ys) = ys"
proof -
  have "filter (\<lambda>r. k r < k y) xs = []"
    using assms by (auto simp: filter_empty_conv sorted_wrt_append dest: less_asym)
  moreover have "filter (\<lambda>r. k r < k y) ys = ys"
    using assms by (auto simp: filter_id_conv sorted_wrt_append)
  ultimately show ?thesis by simp
qed

lemma keyed_filter_single:
  assumes "keyed k rows" "r \<in> set rows"
  shows "filter (\<lambda>x. k x = k r) rows = [r]"
  using assms
proof (induction rows)
  case (Cons x xs)
  show ?case
  proof (cases "x = r")
    case True
    with Cons.prems have "filter (\<lambda>y. k y = k r) xs = []"
      by (auto simp: keyed_def filter_empty_conv image_iff)
    with True show ?thesis by simp
  next
    case False
    with Cons.prems have "r \<in> set xs" "keyed k xs" "k x \<noteq> k r"
      by (auto simp: keyed_def)
    with Cons.IH show ?thesis by simp
  qed
qed simp

lemma keyed_find_iff:
  assumes "keyed k rows"
  shows "first_row (filter (\<lambda>x. k x = a) rows) = Some r \<longleftrightarrow> r \<in> set rows \<and> k r = a"
proof
  assume "first_row (filter (\<lambda>x. k x = a) rows) = Some r"
  then have "r \<in> set (filter (\<lambda>x. k x = a) rows)" by (rule first_row_in)
  then show "r \<in> set rows \<and> k r = a" by simp
next
  assume "r \<in> set rows \<and> k r = a"
  then show "first_row (filter (\<lambda>x. k x = a) rows) = Some r"
    using keyed_filter_single[OF assms] by auto
qed

lemma first_filter_None: "first_row (filter c rows) = None \<longleftrightarrow> (\<forall>r \<in> set rows. \<not> c r)"
  by (auto simp: filter_empty_conv)

section \<open>Lists\<close>

lemma take_append_hd_drop: "i < length xs \<Longrightarrow> take i xs @ (xs ! i) # drop (Suc i) xs = xs"
  by (simp add: id_take_nth_drop[symmetric])

lemma concat_filter_nonempty: "concat (filter (\<lambda>xs. xs \<noteq> []) xss) = concat xss"
  by (induction xss) auto

lemma sum_list_map_le_const: "(\<And>x. x \<in> set xs \<Longrightarrow> f x \<le> (c::nat)) \<Longrightarrow> sum_list (map f xs) \<le> length xs * c"
  by (induction xs) (auto intro: add_mono)

end
