(* ===== verification/Models.thy ===== *)
theory Models
  imports Prelude
begin

text \<open>
  The data of the program, \<open>src/pipelens/models.py\<close>: each \<open>StrEnum\<close> is a datatype with its string
  \<open>value\<close>, each pydantic model a record with the fields of the class in their order. Fields carry
  a prefix per class, since record fields are global names. The declared field constraints
  (confidence and score between 0 and 1, the comment length, feedback that says something) are
  the predicates named \<open>valid_...\<close>, which is what pydantic checks when it builds the object.
\<close>

section \<open>Enumerations\<close>

datatype AnalysisStatus = QUEUED | RUNNING | COMPLETED | FAILED

datatype AnalysisStage =
  COLLECTING | SANITIZING | CLASSIFYING | CORRELATING | DIAGNOSING | PUBLISHING

datatype StageStatus = STAGE_STARTED | STAGE_COMPLETED | STAGE_FAILED

datatype ErrorCategory =
  TEST | BUILD | DEPENDENCY | LINT | DOCKER | DEPLOY_AUTH | MISSING_ENV | TIMEOUT | RESOURCE
  | WORKFLOW | SECURITY | UNKNOWN

datatype FeedbackAccuracy = ACCURATE | PARTIAL | INACCURATE

datatype TrustLevel = TRUSTED | UNTRUSTED_FORK | UNVERIFIED

datatype ResolutionOutcome = RESOLVED | STILL_FAILING

datatype SuggestionSource = RULE | LLM

fun status_value :: "AnalysisStatus \<Rightarrow> pystr" where
  "status_value QUEUED = u ''queued''"
| "status_value RUNNING = u ''running''"
| "status_value COMPLETED = u ''completed''"
| "status_value FAILED = u ''failed''"

fun stage_value :: "AnalysisStage \<Rightarrow> pystr" where
  "stage_value COLLECTING = u ''collecting''"
| "stage_value SANITIZING = u ''sanitizing''"
| "stage_value CLASSIFYING = u ''classifying''"
| "stage_value CORRELATING = u ''correlating''"
| "stage_value DIAGNOSING = u ''diagnosing''"
| "stage_value PUBLISHING = u ''publishing''"

fun stage_status_value :: "StageStatus \<Rightarrow> pystr" where
  "stage_status_value STAGE_STARTED = u ''started''"
| "stage_status_value STAGE_COMPLETED = u ''completed''"
| "stage_status_value STAGE_FAILED = u ''failed''"

fun category_value :: "ErrorCategory \<Rightarrow> pystr" where
  "category_value TEST = u ''test_failure''"
| "category_value BUILD = u ''build_failure''"
| "category_value DEPENDENCY = u ''dependency_installation_failure''"
| "category_value LINT = u ''lint_or_formatter_failure''"
| "category_value DOCKER = u ''docker_build_failure''"
| "category_value DEPLOY_AUTH = u ''deployment_authentication_failure''"
| "category_value MISSING_ENV = u ''missing_environment_variable''"
| "category_value TIMEOUT = u ''timeout''"
| "category_value RESOURCE = u ''resource_exhaustion''"
| "category_value WORKFLOW = u ''github_actions_workflow_error''"
| "category_value SECURITY = u ''security_scan_failure''"
| "category_value UNKNOWN = u ''unknown''"

fun accuracy_value :: "FeedbackAccuracy \<Rightarrow> pystr" where
  "accuracy_value ACCURATE = u ''accurate''"
| "accuracy_value PARTIAL = u ''partial''"
| "accuracy_value INACCURATE = u ''inaccurate''"

fun trust_value :: "TrustLevel \<Rightarrow> pystr" where
  "trust_value TRUSTED = u ''trusted''"
| "trust_value UNTRUSTED_FORK = u ''untrusted_fork''"
| "trust_value UNVERIFIED = u ''unverified''"

fun outcome_value :: "ResolutionOutcome \<Rightarrow> pystr" where
  "outcome_value RESOLVED = u ''resolved''"
| "outcome_value STILL_FAILING = u ''still_failing''"

fun source_value :: "SuggestionSource \<Rightarrow> pystr" where
  "source_value RULE = u ''rule''"
| "source_value LLM = u ''llm''"

text \<open>The strings of an enumeration are distinct, so a stored value determines its member.\<close>

lemma status_value_inject: "status_value a = status_value b \<longleftrightarrow> a = b"
  by (cases a; cases b) simp_all

lemma category_value_inject: "category_value a = category_value b \<longleftrightarrow> a = b"
  by (cases a; cases b) simp_all

section \<open>Models of the analysis\<close>

record Evidence =
  ev_source :: pystr
  ev_content :: pystr
  ev_location :: "pystr option"

record Classification =
  cl_category :: ErrorCategory
  cl_confidence :: rat
  cl_first_error :: pystr
  cl_related_step :: "pystr option"
  cl_matched_rules :: "pystr list"

record Suggestion =
  sg_description :: pystr
  sg_file :: "pystr option"
  sg_patch :: "pystr option"
  sg_source :: "SuggestionSource option"
  sg_patch_verified :: bool

record Diagnosis =
  dg_summary :: pystr
  dg_root_cause :: pystr
  dg_confidence :: rat
  dg_evidence :: "Evidence list"
  dg_suggestions :: "Suggestion list"
  dg_conflicts :: "pystr list"
  dg_notes :: "pystr list"

record ChangedFile =
  cf_filename :: pystr
  cf_status :: pystr
  cf_patch :: "pystr option"
  cf_previous_filename :: "pystr option"

record RepositoryContext =
  rc_changed_files :: "ChangedFile list"
  rc_workflow_path :: "pystr option"
  rc_workflow_content :: "pystr option"
  rc_pull_request_number :: "int option"
  rc_trust_level :: TrustLevel
  rc_baseline_sha :: "pystr option"

record RelatedFile =
  rf_filename :: pystr
  rf_score :: rat
  rf_reasons :: "pystr list"
  rf_patch_excerpt :: "pystr option"

record FailedJobContext =
  fj_name :: pystr
  fj_failed_steps :: "pystr list"
  fj_runner_labels :: "pystr list"

record ExecutionContext =
  ec_workflow_name :: "pystr option"
  ec_head_branch :: "pystr option"
  ec_failed_jobs :: "FailedJobContext list"

definition valid_confidence :: "rat \<Rightarrow> bool" where
  "valid_confidence c \<longleftrightarrow> 0 \<le> c \<and> c \<le> 1"

section \<open>Feedback, resolution, history, and the analysis record\<close>

record FeedbackRequest =
  fq_accuracy :: "FeedbackAccuracy option"
  fq_suggestion_resolved :: "bool option"
  fq_comment :: "pystr option"

definition valid_feedback_request :: "FeedbackRequest \<Rightarrow> bool" where
  "valid_feedback_request f \<longleftrightarrow>
     (case fq_comment f of None \<Rightarrow> True | Some c \<Rightarrow> length c \<le> 2000)
     \<and> (fq_accuracy f \<noteq> None \<or> fq_suggestion_resolved f \<noteq> None)"

record FeedbackRecord =
  fr_accuracy :: "FeedbackAccuracy option"
  fr_suggestion_resolved :: "bool option"
  fr_comment :: "pystr option"
  fr_run_id :: int
  fr_created_at :: int
  fr_updated_at :: int

record ResolutionRecord =
  rs_outcome :: ResolutionOutcome
  rs_followup_run_id :: int
  rs_followup_run_attempt :: int
  rs_followup_html_url :: pystr
  rs_followup_completed_at :: int
  rs_recovery_seconds :: rat

record AnalysisStageEvent =
  se_stage :: AnalysisStage
  se_status :: StageStatus
  se_error :: "pystr option"
  se_occurred_at :: int

record AnalysisRecord =
  ar_run_id :: int
  ar_delivery_id :: pystr
  ar_repository :: pystr
  ar_workflow_name :: pystr
  ar_head_sha :: pystr
  ar_html_url :: pystr
  ar_run_attempt :: int
  ar_head_branch :: "pystr option"
  ar_pull_request_number :: "int option"
  ar_run_completed_at :: "int option"
  ar_installation_id :: "int option"
  ar_trust_level :: TrustLevel
  ar_baseline_sha :: "pystr option"
  ar_status :: AnalysisStatus
  ar_classification :: "Classification option"
  ar_diagnosis :: "Diagnosis option"
  ar_related_files :: "RelatedFile list"
  ar_workflow_path :: "pystr option"
  ar_execution_context :: "ExecutionContext option"
  ar_model_name :: "pystr option"
  ar_prompt_version :: "pystr option"
  ar_feedback :: "FeedbackRecord option"
  ar_resolution :: "ResolutionRecord option"
  ar_error :: "pystr option"
  ar_analysis_started_at :: "int option"
  ar_analysis_completed_at :: "int option"
  ar_duration_seconds :: "rat option"
  ar_queue_wait_seconds :: "rat option"
  ar_total_latency_seconds :: "rat option"
  ar_stage_history :: "AnalysisStageEvent list"
  ar_created_at :: int
  ar_updated_at :: int

section \<open>Requests and users\<close>

record AnalysisRequest =
  rq_run_id :: int
  rq_repository :: pystr
  rq_installation_id :: int
  rq_head_sha :: pystr

record GitHubUser =
  gu_github_user_id :: int
  gu_login :: pystr
  gu_avatar_url :: "pystr option"

record GitHubInstallation =
  gi_installation_id :: int
  gi_account_login :: pystr
  gi_account_type :: pystr
  gi_repository_selection :: pystr

record CurrentUser =
  cu_user :: GitHubUser
  cu_installations :: "GitHubInstallation list"

end
