(* ===== verification/Tables.thy ===== *)
theory Tables
  imports Models
begin

text \<open>
  The schema of \<open>src/pipelens/store.py\<close>. A database is a record of tables, a table the list of
  its rows; the columns of each table are the fields of its row record. Columns of type JSON hold
  the model value that is dumped into them.

  What the two supported database servers do differently is the \<open>backend\<close> field: PostgreSQL
  enforces foreign keys and sorts NULL first in a descending order, SQLite (as SQLAlchemy opens
  it) does not enforce them, sorts NULL last and returns naive time stamps.
\<close>

section \<open>Tables\<close>

datatype backend = Sqlite | Postgresql

definition fk_enforced :: "backend \<Rightarrow> bool" where
  "fk_enforced b \<longleftrightarrow> b = Postgresql"

definition nulls_first_desc :: "backend \<Rightarrow> bool" where
  "nulls_first_desc b \<longleftrightarrow> b = Postgresql"

record analysis_row =
  a_run_id :: int
  a_delivery_id :: pystr
  a_repository :: pystr
  a_workflow_name :: pystr
  a_head_sha :: pystr
  a_html_url :: pystr
  a_run_attempt :: int
  a_head_branch :: "pystr option"
  a_pull_request_number :: "int option"
  a_run_completed_at :: "int option"
  a_installation_id :: "int option"
  a_trust_level :: TrustLevel
  a_baseline_sha :: "pystr option"
  a_status :: AnalysisStatus
  a_classification :: "Classification option"
  a_diagnosis :: "Diagnosis option"
  a_related_files :: "RelatedFile list"
  a_workflow_path :: "pystr option"
  a_execution_context :: "ExecutionContext option"
  a_model_name :: "pystr option"
  a_prompt_version :: "pystr option"
  a_error :: "pystr option"
  a_analysis_started_at :: "int option"
  a_analysis_completed_at :: "int option"
  a_duration_seconds :: "rat option"
  a_queue_wait_seconds :: "rat option"
  a_total_latency_seconds :: "rat option"
  a_resolution_outcome :: "ResolutionOutcome option"
  a_resolution_run_id :: "int option"
  a_resolution_run_attempt :: "int option"
  a_resolution_html_url :: "pystr option"
  a_resolution_completed_at :: "int option"
  a_recovery_seconds :: "rat option"
  a_attempt_token :: "pystr option"
  a_created_at :: int
  a_updated_at :: int

record stage_event_row =
  e_id :: int
  e_run_id :: int
  e_stage :: AnalysisStage
  e_status :: StageStatus
  e_error :: "pystr option"
  e_occurred_at :: int

record feedback_row =
  f_run_id :: int
  f_accuracy :: "FeedbackAccuracy option"
  f_suggestion_resolved :: "bool option"
  f_comment :: "pystr option"
  f_created_at :: int
  f_updated_at :: int

record github_user_row =
  g_github_user_id :: int
  g_login :: pystr
  g_avatar_url :: "pystr option"
  g_created_at :: int
  g_updated_at :: int

record auth_session_row =
  s_session_hash :: pystr
  s_github_user_id :: int
  s_encrypted_access_token :: pystr
  s_expires_at :: int
  s_created_at :: int

record user_installation_row =
  i_github_user_id :: int
  i_installation_id :: int
  i_account_login :: pystr
  i_account_type :: pystr
  i_repository_selection :: pystr
  i_updated_at :: int

record db =
  db_backend :: backend
  db_analyses :: "analysis_row list"
  db_stage_events :: "stage_event_row list"
  db_next_event_id :: int
  db_feedback :: "feedback_row list"
  db_github_users :: "github_user_row list"
  db_auth_sessions :: "auth_session_row list"
  db_user_installations :: "user_installation_row list"

definition initialize :: "backend \<Rightarrow> db" where
  "initialize b = \<lparr>db_backend = b, db_analyses = [], db_stage_events = [], db_next_event_id = 1,
     db_feedback = [], db_github_users = [], db_auth_sessions = [], db_user_installations = []\<rparr>"

section \<open>Values returned to callers\<close>

record AnalysisStart =
  attempt_started_at :: int
  queue_wait_seconds :: rat
  first_start :: bool

record AnalysisCursor =
  cursor_created_at :: int
  cursor_run_id :: int

record AnalysisPage =
  page_records :: "AnalysisRecord list"
  next_cursor :: "AnalysisCursor option"

record ResolutionMatch =
  failed_run_id :: int
  resolution :: ResolutionRecord

record AuthSessionRow =
  as_github_user_id :: int
  as_encrypted_access_token :: pystr
  as_expires_at :: datetime
  as_login :: pystr
  as_avatar_url :: "pystr option"

end
