(* ===== verification/Store.thy ===== *)
theory Store
  imports Tables
begin

text \<open>
  The persistence layer, the class \<open>AnalysisStore\<close> of \<open>src/pipelens/store.py\<close>. A method is a
  function of its arguments, of the clock reading it takes with \<open>datetime.now(UTC)\<close> where it does,
  and of the database; a method that raises inside \<open>engine.begin()\<close> returns \<open>Inl\<close> and its
  transaction is rolled back, so the caller keeps the database it had.
\<close>

section \<open>Module functions\<close>

definition as_utc :: "datetime \<Rightarrow> datetime" where
  "as_utc v = (case v of Naive t \<Rightarrow> Aware t 0 | Aware t off \<Rightarrow> Aware (t - off) 0)"

text \<open>The value a time stamp column is read back as, and the instant \<open>_as_utc\<close> makes of it.\<close>

definition read_column :: "backend \<Rightarrow> int \<Rightarrow> datetime" where
  "read_column b t = (case b of Sqlite \<Rightarrow> Naive t | Postgresql \<Rightarrow> Aware t 0)"

definition read_utc :: "db \<Rightarrow> int \<Rightarrow> int" where
  "read_utc d t = utc_micros (as_utc (read_column (db_backend d) t))"

lemma utc_micros_as_utc [simp]: "utc_micros (as_utc v) = utc_micros v"
  by (cases v) (simp_all add: as_utc_def)

lemma read_utc [simp]: "read_utc d t = t"
  by (cases "db_backend d") (simp_all add: read_utc_def read_column_def)

lemma map_option_read_utc [simp]: "map_option (read_utc d) x = x"
  by (cases x) simp_all

fun is_infix :: "pystr \<Rightarrow> pystr \<Rightarrow> bool" where
  "is_infix p [] \<longleftrightarrow> p = []"
| "is_infix p (c # cs) \<longleftrightarrow> prefix p (c # cs) \<or> is_infix p cs"

definition normalize_database_url :: "pystr \<Rightarrow> pystr" where
  "normalize_database_url v = (if is_infix (u ''://'') v then v else u ''sqlite:///'' @ v)"

section \<open>Analyses\<close>

definition row_of_record :: "AnalysisRecord \<Rightarrow> analysis_row" where
  "row_of_record r = \<lparr>
     a_run_id = ar_run_id r,
     a_delivery_id = ar_delivery_id r,
     a_repository = ar_repository r,
     a_workflow_name = ar_workflow_name r,
     a_head_sha = ar_head_sha r,
     a_html_url = ar_html_url r,
     a_run_attempt = ar_run_attempt r,
     a_head_branch = ar_head_branch r,
     a_pull_request_number = ar_pull_request_number r,
     a_run_completed_at = ar_run_completed_at r,
     a_installation_id = ar_installation_id r,
     a_trust_level = ar_trust_level r,
     a_baseline_sha = ar_baseline_sha r,
     a_status = ar_status r,
     a_classification = ar_classification r,
     a_diagnosis = ar_diagnosis r,
     a_related_files = ar_related_files r,
     a_workflow_path = ar_workflow_path r,
     a_execution_context = ar_execution_context r,
     a_model_name = ar_model_name r,
     a_prompt_version = ar_prompt_version r,
     a_error = ar_error r,
     a_analysis_started_at = ar_analysis_started_at r,
     a_analysis_completed_at = ar_analysis_completed_at r,
     a_duration_seconds = ar_duration_seconds r,
     a_queue_wait_seconds = ar_queue_wait_seconds r,
     a_total_latency_seconds = ar_total_latency_seconds r,
     a_resolution_outcome = None,
     a_resolution_run_id = None,
     a_resolution_run_attempt = None,
     a_resolution_html_url = None,
     a_resolution_completed_at = None,
     a_recovery_seconds = None,
     a_attempt_token = None,
     a_created_at = ar_created_at r,
     a_updated_at = ar_updated_at r\<rparr>"

definition create_if_absent :: "AnalysisRecord \<Rightarrow> db \<Rightarrow> bool \<times> db" where
  "create_if_absent r d =
     (if \<exists>x \<in> set (db_analyses d). a_run_id x = ar_run_id r \<or> a_delivery_id x = ar_delivery_id r
      then (False, d)
      else (True, d\<lparr>db_analyses := db_analyses d @ [row_of_record r]\<rparr>))"

record followup_run =
  fu_repository :: pystr
  fu_workflow_name :: pystr
  fu_head_branch :: "pystr option"
  fu_pull_request_number :: "int option"
  fu_run_id :: int
  fu_run_attempt :: int
  fu_html_url :: pystr
  fu_conclusion :: pystr
  fu_completed_at :: datetime

definition target_match :: "followup_run \<Rightarrow> analysis_row \<Rightarrow> bool" where
  "target_match q r = (case fu_pull_request_number q of
       None \<Rightarrow> a_head_branch r = fu_head_branch q
     | Some n \<Rightarrow>
         (case fu_head_branch q of
            None \<Rightarrow> a_pull_request_number r = Some n
          | Some b \<Rightarrow> a_pull_request_number r = Some n
              \<or> (a_pull_request_number r = None \<and> a_head_branch r = Some b)))"

definition prior_run :: "followup_run \<Rightarrow> analysis_row \<Rightarrow> bool" where
  "prior_run q r \<longleftrightarrow> a_run_id r < fu_run_id q
     \<or> (a_run_id r = fu_run_id q \<and> a_run_attempt r < fu_run_attempt q)"

definition unresolved_or_same_run_retry :: "followup_run \<Rightarrow> analysis_row \<Rightarrow> bool" where
  "unresolved_or_same_run_retry q r \<longleftrightarrow>
     a_resolution_outcome r = None
     \<or> (a_run_id r = fu_run_id q \<and> a_resolution_outcome r = Some STILL_FAILING
        \<and> a_resolution_run_id r = Some (fu_run_id q)
        \<and> (case a_resolution_run_attempt r of None \<Rightarrow> False | Some k \<Rightarrow> k < fu_run_attempt q))"

definition completed_rank :: "backend \<Rightarrow> int option \<Rightarrow> int \<times> int" where
  "completed_rank b t = (case t of
       None \<Rightarrow> (if nulls_first_desc b then (2, 0) else (0, 0))
     | Some x \<Rightarrow> (1, x))"

definition followup_candidate :: "followup_run \<Rightarrow> db \<Rightarrow> analysis_row option" where
  "followup_candidate q d = first_row
     (order_desc (\<lambda>r. (completed_rank (db_backend d) (a_run_completed_at r), a_run_id r, a_run_attempt r))
        (sql_select (\<lambda>r. a_repository r = fu_repository q \<and> a_workflow_name r = fu_workflow_name q
            \<and> unresolved_or_same_run_retry q r \<and> target_match q r \<and> prior_run q r)
          (db_analyses d)))"

definition followup_resolution :: "followup_run \<Rightarrow> db \<Rightarrow> analysis_row \<Rightarrow> ResolutionRecord" where
  "followup_resolution q d c =
     (let normalized = utc_micros (as_utc (fu_completed_at q));
          failed_at = read_utc d (case a_run_completed_at c of Some t \<Rightarrow> t | None \<Rightarrow> a_created_at c)
      in \<lparr>rs_outcome = (if fu_conclusion q = u ''success'' then RESOLVED else STILL_FAILING),
          rs_followup_run_id = fu_run_id q,
          rs_followup_run_attempt = fu_run_attempt q,
          rs_followup_html_url = fu_html_url q,
          rs_followup_completed_at = normalized,
          rs_recovery_seconds = max 0 (total_seconds (normalized - failed_at))\<rparr>)"

definition set_resolution :: "int \<Rightarrow> ResolutionRecord \<Rightarrow> analysis_row \<Rightarrow> analysis_row" where
  "set_resolution now rs r = r\<lparr>
     a_resolution_outcome := Some (rs_outcome rs),
     a_resolution_run_id := Some (rs_followup_run_id rs),
     a_resolution_run_attempt := Some (rs_followup_run_attempt rs),
     a_resolution_html_url := Some (rs_followup_html_url rs),
     a_resolution_completed_at := Some (rs_followup_completed_at rs),
     a_recovery_seconds := Some (rs_recovery_seconds rs),
     a_updated_at := now\<rparr>"

definition record_followup_run :: "int \<Rightarrow> followup_run \<Rightarrow> db \<Rightarrow> ResolutionMatch option \<times> db" where
  "record_followup_run now q d =
     (if fu_conclusion q \<notin> {u ''success'', u ''failure''} then (None, d)
      else if fu_head_branch q = None \<and> fu_pull_request_number q = None then (None, d)
      else case followup_candidate q d of
        None \<Rightarrow> (None, d)
      | Some c \<Rightarrow>
          (let rs = followup_resolution q d c;
               (rows, rowcount) = sql_update
                 (\<lambda>r. a_run_id r = a_run_id c \<and> unresolved_or_same_run_retry q r)
                 (set_resolution now rs) (db_analyses d);
               d' = d\<lparr>db_analyses := rows\<rparr>
           in if rowcount \<noteq> 1 then (None, d')
              else (Some \<lparr>failed_run_id = a_run_id c, resolution = rs\<rparr>, d')))"


definition attempt_message :: "int \<Rightarrow> pystr" where
  "attempt_message run_id =
     u ''analysis attempt for run '' @ str_int run_id @ u '' is no longer current''"

definition missing_message :: "int \<Rightarrow> pystr" where
  "missing_message run_id = u ''analysis run '' @ str_int run_id @ u '' does not exist''"

definition require_current_attempt :: "nat \<Rightarrow> int \<Rightarrow> pystr option \<Rightarrow> exn + unit" where
  "require_current_attempt rowcount run_id attempt_token =
     (if attempt_token \<noteq> None \<and> rowcount \<noteq> 1
      then Inl (AnalysisAttemptSuperseded (attempt_message run_id)) else Inr ())"

text \<open>
  The optional keyword arguments of \<open>update\<close>. An argument that is None leaves its column alone,
  except for \<open>error\<close>, which is always written.
\<close>

record update_fields =
  uf_classification :: "Classification option"
  uf_diagnosis :: "Diagnosis option"
  uf_related_files :: "RelatedFile list option"
  uf_workflow_path :: "pystr option"
  uf_execution_context :: "ExecutionContext option"
  uf_model_name :: "pystr option"
  uf_prompt_version :: "pystr option"
  uf_trust_level :: "TrustLevel option"
  uf_baseline_sha :: "pystr option"
  uf_error :: "pystr option"

definition no_fields :: update_fields where
  "no_fields = \<lparr>uf_classification = None, uf_diagnosis = None, uf_related_files = None,
     uf_workflow_path = None, uf_execution_context = None, uf_model_name = None,
     uf_prompt_version = None, uf_trust_level = None, uf_baseline_sha = None, uf_error = None\<rparr>"

definition keep_or :: "'a option \<Rightarrow> 'a option \<Rightarrow> 'a option" where
  "keep_or old v = (case v of None \<Rightarrow> old | Some _ \<Rightarrow> v)"

definition apply_update :: "int \<Rightarrow> AnalysisStatus \<Rightarrow> update_fields \<Rightarrow> analysis_row \<Rightarrow> analysis_row" where
  "apply_update now st v r = r\<lparr>
     a_status := st,
     a_error := uf_error v,
     a_updated_at := now,
     a_classification := keep_or (a_classification r) (uf_classification v),
     a_diagnosis := keep_or (a_diagnosis r) (uf_diagnosis v),
     a_related_files := (case uf_related_files v of None \<Rightarrow> a_related_files r | Some fs \<Rightarrow> fs),
     a_workflow_path := keep_or (a_workflow_path r) (uf_workflow_path v),
     a_execution_context := keep_or (a_execution_context r) (uf_execution_context v),
     a_model_name := keep_or (a_model_name r) (uf_model_name v),
     a_prompt_version := keep_or (a_prompt_version r) (uf_prompt_version v),
     a_trust_level := (case uf_trust_level v of None \<Rightarrow> a_trust_level r | Some t \<Rightarrow> t),
     a_baseline_sha := keep_or (a_baseline_sha r) (uf_baseline_sha v)\<rparr>"

text \<open>
  The rows a token-guarded statement addresses: the run's row, and when a token is given only if
  the row still carries it (a NULL token is equal to nothing).
\<close>

definition fenced :: "int \<Rightarrow> pystr option \<Rightarrow> analysis_row \<Rightarrow> bool" where
  "fenced run_id attempt_token r \<longleftrightarrow> a_run_id r = run_id
     \<and> (attempt_token = None \<or> a_attempt_token r = attempt_token)"

definition store_update ::
  "int \<Rightarrow> int \<Rightarrow> AnalysisStatus \<Rightarrow> update_fields \<Rightarrow> pystr option \<Rightarrow> db \<Rightarrow> exn + db" where
  "store_update now run_id st v attempt_token d =
     (let (rows, rowcount) =
            sql_update (fenced run_id attempt_token) (apply_update now st v) (db_analyses d)
      in bindE (require_current_attempt rowcount run_id attempt_token)
           (\<lambda>_. Inr (d\<lparr>db_analyses := rows\<rparr>)))"

definition begin_row :: "int \<Rightarrow> pystr option \<Rightarrow> rat \<Rightarrow> analysis_row \<Rightarrow> analysis_row" where
  "begin_row started_at attempt_token queue_wait r = r\<lparr>
     a_status := RUNNING,
     a_error := None,
     a_attempt_token := attempt_token,
     a_analysis_started_at := (case a_analysis_started_at r of None \<Rightarrow> Some started_at | Some t \<Rightarrow> Some t),
     a_analysis_completed_at := None,
     a_duration_seconds := None,
     a_queue_wait_seconds := Some queue_wait,
     a_total_latency_seconds := None,
     a_updated_at := started_at\<rparr>"

definition supersede_event :: "stage_event_row \<Rightarrow> stage_event_row" where
  "supersede_event e = e\<lparr>e_status := STAGE_FAILED,
     e_error := Some (u ''Superseded by a newer analysis attempt'')\<rparr>"

definition started_wait :: "db \<Rightarrow> int \<Rightarrow> analysis_row \<Rightarrow> rat" where
  "started_wait d started_at timing = (case a_queue_wait_seconds timing of
       None \<Rightarrow> max 0 (total_seconds (started_at - read_utc d (a_created_at timing)))
     | Some w \<Rightarrow> w)"

definition begin_analysis :: "int \<Rightarrow> int \<Rightarrow> pystr option \<Rightarrow> db \<Rightarrow> exn + AnalysisStart \<times> db" where
  "begin_analysis now run_id attempt_token d =
     (case first_row (sql_select (\<lambda>r. a_run_id r = run_id) (db_analyses d)) of
        None \<Rightarrow> Inl (AnalysisAttemptSuperseded (missing_message run_id))
      | Some timing \<Rightarrow>
          (let started_at = now;
               first = (a_analysis_started_at timing = None);
               queue_wait = started_wait d started_at timing;
               (rows, rowcount) = sql_update
                 (\<lambda>r. a_run_id r = run_id \<and> (attempt_token = None \<or> a_status r \<in> {QUEUED, RUNNING}))
                 (begin_row started_at attempt_token queue_wait) (db_analyses d);
               events = (if attempt_token = None then db_stage_events d
                 else fst (sql_update (\<lambda>e. e_run_id e = run_id \<and> e_status e = STAGE_STARTED)
                        supersede_event (db_stage_events d)))
           in bindE (require_current_attempt rowcount run_id attempt_token)
                (\<lambda>_. Inr (\<lparr>attempt_started_at = started_at, queue_wait_seconds = queue_wait,
                        first_start = first\<rparr>,
                      d\<lparr>db_analyses := rows, db_stage_events := events\<rparr>))))"

definition finish_row ::
  "int \<Rightarrow> AnalysisStatus \<Rightarrow> int \<Rightarrow> rat \<Rightarrow> analysis_row \<Rightarrow> analysis_row" where
  "finish_row started_at st completed_at total_latency r = r\<lparr>
     a_status := st,
     a_attempt_token := None,
     a_analysis_completed_at := Some completed_at,
     a_duration_seconds := Some (total_seconds (completed_at - started_at)),
     a_total_latency_seconds := Some total_latency,
     a_updated_at := completed_at\<rparr>"

definition finish_analysis ::
  "int \<Rightarrow> int \<Rightarrow> int \<Rightarrow> AnalysisStatus \<Rightarrow> pystr option \<Rightarrow> db \<Rightarrow> exn + rat \<times> db" where
  "finish_analysis now run_id started_at st attempt_token d =
     (case first_row (sql_select (\<lambda>r. a_run_id r = run_id) (db_analyses d)) of
        None \<Rightarrow> Inl (AnalysisAttemptSuperseded (missing_message run_id))
      | Some row \<Rightarrow>
          (let completed_at = now;
               total_latency = max 0 (total_seconds (completed_at - read_utc d (a_created_at row)));
               (rows, rowcount) = sql_update (fenced run_id attempt_token)
                 (finish_row started_at st completed_at total_latency) (db_analyses d)
           in bindE (require_current_attempt rowcount run_id attempt_token)
                (\<lambda>_. Inr (total_latency, d\<lparr>db_analyses := rows\<rparr>))))"

definition record_stage ::
  "int \<Rightarrow> int \<Rightarrow> AnalysisStage \<Rightarrow> StageStatus \<Rightarrow> pystr option \<Rightarrow> pystr option \<Rightarrow> db \<Rightarrow> exn + db" where
  "record_stage now run_id stage st err attempt_token d =
     (if attempt_token \<noteq> None
         \<and> first_row (sql_select (fenced run_id attempt_token) (db_analyses d)) = None
      then Inl (AnalysisAttemptSuperseded (attempt_message run_id))
      else if fk_enforced (db_backend d) \<and> run_id \<notin> a_run_id ` set (db_analyses d)
      then Inl IntegrityError
      else Inr (d\<lparr>
        db_stage_events := db_stage_events d @ [\<lparr>e_id = db_next_event_id d, e_run_id = run_id,
          e_stage = stage, e_status = st, e_error = err, e_occurred_at = now\<rparr>],
        db_next_event_id := db_next_event_id d + 1\<rparr>))"

section \<open>Reading analyses\<close>

definition event_of_row :: "stage_event_row \<Rightarrow> AnalysisStageEvent" where
  "event_of_row e = \<lparr>se_stage = e_stage e, se_status = e_status e, se_error = e_error e,
     se_occurred_at = e_occurred_at e\<rparr>"

text \<open>\<open>_stage_history\<close> at one of the requested runs: its events in the order of their ids.\<close>

definition stage_history :: "db \<Rightarrow> int list \<Rightarrow> int \<Rightarrow> AnalysisStageEvent list" where
  "stage_history d run_ids run_id =
     (if run_id \<in> set run_ids
      then map event_of_row (sort_key e_id
             (sql_select (\<lambda>e. e_run_id e \<in> set run_ids \<and> e_run_id e = run_id) (db_stage_events d)))
      else [])"

text \<open>The outer join of a row with its feedback row.\<close>

definition joined_feedback :: "db \<Rightarrow> analysis_row \<Rightarrow> feedback_row option" where
  "joined_feedback d r = first_row (sql_select (\<lambda>f. f_run_id f = a_run_id r) (db_feedback d))"

definition feedback_record :: "feedback_row \<Rightarrow> FeedbackRecord" where
  "feedback_record f = \<lparr>fr_accuracy = f_accuracy f,
     fr_suggestion_resolved = f_suggestion_resolved f, fr_comment = f_comment f,
     fr_run_id = f_run_id f, fr_created_at = f_created_at f, fr_updated_at = f_updated_at f\<rparr>"

text \<open>
  The six resolution columns are written together (\<open>set_resolution\<close>), so a row with an outcome has
  the other five: \<open>wf_db\<close> below keeps this, and the last branch is never taken on such rows.
\<close>

definition resolution_of_row :: "db \<Rightarrow> analysis_row \<Rightarrow> ResolutionRecord option" where
  "resolution_of_row d r = (case a_resolution_outcome r of
       None \<Rightarrow> None
     | Some o' \<Rightarrow>
         (case (a_resolution_run_id r, a_resolution_run_attempt r, a_resolution_html_url r,
                a_resolution_completed_at r, a_recovery_seconds r) of
            (Some i, Some n, Some h, Some t, Some s) \<Rightarrow>
              Some \<lparr>rs_outcome = o', rs_followup_run_id = i, rs_followup_run_attempt = n,
                 rs_followup_html_url = h, rs_followup_completed_at = read_utc d t,
                 rs_recovery_seconds = s\<rparr>
          | _ \<Rightarrow> None))"

definition to_record :: "db \<Rightarrow> analysis_row \<Rightarrow> AnalysisStageEvent list \<Rightarrow> AnalysisRecord" where
  "to_record d r hist = \<lparr>
     ar_run_id = a_run_id r,
     ar_delivery_id = a_delivery_id r,
     ar_repository = a_repository r,
     ar_workflow_name = a_workflow_name r,
     ar_head_sha = a_head_sha r,
     ar_html_url = a_html_url r,
     ar_run_attempt = a_run_attempt r,
     ar_head_branch = a_head_branch r,
     ar_pull_request_number = a_pull_request_number r,
     ar_run_completed_at = map_option (read_utc d) (a_run_completed_at r),
     ar_installation_id = a_installation_id r,
     ar_trust_level = a_trust_level r,
     ar_baseline_sha = a_baseline_sha r,
     ar_status = a_status r,
     ar_classification = a_classification r,
     ar_diagnosis = a_diagnosis r,
     ar_related_files = a_related_files r,
     ar_workflow_path = a_workflow_path r,
     ar_execution_context = a_execution_context r,
     ar_model_name = a_model_name r,
     ar_prompt_version = a_prompt_version r,
     ar_feedback = (case joined_feedback d r of
         None \<Rightarrow> None
       | Some f \<Rightarrow> (if f_run_id f = 0 then None else Some (feedback_record f))),
     ar_resolution = resolution_of_row d r,
     ar_error = a_error r,
     ar_analysis_started_at = a_analysis_started_at r,
     ar_analysis_completed_at = a_analysis_completed_at r,
     ar_duration_seconds = a_duration_seconds r,
     ar_queue_wait_seconds = a_queue_wait_seconds r,
     ar_total_latency_seconds = a_total_latency_seconds r,
     ar_stage_history = hist,
     ar_created_at = a_created_at r,
     ar_updated_at = a_updated_at r\<rparr>"

definition installation_in :: "int set option \<Rightarrow> analysis_row \<Rightarrow> bool" where
  "installation_in ids r = (case ids of
       None \<Rightarrow> True
     | Some S \<Rightarrow> (case a_installation_id r of None \<Rightarrow> False | Some i \<Rightarrow> i \<in> S))"

definition store_get :: "int \<Rightarrow> int set option \<Rightarrow> db \<Rightarrow> AnalysisRecord option" where
  "store_get run_id ids d =
     (if ids = Some {} then None
      else case first_row (sql_select (\<lambda>r. a_run_id r = run_id \<and> installation_in ids r) (db_analyses d)) of
        None \<Rightarrow> None
      | Some r \<Rightarrow> Some (to_record d r (stage_history d [run_id] run_id)))"

record list_filter =
  lf_repository :: "pystr option"
  lf_status :: "AnalysisStatus option"
  lf_category :: "ErrorCategory option"

definition filter_matches :: "int set option \<Rightarrow> list_filter \<Rightarrow> analysis_row \<Rightarrow> bool" where
  "filter_matches ids lf r \<longleftrightarrow>
     installation_in ids r
     \<and> (case lf_repository lf of None \<Rightarrow> True | Some x \<Rightarrow> a_repository r = x)
     \<and> (case lf_status lf of None \<Rightarrow> True | Some x \<Rightarrow> a_status r = x)
     \<and> (case lf_category lf of None \<Rightarrow> True
        | Some x \<Rightarrow> (case a_classification r of None \<Rightarrow> False | Some c \<Rightarrow> cl_category c = x))"

definition after_cursor :: "AnalysisCursor option \<Rightarrow> analysis_row \<Rightarrow> bool" where
  "after_cursor c r = (case c of
       None \<Rightarrow> True
     | Some k \<Rightarrow> a_created_at r < cursor_created_at k
         \<or> (a_created_at r = cursor_created_at k \<and> a_run_id r < cursor_run_id k))"

definition page_key :: "analysis_row \<Rightarrow> int \<times> int" where
  "page_key r = (a_created_at r, a_run_id r)"

definition list_page ::
  "nat \<Rightarrow> int set option \<Rightarrow> list_filter \<Rightarrow> AnalysisCursor option \<Rightarrow> db \<Rightarrow> AnalysisPage" where
  "list_page limit ids lf cursor d =
     (if ids = Some {} then \<lparr>page_records = [], next_cursor = None\<rparr>
      else
        (let rows = take (limit + 1) (order_desc page_key
               (sql_select (\<lambda>r. filter_matches ids lf r \<and> after_cursor cursor r) (db_analyses d)));
             page_rows = take limit rows;
             stages = stage_history d (map a_run_id page_rows)
         in \<lparr>page_records = map (\<lambda>r. to_record d r (stages (a_run_id r))) page_rows,
             next_cursor =
               (if length rows > limit \<and> page_rows \<noteq> []
                then Some \<lparr>cursor_created_at = read_utc d (a_created_at (last page_rows)),
                       cursor_run_id = a_run_id (last page_rows)\<rparr>
                else None)\<rparr>))"

definition store_list :: "nat \<Rightarrow> int set option \<Rightarrow> list_filter \<Rightarrow> db \<Rightarrow> AnalysisRecord list" where
  "store_list limit ids lf d = page_records (list_page limit ids lf None d)"

definition request_of_row :: "analysis_row \<Rightarrow> AnalysisRequest list" where
  "request_of_row r = (case a_installation_id r of
       None \<Rightarrow> []
     | Some i \<Rightarrow> [\<lparr>rq_run_id = a_run_id r, rq_repository = a_repository r,
          rq_installation_id = i, rq_head_sha = a_head_sha r\<rparr>])"

definition queued_requests :: "db \<Rightarrow> AnalysisRequest list" where
  "queued_requests d = concat (map request_of_row
     (sort_key a_created_at
        (sql_select (\<lambda>r. a_status r = QUEUED \<and> a_installation_id r \<noteq> None) (db_analyses d))))"


section \<open>Feedback and deletion\<close>

definition put_feedback :: "int \<Rightarrow> FeedbackRequest \<Rightarrow> feedback_row \<Rightarrow> feedback_row" where
  "put_feedback now q f = f\<lparr>f_accuracy := fq_accuracy q,
     f_suggestion_resolved := fq_suggestion_resolved q, f_comment := fq_comment q,
     f_updated_at := now\<rparr>"

definition new_feedback :: "int \<Rightarrow> int \<Rightarrow> FeedbackRequest \<Rightarrow> feedback_row" where
  "new_feedback now run_id q = \<lparr>f_run_id = run_id, f_accuracy = fq_accuracy q,
     f_suggestion_resolved = fq_suggestion_resolved q, f_comment = fq_comment q,
     f_created_at = now, f_updated_at = now\<rparr>"

definition save_feedback ::
  "int \<Rightarrow> int \<Rightarrow> FeedbackRequest \<Rightarrow> int set option \<Rightarrow> db \<Rightarrow> FeedbackRecord option \<times> db" where
  "save_feedback now run_id q ids d =
     (if ids = Some {} then (None, d)
      else if first_row (sql_select (\<lambda>r. a_run_id r = run_id \<and> installation_in ids r) (db_analyses d)) = None
      then (None, d)
      else
        (let rows = (if first_row (sql_select (\<lambda>f. f_run_id f = run_id) (db_feedback d)) \<noteq> None
               then fst (sql_update (\<lambda>f. f_run_id f = run_id) (put_feedback now q) (db_feedback d))
               else db_feedback d @ [new_feedback now run_id q])
         in (map_option feedback_record (first_row (sql_select (\<lambda>f. f_run_id f = run_id) rows)),
             d\<lparr>db_feedback := rows\<rparr>)))"

definition store_delete :: "int \<Rightarrow> db \<Rightarrow> db" where
  "store_delete run_id d =
     (let d' = d\<lparr>db_analyses := sql_delete (\<lambda>r. a_run_id r = run_id) (db_analyses d)\<rparr>
      in if fk_enforced (db_backend d)
         then d'\<lparr>db_stage_events := sql_delete (\<lambda>e. e_run_id e = run_id) (db_stage_events d),
                db_feedback := sql_delete (\<lambda>f. f_run_id f = run_id) (db_feedback d)\<rparr>
         else d')"

section \<open>Users, installations and sessions\<close>

definition upsert_github_user :: "int \<Rightarrow> GitHubUser \<Rightarrow> db \<Rightarrow> db" where
  "upsert_github_user now usr d =
     (if first_row (sql_select (\<lambda>g. g_github_user_id g = gu_github_user_id usr) (db_github_users d)) \<noteq> None
      then d\<lparr>db_github_users := fst (sql_update
              (\<lambda>g. g_github_user_id g = gu_github_user_id usr)
              (\<lambda>g. g\<lparr>g_login := gu_login usr, g_avatar_url := gu_avatar_url usr, g_updated_at := now\<rparr>)
              (db_github_users d))\<rparr>
      else d\<lparr>db_github_users := db_github_users d @
              [\<lparr>g_github_user_id = gu_github_user_id usr, g_login = gu_login usr,
                g_avatar_url = gu_avatar_url usr, g_created_at = now, g_updated_at = now\<rparr>]\<rparr>)"

definition known_user :: "int \<Rightarrow> db \<Rightarrow> bool" where
  "known_user uid d \<longleftrightarrow> uid \<in> g_github_user_id ` set (db_github_users d)"

definition installation_row :: "int \<Rightarrow> int \<Rightarrow> GitHubInstallation \<Rightarrow> user_installation_row" where
  "installation_row now uid i = \<lparr>i_github_user_id = uid, i_installation_id = gi_installation_id i,
     i_account_login = gi_account_login i, i_account_type = gi_account_type i,
     i_repository_selection = gi_repository_selection i, i_updated_at = now\<rparr>"

definition replace_user_installations :: "int \<Rightarrow> int \<Rightarrow> GitHubInstallation list \<Rightarrow> db \<Rightarrow> exn + db" where
  "replace_user_installations now uid ins d =
     (let kept = sql_delete (\<lambda>r. i_github_user_id r = uid) (db_user_installations d)
      in if ins \<noteq> [] \<and> (\<not> distinct (map gi_installation_id ins)
             \<or> (fk_enforced (db_backend d) \<and> \<not> known_user uid d))
         then Inl IntegrityError
         else Inr (d\<lparr>db_user_installations := kept @ map (installation_row now uid) ins\<rparr>))"

definition create_auth_session ::
  "int \<Rightarrow> pystr \<Rightarrow> int \<Rightarrow> pystr \<Rightarrow> int \<Rightarrow> db \<Rightarrow> exn + db" where
  "create_auth_session now h uid token expires_at d =
     (if h \<in> s_session_hash ` set (db_auth_sessions d)
         \<or> (fk_enforced (db_backend d) \<and> \<not> known_user uid d)
      then Inl IntegrityError
      else Inr (d\<lparr>db_auth_sessions := db_auth_sessions d @
             [\<lparr>s_session_hash = h, s_github_user_id = uid, s_encrypted_access_token = token,
               s_expires_at = expires_at, s_created_at = now\<rparr>]\<rparr>))"

definition get_auth_session :: "pystr \<Rightarrow> db \<Rightarrow> AuthSessionRow option" where
  "get_auth_session h d =
     (case first_row (sql_select (\<lambda>s. s_session_hash s = h \<and> known_user (s_github_user_id s) d)
              (db_auth_sessions d)) of
        None \<Rightarrow> None
      | Some s \<Rightarrow>
          map_option (\<lambda>g. \<lparr>as_github_user_id = s_github_user_id s,
               as_encrypted_access_token = s_encrypted_access_token s,
               as_expires_at = read_column (db_backend d) (s_expires_at s),
               as_login = g_login g, as_avatar_url = g_avatar_url g\<rparr>)
            (first_row (sql_select (\<lambda>g. g_github_user_id g = s_github_user_id s) (db_github_users d))))"

definition delete_auth_session :: "pystr \<Rightarrow> db \<Rightarrow> db" where
  "delete_auth_session h d =
     d\<lparr>db_auth_sessions := sql_delete (\<lambda>s. s_session_hash s = h) (db_auth_sessions d)\<rparr>"

definition update_auth_session_token :: "pystr \<Rightarrow> pystr \<Rightarrow> db \<Rightarrow> db" where
  "update_auth_session_token h token d =
     d\<lparr>db_auth_sessions := fst (sql_update (\<lambda>s. s_session_hash s = h)
         (\<lambda>s. s\<lparr>s_encrypted_access_token := token\<rparr>) (db_auth_sessions d))\<rparr>"

definition installation_of_row :: "user_installation_row \<Rightarrow> GitHubInstallation" where
  "installation_of_row r = \<lparr>gi_installation_id = i_installation_id r,
     gi_account_login = i_account_login r, gi_account_type = i_account_type r,
     gi_repository_selection = i_repository_selection r\<rparr>"

definition installations_for_user :: "int \<Rightarrow> db \<Rightarrow> GitHubInstallation list" where
  "installations_for_user uid d = map installation_of_row (sort_key i_account_login
     (sql_select (\<lambda>r. i_github_user_id r = uid) (db_user_installations d)))"

end
