(* ===== verification/PyText.thy ===== *)
theory PyText
  imports Store
begin

text \<open>
  The methods of Python's \<open>str\<close> and the other pieces of the standard library that the text
  components use. Case mappings and character categories come from the interpreter's Unicode
  tables, which are the record \<open>unicode\<close>, an argument of what uses them; white space and line
  boundaries are fixed by the language reference and written out.
\<close>

section \<open>Unicode tables\<close>

record unicode =
  uc_lower :: "pystr \<Rightarrow> pystr"
  uc_upper :: "pystr \<Rightarrow> pystr"
  uc_casefold :: "pystr \<Rightarrow> pystr"
  uc_word :: "nat \<Rightarrow> bool"
  uc_digit :: "nat \<Rightarrow> bool"
  uc_digit_value :: "nat \<Rightarrow> nat"
  uc_fold :: "nat \<Rightarrow> nat"

text \<open>The tables restricted to ASCII, which concrete examples run on.\<close>

definition ascii_lower :: "nat \<Rightarrow> nat" where
  "ascii_lower c = (if 65 \<le> c \<and> c \<le> 90 then c + 32 else c)"

definition ascii_upper :: "nat \<Rightarrow> nat" where
  "ascii_upper c = (if 97 \<le> c \<and> c \<le> 122 then c - 32 else c)"

definition ascii_digit :: "nat \<Rightarrow> bool" where
  "ascii_digit c \<longleftrightarrow> 48 \<le> c \<and> c \<le> 57"

definition ascii_word :: "nat \<Rightarrow> bool" where
  "ascii_word c \<longleftrightarrow> ascii_digit c \<or> (65 \<le> c \<and> c \<le> 90) \<or> (97 \<le> c \<and> c \<le> 122) \<or> c = 95"

definition ascii :: unicode where
  "ascii = \<lparr>uc_lower = map ascii_lower, uc_upper = map ascii_upper, uc_casefold = map ascii_lower,
     uc_word = ascii_word, uc_digit = ascii_digit, uc_digit_value = (\<lambda>c. c - 48),
     uc_fold = ascii_lower\<rparr>"

section \<open>White space and lines\<close>

definition is_space :: "nat \<Rightarrow> bool" where
  "is_space c \<longleftrightarrow> (9 \<le> c \<and> c \<le> 13) \<or> (28 \<le> c \<and> c \<le> 32) \<or> c = 133 \<or> c = 160 \<or> c = 5760
     \<or> (8192 \<le> c \<and> c \<le> 8202) \<or> c = 8232 \<or> c = 8233 \<or> c = 8239 \<or> c = 8287 \<or> c = 12288"

definition is_line_end :: "nat \<Rightarrow> bool" where
  "is_line_end c \<longleftrightarrow> (10 \<le> c \<and> c \<le> 13) \<or> (28 \<le> c \<and> c \<le> 30) \<or> c = 133 \<or> c = 8232 \<or> c = 8233"

definition lstrip_if :: "(nat \<Rightarrow> bool) \<Rightarrow> pystr \<Rightarrow> pystr" where
  "lstrip_if p s = dropWhile p s"

definition rstrip_if :: "(nat \<Rightarrow> bool) \<Rightarrow> pystr \<Rightarrow> pystr" where
  "rstrip_if p s = rev (dropWhile p (rev s))"

definition strip :: "pystr \<Rightarrow> pystr" where
  "strip s = rstrip_if is_space (lstrip_if is_space s)"

definition rstrip :: "pystr \<Rightarrow> pystr" where
  "rstrip s = rstrip_if is_space s"

text \<open>
  \<open>split_line\<close> takes the first line with its terminator, a carriage return followed by a line feed
  counting as one; \<open>splitlines_keep\<close> is \<open>splitlines(keepends=True)\<close> and \<open>splitlines\<close> drops the ends.
\<close>

fun split_line :: "pystr \<Rightarrow> pystr \<times> pystr \<times> pystr" where
  "split_line [] = ([], [], [])"
| "split_line (c # cs) =
     (if c = 13 \<and> cs \<noteq> [] \<and> hd cs = 10 then ([], [13, 10], tl cs)
      else if is_line_end c then ([], [c], cs)
      else (let (l, e, r) = split_line cs in (c # l, e, r)))"

lemma split_line_append: "split_line s = (l, e, r) \<Longrightarrow> l @ e @ r = s"
  by (induction s arbitrary: l e r rule: split_line.induct)
    (auto simp: Let_def neq_Nil_conv split: if_splits prod.splits)

lemma split_line_progress: "s \<noteq> [] \<Longrightarrow> split_line s = (l, e, r) \<Longrightarrow> length r < length s"
proof (induction s arbitrary: l e r rule: split_line.induct)
  case (2 c cs)
  then show ?case by (cases cs) (auto simp: Let_def split: if_splits prod.splits)
qed simp

function split_ends :: "pystr \<Rightarrow> (pystr \<times> pystr) list" where
  "split_ends s = (if s = [] then []
     else (case split_line s of (l, e, r) \<Rightarrow> (l, e) # split_ends r))"
  by pat_completeness auto
termination
  by (relation "measure length") (auto dest: split_line_progress sym)

declare split_ends.simps [simp del]

definition splitlines :: "pystr \<Rightarrow> pystr list" where
  "splitlines s = map fst (split_ends s)"

definition splitlines_keep :: "pystr \<Rightarrow> pystr list" where
  "splitlines_keep s = map (\<lambda>(l, e). l @ e) (split_ends s)"

lemma concat_splitlines_keep [simp]: "concat (splitlines_keep s) = s"
proof (induction s rule: split_ends.induct)
  case (1 s)
  show ?case
  proof (cases "s = []")
    case False
    obtain l e r where sp: "split_line s = (l, e, r)" by (metis prod_cases3)
    with 1[OF False sp[symmetric] refl] False split_line_append[OF sp] show ?thesis
      by (simp add: splitlines_keep_def split_ends.simps[of s])
  qed (simp add: splitlines_keep_def split_ends.simps)
qed

lemma splitlines_keep_nonempty: "[] \<notin> set (splitlines_keep s)"
proof (induction s rule: split_ends.induct)
  case (1 s)
  show ?case
  proof (cases "s = []")
    case False
    obtain l e r where sp: "split_line s = (l, e, r)" by (metis prod_cases3)
    have "l @ e \<noteq> []"
      using split_line_append[OF sp] split_line_progress[OF False sp] by (metis append_Nil append_assoc less_irrefl)
    with 1[OF False sp[symmetric] refl] False sp show ?thesis
      by (auto simp: splitlines_keep_def split_ends.simps[of s])
  qed (simp add: splitlines_keep_def split_ends.simps)
qed

lemma split_line_no_end: "split_line s = (l, e, r) \<Longrightarrow> \<forall>c \<in> set l. \<not> is_line_end c"
  by (induction s arbitrary: l e r rule: split_line.induct)
    (auto simp: Let_def split: if_splits prod.splits)

lemma splitlines_no_end: "l \<in> set (splitlines s) \<Longrightarrow> c \<in> set l \<Longrightarrow> \<not> is_line_end c"
proof (induction s arbitrary: l rule: split_ends.induct)
  case (1 s)
  show ?case
  proof (cases "s = []")
    case False
    obtain l' e r where sp: "split_line s = (l', e, r)" by (metis prod_cases3)
    with 1(2,3) False have "l = l' \<or> l \<in> set (splitlines r)"
      by (auto simp: splitlines_def split_ends.simps[of s])
    with 1(1)[OF False sp[symmetric] refl] 1(3) split_line_no_end[OF sp] show ?thesis by blast
  qed (use 1(2) in \<open>simp add: splitlines_def split_ends.simps\<close>)
qed

section \<open>Searching, splitting and joining\<close>

fun join :: "pystr \<Rightarrow> pystr list \<Rightarrow> pystr" where
  "join sep [] = []"
| "join sep [x] = x"
| "join sep (x # y # xs) = x @ sep @ join sep (y # xs)"

abbreviation nl :: pystr where
  "nl \<equiv> [10]"

text \<open>\<open>find_sub p s\<close> splits \<open>s\<close> at the first occurrence of \<open>p\<close>.\<close>

fun find_sub :: "pystr \<Rightarrow> pystr \<Rightarrow> (pystr \<times> pystr) option" where
  "find_sub p [] = (if p = [] then Some ([], []) else None)"
| "find_sub p (c # cs) = (if prefix p (c # cs) then Some ([], drop (length p) (c # cs))
     else map_option (\<lambda>(a, b). (c # a, b)) (find_sub p cs))"

lemma find_sub_append: "find_sub p s = Some (a, b) \<Longrightarrow> s = a @ p @ b"
  by (induction p s arbitrary: a b rule: find_sub.induct)
    (auto simp: prefix_def split: if_splits)

lemma find_sub_length: "find_sub p s = Some (a, b) \<Longrightarrow> p \<noteq> [] \<Longrightarrow> length b < length s"
  by (drule find_sub_append) auto

text \<open>\<open>str.split(sep)\<close> and \<open>str.replace(old, new)\<close> for a non-empty separator.\<close>

function split_on :: "pystr \<Rightarrow> pystr \<Rightarrow> pystr list" where
  "split_on sep s = (if sep = [] then [s] else (case find_sub sep s of
       None \<Rightarrow> [s] | Some (a, b) \<Rightarrow> a # split_on sep b))"
  by pat_completeness auto
termination
  by (relation "measure (length \<circ> snd)") (auto simp: find_sub_length)

declare split_on.simps [simp del]

definition replace :: "pystr \<Rightarrow> pystr \<Rightarrow> pystr \<Rightarrow> pystr" where
  "replace old new s = join new (split_on old s)"

text \<open>For a one-character pattern, replacing is mapping every character.\<close>

lemma split_on_single:
  "split_on [c] s = (case s of [] \<Rightarrow> [[]]
     | x # xs \<Rightarrow> (if x = c then [] # split_on [c] xs
         else (case split_on [c] xs of [] \<Rightarrow> [] | y # ys \<Rightarrow> (x # y) # ys)))"
proof (cases s)
  case (Cons x xs)
  then show ?thesis
    by (subst split_on.simps) (auto simp: split_on.simps[of "[c]" xs] split: option.splits)
qed (simp add: split_on.simps)

lemma split_on_single_nonempty: "split_on [c] s \<noteq> []"
  by (subst split_on.simps) (auto split: option.splits)

lemma join_Cons_nonempty: "xs \<noteq> [] \<Longrightarrow> join sep (x # xs) = x @ sep @ join sep xs"
  by (cases xs) auto

lemma join_hd_Cons: "join sep ((x # y) # ys) = x # join sep (y # ys)"
  by (cases ys) auto

lemma replace_single: "replace [c] new s = concat (map (\<lambda>x. if x = c then new else [x]) s)"
proof (induction s)
  case Nil
  show ?case by (simp add: replace_def split_on_single)
next
  case (Cons x xs)
  show ?case
  proof (cases "x = c")
    case True
    with Cons show ?thesis
      by (subst replace_def, subst split_on_single)
        (simp add: replace_def join_Cons_nonempty split_on_single_nonempty)
  next
    case False
    obtain y ys where "split_on [c] xs = y # ys" using split_on_single_nonempty[of c xs] by (cases "split_on [c] xs") auto
    with False Cons show ?thesis
      by (subst replace_def, subst split_on_single) (simp add: replace_def join_hd_Cons)
  qed
qed

definition startswith :: "pystr \<Rightarrow> pystr \<Rightarrow> bool" where
  "startswith s p \<longleftrightarrow> prefix p s"

definition removeprefix :: "pystr \<Rightarrow> pystr \<Rightarrow> pystr" where
  "removeprefix s p = (if prefix p s then drop (length p) s else s)"

text \<open>The slice \<open>s[a:b]\<close> for natural bounds.\<close>

definition slice :: "nat \<Rightarrow> nat \<Rightarrow> 'a list \<Rightarrow> 'a list" where
  "slice a b xs = drop a (take b xs)"

lemma is_infix_iff: "is_infix p s \<longleftrightarrow> (\<exists>a b. s = a @ p @ b)"
proof (induction p s rule: is_infix.induct)
  case (2 p c cs)
  have "(\<exists>a b. c # cs = a @ p @ b) \<longleftrightarrow> (\<exists>b. c # cs = p @ b) \<or> (\<exists>a b. cs = a @ p @ b)"
    by (rule iffI, metis append_Nil append_eq_Cons_conv, metis append_Cons append_Nil)
  with 2 show ?case by (simp add: prefix_def)
qed simp

text \<open>A dictionary whose insertion order is kept: later writes keep the place of the key.\<close>

fun dict_put :: "'k \<Rightarrow> 'v \<Rightarrow> ('k \<times> 'v) list \<Rightarrow> ('k \<times> 'v) list" where
  "dict_put k v [] = [(k, v)]"
| "dict_put k v ((k', v') # d) = (if k = k' then (k, v) # d else (k', v') # dict_put k v d)"

lemma map_of_dict_put [simp]: "map_of (dict_put k v d) = (map_of d)(k \<mapsto> v)"
  by (induction k v d rule: dict_put.induct) auto

lemma dict_put_keys: "fst ` set (dict_put k v d) = insert k (fst ` set d)"
  by (induction k v d rule: dict_put.induct) auto

definition dict_get :: "'v \<Rightarrow> 'k \<Rightarrow> ('k \<times> 'v) list \<Rightarrow> 'v" where
  "dict_get dflt k d = (case map_of d k of None \<Rightarrow> dflt | Some v \<Rightarrow> v)"

text \<open>\<open>counts[k] = counts.get(k, 0) + n\<close>.\<close>

definition dict_add :: "'k \<Rightarrow> nat \<Rightarrow> ('k \<times> nat) list \<Rightarrow> ('k \<times> nat) list" where
  "dict_add k n d = dict_put k (dict_get 0 k d + n) d"

end
