(* ===== verification/PyRegex.thy ===== *)
theory PyRegex
  imports PyText "HOL-Library.Code_Target_Nat"
begin

text \<open>
  The regular expressions of Python's \<open>re\<close> module as far as the program's patterns use them. A
  pattern is a syntax tree; matching follows the backtracking order of the engine: \<open>rx_match\<close>
  returns every way to match at a position, in the order in which the engine would try them, so
  its head is the match the engine reports. A position is the text before it, reversed, and the
  text after it; groups are kept as an association list, the newest first.

  Case-insensitive literals and ranges compare characters by \<open>uc_fold\<close>. A repetition stops after
  an iteration that consumed nothing, as in the engine.
\<close>

section \<open>Syntax\<close>

datatype rx_item = ILit nat | IRange nat nat | IWord | IDigit | ISpace | INotSpace

datatype rx =
    Eps
  | Lit nat
  | AnyChar
  | Cls bool "rx_item list"
  | Seq rx rx
  | Alt rx rx
  | Rep bool nat "nat option" rx
  | Grp nat rx
  | Bol
  | Eol
  | WordB
  | Ahead bool rx
  | NotBehind "rx_item list"

text \<open>A literal string, a sequence and an alternative of several patterns.\<close>

fun seqs :: "rx list \<Rightarrow> rx" where
  "seqs [] = Eps"
| "seqs [r] = r"
| "seqs (r # r' # rs) = Seq r (seqs (r' # rs))"

fun alts :: "rx list \<Rightarrow> rx" where
  "alts [] = Eps"
| "alts [r] = r"
| "alts (r # r' # rs) = Alt r (alts (r' # rs))"

definition lits :: "pystr \<Rightarrow> rx" where
  "lits s = seqs (map Lit s)"

record pos =
  p_before :: pystr
  p_after :: pystr
  p_groups :: "(nat \<times> pystr) list"

record pattern =
  pt_rx :: rx
  pt_icase :: bool

section \<open>Matching\<close>

definition same_char :: "unicode \<Rightarrow> bool \<Rightarrow> nat \<Rightarrow> nat \<Rightarrow> bool" where
  "same_char U ic a b = (if ic then uc_fold U a = uc_fold U b else a = b)"

fun item_match :: "unicode \<Rightarrow> bool \<Rightarrow> rx_item \<Rightarrow> nat \<Rightarrow> bool" where
  "item_match U ic (ILit a) c = same_char U ic a c"
| "item_match U ic (IRange a b) c = (if ic then \<exists>x \<in> set [a..<Suc b]. uc_fold U x = uc_fold U c
     else a \<le> c \<and> c \<le> b)"
| "item_match U ic IWord c = uc_word U c"
| "item_match U ic IDigit c = uc_digit U c"
| "item_match U ic ISpace c = is_space c"
| "item_match U ic INotSpace c = (\<not> is_space c)"

definition cls_match :: "unicode \<Rightarrow> bool \<Rightarrow> bool \<Rightarrow> rx_item list \<Rightarrow> nat \<Rightarrow> bool" where
  "cls_match U ic neg items c = ((\<exists>i \<in> set items. item_match U ic i c) \<noteq> neg)"

definition advance :: "pos \<Rightarrow> pos" where
  "advance p = p\<lparr>p_before := hd (p_after p) # p_before p, p_after := tl (p_after p)\<rparr>"

definition one_char :: "(nat \<Rightarrow> bool) \<Rightarrow> pos \<Rightarrow> pos list" where
  "one_char q p = (case p_after p of [] \<Rightarrow> [] | c # _ \<Rightarrow> if q c then [advance p] else [])"

definition word_at :: "unicode \<Rightarrow> pystr \<Rightarrow> bool" where
  "word_at U s = (case s of [] \<Rightarrow> False | c # _ \<Rightarrow> uc_word U c)"

text \<open>
  A repetition of at least \<open>lo\<close> and at most \<open>hi\<close> rounds; \<open>n\<close> bounds the rounds that can still
  consume something, and is the length of the remaining text and the rounds that are required.
\<close>

fun repeat :: "nat \<Rightarrow> bool \<Rightarrow> nat \<Rightarrow> nat option \<Rightarrow> (pos \<Rightarrow> pos list) \<Rightarrow> pos \<Rightarrow> pos list" where
  "repeat 0 greedy lo hi m p = (if lo = 0 then [p] else [])"
| "repeat (Suc n) greedy lo hi m p =
     (let more = (if hi = Some 0 then []
            else concat (map (\<lambda>p'. if lo = 0 \<and> length (p_after p') = length (p_after p) then []
                   else repeat n greedy (lo - 1) (map_option (\<lambda>k. k - 1) hi) m p') (m p)));
          stop = (if lo = 0 then [p] else [])
      in if greedy then more @ stop else stop @ more)"

fun rx_match :: "unicode \<Rightarrow> bool \<Rightarrow> rx \<Rightarrow> pos \<Rightarrow> pos list" where
  "rx_match U ic Eps p = [p]"
| "rx_match U ic (Lit a) p = one_char (same_char U ic a) p"
| "rx_match U ic AnyChar p = one_char (\<lambda>c. c \<noteq> 10) p"
| "rx_match U ic (Cls neg items) p = one_char (cls_match U ic neg items) p"
| "rx_match U ic (Seq a b) p = concat (map (rx_match U ic b) (rx_match U ic a p))"
| "rx_match U ic (Alt a b) p = rx_match U ic a p @ rx_match U ic b p"
| "rx_match U ic (Rep greedy lo hi a) p =
     repeat (length (p_after p) + lo + 1) greedy lo hi (rx_match U ic a) p"
| "rx_match U ic (Grp k a) p = map (\<lambda>p'. p'\<lparr>p_groups :=
       (k, take (length (p_after p) - length (p_after p')) (p_after p)) # p_groups p'\<rparr>) (rx_match U ic a p)"
| "rx_match U ic Bol p = (if p_before p = [] then [p] else [])"
| "rx_match U ic Eol p = (if p_after p = [] \<or> p_after p = [10] then [p] else [])"
| "rx_match U ic WordB p = (if word_at U (p_before p) \<noteq> word_at U (p_after p) then [p] else [])"
| "rx_match U ic (Ahead neg a) p = (if (rx_match U ic a p = []) = neg then [p] else [])"
| "rx_match U ic (NotBehind items) p = (case p_before p of [] \<Rightarrow> [p]
     | c # _ \<Rightarrow> if cls_match U ic False items c then [] else [p])"

text \<open>What every match does: it consumes a prefix of the text ahead.\<close>

definition moves :: "pos \<Rightarrow> pos \<Rightarrow> bool" where
  "moves p p' \<longleftrightarrow> (\<exists>x. p_after p = x @ p_after p' \<and> p_before p' = rev x @ p_before p)"

lemma moves_refl [simp]: "moves p p"
  by (simp add: moves_def)

lemma moves_groups [simp]: "moves p (p'\<lparr>p_groups := g\<rparr>) = moves p p'"
  by (simp add: moves_def)

lemma moves_trans: "moves p q \<Longrightarrow> moves q r \<Longrightarrow> moves p r"
  by (auto simp: moves_def)

lemma moves_length: "moves p q \<Longrightarrow> length (p_after q) \<le> length (p_after p)"
  by (auto simp: moves_def)

lemma one_char_moves: "p' \<in> set (one_char q p) \<Longrightarrow> moves p p'"
  by (cases "p_after p") (auto simp: one_char_def advance_def moves_def split: if_splits)

lemma repeat_moves:
  assumes "\<And>p p'. p' \<in> set (m p) \<Longrightarrow> moves p p'"
  shows "p' \<in> set (repeat n greedy lo hi m p) \<Longrightarrow> moves p p'"
proof (induction n arbitrary: lo hi p)
  case (Suc n)
  then consider "p' = p" | q where "q \<in> set (m p)" "p' \<in> set (repeat n greedy (lo - 1) (map_option (\<lambda>k. k - 1) hi) m q)"
    by (auto simp: Let_def split: if_splits)
  then show ?case
    by cases (auto intro: moves_trans[OF assms Suc.IH])
qed (auto split: if_splits)

lemma rx_match_moves: "p' \<in> set (rx_match U ic r p) \<Longrightarrow> moves p p'"
proof (induction U ic r p arbitrary: p' rule: rx_match.induct)
  case (7 U ic greedy lo hi a p)
  then show ?case using repeat_moves[of "rx_match U ic a"] by (metis rx_match.simps(7))
qed (auto intro: one_char_moves moves_trans split: if_splits list.splits)

section \<open>Searching and substituting\<close>

record rmatch =
  m_skipped :: pystr
  m_text :: pystr
  m_pos :: pos

definition start_pos :: "pystr \<Rightarrow> pos" where
  "start_pos s = \<lparr>p_before = [], p_after = s, p_groups = []\<rparr>"

definition consumed :: "pos \<Rightarrow> pos \<Rightarrow> pystr" where
  "consumed p p' = take (length (p_after p) - length (p_after p')) (p_after p)"

text \<open>
  \<open>match_here\<close> is a match at a position; with \<open>adv\<close> an empty one is refused (the engine's rule right
  after an empty match). \<open>search_from\<close> tries the positions from left to right.
\<close>

definition match_here :: "unicode \<Rightarrow> pattern \<Rightarrow> bool \<Rightarrow> pos \<Rightarrow> pos option" where
  "match_here U pt adv p = first_row (filter (\<lambda>p'. \<not> (adv \<and> consumed p p' = []))
     (rx_match U (pt_icase pt) (pt_rx pt) (p\<lparr>p_groups := []\<rparr>)))"

function search_from :: "unicode \<Rightarrow> pattern \<Rightarrow> bool \<Rightarrow> pos \<Rightarrow> rmatch option" where
  "search_from U pt adv p = (case match_here U pt adv p of
       Some p' \<Rightarrow> Some \<lparr>m_skipped = [], m_text = consumed p p', m_pos = p'\<rparr>
     | None \<Rightarrow> (if p_after p = [] then None
         else map_option (\<lambda>m. m\<lparr>m_skipped := hd (p_after p) # m_skipped m\<rparr>)
                (search_from U pt False (advance p))))"
  by pat_completeness auto
termination
  by (relation "measure (\<lambda>(_, _, _, p). length (p_after p))") (auto simp: advance_def)

declare search_from.simps [simp del]

definition rx_search :: "unicode \<Rightarrow> pattern \<Rightarrow> pystr \<Rightarrow> rmatch option" where
  "rx_search U pt s = search_from U pt False (start_pos s)"

definition rx_found :: "unicode \<Rightarrow> pattern \<Rightarrow> pystr \<Rightarrow> bool" where
  "rx_found U pt s \<longleftrightarrow> rx_search U pt s \<noteq> None"

text \<open>\<open>pattern.match\<close>: at the beginning only.\<close>

definition rx_prefix :: "unicode \<Rightarrow> pattern \<Rightarrow> pystr \<Rightarrow> pos option" where
  "rx_prefix U pt s = match_here U pt False (start_pos s)"

definition group_text :: "nat \<Rightarrow> pos \<Rightarrow> pystr option" where
  "group_text k p = map_of (p_groups p) k"

lemma match_here_moves:
  assumes "match_here U pt adv p = Some p'"
  shows "moves p p'" and "adv \<Longrightarrow> consumed p p' \<noteq> []"
proof -
  have f: "p' \<in> set (filter (\<lambda>p'. \<not> (adv \<and> consumed p p' = []))
      (rx_match U (pt_icase pt) (pt_rx pt) (p\<lparr>p_groups := []\<rparr>)))"
    using assms unfolding match_here_def by (rule first_row_in)
  then have "moves (p\<lparr>p_groups := []\<rparr>) p'" by (auto intro: rx_match_moves)
  then show "moves p p'" by (simp add: moves_def)
  from f show "adv \<Longrightarrow> consumed p p' \<noteq> []" by simp
qed

lemma consumed_append: "moves p p' \<Longrightarrow> consumed p p' @ p_after p' = p_after p"
  by (auto simp: moves_def consumed_def)

lemma search_from_append:
  "search_from U pt adv p = Some m \<Longrightarrow> m_skipped m @ m_text m @ p_after (m_pos m) = p_after p"
proof (induction U pt adv p arbitrary: m rule: search_from.induct)
  case (1 U pt adv p)
  show ?case
  proof (cases "match_here U pt adv p")
    case None
    with 1 show ?thesis
      by (subst (asm) (2) search_from.simps) (auto simp: advance_def split: if_splits)
  next
    case (Some p')
    with 1(2) consumed_append[OF match_here_moves(1)[OF Some]] show ?thesis
      by (subst (asm) search_from.simps) auto
  qed
qed

lemma search_from_progress:
  "search_from U pt adv p = Some m \<Longrightarrow> adv \<or> m_skipped m @ m_text m \<noteq> [] \<Longrightarrow> length (p_after (m_pos m)) < length (p_after p)"
proof -
  assume s: "search_from U pt adv p = Some m" and n: "adv \<or> m_skipped m @ m_text m \<noteq> []"
  have "adv \<Longrightarrow> m_skipped m @ m_text m \<noteq> []"
    using s match_here_moves(2)[of U pt adv p]
    by (subst (asm) search_from.simps) (auto split: option.splits if_splits)
  with n have "m_skipped m @ m_text m \<noteq> []" by blast
  then show ?thesis using search_from_append[OF s] by (metis append.assoc append_self_conv2 length_append length_greater_0_conv less_add_same_cancel2)
qed

text \<open>All matches from left to right, as \<open>finditer\<close> yields them, and the text after the last one.\<close>

function find_all :: "unicode \<Rightarrow> pattern \<Rightarrow> bool \<Rightarrow> pos \<Rightarrow> rmatch list \<times> pystr" where
  "find_all U pt adv p = (case search_from U pt adv p of
       None \<Rightarrow> ([], p_after p)
     | Some m \<Rightarrow> (case find_all U pt (m_text m = []) (m_pos m) of (ms, r) \<Rightarrow> (m # ms, r)))"
  by pat_completeness auto
termination
proof (relation "measure (\<lambda>(_, _, adv, p). 2 * length (p_after p) + (if adv then 0 else 1))", goal_cases)
  case (2 U pt adv p m)
  show ?case
  proof (cases "adv \<or> m_skipped m @ m_text m \<noteq> []")
    case True
    from search_from_progress[OF 2 True] show ?thesis by auto
  next
    case False
    with search_from_append[OF 2] show ?thesis by auto
  qed
qed simp

declare find_all.simps [simp del]

definition finditer :: "unicode \<Rightarrow> pattern \<Rightarrow> pystr \<Rightarrow> rmatch list" where
  "finditer U pt s = fst (find_all U pt False (start_pos s))"

text \<open>\<open>pattern.subn(f, s)\<close> with the replacement computed from the match, and \<open>pattern.split(s)\<close>.\<close>

definition rx_subn :: "unicode \<Rightarrow> pattern \<Rightarrow> (rmatch \<Rightarrow> pystr) \<Rightarrow> pystr \<Rightarrow> pystr \<times> nat" where
  "rx_subn U pt f s = (let (ms, r) = find_all U pt False (start_pos s)
     in (concat (map (\<lambda>m. m_skipped m @ f m) ms) @ r, length ms))"

definition rx_sub :: "unicode \<Rightarrow> pattern \<Rightarrow> (rmatch \<Rightarrow> pystr) \<Rightarrow> pystr \<Rightarrow> pystr" where
  "rx_sub U pt f s = fst (rx_subn U pt f s)"

definition rx_split :: "unicode \<Rightarrow> pattern \<Rightarrow> pystr \<Rightarrow> pystr list" where
  "rx_split U pt s = (let (ms, r) = find_all U pt False (start_pos s) in map m_skipped ms @ [r])"

text \<open>The matches and the gaps between them make up the text.\<close>

lemma find_all_append:
  "find_all U pt adv p = (ms, r) \<Longrightarrow> concat (map (\<lambda>m. m_skipped m @ m_text m) ms) @ r = p_after p"
proof (induction U pt adv p arbitrary: ms r rule: find_all.induct)
  case (1 U pt adv p)
  show ?case
  proof (cases "search_from U pt adv p")
    case None
    then have "find_all U pt adv p = ([], p_after p)" by (subst find_all.simps) simp
    with 1(2) show ?thesis by simp
  next
    case (Some m)
    obtain ms' r' where rest: "find_all U pt (m_text m = []) (m_pos m) = (ms', r')" by (metis surj_pair)
    then have "find_all U pt adv p = (m # ms', r')" using Some by (subst find_all.simps) simp
    with 1(2) 1(1)[OF Some rest] search_from_append[OF Some] show ?thesis by auto
  qed
qed

lemma rx_subn_zero:
  assumes "rx_subn U pt f s = (t, 0)"
  shows "t = s" and "\<not> rx_found U pt s"
proof -
  obtain ms r where fa: "find_all U pt False (start_pos s) = (ms, r)" by (metis surj_pair)
  with assms have ms: "ms = []" "t = r" by (auto simp: rx_subn_def)
  with find_all_append[OF fa] show "t = s" by (simp add: start_pos_def)
  from fa ms have "search_from U pt False (start_pos s) = None"
    by (subst (asm) find_all.simps) (auto split: option.splits if_splits prod.splits)
  then show "\<not> rx_found U pt s" by (simp add: rx_found_def rx_search_def)
qed

text \<open>Counting matches is finding them, and a substitution keeps what lies between them.\<close>

lemma rx_subn_count_pos: "rx_found U pt s \<longleftrightarrow> snd (rx_subn U pt f s) \<noteq> 0"
proof
  assume "rx_found U pt s"
  then show "snd (rx_subn U pt f s) \<noteq> 0" using rx_subn_zero(2)[of U pt f s "fst (rx_subn U pt f s)"]
    by (metis prod.collapse)
next
  assume *: "snd (rx_subn U pt f s) \<noteq> 0"
  show "rx_found U pt s"
  proof (rule ccontr)
    assume "\<not> rx_found U pt s"
    then have "find_all U pt False (start_pos s) = ([], s)"
      by (subst find_all.simps) (simp add: rx_found_def rx_search_def start_pos_def)
    with * show False by (simp add: rx_subn_def)
  qed
qed

end
