(* ===== verification/Classifier.thy ===== *)
theory Classifier
  imports PyRegex
begin

text \<open>
  Rule-based classification of logs, \<open>src/pipelens/classifier.py\<close>: the thirteen detection rules with
  their patterns, the first line that a rule recognises with the most confident rule, and the
  extraction of the lines around errors as merged ranges of line numbers.
\<close>

section \<open>Rules\<close>

record DetectionRule =
  dr_rule_id :: pystr
  dr_category :: ErrorCategory
  dr_confidence :: rat
  dr_patterns :: "pattern list"

definition RULES :: "DetectionRule list" where
  "RULES = [
     \<lparr>dr_rule_id = u ''security.secret'', dr_category = SECURITY, dr_confidence = 95 / 100, dr_patterns = [
       \<lparr>pt_rx = seqs [lits (u ''leak''), Rep True 0 (Some 1) (Lit 115), lits (u
         '' found: ''), Cls False [IRange 49 57]], pt_icase = True\<rparr>,
       \<lparr>pt_rx = seqs [lits (u ''secret scanning ''), Rep True 0 None (AnyChar), alts [lits
         (u ''detected''), lits (u ''found''), lits (u ''blocked'')]], pt_icase = True\<rparr>,
       \<lparr>pt_rx = seqs [WordB, Cls False [IRange 49 57], Rep True 0 None (Cls False
         [IDigit]), lits (u '' secret''), Rep True 0 (Some 1) (Lit 115), Lit 32, alts [lits (u
         ''detected''), lits (u ''found'')]], pt_icase = True\<rparr>]\<rparr>,
     \<lparr>dr_rule_id = u ''security.vulnerability'', dr_category = SECURITY, dr_confidence = 93 / 100, dr_patterns = [
       \<lparr>pt_rx = seqs [lits (u ''total: ''), Rep True 1 None (Cls False [IDigit]), lits (u
         '' (''), Rep True 0 None (AnyChar), WordB, alts [lits (u ''high''), lits (u ''critical'')],
         lits (u '': ''), Cls False [IRange 49 57]], pt_icase = True\<rparr>,
       \<lparr>pt_rx = seqs [WordB, Cls False [IRange 49 57], Rep True 0 None (Cls False
         [IDigit]), Lit 32, alts [lits (u ''low''), lits (u ''moderate''), lits (u ''high''), lits
         (u ''critical'')], lits (u '' severity vulnerabilit'')], pt_icase = True\<rparr>,
       \<lparr>pt_rx = seqs [lits (u ''found ''), Cls False [IRange 49 57], Rep True 0 None (Cls
         False [IDigit]), lits (u '' known vulnerabilit'')], pt_icase = True\<rparr>,
       \<lparr>pt_rx = lits (u ''dependency review detected vulnerable packages''), pt_icase =
         True\<rparr>]\<rparr>,
     \<lparr>dr_rule_id = u ''security.code_scanning'', dr_category = SECURITY, dr_confidence = 90 / 100, dr_patterns = [
       \<lparr>pt_rx = seqs [lits (u ''code scanning alert''), Rep True 0 (Some 1) (Lit 115), Lit
         32, alts [lits (u ''found''), lits (u ''detected'')]], pt_icase = True\<rparr>,
       \<lparr>pt_rx = seqs [alts [lits (u ''codeql''), lits (u ''semgrep'')], Rep True 0 None
         (AnyChar), WordB, Cls False [IRange 49 57], Rep True 0 None (Cls False [IDigit]), Lit 32,
         alts [seqs [lits (u ''alert''), Rep True 0 (Some 1) (Lit 115)], seqs [lits (u ''finding''),
         Rep True 0 (Some 1) (Lit 115)]]], pt_icase = True\<rparr>]\<rparr>,
     \<lparr>dr_rule_id = u ''env.missing'', dr_category = MISSING_ENV, dr_confidence = 94 / 100, dr_patterns = [
       \<lparr>pt_rx = seqs [alts [lits (u ''keyerror''), lits (u ''missing''), lits (u
         ''required'')], Rep True 0 None (AnyChar), lits (u ''env'')], pt_icase = True\<rparr>,
       \<lparr>pt_rx = seqs [alts [lits (u ''environment variable''), lits (u ''env var'')], Rep
         True 0 None (AnyChar), lits (u ''not ''), alts [lits (u ''set''), lits (u ''found''), lits
         (u ''defined'')]], pt_icase = True\<rparr>,
       \<lparr>pt_rx = seqs [lits (u ''${{''), Rep True 0 None (Cls False [ISpace]), lits (u
         ''secrets.''), Rep True 1 None (Cls True [ILit 125]), lits (u ''}}''), Rep True 0 None
         (AnyChar), alts [lits (u ''not found''), lits (u ''empty'')]], pt_icase = True\<rparr>]\<rparr>,
     \<lparr>dr_rule_id = u ''auth.deploy'', dr_category = DEPLOY_AUTH, dr_confidence = 92 / 100, dr_patterns = [
       \<lparr>pt_rx = alts [lits (u ''unauthorized''), lits (u ''forbidden''), lits (u
         ''access denied''), lits (u ''invalid credentials'')], pt_icase = True\<rparr>,
       \<lparr>pt_rx = lits (u ''authentication required''), pt_icase = True\<rparr>,
       \<lparr>pt_rx = lits (u ''denied: requested access''), pt_icase = True\<rparr>]\<rparr>,
     \<lparr>dr_rule_id = u ''resource.exhaustion'', dr_category = RESOURCE, dr_confidence = 96 / 100, dr_patterns = [
       \<lparr>pt_rx = lits (u ''no space left on device''), pt_icase = True\<rparr>,
       \<lparr>pt_rx = alts [lits (u ''out of memory''), lits (u ''oomkilled''), lits (u
         ''cannot allocate memory'')], pt_icase = True\<rparr>,
       \<lparr>pt_rx = lits (u ''exit code 137''), pt_icase = True\<rparr>]\<rparr>,
     \<lparr>dr_rule_id = u ''timeout'', dr_category = TIMEOUT, dr_confidence = 91 / 100, dr_patterns = [
       \<lparr>pt_rx = alts [seqs [lits (u ''time''), Rep True 0 (Some 1) (Lit 100), lits (u
         '' out'')], lits (u ''timeout exceeded'')], pt_icase = True\<rparr>,
       \<lparr>pt_rx = lits (u ''deadline exceeded''), pt_icase = True\<rparr>,
       \<lparr>pt_rx = seqs [lits (u ''job was cancelled because''), Rep True 0 None (AnyChar),
         lits (u ''timeout'')], pt_icase = True\<rparr>,
       \<lparr>pt_rx = seqs [lits (u ''alert state ''), Rep True 0 None (AnyChar), lits (u
         ''not observed'')], pt_icase = True\<rparr>]\<rparr>,
     \<lparr>dr_rule_id = u ''workflow.syntax'', dr_category = WORKFLOW, dr_confidence = 95 / 100, dr_patterns = [
       \<lparr>pt_rx = lits (u ''invalid workflow file''), pt_icase = True\<rparr>,
       \<lparr>pt_rx = seqs [lits (u ''yaml''), Rep True 0 (Some 1) (alts [lits (u '' syntax''),
         lits (u '' parser'')]), lits (u '' error'')], pt_icase = True\<rparr>,
       \<lparr>pt_rx = lits (u ''unrecognized named-value''), pt_icase = True\<rparr>,
       \<lparr>pt_rx = lits (u ''the workflow is not valid''), pt_icase = True\<rparr>]\<rparr>,
     \<lparr>dr_rule_id = u ''dependency.install'', dr_category = DEPENDENCY, dr_confidence = 90 / 100, dr_patterns = [
       \<lparr>pt_rx = alts [lits (u ''npm err!''), lits (u
         ''eresolve unable to resolve dependency tree'')], pt_icase = True\<rparr>,
       \<lparr>pt_rx = lits (u ''could not find a version that satisfies''), pt_icase =
         True\<rparr>,
       \<lparr>pt_rx = seqs [lits (u ''failed ''), alts [lits (u ''building wheel''), lits (u
         ''to resolve dependencies'')]], pt_icase = True\<rparr>,
       \<lparr>pt_rx = seqs [lits (u ''package ''), Rep True 0 None (AnyChar), lits (u
         '' has no installation candidate'')], pt_icase = True\<rparr>]\<rparr>,
     \<lparr>dr_rule_id = u ''docker.build'', dr_category = DOCKER, dr_confidence = 89 / 100, dr_patterns = [
       \<lparr>pt_rx = seqs [lits (u ''docker build''), Rep True 0 None (AnyChar), lits (u
         ''failed'')], pt_icase = True\<rparr>,
       \<lparr>pt_rx = lits (u ''failed to solve: process''), pt_icase = True\<rparr>,
       \<lparr>pt_rx = seqs [lits (u ''dockerfile:''), Rep True 1 None (Cls False [IDigit])],
         pt_icase = True\<rparr>,
       \<lparr>pt_rx = seqs [lits (u ''error response from daemon: ''), Ahead True (lits (u
         ''no such container''))], pt_icase = True\<rparr>]\<rparr>,
     \<lparr>dr_rule_id = u ''lint.format'', dr_category = LINT, dr_confidence = 88 / 100, dr_patterns = [
       \<lparr>pt_rx = seqs [alts [lits (u ''eslint''), lits (u ''ruff''), lits (u ''flake8''),
         lits (u ''prettier''), lits (u ''black'')], Rep False 0 None (AnyChar), alts [lits (u
         ''error''), lits (u ''failed'')]], pt_icase = True\<rparr>,
       \<lparr>pt_rx = lits (u ''would reformat''), pt_icase = True\<rparr>,
       \<lparr>pt_rx = seqs [lits (u ''lint''), Rep True 0 (Some 1) (lits (u ''ing'')), lits (u
         '' failed'')], pt_icase = True\<rparr>,
       \<lparr>pt_rx = lits (u ''code style issues found''), pt_icase = True\<rparr>]\<rparr>,
     \<lparr>dr_rule_id = u ''test.failure'', dr_category = TEST, dr_confidence = 90 / 100, dr_patterns = [
       \<lparr>pt_rx = seqs [WordB, alts [lits (u ''failed''), seqs [lits (u ''failure''), Rep
         True 0 (Some 1) (Lit 115)]], WordB, Rep True 0 None (AnyChar), WordB, lits (u ''test''),
         Rep True 0 (Some 1) (Lit 115), WordB], pt_icase = True\<rparr>,
       \<lparr>pt_rx = seqs [alts [lits (u ''pytest''), lits (u ''jest''), lits (u ''vitest''),
         lits (u ''rspec'')], Rep True 0 None (AnyChar), lits (u ''failed'')], pt_icase =
         True\<rparr>,
       \<lparr>pt_rx = alts [lits (u ''assertionerror''), seqs [lits (u ''expected ''), Rep True 0
         None (AnyChar), Lit 32, alts [lits (u ''to''), lits (u ''but'')]]], pt_icase = True\<rparr>]\<rparr>,
     \<lparr>dr_rule_id = u ''build.compile'', dr_category = BUILD, dr_confidence = 87 / 100, dr_patterns = [
       \<lparr>pt_rx = seqs [alts [lits (u ''compilation''), lits (u ''compile''), lits (u
         ''build'')], lits (u '' failed'')], pt_icase = True\<rparr>,
       \<lparr>pt_rx = alts [lits (u ''syntaxerror''), seqs [lits (u ''typeerror:''), Rep True 0
         None (AnyChar), alts [lits (u ''assignable''), lits (u ''property'')]]], pt_icase =
         True\<rparr>,
       \<lparr>pt_rx = lits (u ''undefined reference''), pt_icase = True\<rparr>,
       \<lparr>pt_rx = lits (u ''cannot find symbol''), pt_icase = True\<rparr>]\<rparr>]"

definition ERROR_LINE :: pattern where
  "ERROR_LINE =
     \<lparr>pt_rx = alts [lits (u ''error''), lits (u ''exception''), lits (u ''failed''), lits (u
     ''fatal''), lits (u ''panic''), lits (u ''timeout''), lits (u ''denied''), lits (u
     ''not found'')], pt_icase = True\<rparr>"

definition SCANNER_FINDING_ROW :: pattern where
  "SCANNER_FINDING_ROW =
     \<lparr>pt_rx = seqs [Cls False [ILit 9474, ILit 124], Rep True 0 None (Cls False [ISpace]),
     alts [lits (u ''HIGH''), lits (u ''CRITICAL'')], Rep True 0 None (Cls False [ISpace]), Cls
     False [ILit 9474, ILit 124]], pt_icase = False\<rparr>"

section \<open>Classification\<close>

definition rule_matches :: "unicode \<Rightarrow> pystr \<Rightarrow> DetectionRule \<Rightarrow> bool" where
  "rule_matches U line r = (\<exists>p \<in> set (dr_patterns r). rx_found U p line)"

definition has_error_signal :: "unicode \<Rightarrow> pystr \<Rightarrow> bool" where
  "has_error_signal U t = (rx_found U ERROR_LINE t \<or> rx_found U SCANNER_FINDING_ROW t
     \<or> (\<exists>r \<in> set RULES. rule_matches U t r))"

text \<open>\<open>max(rules, key=confidence)\<close>: the first of the rules with the greatest confidence.\<close>

fun best_rule :: "DetectionRule \<Rightarrow> DetectionRule list \<Rightarrow> DetectionRule" where
  "best_rule b [] = b"
| "best_rule b (r # rs) = best_rule (if dr_confidence b < dr_confidence r then r else b) rs"

fun first_classified :: "unicode \<Rightarrow> pystr option \<Rightarrow> pystr list \<Rightarrow> Classification option" where
  "first_classified U related_step [] = None"
| "first_classified U related_step (line # lines) = (case filter (rule_matches U line) RULES of
       [] \<Rightarrow> first_classified U related_step lines
     | r # rs \<Rightarrow> (let b = best_rule r rs in
         Some \<lparr>cl_category = dr_category b, cl_confidence = dr_confidence b, cl_first_error = line,
           cl_related_step = related_step, cl_matched_rules = [dr_rule_id b]\<rparr>))"

definition log_lines :: "pystr \<Rightarrow> pystr list" where
  "log_lines lg = map strip (filter (\<lambda>l. strip l \<noteq> []) (splitlines lg))"

definition first_error_line :: "unicode \<Rightarrow> pystr list \<Rightarrow> pystr" where
  "first_error_line U lines = (case filter (rx_found U ERROR_LINE) lines of
       l # _ \<Rightarrow> l
     | [] \<Rightarrow> (case lines of l # _ \<Rightarrow> l | [] \<Rightarrow> u ''No error output was captured''))"

definition classify_log :: "unicode \<Rightarrow> pystr \<Rightarrow> pystr option \<Rightarrow> Classification" where
  "classify_log U lg related_step = (let lines = log_lines lg in
     case first_classified U related_step lines of
       Some c \<Rightarrow> c
     | None \<Rightarrow> \<lparr>cl_category = UNKNOWN, cl_confidence = 2 / 10, cl_first_error = first_error_line U lines,
         cl_related_step = related_step, cl_matched_rules = []\<rparr>)"

section \<open>Extraction of error context\<close>

text \<open>\<open>collect_ranges n c m\<close> is the loop over the indexes of error lines of a text of \<open>n\<close> lines; the
  accumulator is the list \<open>ranges\<close>, and reaching the maximum of sections is the \<open>break\<close>.\<close>

fun collect_ranges :: "int \<Rightarrow> int \<Rightarrow> int \<Rightarrow> int list \<Rightarrow> (int \<times> int) list \<Rightarrow> (int \<times> int) list" where
  "collect_ranges n c m [] ranges = ranges"
| "collect_ranges n c m (i # is) ranges =
     (let start = max 0 (i - c); stop = min n (i + c + 1)
      in if ranges \<noteq> [] \<and> start \<le> snd (last ranges)
         then collect_ranges n c m is
                (butlast ranges @ [(fst (last ranges), max (snd (last ranges)) stop)])
         else if int (length ranges) < m then collect_ranges n c m is (ranges @ [(start, stop)])
         else ranges)"

definition error_indexes :: "unicode \<Rightarrow> pystr list \<Rightarrow> int list" where
  "error_indexes U lines = map int (filter (\<lambda>i. has_error_signal U (lines ! i)) [0..<length lines])"

text \<open>Python slices with integer bounds.\<close>

definition slice_index :: "nat \<Rightarrow> int \<Rightarrow> nat" where
  "slice_index n i = (if i < 0 then nat (int n + i) else min n (nat i))"

definition pyslice :: "int \<Rightarrow> int \<Rightarrow> 'a list \<Rightarrow> 'a list" where
  "pyslice a b xs = drop (slice_index (length xs) a) (take (slice_index (length xs) b) xs)"

definition extract_error_context :: "unicode \<Rightarrow> pystr \<Rightarrow> int \<Rightarrow> int \<Rightarrow> pystr" where
  "extract_error_context U lg context_lines max_sections =
     (let lines = splitlines lg; indexes = error_indexes U lines; n = int (length lines)
      in if indexes = [] then join nl (drop (slice_index (length lines) (- min n (context_lines * 2))) lines)
         else join (nl @ u ''...'' @ nl) (map (\<lambda>(a, b). join nl (pyslice a b lines))
                (collect_ranges n context_lines max_sections indexes [])))"

section \<open>Properties of classification\<close>

lemma best_rule_in: "best_rule b rs \<in> set (b # rs)"
  by (induction b rs rule: best_rule.induct) (auto split: if_splits)

lemma best_rule_max: "r \<in> set (b # rs) \<Longrightarrow> dr_confidence r \<le> dr_confidence (best_rule b rs)"
proof (induction b rs arbitrary: r rule: best_rule.induct)
  case (2 b r' rs)
  let ?b = "if dr_confidence b < dr_confidence r' then r' else b"
  have "dr_confidence r \<le> dr_confidence ?b \<or> r \<in> set rs" using 2(2) by auto
  then show ?case using 2(1)[of ?b] 2(1)[of r] by auto
qed simp

lemma first_classified_Some:
  assumes "first_classified U st lines = Some c"
  shows "\<exists>pre line post r. lines = pre @ line # post \<and> (\<forall>l \<in> set pre. \<forall>r \<in> set RULES. \<not> rule_matches U l r)
    \<and> r \<in> set RULES \<and> rule_matches U line r
    \<and> (\<forall>r' \<in> set RULES. rule_matches U line r' \<longrightarrow> dr_confidence r' \<le> dr_confidence r)
    \<and> c = \<lparr>cl_category = dr_category r, cl_confidence = dr_confidence r, cl_first_error = line,
           cl_related_step = st, cl_matched_rules = [dr_rule_id r]\<rparr>"
  using assms
proof (induction U st lines rule: first_classified.induct)
  case (2 U st line lines)
  show ?case
  proof (cases "filter (rule_matches U line) RULES")
    case Nil
    then have none: "\<forall>r \<in> set RULES. \<not> rule_matches U line r" by (simp add: filter_empty_conv)
    from 2(1)[OF Nil] 2(2) Nil obtain pre l post r where
      *: "lines = pre @ l # post" "\<forall>l \<in> set pre. \<forall>r \<in> set RULES. \<not> rule_matches U l r"
      "r \<in> set RULES" "rule_matches U l r"
      "\<forall>r' \<in> set RULES. rule_matches U l r' \<longrightarrow> dr_confidence r' \<le> dr_confidence r"
      "c = \<lparr>cl_category = dr_category r, cl_confidence = dr_confidence r, cl_first_error = l,
           cl_related_step = st, cl_matched_rules = [dr_rule_id r]\<rparr>"
      by auto
    show ?thesis
      by (rule exI[of _ "line # pre"], rule exI[of _ l], rule exI[of _ post], rule exI[of _ r])
        (use * none in auto)
  next
    case (Cons r rs)
    let ?b = "best_rule r rs"
    have "?b \<in> set (filter (rule_matches U line) RULES)" using best_rule_in[of r rs] Cons by simp
    then have "?b \<in> set RULES" "rule_matches U line ?b" by simp_all
    moreover have "\<forall>r' \<in> set RULES. rule_matches U line r' \<longrightarrow> dr_confidence r' \<le> dr_confidence ?b"
    proof (intro ballI impI)
      fix r' assume "r' \<in> set RULES" "rule_matches U line r'"
      then have "r' \<in> set (filter (rule_matches U line) RULES)" by simp
      then have "r' \<in> set (r # rs)" by (simp only: Cons)
      then show "dr_confidence r' \<le> dr_confidence ?b" by (rule best_rule_max)
    qed
    ultimately show ?thesis using 2(2) Cons
      by (rule_tac x = "[]" in exI, rule_tac x = line in exI, rule_tac x = lines in exI,
          rule_tac x = ?b in exI) (auto simp: Let_def)
  qed
qed simp

lemma first_classified_None:
  "first_classified U st lines = None \<longleftrightarrow> (\<forall>l \<in> set lines. \<forall>r \<in> set RULES. \<not> rule_matches U l r)"
  by (induction U st lines rule: first_classified.induct)
    (auto simp: Let_def filter_empty_conv split: list.splits)

lemma RULES_confidence: "r \<in> set RULES \<Longrightarrow> 87 / 100 \<le> dr_confidence r \<and> dr_confidence r \<le> 96 / 100 \<and> dr_category r \<noteq> UNKNOWN"
  by (simp add: RULES_def) auto

text \<open>C22: the classification is that of the first line (stripped, blank ones skipped) that any rule
  recognises: the most confident rule for that line gives category, confidence and rule id. The
  category is unknown exactly when no line is recognised, and the confidence is always in range.\<close>

theorem classify_log_correct:
  "(case classify_log U lg st of c \<Rightarrow> valid_confidence (cl_confidence c) \<and> cl_related_step c = st
     \<and> (if \<exists>l \<in> set (log_lines lg). \<exists>r \<in> set RULES. rule_matches U l r
        then cl_category c \<noteq> UNKNOWN \<and> (\<exists>pre post r. log_lines lg = pre @ cl_first_error c # post
            \<and> (\<forall>l \<in> set pre. \<forall>r \<in> set RULES. \<not> rule_matches U l r)
            \<and> r \<in> set RULES \<and> rule_matches U (cl_first_error c) r
            \<and> (\<forall>r' \<in> set RULES. rule_matches U (cl_first_error c) r' \<longrightarrow> dr_confidence r' \<le> dr_confidence r)
            \<and> cl_category c = dr_category r \<and> cl_confidence c = dr_confidence r
            \<and> cl_matched_rules c = [dr_rule_id r])
        else cl_category c = UNKNOWN \<and> cl_confidence c = 1 / 5 \<and> cl_matched_rules c = []
          \<and> cl_first_error c = first_error_line U (log_lines lg)))"
proof (cases "first_classified U st (log_lines lg)")
  case None
  then have "\<not> (\<exists>l \<in> set (log_lines lg). \<exists>r \<in> set RULES. rule_matches U l r)"
    by (simp add: first_classified_None)
  with None show ?thesis by (simp add: classify_log_def valid_confidence_def)
next
  case (Some c)
  then have ex: "\<exists>l \<in> set (log_lines lg). \<exists>r \<in> set RULES. rule_matches U l r"
    by (metis first_classified_None option.distinct(1))
  from first_classified_Some[OF Some] obtain pre line post r where
    "log_lines lg = pre @ line # post" "\<forall>l \<in> set pre. \<forall>r \<in> set RULES. \<not> rule_matches U l r"
    "r \<in> set RULES" "rule_matches U line r"
    "\<forall>r' \<in> set RULES. rule_matches U line r' \<longrightarrow> dr_confidence r' \<le> dr_confidence r"
    "c = \<lparr>cl_category = dr_category r, cl_confidence = dr_confidence r, cl_first_error = line,
           cl_related_step = st, cl_matched_rules = [dr_rule_id r]\<rparr>" by blast
  moreover note RULES_confidence[OF \<open>r \<in> set RULES\<close>]
  ultimately show ?thesis using ex Some
    by (auto simp: classify_log_def Let_def valid_confidence_def)
qed

section \<open>Properties of the extraction\<close>

definition ranges_ok :: "int \<Rightarrow> (int \<times> int) list \<Rightarrow> bool" where
  "ranges_ok n rs \<longleftrightarrow> (\<forall>(a, b) \<in> set rs. 0 \<le> a \<and> a < b \<and> b \<le> n) \<and> sorted_wrt (\<lambda>x y. snd x < fst y) rs"

definition covers :: "int \<Rightarrow> int \<Rightarrow> (int \<times> int) list \<Rightarrow> int \<Rightarrow> bool" where
  "covers n c rs i \<longleftrightarrow> (\<exists>(a, b) \<in> set rs. a \<le> max 0 (i - c) \<and> min n (i + c + 1) \<le> b)"

text \<open>Extending the last range keeps it a list of separate ranges, and keeps what was covered.\<close>

lemma ranges_ok_extend:
  assumes "ranges_ok n (rs @ [(a, b)])" "b' \<le> n"
  shows "ranges_ok n (rs @ [(a, max b b')])"
  using assms by (auto simp: ranges_ok_def sorted_wrt_append)

lemma covers_extend: "covers n c (rs @ [(a, b)]) i \<Longrightarrow> covers n c (rs @ [(a, max b b')]) i"
  by (auto simp: covers_def)

lemma ranges_ok_append:
  assumes ok: "ranges_ok n rs" and new: "0 \<le> a" "a < b" "b \<le> n" and gap: "rs \<noteq> [] \<Longrightarrow> snd (last rs) < a"
  shows "ranges_ok n (rs @ [(a, b)])"
proof (cases rs rule: rev_cases)
  case (snoc xs x)
  have "snd y < a" if "y \<in> set rs" for y
  proof -
    have "snd y \<le> snd x" using that ok snoc by (fastforce simp: ranges_ok_def sorted_wrt_append)
    also have "snd x < a" using gap snoc by simp
    finally show ?thesis .
  qed
  with ok new show ?thesis by (auto simp: ranges_ok_def sorted_wrt_append)
qed (use new in \<open>simp add: ranges_ok_def\<close>)

text \<open>What holds of the loop: its ranges stay separate, within the text and at most \<open>m\<close>; the last one
  begins no later than the context of the lines still to come; unless the limit is reached, the
  context of every line seen is covered.\<close>

definition loop_inv :: "int \<Rightarrow> int \<Rightarrow> int \<Rightarrow> int list \<Rightarrow> (int \<times> int) list \<Rightarrow> bool" where
  "loop_inv n c m is rs \<longleftrightarrow> sorted_wrt (<) is \<and> (\<forall>i \<in> set is. 0 \<le> i \<and> i < n) \<and> ranges_ok n rs
     \<and> int (length rs) \<le> max 0 m \<and> (rs \<noteq> [] \<longrightarrow> (\<forall>i \<in> set is. fst (last rs) \<le> max 0 (i - c)))"

lemma collect_ranges_ok:
  assumes "0 \<le> c" "loop_inv n c m is rs"
  shows "ranges_ok n (collect_ranges n c m is rs) \<and> int (length (collect_ranges n c m is rs)) \<le> max 0 m
    \<and> (int (length (collect_ranges n c m is rs)) < m \<longrightarrow>
         (\<forall>i. i \<in> set is \<or> covers n c rs i \<longrightarrow> covers n c (collect_ranges n c m is rs) i))"
  using assms
proof (induction n c m "is" rs rule: collect_ranges.induct)
  case (1 n c m rs)
  then show ?case by (simp add: loop_inv_def)
next
  case (2 n c m i "is" rs)
  let ?a = "max 0 (i - c)" and ?b = "min n (i + c + 1)"
  have i: "0 \<le> ?a" "?a < ?b" "?b \<le> n" using 2(3,4) by (auto simp: loop_inv_def)
  consider (merge) xs a b where "rs = xs @ [(a, b)]" "?a \<le> b"
    | (new) "rs \<noteq> [] \<longrightarrow> snd (last rs) < ?a" "int (length rs) < m"
    | (full) "rs \<noteq> [] \<longrightarrow> snd (last rs) < ?a" "\<not> int (length rs) < m"
  proof (cases rs rule: rev_cases)
    case (snoc xs x)
    then show thesis using that(1)[of xs "fst x" "snd x"] that(2,3) by (cases "?a \<le> snd x") (auto simp del: max.bounded_iff)
  qed (use that(2,3) in auto)
  then show ?case
  proof cases
    case merge
    let ?rs = "xs @ [(a, max b ?b)]"
    have inv: "loop_inv n c m is ?rs"
      using 2(4) merge ranges_ok_extend[of n xs a b ?b] by (auto simp: loop_inv_def)
    have cov: "covers n c ?rs j" if "j = i \<or> covers n c rs j" for j
      using that covers_extend[of n c xs a b j ?b] 2(4) merge(1) by (auto simp: covers_def loop_inv_def)
    have eq: "collect_ranges n c m (i # is) rs = collect_ranges n c m is ?rs" using merge by simp
    from 2(1)[OF refl refl, simplified] merge inv 2(3) cov show ?thesis unfolding eq by auto
  next
    case new
    let ?rs = "rs @ [(?a, ?b)]"
    have "ranges_ok n ?rs" using 2(4) new i by (intro ranges_ok_append) (auto simp: loop_inv_def)
    then have inv: "loop_inv n c m is ?rs" using 2(4) new by (auto simp: loop_inv_def)
    have cov: "covers n c ?rs j" if "j = i \<or> covers n c rs j" for j using that by (auto simp: covers_def)
    have nm: "\<not> (rs \<noteq> [] \<and> ?a \<le> snd (last rs))" using new(1) by auto
    then have eq: "collect_ranges n c m (i # is) rs = collect_ranges n c m is ?rs" using new(2)
      by (simp only: collect_ranges.simps(2) Let_def simp_thms if_True if_False)
    from 2(2)[OF refl refl nm new(2) 2(3) inv] cov show ?thesis unfolding eq by auto
  next
    case full
    have nm: "\<not> (rs \<noteq> [] \<and> ?a \<le> snd (last rs))" using full(1) by auto
    then have eq: "collect_ranges n c m (i # is) rs = rs" using full(2)
      by (simp only: collect_ranges.simps(2) Let_def simp_thms if_True if_False)
    from full 2(4) show ?thesis unfolding eq by (auto simp: loop_inv_def)
  qed
qed

definition error_ranges :: "unicode \<Rightarrow> pystr \<Rightarrow> int \<Rightarrow> int \<Rightarrow> (int \<times> int) list" where
  "error_ranges U lg c m = collect_ranges (int (length (splitlines lg))) c m (error_indexes U (splitlines lg)) []"

text \<open>The excerpt taken from a log with error lines consists of at most \<open>max_sections\<close> separate
  ascending ranges of its lines, and unless that many were needed, every line with an error signal
  is in it together with its context of \<open>context_lines\<close> lines on either side.\<close>

lemma extract_covers_errors:
  assumes "0 \<le> c"
  shows "ranges_ok (int (length (splitlines lg))) (error_ranges U lg c m)
    \<and> int (length (error_ranges U lg c m)) \<le> max 0 m
    \<and> (int (length (error_ranges U lg c m)) < m \<longrightarrow>
        (\<forall>i < length (splitlines lg). has_error_signal U (splitlines lg ! i) \<longrightarrow>
          covers (int (length (splitlines lg))) c (error_ranges U lg c m) (int i)))
    \<and> (error_indexes U (splitlines lg) \<noteq> [] \<longrightarrow> extract_error_context U lg c m =
        join (nl @ u ''...'' @ nl) (map (\<lambda>(a, b). join nl (pyslice a b (splitlines lg))) (error_ranges U lg c m)))"
proof -
  let ?n = "int (length (splitlines lg))" and ?is = "error_indexes U (splitlines lg)"
  have "sorted_wrt (<) ?is"
    by (auto simp: error_indexes_def sorted_wrt_map intro: sorted_wrt_filter sorted_wrt_upt)
  then have inv: "loop_inv ?n c m ?is []"
    by (auto simp: loop_inv_def ranges_ok_def error_indexes_def)
  have mem: "int i \<in> set ?is" if "i < length (splitlines lg)" "has_error_signal U (splitlines lg ! i)" for i
    using that by (auto simp: error_indexes_def)
  from collect_ranges_ok[OF assms inv] mem show ?thesis
    unfolding error_ranges_def[symmetric] by (auto simp: extract_error_context_def error_ranges_def Let_def)
qed

theorem classify_log_correct_witness:
  "cl_category (classify_log ascii (u ''x'' @ nl @ u ''build failed'') None) = BUILD
    \<and> valid_confidence (cl_confidence (classify_log ascii (u ''x'' @ nl @ u ''build failed'') None))"
proof
  show "cl_category (classify_log ascii (u ''x'' @ nl @ u ''build failed'') None) = BUILD" by code_simp
  show "valid_confidence (cl_confidence (classify_log ascii (u ''x'' @ nl @ u ''build failed'') None))"
    using classify_log_correct[of ascii "u ''x'' @ nl @ u ''build failed''" None] by simp
qed

end
