(* ===== verification/Sanitizer.thy ===== *)
theory Sanitizer
  imports PyRegex
begin

text \<open>
  Log sanitizing, \<open>src/pipelens/sanitizer.py\<close>: terminal escapes and time stamps are removed, then
  six rules replace what looks like a credential or an address. Each rule keeps its pattern and
  its replacement; a replacement is a function of the match, since two of them repeat a group.
\<close>

section \<open>Patterns\<close>

definition ANSI_ESCAPE :: pattern where
  "ANSI_ESCAPE =
     \<lparr>pt_rx = seqs [Lit 27, alts [Cls False [IRange 64 90, IRange 92 95], seqs [Lit 91, Rep
     True 0 None (Cls False [IRange 48 63]), Rep True 0 None (Cls False [IRange 32 47]), Cls False
     [IRange 64 126]]]], pt_icase = False\<rparr>"

definition TIMESTAMP_PREFIX :: pattern where
  "TIMESTAMP_PREFIX =
     \<lparr>pt_rx = seqs [Bol, alts [seqs [Rep True 4 (Some 4) (Cls False [IDigit]), Lit 45, Rep
     True 2 (Some 2) (Cls False [IDigit]), Lit 45, Rep True 2 (Some 2) (Cls False [IDigit]), Lit 84,
     Rep True 2 (Some 2) (Cls False [IDigit]), Lit 58, Rep True 2 (Some 2) (Cls False [IDigit]), Lit
     58, Rep True 2 (Some 2) (Cls False [IDigit]), Rep True 0 (Some 1) (seqs [Lit 46, Rep True 1
     None (Cls False [IDigit])]), Lit 90, Rep True 1 None (Cls False [ISpace])], seqs [Lit 91, Rep
     True 2 (Some 2) (Cls False [IDigit]), Lit 58, Rep True 2 (Some 2) (Cls False [IDigit]), Lit 58,
     Rep True 2 (Some 2) (Cls False [IDigit]), Lit 93, Rep True 0 None (Cls False [ISpace])]]],
     pt_icase = False\<rparr>"

definition github_token :: pattern where
  "github_token =
     \<lparr>pt_rx = seqs [WordB, alts [seqs [lits (u ''gh''), Cls False [ILit 112, ILit 111, ILit
     117, ILit 115, ILit 114], Lit 95, Rep True 20 None (Cls False [IRange 65 90, IRange 97 122,
     IRange 48 57, ILit 95])], seqs [lits (u ''github_pat_''), Rep True 20 None (Cls False [IRange
     65 90, IRange 97 122, IRange 48 57, ILit 95])]], WordB], pt_icase = False\<rparr>"

definition aws_access_key :: pattern where
  "aws_access_key =
     \<lparr>pt_rx = seqs [WordB, alts [lits (u ''AKIA''), lits (u ''ASIA'')], Rep True 16 (Some 16)
     (Cls False [IRange 65 90, IRange 48 57]), WordB], pt_icase = False\<rparr>"

definition jwt :: pattern where
  "jwt =
     \<lparr>pt_rx = seqs [WordB, lits (u ''eyJ''), Rep True 1 None (Cls False [IRange 65 90, IRange
     97 122, IRange 48 57, ILit 95, ILit 45]), Lit 46, Rep True 1 None (Cls False [IRange 65 90,
     IRange 97 122, IRange 48 57, ILit 95, ILit 45]), Lit 46, Rep True 1 None (Cls False [IRange 65
     90, IRange 97 122, IRange 48 57, ILit 95, ILit 45]), WordB], pt_icase = False\<rparr>"

definition authorization :: pattern where
  "authorization =
     \<lparr>pt_rx = seqs [Grp 1 (seqs [lits (u ''authorization''), Rep True 0 None (Cls False
     [ISpace]), Cls False [ILit 58, ILit 61], Rep True 0 None (Cls False [ISpace])]), Rep True 0
     (Some 1) (alts [seqs [lits (u ''bearer''), Rep True 1 None (Cls False [ISpace])], seqs [lits (u
     ''basic''), Rep True 1 None (Cls False [ISpace])]]), Rep True 1 None (Cls False [INotSpace])],
     pt_icase = True\<rparr>"

definition secret_assignment :: pattern where
  "secret_assignment =
     \<lparr>pt_rx = seqs [WordB, Grp 1 (seqs [Rep True 0 None (Cls False [IRange 65 90, IRange 48
     57, ILit 95]), alts [lits (u ''PASSWORD''), lits (u ''PASSWD''), lits (u ''SECRET''), lits (u
     ''API_KEY''), lits (u ''ACCESS_TOKEN''), lits (u ''PRIVATE_KEY'')], Rep True 0 None (Cls False
     [IRange 65 90, IRange 48 57, ILit 95]), Rep True 0 None (Cls False [ISpace]), Cls False [ILit
     58, ILit 61], Rep True 0 None (Cls False [ISpace])]), Grp 2 (Rep True 1 None (Cls True [ISpace,
     ILit 44, ILit 59]))], pt_icase = True\<rparr>"

definition email :: pattern where
  "email =
     \<lparr>pt_rx = seqs [WordB, Rep True 1 None (Cls False [IRange 65 90, IRange 48 57, ILit 46,
     ILit 95, ILit 37, ILit 43, ILit 45]), Lit 64, Rep True 1 None (Cls False [IRange 65 90, IRange
     48 57, ILit 46, ILit 45]), Lit 46, Rep True 2 None (Cls False [IRange 65 90]), WordB], pt_icase
     = True\<rparr>"

section \<open>Rules\<close>

record RedactionRule =
  rr_name :: pystr
  rr_pattern :: pattern
  rr_replacement :: "rmatch \<Rightarrow> pystr"

definition fixed :: "string \<Rightarrow> rmatch \<Rightarrow> pystr" where
  "fixed t m = u t"

text \<open>The template \<open>\1[REDACTED]\<close>.\<close>

definition group1_redacted :: "rmatch \<Rightarrow> pystr" where
  "group1_redacted m = (case group_text 1 (m_pos m) of None \<Rightarrow> [] | Some t \<Rightarrow> t) @ u ''[REDACTED]''"

definition REDACTION_RULES :: "RedactionRule list" where
  "REDACTION_RULES = [
     \<lparr>rr_name = u ''github_token'', rr_pattern = github_token,
       rr_replacement = fixed ''[REDACTED:GITHUB_TOKEN]''\<rparr>,
     \<lparr>rr_name = u ''aws_access_key'', rr_pattern = aws_access_key,
       rr_replacement = fixed ''[REDACTED:AWS_ACCESS_KEY]''\<rparr>,
     \<lparr>rr_name = u ''jwt'', rr_pattern = jwt, rr_replacement = fixed ''[REDACTED:JWT]''\<rparr>,
     \<lparr>rr_name = u ''authorization'', rr_pattern = authorization, rr_replacement = group1_redacted\<rparr>,
     \<lparr>rr_name = u ''secret_assignment'', rr_pattern = secret_assignment,
       rr_replacement = group1_redacted\<rparr>,
     \<lparr>rr_name = u ''email'', rr_pattern = email, rr_replacement = fixed ''[REDACTED:EMAIL]''\<rparr>]"

section \<open>Sanitizing\<close>

definition strip_escapes :: "unicode \<Rightarrow> pystr \<Rightarrow> pystr" where
  "strip_escapes U raw = rx_sub U ANSI_ESCAPE (\<lambda>_. []) raw"

definition clean_lines :: "unicode \<Rightarrow> pystr \<Rightarrow> pystr" where
  "clean_lines U t = join nl (map (\<lambda>line. rstrip (rx_sub U TIMESTAMP_PREFIX (\<lambda>_. []) line)) (splitlines t))"

fun apply_rules :: "unicode \<Rightarrow> RedactionRule list \<Rightarrow> pystr \<Rightarrow> (pystr \<times> nat) list \<Rightarrow> pystr \<times> (pystr \<times> nat) list" where
  "apply_rules U [] t counts = (t, counts)"
| "apply_rules U (r # rs) t counts =
     (let (t', count) = rx_subn U (rr_pattern r) (rr_replacement r) t
      in apply_rules U rs t' (if count \<noteq> 0 then dict_put (rr_name r) count counts else counts))"

definition sanitize_log :: "unicode \<Rightarrow> pystr \<Rightarrow> pystr \<times> (pystr \<times> nat) list" where
  "sanitize_log U raw = apply_rules U REDACTION_RULES (clean_lines U (strip_escapes U raw)) []"

section \<open>Properties\<close>

lemma dict_put_nonempty: "dict_put k v d \<noteq> []"
  by (induction k v d rule: dict_put.induct) auto

lemma dict_put_values: "x \<in> set (dict_put k v d) \<Longrightarrow> x = (k, v) \<or> x \<in> set d"
  by (induction k v d rule: dict_put.induct) (auto split: if_splits)

lemma apply_rules_keeps: "counts \<noteq> [] \<Longrightarrow> snd (apply_rules U rs t counts) \<noteq> []"
  by (induction U rs t counts rule: apply_rules.induct) (auto simp: Let_def dict_put_nonempty split: prod.splits)

lemma apply_rules_silent:
  "apply_rules U rs t [] = (t', []) \<Longrightarrow> t' = t \<and> (\<forall>r \<in> set rs. \<not> rx_found U (rr_pattern r) t)"
proof (induction rs)
  case (Cons r rs)
  obtain x n where sub: "rx_subn U (rr_pattern r) (rr_replacement r) t = (x, n)" by (metis surj_pair)
  have "n = 0"
    using Cons.prems sub apply_rules_keeps[of "dict_put (rr_name r) n []" U rs x]
    by (auto simp: dict_put_nonempty split: if_splits)
  with Cons sub rx_subn_zero[of U "rr_pattern r" "rr_replacement r" t x] show ?case by simp
qed simp

lemma apply_rules_names:
  "fst ` set (snd (apply_rules U rs t counts)) \<subseteq> fst ` set counts \<union> rr_name ` set rs"
proof (induction U rs t counts rule: apply_rules.induct)
  case (2 U r rs t counts)
  obtain x n where sub: "rx_subn U (rr_pattern r) (rr_replacement r) t = (x, n)" by (metis surj_pair)
  show ?case
    using 2[OF sub[symmetric] refl] sub by (auto simp: dict_put_keys split: if_splits)
qed simp

lemma apply_rules_positive:
  "(\<And>k n. (k, n) \<in> set counts \<Longrightarrow> 0 < n) \<Longrightarrow> (k, n) \<in> set (snd (apply_rules U rs t counts)) \<Longrightarrow> 0 < n"
proof (induction U rs t counts rule: apply_rules.induct)
  case (2 U r rs t counts)
  obtain x c where sub: "rx_subn U (rr_pattern r) (rr_replacement r) t = (x, c)" by (metis surj_pair)
  have pos: "0 < n'" if "(k', n') \<in> set (if c \<noteq> 0 then dict_put (rr_name r) c counts else counts)" for k' n'
    using that 2(2) dict_put_values[of "(k', n')" "rr_name r" c counts] by (auto split: if_splits)
  show ?case using 2(1)[OF sub[symmetric] refl pos] 2(3) sub by (simp split: if_splits)
qed simp

text \<open>C21: a text for which sanitizing reports no redaction comes out as its lines without escapes,
  time stamps and trailing blanks, and none of the six credential patterns occurs in it. This is
  what the patch check relies on when it rejects diffs with redactions.\<close>

theorem sanitize_silent_is_clean:
  assumes "sanitize_log U raw = (t, [])"
  shows "t = clean_lines U (strip_escapes U raw) \<and> (\<forall>r \<in> set REDACTION_RULES. \<not> rx_found U (rr_pattern r) t)"
  using apply_rules_silent[OF assms[unfolded sanitize_log_def]] by blast

theorem sanitize_silent_is_clean_witness:
  "sanitize_log ascii (u ''ok'') = (u ''ok'', []) \<and> u ''ok'' = clean_lines ascii (strip_escapes ascii (u ''ok''))"
proof -
  have s: "sanitize_log ascii (u ''ok'') = (u ''ok'', [])" by code_simp
  from sanitize_silent_is_clean[OF s] s show ?thesis by blast
qed

text \<open>The counts sanitizing reports name known rules only and are positive, so that the metrics
  and the rejection of diffs see exactly the rules that fired.\<close>

lemma sanitize_counts:
  assumes "(k, n) \<in> set (snd (sanitize_log U raw))"
  shows "0 < n \<and> k \<in> rr_name ` set REDACTION_RULES"
  using assms apply_rules_names[of U REDACTION_RULES "clean_lines U (strip_escapes U raw)" "[]"]
    apply_rules_positive[of "[]" k n U REDACTION_RULES "clean_lines U (strip_escapes U raw)"]
  by (force simp: sanitize_log_def)

end
