(* ===== verification/Preprocessing.thy ===== *)
theory Preprocessing
  imports Classifier Sanitizer
begin

text \<open>
  Preprocessing of logs, \<open>src/pipelens/preprocessing.py\<close>: a log is cut into chunks at line ends, or
  inside a line that is too long; each chunk is sanitized and its error context extracted. The
  generator \<open>iter_text_chunks\<close> is the list of what it yields. Its inner loop ends for a positive
  bound, and the only caller passes at least 1000.
\<close>

section \<open>Chunks\<close>

function chop :: "nat \<Rightarrow> pystr \<Rightarrow> pystr list \<times> pystr" where
  "chop max_chars line =
     (if 0 < max_chars \<and> max_chars < length line
      then (case chop max_chars (drop max_chars line) of (cs, r) \<Rightarrow> (take max_chars line # cs, r))
      else ([], line))"
  by pat_completeness auto
termination
  by (relation "measure (\<lambda>(_, line). length line)") auto

declare chop.simps [simp del]

text \<open>The loop over the lines: \<open>buffered\<close> and \<open>buffered_chars\<close> are the local variables, the result is
  what is yielded from here on.\<close>

fun chunk_lines :: "nat \<Rightarrow> pystr list \<Rightarrow> pystr list \<Rightarrow> nat \<Rightarrow> pystr list" where
  "chunk_lines max_chars [] buffered buffered_chars = (if buffered \<noteq> [] then [concat buffered] else [])"
| "chunk_lines max_chars (line # lines) buffered buffered_chars =
     (let (pieces, rest) = chop max_chars line;
          flush = pieces \<noteq> [] \<and> buffered \<noteq> [];
          out1 = (if flush then [concat buffered] else []) @ pieces;
          buf1 = (if flush then [] else buffered); n1 = (if flush then 0 else buffered_chars);
          full = buf1 \<noteq> [] \<and> max_chars < n1 + length rest;
          out2 = (if full then [concat buf1] else []);
          buf2 = (if full then [] else buf1); n2 = (if full then 0 else n1)
      in out1 @ out2 @ chunk_lines max_chars lines (buf2 @ [rest]) (n2 + length rest))"

definition iter_text_chunks :: "pystr \<Rightarrow> nat \<Rightarrow> pystr list" where
  "iter_text_chunks t max_chars = (if t = [] then [] else chunk_lines max_chars (splitlines_keep t) [] 0)"

section \<open>Preprocessing\<close>

record PreprocessedLog =
  pl_context :: pystr
  pl_redactions :: "(pystr \<times> nat) list"
  pl_chunks_processed :: nat
  pl_error_chunks :: nat

record preprocess_state =
  ps_contexts :: "pystr list"
  ps_fallback :: pystr
  ps_redactions :: "(pystr \<times> nat) list"
  ps_chunks_processed :: nat
  ps_error_chunks :: nat

fun add_counts :: "(pystr \<times> nat) list \<Rightarrow> (pystr \<times> nat) list \<Rightarrow> (pystr \<times> nat) list" where
  "add_counts [] redactions = redactions"
| "add_counts ((kind, n) # cs) redactions = add_counts cs (dict_add kind n redactions)"

definition preprocess_chunk ::
  "unicode \<Rightarrow> int \<Rightarrow> int \<Rightarrow> pystr \<Rightarrow> preprocess_state \<Rightarrow> preprocess_state" where
  "preprocess_chunk U context_lines max_error_chunks chunk s =
     (let (sanitized, counts) = sanitize_log U chunk;
          s1 = s\<lparr>ps_chunks_processed := ps_chunks_processed s + 1,
                 ps_redactions := add_counts counts (ps_redactions s), ps_fallback := sanitized\<rparr>
      in if has_error_signal U sanitized \<and> int (ps_error_chunks s1) < max 1 max_error_chunks
         then s1\<lparr>ps_contexts := ps_contexts s1 @ [extract_error_context U sanitized context_lines 2],
                 ps_error_chunks := ps_error_chunks s1 + 1\<rparr>
         else s1)"

definition all_chunks :: "int \<Rightarrow> pystr list \<Rightarrow> pystr list" where
  "all_chunks chunk_chars raw_logs =
     concat (map (\<lambda>raw. iter_text_chunks raw (nat (max 1000 chunk_chars))) raw_logs)"

definition preprocess_new :: preprocess_state where
  "preprocess_new = \<lparr>ps_contexts = [], ps_fallback = [], ps_redactions = [],
     ps_chunks_processed = 0, ps_error_chunks = 0\<rparr>"

definition preprocess_logs :: "unicode \<Rightarrow> pystr list \<Rightarrow> int \<Rightarrow> int \<Rightarrow> int \<Rightarrow> PreprocessedLog" where
  "preprocess_logs U raw_logs chunk_chars context_lines max_error_chunks =
     (let s = fold (preprocess_chunk U context_lines max_error_chunks) (all_chunks chunk_chars raw_logs)
                preprocess_new;
          joined = join (nl @ u ''...'' @ nl) (ps_contexts s);
          context = (if joined \<noteq> [] then joined
            else if ps_fallback s \<noteq> [] then extract_error_context U (ps_fallback s) context_lines 5 else [])
      in \<lparr>pl_context = context, pl_redactions = ps_redactions s,
          pl_chunks_processed = ps_chunks_processed s, pl_error_chunks = ps_error_chunks s\<rparr>)"

definition preprocess_log :: "unicode \<Rightarrow> pystr \<Rightarrow> int \<Rightarrow> int \<Rightarrow> int \<Rightarrow> PreprocessedLog" where
  "preprocess_log U raw chunk_chars context_lines max_error_chunks =
     preprocess_logs U [raw] chunk_chars context_lines max_error_chunks"

section \<open>Properties\<close>

lemma chop_correct:
  assumes "chop n line = (cs, r)" "0 < n"
  shows "concat cs @ r = line \<and> (\<forall>c \<in> set cs. c \<noteq> [] \<and> length c \<le> n) \<and> length r \<le> n \<and> (line \<noteq> [] \<longrightarrow> r \<noteq> [])"
  using assms
proof (induction n line arbitrary: cs r rule: chop.induct)
  case (1 n line)
  show ?case
  proof (cases "n < length line")
    case True
    obtain cs' r' where rest: "chop n (drop n line) = (cs', r')" by (metis surj_pair)
    have "cs = take n line # cs'" "r = r'"
      using 1(2) rest True 1(3) by (subst (asm) chop.simps, simp)+
    with 1(1)[OF _ rest 1(3)] True 1(3) show ?thesis by auto
  next
    case False
    with 1(2) show ?thesis by (subst (asm) chop.simps) auto
  qed
qed

lemma chunk_lines_correct:
  assumes "0 < n" "[] \<notin> set lines" "[] \<notin> set buf" "k = length (concat buf)" "k \<le> n"
  shows "concat (chunk_lines n lines buf k) = concat buf @ concat lines
    \<and> (\<forall>c \<in> set (chunk_lines n lines buf k). c \<noteq> [] \<and> length c \<le> n)"
  using assms
proof (induction n lines buf k rule: chunk_lines.induct)
  case (1 n buf k)
  then show ?case by (cases buf) auto
next
  case (2 n line lines buf k)
  obtain cs r where ch: "chop n line = (cs, r)" by (metis surj_pair)
  define flush where "flush \<longleftrightarrow> cs \<noteq> [] \<and> buf \<noteq> []"
  define b1 where "b1 = (if flush then [] else buf)"
  define n1 where "n1 = (if flush then 0 else k)"
  define full where "full \<longleftrightarrow> b1 \<noteq> [] \<and> n < n1 + length r"
  define b2 where "b2 = (if full then [] else b1)"
  define n2 where "n2 = (if full then 0 else n1)"
  let ?rest = "chunk_lines n lines (b2 @ [r]) (n2 + length r)"
  have eq: "chunk_lines n (line # lines) buf k = (if flush then [concat buf] else []) @ cs
      @ (if full then [concat b1] else []) @ ?rest"
    by (simp add: ch Let_def flush_def b1_def n1_def full_def b2_def n2_def)
  note c = chop_correct[OF ch 2(2)]
  have "r \<noteq> []" using c 2(3) by auto
  have pre: "[] \<notin> set (b2 @ [r])" "n2 + length r = length (concat (b2 @ [r]))" "n2 + length r \<le> n"
    using 2(4-6) c \<open>r \<noteq> []\<close> by (auto simp: b2_def b1_def n2_def n1_def full_def)
  have ih: "concat ?rest = concat (b2 @ [r]) @ concat lines \<and> (\<forall>x \<in> set ?rest. x \<noteq> [] \<and> length x \<le> n)"
    by (rule 2(1)[OF ch[symmetric] refl flush_def refl b1_def n1_def full_def refl b2_def n2_def])
      (use pre 2(2,3) in auto)
  have cs_nil: "flush \<or> cs = [] \<or> buf = []" by (auto simp: flush_def)
  have nonempty: "concat buf \<noteq> []" if "buf \<noteq> []" using that 2(4) by (cases buf) auto
  have m1: "concat (if flush then [concat buf] else []) @ concat cs @ concat b1 = concat buf @ concat cs"
    using cs_nil by (auto simp: b1_def)
  have m2: "concat (if full then [concat b1] else []) @ concat b2 = concat b1" by (simp add: b2_def)
  have "concat (chunk_lines n (line # lines) buf k) = concat (if flush then [concat buf] else []) @ concat cs
      @ (concat (if full then [concat b1] else []) @ concat b2) @ r @ concat lines"
    unfolding eq using ih by simp
  also have "\<dots> = concat buf @ (concat cs @ r) @ concat lines" unfolding m2 using m1 by (metis append.assoc)
  finally have whole: "concat (chunk_lines n (line # lines) buf k) = concat buf @ concat (line # lines)"
    using c by simp
  have bufs: "buf \<noteq> [] \<Longrightarrow> concat buf \<noteq> [] \<and> length (concat buf) \<le> n" using nonempty 2(5,6) by auto
  have b1: "b1 \<noteq> [] \<Longrightarrow> b1 = buf" by (auto simp: b1_def split: if_splits)
  have "x \<noteq> [] \<and> length x \<le> n" if x: "x \<in> set (chunk_lines n (line # lines) buf k)" for x
  proof -
    consider "x = concat buf" "buf \<noteq> []" | "x \<in> set cs" | "x \<in> set ?rest"
      using x b1 unfolding eq full_def flush_def by (auto simp del: chunk_lines.simps split: if_splits)
    then show ?thesis
    proof cases
      case 1
      with bufs show ?thesis by simp
    next
      case 2
      with c show ?thesis by simp
    next
      case 3
      with ih show ?thesis by simp
    qed
  qed
  with whole show ?case by blast
qed

text \<open>Chunking a text loses and reorders nothing: the chunks concatenate to the text, none is
  empty and none is longer than the bound.\<close>

lemma chunks_partition_text:
  assumes "0 < n"
  shows "concat (iter_text_chunks t n) = t \<and> (\<forall>c \<in> set (iter_text_chunks t n). c \<noteq> [] \<and> length c \<le> n)"
  using chunk_lines_correct[OF assms, of "splitlines_keep t" "[]" 0] splitlines_keep_nonempty[of t]
  by (auto simp: iter_text_chunks_def)

text \<open>Accounting over the chunks.\<close>

lemma add_counts_total: "dict_get 0 k (add_counts cs d) = dict_get 0 k d + sum_list (map snd (filter (\<lambda>c. fst c = k) cs))"
  by (induction cs d rule: add_counts.induct) (auto simp: dict_add_def dict_get_def)

definition redaction_total :: "pystr \<Rightarrow> (pystr \<times> nat) list \<Rightarrow> nat" where
  "redaction_total k cs = sum_list (map snd (filter (\<lambda>c. fst c = k) cs))"

lemma preprocess_chunk_simps:
  "ps_chunks_processed (preprocess_chunk U cl m ch s) = ps_chunks_processed s + 1"
  "dict_get 0 k (ps_redactions (preprocess_chunk U cl m ch s))
     = dict_get 0 k (ps_redactions s) + redaction_total k (snd (sanitize_log U ch))"
  "int (ps_error_chunks s) \<le> max 1 m \<Longrightarrow> int (ps_error_chunks (preprocess_chunk U cl m ch s)) \<le> max 1 m"
  "length (ps_contexts s) = ps_error_chunks s \<Longrightarrow>
     length (ps_contexts (preprocess_chunk U cl m ch s)) = ps_error_chunks (preprocess_chunk U cl m ch s)"
  by (auto simp: preprocess_chunk_def Let_def add_counts_total redaction_total_def split: prod.splits)

lemma fold_preprocess:
  assumes "int (ps_error_chunks s) \<le> max 1 m" "length (ps_contexts s) = ps_error_chunks s"
  shows "ps_chunks_processed (fold (preprocess_chunk U cl m) chs s) = ps_chunks_processed s + length chs
    \<and> dict_get 0 k (ps_redactions (fold (preprocess_chunk U cl m) chs s)) = dict_get 0 k (ps_redactions s)
        + sum_list (map (\<lambda>ch. redaction_total k (snd (sanitize_log U ch))) chs)
    \<and> int (ps_error_chunks (fold (preprocess_chunk U cl m) chs s)) \<le> max 1 m"
  using assms
proof (induction chs arbitrary: s)
  case (Cons ch chs)
  from Cons.IH[of "preprocess_chunk U cl m ch s"] Cons.prems show ?case
    by (simp add: preprocess_chunk_simps)
qed simp

text \<open>Preprocessing counts every chunk once, reports for each kind of credential exactly the
  redactions made in all chunks, and takes context from at most \<open>max_error_chunks\<close> of them (one if
  the setting is lower).\<close>

lemma preprocess_accounting:
  "(case preprocess_logs U raws chunk_chars cl m of p \<Rightarrow>
      pl_chunks_processed p = length (all_chunks chunk_chars raws)
      \<and> dict_get 0 k (pl_redactions p)
          = sum_list (map (\<lambda>ch. redaction_total k (snd (sanitize_log U ch))) (all_chunks chunk_chars raws))
      \<and> int (pl_error_chunks p) \<le> max 1 m)
   \<and> concat (all_chunks chunk_chars raws) = concat raws"
proof
  have "concat (iter_text_chunks r (nat (max 1000 chunk_chars))) = r" for r
    using chunk_lines_correct[of "nat (max 1000 chunk_chars)" "splitlines_keep r" "[]" 0]
      splitlines_keep_nonempty[of r] by (auto simp: iter_text_chunks_def)
  then show "concat (all_chunks chunk_chars raws) = concat raws"
    by (induction raws) (auto simp: all_chunks_def)
qed (use fold_preprocess[of preprocess_new m U cl "all_chunks chunk_chars raws" k] in
    \<open>simp add: preprocess_logs_def Let_def preprocess_new_def dict_get_def\<close>)

end
