(* ===== verification/PyPath.thy ===== *)
theory PyPath
  imports PyText
begin

text \<open>
  \<open>pathlib.PurePosixPath\<close>: a path is its root (empty, one slash, or exactly two) and its components
  without empty ones and single dots.
\<close>

record posix_path =
  pp_root :: pystr
  pp_tail :: "pystr list"

definition path_root :: "pystr \<Rightarrow> pystr" where
  "path_root s = (if \<not> prefix (u ''/'') s then []
     else if prefix (u ''//'') s \<and> \<not> prefix (u ''///'') s then u ''//'' else u ''/'')"

definition PurePosixPath :: "pystr \<Rightarrow> posix_path" where
  "PurePosixPath s = \<lparr>pp_root = path_root s,
     pp_tail = filter (\<lambda>c. c \<noteq> [] \<and> c \<noteq> u ''.'') (split_on (u ''/'') s)\<rparr>"

definition path_parts :: "posix_path \<Rightarrow> pystr list" where
  "path_parts p = (if pp_root p = [] then [] else [pp_root p]) @ pp_tail p"

definition path_str :: "posix_path \<Rightarrow> pystr" where
  "path_str p = (if pp_root p = [] \<and> pp_tail p = [] then u ''.'' else pp_root p @ join (u ''/'') (pp_tail p))"

definition path_name :: "posix_path \<Rightarrow> pystr" where
  "path_name p = (if pp_tail p = [] then [] else last (pp_tail p))"

text \<open>The suffix: the last dot and what follows, unless the dot is first or last.\<close>

definition path_suffix :: "posix_path \<Rightarrow> pystr" where
  "path_suffix p = (let name = path_name p; after = rev (takeWhile (\<lambda>c. c \<noteq> 46) (rev name));
       i = length name - length after
     in if after = name \<or> after = [] \<or> i = 1 then [] else 46 # after)"

end
