(* ===== verification/Patching.thy ===== *)
theory Patching
  imports Sanitizer PyPath
begin

text \<open>
  Fix diffs, \<open>src/pipelens/patching.py\<close>: reading version bumps out of a log, proposing diffs for
  pinned requirements, applying a unified diff strictly, and the checks a diff must pass before it
  is published. The document parsers (\<open>yaml\<close>, \<open>tomllib\<close>, \<open>json\<close>) and \<open>difflib.unified_diff\<close> are the
  record \<open>patch_lib\<close>; of a parser only whether it accepts a text matters here.
\<close>

section \<open>Constants\<close>

definition MAX_PATCH_CHARS :: nat where "MAX_PATCH_CHARS = 20000"
definition MAX_CHANGED_LINES :: nat where "MAX_CHANGED_LINES = 200"
definition MAX_LOG_NAMED_MANIFESTS :: nat where "MAX_LOG_NAMED_MANIFESTS = 5"

definition HUNK_HEADER :: pattern where
  "HUNK_HEADER =
     \<lparr>pt_rx = seqs [Bol, lits (u ''@@ -''), Grp 1 (Rep True 1 None (Cls False [IDigit])), Rep
     True 0 (Some 1) (seqs [Lit 44, Grp 2 (Rep True 1 None (Cls False [IDigit]))]), lits (u '' +''),
     Grp 3 (Rep True 1 None (Cls False [IDigit])), Rep True 0 (Some 1) (seqs [Lit 44, Grp 4 (Rep
     True 1 None (Cls False [IDigit]))]), lits (u '' @@'')], pt_icase = False\<rparr>"

definition PIP_UNSATISFIED :: pattern where
  "PIP_UNSATISFIED =
     \<lparr>pt_rx = seqs [lits (u ''could not find a version that satisfies the requirement ''),
     Grp 1 (seqs [Cls False [IRange 65 90, IRange 97 122, IRange 48 57], Rep True 0 None (Cls False
     [IRange 65 90, IRange 97 122, IRange 48 57, ILit 46, ILit 95, ILit 45])]), lits (u ''==''), Grp
     2 (Rep True 1 None (Cls True [ISpace, ILit 59, ILit 44, ILit 40, ILit 41])), Rep True 0 None
     (AnyChar), lits (u ''(from versions: ''), Grp 3 (Rep True 0 None (Cls True [ILit 41])), Lit
     41], pt_icase = True\<rparr>"

definition TABLE_SEPARATOR :: pattern where
  "TABLE_SEPARATOR =
     \<lparr>pt_rx = seqs [Rep True 0 None (Cls False [ISpace]), Cls False [ILit 9474, ILit 124],
     Rep True 0 None (Cls False [ISpace])], pt_icase = False\<rparr>"

definition TABLE_BORDER_CHARS :: pystr where
  "TABLE_BORDER_CHARS = [9484, 9500, 9492, 9472] @ u ''+-=''"

definition MERGED_SCANNER_COLUMNS :: "pystr list" where
  "MERGED_SCANNER_COLUMNS = [u ''vulnerability'', u ''severity'', u ''status'', u ''installed version'',
     u ''fixed version'']"

definition VERSION_TOKEN :: pattern where
  "VERSION_TOKEN =
     \<lparr>pt_rx = seqs [Bol, Cls False [IRange 48 57], Rep True 0 None (Cls False [IRange 65 90,
     IRange 97 122, IRange 48 57, ILit 46, ILit 43, ILit 95, ILit 58, ILit 126, ILit 45]), Eol],
     pt_icase = False\<rparr>"

definition PINNED_VERSION_VALUE :: pattern where
  "PINNED_VERSION_VALUE =
     \<lparr>pt_rx = seqs [lits (u ''==''), Rep True 1 None (Cls True [ISpace, ILit 59, ILit 44,
     ILit 34, ILit 39, ILit 92])], pt_icase = False\<rparr>"

definition WORKFLOW_PREFIX :: pystr where
  "WORKFLOW_PREFIX = u ''.github/workflows/''"

datatype doc_format = YAML | TOML | JSON

definition STRUCTURED_FORMATS :: "pystr \<Rightarrow> doc_format option" where
  "STRUCTURED_FORMATS sfx = (if sfx = u ''.yml'' \<or> sfx = u ''.yaml'' then Some YAML
     else if sfx = u ''.toml'' then Some TOML else if sfx = u ''.json'' then Some JSON else None)"

definition FORBIDDEN_ADDITIONS :: "(pystr \<times> pattern) list" where
  "FORBIDDEN_ADDITIONS = [
     ([50896, 44201] @ u '' '' @ [49828, 53356, 47549, 53944, 47484] @ u '' '' @ [49528, 47196] @ u
       '' '' @ [49892, 54665],
      \<lparr>pt_rx = alts [seqs [WordB, alts [lits (u ''curl''), lits (u ''wget'')], WordB, Rep True
     0 None (Cls True [ILit 10]), Lit 124, Rep True 0 None (Cls False [ISpace]), Rep True 0 (Some 1)
     (seqs [lits (u ''sudo''), Rep True 1 None (Cls False [ISpace])]), Rep True 0 (Some 1) (alts
     [lits (u ''ba''), Lit 122, lits (u ''da'')]), lits (u ''sh''), WordB], seqs [WordB, Rep True 0
     (Some 1) (alts [lits (u ''ba''), Lit 122]), lits (u ''sh''), WordB, Rep True 0 None (Cls True
     [ILit 10]), lits (u ''$(''), alts [lits (u ''curl''), lits (u ''wget'')], WordB]], pt_icase =
     True\<rparr>),
     (u ''secret'' @ [183, 53664, 53360] @ u '' '' @ [52280, 51312],
      \<lparr>pt_rx = alts [seqs [lits (u ''${{''), Rep True 0 None (Cls False [ISpace]), alts [lits
     (u ''secrets.''), lits (u ''github.token'')]], seqs [WordB, alts [lits (u ''GITHUB_TOKEN''),
     lits (u ''ACTIONS_RUNTIME_TOKEN''), lits (u ''ACTIONS_ID_TOKEN_REQUEST_TOKEN'')], WordB]],
     pt_icase = True\<rparr>),
     ([51064, 53076, 46377, 46108] @ u '' '' @ [47749, 47161] @ u '' '' @ [49892, 54665],
      \<lparr>pt_rx = alts [seqs [WordB, lits (u ''base64''), Rep True 1 None (Cls False [ISpace]),
     alts [lits (u ''-d''), lits (u ''--decode'')], WordB], seqs [WordB, lits (u ''eval''), Cls
     False [ISpace]]], pt_icase = True\<rparr>),
     ([49892, 54665] @ u '' '' @ [44428, 54620] @ u '' '' @ [52628, 44032],
      \<lparr>pt_rx = seqs [WordB, lits (u ''chmod''), Rep True 1 None (Cls False [ISpace]), alts
     [seqs [Rep True 0 None (Cls False [ILit 117, ILit 103, ILit 111, ILit 97]), lits (u ''+x'')],
     seqs [Rep True 0 (Some 1) (Lit 48), Rep True 0 None (Cls False [IRange 48 55]), Cls False [ILit
     49, ILit 51, ILit 53, ILit 55], Rep True 0 None (Cls False [IRange 48 55])]], WordB], pt_icase
     = True\<rparr>)]"

definition WORKFLOW_SENSITIVE :: "(pystr \<times> pattern) list" where
  "WORKFLOW_SENSITIVE = [
     (u ''workflow '' @ [44428, 54620] @ u '' '' @ [48320, 44221],
      \<lparr>pt_rx = alts [seqs [Bol, Rep True 0 None (Cls False [ISpace]), lits (u
     ''permissions''), Rep True 0 None (Cls False [ISpace]), Lit 58], seqs [WordB, alts [lits (u
     ''actions''), lits (u ''checks''), lits (u ''contents''), lits (u ''deployments''), lits (u
     ''id-token''), lits (u ''issues''), lits (u ''packages''), lits (u ''pull-requests''), lits (u
     ''security-events''), lits (u ''statuses'')], Rep True 0 None (Cls False [ISpace]), Lit 58, Rep
     True 0 None (Cls False [ISpace]), alts [lits (u ''read''), lits (u ''write'')], WordB]],
     pt_icase = True\<rparr>),
     (u ''workflow '' @ [53944, 47532, 44144] @ u '' '' @ [48320, 44221],
      \<lparr>pt_rx = alts [seqs [Bol, Rep True 0 None (Cls False [ISpace]), lits (u ''on''), Rep
     True 0 None (Cls False [ISpace]), Lit 58], seqs [WordB, alts [lits (u ''pull_request_target''),
     lits (u ''workflow_run'')], WordB]], pt_icase = True\<rparr>)]"

definition PIP_COMPILE_HEADER :: pattern where
  "PIP_COMPILE_HEADER =
     \<lparr>pt_rx = seqs [Bol, Lit 35, Rep True 1 None (Cls False [ISpace]), Grp 1 (seqs [lits (u
     ''pip-compile''), Cls False [ISpace], Rep True 0 None (Cls True [ILit 10])]), Eol], pt_icase =
     False\<rparr>"

definition LOG_NAMED_MANIFEST :: pattern where
  "LOG_NAMED_MANIFEST =
     \<lparr>pt_rx = seqs [NotBehind [IWord, ILit 46, ILit 47, ILit 45], Grp 1 (seqs [Rep True 0
     (Some 1) (lits (u ''./'')), Rep True 0 None (seqs [Cls False [IWord, ILit 45], Rep True 0 None
     (Cls False [IWord, ILit 46, ILit 45]), Lit 47]), alts [seqs [lits (u ''requirements''), Rep
     True 0 None (Cls False [IWord, ILit 46, ILit 45]), lits (u ''.txt'')], seqs [lits (u
     ''constraints''), Rep True 0 None (Cls False [IWord, ILit 46, ILit 45]), lits (u ''.txt'')],
     lits (u ''pyproject.toml'')]]), Ahead True (Cls False [IWord, ILit 46, ILit 45])], pt_icase =
     True\<rparr>"

definition PARENTHESISED_TAIL :: pattern where
  "PARENTHESISED_TAIL =
     \<lparr>pt_rx = seqs [Rep True 0 None (Cls False [ISpace]), Lit 40, Rep True 0 None (AnyChar),
     Lit 41, Eol], pt_icase = False\<rparr>"

record VersionBump =
  vb_package :: pystr
  vb_current :: pystr
  vb_target :: pystr
  vb_reason :: pystr

record Hunk =
  hk_old_start :: nat
  hk_old_lines :: "pystr list"
  hk_new_lines :: "pystr list"

record patch_lib =
  pl_yaml_ok :: "pystr \<Rightarrow> bool"
  pl_toml_ok :: "pystr \<Rightarrow> bool"
  pl_json_ok :: "pystr \<Rightarrow> bool"
  pl_unified_diff :: "pystr list \<Rightarrow> pystr list \<Rightarrow> pystr \<Rightarrow> pystr \<Rightarrow> pystr list"

section \<open>Applying a unified diff\<close>

definition is_crlf :: "nat \<Rightarrow> bool" where
  "is_crlf c \<longleftrightarrow> c = 13 \<or> c = 10"

definition strip_newline :: "pystr \<Rightarrow> pystr" where
  "strip_newline line = rstrip_if is_crlf line"

text \<open>\<open>int()\<close> of a run of decimal digits; the interpreter refuses more than 4300 of them.\<close>

definition int_of_digits :: "unicode \<Rightarrow> pystr \<Rightarrow> exn + nat" where
  "int_of_digits U s = (if 4300 < length s then Inl (ValueError (u ''Exceeds the limit for integer string conversion''))
     else Inr (foldl (\<lambda>n c. 10 * n + uc_digit_value U c) 0 s))"

definition msg_no_header :: pystr where
  "msg_no_header = u ''diff'' @ [50640] @ u '' hunk '' @ [54756, 45908, 44032] @ u '' '' @ [50630, 49845, 45768,
       45796] @ u ''.''"
definition msg_bad_line :: pystr where
  "msg_bad_line = u ''diff'' @ [50640] @ u '' '' @ [54644, 49437, 54624] @ u '' '' @ [49688] @ u '' '' @
       [50630, 45716] @ u '' '' @ [51460, 51060] @ u '' '' @ [51080, 49845, 45768, 45796] @ u ''.''"
definition msg_no_hunk :: pystr where
  "msg_no_hunk = u ''diff'' @ [50640] @ u '' hunk'' @ [44032] @ u '' '' @ [50630, 49845, 45768, 45796] @ u
       ''.''"
definition msg_mismatch :: pystr where
  "msg_mismatch = u ''diff'' @ [51032] @ u '' '' @ [44592, 51316] @ u '' '' @ [51460, 51060] @ u '' head '' @
       [54028, 51068] @ u '' '' @ [45236, 50857, 44284] @ u '' '' @ [51068, 52824, 54616, 51648] @ u
       '' '' @ [50506, 49845, 45768, 45796] @ u ''.''"
definition msg_ambiguous :: pystr where
  "msg_ambiguous = u ''diff'' @ [47484] @ u '' '' @ [51201, 50857, 54624] @ u '' '' @ [50948, 52824, 44032] @ u
       '' '' @ [54616, 45208, 47196] @ u '' '' @ [51221, 54644, 51648, 51648] @ u '' '' @ [50506,
       49845, 45768, 45796] @ u ''.''"

text \<open>The body lines of a hunk. The lists of finished hunks and of the current one are built in place
  in the source; \<open>hunks\<close> is the finished ones in order and \<open>current\<close> the one still growing.\<close>

definition add_line :: "bool \<Rightarrow> bool \<Rightarrow> pystr \<Rightarrow> Hunk \<Rightarrow> Hunk" where
  "add_line old new body h = h\<lparr>
     hk_old_lines := hk_old_lines h @ (if old then [body] else []),
     hk_new_lines := hk_new_lines h @ (if new then [body] else [])\<rparr>"

definition finish_hunk :: "Hunk list \<Rightarrow> Hunk option \<Rightarrow> Hunk list" where
  "finish_hunk hunks current = hunks @ (case current of None \<Rightarrow> [] | Some h \<Rightarrow> [h])"

definition file_marker :: "pystr \<Rightarrow> bool" where
  "file_marker line \<longleftrightarrow> startswith line (u ''---'') \<or> startswith line (u ''+++'')"

fun parse_lines :: "unicode \<Rightarrow> pystr list \<Rightarrow> Hunk list \<Rightarrow> Hunk option \<Rightarrow> exn + Hunk list" where
  "parse_lines U [] hunks current = Inr (finish_hunk hunks current)"
| "parse_lines U (raw # raws) hunks current =
     (let line = strip_newline raw in
      case rx_prefix U HUNK_HEADER line of
        Some m \<Rightarrow> bindE (int_of_digits U (the (group_text 1 m)))
          (\<lambda>n. parse_lines U raws (finish_hunk hunks current)
             (Some \<lparr>hk_old_start = n, hk_old_lines = [], hk_new_lines = []\<rparr>))
      | None \<Rightarrow> (case current of
          None \<Rightarrow> if file_marker line \<or> startswith line (u ''diff '') \<or> startswith line (u ''index '')
              then parse_lines U raws hunks current
            else if strip line \<noteq> [] then Inl (PatchError msg_no_header)
            else parse_lines U raws hunks current
        | Some h \<Rightarrow> if startswith line [92] then parse_lines U raws hunks current
            else (let (marker, body) = (if line \<noteq> [] then (hd line, drop 1 raw) else (32, nl))
              in if marker = 32 then parse_lines U raws hunks (Some (add_line True True body h))
                 else if marker = 45 then parse_lines U raws hunks (Some (add_line True False body h))
                 else if marker = 43 then parse_lines U raws hunks (Some (add_line False True body h))
                 else Inl (PatchError msg_bad_line))))"

definition parse_hunks :: "unicode \<Rightarrow> pystr \<Rightarrow> exn + Hunk list" where
  "parse_hunks U patch = bindE (parse_lines U (splitlines_keep patch) [] None)
     (\<lambda>hunks. if hunks = [] then Inl (PatchError msg_no_hunk) else Inr hunks)"

definition hunk_matches :: "pystr list \<Rightarrow> pystr list \<Rightarrow> nat \<Rightarrow> bool" where
  "hunk_matches lines expected start = (let window = take (length expected) (drop start lines)
     in length window = length expected \<and> map strip_newline window = expected)"

definition locate_hunk :: "pystr list \<Rightarrow> Hunk \<Rightarrow> nat \<Rightarrow> exn + nat" where
  "locate_hunk lines h cursor =
     (let expected = map strip_newline (hk_old_lines h); stated = hk_old_start h - 1;
          candidates = filter (hunk_matches lines expected) [cursor..<length lines + 1 - length expected]
      in if cursor \<le> stated \<and> hunk_matches lines expected stated then Inr stated
         else if length candidates = 1 then Inr (hd candidates)
         else if candidates = [] then Inl (PatchError msg_mismatch)
         else Inl (PatchError msg_ambiguous))"

fun apply_hunks :: "pystr list \<Rightarrow> Hunk list \<Rightarrow> nat \<Rightarrow> pystr list \<Rightarrow> exn + pystr list" where
  "apply_hunks lines [] cursor result = Inr (result @ drop cursor lines)"
| "apply_hunks lines (h # hs) cursor result = bindE (locate_hunk lines h cursor)
     (\<lambda>start. apply_hunks lines hs (start + length (hk_old_lines h))
        (result @ slice cursor start lines @ hk_new_lines h))"

definition apply_unified_diff :: "unicode \<Rightarrow> pystr \<Rightarrow> pystr \<Rightarrow> exn + pystr" where
  "apply_unified_diff U original patch = bindE (parse_hunks U patch)
     (\<lambda>hunks. bindE (apply_hunks (splitlines_keep original) hunks 0 []) (\<lambda>ls. Inr (concat ls)))"

definition render_unified_diff :: "patch_lib \<Rightarrow> pystr \<Rightarrow> pystr \<Rightarrow> pystr \<Rightarrow> pystr" where
  "render_unified_diff L path original updated = concat (pl_unified_diff L (splitlines_keep original)
     (splitlines_keep updated) (u ''a/'' @ path) (u ''b/'' @ path))"

section \<open>What applying a diff means\<close>

text \<open>
  \<open>patched ls hs res\<close>: the lines \<open>ls\<close> consist of gaps and, in order, one block for each hunk that agrees
  with the hunk's old lines up to line ends; \<open>res\<close> has the hunk's new lines in place of each block.
\<close>

inductive patched :: "pystr list \<Rightarrow> Hunk list \<Rightarrow> pystr list \<Rightarrow> bool" where
  finished: "patched ls [] ls"
| hunk: "map strip_newline old = map strip_newline (hk_old_lines h) \<Longrightarrow> patched rest hs res
    \<Longrightarrow> patched (gap @ old @ rest) (h # hs) (gap @ hk_new_lines h @ res)"

inductive_cases patched_ConsE: "patched ls (h # hs) res"

lemma locate_hunk_sound:
  assumes "locate_hunk lines h cursor = Inr start"
  shows "cursor \<le> start \<and> hunk_matches lines (map strip_newline (hk_old_lines h)) start"
proof (cases "cursor \<le> hk_old_start h - 1 \<and> hunk_matches lines (map strip_newline (hk_old_lines h)) (hk_old_start h - 1)")
  case False
  let ?c = "filter (hunk_matches lines (map strip_newline (hk_old_lines h)))
      [cursor..<length lines + 1 - length (map strip_newline (hk_old_lines h))]"
  have "length ?c = 1" "start = hd ?c"
    using assms False by (auto simp: locate_hunk_def Let_def split: if_splits)
  then have "start \<in> set ?c" by (metis One_nat_def length_0_conv list.set_sel(1) nat.distinct(1))
  then show ?thesis by auto
qed (use assms in \<open>auto simp: locate_hunk_def Let_def\<close>)

lemma split_at_hunk:
  assumes "cursor \<le> start"
  shows "drop cursor lines = slice cursor start lines @ take n (drop start lines) @ drop (start + n) lines"
proof -
  have "drop cursor lines = slice cursor start lines @ drop start lines"
    using assms by (metis append_take_drop_id drop_drop drop_take le_add_diff_inverse2 slice_def)
  then show ?thesis by (metis append_take_drop_id add.commute drop_drop)
qed

lemma apply_hunks_patched:
  "apply_hunks lines hs cursor result = Inr ls \<Longrightarrow> \<exists>res. patched (drop cursor lines) hs res \<and> ls = result @ res"
proof (induction lines hs cursor result arbitrary: ls rule: apply_hunks.induct)
  case (1 lines cursor result)
  then show ?case by (auto intro: patched.finished)
next
  case (2 lines h hs cursor result)
  obtain start where loc: "locate_hunk lines h cursor = Inr start"
    and rest: "apply_hunks lines hs (start + length (hk_old_lines h))
      (result @ slice cursor start lines @ hk_new_lines h) = Inr ls"
    using 2(2) by (auto simp: bindE_eq_Inr)
  obtain res where res: "patched (drop (start + length (hk_old_lines h)) lines) hs res"
    "ls = (result @ slice cursor start lines @ hk_new_lines h) @ res"
    using 2(1)[OF rest] by blast
  note s = locate_hunk_sound[OF loc]
  have "map strip_newline (take (length (hk_old_lines h)) (drop start lines)) = map strip_newline (hk_old_lines h)"
    using s by (simp add: hunk_matches_def Let_def)
  from patched.hunk[OF this res(1), of "slice cursor start lines"] s res(2) show ?case
    using split_at_hunk[of cursor start lines "length (hk_old_lines h)"] by auto
qed

text \<open>C26: a diff that applies has at least one hunk, and the result is the original with, for every
  hunk in order, one block of lines that agrees with the hunk's context and removed lines replaced
  by its context and added lines; everything between the blocks is unchanged.\<close>

theorem apply_unified_diff_sound:
  assumes "apply_unified_diff U original patch = Inr updated"
  shows "\<exists>hunks res. parse_hunks U patch = Inr hunks \<and> hunks \<noteq> []
    \<and> patched (splitlines_keep original) hunks res \<and> updated = concat res"
proof -
  obtain hunks ls where p: "parse_hunks U patch = Inr hunks"
    and a: "apply_hunks (splitlines_keep original) hunks 0 [] = Inr ls" and "updated = concat ls"
    using assms by (auto simp: apply_unified_diff_def bindE_eq_Inr)
  moreover have "hunks \<noteq> []" using p by (auto simp: parse_hunks_def bindE_eq_Inr split: if_splits)
  ultimately show ?thesis using apply_hunks_patched[OF a] by auto
qed

definition sample_patch :: pystr where
  "sample_patch = u ''@@ -1 +1 @@'' @ nl @ u ''-a==1'' @ nl @ u ''+a==2'' @ nl"

theorem apply_unified_diff_sound_witness:
  "apply_unified_diff ascii (u ''a==1'' @ nl @ u ''b'' @ nl) sample_patch = Inr (u ''a==2'' @ nl @ u ''b'' @ nl)
   \<and> (\<exists>hunks res. parse_hunks ascii sample_patch = Inr hunks \<and> hunks \<noteq> []
      \<and> patched (splitlines_keep (u ''a==1'' @ nl @ u ''b'' @ nl)) hunks res)"
proof
  show a: "apply_unified_diff ascii (u ''a==1'' @ nl @ u ''b'' @ nl) sample_patch = Inr (u ''a==2'' @ nl @ u ''b'' @ nl)"
    by code_simp
  from apply_unified_diff_sound[OF a] show "\<exists>hunks res. parse_hunks ascii sample_patch = Inr hunks \<and> hunks \<noteq> []
      \<and> patched (splitlines_keep (u ''a==1'' @ nl @ u ''b'' @ nl)) hunks res" by blast
qed

end
