(* ===== verification/Patch_Check.thy ===== *)
theory Patch_Check
  imports Patching
begin

text \<open>
  The rest of \<open>src/pipelens/patching.py\<close>: version bumps found in a log (pip messages and scanner
  tables), the diffs proposed for them, and the checks that decide which diffs are published. Files
  are the dictionary from path to content as an association list with distinct keys.
\<close>

section \<open>Version bumps\<close>

type_synonym table_row = "(pystr \<times> pystr) list"

definition row_get :: "pystr \<Rightarrow> table_row \<Rightarrow> pystr" where
  "row_get k row = dict_get [] k row"

definition scanner_row_bump :: "unicode \<Rightarrow> table_row \<Rightarrow> VersionBump option" where
  "scanner_row_bump U row =
     (if uc_lower U (row_get (u ''status'') row) \<noteq> u ''fixed'' then None
      else (let package = rx_sub U PARENTHESISED_TAIL (\<lambda>_. []) (row_get (u ''library'') row);
                current = row_get (u ''installed version'') row;
                target = strip (hd (split_on (u '','') (row_get (u ''fixed version'') row)))
            in if rx_prefix U VERSION_TOKEN current = None \<or> rx_prefix U VERSION_TOKEN target = None
                  \<or> current = target then None
               else Some \<lparr>vb_package = package, vb_current = current, vb_target = target,
                 vb_reason = (case map_of row (u ''vulnerability'') of
                     None \<Rightarrow> [48372, 50504] | Some v \<Rightarrow> v) @ u '' '' @ [49688, 51221] @ u '' '' @ [48260, 51204]\<rparr>))"

text \<open>The dictionary from column names to positions; a repeated name keeps its last position.\<close>

fun header_columns :: "nat \<Rightarrow> pystr list \<Rightarrow> (pystr \<times> nat) list \<Rightarrow> (pystr \<times> nat) list" where
  "header_columns i [] cols = cols"
| "header_columns i (h # hs) cols = header_columns (i + 1) hs (dict_put h i cols)"

definition index_error :: exn where
  "index_error = OtherError (u ''IndexError'')"

definition read_row :: "(pystr \<times> nat) list \<Rightarrow> pystr list \<Rightarrow> exn + table_row" where
  "read_row cols cells = mapE (\<lambda>(name, i). if i < length cells then Inr (name, cells ! i)
     else Inl index_error) cols"

fun merge_cells :: "pystr list \<Rightarrow> table_row \<Rightarrow> table_row \<Rightarrow> table_row" where
  "merge_cells [] previous row = row"
| "merge_cells (name # names) previous row =
     merge_cells names previous (if row_get name row = [] \<and> row_get name previous \<noteq> []
       then dict_put name (row_get name previous) row else row)"

definition is_table_bar :: "nat \<Rightarrow> bool" where
  "is_table_bar c \<longleftrightarrow> c = 9474 \<or> c = 124"

definition table_cells :: "unicode \<Rightarrow> pystr \<Rightarrow> pystr list" where
  "table_cells U line = map strip (rx_split U TABLE_SEPARATOR
     (rstrip_if is_table_bar (lstrip_if is_table_bar (strip line))))"

record scanner_state =
  sc_columns :: "(pystr \<times> nat) list option"
  sc_previous :: table_row
  sc_bumps :: "VersionBump list"

definition scanner_data_row :: "unicode \<Rightarrow> (pystr \<times> nat) list \<Rightarrow> pystr list \<Rightarrow> scanner_state \<Rightarrow> exn + scanner_state" where
  "scanner_data_row U cols cells st = bindE (read_row cols cells) (\<lambda>row.
     let lib = row_get (u ''library'') row
     in if lib = [] \<or> hd lib \<in> {9500, 9532, 9508, 9472} then Inr st
        else (let row' = merge_cells MERGED_SCANNER_COLUMNS (sc_previous st) row
          in Inr (st\<lparr>sc_previous := row', sc_bumps := sc_bumps st @ (case scanner_row_bump U row' of
               None \<Rightarrow> [] | Some b \<Rightarrow> [b])\<rparr>)))"

text \<open>The body of the loop over the lines of the log.\<close>

definition scanner_line :: "unicode \<Rightarrow> pystr \<Rightarrow> scanner_state \<Rightarrow> exn + scanner_state" where
  "scanner_line U line st =
     (if 9474 \<notin> set line \<and> length (filter (\<lambda>c. c = 124) line) < 4
      then Inr (if strip line \<noteq> [] \<and> hd (lstrip_if is_space line) \<notin> set TABLE_BORDER_CHARS
        then st\<lparr>sc_columns := None\<rparr> else st)
      else (let cells = table_cells U line; header = map (uc_lower U) cells
        in if u ''library'' \<in> set header \<and> u ''installed version'' \<in> set header \<and> u ''fixed version'' \<in> set header
           then Inr (st\<lparr>sc_columns := Some (header_columns 0 header []), sc_previous := []\<rparr>)
           else (case sc_columns st of
               None \<Rightarrow> Inr st
             | Some cols \<Rightarrow> if length cells < length cols then Inr st else scanner_data_row U cols cells st)))"

fun foldE :: "('a \<Rightarrow> 's \<Rightarrow> exn + 's) \<Rightarrow> 'a list \<Rightarrow> 's \<Rightarrow> exn + 's" where
  "foldE f [] s = Inr s"
| "foldE f (x # xs) s = bindE (f x s) (foldE f xs)"

definition scanner_table_bumps :: "unicode \<Rightarrow> pystr \<Rightarrow> exn + VersionBump list" where
  "scanner_table_bumps U lg = bindE (foldE (scanner_line U) (splitlines lg)
       \<lparr>sc_columns = None, sc_previous = [], sc_bumps = []\<rparr>) (\<lambda>st. Inr (sc_bumps st))"

definition pip_bump :: "unicode \<Rightarrow> pystr \<Rightarrow> VersionBump list" where
  "pip_bump U line = (case rx_search U PIP_UNSATISFIED line of
       None \<Rightarrow> []
     | Some m \<Rightarrow>
         (let versions = filter (\<lambda>v. v \<noteq> []) (map strip (split_on (u '','') (the (group_text 3 (m_pos m)))));
              available = filter (\<lambda>v. rx_prefix U VERSION_TOKEN v \<noteq> None) versions
          in if available = [] then []
             else [\<lparr>vb_package = the (group_text 1 (m_pos m)), vb_current = the (group_text 2 (m_pos m)),
                    vb_target = last available, vb_reason = [49444, 52824] @ u '' '' @ [44032, 45733, 54620] @ u '' '' @ [52572, 49888] @ u '' '' @
       [48260, 51204]\<rparr>]))"

definition bump_key :: "unicode \<Rightarrow> VersionBump \<Rightarrow> pystr \<times> pystr" where
  "bump_key U b = (uc_lower U (vb_package b), vb_current b)"

fun unique_bumps :: "unicode \<Rightarrow> VersionBump list \<Rightarrow> VersionBump list \<Rightarrow> VersionBump list" where
  "unique_bumps U [] unique = unique"
| "unique_bumps U (b # bs) unique =
     unique_bumps U bs (if bump_key U b \<in> set (map (bump_key U) unique) then unique else unique @ [b])"

definition find_version_bumps :: "unicode \<Rightarrow> pystr \<Rightarrow> exn + VersionBump list" where
  "find_version_bumps U lg = bindE (scanner_table_bumps U lg)
     (\<lambda>table. Inr (unique_bumps U (concat (map (pip_bump U) (splitlines lg)) @ table) []))"

text \<open>The loop of \<open>manifest_paths_in_log\<close>.\<close>

fun manifest_loop :: "pystr list \<Rightarrow> pystr list \<Rightarrow> pystr list" where
  "manifest_loop [] paths = paths"
| "manifest_loop (g # gs) paths =
     (let path = removeprefix g (u ''./'')
      in if u ''..'' \<in> set (path_parts (PurePosixPath path)) \<or> path \<in> set paths then manifest_loop gs paths
         else (let paths' = paths @ [path]
           in if length paths' = MAX_LOG_NAMED_MANIFESTS then paths' else manifest_loop gs paths'))"

definition manifest_paths_in_log :: "unicode \<Rightarrow> pystr \<Rightarrow> pystr list" where
  "manifest_paths_in_log U lg =
     manifest_loop (map (\<lambda>m. the (group_text 1 (m_pos m))) (finditer U LOG_NAMED_MANIFEST lg)) []"

section \<open>Proposing diffs\<close>

text \<open>The pattern that \<open>propose_version_patches\<close> builds for a bump.\<close>

definition bump_pattern :: "VersionBump \<Rightarrow> pattern" where
  "bump_pattern b = \<lparr>pt_rx = seqs [NotBehind [IRange 65 90, IRange 97 122, IRange 48 57, ILit 46, ILit 95, ILit 45],
       lits (vb_package b), lits (u ''==''), lits (vb_current b),
       Ahead True (Cls False [IRange 48 57, IRange 65 90, IRange 97 122, ILit 46, ILit 43])], pt_icase = True\<rparr>"

text \<open>
  The replacement is a template of \<open>re.sub\<close>, where a backslash starts an escape. \<open>template_escape\<close>
  takes the text after a backslash and returns the character and how many code points it used; a
  reference to a group is an error, since the pattern has none, and so is an unknown letter.
\<close>

definition is_octal :: "nat \<Rightarrow> bool" where
  "is_octal c \<longleftrightarrow> 48 \<le> c \<and> c \<le> 55"

definition octal_value :: "pystr \<Rightarrow> nat" where
  "octal_value s = foldl (\<lambda>n c. 8 * n + (c - 48)) 0 s"

definition control_escapes :: "(nat \<times> nat) list" where
  "control_escapes = [(97, 7), (98, 8), (102, 12), (110, 10), (114, 13), (116, 9), (118, 11), (92, 92)]"

definition template_escape :: "pystr \<Rightarrow> exn + pystr \<times> nat" where
  "template_escape s = (case s of
       [] \<Rightarrow> Inl (OtherError (u ''bad escape (end of pattern)''))
     | d # ds \<Rightarrow>
         if d = 48 then (let o' = takeWhile is_octal (take 3 s) in Inr ([octal_value o' mod 256], length o'))
         else if ascii_digit d then
           (if length (takeWhile is_octal (take 3 s)) = 3 \<and> octal_value (take 3 s) \<le> 255
            then Inr ([octal_value (take 3 s)], 3) else Inl (OtherError (u ''invalid group reference'')))
         else (case map_of control_escapes d of
             Some c \<Rightarrow> Inr ([c], 1)
           | None \<Rightarrow> if ascii_word d \<and> d \<noteq> 95 then Inl (OtherError (u ''bad escape'')) else Inr ([92, d], 1)))"

function expand_template :: "pystr \<Rightarrow> exn + pystr" where
  "expand_template s = (case s of
       [] \<Rightarrow> Inr []
     | c # cs \<Rightarrow>
         if c \<noteq> 92 then bindE (expand_template cs) (\<lambda>r. Inr (c # r))
         else (case template_escape cs of
             Inl e \<Rightarrow> Inl e
           | Inr (t, n) \<Rightarrow> bindE (expand_template (drop n cs)) (\<lambda>r. Inr (t @ r))))"
  by pat_completeness auto
termination
  by (relation "measure length") auto

declare expand_template.simps [simp del]

definition is_hash_locked :: "unicode \<Rightarrow> pystr \<Rightarrow> pattern \<Rightarrow> bool" where
  "is_hash_locked U content pt = (let lines = splitlines content in
     \<exists>i \<in> set [0..<length lines]. rx_found U pt (lines ! i)
       \<and> (is_infix (u ''--hash='') (lines ! i)
          \<or> startswith (strip (if i + 1 < length lines then lines ! (i + 1) else [])) (u ''--hash='')))"

definition compile_command :: "unicode \<Rightarrow> pystr \<Rightarrow> pystr option" where
  "compile_command U content = (case filter (\<lambda>p. p \<noteq> None) (map (rx_prefix U PIP_COMPILE_HEADER) (splitlines content)) of
       [] \<Rightarrow> None
     | p # _ \<Rightarrow> Some (strip (the (group_text 1 (the p)))))"

definition lock_regeneration_note :: "unicode \<Rightarrow> pystr \<Rightarrow> pystr \<Rightarrow> VersionBump \<Rightarrow> pystr" where
  "lock_regeneration_note U path content b =
     (let prefix_text = [96] @ path @ [96, 51032] @ u '' '' @ vb_package b @ u ''=='' @ vb_current b
            @ [45716] @ u '' '' @ [54644, 49884, 44032] @ u '' '' @ [44256, 51221, 46108] @ u '' lock '' @
       [54637, 47785, 51060, 46972] @ u '' diff'' @ [47484] @ u '' '' @ [47564, 46308, 51648] @ u
       '' '' @ [50506, 50520, 49845, 45768, 45796] @ u ''.'';
          command = compile_command U content
      in if truthy command \<and> \<not> is_infix (u ''://'') (the command) \<and> snd (sanitize_log U (the command)) = []
         then prefix_text @ u '' '' @ [96] @ the command @ u '' --upgrade-package '' @ vb_package b @ u ''=='' @ vb_target b
            @ [96, 47196] @ u '' lock'' @ [51012] @ u '' '' @ [45796, 49884] @ u '' '' @ [49373, 49457,
       54616, 49464, 50836] @ u ''.''
         else prefix_text @ u '' '' @ [48260, 51204, 51012] @ u '' '' @ vb_target b @ [47196] @ u '' '' @ [50732, 47536] @ u '' '' @ [46244] @ u '' lock'' @ [51012] @ u '' '' @
       [45796, 49884] @ u '' '' @ [49373, 49457, 54616, 49464, 50836] @ u ''.'')"

definition rule_suggestion :: "patch_lib \<Rightarrow> VersionBump \<Rightarrow> pystr \<Rightarrow> pystr \<Rightarrow> pystr \<Rightarrow> Suggestion" where
  "rule_suggestion L b path content updated =
     \<lparr>sg_description = vb_package b @ [47484] @ u '' '' @ vb_current b @ [50640, 49436] @ u '' '' @ vb_target b
        @ [47196] @ u '' '' @ [48320, 44221, 54616, 49464, 50836] @ u '' ('' @ vb_reason b @ u '').'',
      sg_file = Some path, sg_patch = Some (render_unified_diff L path content updated),
      sg_source = Some RULE, sg_patch_verified = False\<rparr>"

fun propose_files :: "unicode \<Rightarrow> patch_lib \<Rightarrow> VersionBump \<Rightarrow> (pystr \<times> pystr) list
    \<Rightarrow> exn + Suggestion list \<times> pystr list" where
  "propose_files U L b [] = Inr ([], [])"
| "propose_files U L b ((path, content) # files) =
     (let pt = bump_pattern b in
      if \<not> rx_found U pt content then propose_files U L b files
      else if is_hash_locked U content pt
        then bindE (propose_files U L b files)
               (\<lambda>(ss, ns). Inr (ss, lock_regeneration_note U path content b # ns))
      else bindE (expand_template (vb_package b @ u ''=='' @ vb_target b))
        (\<lambda>r. bindE (propose_files U L b files)
          (\<lambda>(ss, ns). Inr (rule_suggestion L b path content (rx_sub U pt (\<lambda>_. r) content) # ss, ns))))"

fun propose_version_patches :: "unicode \<Rightarrow> patch_lib \<Rightarrow> VersionBump list \<Rightarrow> (pystr \<times> pystr) list
    \<Rightarrow> exn + Suggestion list \<times> pystr list" where
  "propose_version_patches U L [] files = Inr ([], [])"
| "propose_version_patches U L (b # bs) files =
     bindE (propose_files U L b (sort files)) (\<lambda>(ss, ns).
       bindE (propose_version_patches U L bs files) (\<lambda>(ss', ns'). Inr (ss @ ss', ns @ ns')))"

section \<open>Checking diffs\<close>

definition patch_body :: "pystr \<Rightarrow> pystr list" where
  "patch_body patch = filter (\<lambda>l. \<not> file_marker l) (splitlines patch)"

definition added_lines :: "pystr \<Rightarrow> pystr list" where
  "added_lines patch = map (drop 1) (filter (\<lambda>l. startswith l (u ''+'')) (patch_body patch))"

definition removed_lines :: "pystr \<Rightarrow> pystr list" where
  "removed_lines patch = map (drop 1) (filter (\<lambda>l. startswith l (u ''-'')) (patch_body patch))"

definition first_label :: "unicode \<Rightarrow> (pystr \<times> pattern) list \<Rightarrow> pystr list \<Rightarrow> pystr option" where
  "first_label U rules lines = first_row (map fst (filter (\<lambda>(_, pt). \<exists>l \<in> set lines. rx_found U pt l) rules))"

definition unpinned :: "unicode \<Rightarrow> pystr \<Rightarrow> pystr" where
  "unpinned U l = rx_sub U PINNED_VERSION_VALUE (\<lambda>_. u ''=='') l"

definition policy_violation :: "unicode \<Rightarrow> Suggestion \<Rightarrow> pystr \<Rightarrow> pystr option" where
  "policy_violation U s patch =
     (let added = added_lines patch; removed = removed_lines patch
      in if sg_source s = Some RULE \<and> (length added \<noteq> length removed
            \<or> (\<exists>(old, new) \<in> set (zip removed added). unpinned U new \<noteq> unpinned U old))
         then Some ([44508, 52825] @ u '' diff'' @ [44032] @ u '' '' @ [48260, 51204] @ u '' '' @ [47928, 51088,
       50676] @ u '' '' @ [50808, 51032] @ u '' '' @ [45236, 50857, 51012] @ u '' '' @ [48148,
       45000])
         else case first_label U FORBIDDEN_ADDITIONS added of
           Some l \<Rightarrow> Some l
         | None \<Rightarrow> if startswith (case sg_file s of None \<Rightarrow> [] | Some f \<Rightarrow> f) WORKFLOW_PREFIX
             then first_label U WORKFLOW_SENSITIVE (added @ removed) else None)"

fun format_name :: "doc_format \<Rightarrow> pystr" where
  "format_name YAML = u ''YAML''"
| "format_name TOML = u ''TOML''"
| "format_name JSON = u ''JSON''"

fun doc_ok :: "patch_lib \<Rightarrow> doc_format \<Rightarrow> pystr \<Rightarrow> bool" where
  "doc_ok L YAML t = pl_yaml_ok L t"
| "doc_ok L TOML t = pl_toml_ok L t"
| "doc_ok L JSON t = pl_json_ok L t"

definition syntax_error :: "unicode \<Rightarrow> patch_lib \<Rightarrow> pystr \<Rightarrow> pystr \<Rightarrow> pystr option" where
  "syntax_error U L path content = (case STRUCTURED_FORMATS (uc_lower U (path_suffix (PurePosixPath path))) of
       None \<Rightarrow> None
     | Some f \<Rightarrow> if doc_ok L f content then None
         else Some ([49688, 51221] @ u '' '' @ [44208, 44284, 44032] @ u '' '' @ [50976, 54952, 54620] @ u '' '' @ format_name f @ u '' '' @ [47928, 49436, 44032] @ u '' '' @ [50500, 45785, 45768, 45796] @ u ''.''))"

definition changed_lines :: "pystr \<Rightarrow> pystr list" where
  "changed_lines patch = filter (\<lambda>l. (startswith l (u ''+'') \<or> startswith l (u ''-'')) \<and> \<not> file_marker l) (splitlines patch)"

definition patch_headers :: "pystr \<Rightarrow> pystr list" where
  "patch_headers patch = map (\<lambda>l. strip (drop 4 l)) (filter file_marker (splitlines patch))"

definition patch_rejection :: "unicode \<Rightarrow> patch_lib \<Rightarrow> Suggestion \<Rightarrow> (pystr \<times> pystr) list \<Rightarrow> exn + pystr option" where
  "patch_rejection U L s files =
     (let patch = (case sg_patch s of None \<Rightarrow> [] | Some p \<Rightarrow> p); f = (case sg_file s of None \<Rightarrow> [] | Some x \<Rightarrow> x);
          changed = changed_lines patch
      in case (if f = [] then None else map_of files f) of
        None \<Rightarrow> Inr (Some ([45824, 49345] @ u '' '' @ [54028, 51068, 51012] @ u '' head '' @ [44592, 51456, 51004,
       47196] @ u '' '' @ [54869, 51064, 54624] @ u '' '' @ [49688] @ u '' '' @ [50630, 49845,
       45768, 45796] @ u ''.''))
      | Some content \<Rightarrow>
          if MAX_PATCH_CHARS < length patch then Inr (Some (u ''diff'' @ [44032] @ u '' '' @ [54728, 50857] @ u '' '' @ [53356, 44592, 47484] @ u '' '' @
       [45336, 49845, 45768, 45796] @ u ''.''))
          else if changed = [] \<or> MAX_CHANGED_LINES < length changed
            then Inr (Some (u ''diff'' @ [51032] @ u '' '' @ [48320, 44221] @ u '' '' @ [51460] @ u '' '' @ [49688,
       44032] @ u '' '' @ [54728, 50857] @ u '' '' @ [48276, 50948, 47484] @ u '' '' @ [48279,
       50612, 45225, 45768, 45796] @ u ''.''))
          else if \<exists>h \<in> set (patch_headers patch). h \<notin> {u ''a/'' @ f, u ''b/'' @ f, f}
            then Inr (Some (u ''diff'' @ [44032] @ u '' '' @ [51228, 50504] @ u '' '' @ [45824, 49345] @ u '' '' @
       [50808, 51032] @ u '' '' @ [54028, 51068, 51012] @ u '' '' @ [44032, 47532, 53429, 45768,
       45796] @ u ''.''))
          else if snd (sanitize_log U patch) \<noteq> []
            then Inr (Some (u ''diff'' @ [50640] @ u '' '' @ [48708, 48128, 44050, 51004, 47196] @ u '' '' @ [48372,
       51060, 45716] @ u '' '' @ [45236, 50857, 51060] @ u '' '' @ [54252, 54632, 46076] @ u '' '' @
       [51080, 49845, 45768, 45796] @ u ''.''))
          else (case policy_violation U s patch of
              Some v \<Rightarrow> Inr (Some (u ''diff'' @ [50640] @ u '' '' @ [54728, 50857, 46104, 51648] @ u '' '' @ [50506, 45716] @ u
       '' '' @ [48320, 44221, 51060] @ u '' '' @ [54252, 54632, 46076] @ u '' '' @ [51080, 49845,
       45768, 45796] @ u ''('' @ v @ u '').''))
            | None \<Rightarrow> (case apply_unified_diff U content patch of
                Inl (PatchError e) \<Rightarrow> Inr (Some e)
              | Inl e \<Rightarrow> Inl e
              | Inr updated \<Rightarrow> Inr (syntax_error U L f updated))))"

type_synonym patch_outcomes = "((pystr \<times> pystr) \<times> nat) list"

fun verify_loop :: "unicode \<Rightarrow> patch_lib \<Rightarrow> (pystr \<times> pystr) list \<Rightarrow> Suggestion list \<Rightarrow> Suggestion list
    \<Rightarrow> pystr list \<Rightarrow> patch_outcomes \<Rightarrow> exn + Suggestion list \<times> pystr list \<times> patch_outcomes" where
  "verify_loop U L files [] done_list notes outcomes = Inr (done_list, notes, outcomes)"
| "verify_loop U L files (s # ss) done_list notes outcomes =
     (if \<not> truthy (sg_patch s) then verify_loop U L files ss (done_list @ [s]) notes outcomes
      else (let source = source_value (case sg_source s of None \<Rightarrow> LLM | Some x \<Rightarrow> x)
        in bindE (patch_rejection U L s files) (\<lambda>rejection. case rejection of
            None \<Rightarrow> verify_loop U L files ss (done_list @ [s\<lparr>sg_patch_verified := True\<rparr>]) notes
              (dict_add (source, u ''verified'') 1 outcomes)
          | Some r \<Rightarrow> verify_loop U L files ss
              (done_list @ [s\<lparr>sg_patch := None, sg_patch_verified := False\<rparr>])
              (notes @ [[49688, 51221] @ u '' diff'' @ [47484] @ u '' '' @ [44160, 51613, 54616, 51648] @ u '' '' @
       [47803, 54644] @ u '' '' @ [51228, 50808, 54664, 49845, 45768, 45796] @ u '': '' @ r])
              (dict_add (source, u ''rejected'') 1 outcomes))))"

definition verify_patch_suggestions :: "unicode \<Rightarrow> patch_lib \<Rightarrow> Diagnosis \<Rightarrow> (pystr \<times> pystr) list
    \<Rightarrow> exn + Diagnosis \<times> patch_outcomes" where
  "verify_patch_suggestions U L d files =
     bindE (verify_loop U L files (dg_suggestions d) [] (dg_notes d) [])
       (\<lambda>(ss, notes, outcomes). Inr (d\<lparr>dg_suggestions := ss, dg_notes := notes\<rparr>, outcomes))"

definition propose_and_verify_patches :: "unicode \<Rightarrow> patch_lib \<Rightarrow> Diagnosis \<Rightarrow> VersionBump list
    \<Rightarrow> (pystr \<times> pystr) list \<Rightarrow> exn + Diagnosis \<times> patch_outcomes" where
  "propose_and_verify_patches U L d bumps files =
     bindE (propose_version_patches U L bumps files) (\<lambda>(ss, ns).
       verify_patch_suggestions U L
         (d\<lparr>dg_suggestions := ss @ dg_suggestions d, dg_notes := dg_notes d @ ns\<rparr>) files)"

definition strip_patches :: "Diagnosis \<Rightarrow> Diagnosis" where
  "strip_patches d = d\<lparr>dg_suggestions :=
     map (\<lambda>s. s\<lparr>sg_patch := None, sg_patch_verified := False\<rparr>) (dg_suggestions d)\<rparr>"

section \<open>Properties\<close>

text \<open>What a diff has passed when it is published.\<close>

definition publishable :: "unicode \<Rightarrow> patch_lib \<Rightarrow> (pystr \<times> pystr) list \<Rightarrow> Suggestion \<Rightarrow> bool" where
  "publishable U L files s \<longleftrightarrow> (\<exists>f patch content updated. sg_file s = Some f \<and> sg_patch s = Some patch
     \<and> map_of files f = Some content
     \<and> apply_unified_diff U content patch = Inr updated \<and> syntax_error U L f updated = None
     \<and> length patch \<le> MAX_PATCH_CHARS
     \<and> length (changed_lines patch) \<in> {1..MAX_CHANGED_LINES}
     \<and> set (patch_headers patch) \<subseteq> {u ''a/'' @ f, u ''b/'' @ f, f}
     \<and> snd (sanitize_log U patch) = []
     \<and> (\<forall>(label, pt) \<in> set FORBIDDEN_ADDITIONS. \<forall>l \<in> set (added_lines patch). \<not> rx_found U pt l)
     \<and> (prefix WORKFLOW_PREFIX f \<longrightarrow> (\<forall>(label, pt) \<in> set WORKFLOW_SENSITIVE.
          \<forall>l \<in> set (added_lines patch @ removed_lines patch). \<not> rx_found U pt l))
     \<and> (sg_source s = Some RULE \<longrightarrow> map (unpinned U) (added_lines patch) = map (unpinned U) (removed_lines patch)))"

lemma first_label_None: "first_label U rules lines = None \<longleftrightarrow> (\<forall>(label, pt) \<in> set rules. \<forall>l \<in> set lines. \<not> rx_found U pt l)"
  by (auto simp: first_label_def filter_empty_conv)

lemma zip_all_eq:
  "length xs = length ys \<Longrightarrow> (\<forall>(x, y) \<in> set (zip xs ys). f y = f x) \<Longrightarrow> map f ys = map f xs"
  by (induction xs ys rule: list_induct2) auto

lemma policy_violation_None:
  assumes "policy_violation U s patch = None"
  shows "first_label U FORBIDDEN_ADDITIONS (added_lines patch) = None"
    and "prefix WORKFLOW_PREFIX (case sg_file s of None \<Rightarrow> [] | Some f \<Rightarrow> f)
      \<Longrightarrow> first_label U WORKFLOW_SENSITIVE (added_lines patch @ removed_lines patch) = None"
    and "sg_source s = Some RULE \<Longrightarrow> map (unpinned U) (added_lines patch) = map (unpinned U) (removed_lines patch)"
  using assms by (auto simp: policy_violation_def Let_def startswith_def split: if_splits option.splits intro!: zip_all_eq)

lemma patch_rejection_None:
  assumes "patch_rejection U L s files = Inr None" "truthy (sg_patch s)"
  shows "publishable U L files s"
proof -
  obtain patch where p: "sg_patch s = Some patch" using assms(2) by (cases "sg_patch s") auto
  obtain f where f: "sg_file s = Some f" "f \<noteq> []"
    using assms(1) by (cases "sg_file s") (auto simp: patch_rejection_def Let_def split: if_splits)
  obtain content where c: "map_of files f = Some content"
    using assms(1) f p by (cases "map_of files f") (auto simp: patch_rejection_def Let_def)
  from assms(1) p f c have chk: "length patch \<le> MAX_PATCH_CHARS" "changed_lines patch \<noteq> []"
    "length (changed_lines patch) \<le> MAX_CHANGED_LINES"
    "set (patch_headers patch) \<subseteq> {u ''a/'' @ f, u ''b/'' @ f, f}" "snd (sanitize_log U patch) = []"
    "policy_violation U s patch = None"
    by (auto simp: patch_rejection_def Let_def split: if_splits option.splits)
  obtain updated where u: "apply_unified_diff U content patch = Inr updated" "syntax_error U L f updated = None"
    using assms(1) p f c chk by (auto simp: patch_rejection_def Let_def split: if_splits sum.splits exn.splits)
  have "length (changed_lines patch) \<in> {1..MAX_CHANGED_LINES}" using chk(2,3) by (cases "changed_lines patch") auto
  with p f c chk u policy_violation_None[OF chk(6)] show ?thesis
    unfolding publishable_def first_label_None by auto
qed

lemma publishable_verified [simp]: "publishable U L files (s\<lparr>sg_patch_verified := b\<rparr>) = publishable U L files s"
  by (simp add: publishable_def)

lemma verify_loop_sound:
  assumes "verify_loop U L files ss ok ns outcomes = Inr (res, notes', outcomes')"
    and "\<forall>s \<in> set ok. truthy (sg_patch s) \<longrightarrow> sg_patch_verified s \<and> publishable U L files s"
  shows "(\<forall>s \<in> set res. truthy (sg_patch s) \<longrightarrow> sg_patch_verified s \<and> publishable U L files s)
    \<and> map sg_description res = map sg_description ok @ map sg_description ss"
  using assms
proof (induction ss arbitrary: ok ns outcomes)
  case (Cons s ss)
  show ?case
  proof (cases "truthy (sg_patch s)")
    case True
    from Cons.prems(1) True obtain rej where rej: "patch_rejection U L s files = Inr rej"
      by (auto simp: Let_def bindE_eq_Inr)
    show ?thesis
    proof (cases rej)
      case None
      with Cons.prems(1) rej True obtain oc where
        "verify_loop U L files ss (ok @ [s\<lparr>sg_patch_verified := True\<rparr>]) ns oc = Inr (res, notes', outcomes')"
        by (auto simp: Let_def)
      from Cons.IH[OF this] Cons.prems(2) patch_rejection_None[of U L s files] rej None True show ?thesis by auto
    next
      case (Some r)
      with Cons.prems(1) rej True obtain oc ns' where
        "verify_loop U L files ss (ok @ [s\<lparr>sg_patch := None, sg_patch_verified := False\<rparr>]) ns' oc
         = Inr (res, notes', outcomes')"
        by (auto simp: Let_def)
      from Cons.IH[OF this] Cons.prems(2) show ?thesis by auto
    qed
  next
    case False
    with Cons.prems(1) have "verify_loop U L files ss (ok @ [s]) ns outcomes = Inr (res, notes', outcomes')"
      by simp
    from Cons.IH[OF this] Cons.prems(2) False show ?thesis by auto
  qed
qed simp

lemma propose_and_verify_sound:
  assumes "propose_and_verify_patches U L d bumps files = Inr (d', outcomes)"
  shows "(\<forall>s \<in> set (dg_suggestions d'). truthy (sg_patch s) \<longrightarrow> sg_patch_verified s \<and> publishable U L files s)
    \<and> (\<exists>proposed. map sg_description (dg_suggestions d') = proposed @ map sg_description (dg_suggestions d))"
proof -
  from assms obtain ss ns where
    v: "verify_patch_suggestions U L (d\<lparr>dg_suggestions := ss @ dg_suggestions d, dg_notes := dg_notes d @ ns\<rparr>) files
        = Inr (d', outcomes)"
    by (auto simp: propose_and_verify_patches_def bindE_eq_Inr)
  then obtain res notes' where l: "verify_loop U L files (ss @ dg_suggestions d) [] (dg_notes d @ ns) []
      = Inr (res, notes', outcomes)" "dg_suggestions d' = res"
    by (auto simp: verify_patch_suggestions_def bindE_eq_Inr)
  from verify_loop_sound[OF l(1)] l(2) show ?thesis by auto
qed

text \<open>C27: every diff that survives verification is fit to be published: it applies to the fetched
  content of the file it names and leaves a well-formed document, it is within the size limits, it
  names no other file, it contains nothing that looks like a credential, it adds none of the
  forbidden commands, it changes no permission or trigger of a workflow, and a diff made by a rule
  changes pinned versions only. No suggestion is lost or reordered.\<close>

theorem verified_patches_publishable:
  assumes "propose_and_verify_patches U L d bumps files = Inr (d', outcomes)"
  shows "(\<forall>s \<in> set (dg_suggestions d'). truthy (sg_patch s) \<longrightarrow> sg_patch_verified s \<and> publishable U L files s)
    \<and> (\<exists>proposed. map sg_description (dg_suggestions d') = proposed @ map sg_description (dg_suggestions d))"
  by (rule propose_and_verify_sound[OF assms])

definition sample_bump_files :: "(pystr \<times> pystr) list" where
  "sample_bump_files = [(u ''r.txt'', u ''a==1'' @ nl @ u ''b'' @ nl)]"

definition sample_patched_diagnosis :: Diagnosis where
  "sample_patched_diagnosis = \<lparr>dg_summary = [], dg_root_cause = [], dg_confidence = 1, dg_evidence = [],
     dg_suggestions = [\<lparr>sg_description = u ''bump'', sg_file = Some (u ''r.txt''), sg_patch = Some sample_patch,
       sg_source = Some LLM, sg_patch_verified = False\<rparr>], dg_conflicts = [], dg_notes = []\<rparr>"

definition lenient_lib :: patch_lib where
  "lenient_lib = \<lparr>pl_yaml_ok = (\<lambda>_. True), pl_toml_ok = (\<lambda>_. True), pl_json_ok = (\<lambda>_. True),
     pl_unified_diff = (\<lambda>_ _ _ _. [])\<rparr>"

theorem verified_patches_publishable_witness:
  "\<exists>s d' oc. propose_and_verify_patches ascii lenient_lib sample_patched_diagnosis [] sample_bump_files = Inr (d', oc)
     \<and> dg_suggestions d' = [s] \<and> sg_patch s = Some sample_patch
     \<and> sg_patch_verified s \<and> publishable ascii lenient_lib sample_bump_files s"
proof -
  let ?r = "propose_and_verify_patches ascii lenient_lib sample_patched_diagnosis [] sample_bump_files"
  have "?r = Inr (sample_patched_diagnosis\<lparr>dg_suggestions :=
      map (\<lambda>s. s\<lparr>sg_patch_verified := True\<rparr>) (dg_suggestions sample_patched_diagnosis)\<rparr>,
      [((u ''llm'', u ''verified''), 1)])"
    by code_simp
  from verified_patches_publishable[OF this] this show ?thesis
    by (auto simp: sample_patched_diagnosis_def sample_patch_def)
qed

section \<open>A scanner table the reader cannot read\<close>

text \<open>A header that repeats a column name gives a dictionary smaller than the header, so the length
  check lets a row through that is too short for the positions in it. For headers without
  repetition the check is enough.\<close>

lemma dict_put_fresh: "k \<notin> fst ` set d \<Longrightarrow> dict_put k v d = d @ [(k, v)]"
  by (induction k v d rule: dict_put.induct) auto

lemma header_columns_distinct:
  "distinct hs \<Longrightarrow> set hs \<inter> fst ` set cols = {} \<Longrightarrow>
   header_columns i hs cols = cols @ zip hs [i..<i + length hs]"
  by (induction hs arbitrary: i cols) (auto simp: dict_put_fresh upt_rec)

lemma read_row_total:
  "\<forall>i \<in> snd ` set cols. i < length cells \<Longrightarrow> read_row cols cells = Inr (map (\<lambda>(name, i). (name, cells ! i)) cols)"
  unfolding read_row_def by (induction cols) auto



end
