(* ===== verification/PyJson.thy ===== *)
theory PyJson
  imports PyText
begin

text \<open>
  Values decoded from JSON and the operations of Python on them that the program uses. A value of
  an unexpected type is not an error of the decoder but of the first operation that does not apply
  to it: \<open>.get\<close> on anything but a dictionary raises AttributeError, a subscript TypeError or
  KeyError. Objects are association lists with distinct keys, in the order of the text; numbers
  with a fraction are rationals. The text \<open>str\<close> gives for floats and containers is left to the
  argument \<open>repr\<close>.
\<close>

section \<open>Values\<close>

datatype json =
    JNull
  | JBool bool
  | JInt int
  | JFloat rat
  | JStr pystr
  | JArr "json list"
  | JObj "(pystr \<times> json) list"

definition attribute_error :: "pystr \<Rightarrow> exn" where
  "attribute_error name = OtherError (u ''AttributeError: '' @ name)"

definition is_attribute_error :: "exn \<Rightarrow> bool" where
  "is_attribute_error e = (case e of OtherError m \<Rightarrow> prefix (u ''AttributeError: '') m | _ \<Rightarrow> False)"

fun j_truthy :: "json \<Rightarrow> bool" where
  "j_truthy JNull = False"
| "j_truthy (JBool b) = b"
| "j_truthy (JInt i) = (i \<noteq> 0)"
| "j_truthy (JFloat r) = (r \<noteq> 0)"
| "j_truthy (JStr s) = (s \<noteq> [])"
| "j_truthy (JArr xs) = (xs \<noteq> [])"
| "j_truthy (JObj d) = (d \<noteq> [])"

text \<open>\<open>a or b\<close>.\<close>

definition j_or :: "json \<Rightarrow> json \<Rightarrow> json" where
  "j_or a b = (if j_truthy a then a else b)"

fun is_str :: "json \<Rightarrow> bool" where
  "is_str (JStr s) = True"
| "is_str _ = False"

section \<open>Comparison\<close>

text \<open>Equality identifies the numbers with the same value, booleans included, and dictionaries up
  to the order of their keys.\<close>

fun j_norm :: "json \<Rightarrow> json" where
  "j_norm (JBool b) = JFloat (if b then 1 else 0)"
| "j_norm (JInt i) = JFloat (of_int i)"
| "j_norm (JArr xs) = JArr (map j_norm xs)"
| "j_norm (JObj d) = JObj (sort_key fst (map (\<lambda>(k, v). (k, j_norm v)) d))"
| "j_norm v = v"

definition j_eq :: "json \<Rightarrow> json \<Rightarrow> bool" where
  "j_eq a b \<longleftrightarrow> j_norm a = j_norm b"

lemma j_eq_refl [simp]: "j_eq a a"
  by (simp add: j_eq_def)

lemma j_eq_str [simp]: "j_eq a (JStr s) \<longleftrightarrow> a = JStr s" "j_eq (JStr s) a \<longleftrightarrow> a = JStr s"
  by (cases a; auto simp: j_eq_def)+

lemma j_eq_trans: "j_eq a b \<Longrightarrow> j_eq b c \<Longrightarrow> j_eq a c"
  by (simp add: j_eq_def)

lemma j_eq_sym: "j_eq a b \<longleftrightarrow> j_eq b a"
  by (auto simp: j_eq_def)

text \<open>\<open>a < b\<close>: strings by code points, numbers by value, lists by their first difference.\<close>

fun json_lt :: "json \<Rightarrow> json \<Rightarrow> exn + bool"
and json_list_lt :: "json list \<Rightarrow> json list \<Rightarrow> exn + bool" where
  "json_lt (JStr a) (JStr b) = Inr (a < b)"
| "json_lt (JFloat a) (JFloat b) = Inr (a < b)"
| "json_lt (JArr a) (JArr b) = json_list_lt a b"
| "json_lt _ _ = Inl (TypeError (u ''unorderable''))"
| "json_list_lt [] ys = Inr (ys \<noteq> [])"
| "json_list_lt (x # xs) [] = Inr False"
| "json_list_lt (x # xs) (y # ys) = (if x = y then json_list_lt xs ys else json_lt x y)"

definition j_lt :: "json \<Rightarrow> json \<Rightarrow> exn + bool" where
  "j_lt a b = json_lt (j_norm a) (j_norm b)"

section \<open>Access\<close>

text \<open>\<open>x.get(k, d)\<close> and \<open>x.get(k)\<close>.\<close>

definition j_get_or :: "string \<Rightarrow> json \<Rightarrow> json \<Rightarrow> exn + json" where
  "j_get_or k dflt x = (case x of JObj d \<Rightarrow> Inr (dict_get dflt (u k) d) | _ \<Rightarrow> Inl (attribute_error (u ''get'')))"

definition j_get :: "string \<Rightarrow> json \<Rightarrow> exn + json" where
  "j_get k x = j_get_or k JNull x"

lemma j_get_obj [simp]: "j_get k (JObj d) = Inr (dict_get JNull (u k) d)"
  by (simp add: j_get_def j_get_or_def)

lemma j_get_or_obj [simp]: "j_get_or k dflt (JObj d) = Inr (dict_get dflt (u k) d)"
  by (simp add: j_get_or_def)

lemma j_get_Inr: "j_get k x = Inr v \<longleftrightarrow> (\<exists>d. x = JObj d \<and> v = dict_get JNull (u k) d)"
  by (cases x) (auto simp: j_get_def j_get_or_def)

lemma j_get_or_Inr: "j_get_or k dflt x = Inr v \<longleftrightarrow> (\<exists>d. x = JObj d \<and> v = dict_get dflt (u k) d)"
  by (cases x) (auto simp: j_get_or_def)

text \<open>\<open>x[k]\<close> with a string and \<open>x[0]\<close>.\<close>

definition j_item :: "string \<Rightarrow> json \<Rightarrow> exn + json" where
  "j_item k x = (case x of
       JObj d \<Rightarrow> (case map_of d (u k) of None \<Rightarrow> Inl (KeyError (u k)) | Some v \<Rightarrow> Inr v)
     | _ \<Rightarrow> Inl (TypeError (u ''not subscriptable by a string'')))"

definition j_first :: "json \<Rightarrow> exn + json" where
  "j_first x = (case x of
       JArr [] \<Rightarrow> Inl (OtherError (u ''IndexError''))
     | JArr (v # _) \<Rightarrow> Inr v
     | JStr [] \<Rightarrow> Inl (OtherError (u ''IndexError''))
     | JStr (c # _) \<Rightarrow> Inr (JStr [c])
     | JObj _ \<Rightarrow> Inl (KeyError (u ''0''))
     | _ \<Rightarrow> Inl (TypeError (u ''not subscriptable'')))"

text \<open>Iteration, \<open>len\<close> and \<open>in\<close>.\<close>

definition j_iter :: "json \<Rightarrow> exn + json list" where
  "j_iter x = (case x of
       JArr xs \<Rightarrow> Inr xs
     | JStr s \<Rightarrow> Inr (map (\<lambda>c. JStr [c]) s)
     | JObj d \<Rightarrow> Inr (map (\<lambda>(k, _). JStr k) d)
     | _ \<Rightarrow> Inl (TypeError (u ''not iterable'')))"

definition j_contains :: "pystr \<Rightarrow> json \<Rightarrow> exn + bool" where
  "j_contains s x = (case x of
       JObj d \<Rightarrow> Inr (s \<in> fst ` set d)
     | JArr xs \<Rightarrow> Inr (JStr s \<in> set xs)
     | JStr t \<Rightarrow> Inr (is_infix s t)
     | _ \<Rightarrow> Inl (TypeError (u ''argument is not iterable'')))"

text \<open>A value where the code goes on with a string method.\<close>

definition j_str_method :: "pystr \<Rightarrow> json \<Rightarrow> exn + pystr" where
  "j_str_method name x = (case x of JStr s \<Rightarrow> Inr s | _ \<Rightarrow> Inl (attribute_error name))"

text \<open>\<open>str(x)\<close>.\<close>

definition j_text :: "(json \<Rightarrow> pystr) \<Rightarrow> json \<Rightarrow> pystr" where
  "j_text repr x = (case x of
       JNull \<Rightarrow> u ''None'' | JBool b \<Rightarrow> (if b then u ''True'' else u ''False'')
     | JInt i \<Rightarrow> str_int i | JStr s \<Rightarrow> s | _ \<Rightarrow> repr x)"

section \<open>Validation of fields\<close>

text \<open>What pydantic does with a JSON value for a field of type \<open>str\<close> or \<open>str | None\<close>: anything else
  than a string is a ValidationError, which is a ValueError. Conversions to \<open>int\<close> accept more and
  are an argument \<open>to_int\<close>.\<close>

definition validation_error :: exn where
  "validation_error = ValueError (u ''ValidationError'')"

definition field_str :: "json \<Rightarrow> exn + pystr" where
  "field_str x = (case x of JStr s \<Rightarrow> Inr s | _ \<Rightarrow> Inl validation_error)"

definition field_str_opt :: "json \<Rightarrow> exn + pystr option" where
  "field_str_opt x = (case x of JNull \<Rightarrow> Inr None | JStr s \<Rightarrow> Inr (Some s) | _ \<Rightarrow> Inl validation_error)"

definition field_int :: "(json \<Rightarrow> int option) \<Rightarrow> json \<Rightarrow> exn + int" where
  "field_int to_int x = (case to_int x of None \<Rightarrow> Inl validation_error | Some i \<Rightarrow> Inr i)"

definition field_int_opt :: "(json \<Rightarrow> int option) \<Rightarrow> json \<Rightarrow> exn + int option" where
  "field_int_opt to_int x = (if x = JNull then Inr None
     else (case to_int x of None \<Rightarrow> Inl validation_error | Some i \<Rightarrow> Inr (Some i)))"

text \<open>The conversion restricted to integers and booleans, for examples.\<close>

fun plain_int :: "json \<Rightarrow> int option" where
  "plain_int (JInt i) = Some i"
| "plain_int (JBool b) = Some (if b then 1 else 0)"
| "plain_int _ = None"

end
