(* ===== verification/JsonText.thy ===== *)
theory JsonText
  imports PyJson
begin

text \<open>
  \<open>json.dumps\<close> and \<open>json.loads\<close>. The printer is parameterised by the separators and by the text
  of floats; with the \<open>ensure_ascii\<close> flag off only quotes, backslashes and control characters are
  escaped. The parser reads one value between white space; numbers with a fraction or an exponent
  become rationals, and a repeated key keeps its last value. Reading what was printed gives the
  value back (\<open>loads_dumps\<close>), for values without floats.
\<close>

section \<open>Printing\<close>

definition hex4 :: "nat \<Rightarrow> pystr" where
  "hex4 n = map (\<lambda>d. if d < 10 then 48 + d else 87 + d) [n div 4096 mod 16, n div 256 mod 16, n div 16 mod 16, n mod 16]"

definition escape_char :: "nat \<Rightarrow> pystr" where
  "escape_char c = (if c = 34 then [92, 34] else if c = 92 then [92, 92] else if c = 10 then [92, 110]
     else if c = 13 then [92, 114] else if c = 9 then [92, 116] else if c = 12 then [92, 102]
     else if c = 8 then [92, 98] else if c < 32 then [92, 117] @ hex4 c else [c])"

definition dump_str :: "pystr \<Rightarrow> pystr" where
  "dump_str s = [34] @ concat (map escape_char s) @ [34]"

record dump_style =
  ds_item_sep :: pystr
  ds_key_sep :: pystr
  ds_float :: "rat \<Rightarrow> pystr"

fun dumps :: "dump_style \<Rightarrow> json \<Rightarrow> pystr" where
  "dumps D JNull = u ''null''"
| "dumps D (JBool b) = (if b then u ''true'' else u ''false'')"
| "dumps D (JInt i) = str_int i"
| "dumps D (JFloat r) = ds_float D r"
| "dumps D (JStr s) = dump_str s"
| "dumps D (JArr xs) = u ''['' @ join (ds_item_sep D) (map (dumps D) xs) @ u '']''"
| "dumps D (JObj d) = [123] @ join (ds_item_sep D) (map (\<lambda>(k, v). dump_str k @ ds_key_sep D @ dumps D v) d) @ [125]"

section \<open>Parsing\<close>

definition json_error :: exn where
  "json_error = ValueError (u ''JSONDecodeError'')"

definition json_space :: "nat \<Rightarrow> bool" where
  "json_space c \<longleftrightarrow> c = 32 \<or> c = 9 \<or> c = 10 \<or> c = 13"

abbreviation skip_ws :: "pystr \<Rightarrow> pystr" where
  "skip_ws s \<equiv> dropWhile json_space s"

definition hex_value :: "nat \<Rightarrow> nat option" where
  "hex_value c = (if 48 \<le> c \<and> c \<le> 57 then Some (c - 48) else if 97 \<le> c \<and> c \<le> 102 then Some (c - 87)
     else if 65 \<le> c \<and> c \<le> 70 then Some (c - 55) else None)"

fun read_hex4 :: "pystr \<Rightarrow> (nat \<times> pystr) option" where
  "read_hex4 (a # b # c # d # s) = (case (hex_value a, hex_value b, hex_value c, hex_value d) of
       (Some a, Some b, Some c, Some d) \<Rightarrow> Some (((a * 16 + b) * 16 + c) * 16 + d, s)
     | _ \<Rightarrow> None)"
| "read_hex4 _ = None"

definition simple_escape :: "nat \<Rightarrow> nat option" where
  "simple_escape c = (if c = 34 \<or> c = 92 \<or> c = 47 then Some c else if c = 98 then Some 8 else if c = 102 then Some 12
     else if c = 110 then Some 10 else if c = 114 then Some 13 else if c = 116 then Some 9 else None)"

text \<open>An escape after its backslash; a high surrogate followed by an escaped low one is one character.\<close>

definition read_escape :: "pystr \<Rightarrow> (nat \<times> pystr) option" where
  "read_escape s = (case s of
       [] \<Rightarrow> None
     | c # r \<Rightarrow> if c = 117
         then (case read_hex4 r of
             None \<Rightarrow> None
           | Some (n, r') \<Rightarrow>
               if 55296 \<le> n \<and> n \<le> 56319 \<and> take 2 r' = [92, 117]
               then (case read_hex4 (drop 2 r') of
                   None \<Rightarrow> None
                 | Some (m, r'') \<Rightarrow> if 56320 \<le> m \<and> m \<le> 57343
                     then Some (65536 + (n - 55296) * 1024 + (m - 56320), r'') else Some (n, r'))
               else Some (n, r'))
         else map_option (\<lambda>x. (x, r)) (simple_escape c))"

lemma read_hex4_length: "read_hex4 s = Some (n, r) \<Longrightarrow> length r < length s"
  by (cases s rule: read_hex4.cases) (auto split: option.splits)

lemma read_escape_length: "read_escape s = Some (n, r) \<Longrightarrow> length r < length s"
  by (auto simp: read_escape_def split: list.splits if_splits option.splits dest!: read_hex4_length)

function read_str :: "pystr \<Rightarrow> (pystr \<times> pystr) option" where
  "read_str s = (case s of
       [] \<Rightarrow> None
     | c # r \<Rightarrow> if c = 34 then Some ([], r)
         else if c = 92 then (case read_escape r of
             None \<Rightarrow> None
           | Some (x, r') \<Rightarrow> map_option (\<lambda>(t, q). (x # t, q)) (read_str r'))
         else if c < 32 then None
         else map_option (\<lambda>(t, q). (c # t, q)) (read_str r))"
  by pat_completeness auto
termination
  by (relation "measure length") (auto dest: read_escape_length)

declare read_str.simps [simp del]

text \<open>A number is an integer part without leading zeros, a fraction and an exponent.\<close>

definition is_digit10 :: "nat \<Rightarrow> bool" where
  "is_digit10 c \<longleftrightarrow> 48 \<le> c \<and> c \<le> 57"

definition nat_of_digits :: "pystr \<Rightarrow> nat" where
  "nat_of_digits ds = foldl (\<lambda>n c. 10 * n + (c - 48)) 0 ds"

definition read_fraction :: "pystr \<Rightarrow> pystr \<times> pystr" where
  "read_fraction s = (case s of c # r \<Rightarrow> (let ds = takeWhile is_digit10 r in
       if c = 46 \<and> ds \<noteq> [] then (ds, dropWhile is_digit10 r) else ([], s)) | [] \<Rightarrow> ([], []))"

definition read_exponent :: "pystr \<Rightarrow> int option \<times> pystr" where
  "read_exponent s = (case s of c # r \<Rightarrow>
       if c = 101 \<or> c = 69
       then (let r' = (case r of d # q \<Rightarrow> if d = 43 \<or> d = 45 then q else r | [] \<Rightarrow> []);
                 neg = (r \<noteq> [] \<and> hd r = 45); ds = takeWhile is_digit10 r'
             in if ds = [] then (None, s)
                else (Some (if neg then - int (nat_of_digits ds) else int (nat_of_digits ds)), dropWhile is_digit10 r'))
       else (None, s) | [] \<Rightarrow> (None, []))"

definition int_part :: "pystr \<Rightarrow> pystr" where
  "int_part t = (if t \<noteq> [] \<and> hd t = 48 then [48] else takeWhile is_digit10 t)"

definition read_unsigned :: "bool \<Rightarrow> pystr \<Rightarrow> (json \<times> pystr) option" where
  "read_unsigned neg t =
     (let ds = int_part t; (fr, r1) = read_fraction (drop (length ds) t); (ex, r2) = read_exponent r1;
          n = (if neg then - int (nat_of_digits ds) else int (nat_of_digits ds));
          m = of_nat (nat_of_digits (ds @ fr)) / 10 ^ length fr; e = (case ex of None \<Rightarrow> 0 | Some e \<Rightarrow> e);
          x = (if 0 \<le> e then m * 10 ^ nat e else m / 10 ^ nat (- e))
      in if ds = [] then None
         else Some (if fr = [] \<and> ex = None then JInt n else JFloat (if neg then - x else x), r2))"

definition read_number :: "pystr \<Rightarrow> (json \<times> pystr) option" where
  "read_number s = (if s \<noteq> [] \<and> hd s = 45 then read_unsigned True (tl s) else read_unsigned False s)"

definition member_dict :: "(pystr \<times> json) list \<Rightarrow> (pystr \<times> json) list" where
  "member_dict kvs = foldl (\<lambda>d (k, v). dict_put k v d) [] kvs"

definition read_literal :: "pystr \<Rightarrow> (json \<times> pystr) option" where
  "read_literal s = (if prefix (u ''null'') s then Some (JNull, drop 4 s)
     else if prefix (u ''true'') s then Some (JBool True, drop 4 s)
     else if prefix (u ''false'') s then Some (JBool False, drop 5 s)
     else read_number s)"

fun read_value :: "nat \<Rightarrow> pystr \<Rightarrow> (json \<times> pystr) option"
and read_items :: "nat \<Rightarrow> pystr \<Rightarrow> (json list \<times> pystr) option"
and read_members :: "nat \<Rightarrow> pystr \<Rightarrow> ((pystr \<times> json) list \<times> pystr) option" where
  "read_value 0 s = None"
| "read_value (Suc n) s = (case s of
       [] \<Rightarrow> None
     | c # r \<Rightarrow>
         if c = 34 then map_option (\<lambda>(t, q). (JStr t, q)) (read_str r)
         else if c = 91 then (case skip_ws r of
             d # q \<Rightarrow> if d = 93 then Some (JArr [], q) else map_option (\<lambda>(vs, q). (JArr vs, q)) (read_items n (d # q))
           | [] \<Rightarrow> None)
         else if c = 123 then (case skip_ws r of
             d # q \<Rightarrow> if d = 125 then Some (JObj [], q)
               else map_option (\<lambda>(kvs, q). (JObj (member_dict kvs), q)) (read_members n (d # q))
           | [] \<Rightarrow> None)
         else read_literal s)"
| "read_items 0 s = None"
| "read_items (Suc n) s = (case read_value n s of
       None \<Rightarrow> None
     | Some (v, r) \<Rightarrow> (case skip_ws r of
           d # q \<Rightarrow> if d = 93 then Some ([v], q)
             else if d = 44 then map_option (\<lambda>(vs, q). (v # vs, q)) (read_items n (skip_ws q)) else None
         | [] \<Rightarrow> None))"
| "read_members 0 s = None"
| "read_members (Suc n) s = (case s of
       [] \<Rightarrow> None
     | c # r \<Rightarrow> if c \<noteq> 34 then None else (case read_str r of
         None \<Rightarrow> None
       | Some (k, r1) \<Rightarrow> (case skip_ws r1 of
           [] \<Rightarrow> None
         | d # r2 \<Rightarrow> if d \<noteq> 58 then None else (case read_value n (skip_ws r2) of
             None \<Rightarrow> None
           | Some (v, r3) \<Rightarrow> (case skip_ws r3 of
               [] \<Rightarrow> None
             | e # q \<Rightarrow> if e = 125 then Some ([(k, v)], q)
                 else if e = 44 then map_option (\<lambda>(kvs, q). ((k, v) # kvs, q)) (read_members n (skip_ws q))
                 else None)))))"

definition loads :: "pystr \<Rightarrow> exn + json" where
  "loads s = (case read_value (length s + 1) (skip_ws s) of
       Some (v, r) \<Rightarrow> if skip_ws r = [] then Inr v else Inl json_error
     | None \<Rightarrow> Inl json_error)"

section \<open>Reading back what was printed\<close>

lemma hex_value_digit: "d < 16 \<Longrightarrow> hex_value (if d < 10 then 48 + d else 87 + d) = Some d"
  by (auto simp: hex_value_def)

lemma read_hex4_hex4: "n < 65536 \<Longrightarrow> read_hex4 (hex4 n @ s) = Some (n, s)"
proof -
  assume n: "n < 65536"
  have "((n div 4096 mod 16 * 16 + n div 256 mod 16) * 16 + n div 16 mod 16) * 16 + n mod 16 = n"
  proof -
    have "n div 256 = n div 16 div 16" "n div 4096 = n div 16 div 16 div 16" by (simp_all add: div_mult2_eq[symmetric])
    moreover have "n div 16 div 16 div 16 < 16" using n by (simp add: div_mult2_eq[symmetric] less_mult_imp_div_less)
    ultimately show ?thesis by simp
  qed
  then show ?thesis
    by (simp only: hex4_def list.map append.simps read_hex4.simps hex_value_digit mod_less_divisor zero_less_numeral
        option.case prod.case)
qed

lemma read_escape_char:
  assumes "escape_char c = 92 # e"
  shows "read_escape (e @ s) = Some (c, s)"
proof -
  consider "c \<in> {34, 92, 10, 13, 9, 12, 8}" | "c \<notin> {34, 92, 10, 13, 9, 12, 8}" "c < 32"
    using assms by (auto simp: escape_char_def split: if_splits)
  then show ?thesis
  proof cases
    case 1
    then show ?thesis using assms by (auto simp: escape_char_def read_escape_def simple_escape_def)
  next
    case 2
    then have "e = 117 # hex4 c" using assms by (simp add: escape_char_def)
    with 2 show ?thesis by (simp add: read_escape_def read_hex4_hex4)
  qed
qed

lemma escape_char_cases: "escape_char c = [c] \<and> 32 \<le> c \<and> c \<noteq> 34 \<and> c \<noteq> 92 \<or> (\<exists>e. escape_char c = 92 # e)"
  by (auto simp: escape_char_def)

lemma read_str_dump: "read_str (concat (map escape_char t) @ 34 # s) = Some (t, s)"
proof (induction t)
  case Nil
  show ?case by (simp add: read_str.simps)
next
  case (Cons c t)
  from escape_char_cases[of c] show ?case
  proof
    assume "\<exists>e. escape_char c = 92 # e"
    then obtain e where e: "escape_char c = 92 # e" by blast
    show ?thesis using Cons read_escape_char[OF e, of "concat (map escape_char t) @ 34 # s"]
      by (simp add: e read_str.simps[of "92 # _"])
  qed (use Cons in \<open>simp add: read_str.simps[of "c # _"]\<close>)
qed

definition number_end :: "pystr \<Rightarrow> bool" where
  "number_end s \<longleftrightarrow> s = [] \<or> (\<not> is_digit10 (hd s) \<and> hd s \<noteq> 46 \<and> hd s \<noteq> 101 \<and> hd s \<noteq> 69)"

lemma str_nat_step: "10 \<le> n \<Longrightarrow> str_nat n = str_nat (n div 10) @ [48 + n mod 10]" "n < 10 \<Longrightarrow> str_nat n = [48 + n]"
  by (simp_all add: str_nat.simps)

lemma nat_of_digits_str_nat [simp]: "nat_of_digits (str_nat n) = n"
proof (induction n rule: str_nat.induct)
  case (1 n)
  show ?case
  proof (cases "n < 10")
    case False
    then have "str_nat n = str_nat (n div 10) @ [48 + n mod 10]" by (simp only: str_nat_step)
    with 1[OF False] show ?thesis by (simp add: nat_of_digits_def)
  qed (simp add: str_nat_step(2) nat_of_digits_def)
qed

lemma str_nat_zero: "hd (str_nat n) = 48 \<longleftrightarrow> n = 0"
proof (induction n rule: str_nat.induct)
  case (1 n)
  show ?case
  proof (cases "n < 10")
    case False
    then have "str_nat n = str_nat (n div 10) @ [48 + n mod 10]" by (simp only: str_nat_step)
    with 1[OF False] False show ?thesis by simp
  qed (simp add: str_nat_step(2))
qed

lemma int_part_nat:
  assumes "number_end s"
  shows "int_part (str_nat n @ s) = str_nat n"
proof -
  have d: "\<forall>c \<in> set (str_nat n). is_digit10 c" using str_nat_digits by (auto simp: is_digit10_def)
  have "takeWhile is_digit10 s = []" using assms by (cases s) (auto simp: number_end_def)
  with d have "takeWhile is_digit10 (str_nat n @ s) = str_nat n" by (simp add: takeWhile_append2)
  with str_nat_zero[of n] str_nat_step(2)[of 0] show ?thesis by (auto simp: int_part_def)
qed

lemma read_number_int:
  assumes "number_end s"
  shows "read_number (str_int i @ s) = Some (JInt i, s)"
proof -
  have e: "read_fraction s = ([], s)" "read_exponent s = (None, s)"
    using assms by (cases s; auto simp: number_end_def read_fraction_def read_exponent_def)+
  have h: "hd (str_nat n @ s) \<noteq> 45" for n
    using str_nat_digits[of "hd (str_nat n)" n] hd_in_set[OF str_nat_nonempty[of n]] by auto
  have "read_unsigned neg (str_nat n @ s) = Some (JInt (if neg then - int n else int n), s)" for neg n
    unfolding read_unsigned_def Let_def int_part_nat[OF assms] using e by simp
  with h show ?thesis by (simp add: read_number_def str_int_def)
qed

fun json_plain :: "json \<Rightarrow> bool" where
  "json_plain (JFloat r) = False"
| "json_plain (JArr xs) = (\<forall>x \<in> set xs. json_plain x)"
| "json_plain (JObj d) = (distinct (map fst d) \<and> (\<forall>kv \<in> set d. json_plain (snd kv)))"
| "json_plain _ = True"

definition style_ok :: "dump_style \<Rightarrow> bool" where
  "style_ok D \<longleftrightarrow> (\<exists>a b. ds_item_sep D = 44 # a \<and> ds_key_sep D = 58 # b \<and> list_all json_space a \<and> list_all json_space b)"

lemma skip_ws_spaces [simp]: "list_all json_space a \<Longrightarrow> skip_ws (a @ s) = skip_ws s"
  by (induction a) auto

lemma str_int_hd: "\<exists>c r. str_int i = c # r \<and> (c = 45 \<or> is_digit10 c)"
proof -
  have "\<exists>c r. str_nat n = c # r \<and> is_digit10 c" for n
    using str_nat_digits[of _ n] by (cases "str_nat n") (auto simp: is_digit10_def)
  then show ?thesis by (cases "i < 0") (auto simp: str_int_def, blast)
qed

lemma dumps_hd:
  assumes "json_plain v"
  shows "\<exists>c r. dumps D v = c # r \<and> \<not> json_space c \<and> c \<noteq> 93 \<and> c \<noteq> 125
    \<and> (c = 34 \<longleftrightarrow> (\<exists>s. v = JStr s)) \<and> (c = 91 \<longleftrightarrow> (\<exists>xs. v = JArr xs)) \<and> (c = 123 \<longleftrightarrow> (\<exists>d. v = JObj d))"
  using assms str_int_hd[of "case v of JInt i \<Rightarrow> i | _ \<Rightarrow> 0"]
  by (cases v) (auto simp: u_def json_space_def dump_str_def is_digit10_def)

lemma read_literal_dump:
  assumes "json_plain v" "\<And>s. v \<noteq> JStr s" "\<And>xs. v \<noteq> JArr xs" "\<And>d. v \<noteq> JObj d" "number_end s"
  shows "read_literal (dumps D v @ s) = Some (v, s)"
proof (cases v)
  case (JInt i)
  obtain c r where "str_int i = c # r" "c = 45 \<or> is_digit10 c" using str_int_hd by blast
  then have "\<not> prefix (u ''null'') (str_int i @ s)" "\<not> prefix (u ''true'') (str_int i @ s)" "\<not> prefix (u ''false'') (str_int i @ s)"
    by (auto simp: u_def is_digit10_def)
  with JInt read_number_int[OF assms(5)] show ?thesis by (simp add: read_literal_def)
qed (use assms in \<open>auto simp: read_literal_def u_def\<close>)

definition reads_back :: "dump_style \<Rightarrow> json \<Rightarrow> bool" where
  "reads_back D v \<longleftrightarrow> (\<forall>n s. number_end s \<longrightarrow> length (dumps D v) < n \<longrightarrow> read_value n (dumps D v @ s) = Some (v, s))"

lemma number_end_sep [simp]: "number_end (44 # s)" "number_end (93 # s)" "number_end (125 # s)"
  by (simp_all add: number_end_def is_digit10_def)

lemma json_space_sep [simp]: "\<not> json_space 44" "\<not> json_space 93" "\<not> json_space 125" "\<not> json_space 58" "\<not> json_space 34"
  by (simp_all add: json_space_def)

lemma skip_ws_dumps: "json_plain v \<Longrightarrow> skip_ws (dumps D v @ s) = dumps D v @ s"
  using dumps_hd[of v D] by auto

lemma join_first: "join sep ((c # r) # xs) = c # join sep (r # xs)"
  by (cases xs) auto

lemma read_items_dump:
  assumes D: "style_ok D" and xs: "xs \<noteq> []" "\<And>x. x \<in> set xs \<Longrightarrow> json_plain x \<and> reads_back D x"
    and n: "length (join (ds_item_sep D) (map (dumps D) xs)) + 1 < n"
  shows "read_items n (join (ds_item_sep D) (map (dumps D) xs) @ 93 # s) = Some (xs, s)"
  using xs n
proof (induction xs arbitrary: n)
  case (Cons x xs)
  obtain a where a: "ds_item_sep D = 44 # a" "list_all json_space a" using D by (auto simp: style_ok_def)
  obtain m where m: "n = Suc m" using Cons.prems(3) by (cases n) auto
  have x: "number_end q \<Longrightarrow> length (dumps D x) < m \<Longrightarrow> read_value m (dumps D x @ q) = Some (x, q)" for q
    using Cons.prems(2)[of x] by (simp add: reads_back_def)
  show ?case
  proof (cases xs)
    case Nil
    with x[of "93 # s"] Cons.prems(3) m show ?thesis by simp
  next
    case (Cons y ys)
    let ?t = "join (ds_item_sep D) (map (dumps D) xs)"
    have j: "join (ds_item_sep D) (map (dumps D) (x # xs)) = dumps D x @ 44 # a @ ?t"
      using Cons a by simp
    have l: "length (dumps D x) < m" "length ?t + 1 < m" using Cons.prems(3) m unfolding j by auto
    have "json_plain y" using Cons.prems(2) Cons by simp
    then obtain c r where "dumps D y = c # r" "\<not> json_space c" using dumps_hd[of y D] by blast
    then have c: "?t = c # join (ds_item_sep D) (r # map (dumps D) ys)" "\<not> json_space c" using Cons by (simp_all add: join_first)
    have "read_items m (?t @ 93 # s) = Some (xs, s)"
      using Cons.IH[of m] l Cons.prems(2) Cons by auto
    with x[of "44 # a @ ?t @ 93 # s"] l c a m show ?thesis unfolding j by simp
  qed
qed simp

lemma read_members_dump:
  assumes D: "style_ok D" and d: "d \<noteq> []" "\<And>kv. kv \<in> set d \<Longrightarrow> json_plain (snd kv) \<and> reads_back D (snd kv)"
    and n: "length (join (ds_item_sep D) (map (\<lambda>(k, v). dump_str k @ ds_key_sep D @ dumps D v) d)) + 1 < n"
  shows "read_members n (join (ds_item_sep D) (map (\<lambda>(k, v). dump_str k @ ds_key_sep D @ dumps D v) d) @ 125 # s) = Some (d, s)"
  using d n
proof (induction d arbitrary: n)
  case (Cons kv d)
  obtain k v where kv: "kv = (k, v)" by (cases kv)
  obtain a b where a: "ds_item_sep D = 44 # a" "list_all json_space a" "ds_key_sep D = 58 # b" "list_all json_space b"
    using D by (auto simp: style_ok_def)
  obtain m where m: "n = Suc m" using Cons.prems(3) by (cases n) auto
  have v: "number_end q \<Longrightarrow> length (dumps D v) < m \<Longrightarrow> read_value m (dumps D v @ q) = Some (v, q)" "json_plain v" for q
    using Cons.prems(2)[of kv] kv by (simp_all add: reads_back_def)
  have k: "read_str (concat (map escape_char k) @ 34 # q) = Some (k, q)" for q by (rule read_str_dump)
  show ?case
  proof (cases d)
    case Nil
    with v k[of "58 # b @ dumps D v @ 125 # s"] skip_ws_dumps[OF v(2)] Cons.prems(3) m kv a show ?thesis
      by (simp add: dump_str_def)
  next
    case (Cons y ys)
    let ?t = "join (ds_item_sep D) (map (\<lambda>(k, v). dump_str k @ ds_key_sep D @ dumps D v) d)"
    have j: "join (ds_item_sep D) (map (\<lambda>(k, v). dump_str k @ ds_key_sep D @ dumps D v) (kv # d))
        = 34 # concat (map escape_char k) @ 34 # 58 # b @ dumps D v @ 44 # a @ ?t"
      using Cons a kv by (simp add: dump_str_def)
    have l: "length (dumps D v) < m" "length ?t + 1 < m" using Cons.prems(3) m unfolding j by auto
    have c: "\<exists>r. ?t = 34 # r" using Cons by (cases ys) (auto simp: dump_str_def split: prod.split)
    have "read_members m (?t @ 125 # s) = Some (d, s)"
      using Cons.IH[of m] l Cons.prems(2) Cons by auto
    with v(1)[of "44 # a @ ?t @ 125 # s"] k[of "58 # b @ dumps D v @ 44 # a @ ?t @ 125 # s"] skip_ws_dumps[OF v(2)] l c a m
    show ?thesis unfolding j by (auto simp: kv)
  qed
qed simp

lemma member_dict_distinct: "distinct (map fst d) \<Longrightarrow> member_dict d = d"
proof -
  have put: "k \<notin> fst ` set acc \<Longrightarrow> dict_put k v acc = acc @ [(k, v)]" for k :: pystr and v :: json and acc
    by (induction acc) auto
  have "distinct (map fst (acc @ d)) \<Longrightarrow> foldl (\<lambda>d (k, v). dict_put k v d) acc d = acc @ d" for acc
    by (induction d arbitrary: acc) (auto simp: put)
  then show "distinct (map fst d) \<Longrightarrow> member_dict d = d" by (simp add: member_dict_def)
qed

lemma read_value_literal:
  assumes "json_plain v" "\<And>s. v \<noteq> JStr s" "\<And>xs. v \<noteq> JArr xs" "\<And>d. v \<noteq> JObj d" "number_end s" "0 < n"
  shows "read_value n (dumps D v @ s) = Some (v, s)"
proof -
  obtain m where "n = Suc m" using assms(6) by (cases n) auto
  moreover obtain c r where "dumps D v = c # r" "c \<noteq> 34" "c \<noteq> 91" "c \<noteq> 123"
    using dumps_hd[OF assms(1), of D] assms(2-4) by auto
  ultimately show ?thesis using read_literal_dump[OF assms(1-5), of D] by simp
qed

lemma reads_back_plain: "style_ok D \<Longrightarrow> json_plain v \<Longrightarrow> reads_back D v"
proof (induction v)
  case (JStr t)
  have "read_value n (dumps D (JStr t) @ s) = Some (JStr t, s)" if "length (dumps D (JStr t)) < n" for n s
    using that read_str_dump[of t s] by (cases n) (simp_all add: dump_str_def)
  then show ?case by (simp add: reads_back_def)
next
  case (JArr xs)
  have "read_value n (dumps D (JArr xs) @ s) = Some (JArr xs, s)" if l: "length (dumps D (JArr xs)) < n" for n s
  proof (cases "xs = []")
    case True
    with l show ?thesis by (cases n) (simp_all add: u_def)
  next
    case False
    let ?t = "join (ds_item_sep D) (map (dumps D) xs)"
    obtain m where m: "n = Suc m" using l by (cases n) auto
    have r: "read_items m (?t @ 93 # s) = Some (xs, s)"
      using l m JArr by (intro read_items_dump False) (auto simp: u_def)
    obtain x ys where "xs = x # ys" using False by (cases xs) auto
    moreover from this JArr(3) obtain c q where "dumps D x = c # q" "\<not> json_space c" "c \<noteq> 93"
      using dumps_hd[of x D] by auto
    ultimately have "?t = c # join (ds_item_sep D) (q # map (dumps D) ys)" "\<not> json_space c" "c \<noteq> 93" by (simp_all add: join_first)
    with r m show ?thesis by (simp add: u_def)
  qed
  then show ?case by (simp add: reads_back_def)
next
  case (JObj d)
  let ?t = "join (ds_item_sep D) (map (\<lambda>(k, v). dump_str k @ ds_key_sep D @ dumps D v) d)"
  have "read_value n (dumps D (JObj d) @ s) = Some (JObj d, s)" if l: "length (dumps D (JObj d)) < n" for n s
  proof (cases "d = []")
    case True
    with l show ?thesis by (cases n) simp_all
  next
    case False
    obtain m where m: "n = Suc m" using l by (cases n) auto
    have "json_plain (snd kv) \<and> reads_back D (snd kv)" if "kv \<in> set d" for kv
      using JObj that by (cases kv) (auto simp: Basic_BNFs.snds.simps)
    then have r: "read_members m (?t @ 125 # s) = Some (d, s)"
      using l m JObj by (intro read_members_dump False) auto
    obtain y ys where "d = y # ys" using False by (cases d) auto
    then have "\<exists>q. ?t = 34 # q" by (cases ys) (auto simp: dump_str_def split: prod.split)
    with r m JObj(3) show ?thesis by (auto simp: member_dict_distinct)
  qed
  then show ?case by (simp add: reads_back_def)
next
  case (JFloat r)
  then show ?case by simp
qed (unfold reads_back_def, intro allI impI read_value_literal; simp)+

lemma loads_dumps: "style_ok D \<Longrightarrow> json_plain v \<Longrightarrow> loads (dumps D v) = Inr v"
proof -
  assume D: "style_ok D" "json_plain v"
  have "number_end []" by (simp add: number_end_def)
  with reads_back_plain[OF D] have "read_value (length (dumps D v) + 1) (dumps D v @ []) = Some (v, [])"
    unfolding reads_back_def by (metis less_add_one)
  with skip_ws_dumps[OF D(2), of D "[]"] show "loads (dumps D v) = Inr v"
    unfolding loads_def by (simp only: append_Nil2 option.case prod.case dropWhile.simps) simp
qed

end
