(* ===== verification/PyFloat.thy ===== *)
theory PyFloat
  imports Prelude
begin

text \<open>
  Floats of Python. A float is the rational value of the double, \<open>double_of\<close> rounds a rational to the nearest double, ties
  to even, as IEEE 754 prescribes for every operation, and \<open>round3\<close> is \<open>round(x, 3)\<close>. Results beyond the largest double
  are left as they are; callers compare with \<open>max_double\<close>.
\<close>

section \<open>Rounding to doubles\<close>

text \<open>The power of two with \<open>2\<close>\<open>^k \<le> a < 2^(k+1)\<close>, for positive \<open>a\<close>.\<close>

fun bit_length :: "nat \<Rightarrow> nat" where
  "bit_length n = (if n = 0 then 0 else Suc (bit_length (n div 2)))"

declare bit_length.simps [simp del]

definition power2 :: "int \<Rightarrow> rat" where
  "power2 k = (if 0 \<le> k then 2 ^ nat k else 1 / 2 ^ nat (- k))"

definition binary_exponent :: "rat \<Rightarrow> int" where
  "binary_exponent a = (let (p, q) = quotient_of a; k = int (bit_length (nat p)) - int (bit_length (nat q)) in
     if power2 k \<le> a then k else k - 1)"

definition round_half_even :: "rat \<Rightarrow> int" where
  "round_half_even x = (let f = \<lfloor>x\<rfloor>; r = x - of_int f in
     if r < 1 / 2 then f else if 1 / 2 < r then f + 1 else if even f then f else f + 1)"

definition double_of :: "rat \<Rightarrow> rat" where
  "double_of x = (if x = 0 then 0
     else (let e = max (-1074) (binary_exponent \<bar>x\<bar> - 52) in of_int (round_half_even (x / power2 e)) * power2 e))"

definition max_double :: rat where
  "max_double = power2 1024 - power2 971"

lemma max_double_value [code]:
  "max_double = 179769313486231570814527423731704356798070567525844996598917476803157260780028538760589558632766878171540458953514382464234321326889464182768467546703537516986049910576551282076245490090389328944075868508455133942304583236903222948165808559332123348274797826204144723168738177180919299881250404026184124858368"
  by (simp add: max_double_def power2_def)

text \<open>\<open>round(x, 3)\<close>.\<close>

definition round3 :: "rat \<Rightarrow> rat" where
  "round3 x = double_of (of_int (round_half_even (x * 1000)) / 1000)"

text \<open>The format \<open>:.0%\<close>: the product with 100 is a float, printed as the nearest integer, ties to even.\<close>

definition percent :: "rat \<Rightarrow> pystr" where
  "percent x = str_int (round_half_even (double_of (double_of x * 100))) @ u ''%''"

section \<open>Facts\<close>

lemma power2_pos [simp]: "0 < power2 k"
  by (simp add: power2_def)

lemma bit_length_mono: "m \<le> n \<Longrightarrow> bit_length m \<le> bit_length n"
proof (induction m arbitrary: n rule: bit_length.induct)
  case (1 m)
  show ?case
  proof (cases "m = 0")
    case False
    with 1 have "bit_length (m div 2) \<le> bit_length (n div 2)" by (simp add: div_le_mono)
    with False 1(2) show ?thesis by (simp add: bit_length.simps[of m] bit_length.simps[of n])
  qed (simp add: bit_length.simps)
qed

lemma power2_less_one: "power2 k < 1 \<longleftrightarrow> k < 0"
proof (cases "0 \<le> k")
  case True
  have "1 \<le> (2 :: rat) ^ nat k" by simp
  with True show ?thesis by (simp add: power2_def not_less)
qed (simp add: power2_def)

lemma exponent_below_one:
  assumes "0 < x" "x < 1"
  shows "binary_exponent x \<le> -1"
proof -
  obtain p q where pq: "quotient_of x = (p, q)" by (cases "quotient_of x")
  then have q: "0 < q" "x = of_int p / of_int q" by (simp_all add: quotient_of_denom_pos quotient_of_div)
  with assms have "0 < p" "p < q" by (auto simp: field_simps zero_less_divide_iff)
  then have "bit_length (nat p) \<le> bit_length (nat q)" by (intro bit_length_mono) simp
  moreover have "power2 k \<le> x \<Longrightarrow> k \<le> -1" for k using assms(2) power2_less_one[of k] by simp
  ultimately show ?thesis by (simp add: binary_exponent_def pq Let_def)
qed

lemma round_half_even_bounds: "\<lfloor>x\<rfloor> \<le> round_half_even x" "round_half_even x \<le> \<lceil>x\<rceil>"
proof -
  show "\<lfloor>x\<rfloor> \<le> round_half_even x" by (simp add: round_half_even_def Let_def)
  show "round_half_even x \<le> \<lceil>x\<rceil>"
  proof (cases "x = of_int \<lfloor>x\<rfloor>")
    case True
    then have "x - of_int \<lfloor>x\<rfloor> = 0" by simp
    with floor_le_ceiling[of x] show ?thesis by (simp add: round_half_even_def)
  next
    case False
    then have "\<lfloor>x\<rfloor> + 1 \<le> \<lceil>x\<rceil>" by (simp add: ceiling_altdef)
    then show ?thesis by (auto simp: round_half_even_def Let_def)
  qed
qed

lemma round_half_even_le: "x \<le> of_int m \<Longrightarrow> round_half_even x \<le> m"
  using round_half_even_bounds(2)[of x] by (simp add: ceiling_le_iff order_trans)

lemma round_half_even_ge: "of_int m \<le> x \<Longrightarrow> m \<le> round_half_even x"
  using round_half_even_bounds(1)[of x] by (meson le_floor_iff order_trans)

lemma power2_add: "power2 (a + b) = power2 a * power2 b"
proof -
  have "power2 k = 2 powi k" for k by (simp add: power2_def power_int_def power_one_over inverse_eq_divide)
  then show ?thesis by (simp add: power_int_add)
qed

lemma double_of_nonneg: "0 \<le> x \<Longrightarrow> 0 \<le> double_of x"
  using round_half_even_ge[of 0] by (simp add: double_of_def Let_def less_imp_le)

lemma double_of_one [simp]: "double_of 1 = 1"
  by code_simp

text \<open>A fraction that is below one by at least half the spacing of doubles there stays below one.\<close>

lemma double_of_below_one:
  assumes "0 \<le> x" "x \<le> 1 - power2 (-53)"
  shows "double_of x < 1"
proof (cases "x = 0")
  case False
  define e where "e = max (-1074) (binary_exponent x - 52)"
  have x: "0 < x" "x < 1" using assms False power2_pos[of "-53"] by linarith+
  then have e: "e \<le> -53" using exponent_below_one[of x] by (simp add: e_def)
  have "power2 (- e) = of_int (2 ^ nat (- e))" "power2 (-53 - e) = of_int (2 ^ nat (-53 - e))"
    using e by (simp_all add: power2_def)
  moreover have "power2 (- e) * power2 e = 1" "power2 (-53 - e) * power2 e = power2 (-53)"
    using power2_add[of "- e" e] power2_add[of "-53 - e" e] by (simp_all add: power2_def)
  moreover define m where "m = (2 :: int) ^ nat (- e) - 2 ^ nat (-53 - e)"
  ultimately have m: "of_int m * power2 e = 1 - power2 (-53)" by (simp add: left_diff_distrib)
  have "x / power2 e \<le> of_int m" using assms(2) m by (simp add: divide_le_eq)
  then have "of_int (round_half_even (x / power2 e)) * power2 e \<le> of_int m * power2 e"
    by (intro mult_right_mono) (auto simp: round_half_even_le less_imp_le)
  moreover have "double_of x = of_int (round_half_even (x / power2 e)) * power2 e"
    using False x by (simp add: double_of_def Let_def e_def)
  ultimately show ?thesis using m power2_pos[of "-53"] by linarith
qed (simp add: double_of_def)

lemma double_of_share:
  assumes "p \<le> n" "0 < n" "n \<le> 2 ^ 53"
  shows "1 \<le> double_of (of_nat p / of_nat n) \<longleftrightarrow> p = n"
proof (cases "p = n")
  case False
  with assms have "p + 1 \<le> n" by simp
  then have "of_nat p + 1 \<le> (of_nat n :: rat)" by (metis of_nat_1 of_nat_add of_nat_le_iff)
  moreover have "(of_nat n :: rat) \<le> 2 ^ 53" using assms(3) by (metis of_nat_le_iff of_nat_numeral of_nat_power)
  ultimately have "of_nat p / of_nat n \<le> 1 - power2 (-53)"
    using assms(2) by (simp add: power2_def field_simps)
  with False show ?thesis using double_of_below_one[of "of_nat p / of_nat n"] by simp
qed (use assms in simp)

end
