(* ===== verification/Evaluation.thy ===== *)
theory Evaluation
  imports Preprocessing Patch_Check PyJson JsonText PyFloat
begin

text \<open>
  The two evaluation tools, \<open>src/pipelens/evaluation.py\<close> and \<open>src/pipelens/patch_evaluation.py\<close>. They run the classifier
  and the patch checks on recorded cases and fail below a minimum accuracy. Reading a file is a function from its name,
  relative to the directory of the manifest, to its text; parsing of the arguments and printing are left to the caller,
  which gets the text, or the document of the JSON form, and the exit code.
\<close>

section \<open>Classification cases\<close>

record EvaluationCase =
  ec_case_id :: pystr
  ec_log_file :: pystr
  ec_expected_category :: ErrorCategory
  ec_expected_evidence :: pystr

record EvaluationResult =
  er_case_id :: pystr
  er_expected_category :: ErrorCategory
  er_actual_category :: ErrorCategory
  er_category_correct :: bool
  er_evidence_correct :: bool
  er_first_error :: pystr

definition result_passed :: "EvaluationResult \<Rightarrow> bool" where
  "result_passed r \<longleftrightarrow> er_category_correct r \<and> er_evidence_correct r"

text \<open>The counts and the accuracy of a report, shared by both tools: the division is one of floats.\<close>

definition passed_count :: "('r \<Rightarrow> bool) \<Rightarrow> 'r list \<Rightarrow> nat" where
  "passed_count ok results = sum_list (map (\<lambda>r. if ok r then 1 else 0) results)"

definition accuracy :: "('r \<Rightarrow> bool) \<Rightarrow> 'r list \<Rightarrow> rat" where
  "accuracy ok results = (if length results \<noteq> 0
     then double_of (of_nat (passed_count ok results) / of_nat (length results)) else 0)"

text \<open>Validation of a case: missing fields and values of another type are refused.\<close>

definition as_object :: "json \<Rightarrow> exn + (pystr \<times> json) list" where
  "as_object x = (case x of JObj d \<Rightarrow> Inr d | _ \<Rightarrow> Inl validation_error)"

definition required_str :: "(pystr \<times> json) list \<Rightarrow> string \<Rightarrow> exn + pystr" where
  "required_str d k = field_str (dict_get JNull (u k) d)"

definition all_categories :: "ErrorCategory list" where
  "all_categories = [TEST, BUILD, DEPENDENCY, LINT, DOCKER, DEPLOY_AUTH, MISSING_ENV, TIMEOUT, RESOURCE, WORKFLOW, SECURITY, UNKNOWN]"

definition required_category :: "(pystr \<times> json) list \<Rightarrow> string \<Rightarrow> exn + ErrorCategory" where
  "required_category d k = bindE (required_str d k) (\<lambda>s.
     case find (\<lambda>c. category_value c = s) all_categories of None \<Rightarrow> Inl validation_error | Some c \<Rightarrow> Inr c)"

definition validate_case :: "json \<Rightarrow> exn + EvaluationCase" where
  "validate_case x = bindE (as_object x) (\<lambda>d.
     bindE (required_str d ''case_id'') (\<lambda>case_id. bindE (required_str d ''log_file'') (\<lambda>log_file.
     bindE (required_category d ''expected_category'') (\<lambda>category. bindE (required_str d ''expected_evidence'') (\<lambda>evidence.
       Inr \<lparr>ec_case_id = case_id, ec_log_file = log_file, ec_expected_category = category, ec_expected_evidence = evidence\<rparr>)))))"

definition evaluate_case :: "unicode \<Rightarrow> (pystr \<Rightarrow> exn + pystr) \<Rightarrow> int \<Rightarrow> int \<Rightarrow> int \<Rightarrow> EvaluationCase \<Rightarrow> exn + EvaluationResult" where
  "evaluate_case U read_text chunk_chars context_lines max_error_chunks c =
     bindE (read_text (ec_log_file c)) (\<lambda>raw_log.
       let processed = preprocess_log U raw_log chunk_chars context_lines max_error_chunks;
           classification = classify_log U (PreprocessedLog.pl_context processed) None
       in Inr \<lparr>er_case_id = ec_case_id c, er_expected_category = ec_expected_category c,
            er_actual_category = cl_category classification,
            er_category_correct = (cl_category classification = ec_expected_category c),
            er_evidence_correct = is_infix (ec_expected_evidence c) (cl_first_error classification),
            er_first_error = cl_first_error classification\<rparr>)"

definition evaluate_manifest :: "unicode \<Rightarrow> (pystr \<Rightarrow> exn + pystr) \<Rightarrow> pystr \<Rightarrow> int \<Rightarrow> int \<Rightarrow> int \<Rightarrow> exn + EvaluationResult list" where
  "evaluate_manifest U read_text manifest chunk_chars context_lines max_error_chunks =
     bindE (read_text manifest) (\<lambda>t. bindE (loads t) (\<lambda>raw. bindE (j_iter raw) (\<lambda>items.
     bindE (mapE validate_case items) (\<lambda>cases.
       mapE (evaluate_case U read_text chunk_chars context_lines max_error_chunks) cases))))"

section \<open>Patch cases\<close>

record CandidatePatch =
  cp_file :: pystr
  cp_patch_file :: pystr

record PatchEvaluationCase =
  pc_case_id :: pystr
  pc_log_file :: pystr
  pc_files :: "(pystr \<times> pystr) list"
  pc_candidates :: "CandidatePatch list"
  pc_expected_patches :: "(pystr \<times> pystr) list"
  pc_expected_rejections :: "int option"
  pc_expected_note :: "pystr option"

record PatchEvaluationResult =
  pr_case_id :: pystr
  pr_expected_files :: "pystr list"
  pr_verified_files :: "pystr list"
  pr_content_correct :: bool
  pr_expected_rejections :: "int option"
  pr_rejections :: nat
  pr_note_correct :: bool

definition patch_passed :: "PatchEvaluationResult \<Rightarrow> bool" where
  "patch_passed r \<longleftrightarrow> pr_verified_files r = pr_expected_files r \<and> pr_content_correct r
     \<and> (pr_expected_rejections r = None \<or> pr_expected_rejections r = Some (int (pr_rejections r))) \<and> pr_note_correct r"

definition report_verified :: "PatchEvaluationResult list \<Rightarrow> nat" where
  "report_verified results = sum_list (map (length \<circ> pr_verified_files) results)"

definition report_rejected :: "PatchEvaluationResult list \<Rightarrow> nat" where
  "report_rejected results = sum_list (map pr_rejections results)"

definition str_dict :: "json \<Rightarrow> exn + (pystr \<times> pystr) list" where
  "str_dict x = bindE (as_object x) (mapE (\<lambda>(k, v). bindE (field_str v) (\<lambda>s. Inr (k, s))))"

definition validate_candidate :: "json \<Rightarrow> exn + CandidatePatch" where
  "validate_candidate x = bindE (as_object x) (\<lambda>d. bindE (required_str d ''file'') (\<lambda>f.
     bindE (required_str d ''patch_file'') (\<lambda>p. Inr \<lparr>cp_file = f, cp_patch_file = p\<rparr>)))"

definition as_array :: "json \<Rightarrow> exn + json list" where
  "as_array x = (case x of JArr xs \<Rightarrow> Inr xs | _ \<Rightarrow> Inl validation_error)"

definition validate_patch_case :: "(json \<Rightarrow> int option) \<Rightarrow> json \<Rightarrow> exn + PatchEvaluationCase" where
  "validate_patch_case to_int x = bindE (as_object x) (\<lambda>d.
     bindE (required_str d ''case_id'') (\<lambda>case_id. bindE (required_str d ''log_file'') (\<lambda>log_file.
     bindE (str_dict (dict_get JNull (u ''files'') d)) (\<lambda>files.
     bindE (bindE (as_array (dict_get (JArr []) (u ''candidates'') d)) (mapE validate_candidate)) (\<lambda>candidates.
     bindE (str_dict (dict_get JNull (u ''expected_patches'') d)) (\<lambda>patches.
     bindE (field_int_opt to_int (dict_get JNull (u ''expected_rejections'') d)) (\<lambda>rejections.
     bindE (field_str_opt (dict_get JNull (u ''expected_note'') d)) (\<lambda>expected.
       Inr \<lparr>pc_case_id = case_id, pc_log_file = log_file, pc_files = files, pc_candidates = candidates, pc_expected_patches = patches,
         pc_expected_rejections = rejections, pc_expected_note = expected\<rparr>))))))))"

text \<open>\<open>any\<close> and \<open>all\<close> over a generator that may raise: they stop at the first deciding element.\<close>

fun anyE :: "('a \<Rightarrow> exn + bool) \<Rightarrow> 'a list \<Rightarrow> exn + bool" where
  "anyE f [] = Inr False"
| "anyE f (x # xs) = bindE (f x) (\<lambda>b. if b then Inr True else anyE f xs)"

fun allE :: "('a \<Rightarrow> exn + bool) \<Rightarrow> 'a list \<Rightarrow> exn + bool" where
  "allE f [] = Inr True"
| "allE f (x # xs) = bindE (f x) (\<lambda>b. if b then allE f xs else Inr False)"

definition accepted_suggestions :: "Diagnosis \<Rightarrow> Suggestion list" where
  "accepted_suggestions d = filter (\<lambda>s. sg_patch_verified s \<and> truthy (sg_file s)) (dg_suggestions d)"

definition patched_content :: "unicode \<Rightarrow> (pystr \<times> pystr) list \<Rightarrow> Suggestion \<Rightarrow> exn + pystr" where
  "patched_content U files s = (let f = (case sg_file s of None \<Rightarrow> [] | Some f \<Rightarrow> f) in
     case map_of files f of
       None \<Rightarrow> Inl (KeyError f)
     | Some content \<Rightarrow> apply_unified_diff U content (case sg_patch s of None \<Rightarrow> [] | Some p \<Rightarrow> p))"

definition content_correct :: "unicode \<Rightarrow> (pystr \<times> pystr) list \<Rightarrow> Suggestion list \<Rightarrow> (pystr \<times> pystr) list \<Rightarrow> exn + bool" where
  "content_correct U files ss expected = allE (\<lambda>(path, t).
     anyE (\<lambda>s. bindE (patched_content U files s) (\<lambda>updated. Inr (is_infix t updated)))
       (filter (\<lambda>s. sg_file s = Some path) ss)) expected"

definition candidate_suggestion :: "(pystr \<Rightarrow> exn + pystr) \<Rightarrow> CandidatePatch \<Rightarrow> exn + Suggestion" where
  "candidate_suggestion read_text c = bindE (read_text (cp_patch_file c)) (\<lambda>p.
     Inr \<lparr>sg_description = cp_patch_file c, sg_file = Some (cp_file c), sg_patch = Some p, sg_source = Some LLM, sg_patch_verified = False\<rparr>)"

definition evaluation_diagnosis :: "pystr \<Rightarrow> Suggestion list \<Rightarrow> Diagnosis" where
  "evaluation_diagnosis t ss = \<lparr>dg_summary = u ''evaluation'', dg_root_cause = u ''evaluation'', dg_confidence = 1,
     dg_evidence = [\<lparr>ev_source = u ''log'', ev_content = take 200 t, ev_location = None\<rparr>],
     dg_suggestions = ss, dg_conflicts = [], dg_notes = []\<rparr>"

definition rejected_total :: "patch_outcomes \<Rightarrow> nat" where
  "rejected_total outcomes = sum_list (map snd (filter (\<lambda>((_, outcome), _). outcome = u ''rejected'') outcomes))"

definition evaluate_patch_case :: "unicode \<Rightarrow> patch_lib \<Rightarrow> (pystr \<Rightarrow> exn + pystr) \<Rightarrow> PatchEvaluationCase \<Rightarrow> exn + PatchEvaluationResult" where
  "evaluate_patch_case U L read_text c =
     bindE (read_text (pc_log_file c)) (\<lambda>raw.
     let t = PreprocessedLog.pl_context (preprocess_log U raw 200000 8 10) in
     bindE (mapE (\<lambda>(path, source). bindE (read_text source) (\<lambda>s. Inr (path, s))) (pc_files c)) (\<lambda>files.
     bindE (mapE (candidate_suggestion read_text) (pc_candidates c)) (\<lambda>ss.
     bindE (find_version_bumps U t) (\<lambda>bumps.
     bindE (propose_and_verify_patches U L (evaluation_diagnosis t ss) bumps files) (\<lambda>(verified, outcomes).
     bindE (content_correct U files (accepted_suggestions verified) (pc_expected_patches c)) (\<lambda>correct.
       Inr \<lparr>pr_case_id = pc_case_id c, pr_expected_files = sort (map fst (pc_expected_patches c)),
         pr_verified_files = sort (remdups (map (\<lambda>s. the (sg_file s)) (accepted_suggestions verified))),
         pr_content_correct = correct, pr_expected_rejections = pc_expected_rejections c,
         pr_rejections = rejected_total outcomes,
         pr_note_correct = (case pc_expected_note c of None \<Rightarrow> True | Some n \<Rightarrow> list_ex (is_infix n) (dg_notes verified))\<rparr>))))))"

definition evaluate_patch_manifest :: "unicode \<Rightarrow> patch_lib \<Rightarrow> (json \<Rightarrow> int option) \<Rightarrow> (pystr \<Rightarrow> exn + pystr) \<Rightarrow> (pystr \<Rightarrow> exn + pystr) \<Rightarrow> pystr
    \<Rightarrow> exn + PatchEvaluationResult list" where
  "evaluate_patch_manifest U L to_int read_manifest read_text manifest =
     bindE (read_manifest manifest) (\<lambda>t. bindE (loads t) (\<lambda>raw. bindE (j_iter raw) (\<lambda>items.
     bindE (mapE (validate_patch_case to_int) items) (\<lambda>cases. mapE (evaluate_patch_case U L read_text) cases))))"

section \<open>Reports\<close>

text \<open>The text that goes to the terminal, or the document printed as JSON.\<close>

datatype report_output = Text pystr | Document json

definition marker :: "bool \<Rightarrow> pystr" where
  "marker ok = (if ok then u ''PASS'' else u ''FAIL'')"

definition accuracy_text :: "('r \<Rightarrow> bool) \<Rightarrow> 'r list \<Rightarrow> pystr" where
  "accuracy_text ok results = [10] @ u ''Accuracy: '' @ str_nat (passed_count ok results) @ u ''/'' @ str_nat (length results)
     @ u '' ('' @ percent (accuracy ok results) @ u '')''"

definition print_lines :: "pystr list \<Rightarrow> pystr" where
  "print_lines ls = concat (map (\<lambda>l. l @ [10]) ls)"

definition counts_json :: "('r \<Rightarrow> bool) \<Rightarrow> 'r list \<Rightarrow> (pystr \<times> json) list" where
  "counts_json ok results = [(u ''passed'', JInt (int (passed_count ok results))), (u ''total'', JInt (int (length results))),
     (u ''accuracy'', if results = [] then JInt 0 else JFloat (accuracy ok results))]"

definition result_json :: "EvaluationResult \<Rightarrow> json" where
  "result_json r = JObj [(u ''case_id'', JStr (er_case_id r)), (u ''expected_category'', JStr (category_value (er_expected_category r))),
     (u ''actual_category'', JStr (category_value (er_actual_category r))), (u ''category_correct'', JBool (er_category_correct r)),
     (u ''evidence_correct'', JBool (er_evidence_correct r)), (u ''first_error'', JStr (er_first_error r)),
     (u ''passed'', JBool (result_passed r))]"

definition result_line :: "EvaluationResult \<Rightarrow> pystr" where
  "result_line r = u ''['' @ marker (result_passed r) @ u ''] '' @ er_case_id r @ u '': '' @ category_value (er_actual_category r)
     @ u '' (expected '' @ category_value (er_expected_category r) @ u '')''"

definition exit_code :: "('r \<Rightarrow> bool) \<Rightarrow> rat \<Rightarrow> 'r list \<Rightarrow> int" where
  "exit_code ok minimum results = (if accuracy ok results < minimum then 1 else 0)"

definition evaluation_main :: "unicode \<Rightarrow> (pystr \<Rightarrow> exn + pystr) \<Rightarrow> pystr \<Rightarrow> rat \<Rightarrow> bool \<Rightarrow> exn + report_output \<times> int" where
  "evaluation_main U read_text manifest minimum as_json =
     bindE (evaluate_manifest U read_text manifest 200000 8 10) (\<lambda>results.
       Inr (if as_json then Document (JObj (counts_json result_passed results @ [(u ''results'', JArr (map result_json results))]))
            else Text (print_lines (map result_line results @ [accuracy_text result_passed results])),
            exit_code result_passed minimum results))"

text \<open>The text of a list of strings: quotes are single unless the string has only those, and what is not printable is escaped.\<close>

definition repr_char :: "(nat \<Rightarrow> bool) \<Rightarrow> nat \<Rightarrow> nat \<Rightarrow> pystr" where
  "repr_char printable q c =
     (if c = 92 \<or> c = q then [92, c] else if c = 9 then u [CHR 92] @ u ''t'' else if c = 10 then u [CHR 92] @ u ''n''
      else if c = 13 then u [CHR 92] @ u ''r''
      else if (if c < 127 then 32 \<le> c else printable c) then [c]
      else if c < 256 then [92] @ u ''x'' @ drop 2 (hex4 c)
      else if c < 65536 then [92] @ u ''u'' @ hex4 c
      else [92] @ u ''U'' @ hex4 (c div 65536) @ hex4 (c mod 65536))"

definition repr_str :: "(nat \<Rightarrow> bool) \<Rightarrow> pystr \<Rightarrow> pystr" where
  "repr_str printable s = (let q = (if 39 \<in> set s \<and> 34 \<notin> set s then 34 else 39)
     in [q] @ concat (map (repr_char printable q) s) @ [q])"

definition repr_list :: "(nat \<Rightarrow> bool) \<Rightarrow> pystr list \<Rightarrow> pystr" where
  "repr_list printable ss = u ''['' @ join (u '', '') (map (repr_str printable) ss) @ u '']''"

definition opt_json :: "('a \<Rightarrow> json) \<Rightarrow> 'a option \<Rightarrow> json" where
  "opt_json f x = (case x of None \<Rightarrow> JNull | Some v \<Rightarrow> f v)"

definition patch_result_json :: "PatchEvaluationResult \<Rightarrow> json" where
  "patch_result_json r = JObj [(u ''case_id'', JStr (pr_case_id r)), (u ''expected_files'', JArr (map JStr (pr_expected_files r))),
     (u ''verified_files'', JArr (map JStr (pr_verified_files r))), (u ''content_correct'', JBool (pr_content_correct r)),
     (u ''expected_rejections'', opt_json JInt (pr_expected_rejections r)), (u ''rejections'', JInt (int (pr_rejections r))),
     (u ''note_correct'', JBool (pr_note_correct r)), (u ''passed'', JBool (patch_passed r))]"

definition patch_result_line :: "(nat \<Rightarrow> bool) \<Rightarrow> PatchEvaluationResult \<Rightarrow> pystr" where
  "patch_result_line printable r = u ''['' @ marker (patch_passed r) @ u ''] '' @ pr_case_id r @ u '': verified=''
     @ repr_list printable (pr_verified_files r) @ u '' rejected='' @ str_nat (pr_rejections r)"

definition patch_main :: "unicode \<Rightarrow> patch_lib \<Rightarrow> (json \<Rightarrow> int option) \<Rightarrow> (nat \<Rightarrow> bool) \<Rightarrow> (pystr \<Rightarrow> exn + pystr) \<Rightarrow> (pystr \<Rightarrow> exn + pystr) \<Rightarrow> pystr
    \<Rightarrow> rat \<Rightarrow> bool \<Rightarrow> exn + report_output \<times> int" where
  "patch_main U L to_int printable read_manifest read_text manifest minimum as_json =
     bindE (evaluate_patch_manifest U L to_int read_manifest read_text manifest) (\<lambda>results.
       Inr (if as_json then Document (JObj (counts_json patch_passed results
              @ [(u ''verified_patches'', JInt (int (report_verified results))), (u ''rejected_patches'', JInt (int (report_rejected results))),
                 (u ''results'', JArr (map patch_result_json results))]))
            else Text (print_lines (map (patch_result_line printable) results @ [accuracy_text patch_passed results
              @ u ''; verified '' @ str_nat (report_verified results) @ u '', rejected '' @ str_nat (report_rejected results)])),
            exit_code patch_passed minimum results))"

section \<open>The gate\<close>

lemma passed_count_filter: "passed_count ok results = length (filter ok results)"
  by (induction results) (simp_all add: passed_count_def)

lemma exit_code_full:
  assumes "length results \<le> 2 ^ 53"
  shows "exit_code ok 1 results = 0 \<longleftrightarrow> results \<noteq> [] \<and> list_all ok results"
proof (cases "results = []")
  case False
  then have "accuracy ok results < 1 \<longleftrightarrow> length (filter ok results) \<noteq> length results"
    using double_of_share[of "length (filter ok results)" "length results"] assms
    by (simp add: accuracy_def passed_count_filter not_le[symmetric])
  moreover have "length (filter ok results) = length results \<longleftrightarrow> list_all ok results"
    by (metis filter_True length_filter_less list_all_iff nat_neq_iff)
  ultimately show ?thesis using False by (simp add: exit_code_def)
qed (simp add: exit_code_def accuracy_def)

lemma proposed_unverified:
  "propose_files U L b files = Inr (ss, ns) \<Longrightarrow> list_all (\<lambda>s. \<not> sg_patch_verified s) ss"
  by (induction U L b files arbitrary: ss ns rule: propose_files.induct)
    (auto simp: Let_def bindE_eq_Inr rule_suggestion_def split: if_splits)

lemma all_proposed_unverified:
  "propose_version_patches U L bumps files = Inr (ss, ns) \<Longrightarrow> list_all (\<lambda>s. \<not> sg_patch_verified s) ss"
  by (induction U L bumps files arbitrary: ss ns rule: propose_version_patches.induct)
    (auto simp: bindE_eq_Inr dest: proposed_unverified)

lemma verify_loop_flags:
  assumes "verify_loop U L files ss ok ns outcomes = Inr (res, notes', outcomes')"
    "list_all (\<lambda>s. \<not> sg_patch_verified s) ss" "list_all (\<lambda>s. sg_patch_verified s \<longrightarrow> truthy (sg_patch s)) ok"
  shows "list_all (\<lambda>s. sg_patch_verified s \<longrightarrow> truthy (sg_patch s)) res"
  using assms
proof (induction ss arbitrary: ok ns outcomes)
  case (Cons s ss)
  from Cons.prems show ?case
    by (auto simp: Let_def bindE_eq_Inr split: if_splits option.splits intro: Cons.IH)
qed simp

lemma verified_is_publishable:
  assumes "propose_and_verify_patches U L d bumps files = Inr (v, outcomes)" "list_all (\<lambda>s. \<not> sg_patch_verified s) (dg_suggestions d)"
    "s \<in> set (dg_suggestions v)"
  shows "sg_patch_verified s \<longleftrightarrow> truthy (sg_patch s)" "sg_patch_verified s \<Longrightarrow> publishable U L files s"
proof -
  from assms(1) obtain ss ns ns' where p: "propose_version_patches U L bumps files = Inr (ss, ns)"
    "verify_loop U L files (ss @ dg_suggestions d) [] (dg_notes d @ ns) [] = Inr (dg_suggestions v, ns', outcomes)"
    by (auto simp: propose_and_verify_patches_def verify_patch_suggestions_def bindE_eq_Inr)
  have "list_all (\<lambda>s. sg_patch_verified s \<longrightarrow> truthy (sg_patch s)) (dg_suggestions v)"
    using verify_loop_flags[OF p(2)] all_proposed_unverified[OF p(1)] assms(2) by simp
  with propose_and_verify_sound[OF assms(1)] assms(3)
  show "sg_patch_verified s \<longleftrightarrow> truthy (sg_patch s)" "sg_patch_verified s \<Longrightarrow> publishable U L files s"
    by (auto simp: list_all_iff)
qed

lemma anyE_total: "(\<And>x. x \<in> set xs \<Longrightarrow> f x = Inr (P x)) \<Longrightarrow> anyE f xs = Inr (list_ex P xs)"
  by (induction xs) auto

lemma allE_total: "(\<And>x. x \<in> set xs \<Longrightarrow> f x = Inr (P x)) \<Longrightarrow> allE f xs = Inr (list_all P xs)"
  by (induction xs) auto

text \<open>The diff of a suggestion gives the expected text.\<close>

definition yields :: "unicode \<Rightarrow> (pystr \<times> pystr) list \<Rightarrow> pystr \<Rightarrow> Suggestion \<Rightarrow> bool" where
  "yields U files t s = (case patched_content U files s of Inl _ \<Rightarrow> False | Inr updated \<Rightarrow> is_infix t updated)"

lemma publishable_patched:
  assumes "publishable U L files s"
  shows "bindE (patched_content U files s) (\<lambda>updated. Inr (is_infix t updated)) = Inr (yields U files t s)"
  using assms by (auto simp: publishable_def patched_content_def yields_def Let_def)

lemma content_correct_total:
  assumes "\<And>s. s \<in> set ss \<Longrightarrow> publishable U L files s"
  shows "content_correct U files ss expected
    = Inr (list_all (\<lambda>(path, t). list_ex (yields U files t) (filter (\<lambda>s. sg_file s = Some path) ss)) expected)"
  unfolding content_correct_def
proof (rule allE_total)
  fix x assume "x \<in> set expected"
  obtain path t where x: "x = (path, t)" by (cases x)
  have "anyE (\<lambda>s. bindE (patched_content U files s) (\<lambda>updated. Inr (is_infix t updated))) (filter (\<lambda>s. sg_file s = Some path) ss)
      = Inr (list_ex (yields U files t) (filter (\<lambda>s. sg_file s = Some path) ss))"
    by (rule anyE_total) (use assms in \<open>auto intro: publishable_patched\<close>)
  then show "(case x of (path, t) \<Rightarrow> anyE (\<lambda>s. bindE (patched_content U files s) (\<lambda>updated. Inr (is_infix t updated)))
       (filter (\<lambda>s. sg_file s = Some path) ss))
     = Inr (case x of (path, t) \<Rightarrow> list_ex (yields U files t) (filter (\<lambda>s. sg_file s = Some path) ss))"
    by (simp add: x)
qed

text \<open>The cases of a manifest, and what a case that is met shows: every expected text is in the file after a diff that passed
  verification, and no other file has such a diff.\<close>

definition patch_cases :: "(json \<Rightarrow> int option) \<Rightarrow> (pystr \<Rightarrow> exn + pystr) \<Rightarrow> pystr \<Rightarrow> exn + PatchEvaluationCase list" where
  "patch_cases to_int read_manifest manifest = bindE (read_manifest manifest) (\<lambda>t. bindE (loads t) (\<lambda>raw.
     bindE (j_iter raw) (mapE (validate_patch_case to_int))))"

definition case_met :: "unicode \<Rightarrow> patch_lib \<Rightarrow> (pystr \<Rightarrow> exn + pystr) \<Rightarrow> PatchEvaluationCase \<Rightarrow> bool" where
  "case_met U L read_text c \<longleftrightarrow> (\<exists>raw files ss bumps v outcomes.
     read_text (pc_log_file c) = Inr raw \<and> mapE (\<lambda>(path, source). bindE (read_text source) (\<lambda>s. Inr (path, s))) (pc_files c) = Inr files
     \<and> mapE (candidate_suggestion read_text) (pc_candidates c) = Inr ss
     \<and> find_version_bumps U (PreprocessedLog.pl_context (preprocess_log U raw 200000 8 10)) = Inr bumps
     \<and> propose_and_verify_patches U L (evaluation_diagnosis (PreprocessedLog.pl_context (preprocess_log U raw 200000 8 10)) ss) bumps files
         = Inr (v, outcomes)
     \<and> list_all (\<lambda>(path, t). \<exists>s \<in> set (dg_suggestions v). sg_file s = Some path \<and> publishable U L files s \<and> yields U files t s)
         (pc_expected_patches c)
     \<and> list_all (\<lambda>s. sg_patch_verified s \<and> truthy (sg_file s) \<longrightarrow> the (sg_file s) \<in> fst ` set (pc_expected_patches c)) (dg_suggestions v)
     \<and> (case pc_expected_rejections c of None \<Rightarrow> True | Some n \<Rightarrow> int (rejected_total outcomes) = n))"

lemma candidates_unverified:
  "mapE (candidate_suggestion read_text) cs = Inr ss \<Longrightarrow> list_all (\<lambda>s. \<not> sg_patch_verified s) ss"
  by (induction cs arbitrary: ss) (auto simp: bindE_eq_Inr candidate_suggestion_def)

lemma passed_case_met:
  assumes "evaluate_patch_case U L read_text c = Inr r" "patch_passed r"
  shows "case_met U L read_text c"
proof -
  from assms(1) obtain raw files ss bumps v outcomes correct where
    r: "read_text (pc_log_file c) = Inr raw" "mapE (\<lambda>(path, source). bindE (read_text source) (\<lambda>s. Inr (path, s))) (pc_files c) = Inr files"
      "mapE (candidate_suggestion read_text) (pc_candidates c) = Inr ss"
      "find_version_bumps U (PreprocessedLog.pl_context (preprocess_log U raw 200000 8 10)) = Inr bumps"
      "propose_and_verify_patches U L (evaluation_diagnosis (PreprocessedLog.pl_context (preprocess_log U raw 200000 8 10)) ss) bumps files
         = Inr (v, outcomes)"
      "content_correct U files (accepted_suggestions v) (pc_expected_patches c) = Inr correct"
    and fields: "pr_verified_files r = sort (remdups (map (\<lambda>s. the (sg_file s)) (accepted_suggestions v)))"
      "pr_expected_files r = sort (map fst (pc_expected_patches c))" "pr_content_correct r = correct"
      "pr_expected_rejections r = pc_expected_rejections c" "pr_rejections r = rejected_total outcomes"
    unfolding evaluate_patch_case_def Let_def bindE_eq_Inr by (auto simp: bindE_eq_Inr)
  have "list_all (\<lambda>s. \<not> sg_patch_verified s) (dg_suggestions (evaluation_diagnosis t ss))" for t
    using candidates_unverified[OF r(3)] by (simp add: evaluation_diagnosis_def)
  then have ok: "publishable U L files s" if "s \<in> set (accepted_suggestions v)" for s
    using that verified_is_publishable(2)[OF r(5)] by (simp add: accepted_suggestions_def)
  have "list_all (\<lambda>(path, t). list_ex (yields U files t) (filter (\<lambda>s. sg_file s = Some path) (accepted_suggestions v))) (pc_expected_patches c)"
    using content_correct_total[OF ok] r(6) assms(2) fields(3) by (simp add: patch_passed_def)
  then have "list_all (\<lambda>(path, t). \<exists>s \<in> set (dg_suggestions v). sg_file s = Some path \<and> publishable U L files s \<and> yields U files t s)
      (pc_expected_patches c)"
    using ok by (fastforce simp: list_all_iff list_ex_iff accepted_suggestions_def)
  moreover have "set (map (\<lambda>s. the (sg_file s)) (accepted_suggestions v)) = set (map fst (pc_expected_patches c))"
    using assms(2) fields(1,2) by (metis patch_passed_def set_remdups set_sort)
  then have "list_all (\<lambda>s. sg_patch_verified s \<and> truthy (sg_file s) \<longrightarrow> the (sg_file s) \<in> fst ` set (pc_expected_patches c)) (dg_suggestions v)"
    by (auto simp: list_all_iff accepted_suggestions_def)
  moreover have "case pc_expected_rejections c of None \<Rightarrow> True | Some n \<Rightarrow> int (rejected_total outcomes) = n"
    using assms(2) fields(4,5) by (auto simp: patch_passed_def split: option.splits)
  ultimately show ?thesis using r(1-5) unfolding case_met_def by blast
qed

lemma mapE_results: "mapE f xs = Inr ys \<Longrightarrow> length ys = length xs \<and> (\<forall>x \<in> set xs. \<exists>y \<in> set ys. f x = Inr y)"
  by (induction xs arbitrary: ys) (fastforce simp: bindE_eq_Inr)+

text \<open>C28: the gate on diff proposals is sound: when the evaluation of a manifest of fewer than 2^53 cases ends with exit code 0
  at the default minimum of 1.0, the manifest has at least one case, and in every case each expected text is in its file
  after a diff that passed every check of the verification, no other file has a verified diff, and exactly the expected
  number of diffs was rejected. The rounding of the accuracy to a float cannot hide a failed case.\<close>

theorem patch_gate_sound:
  assumes "patch_main U L to_int printable read_manifest read_text manifest 1 as_json = Inr (out, 0)"
    "patch_cases to_int read_manifest manifest = Inr cases" "length cases \<le> 2 ^ 53"
  shows "cases \<noteq> [] \<and> list_all (case_met U L read_text) cases"
proof -
  from assms(1,2) obtain results where r: "mapE (evaluate_patch_case U L read_text) cases = Inr results"
    "exit_code patch_passed 1 results = 0"
    by (auto simp: patch_main_def evaluate_patch_manifest_def patch_cases_def bindE_eq_Inr)
  have "length results = length cases" "\<forall>c \<in> set cases. \<exists>x \<in> set results. evaluate_patch_case U L read_text c = Inr x"
    using mapE_results[OF r(1)] by auto
  with exit_code_full[of results patch_passed] r(2) assms(3) passed_case_met show ?thesis
    by (fastforce simp: list_all_iff)
qed

definition sample_patch_manifest :: json where
  "sample_patch_manifest = JArr [JObj [(u ''case_id'', JStr (u ''c'')), (u ''log_file'', JStr (u ''log'')),
     (u ''files'', JObj [(u ''r.txt'', JStr (u ''r''))]),
     (u ''candidates'', JArr [JObj [(u ''file'', JStr (u ''r.txt'')), (u ''patch_file'', JStr (u ''p''))]]),
     (u ''expected_patches'', JObj [(u ''r.txt'', JStr (u ''a==2''))])]]"

definition sample_patch_text :: "pystr \<Rightarrow> exn + pystr" where
  "sample_patch_text name = (if name = u ''m'' then Inr (dumps \<lparr>ds_item_sep = u '', '', ds_key_sep = u '': '', ds_float = (\<lambda>_. [])\<rparr> sample_patch_manifest)
     else if name = u ''r'' then Inr (u ''a==1'' @ nl @ u ''b'' @ nl)
     else if name = u ''p'' then Inr sample_patch else Inr (u ''x''))"

lemma sample_patch_cases:
  "case patch_cases plain_int sample_patch_text (u ''m'') of Inl _ \<Rightarrow> False | Inr cs \<Rightarrow> length cs = 1"
  by code_simp

lemma sample_patch_main:
  "case patch_main ascii lenient_lib plain_int (\<lambda>_. True) sample_patch_text sample_patch_text (u ''m'') 1 False of
     Inl _ \<Rightarrow> False | Inr (_, code) \<Rightarrow> code = 0"
  by code_simp

theorem patch_gate_sound_witness:
  "\<exists>out cases. patch_main ascii lenient_lib plain_int (\<lambda>_. True) sample_patch_text sample_patch_text (u ''m'') 1 False = Inr (out, 0)
     \<and> patch_cases plain_int sample_patch_text (u ''m'') = Inr cases \<and> length cases = 1
     \<and> list_all (case_met ascii lenient_lib sample_patch_text) cases"
proof -
  obtain out where out: "patch_main ascii lenient_lib plain_int (\<lambda>_. True) sample_patch_text sample_patch_text (u ''m'') 1 False = Inr (out, 0)"
    using sample_patch_main by (auto split: sum.splits)
  obtain cases where c: "patch_cases plain_int sample_patch_text (u ''m'') = Inr cases" "length cases = 1"
    using sample_patch_cases by (auto split: sum.splits)
  from patch_gate_sound[OF out c(1)] c(2) have "list_all (case_met ascii lenient_lib sample_patch_text) cases" by simp
  with out c show ?thesis by blast
qed

end
