(* ===== verification/Metrics.thy ===== *)
theory Metrics
  imports Models
begin

text \<open>
  The Prometheus metrics of \<open>src/pipelens/metrics.py\<close>. The registry is a record of the values of
  all series: a counter or gauge series has a number, a histogram series the observations made, in
  order. A series is a metric (by the attribute that holds it) and the values of its labels.
  \<open>metric_specs\<close> is what \<open>Metrics.__init__\<close> registers: attribute, exposed name, kind, label names.
\<close>

datatype metric_kind = Counter | Gauge | Histogram

definition metric_specs :: "(string \<times> string \<times> metric_kind \<times> string list) list" where
  "metric_specs = [
    (''webhooks'', ''pipelens_webhooks_total'', Counter, [''outcome'']),
    (''analyses'', ''pipelens_analyses_total'', Counter, [''status'']),
    (''analysis_duration'', ''pipelens_analysis_duration_seconds'', Histogram, []),
    (''queue_wait'', ''pipelens_queue_wait_seconds'', Histogram, []),
    (''total_latency'', ''pipelens_total_latency_seconds'', Histogram, []),
    (''slo_results'', ''pipelens_slo_results_total'', Counter, [''phase'', ''outcome'']),
    (''error_categories'', ''pipelens_error_categories_total'', Counter, [''category'']),
    (''analysis_trust'', ''pipelens_analysis_trust_total'', Counter, [''level'']),
    (''redactions'', ''pipelens_redactions_total'', Counter, [''kind'']),
    (''log_chunks'', ''pipelens_log_chunks_total'', Counter, [''kind'']),
    (''llm_requests'', ''pipelens_llm_requests_total'', Counter, [''model'', ''status'']),
    (''llm_duration'', ''pipelens_llm_duration_seconds'', Histogram, [''model'']),
    (''llm_tokens'', ''pipelens_llm_tokens_total'', Counter, [''model'', ''direction'']),
    (''llm_estimated_cost'', ''pipelens_llm_estimated_cost_usd_total'', Counter, [''model'']),
    (''queue_depth'', ''pipelens_analysis_queue_depth'', Gauge, []),
    (''queue_retries'', ''pipelens_queue_retries_total'', Counter, []),
    (''queue_recovered'', ''pipelens_queue_recovered_total'', Counter, []),
    (''queue_reconciled'', ''pipelens_queue_reconciled_total'', Counter, []),
    (''queue_connection_errors'', ''pipelens_queue_connection_errors_total'', Counter, [''phase'']),
    (''queue_reconnections'', ''pipelens_queue_reconnections_total'', Counter, [''phase'']),
    (''queue_recovery_duration'', ''pipelens_queue_recovery_duration_seconds'', Histogram, [''phase'']),
    (''http_retries'', ''pipelens_http_retries_total'', Counter, [''provider'', ''reason'']),
    (''feedback'', ''pipelens_feedback_total'', Counter, [''dimension'', ''value'']),
    (''patch_proposals'', ''pipelens_patch_proposals_total'', Counter, [''source'', ''outcome'']),
    (''resolutions'', ''pipelens_resolution_outcomes_total'', Counter, [''outcome'']),
    (''recovery_duration'', ''pipelens_recovery_seconds'', Histogram, [''outcome''])]"

type_synonym series = "string \<times> pystr list"

record metrics =
  counters :: "series \<Rightarrow> rat"
  gauges :: "series \<Rightarrow> rat"
  histograms :: "series \<Rightarrow> rat list"

definition new_metrics :: metrics where
  "new_metrics = \<lparr>counters = (\<lambda>_. 0), gauges = (\<lambda>_. 0), histograms = (\<lambda>_. [])\<rparr>"

text \<open>\<open>inc\<close> raises on a negative amount; \<open>inc1\<close> is the call without an argument.\<close>

definition inc_by :: "string \<Rightarrow> pystr list \<Rightarrow> rat \<Rightarrow> metrics \<Rightarrow> exn + metrics" where
  "inc_by m ls x k =
     (if x < 0 then Inl (ValueError (u ''Counters can only be incremented by non-negative amounts.''))
      else Inr (k\<lparr>counters := (counters k)((m, ls) := counters k (m, ls) + x)\<rparr>))"

definition inc1 :: "string \<Rightarrow> pystr list \<Rightarrow> metrics \<Rightarrow> metrics" where
  "inc1 m ls k = k\<lparr>counters := (counters k)((m, ls) := counters k (m, ls) + 1)\<rparr>"

definition inc_nat :: "string \<Rightarrow> pystr list \<Rightarrow> nat \<Rightarrow> metrics \<Rightarrow> metrics" where
  "inc_nat m ls n k = k\<lparr>counters := (counters k)((m, ls) := counters k (m, ls) + of_nat n)\<rparr>"

definition set_gauge :: "string \<Rightarrow> rat \<Rightarrow> metrics \<Rightarrow> metrics" where
  "set_gauge m x k = k\<lparr>gauges := (gauges k)((m, []) := x)\<rparr>"

definition observe :: "string \<Rightarrow> pystr list \<Rightarrow> rat \<Rightarrow> metrics \<Rightarrow> metrics" where
  "observe m ls x k = k\<lparr>histograms := (histograms k)((m, ls) := histograms k (m, ls) @ [x])\<rparr>"

lemma inc_by_nat: "inc_by m ls (of_nat n) k = Inr (inc_nat m ls n k)"
  by (simp add: inc_by_def inc_nat_def)

text \<open>\<open>record_redactions\<close> adds the counts of one sanitized text.\<close>

fun record_redactions :: "(pystr \<times> nat) list \<Rightarrow> metrics \<Rightarrow> metrics" where
  "record_redactions [] k = k"
| "record_redactions ((kind, n) # cs) k = record_redactions cs (inc_nat ''redactions'' [kind] n k)"

definition inc_value :: "string \<Rightarrow> pystr list \<Rightarrow> rat \<Rightarrow> (metrics, unit) prog" where
  "inc_value m ls x = transS (\<lambda>k. bindE (inc_by m ls x k) (\<lambda>k'. Inr ((), k')))"

definition record_llm ::
  "pystr \<Rightarrow> pystr \<Rightarrow> rat \<Rightarrow> int \<Rightarrow> int \<Rightarrow> rat \<Rightarrow> (metrics, unit) prog" where
  "record_llm model status duration input_tokens output_tokens estimated_cost =
     bindS (updS (\<lambda>k. observe ''llm_duration'' [model] duration (inc1 ''llm_requests'' [model, status] k)))
       (\<lambda>_. bindS (inc_value ''llm_tokens'' [model, u ''input''] (of_int input_tokens))
       (\<lambda>_. bindS (inc_value ''llm_tokens'' [model, u ''output''] (of_int output_tokens))
       (\<lambda>_. inc_value ''llm_estimated_cost'' [model] estimated_cost)))"

lemma counters_simps [simp]:
  "counters (inc1 m ls k) = (counters k)((m, ls) := counters k (m, ls) + 1)"
  "counters (inc_nat m ls n k) = (counters k)((m, ls) := counters k (m, ls) + of_nat n)"
  "counters (set_gauge m x k) = counters k"
  "counters (observe m ls x k) = counters k"
  "histograms (inc1 m ls k) = histograms k"
  "histograms (inc_nat m ls n k) = histograms k"
  "histograms (set_gauge m x k) = histograms k"
  "histograms (observe m ls x k) = (histograms k)((m, ls) := histograms k (m, ls) @ [x])"
  by (simp_all add: inc1_def inc_nat_def set_gauge_def observe_def)

text \<open>The counter of a kind grows by exactly the number of redactions of that kind.\<close>

lemma record_redactions_count:
  "counters (record_redactions cs k) (''redactions'', [kind]) =
     counters k (''redactions'', [kind]) + of_nat (sum_list (map snd (filter (\<lambda>c. fst c = kind) cs)))"
  by (induction cs k rule: record_redactions.induct) auto

lemma metric_names_distinct: "distinct (map (\<lambda>s. fst (snd s)) metric_specs)"
  by (simp add: metric_specs_def)

lemma metric_attributes_distinct: "distinct (map fst metric_specs)"
  by (simp add: metric_specs_def)

end
