(* ===== verification/Queue.thy ===== *)
theory Queue
  imports Models
begin

text \<open>
  The analysis queues of \<open>src/pipelens/queue.py\<close>: the in-process queue and the Redis queue with
  its Lua scripts. An element of a Redis list is the JSON text of an envelope; the model keeps the
  envelope it denotes, so \<open>LREM\<close> compares envelopes. A list is written with its left end first:
  \<open>LPUSH\<close> conses, \<open>RPOP\<close> takes the last element. The keys of one queue are fields of the record
  \<open>redis\<close>, and a worker's processing list, lease and registration are indexed by its worker id,
  which determines the key names.
\<close>

section \<open>Envelopes and jobs\<close>

record QueueEnvelope =
  qe_request :: AnalysisRequest
  qe_attempts :: int

record QueueJob =
  qj_envelope :: QueueEnvelope
  qj_receipt :: "QueueEnvelope option"

abbreviation env_run_id :: "QueueEnvelope \<Rightarrow> int" where
  "env_run_id e \<equiv> rq_run_id (qe_request e)"

definition new_envelope :: "AnalysisRequest \<Rightarrow> QueueEnvelope" where
  "new_envelope r = \<lparr>qe_request = r, qe_attempts = 0\<rparr>"

definition bump_attempts :: "QueueEnvelope \<Rightarrow> QueueEnvelope" where
  "bump_attempts e = e\<lparr>qe_attempts := qe_attempts e + 1\<rparr>"

lemma envelope_simps [simp]:
  "env_run_id (new_envelope r) = rq_run_id r" "qe_attempts (new_envelope r) = 0"
  "qe_request (bump_attempts e) = qe_request e" "qe_attempts (bump_attempts e) = qe_attempts e + 1"
  by (simp_all add: new_envelope_def bump_attempts_def)

section \<open>The in-process queue\<close>

text \<open>
  \<open>asyncio.Queue\<close> is its items and the count of unfinished tasks; \<open>task_done\<close> raises when there
  is none.
\<close>

record mem_queue =
  mq_items :: "QueueEnvelope list"
  mq_unfinished :: nat
  mq_run_ids :: "int set"

definition mem_new :: mem_queue where
  "mem_new = \<lparr>mq_items = [], mq_unfinished = 0, mq_run_ids = {}\<rparr>"

definition put_nowait :: "QueueEnvelope \<Rightarrow> mem_queue \<Rightarrow> mem_queue" where
  "put_nowait e q = q\<lparr>mq_items := mq_items q @ [e], mq_unfinished := mq_unfinished q + 1\<rparr>"

definition task_done :: "mem_queue \<Rightarrow> exn + mem_queue" where
  "task_done q = (if mq_unfinished q = 0
     then Inl (ValueError (u ''task_done() called too many times''))
     else Inr (q\<lparr>mq_unfinished := mq_unfinished q - 1\<rparr>))"

definition mem_enqueue :: "AnalysisRequest \<Rightarrow> mem_queue \<Rightarrow> exn + bool \<times> mem_queue" where
  "mem_enqueue r q =
     (if rq_run_id r \<in> mq_run_ids q then Inr (False, q)
      else Inr (True, put_nowait (new_envelope r) (q\<lparr>mq_run_ids := insert (rq_run_id r) (mq_run_ids q)\<rparr>)))"

definition mem_dequeue :: "mem_queue \<Rightarrow> exn + QueueJob option \<times> mem_queue" where
  "mem_dequeue q = (case mq_items q of
       [] \<Rightarrow> Inr (None, q)
     | e # es \<Rightarrow> Inr (Some \<lparr>qj_envelope = e, qj_receipt = None\<rparr>, q\<lparr>mq_items := es\<rparr>))"

definition mem_acknowledge :: "QueueJob \<Rightarrow> mem_queue \<Rightarrow> exn + mem_queue" where
  "mem_acknowledge job q = bindE (task_done q)
     (\<lambda>q'. Inr (q'\<lparr>mq_run_ids := mq_run_ids q' - {env_run_id (qj_envelope job)}\<rparr>))"

definition mem_retry :: "QueueJob \<Rightarrow> mem_queue \<Rightarrow> exn + mem_queue" where
  "mem_retry job q = bindE (task_done q)
     (\<lambda>q'. Inr (put_nowait (bump_attempts (qj_envelope job)) q'))"

definition mem_size :: "mem_queue \<Rightarrow> nat" where
  "mem_size q = length (mq_items q)"

definition mem_heartbeat :: "mem_queue \<Rightarrow> mem_queue" where
  "mem_heartbeat q = q"

definition mem_recover_orphaned :: "mem_queue \<Rightarrow> nat \<times> mem_queue" where
  "mem_recover_orphaned q = (0, q)"

section \<open>The Redis queue\<close>

record redis =
  rd_pending :: "QueueEnvelope list"
  rd_processing :: "pystr \<Rightarrow> QueueEnvelope list"
  rd_workers :: "pystr set"
  rd_leases :: "pystr \<rightharpoonup> int"
  rd_run_ids :: "int set"

definition redis_new :: redis where
  "redis_new = \<lparr>rd_pending = [], rd_processing = (\<lambda>_. []), rd_workers = {},
     rd_leases = (\<lambda>_. None), rd_run_ids = {}\<rparr>"

text \<open>
  The client object of one worker. Its constructor rejects a lease shorter than a second and takes
  a fresh \<open>uuid\<close> as the worker id when it is given none.
\<close>

record redis_client =
  worker_id :: pystr
  lease_seconds :: int

definition redis_client_new :: "pystr \<Rightarrow> pystr option \<Rightarrow> int \<Rightarrow> exn + redis_client" where
  "redis_client_new uuid w lease =
     (if lease < 1 then Inl (ValueError (u ''lease_seconds must be at least 1''))
      else Inr \<lparr>worker_id = (if truthy w then the w else uuid), lease_seconds = lease\<rparr>)"

definition enqueue_script :: "AnalysisRequest \<Rightarrow> redis \<Rightarrow> nat \<times> redis" where
  "enqueue_script r s =
     (if rq_run_id r \<in> rd_run_ids s then (0, s)
      else (1, s\<lparr>rd_run_ids := insert (rq_run_id r) (rd_run_ids s),
                rd_pending := new_envelope r # rd_pending s\<rparr>))"

text \<open>\<open>LREM key 1 x\<close>: the number of removed elements and the list without the first \<open>x\<close>.\<close>

definition lrem1 :: "'a \<Rightarrow> 'a list \<Rightarrow> nat \<times> 'a list" where
  "lrem1 x xs = (if x \<in> set xs then 1 else 0, remove1 x xs)"

definition acknowledge_script :: "pystr \<Rightarrow> QueueEnvelope \<Rightarrow> int \<Rightarrow> redis \<Rightarrow> nat \<times> redis" where
  "acknowledge_script w receipt run_id s =
     (let (removed, l) = lrem1 receipt (rd_processing s w);
          s' = s\<lparr>rd_processing := (rd_processing s)(w := l)\<rparr>
      in (removed, if removed > 0 then s'\<lparr>rd_run_ids := rd_run_ids s' - {run_id}\<rparr> else s'))"

definition retry_script :: "pystr \<Rightarrow> QueueEnvelope \<Rightarrow> QueueEnvelope \<Rightarrow> redis \<Rightarrow> nat \<times> redis" where
  "retry_script w receipt retried s =
     (let (removed, l) = lrem1 receipt (rd_processing s w);
          s' = s\<lparr>rd_processing := (rd_processing s)(w := l)\<rparr>
      in (removed, if removed > 0 then s'\<lparr>rd_pending := retried # rd_pending s'\<rparr> else s'))"

text \<open>\<open>EXISTS\<close> on a lease key at an instant: the key is there until its expiry.\<close>

definition lease_alive :: "int \<Rightarrow> pystr \<Rightarrow> redis \<Rightarrow> bool" where
  "lease_alive now w s = (case rd_leases s w of None \<Rightarrow> False | Some t \<Rightarrow> now < t)"

text \<open>The loop of the recovery script: RPOP from the processing list, LPUSH to the pending list.\<close>

function recover_loop :: "'a list \<Rightarrow> 'a list \<Rightarrow> nat \<Rightarrow> 'a list \<times> nat" where
  "recover_loop processing pending recovered =
     (if processing = [] then (pending, recovered)
      else recover_loop (butlast processing) (last processing # pending) (recovered + 1))"
  by pat_completeness auto
termination
  by (relation "measure (\<lambda>(p, _, _). length p)") auto

declare recover_loop.simps [simp del]

definition recover_script :: "int \<Rightarrow> pystr \<Rightarrow> redis \<Rightarrow> nat \<times> redis" where
  "recover_script now w s =
     (if lease_alive now w s then (0, s)
      else (let (pending, recovered) = recover_loop (rd_processing s w) (rd_pending s) 0
            in (recovered, s\<lparr>rd_pending := pending, rd_processing := (rd_processing s)(w := []),
                  rd_workers := rd_workers s - {w}\<rparr>)))"

definition redis_enqueue :: "AnalysisRequest \<Rightarrow> redis \<Rightarrow> exn + bool \<times> redis" where
  "redis_enqueue r s = (let (created, s') = enqueue_script r s in Inr (created \<noteq> 0, s'))"

definition redis_heartbeat :: "redis_client \<Rightarrow> int \<Rightarrow> redis \<Rightarrow> redis" where
  "redis_heartbeat c now s = s\<lparr>rd_workers := insert (worker_id c) (rd_workers s),
     rd_leases := (rd_leases s)(worker_id c \<mapsto> now + lease_seconds c * 1000000)\<rparr>"

text \<open>\<open>BRPOPLPUSH\<close>: the rightmost pending element moves to the left of the processing list.\<close>

definition brpoplpush :: "pystr \<Rightarrow> redis \<Rightarrow> QueueEnvelope option \<times> redis" where
  "brpoplpush w s = (if rd_pending s = [] then (None, s)
     else (Some (last (rd_pending s)), s\<lparr>rd_pending := butlast (rd_pending s),
        rd_processing := (rd_processing s)(w := last (rd_pending s) # rd_processing s w)\<rparr>))"

definition redis_dequeue :: "redis_client \<Rightarrow> int \<Rightarrow> redis \<Rightarrow> exn + QueueJob option \<times> redis" where
  "redis_dequeue c now s =
     (let (raw, s') = brpoplpush (worker_id c) (redis_heartbeat c now s)
      in Inr (map_option (\<lambda>e. \<lparr>qj_envelope = e, qj_receipt = Some e\<rparr>) raw, s'))"

definition redis_acknowledge :: "redis_client \<Rightarrow> QueueJob \<Rightarrow> redis \<Rightarrow> exn + redis" where
  "redis_acknowledge c job s = (case qj_receipt job of
       None \<Rightarrow> Inr s
     | Some receipt \<Rightarrow>
         Inr (snd (acknowledge_script (worker_id c) receipt (env_run_id (qj_envelope job)) s)))"

definition redis_retry :: "redis_client \<Rightarrow> QueueJob \<Rightarrow> redis \<Rightarrow> exn + redis" where
  "redis_retry c job s = (case qj_receipt job of
       None \<Rightarrow> Inr s
     | Some receipt \<Rightarrow>
         Inr (snd (retry_script (worker_id c) receipt (bump_attempts (qj_envelope job)) s)))"

text \<open>
  \<open>recover_orphaned\<close> visits the members of the workers set in the order the server lists them,
  \<open>keys\<close>, skipping its own.
\<close>

fun recover_orphaned :: "redis_client \<Rightarrow> int \<Rightarrow> pystr list \<Rightarrow> redis \<Rightarrow> nat \<times> redis" where
  "recover_orphaned c now [] s = (0, s)"
| "recover_orphaned c now (k # keys) s =
     (if k = worker_id c then recover_orphaned c now keys s
      else (let (n, s') = recover_script now k s; (m, s'') = recover_orphaned c now keys s'
            in (n + m, s'')))"

definition redis_size :: "redis \<Rightarrow> nat" where
  "redis_size s = length (rd_pending s)"

end
