(* ===== verification/Queue_Props.thy ===== *)
theory Queue_Props
  imports Queue
begin

text \<open>
  What both queues promise their consumer, as a locale that mirrors the \<open>AnalysisQueue\<close> protocol
  class and is interpreted on the in-process queue and on the Redis queue of any worker; and what
  the Redis queue promises when several workers with expiring leases share it, as an invariant of
  a step relation whose steps are the atomic scripts and commands.
\<close>

section \<open>The protocol\<close>

text \<open>
  \<open>waiting\<close> is the queue's content in the order it will be handed out, \<open>ids\<close> the runs that are
  queued or being worked on, \<open>holds job\<close> says that a dequeued job is still this consumer's.
\<close>

locale analysis_queue =
  fixes enqueue :: "AnalysisRequest \<Rightarrow> 'q \<Rightarrow> exn + bool \<times> 'q"
    and dequeue :: "'q \<Rightarrow> exn + QueueJob option \<times> 'q"
    and acknowledge :: "QueueJob \<Rightarrow> 'q \<Rightarrow> exn + 'q"
    and retry :: "QueueJob \<Rightarrow> 'q \<Rightarrow> exn + 'q"
    and qsize :: "'q \<Rightarrow> nat"
    and waiting :: "'q \<Rightarrow> QueueEnvelope list"
    and ids :: "'q \<Rightarrow> int set"
    and holds :: "QueueJob \<Rightarrow> 'q \<Rightarrow> bool"
    and invar :: "'q \<Rightarrow> bool"
  assumes enqueue_new: "invar q \<Longrightarrow> rq_run_id r \<notin> ids q \<Longrightarrow>
      \<exists>q'. enqueue r q = Inr (True, q') \<and> invar q' \<and> waiting q' = waiting q @ [new_envelope r]
        \<and> ids q' = insert (rq_run_id r) (ids q) \<and> (\<forall>job. holds job q \<longrightarrow> holds job q')"
    and enqueue_known: "rq_run_id r \<in> ids q \<Longrightarrow> enqueue r q = Inr (False, q)"
    and dequeue_empty: "invar q \<Longrightarrow> waiting q = [] \<Longrightarrow>
      \<exists>q'. dequeue q = Inr (None, q') \<and> invar q' \<and> waiting q' = [] \<and> ids q' = ids q"
    and dequeue_first: "invar q \<Longrightarrow> waiting q = e # es \<Longrightarrow>
      \<exists>job q'. dequeue q = Inr (Some job, q') \<and> qj_envelope job = e \<and> invar q'
        \<and> waiting q' = es \<and> ids q' = ids q \<and> holds job q'"
    and acknowledge_held: "invar q \<Longrightarrow> holds job q \<Longrightarrow>
      \<exists>q'. acknowledge job q = Inr q' \<and> invar q' \<and> waiting q' = waiting q
        \<and> ids q' = ids q - {env_run_id (qj_envelope job)}"
    and retry_held: "invar q \<Longrightarrow> holds job q \<Longrightarrow>
      \<exists>q'. retry job q = Inr q' \<and> invar q'
        \<and> waiting q' = waiting q @ [bump_attempts (qj_envelope job)] \<and> ids q' = ids q"
    and size_waiting: "qsize q = length (waiting q)"
begin

text \<open>Enqueuing twice is enqueuing once: the second call reports that it did nothing.\<close>

lemma enqueue_idempotent:
  assumes "invar q" "enqueue r q = Inr (b, q')"
  shows "enqueue r q' = Inr (False, q')"
proof (cases "rq_run_id r \<in> ids q")
  case True
  with assms show ?thesis by (simp add: enqueue_known)
next
  case False
  with enqueue_new[OF assms(1) False] assms have "rq_run_id r \<in> ids q'" by auto
  then show ?thesis by (rule enqueue_known)
qed

lemma enqueue_total:
  assumes "invar q"
  shows "\<exists>b q'. enqueue r q = Inr (b, q') \<and> invar q' \<and> ids q' = insert (rq_run_id r) (ids q)
    \<and> (b \<longleftrightarrow> rq_run_id r \<notin> ids q)
    \<and> waiting q' = waiting q @ (if rq_run_id r \<in> ids q then [] else [new_envelope r])"
proof (cases "rq_run_id r \<in> ids q")
  case True
  with assms show ?thesis by (auto simp: enqueue_known insert_absorb)
next
  case False
  with enqueue_new[OF assms False] show ?thesis by auto
qed

end

section \<open>The in-process queue\<close>

text \<open>There is an unfinished task for every waiting item, and one more while a job is held.\<close>

definition mem_invar :: "mem_queue \<Rightarrow> bool" where
  "mem_invar q \<longleftrightarrow> length (mq_items q) \<le> mq_unfinished q"

definition mem_holds :: "QueueJob \<Rightarrow> mem_queue \<Rightarrow> bool" where
  "mem_holds job q \<longleftrightarrow> length (mq_items q) < mq_unfinished q"

lemmas mem_defs = mem_enqueue_def mem_dequeue_def mem_acknowledge_def mem_retry_def mem_size_def
  task_done_def put_nowait_def mem_invar_def mem_holds_def

interpretation mq: analysis_queue mem_enqueue mem_dequeue mem_acknowledge mem_retry mem_size
  mq_items mq_run_ids mem_holds mem_invar
  by unfold_locales (auto simp: mem_defs)

section \<open>The Redis queue of one worker\<close>

definition redis_holds :: "redis_client \<Rightarrow> QueueJob \<Rightarrow> redis \<Rightarrow> bool" where
  "redis_holds c job s \<longleftrightarrow> qj_receipt job = Some (qj_envelope job)
     \<and> qj_envelope job \<in> set (rd_processing s (worker_id c))"

definition redis_waiting :: "redis \<Rightarrow> QueueEnvelope list" where
  "redis_waiting s = rev (rd_pending s)"

lemmas redis_defs = redis_enqueue_def enqueue_script_def redis_dequeue_def redis_heartbeat_def
  brpoplpush_def redis_acknowledge_def acknowledge_script_def redis_retry_def retry_script_def
  lrem1_def redis_size_def redis_waiting_def redis_holds_def

interpretation rq: analysis_queue redis_enqueue "redis_dequeue c now" "redis_acknowledge c"
  "redis_retry c" redis_size redis_waiting rd_run_ids "redis_holds c" "\<lambda>_. True"
  for c now
proof (unfold_locales, goal_cases)
  case (4 q e es)
  then have "rd_pending q = rev es @ [e]" by (simp add: redis_waiting_def rev_eq_Cons_iff)
  then show ?case by (simp add: redis_defs)
qed (auto simp: redis_defs Let_def)

section \<open>Several workers\<close>

lemma recover_loop_eq: "recover_loop xs ys n = (xs @ ys, n + length xs)"
proof (induction xs ys n rule: recover_loop.induct)
  case (1 xs ys n)
  show ?case
  proof (cases "xs = []")
    case True
    then show ?thesis by (simp add: recover_loop.simps)
  next
    case False
    have "butlast xs @ last xs # ys = xs @ ys"
      using append_butlast_last_id[OF False] by (metis append.assoc append_Cons append_Nil)
    moreover have "n + 1 + length (butlast xs) = n + length xs" using False by (cases xs) auto
    ultimately show ?thesis
      using 1[OF False] False by (simp add: recover_loop.simps[of xs ys n])
  qed
qed

lemma recover_script_eq:
  "recover_script now w s = (if lease_alive now w s then (0, s)
     else (length (rd_processing s w), s\<lparr>rd_pending := rd_processing s w @ rd_pending s,
        rd_processing := (rd_processing s)(w := []), rd_workers := rd_workers s - {w}\<rparr>))"
  by (simp add: recover_script_def recover_loop_eq)

text \<open>
  The atomic actions of the clients on the server. A job that is acknowledged or retried is one
  \<open>dequeue\<close> built, so its receipt is the envelope it carries.
\<close>

datatype redis_op =
    REnqueue AnalysisRequest
  | RHeartbeat redis_client int
  | RTake redis_client
  | RAck redis_client QueueEnvelope
  | RRetry redis_client QueueEnvelope
  | RRecover redis_client int pystr

definition job_of :: "QueueEnvelope \<Rightarrow> QueueJob" where
  "job_of e = \<lparr>qj_envelope = e, qj_receipt = Some e\<rparr>"

fun exec_redis :: "redis_op \<Rightarrow> redis \<Rightarrow> redis" where
  "exec_redis (REnqueue r) s = snd (enqueue_script r s)"
| "exec_redis (RHeartbeat c now) s = redis_heartbeat c now s"
| "exec_redis (RTake c) s = snd (brpoplpush (worker_id c) s)"
| "exec_redis (RAck c e) s = (case redis_acknowledge c (job_of e) s of Inl _ \<Rightarrow> s | Inr s' \<Rightarrow> s')"
| "exec_redis (RRetry c e) s = (case redis_retry c (job_of e) s of Inl _ \<Rightarrow> s | Inr s' \<Rightarrow> s')"
| "exec_redis (RRecover c now k) s = (if k = worker_id c then s else snd (recover_script now k s))"

inductive reachable_redis :: "redis \<Rightarrow> bool" where
  start: "reachable_redis redis_new"
| step: "reachable_redis s \<Longrightarrow> reachable_redis (exec_redis op s)"

text \<open>
  The queue's accounting: the deduplication set holds exactly the runs in flight, and each of them
  is in one place only, the pending list (\<open>None\<close>) or one worker's processing list, and there once.
\<close>

definition slot :: "redis \<Rightarrow> pystr option \<Rightarrow> QueueEnvelope list" where
  "slot s p = (case p of None \<Rightarrow> rd_pending s | Some w \<Rightarrow> rd_processing s w)"

definition placed :: "('p \<Rightarrow> 'i list) \<Rightarrow> 'i set \<Rightarrow> bool" where
  "placed g I \<longleftrightarrow> (\<forall>p. distinct (g p)) \<and> (\<forall>p q. p \<noteq> q \<longrightarrow> set (g p) \<inter> set (g q) = {})
     \<and> I = (\<Union>p. set (g p))"

definition redis_inv :: "redis \<Rightarrow> bool" where
  "redis_inv s \<longleftrightarrow> placed (\<lambda>p. map env_run_id (slot s p)) (rd_run_ids s)"

lemma placedD:
  assumes "placed g I"
  shows "distinct (g p)" and "p \<noteq> q \<Longrightarrow> set (g p) \<inter> set (g q) = {}"
    and "i \<in> I \<longleftrightarrow> (\<exists>p. i \<in> set (g p))"
  using assms by (auto simp: placed_def)

text \<open>The three ways a step changes the places: a new job, a finished job, a moved job.\<close>

lemma placed_add:
  assumes ok: "placed g I" and x: "x \<notin> I"
  shows "placed (g(p := x # g p)) (insert x I)"
proof -
  have "x \<notin> set (g q)" for q using ok x placedD(3) by metis
  moreover have "(\<Union>q. set ((g(p := x # g p)) q)) = insert x (\<Union>q. set (g q))"
    by (auto split: if_splits)
  ultimately show ?thesis using ok unfolding placed_def by auto
qed

lemma placed_remove:
  assumes ok: "placed g I" and x: "x \<in> set (g p)"
  shows "placed (g(p := remove1 x (g p))) (I - {x})"
proof -
  have rem: "set (remove1 x (g p)) = set (g p) - {x}" by (rule set_remove1_eq[OF placedD(1)[OF ok]])
  have other: "x \<notin> set (g q)" if "q \<noteq> p" for q using placedD(2)[OF ok that] x by auto
  have h: "set ((g(p := remove1 x (g p))) q) = set (g q) - {x}" for q
    using rem other[of q] by auto
  then have "(\<Union>q. set ((g(p := remove1 x (g p))) q)) = (\<Union>q. set (g q)) - {x}" by auto
  moreover have "distinct ((g(p := remove1 x (g p))) q)" for q using placedD(1)[OF ok] by simp
  moreover have "(set (g a) - {x}) \<inter> (set (g b) - {x}) = {}" if "a \<noteq> b" for a b
    using placedD(2)[OF ok that] by auto
  ultimately show ?thesis using ok h unfolding placed_def by metis
qed

lemma placed_move:
  assumes ok: "placed g I" and pq: "p \<noteq> q" and dist: "distinct (xs @ ys)"
    and same: "set xs \<union> set ys = set (g p) \<union> set (g q)"
  shows "placed (g(p := xs, q := ys)) I"
proof -
  let ?h = "g(p := xs, q := ys)"
  have disj: "set (?h a) \<inter> set (?h b) = {}" if ab: "a \<noteq> b" for a b
  proof -
    have "set (g c) \<inter> (set xs \<union> set ys) = {}" if "c \<noteq> p" "c \<noteq> q" for c
      using same placedD(2)[OF ok that(1)] placedD(2)[OF ok that(2)] by auto
    with ab dist placedD(2)[OF ok ab] pq show ?thesis by auto
  qed
  have "(\<Union>a. set (?h a)) = (set xs \<union> set ys) \<union> (\<Union>a \<in> - {p, q}. set (g a))"
    using pq by (auto split: if_splits)
  moreover have "I = (set (g p) \<union> set (g q)) \<union> (\<Union>a \<in> - {p, q}. set (g a))"
    using placedD(3)[OF ok] by auto
  ultimately have "I = (\<Union>a. set (?h a))" using same by simp
  moreover have "distinct (?h a)" for a using dist placedD(1)[OF ok] by simp
  ultimately show ?thesis using disj unfolding placed_def by blast
qed

lemma map_remove1_key:
  "distinct (map k xs) \<Longrightarrow> x \<in> set xs \<Longrightarrow> map k (remove1 x xs) = remove1 (k x) (map k xs)"
proof (induction xs)
  case (Cons a xs)
  then show ?case by (cases "x = a") (auto simp: image_iff)
qed simp

lemma slot_simps [simp]:
  "slot s None = rd_pending s" "slot s (Some w) = rd_processing s w"
  by (simp_all add: slot_def)

text \<open>A change of the two lists as a change of the places.\<close>

lemma slot_update:
  "(\<lambda>p. map env_run_id (slot (s\<lparr>rd_pending := xs, rd_processing := (rd_processing s)(w := ys)\<rparr>) p))
     = (\<lambda>p. map env_run_id (slot s p))(None := map env_run_id xs, Some w := map env_run_id ys)"
  by (rule ext) (simp add: slot_def split: option.splits)

lemma redis_inv_move:
  assumes inv: "redis_inv s" and dist: "distinct (map env_run_id (xs @ ys))"
    and same: "env_run_id ` (set xs \<union> set ys)
      = env_run_id ` (set (rd_pending s) \<union> set (rd_processing s w))"
  shows "redis_inv (s\<lparr>rd_pending := xs, rd_processing := (rd_processing s)(w := ys)\<rparr>)"
  unfolding redis_inv_def slot_update
  using placed_move[OF inv[unfolded redis_inv_def], of None "Some w"] dist same
  by (simp add: image_Un)

lemma redis_inv_frame [simp]:
  "redis_inv (s\<lparr>rd_workers := ws\<rparr>) = redis_inv s" "redis_inv (s\<lparr>rd_leases := ls\<rparr>) = redis_inv s"
  by (simp_all add: redis_inv_def slot_def cong: option.case_cong)

lemma redis_inv_dist:
  assumes "redis_inv s"
  shows "distinct (map env_run_id (rd_pending s @ rd_processing s w))"
  using placedD(1)[OF assms[unfolded redis_inv_def], of None]
    placedD(1)[OF assms[unfolded redis_inv_def], of "Some w"]
    placedD(2)[OF assms[unfolded redis_inv_def], of None "Some w"]
  by simp

lemma inv_enqueue: "redis_inv s \<Longrightarrow> redis_inv (snd (enqueue_script r s))"
proof -
  assume inv: "redis_inv s"
  have "(\<lambda>p. map env_run_id (slot (s\<lparr>rd_run_ids := I, rd_pending := new_envelope r # rd_pending s\<rparr>) p))
      = (\<lambda>p. map env_run_id (slot s p))(None := rq_run_id r # map env_run_id (slot s None))" for I
    by (rule ext) (simp add: slot_def split: option.splits)
  then show ?thesis
    using inv placed_add[OF inv[unfolded redis_inv_def], of "rq_run_id r" None]
    by (auto simp: enqueue_script_def redis_inv_def)
qed

lemma inv_take: "redis_inv s \<Longrightarrow> redis_inv (snd (brpoplpush w s))"
proof (cases "rd_pending s = []")
  case False
  assume inv: "redis_inv s"
  obtain xs x where p: "rd_pending s = xs @ [x]" using False by (metis append_butlast_last_id)
  from redis_inv_dist[OF inv, of w] p show ?thesis
    unfolding brpoplpush_def by (simp, intro redis_inv_move[OF inv]) auto
qed (simp add: brpoplpush_def)

lemma inv_recover: "redis_inv s \<Longrightarrow> redis_inv (snd (recover_script now k s))"
proof -
  assume inv: "redis_inv s"
  have "redis_inv (s\<lparr>rd_pending := rd_processing s k @ rd_pending s,
      rd_processing := (rd_processing s)(k := [])\<rparr>)"
    using redis_inv_dist[OF inv, of k] by (intro redis_inv_move[OF inv]) auto
  then have "redis_inv (s\<lparr>rd_pending := rd_processing s k @ rd_pending s,
      rd_processing := (rd_processing s)(k := []), rd_workers := ws\<rparr>)" for ws
    by (metis redis_inv_frame(1))
  with inv show ?thesis by (simp add: recover_script_eq)
qed

text \<open>The job a worker holds is the only one with its run, so removing it removes the run.\<close>

lemma held_once:
  assumes "redis_inv s" "e \<in> set (rd_processing s w)"
  shows "map env_run_id (remove1 e (rd_processing s w))
      = remove1 (env_run_id e) (map env_run_id (rd_processing s w))"
    and "env_run_id e \<in> set (map env_run_id (rd_processing s w))"
  using redis_inv_dist[OF assms(1), of w] assms(2) by (auto intro: map_remove1_key)

lemma inv_ack: "redis_inv s \<Longrightarrow> redis_inv (exec_redis (RAck c e) s)"
proof (cases "e \<in> set (rd_processing s (worker_id c))")
  case True
  let ?w = "worker_id c"
  assume inv: "redis_inv s"
  have "(\<lambda>p. map env_run_id (slot (s\<lparr>rd_processing := (rd_processing s)(?w := l), rd_run_ids := I\<rparr>) p))
      = (\<lambda>p. map env_run_id (slot s p))(Some ?w := map env_run_id l)" for l I
    by (rule ext) (simp add: slot_def split: option.splits)
  with True held_once[OF inv True] placed_remove[OF inv[unfolded redis_inv_def], of "env_run_id e" "Some ?w"]
  show ?thesis
    by (simp add: redis_acknowledge_def acknowledge_script_def lrem1_def job_of_def redis_inv_def)
qed (simp add: redis_acknowledge_def acknowledge_script_def lrem1_def job_of_def remove1_idem)

lemma inv_retry: "redis_inv s \<Longrightarrow> redis_inv (exec_redis (RRetry c e) s)"
proof (cases "e \<in> set (rd_processing s (worker_id c))")
  case True
  let ?w = "worker_id c"
  assume inv: "redis_inv s"
  have d: "distinct (map env_run_id (rd_pending s @ rd_processing s ?w))" by (rule redis_inv_dist[OF inv])
  have "redis_inv (s\<lparr>rd_pending := bump_attempts e # rd_pending s,
      rd_processing := (rd_processing s)(?w := remove1 e (rd_processing s ?w))\<rparr>)"
  proof (rule redis_inv_move[OF inv])
    have r: "env_run_id ` set (remove1 e (rd_processing s ?w))
        = env_run_id ` set (rd_processing s ?w) - {env_run_id e}"
      using d arg_cong[where f = set, OF held_once(1)[OF inv True]] by (simp add: set_remove1_eq)
    have "distinct (map env_run_id (remove1 e (rd_processing s ?w)))"
      using d unfolding held_once(1)[OF inv True] by simp
    with d r True
    show "distinct (map env_run_id ((bump_attempts e # rd_pending s) @ remove1 e (rd_processing s ?w)))"
      "env_run_id ` (set (bump_attempts e # rd_pending s) \<union> set (remove1 e (rd_processing s ?w)))
        = env_run_id ` (set (rd_pending s) \<union> set (rd_processing s ?w))"
      by (auto simp: image_Un)
  qed
  moreover have "exec_redis (RRetry c e) s = s\<lparr>rd_pending := bump_attempts e # rd_pending s,
      rd_processing := (rd_processing s)(?w := remove1 e (rd_processing s ?w))\<rparr>"
    using True by (simp add: redis_retry_def retry_script_def lrem1_def job_of_def)
  ultimately show ?thesis by metis
qed (simp add: redis_retry_def retry_script_def lrem1_def job_of_def remove1_idem)

lemma redis_inv_step: "redis_inv s \<Longrightarrow> redis_inv (exec_redis op s)"
  by (cases op) (auto simp: inv_enqueue inv_take inv_recover redis_heartbeat_def
      simp del: exec_redis.simps(4,5) intro: inv_ack inv_retry)

lemma redis_inv_reachable: "reachable_redis s \<Longrightarrow> redis_inv s"
proof (induction rule: reachable_redis.induct)
  case start
  show ?case by (auto simp: redis_inv_def placed_def redis_new_def slot_def split: option.splits)
qed (rule redis_inv_step)

lemma redis_inv_one_place:
  assumes "redis_inv s"
  shows "i \<in> rd_run_ids s \<longleftrightarrow> (\<exists>!p. i \<in> env_run_id ` set (slot s p))"
proof -
  note ok = assms[unfolded redis_inv_def]
  have "p = q" if "i \<in> env_run_id ` set (slot s p)" "i \<in> env_run_id ` set (slot s q)" for p q
    using placedD(2)[OF ok, of p q] that by auto
  then show ?thesis using placedD(3)[OF ok, of i] by (metis set_map)
qed

text \<open>C15: whatever the interleaving of enqueues, leases, dequeues, acknowledgements, retries and
  recoveries of any number of workers, every run of the deduplication set is in exactly one place
  (the pending list or one worker's processing list), no place holds a run twice, and nothing
  outside the set is queued.
\<close>

theorem redis_run_in_one_place:
  assumes "reachable_redis s"
  shows "(\<forall>p. distinct (map env_run_id (slot s p)))
    \<and> (\<forall>i. i \<in> rd_run_ids s \<longleftrightarrow> (\<exists>!p. i \<in> env_run_id ` set (slot s p)))"
proof (intro conjI allI)
  note inv = redis_inv_reachable[OF assms]
  show "distinct (map env_run_id (slot s p))" for p using placedD(1)[OF inv[unfolded redis_inv_def], of p] by simp
qed (rule redis_inv_one_place[OF redis_inv_reachable[OF assms]])

definition sample_client :: redis_client where
  "sample_client = \<lparr>worker_id = u ''worker-1'', lease_seconds = 30\<rparr>"

definition sample_request :: AnalysisRequest where
  "sample_request = \<lparr>rq_run_id = 7, rq_repository = u ''acme/app'', rq_installation_id = 3,
     rq_head_sha = u ''abc''\<rparr>"

theorem redis_run_in_one_place_witness:
  "\<exists>!p. 7 \<in> env_run_id ` set (slot
     (exec_redis (RTake sample_client) (exec_redis (REnqueue sample_request) redis_new)) p)"
proof -
  let ?s = "exec_redis (RTake sample_client) (exec_redis (REnqueue sample_request) redis_new)"
  have "reachable_redis ?s" by (intro reachable_redis.intros)
  moreover have "7 \<in> rd_run_ids ?s"
    by (simp add: enqueue_script_def brpoplpush_def redis_new_def sample_request_def)
  ultimately show ?thesis using redis_run_in_one_place by blast
qed

text \<open>What a step does to the set of runs in flight.\<close>

lemma run_ids_step:
  "rd_run_ids (exec_redis op s) = (case op of
       REnqueue r \<Rightarrow> insert (rq_run_id r) (rd_run_ids s)
     | RAck c e \<Rightarrow> rd_run_ids s - (if e \<in> set (rd_processing s (worker_id c)) then {env_run_id e} else {})
     | _ \<Rightarrow> rd_run_ids s)"
  by (cases op) (auto simp: enqueue_script_def redis_heartbeat_def brpoplpush_def redis_acknowledge_def
      acknowledge_script_def lrem1_def job_of_def redis_retry_def retry_script_def recover_script_eq)

fun redis_run :: "redis_op list \<Rightarrow> redis \<Rightarrow> redis" where
  "redis_run [] s = s"
| "redis_run (op # ops) s = redis_run ops (exec_redis op s)"

lemma reachable_run: "reachable_redis s \<Longrightarrow> reachable_redis (redis_run ops s)"
  by (induction ops arbitrary: s) (auto intro: reachable_redis.step)

text \<open>A run stays known along any sequence of steps in which nobody acknowledges it, even if workers died holding it.\<close>

lemma run_ids_run:
  "i \<in> rd_run_ids s \<Longrightarrow> (\<And>c e. RAck c e \<in> set ops \<Longrightarrow> env_run_id e \<noteq> i) \<Longrightarrow> i \<in> rd_run_ids (redis_run ops s)"
proof (induction ops arbitrary: s)
  case (Cons op ops)
  have "i \<in> rd_run_ids (exec_redis op s)" using Cons.prems by (auto simp: run_ids_step split: redis_op.splits)
  moreover have "env_run_id e \<noteq> i" if "RAck c e \<in> set ops" for c e using Cons.prems(2)[of c e] that by simp
  ultimately show ?case using Cons.IH[of "exec_redis op s"] by simp
qed simp

section \<open>Recovery\<close>

definition orphaned :: "redis_client \<Rightarrow> int \<Rightarrow> redis \<Rightarrow> pystr \<Rightarrow> bool" where
  "orphaned c now s k \<longleftrightarrow> k \<noteq> worker_id c \<and> \<not> lease_alive now k s"

text \<open>C16: one recovery pass over the registered workers puts every job of an expired worker back at the
  head of the pending list and forgets that worker, leaves the jobs of live workers and its own
  alone, and returns the number of jobs it put back.
\<close>

theorem recover_orphaned_exact:
  assumes "distinct keys"
  shows "recover_orphaned c now keys s =
    (let dead = filter (orphaned c now s) keys; jobs = concat (map (rd_processing s) (rev dead))
     in (length jobs, s\<lparr>rd_pending := jobs @ rd_pending s,
           rd_processing := (\<lambda>k. if k \<in> set dead then [] else rd_processing s k),
           rd_workers := rd_workers s - set dead\<rparr>))"
  using assms
proof (induction keys arbitrary: s)
  case (Cons k keys)
  let ?s = "s\<lparr>rd_pending := rd_processing s k @ rd_pending s,
        rd_processing := (rd_processing s)(k := []), rd_workers := rd_workers s - {k}\<rparr>"
  have same: "filter (orphaned c now ?s) keys = filter (orphaned c now s) keys"
    by (intro filter_cong) (simp_all add: orphaned_def lease_alive_def)
  have jobs: "map (\<lambda>a. if a = k then [] else rd_processing s a) (rev (filter (orphaned c now s) keys))
      = map (rd_processing s) (rev (filter (orphaned c now s) keys))"
    using Cons.prems by auto
  show ?case
  proof (cases "orphaned c now s k")
    case True
    then have "recover_orphaned c now (k # keys) s = (let (m, s'') = recover_orphaned c now keys ?s
        in (length (rd_processing s k) + m, s''))"
      by (simp add: orphaned_def recover_script_eq)
    moreover have "recover_orphaned c now keys ?s =
        (length (concat (map (rd_processing s) (rev (filter (orphaned c now s) keys)))),
         s\<lparr>rd_pending := concat (map (rd_processing s) (rev (filter (orphaned c now s) keys)))
              @ rd_processing s k @ rd_pending s,
            rd_processing := (\<lambda>a. if a \<in> set (filter (orphaned c now s) keys) then []
              else ((rd_processing s)(k := [])) a),
            rd_workers := rd_workers s - {k} - set (filter (orphaned c now s) keys)\<rparr>)"
      using Cons.prems by (subst Cons.IH) (simp_all add: same jobs Let_def cong: if_cong)
    ultimately show ?thesis using True
      by (intro prod_eqI redis.equality) (auto simp: Let_def fun_eq_iff simp del: recover_orphaned.simps)
  next
    case False
    then have "recover_orphaned c now (k # keys) s = recover_orphaned c now keys s"
      by (auto simp: orphaned_def recover_script_eq split: prod.splits)
    with Cons False show ?thesis by simp
  qed
qed simp

theorem recover_orphaned_exact_witness:
  "fst (recover_orphaned \<lparr>worker_id = u ''worker-2'', lease_seconds = 30\<rparr> 99 [u ''worker-1'', u ''worker-2'']
     (exec_redis (RTake sample_client) (exec_redis (REnqueue sample_request) redis_new))) = 1"
  by (subst recover_orphaned_exact)
    (simp_all add: orphaned_def lease_alive_def enqueue_script_def brpoplpush_def redis_new_def sample_client_def)

text \<open>On both queues, enqueuing the request of a run that is already queued or being worked on
  changes nothing and says so; any other request is appended behind the waiting ones.
\<close>

lemma enqueue_deduplicates:
  "(\<exists>q'. mem_enqueue r q = Inr (rq_run_id r \<notin> mq_run_ids q, q')
     \<and> mq_items q' = mq_items q @ (if rq_run_id r \<in> mq_run_ids q then [] else [new_envelope r])
     \<and> mem_enqueue r q' = Inr (False, q'))
   \<and> (\<exists>s'. redis_enqueue r s = Inr (rq_run_id r \<notin> rd_run_ids s, s')
     \<and> redis_waiting s' = redis_waiting s @ (if rq_run_id r \<in> rd_run_ids s then [] else [new_envelope r])
     \<and> redis_enqueue r s' = Inr (False, s'))"
proof
  show "\<exists>s'. redis_enqueue r s = Inr (rq_run_id r \<notin> rd_run_ids s, s')
     \<and> redis_waiting s' = redis_waiting s @ (if rq_run_id r \<in> rd_run_ids s then [] else [new_envelope r])
     \<and> redis_enqueue r s' = Inr (False, s')"
    using rq.enqueue_total[where q = s and r = r] rq.enqueue_idempotent[where q = s and r = r] by metis
qed (simp add: mem_enqueue_def put_nowait_def)

end
