(* ===== verification/Worker.thy ===== *)
theory Worker
  imports Store Metrics Queue_Props
begin

text \<open>
  The consumer of the queue, the class \<open>AnalysisWorker\<close> of \<open>src/pipelens/worker.py\<close>. It is written
  over a record of queue operations, the methods of the \<open>AnalysisQueue\<close> it holds, so that the same
  definitions run on both queues, and over \<open>analyze\<close>, the pipeline it drives, which acts on the
  database, the metrics and an environment of its own. \<open>clock\<close> arguments are readings of
  \<open>time.monotonic\<close>, \<open>exc_text\<close> is \<open>str\<close> on exceptions.
\<close>

section \<open>State\<close>

record 'q queue_ops =
  qo_dequeue :: "'q \<Rightarrow> exn + QueueJob option \<times> 'q"
  qo_acknowledge :: "QueueJob \<Rightarrow> 'q \<Rightarrow> exn + 'q"
  qo_retry :: "QueueJob \<Rightarrow> 'q \<Rightarrow> exn + 'q"
  qo_heartbeat :: "'q \<Rightarrow> exn + 'q"
  qo_recover_orphaned :: "'q \<Rightarrow> exn + nat \<times> 'q"
  qo_size :: "'q \<Rightarrow> exn + nat"

definition mem_ops :: "mem_queue queue_ops" where
  "mem_ops = \<lparr>qo_dequeue = mem_dequeue, qo_acknowledge = mem_acknowledge, qo_retry = mem_retry,
     qo_heartbeat = (\<lambda>q. Inr (mem_heartbeat q)),
     qo_recover_orphaned = (\<lambda>q. Inr (mem_recover_orphaned q)), qo_size = (\<lambda>q. Inr (mem_size q))\<rparr>"

definition redis_ops :: "redis_client \<Rightarrow> int \<Rightarrow> pystr list \<Rightarrow> redis queue_ops" where
  "redis_ops c now keys = \<lparr>qo_dequeue = redis_dequeue c now, qo_acknowledge = redis_acknowledge c,
     qo_retry = redis_retry c, qo_heartbeat = (\<lambda>s. Inr (redis_heartbeat c now s)),
     qo_recover_orphaned = (\<lambda>s. Inr (recover_orphaned c now keys s)),
     qo_size = (\<lambda>s. Inr (redis_size s))\<rparr>"

record ('q, 'e) worker =
  wk_queue :: 'q
  wk_db :: db
  wk_metrics :: metrics
  wk_failures :: "pystr \<rightharpoonup> rat"
  wk_env :: 'e

definition worker_new ::
  "rat \<Rightarrow> 'q \<Rightarrow> db \<Rightarrow> metrics \<Rightarrow> 'e \<Rightarrow> exn + ('q, 'e) worker" where
  "worker_new heartbeat_seconds q d k env =
     (if heartbeat_seconds \<le> 0 then Inl (ValueError (u ''heartbeat_seconds must be positive''))
      else Inr \<lparr>wk_queue = q, wk_db = d, wk_metrics = k, wk_failures = (\<lambda>_. None), wk_env = env\<rparr>)"

section \<open>Queue outages\<close>

definition record_queue_error :: "rat \<Rightarrow> pystr \<Rightarrow> ('q, 'e) worker \<Rightarrow> ('q, 'e) worker" where
  "record_queue_error clock phase w = w\<lparr>
     wk_metrics := inc1 ''queue_connection_errors'' [phase] (wk_metrics w),
     wk_failures := (case wk_failures w phase of
         None \<Rightarrow> (wk_failures w)(phase \<mapsto> clock) | Some _ \<Rightarrow> wk_failures w)\<rparr>"

definition record_queue_success :: "rat \<Rightarrow> pystr \<Rightarrow> ('q, 'e) worker \<Rightarrow> ('q, 'e) worker" where
  "record_queue_success clock phase w = (case wk_failures w phase of
       None \<Rightarrow> w
     | Some started_at \<Rightarrow> w\<lparr>
         wk_failures := (wk_failures w)(phase := None),
         wk_metrics := observe ''queue_recovery_duration'' [phase] (clock - started_at)
           (inc1 ''queue_reconnections'' [phase] (wk_metrics w))\<rparr>)"

section \<open>Steps\<close>

definition on_queue :: "('q \<Rightarrow> exn + 'a \<times> 'q) \<Rightarrow> (('q, 'e) worker, 'a) prog" where
  "on_queue f = transS (\<lambda>w. bindE (f (wk_queue w)) (\<lambda>(a, q'). Inr (a, w\<lparr>wk_queue := q'\<rparr>)))"

definition on_queue_unit :: "('q \<Rightarrow> exn + 'q) \<Rightarrow> (('q, 'e) worker, unit) prog" where
  "on_queue_unit f = on_queue (\<lambda>q. bindE (f q) (\<lambda>q'. Inr ((), q')))"

definition on_metrics :: "(metrics \<Rightarrow> metrics) \<Rightarrow> (('q, 'e) worker, unit) prog" where
  "on_metrics f = updS (\<lambda>w. w\<lparr>wk_metrics := f (wk_metrics w)\<rparr>)"

definition maintain_queue_once :: "'q queue_ops \<Rightarrow> (('q, 'e) worker, unit) prog" where
  "maintain_queue_once Q = bindS (on_queue_unit (qo_heartbeat Q))
     (\<lambda>_. bindS (on_queue (qo_recover_orphaned Q))
     (\<lambda>recovered. if recovered \<noteq> 0 then on_metrics (inc_nat ''queue_recovered'' [] recovered)
       else retS ()))"

definition set_queue_depth :: "'q queue_ops \<Rightarrow> (('q, 'e) worker, unit) prog" where
  "set_queue_depth Q = bindS (\<lambda>w. (qo_size Q (wk_queue w), w))
     (\<lambda>n. on_metrics (set_gauge ''queue_depth'' (of_nat n)))"

type_synonym 'e analyze = "AnalysisRequest \<Rightarrow> (db \<times> metrics \<times> 'e, unit) prog"

definition run_analyze :: "'e analyze \<Rightarrow> AnalysisRequest \<Rightarrow> (('q, 'e) worker, unit) prog" where
  "run_analyze analyze r w = (case analyze r (wk_db w, wk_metrics w, wk_env w) of
     (res, (d, k, env)) \<Rightarrow> (res, w\<lparr>wk_db := d, wk_metrics := k, wk_env := env\<rparr>))"

definition worker_store_update ::
  "int \<Rightarrow> int \<Rightarrow> AnalysisStatus \<Rightarrow> pystr \<Rightarrow> (('q, 'e) worker, unit) prog" where
  "worker_store_update now run_id st err = transS (\<lambda>w.
     bindE (store_update now run_id st (no_fields\<lparr>uf_error := Some err\<rparr>) None (wk_db w))
       (\<lambda>d. Inr ((), w\<lparr>wk_db := d\<rparr>)))"

definition handle_failure ::
  "'q queue_ops \<Rightarrow> (exn \<Rightarrow> pystr) \<Rightarrow> int \<Rightarrow> int \<Rightarrow> QueueJob \<Rightarrow> exn \<Rightarrow> (('q, 'e) worker, unit) prog" where
  "handle_failure Q exc_text max_attempts now job exc =
     (let run_id = env_run_id (qj_envelope job); attempt = qe_attempts (qj_envelope job) + 1
      in if attempt < max_attempts
         then bindS (worker_store_update now run_id QUEUED (exc_text exc))
                (\<lambda>_. bindS (on_queue_unit (qo_retry Q job)) (\<lambda>_. on_metrics (inc1 ''queue_retries'' [])))
         else bindS (worker_store_update now run_id FAILED (exc_text exc))
                (\<lambda>_. bindS (on_queue_unit (qo_acknowledge Q job))
                (\<lambda>_. on_metrics (inc1 ''analyses'' [u ''failed'']))))"

text \<open>The \<open>try\<close> around \<open>analyze\<close> with its \<open>except\<close> and \<open>else\<close> clauses: neither is guarded.\<close>

definition process_job ::
  "'q queue_ops \<Rightarrow> (exn \<Rightarrow> pystr) \<Rightarrow> 'e analyze \<Rightarrow> int \<Rightarrow> int \<Rightarrow> QueueJob \<Rightarrow> (('q, 'e) worker, unit) prog" where
  "process_job Q exc_text analyze max_attempts now job w =
     (case run_analyze analyze (qe_request (qj_envelope job)) w of
        (Inl exc, w') \<Rightarrow> handle_failure Q exc_text max_attempts now job exc w'
      | (Inr _, w') \<Rightarrow> on_queue_unit (qo_acknowledge Q job) w')"

definition process_next ::
  "'q queue_ops \<Rightarrow> (exn \<Rightarrow> pystr) \<Rightarrow> 'e analyze \<Rightarrow> int \<Rightarrow> int \<Rightarrow> (('q, 'e) worker, bool) prog" where
  "process_next Q exc_text analyze max_attempts now = bindS (on_queue (qo_dequeue Q))
     (\<lambda>j. case j of
        None \<Rightarrow> bindS (set_queue_depth Q) (\<lambda>_. retS False)
      | Some job \<Rightarrow> bindS (set_queue_depth Q)
          (\<lambda>_. bindS (process_job Q exc_text analyze max_attempts now job)
          (\<lambda>_. bindS (set_queue_depth Q) (\<lambda>_. retS True))))"

section \<open>Loops\<close>

text \<open>
  The start-up loop repeats maintenance until it succeeds; \<open>clock i\<close> is the time of the \<open>i\<close>th try
  and \<open>fuel\<close> bounds the tries, \<open>None\<close> meaning that the loop is still trying. Between tries the
  environment may bring the server back, which is \<open>Q i\<close> depending on the try.
\<close>

definition is_redis_error :: "exn \<Rightarrow> bool" where
  "is_redis_error e = (case e of RedisError _ \<Rightarrow> True | _ \<Rightarrow> False)"

fun startup_loop ::
  "nat \<Rightarrow> (nat \<Rightarrow> 'q queue_ops) \<Rightarrow> (nat \<Rightarrow> rat) \<Rightarrow> nat \<Rightarrow> ('q, 'e) worker
     \<Rightarrow> ((exn + unit) \<times> ('q, 'e) worker) option" where
  "startup_loop 0 Q clock i w = None"
| "startup_loop (Suc fuel) Q clock i w = (case maintain_queue_once (Q i) w of
       (Inl e, w') \<Rightarrow> if is_redis_error e
         then startup_loop fuel Q clock (Suc i) (record_queue_error (clock i) (u ''startup'') w')
         else Some (Inl e, w')
     | (Inr _, w') \<Rightarrow> Some (Inr (), record_queue_success (clock i) (u ''startup'') w'))"

text \<open>One turn of the processing loop, and \<open>n\<close> turns; an exception other than RedisError ends it.\<close>

definition loop_turn ::
  "'q queue_ops \<Rightarrow> (exn \<Rightarrow> pystr) \<Rightarrow> 'e analyze \<Rightarrow> int \<Rightarrow> int \<Rightarrow> rat \<Rightarrow> (('q, 'e) worker, unit) prog" where
  "loop_turn Q exc_text analyze max_attempts now clock w =
     (case process_next Q exc_text analyze max_attempts now w of
        (Inl e, w') \<Rightarrow> if is_redis_error e
          then (Inr (), record_queue_error clock (u ''processing'') w') else (Inl e, w')
      | (Inr _, w') \<Rightarrow> (Inr (), record_queue_success clock (u ''processing'') w'))"

fun process_loop ::
  "nat \<Rightarrow> (nat \<Rightarrow> 'q queue_ops) \<Rightarrow> (exn \<Rightarrow> pystr) \<Rightarrow> 'e analyze \<Rightarrow> int \<Rightarrow> (nat \<Rightarrow> int) \<Rightarrow> (nat \<Rightarrow> rat)
     \<Rightarrow> nat \<Rightarrow> (('q, 'e) worker, unit) prog" where
  "process_loop 0 Q exc_text analyze max_attempts now clock i w = (Inr (), w)"
| "process_loop (Suc n) Q exc_text analyze max_attempts now clock i w =
     (case loop_turn (Q i) exc_text analyze max_attempts (now i) (clock i) w of
        (Inl e, w') \<Rightarrow> (Inl e, w')
      | (Inr _, w') \<Rightarrow> process_loop n Q exc_text analyze max_attempts now clock (Suc i) w')"

text \<open>The body of the maintenance task, which survives every exception.\<close>

definition maintain_turn :: "'q queue_ops \<Rightarrow> rat \<Rightarrow> ('q, 'e) worker \<Rightarrow> ('q, 'e) worker" where
  "maintain_turn Q clock w = (case maintain_queue_once Q w of
       (Inl e, w') \<Rightarrow> if is_redis_error e then record_queue_error clock (u ''maintenance'') w' else w'
     | (Inr _, w') \<Rightarrow> record_queue_success clock (u ''maintenance'') w')"

end
