(* ===== verification/Store_Props.thy ===== *)
theory Store_Props
  imports Store
begin

text \<open>
  What the store guarantees: the constraints of the schema as an invariant of every operation,
  attempt fencing along arbitrary interleavings of operations, the behaviour of each query
  (lookup, pagination, access control), and the linking of follow-up runs.
\<close>

section \<open>The schema's constraints\<close>

definition resolution_columns :: "analysis_row \<Rightarrow> bool" where
  "resolution_columns r \<longleftrightarrow> a_resolution_outcome r = None
     \<or> (a_resolution_run_id r \<noteq> None \<and> a_resolution_run_attempt r \<noteq> None
        \<and> a_resolution_html_url r \<noteq> None \<and> a_resolution_completed_at r \<noteq> None
        \<and> a_recovery_seconds r \<noteq> None)"

definition keys_ok :: "db \<Rightarrow> bool" where
  "keys_ok d \<longleftrightarrow> keyed a_run_id (db_analyses d) \<and> keyed a_delivery_id (db_analyses d)
     \<and> keyed f_run_id (db_feedback d) \<and> keyed g_github_user_id (db_github_users d)
     \<and> keyed s_session_hash (db_auth_sessions d)
     \<and> keyed (\<lambda>r. (i_github_user_id r, i_installation_id r)) (db_user_installations d)"

definition events_ok :: "db \<Rightarrow> bool" where
  "events_ok d \<longleftrightarrow> sorted_wrt (<) (map e_id (db_stage_events d))
     \<and> (\<forall>e \<in> set (db_stage_events d). e_id e < db_next_event_id d)"

definition foreign_keys_ok :: "db \<Rightarrow> bool" where
  "foreign_keys_ok d \<longleftrightarrow> (fk_enforced (db_backend d) \<longrightarrow>
     e_run_id ` set (db_stage_events d) \<subseteq> a_run_id ` set (db_analyses d)
     \<and> f_run_id ` set (db_feedback d) \<subseteq> a_run_id ` set (db_analyses d)
     \<and> s_github_user_id ` set (db_auth_sessions d) \<subseteq> g_github_user_id ` set (db_github_users d)
     \<and> i_github_user_id ` set (db_user_installations d) \<subseteq> g_github_user_id ` set (db_github_users d))"

definition wf_db :: "db \<Rightarrow> bool" where
  "wf_db d \<longleftrightarrow> keys_ok d \<and> events_ok d \<and> foreign_keys_ok d
     \<and> (\<forall>r \<in> set (db_analyses d). resolution_columns r)"

lemmas wf_defs = wf_db_def keys_ok_def events_ok_def foreign_keys_ok_def

section \<open>Operations as a state machine\<close>

text \<open>
  The writing operations of the store, with the clock reading each takes. \<open>exec_op\<close> is the database
  after the call, whether it returned or raised (a raise rolls the transaction back).
\<close>

datatype store_op =
    OpCreate AnalysisRecord
  | OpFollowup int followup_run
  | OpUpdate int int AnalysisStatus update_fields "pystr option"
  | OpBegin int int "pystr option"
  | OpFinish int int int AnalysisStatus "pystr option"
  | OpStage int int AnalysisStage StageStatus "pystr option" "pystr option"
  | OpFeedback int int FeedbackRequest "int set option"
  | OpDelete int
  | OpUser int GitHubUser
  | OpInstallations int int "GitHubInstallation list"
  | OpSession int pystr int pystr int
  | OpEndSession pystr
  | OpRotate pystr pystr

definition or_rollback :: "db \<Rightarrow> exn + db \<Rightarrow> db" where
  "or_rollback d res = (case res of Inl _ \<Rightarrow> d | Inr d' \<Rightarrow> d')"

lemma or_rollback_simps [simp]: "or_rollback d (Inl e) = d" "or_rollback d (Inr d') = d'"
  by (simp_all add: or_rollback_def)

fun exec_op :: "store_op \<Rightarrow> db \<Rightarrow> db" where
  "exec_op (OpCreate r) d = snd (create_if_absent r d)"
| "exec_op (OpFollowup now q) d = snd (record_followup_run now q d)"
| "exec_op (OpUpdate now i st v tok) d = or_rollback d (store_update now i st v tok d)"
| "exec_op (OpBegin now i tok) d = or_rollback d (map_sum id snd (begin_analysis now i tok d))"
| "exec_op (OpFinish now i t st tok) d =
     or_rollback d (map_sum id snd (finish_analysis now i t st tok d))"
| "exec_op (OpStage now i g st err tok) d = or_rollback d (record_stage now i g st err tok d)"
| "exec_op (OpFeedback now i q ids) d = snd (save_feedback now i q ids d)"
| "exec_op (OpDelete i) d = store_delete i d"
| "exec_op (OpUser now usr) d = upsert_github_user now usr d"
| "exec_op (OpInstallations now uid ins) d =
     or_rollback d (replace_user_installations now uid ins d)"
| "exec_op (OpSession now h uid tok ex) d = or_rollback d (create_auth_session now h uid tok ex d)"
| "exec_op (OpEndSession h) d = delete_auth_session h d"
| "exec_op (OpRotate h tok) d = update_auth_session_token h tok d"

inductive reachable_db :: "backend \<Rightarrow> db \<Rightarrow> bool" for b where
  start: "reachable_db b (initialize b)"
| step: "reachable_db b d \<Longrightarrow> reachable_db b (exec_op op d)"

section \<open>Row updates that keep the keys\<close>

lemma row_updates_keep [simp]:
  "a_run_id (set_resolution now rs r) = a_run_id r"
  "a_delivery_id (set_resolution now rs r) = a_delivery_id r"
  "a_run_id (apply_update now st v r) = a_run_id r"
  "a_delivery_id (apply_update now st v r) = a_delivery_id r"
  "a_run_id (begin_row t tok w r) = a_run_id r"
  "a_delivery_id (begin_row t tok w r) = a_delivery_id r"
  "a_run_id (finish_row t st c l r) = a_run_id r"
  "a_delivery_id (finish_row t st c l r) = a_delivery_id r"
  "e_id (supersede_event e) = e_id e" "e_run_id (supersede_event e) = e_run_id e"
  "f_run_id (put_feedback now q f) = f_run_id f"
  by (simp_all add: set_resolution_def apply_update_def begin_row_def finish_row_def
      supersede_event_def put_feedback_def)

lemma row_updates_resolution [simp]:
  "resolution_columns (set_resolution now rs r)"
  "resolution_columns (apply_update now st v r) = resolution_columns r"
  "resolution_columns (begin_row t tok w r) = resolution_columns r"
  "resolution_columns (finish_row t st c l r) = resolution_columns r"
  by (simp_all add: resolution_columns_def set_resolution_def apply_update_def begin_row_def
      finish_row_def)

lemma row_of_record_simps [simp]:
  "a_run_id (row_of_record r) = ar_run_id r" "a_delivery_id (row_of_record r) = ar_delivery_id r"
  "resolution_columns (row_of_record r)" "a_attempt_token (row_of_record r) = None"
  "a_resolution_outcome (row_of_record r) = None"
  by (simp_all add: row_of_record_def resolution_columns_def)

text \<open>
  Every statement on the analyses table that the store issues is a pointwise update keeping the
  two keys and the resolution columns: the one lemma the invariant proof needs for all of them.
\<close>

lemma wf_db_pointwise:
  assumes "wf_db d"
    and "\<And>r. a_run_id (f r) = a_run_id r" "\<And>r. a_delivery_id (f r) = a_delivery_id r"
    and "\<And>r. resolution_columns r \<Longrightarrow> resolution_columns (f r)"
  shows "wf_db (d\<lparr>db_analyses := map f (db_analyses d)\<rparr>)"
  using assms by (auto simp: wf_defs keyed_map_same image_image)

lemma wf_db_events_pointwise:
  assumes "wf_db d" "\<And>e. e_id (f e) = e_id e" "\<And>e. e_run_id (f e) = e_run_id e"
  shows "wf_db (d\<lparr>db_stage_events := map f (db_stage_events d)\<rparr>)"
  using assms by (auto simp: wf_defs comp_def image_image)

lemma wf_create: "wf_db d \<Longrightarrow> wf_db (snd (create_if_absent r d))"
  by (auto simp: create_if_absent_def wf_defs keyed_append_new)

lemma wf_followup: "wf_db d \<Longrightarrow> wf_db (snd (record_followup_run now q d))"
  by (auto simp: record_followup_run_def Let_def sql_update_def split: option.splits
      intro!: wf_db_pointwise)

lemma wf_update: "wf_db d \<Longrightarrow> wf_db (or_rollback d (store_update now i st v tok d))"
  by (auto simp: store_update_def Let_def sql_update_def require_current_attempt_def
      intro!: wf_db_pointwise)

lemma wf_begin: "wf_db d \<Longrightarrow> wf_db (or_rollback d (map_sum id snd (begin_analysis now i tok d)))"
proof -
  assume wf: "wf_db d"
  let ?f = "\<lambda>w r. if a_run_id r = i \<and> (tok = None \<or> a_status r \<in> {QUEUED, RUNNING})
                  then begin_row now tok w r else r"
  let ?g = "\<lambda>e. if e_run_id e = i \<and> e_status e = STAGE_STARTED then supersede_event e else e"
  have rows: "wf_db (d\<lparr>db_analyses := map (?f w) (db_analyses d)\<rparr>)" for w
    using wf by (rule wf_db_pointwise) auto
  have events: "wf_db (d\<lparr>db_analyses := map (?f w) (db_analyses d),
      db_stage_events := map ?g (db_stage_events d)\<rparr>)" for w
    using wf_db_events_pointwise[OF rows[of w], of ?g] by simp
  show ?thesis
    using wf rows events
    by (auto simp: begin_analysis_def Let_def sql_update_def require_current_attempt_def
        split: option.splits)
qed

lemma wf_finish:
  "wf_db d \<Longrightarrow> wf_db (or_rollback d (map_sum id snd (finish_analysis now i t st tok d)))"
  by (auto simp: finish_analysis_def Let_def sql_update_def require_current_attempt_def
      split: option.splits intro!: wf_db_pointwise)

lemma wf_stage: "wf_db d \<Longrightarrow> wf_db (or_rollback d (record_stage now i g st err tok d))"
  by (auto simp: record_stage_def wf_defs sorted_wrt_append fk_enforced_def)


lemma wf_feedback: "wf_db d \<Longrightarrow> wf_db (snd (save_feedback now i q ids d))"
proof -
  assume wf: "wf_db d"
  show ?thesis
  proof (cases "snd (save_feedback now i q ids d) = d")
    case False
    then have "\<exists>r \<in> set (db_analyses d). a_run_id r = i"
      by (auto simp: save_feedback_def sql_select_def filter_empty_conv split: if_splits)
    then have present: "i \<in> a_run_id ` set (db_analyses d)" by auto
    from wf present show ?thesis
      by (auto simp: save_feedback_def Let_def sql_select_def wf_defs keyed_append_new
          new_feedback_def filter_empty_conv sql_update_key[where k = f_run_id]
          simp del: fst_sql_update)
  qed (simp add: wf)
qed

lemma wf_delete: "wf_db d \<Longrightarrow> wf_db (store_delete i d)"
  by (auto simp: store_delete_def Let_def sql_delete_def wf_defs keyed_filter
      sorted_wrt_filter[of "\<lambda>a b. e_id a < e_id b"] sorted_wrt_map)

lemma wf_user: "wf_db d \<Longrightarrow> wf_db (upsert_github_user now usr d)"
  by (auto simp: upsert_github_user_def sql_select_def wf_defs keyed_append_new filter_empty_conv
      sql_update_key[where k = g_github_user_id] simp del: fst_sql_update)

lemma keyed_replace:
  assumes "keyed k rows" "keyed k new" "k ` set rows \<inter> k ` set new = {}"
  shows "keyed k (rows @ new)"
  using assms by (simp add: keyed_def)

lemma wf_installations: "wf_db d \<Longrightarrow> wf_db (or_rollback d (replace_user_installations now uid ins d))"
proof -
  assume wf: "wf_db d"
  let ?k = "\<lambda>r. (i_github_user_id r, i_installation_id r)"
  have "keyed ?k (sql_delete (\<lambda>r. i_github_user_id r = uid) (db_user_installations d)
      @ map (installation_row now uid) ins)"
    if "ins = [] \<or> distinct (map gi_installation_id ins)"
    using wf that
    by (intro keyed_replace)
      (auto simp: wf_defs sql_delete_def keyed_filter installation_row_def keyed_def comp_def
        distinct_map inj_on_def)
  then show ?thesis
    using wf by (auto simp: replace_user_installations_def Let_def wf_defs installation_row_def
        sql_delete_def known_user_def)
qed

lemma wf_session: "wf_db d \<Longrightarrow> wf_db (or_rollback d (create_auth_session now h uid tok ex d))"
  by (auto simp: create_auth_session_def wf_defs keyed_append_new known_user_def)

lemma wf_end_session: "wf_db d \<Longrightarrow> wf_db (delete_auth_session h d)"
  by (auto simp: delete_auth_session_def sql_delete_def wf_defs keyed_filter)

lemma wf_rotate: "wf_db d \<Longrightarrow> wf_db (update_auth_session_token h tok d)"
  by (auto simp: update_auth_session_token_def wf_defs sql_update_key[where k = s_session_hash]
      sql_update_key[where k = s_github_user_id] simp del: fst_sql_update)

lemmas wf_ops = wf_create wf_followup wf_update wf_begin wf_finish wf_stage wf_feedback wf_delete
  wf_user wf_installations wf_session wf_end_session wf_rotate

lemma wf_exec_op: "wf_db d \<Longrightarrow> wf_db (exec_op op d)"
  by (cases op) (simp_all add: wf_ops)

lemma wf_initialize: "wf_db (initialize b)"
  by (simp add: initialize_def wf_defs)

lemma reachable_wf: "reachable_db b d \<Longrightarrow> wf_db d"
  by (induction rule: reachable_db.induct) (simp_all add: wf_initialize wf_exec_op)




section \<open>Attempt fencing\<close>

text \<open>A token is current for a run while the run's row carries it.\<close>

definition token_current :: "pystr \<Rightarrow> int \<Rightarrow> db \<Rightarrow> bool" where
  "token_current tok i d \<longleftrightarrow> (\<exists>r \<in> set (db_analyses d). a_run_id r = i \<and> a_attempt_token r = Some tok)"

fun begins_with :: "int \<Rightarrow> pystr \<Rightarrow> store_op \<Rightarrow> bool" where
  "begins_with i tok (OpBegin _ j tok') \<longleftrightarrow> j = i \<and> tok' = Some tok"
| "begins_with i tok _ \<longleftrightarrow> False"

lemma row_updates_token [simp]:
  "a_attempt_token (set_resolution now rs r) = a_attempt_token r"
  "a_attempt_token (apply_update now st v r) = a_attempt_token r"
  "a_attempt_token (begin_row t tok w r) = tok"
  "a_attempt_token (finish_row t st c l r) = None"
  by (simp_all add: set_resolution_def apply_update_def begin_row_def finish_row_def)

lemma token_current_pointwise:
  assumes "\<And>r. a_run_id (f r) = a_run_id r"
    and "\<And>r. a_run_id r = i \<Longrightarrow> a_attempt_token (f r) = Some tok \<Longrightarrow> a_attempt_token r = Some tok"
    and "\<not> token_current tok i d"
  shows "\<not> token_current tok i (d\<lparr>db_analyses := map f (db_analyses d)\<rparr>)"
  using assms by (auto simp: token_current_def)

lemma token_current_frame:
  "db_analyses d' = db_analyses d \<Longrightarrow> token_current tok i d' = token_current tok i d"
  by (simp add: token_current_def)

lemma analyses_frame:
  "db_analyses (or_rollback d (record_stage now j g st err tok d)) = db_analyses d"
  "db_analyses (snd (save_feedback now j q ids d)) = db_analyses d"
  "db_analyses (upsert_github_user now usr d) = db_analyses d"
  "db_analyses (or_rollback d (replace_user_installations now uid ins d)) = db_analyses d"
  "db_analyses (or_rollback d (create_auth_session now h uid enc ex d)) = db_analyses d"
  "db_analyses (delete_auth_session h d) = db_analyses d"
  "db_analyses (update_auth_session_token h enc d) = db_analyses d"
  by (simp_all add: record_stage_def save_feedback_def Let_def upsert_github_user_def
      replace_user_installations_def create_auth_session_def delete_auth_session_def
      update_auth_session_token_def)

lemma token_stays_stale:
  assumes "\<not> token_current tok i d" "\<not> begins_with i tok op"
  shows "\<not> token_current tok i (exec_op op d)"
proof (cases op)
  case (OpCreate r)
  with assms show ?thesis by (auto simp: create_if_absent_def token_current_def)
next
  case (OpFollowup now q)
  with assms show ?thesis
    by (auto simp: record_followup_run_def Let_def sql_update_def token_current_def
        split: option.splits if_splits)
next
  case (OpUpdate now j st v t)
  with assms show ?thesis
    by (auto simp: store_update_def Let_def sql_update_def require_current_attempt_def
        token_current_def split: if_splits)
next
  case (OpBegin now j t)
  with assms show ?thesis
    by (auto simp: begin_analysis_def Let_def sql_update_def require_current_attempt_def
        token_current_def split: option.splits if_splits)
next
  case (OpFinish now j s st t)
  with assms show ?thesis
    by (auto simp: finish_analysis_def Let_def sql_update_def require_current_attempt_def
        token_current_def split: option.splits if_splits)
next
  case (OpDelete j)
  with assms show ?thesis
    by (auto simp: store_delete_def Let_def sql_delete_def token_current_def)
qed (use assms in \<open>simp_all add: token_current_frame[OF analyses_frame(1)]
      token_current_frame[OF analyses_frame(2)] token_current_frame[OF analyses_frame(3)]
      token_current_frame[OF analyses_frame(4)] token_current_frame[OF analyses_frame(5)]
      token_current_frame[OF analyses_frame(6)] token_current_frame[OF analyses_frame(7)]\<close>)

lemma token_stays_stale_run:
  "\<not> token_current tok i d \<Longrightarrow> (\<forall>op \<in> set ops. \<not> begins_with i tok op) \<Longrightarrow>
   \<not> token_current tok i (fold exec_op ops d)"
  by (induction ops arbitrary: d) (auto dest: token_stays_stale)

lemma stale_token_rejected:
  assumes "\<not> token_current tok i d"
  shows "store_update now i st v (Some tok) d = Inl (AnalysisAttemptSuperseded (attempt_message i))"
    and "record_stage now i g ss err (Some tok) d = Inl (AnalysisAttemptSuperseded (attempt_message i))"
    and "\<exists>m. finish_analysis now i t st (Some tok) d = Inl (AnalysisAttemptSuperseded m)"
proof -
  have none: "filter (fenced i (Some tok)) (db_analyses d) = []"
    using assms by (auto simp: filter_empty_conv fenced_def token_current_def)
  from none show "store_update now i st v (Some tok) d = Inl (AnalysisAttemptSuperseded (attempt_message i))"
    by (simp add: store_update_def sql_update_def require_current_attempt_def)
  from none show "record_stage now i g ss err (Some tok) d = Inl (AnalysisAttemptSuperseded (attempt_message i))"
    by (simp add: record_stage_def sql_select_def)
  from none show "\<exists>m. finish_analysis now i t st (Some tok) d = Inl (AnalysisAttemptSuperseded m)"
    by (auto simp: finish_analysis_def sql_update_def require_current_attempt_def Let_def
        split: option.splits)
qed

lemma begin_analysis_Inr:
  assumes "begin_analysis now i tok d = Inr (s, d')"
  obtains row w where "first_row (sql_select (\<lambda>r. a_run_id r = i) (db_analyses d)) = Some row"
    and "w = started_wait d now row"
    and "s = \<lparr>attempt_started_at = now, queue_wait_seconds = w,
           first_start = (a_analysis_started_at row = None)\<rparr>"
    and "db_analyses d' = map (\<lambda>r. if a_run_id r = i \<and> (tok = None \<or> a_status r \<in> {QUEUED, RUNNING})
           then begin_row now tok w r else r) (db_analyses d)"
    and "db_stage_events d' = (if tok = None then db_stage_events d
           else map (\<lambda>e. if e_run_id e = i \<and> e_status e = STAGE_STARTED then supersede_event e else e)
                  (db_stage_events d))"
    and "tok \<noteq> None \<Longrightarrow> length (filter (\<lambda>r. a_run_id r = i \<and> (tok = None \<or> a_status r \<in> {QUEUED, RUNNING}))
           (db_analyses d)) = 1"
proof -
  from assms obtain row where row: "first_row (sql_select (\<lambda>r. a_run_id r = i) (db_analyses d)) = Some row"
    by (auto simp: begin_analysis_def split: option.splits)
  show thesis
    by (rule that[OF row refl])
      (use assms row in \<open>auto simp: begin_analysis_def Let_def sql_update_def
        require_current_attempt_def bindE_eq_Inr split: if_splits\<close>)
qed

lemma begin_analysis_current:
  assumes wf: "wf_db d" and beg: "begin_analysis now i (Some tok) d = Inr (s, d')"
  shows "token_current tok i d'" and "tok' \<noteq> tok \<Longrightarrow> \<not> token_current tok' i d'"
proof -
  from beg obtain row w where
    row: "first_row (sql_select (\<lambda>r. a_run_id r = i) (db_analyses d)) = Some row"
    and rows: "db_analyses d' = map (\<lambda>r. if a_run_id r = i \<and> a_status r \<in> {QUEUED, RUNNING}
           then begin_row now (Some tok) w r else r) (db_analyses d)"
    and one: "length (filter (\<lambda>r. a_run_id r = i \<and> a_status r \<in> {QUEUED, RUNNING}) (db_analyses d)) = 1"
    by (rule begin_analysis_Inr) auto
  from one have "filter (\<lambda>r. a_run_id r = i \<and> a_status r \<in> {QUEUED, RUNNING}) (db_analyses d) \<noteq> []"
    by force
  then obtain r where r: "r \<in> set (db_analyses d)" "a_run_id r = i" "a_status r \<in> {QUEUED, RUNNING}"
    by (auto simp: filter_empty_conv)
  then have "begin_row now (Some tok) w r \<in> set (db_analyses d')"
    by (force simp: rows image_iff intro!: bexI[of _ r])
  moreover have "a_run_id (begin_row now (Some tok) w r) = i" using r(2) by simp
  ultimately show "token_current tok i d'"
    unfolding token_current_def by (intro bexI[of _ "begin_row now (Some tok) w r"]) simp_all
  have keyed: "keyed a_run_id (db_analyses d)" using wf by (simp add: wf_defs)
  have "a_attempt_token x = Some tok" if x: "x \<in> set (db_analyses d')" "a_run_id x = i" for x
  proof -
    from x(1) obtain y where y: "y \<in> set (db_analyses d)"
      and xy: "x = (if a_run_id y = i \<and> a_status y \<in> {QUEUED, RUNNING}
                 then begin_row now (Some tok) w y else y)"
      unfolding rows set_map by (rule imageE)
    have "a_run_id y = i" using x(2) xy by (auto split: if_splits)
    then have "y = r" using keyed_unique[OF keyed y r(1)] r(2) by simp
    with xy r show ?thesis by simp
  qed
  then show "tok' \<noteq> tok \<Longrightarrow> \<not> token_current tok' i d'"
    by (auto simp: token_current_def)
qed

text \<open>C2: attempt fencing. Once an attempt has begun an analysis with its token, every
  write another attempt still makes with an older token raises \<open>AnalysisAttemptSuperseded\<close>
  (updating the analysis, recording a stage, finishing it), and it keeps raising it after any
  further sequence of store operations, unless that older token itself begins the run again.\<close>

theorem superseded_attempt_fenced:
  assumes "wf_db d" and "begin_analysis now i (Some new) d = Inr (s, d')" and "old \<noteq> new"
    and "\<forall>op \<in> set ops. \<not> begins_with i old op"
  shows "store_update n i st v (Some old) (fold exec_op ops d')
           = Inl (AnalysisAttemptSuperseded (attempt_message i))
    \<and> record_stage n i g ss err (Some old) (fold exec_op ops d')
           = Inl (AnalysisAttemptSuperseded (attempt_message i))
    \<and> (\<exists>m. finish_analysis n i t st (Some old) (fold exec_op ops d')
           = Inl (AnalysisAttemptSuperseded m))"
proof -
  have "\<not> token_current old i d'" by (rule begin_analysis_current(2)[OF assms(1,2,3)])
  then have "\<not> token_current old i (fold exec_op ops d')"
    using assms(4) by (rule token_stays_stale_run)
  then show ?thesis by (intro conjI stale_token_rejected)
qed

text \<open>A concrete analysis record for the examples: run 1 of repository \<open>o/r\<close>, created at 0.\<close>

definition sample_record :: "int \<Rightarrow> int \<Rightarrow> AnalysisRecord" where
  "sample_record i created = \<lparr>
     ar_run_id = i, ar_delivery_id = str_int i, ar_repository = u ''o/r'',
     ar_workflow_name = u ''ci'', ar_head_sha = u ''abc'', ar_html_url = u ''http'',
     ar_run_attempt = 1, ar_head_branch = Some (u ''main''), ar_pull_request_number = None,
     ar_run_completed_at = Some created, ar_installation_id = Some 9, ar_trust_level = UNVERIFIED,
     ar_baseline_sha = None, ar_status = QUEUED, ar_classification = None, ar_diagnosis = None,
     ar_related_files = [], ar_workflow_path = None, ar_execution_context = None,
     ar_model_name = None, ar_prompt_version = None, ar_feedback = None, ar_resolution = None,
     ar_error = None, ar_analysis_started_at = None, ar_analysis_completed_at = None,
     ar_duration_seconds = None, ar_queue_wait_seconds = None, ar_total_latency_seconds = None,
     ar_stage_history = [], ar_created_at = created, ar_updated_at = created\<rparr>"

definition sample_db :: "backend \<Rightarrow> db" where
  "sample_db b = snd (create_if_absent (sample_record 1 0) (initialize b))"

lemma wf_sample_db: "wf_db (sample_db b)"
  unfolding sample_db_def by (intro wf_create wf_initialize)

lemma sample_db_rows: "db_analyses (sample_db b) = [row_of_record (sample_record 1 0)]"
  by (simp add: sample_db_def create_if_absent_def initialize_def)

lemma sample_db_begin:
  "\<exists>s d'. begin_analysis 4000000 1 (Some (u ''new'')) (sample_db b) = Inr (s, d')"
  by (simp add: begin_analysis_def sql_select_def sql_update_def require_current_attempt_def
      sample_db_rows sample_record_def row_of_record_def Let_def)

theorem superseded_attempt_fenced_witness:
  "\<exists>s d'. begin_analysis 4000000 1 (Some (u ''new'')) (sample_db Sqlite) = Inr (s, d')
     \<and> store_update 5000000 1 COMPLETED no_fields (Some (u ''old'')) (fold exec_op [OpDelete 3] d')
         = Inl (AnalysisAttemptSuperseded (attempt_message 1))"
proof -
  obtain s d' where beg: "begin_analysis 4000000 1 (Some (u ''new'')) (sample_db Sqlite) = Inr (s, d')"
    using sample_db_begin by blast
  have "store_update 5000000 1 COMPLETED no_fields (Some (u ''old'')) (fold exec_op [OpDelete 3] d')
      = Inl (AnalysisAttemptSuperseded (attempt_message 1))"
    by (rule superseded_attempt_fenced[OF wf_sample_db beg, THEN conjunct1]) simp_all
  with beg show ?thesis by blast
qed

end
