(* ===== verification/Worker_Props.thy ===== *)
theory Worker_Props
  imports Worker Store_Props
begin

text \<open>
  What the worker makes of its queue. The facts are proved once over the queue protocol, in the
  locale \<open>worker_queue\<close>, and interpreted on both queues: each turn settles the job at the head,
  whatever the pipeline does, and enough turns empty the queue, since a job that keeps failing is
  given up after \<open>max_attempts\<close> tries.
\<close>

section \<open>Work left in a queue\<close>

definition job_work :: "int \<Rightarrow> QueueEnvelope \<Rightarrow> nat" where
  "job_work max_attempts e = max 1 (nat (max_attempts - qe_attempts e))"

definition queue_work :: "int \<Rightarrow> QueueEnvelope list \<Rightarrow> nat" where
  "queue_work max_attempts es = sum_list (map (job_work max_attempts) es)"

text \<open>What comes back to the queue when the analysis of a job raises.\<close>

definition requeued :: "int \<Rightarrow> QueueEnvelope \<Rightarrow> QueueEnvelope list" where
  "requeued max_attempts e = (if qe_attempts e + 1 < max_attempts then [bump_attempts e] else [])"

lemma queue_work_step: "queue_work m (es @ requeued m e) < queue_work m (e # es)"
  by (auto simp: queue_work_def requeued_def job_work_def max_def)

lemma queue_work_drop: "queue_work m es < queue_work m (e # es)"
  by (simp add: queue_work_def job_work_def)

lemma store_update_unfenced [simp]:
  "store_update now i st v None d = Inr (d\<lparr>db_analyses :=
     map (\<lambda>r. if a_run_id r = i then apply_update now st v r else r) (db_analyses d)\<rparr>)"
  by (simp add: store_update_def require_current_attempt_def fenced_def sql_update_def)

lemmas prog_defs = bindS_def transS_def on_queue_def on_queue_unit_def on_metrics_def
  set_queue_depth_def worker_store_update_def handle_failure_def process_job_def run_analyze_def

section \<open>Over the protocol\<close>

locale worker_queue = analysis_queue enqueue dequeue acknowledge retry qsize waiting ids holds invar
  for enqueue :: "AnalysisRequest \<Rightarrow> 'q \<Rightarrow> exn + bool \<times> 'q"
    and dequeue :: "'q \<Rightarrow> exn + QueueJob option \<times> 'q"
    and acknowledge retry qsize waiting ids holds invar +
  fixes Q :: "'q queue_ops"
  assumes Q_dequeue: "qo_dequeue Q = dequeue"
    and Q_acknowledge: "qo_acknowledge Q = acknowledge"
    and Q_retry: "qo_retry Q = retry"
    and Q_size: "qo_size Q q = Inr (qsize q)"
begin

lemmas Q_simps = Q_dequeue Q_acknowledge Q_retry Q_size

lemma process_next_idle:
  assumes "invar (wk_queue w)" "waiting (wk_queue w) = []"
  shows "\<exists>w'. process_next Q xt analyze m now w = (Inr False, w') \<and> invar (wk_queue w')
    \<and> waiting (wk_queue w') = [] \<and> ids (wk_queue w') = ids (wk_queue w) \<and> wk_db w' = wk_db w"
  using dequeue_empty[OF assms] by (auto simp: process_next_def prog_defs Q_simps)

lemma process_next_done:
  assumes inv: "invar (wk_queue w)" and w: "waiting (wk_queue w) = e # es"
    and k: "k = set_gauge ''queue_depth'' (of_nat (length es)) (wk_metrics w)"
    and ok: "analyze (qe_request e) (wk_db w, k, wk_env w) = (Inr (), (d', k', env'))"
  shows "\<exists>w'. process_next Q xt analyze m now w = (Inr True, w') \<and> invar (wk_queue w')
    \<and> waiting (wk_queue w') = es \<and> ids (wk_queue w') = ids (wk_queue w) - {env_run_id e}
    \<and> wk_db w' = d' \<and> wk_env w' = env'"
proof -
  obtain job q' where d: "dequeue (wk_queue w) = Inr (Some job, q')" "qj_envelope job = e" "invar q'"
    "waiting q' = es" "ids q' = ids (wk_queue w)" "holds job q'"
    using dequeue_first[OF inv w] by blast
  obtain q'' where a: "acknowledge job q' = Inr q''" "invar q''" "waiting q'' = es"
    "ids q'' = ids (wk_queue w) - {env_run_id e}"
    using acknowledge_held[OF d(3,6)] d by auto
  have "qsize q' = length es" using size_waiting d(4) by simp
  with d a ok k show ?thesis by (simp add: process_next_def prog_defs Q_simps)
qed

lemma process_next_raised:
  assumes inv: "invar (wk_queue w)" and w: "waiting (wk_queue w) = e # es"
    and k: "k = set_gauge ''queue_depth'' (of_nat (length es)) (wk_metrics w)"
    and bad: "analyze (qe_request e) (wk_db w, k, wk_env w) = (Inl exc, (d', k', env'))"
  shows "\<exists>w'. process_next Q xt analyze m now w = (Inr True, w') \<and> invar (wk_queue w')
    \<and> waiting (wk_queue w') = es @ requeued m e
    \<and> ids (wk_queue w') = ids (wk_queue w) - (if requeued m e = [] then {env_run_id e} else {})
    \<and> Inr (wk_db w') = store_update now (env_run_id e) (if requeued m e = [] then FAILED else QUEUED)
        (no_fields\<lparr>uf_error := Some (xt exc)\<rparr>) None d'
    \<and> wk_env w' = env'"
proof -
  obtain job q' where d: "dequeue (wk_queue w) = Inr (Some job, q')" "qj_envelope job = e" "invar q'"
    "waiting q' = es" "ids q' = ids (wk_queue w)" "holds job q'"
    using dequeue_first[OF inv w] by blast
  have "qsize q' = length es" using size_waiting d(4) by simp
  with d acknowledge_held[OF d(3,6)] retry_held[OF d(3,6)] bad k show ?thesis
    by (auto simp: process_next_def prog_defs Q_simps requeued_def Let_def)
qed

text \<open>One turn of the loop, without regard to the outcome of the analysis.\<close>

lemma loop_turn_settles:
  assumes inv: "invar (wk_queue w)"
  shows "\<exists>w'. loop_turn Q xt analyze m now clock w = (Inr (), w') \<and> invar (wk_queue w')
    \<and> ids (wk_queue w') - env_run_id ` set (waiting (wk_queue w'))
        = ids (wk_queue w) - env_run_id ` set (waiting (wk_queue w))
    \<and> (if waiting (wk_queue w) = [] then waiting (wk_queue w') = []
       else queue_work m (waiting (wk_queue w')) < queue_work m (waiting (wk_queue w)))"
proof -
  have frame: "wk_queue (record_queue_success clock p x) = wk_queue x" for p and x :: "('q, 'e) worker"
    by (simp add: record_queue_success_def split: option.splits)
  show ?thesis
  proof (cases "waiting (wk_queue w)")
    case Nil
    with process_next_idle[OF inv Nil, of xt analyze m now] show ?thesis
      by (auto simp: loop_turn_def frame)
  next
    case (Cons e es)
    let ?k = "set_gauge ''queue_depth'' (of_nat (length es)) (wk_metrics w)"
    obtain r d' k' env' where an: "analyze (qe_request e) (wk_db w, ?k, wk_env w) = (r, (d', k', env'))"
      by (metis prod_cases4)
    show ?thesis
    proof (cases r)
      case (Inl exc)
      from process_next_raised[OF inv Cons refl, where analyze = analyze and xt = xt and m = m and now = now]
        an Inl
      obtain w' where "process_next Q xt analyze m now w = (Inr True, w')" "invar (wk_queue w')"
        "waiting (wk_queue w') = es @ requeued m e"
        "ids (wk_queue w') = ids (wk_queue w) - (if requeued m e = [] then {env_run_id e} else {})"
        by metis
      with queue_work_step[of m es e] Cons show ?thesis
        by (auto simp: loop_turn_def frame requeued_def split: if_splits)
    next
      case (Inr x)
      then have Inr: "r = Inr ()" by simp
      from process_next_done[OF inv Cons refl, where analyze = analyze and xt = xt and m = m and now = now]
        an[unfolded Inr]
      obtain w' where "process_next Q xt analyze m now w = (Inr True, w')" "invar (wk_queue w')"
        "waiting (wk_queue w') = es" "ids (wk_queue w') = ids (wk_queue w) - {env_run_id e}"
        by blast
      with queue_work_drop[of m es e] Cons show ?thesis
        by (auto simp: loop_turn_def frame)
    qed
  qed
qed

end

interpretation mw: worker_queue mem_enqueue mem_dequeue mem_acknowledge mem_retry mem_size
  mq_items mq_run_ids mem_holds mem_invar mem_ops
  by unfold_locales (simp_all add: mem_ops_def)

interpretation rw: worker_queue redis_enqueue "redis_dequeue c now" "redis_acknowledge c"
  "redis_retry c" redis_size redis_waiting rd_run_ids "redis_holds c" "\<lambda>_. True" "redis_ops c now keys"
  for c now keys
  by unfold_locales (simp_all add: redis_ops_def)

section \<open>Emptying the queue\<close>

text \<open>
  The loop over turns that each settle something: \<open>W\<close> is the waiting list and \<open>J\<close> what stays the
  same, for a queue whose operations may depend on the turn.
\<close>

lemma process_loop_drains:
  assumes turn: "\<And>i w. P w \<Longrightarrow> \<exists>w'. loop_turn (Q i) xt analyze m (now i) (clock i) w = (Inr (), w') \<and> P w'
      \<and> J w' = J w
      \<and> (if W w = [] then W w' = [] else queue_work m (W w') < queue_work m (W w))"
    and "P w" "queue_work m (W w) \<le> n"
  shows "\<exists>w'. process_loop n Q xt analyze m now clock i w = (Inr (), w') \<and> P w' \<and> J w' = J w \<and> W w' = []"
  using assms(2,3)
proof (induction n arbitrary: i w)
  case 0
  then have "W w = []" by (cases "W w") (auto simp: queue_work_def job_work_def)
  with 0 show ?case by simp
next
  case (Suc n)
  obtain w' where t: "loop_turn (Q i) xt analyze m (now i) (clock i) w = (Inr (), w')" "P w'" "J w' = J w"
    and m: "if W w = [] then W w' = [] else queue_work m (W w') < queue_work m (W w)"
    using turn[OF Suc.prems(1)] by blast
  have "queue_work m (W w') \<le> n" using m Suc.prems(2) by (auto simp: queue_work_def split: if_splits)
  from Suc.IH[OF t(2) this, of "Suc i"] t show ?case by simp
qed

text \<open>C17: whatever the analyses do (return or raise, change the database, the metrics or their own
  environment), the processing loop never stops by an exception on a working queue, and after a
  number of turns bounded by the work left (for each job, the tries it has left) nothing waits:
  exactly the runs that were waiting have been released from the deduplication set.\<close>

theorem worker_drains_queue:
  fixes analyze :: "'e analyze"
  assumes "mem_invar (wk_queue wm)" "queue_work m (mq_items (wk_queue wm)) \<le> n"
    and "queue_work m (redis_waiting (wk_queue wr)) \<le> n"
  shows "(\<exists>w'. process_loop n (\<lambda>_. mem_ops) xt analyze m now clock i wm = (Inr (), w')
      \<and> mq_items (wk_queue w') = []
      \<and> mq_run_ids (wk_queue w') = mq_run_ids (wk_queue wm) - env_run_id ` set (mq_items (wk_queue wm)))
    \<and> (\<exists>w'. process_loop n (\<lambda>i. redis_ops c (t i) (keys i)) xt analyze m now clock i wr = (Inr (), w')
      \<and> rd_pending (wk_queue w') = []
      \<and> rd_run_ids (wk_queue w') = rd_run_ids (wk_queue wr) - env_run_id ` set (rd_pending (wk_queue wr)))"
proof
  have "\<exists>w'. process_loop n (\<lambda>_. mem_ops) xt analyze m now clock i wm = (Inr (), w')
      \<and> mem_invar (wk_queue w')
      \<and> mq_run_ids (wk_queue w') - env_run_id ` set (mq_items (wk_queue w'))
          = mq_run_ids (wk_queue wm) - env_run_id ` set (mq_items (wk_queue wm))
      \<and> mq_items (wk_queue w') = []"
    by (rule process_loop_drains[where Q = "\<lambda>_. mem_ops" and P = "\<lambda>w. mem_invar (wk_queue w)" and W = "\<lambda>w. mq_items (wk_queue w)"
          and J = "\<lambda>w. mq_run_ids (wk_queue w) - env_run_id ` set (mq_items (wk_queue w))"],
        erule mw.loop_turn_settles, rule assms(1), rule assms(2))
  then show "\<exists>w'. process_loop n (\<lambda>_. mem_ops) xt analyze m now clock i wm = (Inr (), w')
      \<and> mq_items (wk_queue w') = []
      \<and> mq_run_ids (wk_queue w') = mq_run_ids (wk_queue wm) - env_run_id ` set (mq_items (wk_queue wm))"
    by auto
  have "\<exists>w'. process_loop n (\<lambda>i. redis_ops c (t i) (keys i)) xt analyze m now clock i wr = (Inr (), w')
      \<and> True
      \<and> rd_run_ids (wk_queue w') - env_run_id ` set (redis_waiting (wk_queue w'))
          = rd_run_ids (wk_queue wr) - env_run_id ` set (redis_waiting (wk_queue wr))
      \<and> redis_waiting (wk_queue w') = []"
    by (rule process_loop_drains[where Q = "\<lambda>i. redis_ops c (t i) (keys i)" and P = "\<lambda>w. True" and W = "\<lambda>w. redis_waiting (wk_queue w)"
          and J = "\<lambda>w. rd_run_ids (wk_queue w) - env_run_id ` set (redis_waiting (wk_queue w))"],
        rule rw.loop_turn_settles, assumption, rule TrueI, rule assms(3))
  then show "\<exists>w'. process_loop n (\<lambda>i. redis_ops c (t i) (keys i)) xt analyze m now clock i wr = (Inr (), w')
      \<and> rd_pending (wk_queue w') = []
      \<and> rd_run_ids (wk_queue w') = rd_run_ids (wk_queue wr) - env_run_id ` set (rd_pending (wk_queue wr))"
    by (auto simp: redis_waiting_def)
qed

definition sample_worker :: "'q \<Rightarrow> ('q, unit) worker" where
  "sample_worker q = \<lparr>wk_queue = q, wk_db = sample_db Postgresql, wk_metrics = new_metrics,
     wk_failures = (\<lambda>_. None), wk_env = ()\<rparr>"

definition failing_analyze :: "unit analyze" where
  "failing_analyze r = raiseS (LLMError (u ''down''))"

theorem worker_drains_queue_witness:
  "\<exists>w'. process_loop 3 (\<lambda>i. redis_ops sample_client 0 []) (\<lambda>_. u ''down'') failing_analyze 3
      (\<lambda>_. 0) (\<lambda>_. 0) 0 (sample_worker (snd (enqueue_script sample_request redis_new))) = (Inr (), w')
    \<and> rd_pending (wk_queue w') = [] \<and> rd_run_ids (wk_queue w') = {}"
proof -
  have "queue_work 3 (redis_waiting (wk_queue (sample_worker (snd (enqueue_script sample_request redis_new))))) \<le> 3"
    by (simp add: queue_work_def job_work_def redis_waiting_def enqueue_script_def redis_new_def
        sample_worker_def)
  from worker_drains_queue[of "sample_worker mem_new" 3 3, OF _ _ this, of "\<lambda>_. u ''down''" failing_analyze
      "\<lambda>_. 0" "\<lambda>_. 0" 0 sample_client "\<lambda>_. 0" "\<lambda>_. []"]
  show ?thesis
    by (simp add: mem_invar_def mem_new_def sample_worker_def queue_work_def enqueue_script_def redis_new_def)
qed

section \<open>One turn\<close>

text \<open>The outcome of one turn on a Redis queue, on every branch. An idle turn changes nothing in
  the database. A successful analysis is acknowledged and its effects stay. A raising analysis puts
  the run back to \<open>queued\<close> with one more attempt while attempts remain, and otherwise marks it
  \<open>failed\<close> and acknowledges it; the exception's text is stored.\<close>

lemma process_next_outcome:
  "case redis_waiting (wk_queue w) of
     [] \<Rightarrow> (\<exists>w'. process_next (redis_ops c t keys) xt analyze m now w = (Inr False, w')
         \<and> redis_waiting (wk_queue w') = [] \<and> wk_db w' = wk_db w)
   | e # es \<Rightarrow> (\<exists>w'. process_next (redis_ops c t keys) xt analyze m now w = (Inr True, w')
         \<and> (case analyze (qe_request e) (wk_db w,
               set_gauge ''queue_depth'' (of_nat (length es)) (wk_metrics w), wk_env w) of
              (Inr _, (d', _, env')) \<Rightarrow> redis_waiting (wk_queue w') = es \<and> wk_db w' = d' \<and> wk_env w' = env'
                \<and> rd_run_ids (wk_queue w') = rd_run_ids (wk_queue w) - {env_run_id e}
            | (Inl exc, (d', _, env')) \<Rightarrow> wk_env w' = env' \<and>
                (if qe_attempts e + 1 < m
                 then redis_waiting (wk_queue w') = es @ [bump_attempts e]
                   \<and> rd_run_ids (wk_queue w') = rd_run_ids (wk_queue w)
                   \<and> Inr (wk_db w') = store_update now (env_run_id e) QUEUED
                        (no_fields\<lparr>uf_error := Some (xt exc)\<rparr>) None d'
                 else redis_waiting (wk_queue w') = es
                   \<and> rd_run_ids (wk_queue w') = rd_run_ids (wk_queue w) - {env_run_id e}
                   \<and> Inr (wk_db w') = store_update now (env_run_id e) FAILED
                        (no_fields\<lparr>uf_error := Some (xt exc)\<rparr>) None d')))"
proof (cases "redis_waiting (wk_queue w)")
  case Nil
  from rw.process_next_idle[where w = w and c = c and nowa = t and keys = keys and xt = xt
      and analyze = analyze and m = m and now = now, OF TrueI Nil] Nil
  show ?thesis by auto
next
  case (Cons e es)
  let ?k = "set_gauge ''queue_depth'' (of_nat (length es)) (wk_metrics w)"
  obtain r d' k' env' where an: "analyze (qe_request e) (wk_db w, ?k, wk_env w) = (r, (d', k', env'))"
    by (metis prod_cases4)
  show ?thesis
  proof (cases r)
    case (Inl exc)
    with an rw.process_next_raised[where w = w and analyze = analyze, OF TrueI Cons refl, of exc d' k' env'
        c t keys xt m now] Cons
    show ?thesis by (auto simp: requeued_def split: if_splits)
  next
    case (Inr x)
    with an rw.process_next_done[where w = w and analyze = analyze, OF TrueI Cons refl, of d' k' env'
        c t keys xt m now] Cons
    show ?thesis by auto
  qed
qed

section \<open>Outages\<close>

text \<open>A server that is unreachable for the first \<open>k\<close> tries of the start-up loop.\<close>

definition outage :: "'q queue_ops \<Rightarrow> nat \<Rightarrow> nat \<Rightarrow> 'q queue_ops" where
  "outage Q k i = (if i < k then Q\<lparr>qo_heartbeat := (\<lambda>_. Inl (RedisError []))\<rparr> else Q)"

lemma maintain_during_outage: "i < k \<Longrightarrow> maintain_queue_once (outage Q k i) w = (Inl (RedisError []), w)"
  by (simp add: maintain_queue_once_def outage_def prog_defs)

lemma maintain_redis:
  "maintain_queue_once (redis_ops c t keys) w =
     (Inr (), let (n, q) = recover_orphaned c t keys (redis_heartbeat c t (wk_queue w))
       in w\<lparr>wk_queue := q, wk_metrics := (if n \<noteq> 0 then inc_nat ''queue_recovered'' [] n else id) (wk_metrics w)\<rparr>)"
  by (simp add: maintain_queue_once_def redis_ops_def bindS_def transS_def on_queue_def on_queue_unit_def
      on_metrics_def split: prod.splits)

lemma startup_outage_steps:
  "i + j \<le> k \<Longrightarrow> wk_failures w (u ''startup'') = (if i = 0 then None else Some t0) \<Longrightarrow> clock 0 = t0 \<Longrightarrow>
   startup_loop (j + n) (outage Q k) clock i w = startup_loop n (outage Q k) clock (i + j)
     (w\<lparr>wk_metrics := inc_nat ''queue_connection_errors'' [u ''startup''] j (wk_metrics w),
        wk_failures := (if i + j = 0 then wk_failures w else (wk_failures w)(u ''startup'' \<mapsto> t0))\<rparr>)"
proof (induction j arbitrary: i w)
  case 0
  then show ?case by (auto simp: inc_nat_def fun_upd_idem)
next
  case (Suc j)
  let ?w = "record_queue_error (clock i) (u ''startup'') w"
  have "startup_loop (Suc j + n) (outage Q k) clock i w = startup_loop (j + n) (outage Q k) clock (Suc i) ?w"
    using Suc.prems(1) by (simp add: maintain_during_outage is_redis_error_def)
  also have "\<dots> = startup_loop n (outage Q k) clock (Suc i + j)
     (?w\<lparr>wk_metrics := inc_nat ''queue_connection_errors'' [u ''startup''] j (wk_metrics ?w),
        wk_failures := (if Suc i + j = 0 then wk_failures ?w else (wk_failures ?w)(u ''startup'' \<mapsto> t0))\<rparr>)"
    using Suc.prems by (intro Suc.IH) (auto simp: record_queue_error_def split: option.splits)
  also have "?w\<lparr>wk_metrics := inc_nat ''queue_connection_errors'' [u ''startup''] j (wk_metrics ?w),
        wk_failures := (if Suc i + j = 0 then wk_failures ?w else (wk_failures ?w)(u ''startup'' \<mapsto> t0))\<rparr>
      = w\<lparr>wk_metrics := inc_nat ''queue_connection_errors'' [u ''startup''] (Suc j) (wk_metrics w),
        wk_failures := (wk_failures w)(u ''startup'' \<mapsto> t0)\<rparr>"
    by (simp add: record_queue_error_def inc_nat_def inc1_def add_ac fun_upd_def split: option.splits cong: if_cong)
  finally show ?case by (simp del: startup_loop.simps add: fun_upd_def)
qed

text \<open>C18: when Redis is unreachable for the first \<open>k\<close> tries, the start-up loop keeps trying, counts
  each failure, leaves the loop at the first try that succeeds, and reports one reconnection whose
  duration runs from the first failure to that try; without an outage it reports neither.\<close>

theorem startup_survives_outage:
  assumes "wk_failures w (u ''startup'') = None"
  shows "\<exists>w'. startup_loop (k + Suc n) (outage (redis_ops c t keys) k) clock 0 w = Some (Inr (), w')
    \<and> counters (wk_metrics w') (''queue_connection_errors'', [u ''startup''])
        = counters (wk_metrics w) (''queue_connection_errors'', [u ''startup'']) + of_nat k
    \<and> histograms (wk_metrics w') (''queue_recovery_duration'', [u ''startup''])
        = histograms (wk_metrics w) (''queue_recovery_duration'', [u ''startup''])
          @ (if k = 0 then [] else [clock k - clock 0])
    \<and> wk_failures w' (u ''startup'') = None
    \<and> wk_queue w' = snd (recover_orphaned c t keys (redis_heartbeat c t (wk_queue w)))"
proof -
  let ?w = "w\<lparr>wk_metrics := inc_nat ''queue_connection_errors'' [u ''startup''] k (wk_metrics w),
      wk_failures := (if k = 0 then wk_failures w else (wk_failures w)(u ''startup'' \<mapsto> clock 0))\<rparr>"
  have "startup_loop (k + Suc n) (outage (redis_ops c t keys) k) clock 0 w
      = startup_loop (Suc n) (outage (redis_ops c t keys) k) clock k ?w"
    using startup_outage_steps[of 0 k k w "clock 0" clock "Suc n"] assms by simp
  moreover have "outage (redis_ops c t keys) k k = redis_ops c t keys" by (simp add: outage_def)
  ultimately show ?thesis using assms
    by (auto simp: maintain_redis record_queue_success_def split: prod.splits option.splits)
qed

theorem startup_survives_outage_witness:
  "\<exists>w'. startup_loop (2 + Suc 0) (outage (redis_ops sample_client 0 []) 2) of_nat 0
      (sample_worker redis_new) = Some (Inr (), w')
    \<and> histograms (wk_metrics w') (''queue_recovery_duration'', [u ''startup'']) = [2]"
proof -
  have "wk_failures (sample_worker redis_new) (u ''startup'') = None" by (simp add: sample_worker_def)
  from startup_survives_outage[OF this, of 2 0 sample_client 0 "[]" of_nat]
  show ?thesis by (auto simp: sample_worker_def new_metrics_def)
qed

end
