(* ===== verification/Http_Retry.thy ===== *)
theory Http_Retry
  imports PyJson Metrics
begin

text \<open>
  The retrying HTTP client of \<open>src/pipelens/http_retry.py\<close>. The outside world is the record \<open>web\<close>:
  a server that answers every request as an arbitrary function of the requests it has seen, the
  clock, the random generator, and the shared metrics registry; it keeps the requests sent and the
  waits made. The library httpx is seen through the record \<open>response\<close> with the attributes the code
  reads; the date parser of the standard library's email package is an argument. Floats are
  rationals, with infinities and NaN where \<open>float\<close> can produce them.
\<close>

section \<open>Requests, responses, and the world\<close>

record http_request =
  hr_method :: pystr
  hr_url :: pystr
  hr_headers :: "(pystr \<times> pystr) list"
  hr_params :: "(pystr \<times> pystr) list"
  hr_data :: "(pystr \<times> pystr) list"
  hr_json :: "json option"
  hr_follow_redirects :: bool

text \<open>\<open>headers\<close> by lower-case name; \<open>text\<close> is the decoded body and \<open>json\<close> the outcome of decoding it.\<close>

record response =
  re_status_code :: int
  re_headers :: "(pystr \<times> pystr) list"
  re_content :: "nat list"
  re_text :: pystr
  re_json :: "exn + json"

record web =
  wb_server :: "http_request list \<Rightarrow> http_request \<Rightarrow> exn + response"
  wb_sent :: "http_request list"
  wb_slept :: "rat list"
  wb_clock :: "nat \<Rightarrow> rat"
  wb_reads :: nat
  wb_random :: "nat \<Rightarrow> rat"
  wb_draws :: nat
  wb_metrics :: metrics

definition send :: "http_request \<Rightarrow> (web, response) prog" where
  "send rq w = (wb_server w (wb_sent w) rq, w\<lparr>wb_sent := wb_sent w @ [rq]\<rparr>)"

definition sleep :: "rat \<Rightarrow> (web, unit) prog" where
  "sleep d = updS (\<lambda>w. w\<lparr>wb_slept := wb_slept w @ [d]\<rparr>)"

definition read_time :: "(web, rat) prog" where
  "read_time w = (Inr (wb_clock w (wb_reads w)), w\<lparr>wb_reads := wb_reads w + 1\<rparr>)"

definition random_uniform :: "rat \<Rightarrow> rat \<Rightarrow> (web, rat) prog" where
  "random_uniform a b w =
     (Inr (a + (b - a) * wb_random w (wb_draws w)), w\<lparr>wb_draws := wb_draws w + 1\<rparr>)"

definition re_header :: "string \<Rightarrow> response \<Rightarrow> pystr option" where
  "re_header name r = map_of (re_headers r) (u name)"

definition raise_for_status :: "response \<Rightarrow> exn + unit" where
  "raise_for_status r = (if 200 \<le> re_status_code r \<and> re_status_code r < 300 then Inr ()
     else Inl (HTTPStatusError (nat (re_status_code r))))"

section \<open>Numbers in headers\<close>

datatype pyfloat = Finite rat | PosInf | NegInf | NaN

text \<open>Digits with single underscores between them.\<close>

function digit_run :: "unicode \<Rightarrow> pystr \<Rightarrow> nat list \<times> pystr" where
  "digit_run U s = (case s of
       [] \<Rightarrow> ([], [])
     | c # cs \<Rightarrow> if \<not> uc_digit U c then ([], s)
         else (let rest = (case cs of a # b # _ \<Rightarrow> if a = 95 \<and> uc_digit U b then tl cs else cs | _ \<Rightarrow> cs);
                   (ds, r) = digit_run U rest
               in (uc_digit_value U c # ds, r)))"
  by pat_completeness auto
termination
  by (relation "measure (length \<circ> snd)") (auto split: list.splits)

declare digit_run.simps [simp del]

definition digits_value :: "nat list \<Rightarrow> nat" where
  "digits_value ds = foldl (\<lambda>n d. 10 * n + d) 0 ds"

definition take_sign :: "pystr \<Rightarrow> bool \<times> pystr" where
  "take_sign s = (case s of c # cs \<Rightarrow> if c = 45 then (True, cs) else if c = 43 then (False, cs) else (False, s)
     | [] \<Rightarrow> (False, []))"

definition float_exponent :: "unicode \<Rightarrow> pystr \<Rightarrow> int option" where
  "float_exponent U s = (case s of
       [] \<Rightarrow> Some 0
     | c # cs \<Rightarrow> if c = 101 \<or> c = 69
         then (let (neg, cs') = take_sign cs; (ds, r) = digit_run U cs'
               in if ds = [] \<or> r \<noteq> [] then None
                  else Some (if neg then - int (digits_value ds) else int (digits_value ds)))
         else None)"

definition float_number :: "unicode \<Rightarrow> pystr \<Rightarrow> rat option" where
  "float_number U s =
     (let (ip, r) = digit_run U s;
          (fp, r') = (case r of c # cs \<Rightarrow> if c = 46 then digit_run U cs else ([], r) | [] \<Rightarrow> ([], r))
      in if ip = [] \<and> fp = [] then None
         else map_option (\<lambda>e. let m = of_nat (digits_value (ip @ fp)) / 10 ^ length fp
             in if 0 \<le> e then m * 10 ^ nat e else m / 10 ^ nat (- e)) (float_exponent U r'))"

definition py_float :: "unicode \<Rightarrow> pystr \<Rightarrow> exn + pyfloat" where
  "py_float U t =
     (let (neg, s) = take_sign (strip t); low = map ascii_lower s
      in if low = u ''inf'' \<or> low = u ''infinity'' then Inr (if neg then NegInf else PosInf)
         else if low = u ''nan'' then Inr NaN
         else (case float_number U s of
             None \<Rightarrow> Inl (ValueError (u ''could not convert string to float''))
           | Some x \<Rightarrow> Inr (Finite (if neg then - x else x))))"

text \<open>\<open>max(0.0, x)\<close> keeps its first argument unless the second is greater, and subtraction.\<close>

fun max_zero :: "pyfloat \<Rightarrow> pyfloat" where
  "max_zero (Finite x) = Finite (max 0 x)"
| "max_zero PosInf = PosInf"
| "max_zero _ = Finite 0"

fun minus_time :: "pyfloat \<Rightarrow> rat \<Rightarrow> pyfloat" where
  "minus_time (Finite x) t = Finite (x - t)"
| "minus_time x t = x"

section \<open>The policy\<close>

definition IDEMPOTENT_METHODS :: "pystr set" where
  "IDEMPOTENT_METHODS = {u ''GET'', u ''HEAD'', u ''OPTIONS'', u ''PUT'', u ''DELETE''}"

definition TRANSIENT_STATUS_CODES :: "int set" where
  "TRANSIENT_STATUS_CODES = {408, 429, 500, 502, 503, 504}"

definition ACTION_REQUIRED_RATE_LIMIT_CODES :: "pystr set" where
  "ACTION_REQUIRED_RATE_LIMIT_CODES =
     {u ''billing_hard_limit_reached'', u ''billing_not_active'', u ''insufficient_quota''}"

record RetryPolicy =
  rp_max_attempts :: int
  rp_base_delay_seconds :: rat
  rp_max_delay_seconds :: rat
  rp_jitter_ratio :: rat

definition default_policy :: RetryPolicy where
  "default_policy = \<lparr>rp_max_attempts = 3, rp_base_delay_seconds = 1, rp_max_delay_seconds = 60,
     rp_jitter_ratio = 1 / 4\<rparr>"

definition check_policy :: "RetryPolicy \<Rightarrow> exn + RetryPolicy" where
  "check_policy p =
     (if rp_max_attempts p < 1 then Inl (ValueError (u ''max_attempts must be at least 1''))
      else if rp_base_delay_seconds p < 0 \<or> rp_max_delay_seconds p < 0
        then Inl (ValueError (u ''retry delays cannot be negative''))
      else if \<not> (0 \<le> rp_jitter_ratio p \<and> rp_jitter_ratio p \<le> 1)
        then Inl (ValueError (u ''jitter_ratio must be between 0 and 1''))
      else Inr p)"

section \<open>Delays\<close>

definition backoff_delay :: "RetryPolicy \<Rightarrow> int \<Rightarrow> (web, rat) prog" where
  "backoff_delay p attempt =
     (let delay = min (rp_base_delay_seconds p * 2 ^ nat (attempt - 1)) (rp_max_delay_seconds p)
      in if delay \<noteq> 0 \<and> rp_jitter_ratio p \<noteq> 0
         then bindS (random_uniform 0 (rp_jitter_ratio p))
                (\<lambda>j. retS (min (delay * (1 + j)) (rp_max_delay_seconds p)))
         else retS (min delay (rp_max_delay_seconds p)))"

text \<open>The exceptions of the date parser that the code passes over.\<close>

definition is_date_error :: "exn \<Rightarrow> bool" where
  "is_date_error e = (case e of TypeError _ \<Rightarrow> True | ValueError _ \<Rightarrow> True
     | OtherError m \<Rightarrow> m = u ''OverflowError'' | _ \<Rightarrow> False)"

definition retry_after_date :: "(pystr \<Rightarrow> exn + datetime) \<Rightarrow> pystr \<Rightarrow> (web, pyfloat option) prog" where
  "retry_after_date parse_date v = (case parse_date v of
       Inl e \<Rightarrow> if is_date_error e then retS None else raiseS e
     | Inr d \<Rightarrow> bindS read_time (\<lambda>now. retS (Some (Finite (max 0 (total_seconds (utc_micros d) - now))))))"

definition rate_limit_reset_delay :: "unicode \<Rightarrow> response \<Rightarrow> (web, pyfloat option) prog" where
  "rate_limit_reset_delay U r =
     (if re_header ''x-ratelimit-remaining'' r \<noteq> Some (u ''0'') then retS None
      else (case re_header ''x-ratelimit-reset'' r of
          None \<Rightarrow> retS None
        | Some v \<Rightarrow> (case py_float U v of
            Inl _ \<Rightarrow> retS None
          | Inr x \<Rightarrow> bindS read_time (\<lambda>now. retS (Some (max_zero (minus_time x now)))))))"

definition retry_after_delay ::
  "unicode \<Rightarrow> (pystr \<Rightarrow> exn + datetime) \<Rightarrow> response \<Rightarrow> (web, pyfloat option) prog" where
  "retry_after_delay U parse_date r = (case re_header ''retry-after'' r of
       Some v \<Rightarrow> if v = [] then rate_limit_reset_delay U r
         else (case py_float U v of
             Inr x \<Rightarrow> retS (Some (max_zero x))
           | Inl _ \<Rightarrow> bindS (retry_after_date parse_date v)
               (\<lambda>d. case d of Some x \<Rightarrow> retS (Some x) | None \<Rightarrow> rate_limit_reset_delay U r))
     | None \<Rightarrow> rate_limit_reset_delay U r)"

fun header_wait :: "RetryPolicy \<Rightarrow> pyfloat \<Rightarrow> (web, rat option) prog" where
  "header_wait p (Finite d) = (if rp_max_delay_seconds p < d then retS None
     else bindS (random_uniform 0 (rp_base_delay_seconds p * rp_jitter_ratio p))
       (\<lambda>jitter. retS (Some (min (d + jitter) (rp_max_delay_seconds p)))))"
| "header_wait p _ = retS None"

definition response_delay ::
  "unicode \<Rightarrow> (pystr \<Rightarrow> exn + datetime) \<Rightarrow> response \<Rightarrow> RetryPolicy \<Rightarrow> int \<Rightarrow> (web, rat option) prog" where
  "response_delay U parse_date r p attempt = bindS (retry_after_delay U parse_date r)
     (\<lambda>h. case h of
         Some d \<Rightarrow> header_wait p d
       | None \<Rightarrow> if re_status_code r = 403
           then retS (if 60 \<le> rp_max_delay_seconds p then Some 60 else None)
           else bindS (backoff_delay p attempt) (\<lambda>d. retS (Some d)))"

section \<open>When to retry\<close>

definition requires_user_action :: "response \<Rightarrow> exn + bool" where
  "requires_user_action r = (case re_json r of
       Inl (ValueError _) \<Rightarrow> Inr False
     | Inl e \<Rightarrow> Inl e
     | Inr body \<Rightarrow> bindE (j_get ''error'' body) (\<lambda>err.
         bindE (j_get ''code'' (j_or err (JObj []))) (\<lambda>code.
           (case code of
              JStr c \<Rightarrow> Inr (c \<in> ACTION_REQUIRED_RATE_LIMIT_CODES)
            | JArr _ \<Rightarrow> Inl (TypeError (u ''unhashable type: list''))
            | JObj _ \<Rightarrow> Inl (TypeError (u ''unhashable type: dict''))
            | _ \<Rightarrow> Inr False))))"

definition is_rate_limited :: "unicode \<Rightarrow> response \<Rightarrow> bool" where
  "is_rate_limited U r \<longleftrightarrow> re_header ''retry-after'' r \<noteq> None
     \<or> re_header ''x-ratelimit-remaining'' r = Some (u ''0'')
     \<or> is_infix (u ''secondary rate limit'') (uc_casefold U (re_text r))
     \<or> is_infix (u ''rate limit exceeded'') (uc_casefold U (re_text r))"

definition retry_reason :: "unicode \<Rightarrow> bool \<Rightarrow> response \<Rightarrow> exn + pystr option" where
  "retry_reason U retry_rate_limited_403 r =
     (if re_status_code r \<in> TRANSIENT_STATUS_CODES
      then (if re_status_code r = 429
            then bindE (requires_user_action r)
              (\<lambda>act. Inr (if act then None else Some (u ''rate_limit'')))
            else Inr (Some (u ''server'')))
      else Inr (if re_status_code r = 403 \<and> retry_rate_limited_403 \<and> is_rate_limited U r
        then Some (u ''rate_limit'') else None))"

section \<open>The loop\<close>

type_synonym retry_observer = "pystr \<Rightarrow> int \<Rightarrow> rat \<Rightarrow> metrics \<Rightarrow> metrics"

definition observe_retry :: "retry_observer option \<Rightarrow> pystr \<Rightarrow> int \<Rightarrow> rat \<Rightarrow> (web, unit) prog" where
  "observe_retry on_retry reason attempt delay = (case on_retry of
       None \<Rightarrow> retS () | Some f \<Rightarrow> updS (\<lambda>w. w\<lparr>wb_metrics := f reason attempt delay (wb_metrics w)\<rparr>))"

definition is_transport_error :: "exn \<Rightarrow> bool" where
  "is_transport_error e = (case e of TransportError _ \<Rightarrow> True | _ \<Rightarrow> False)"

record http_client =
  hc_unicode :: unicode
  hc_parse_date :: "pystr \<Rightarrow> exn + datetime"
  hc_policy :: RetryPolicy
  hc_on_retry :: "retry_observer option"

fun retry_attempts :: "http_client \<Rightarrow> bool \<Rightarrow> http_request \<Rightarrow> int list \<Rightarrow> (web, response) prog" where
  "retry_attempts C flag rq [] = raiseS (AssertionError (u ''retry loop exited unexpectedly''))"
| "retry_attempts C flag rq (attempt # rest) =
     (let p = hc_policy C; again = retry_attempts C flag rq rest in
      tryElseS (send rq)
        (\<lambda>e. if \<not> is_transport_error e \<or> attempt = rp_max_attempts p \<or> hr_method rq \<notin> IDEMPOTENT_METHODS
             then raiseS e
             else bindS (backoff_delay p attempt) (\<lambda>d.
               bindS (observe_retry (hc_on_retry C) (u ''transport'') attempt d) (\<lambda>_.
               bindS (sleep d) (\<lambda>_. again))))
        (\<lambda>r. bindS (liftS (retry_reason (hc_unicode C) flag r)) (\<lambda>reason. case reason of
             None \<Rightarrow> retS r
           | Some why \<Rightarrow> if attempt = rp_max_attempts p then retS r
               else bindS (response_delay (hc_unicode C) (hc_parse_date C) r p attempt) (\<lambda>d. case d of
                 None \<Rightarrow> retS r
               | Some d \<Rightarrow> bindS (observe_retry (hc_on_retry C) why attempt d) (\<lambda>_.
                   bindS (sleep d) (\<lambda>_. again))))))"

definition request_with_retry :: "http_client \<Rightarrow> bool \<Rightarrow> http_request \<Rightarrow> (web, response) prog" where
  "request_with_retry C flag rq =
     retry_attempts C flag (rq\<lparr>hr_method := uc_upper (hc_unicode C) (hr_method rq)\<rparr>)
       (map int [1..<nat (rp_max_attempts (hc_policy C)) + 1])"

section \<open>Properties\<close>

text \<open>A calm program sends nothing and waits for nothing; its exceptions satisfy \<open>X\<close>, its values \<open>Q\<close>.\<close>

definition random_ok :: "web \<Rightarrow> bool" where
  "random_ok w \<longleftrightarrow> (\<forall>n. 0 \<le> wb_random w n \<and> wb_random w n \<le> 1)"

definition same_world :: "web \<Rightarrow> web \<Rightarrow> bool" where
  "same_world w w' \<longleftrightarrow> wb_server w' = wb_server w \<and> wb_random w' = wb_random w
     \<and> wb_sent w' = wb_sent w \<and> wb_slept w' = wb_slept w"

definition calm :: "(exn \<Rightarrow> bool) \<Rightarrow> ('a \<Rightarrow> bool) \<Rightarrow> (web, 'a) prog \<Rightarrow> bool" where
  "calm X Q m \<longleftrightarrow> (\<forall>w. random_ok w \<longrightarrow> same_world w (snd (m w))
     \<and> (case fst (m w) of Inl e \<Rightarrow> X e | Inr a \<Rightarrow> Q a))"

named_theorems calm_intros

lemma random_ok_same: "same_world w w' \<Longrightarrow> random_ok w' \<longleftrightarrow> random_ok w"
  by (simp add: same_world_def random_ok_def)

lemma same_world_trans: "same_world a b \<Longrightarrow> same_world b c \<Longrightarrow> same_world a c"
  by (simp add: same_world_def)

lemma calm_ret [calm_intros]: "Q a \<Longrightarrow> calm X Q (retS a)"
  by (simp add: calm_def same_world_def)

lemma calm_raise [calm_intros]: "X e \<Longrightarrow> calm X Q (raiseS e)"
  by (simp add: calm_def same_world_def)

lemma calm_bind:
  assumes m: "calm X R m" and f: "\<And>a. R a \<Longrightarrow> calm X Q (f a)"
  shows "calm X Q (bindS m f)"
  unfolding calm_def
proof (intro allI impI)
  fix w assume w: "random_ok w"
  obtain r w1 where r: "m w = (r, w1)" by (cases "m w")
  with m w have s: "same_world w w1" and c: "case r of Inl e \<Rightarrow> X e | Inr a \<Rightarrow> R a"
    unfolding calm_def by (auto dest: spec[of _ w])
  show "same_world w (snd (bindS m f w)) \<and> (case fst (bindS m f w) of Inl e \<Rightarrow> X e | Inr a \<Rightarrow> Q a)"
  proof (cases r)
    case (Inl e)
    with r s c show ?thesis by (simp add: bindS_def)
  next
    case (Inr a)
    with f[of a] c random_ok_same[OF s] w have "same_world w1 (snd (f a w1))"
      "case fst (f a w1) of Inl e \<Rightarrow> X e | Inr a \<Rightarrow> Q a" by (auto simp: calm_def)
    with Inr r s show ?thesis by (auto simp: bindS_def intro: same_world_trans)
  qed
qed

lemma calm_weaken: "calm X R m \<Longrightarrow> (\<And>a. R a \<Longrightarrow> Q a) \<Longrightarrow> calm X Q m"
  unfolding calm_def by (auto split: sum.splits)

lemma calm_uniform: "a \<le> b \<Longrightarrow> calm X (\<lambda>x. a \<le> x \<and> x \<le> b) (random_uniform a b)"
proof -
  assume ab: "a \<le> b"
  have "0 \<le> (b - a) * x \<and> (b - a) * x \<le> b - a" if "0 \<le> x" "x \<le> 1" for x
    using ab that mult_left_mono[of x 1 "b - a"] by simp
  then show ?thesis
    unfolding calm_def random_uniform_def random_ok_def same_world_def by fastforce
qed

lemma calm_time: "calm X (\<lambda>_. True) read_time"
  by (simp add: calm_def read_time_def same_world_def)

definition valid_policy :: "RetryPolicy \<Rightarrow> bool" where
  "valid_policy p \<longleftrightarrow> 1 \<le> rp_max_attempts p \<and> 0 \<le> rp_base_delay_seconds p \<and> 0 \<le> rp_max_delay_seconds p
     \<and> 0 \<le> rp_jitter_ratio p \<and> rp_jitter_ratio p \<le> 1"

lemma check_policy_valid: "check_policy p = Inr q \<Longrightarrow> q = p \<and> valid_policy p"
  by (auto simp: check_policy_def valid_policy_def split: if_splits)

lemma backoff_calm:
  assumes "valid_policy p"
  shows "calm X (\<lambda>d. 0 \<le> d \<and> d \<le> rp_max_delay_seconds p) (backoff_delay p n)"
  unfolding backoff_delay_def Let_def
  using assms by (auto intro!: calm_bind[OF calm_uniform] calm_ret simp: valid_policy_def)

definition date_failure :: "(pystr \<Rightarrow> exn + datetime) \<Rightarrow> exn \<Rightarrow> bool" where
  "date_failure parse_date e \<longleftrightarrow> \<not> is_date_error e \<and> (\<exists>v. parse_date v = Inl e)"

definition delay_nonneg :: "pyfloat option \<Rightarrow> bool" where
  "delay_nonneg d \<longleftrightarrow> (\<forall>x. d = Some (Finite x) \<longrightarrow> 0 \<le> x)"

lemma max_zero_nonneg [simp]: "delay_nonneg (Some (max_zero x))" "delay_nonneg None"
  by (cases x; simp add: delay_nonneg_def)+

lemma reset_calm: "calm X delay_nonneg (rate_limit_reset_delay U r)"
  unfolding rate_limit_reset_delay_def
  by (auto intro!: calm_bind[OF calm_time] calm_ret split: option.split sum.split)

lemma retry_after_calm: "calm (date_failure parse_date) delay_nonneg (retry_after_delay U parse_date r)"
proof -
  have d: "calm (date_failure parse_date) delay_nonneg (retry_after_date parse_date v)" for v
    unfolding retry_after_date_def
    by (auto intro!: calm_bind[OF calm_time] calm_ret calm_raise simp: date_failure_def delay_nonneg_def split: sum.split)
  show ?thesis unfolding retry_after_delay_def
    by (auto intro!: calm_bind[OF d] calm_ret reset_calm split: option.split sum.split)
qed

lemma response_delay_calm:
  assumes p: "valid_policy p"
  shows "calm (date_failure parse_date) (\<lambda>d. \<forall>x. d = Some x \<longrightarrow> 0 \<le> x \<and> x \<le> rp_max_delay_seconds p)
    (response_delay U parse_date r p n)"
proof -
  have h: "calm X (\<lambda>d. \<forall>x. d = Some x \<longrightarrow> 0 \<le> x \<and> x \<le> rp_max_delay_seconds p) (header_wait p d)"
    if "delay_nonneg (Some d)" for d X
    using p that by (cases d) (auto intro!: calm_bind[OF calm_uniform] calm_ret simp: valid_policy_def delay_nonneg_def)
  show ?thesis unfolding response_delay_def
    using p by (auto intro!: calm_bind[OF retry_after_calm] calm_bind[OF backoff_calm] calm_ret h split: option.split)
qed

text \<open>An answer after which the loop goes on.\<close>

definition retried :: "http_client \<Rightarrow> bool \<Rightarrow> http_request \<Rightarrow> exn + response \<Rightarrow> bool" where
  "retried C flag rq ans = (case ans of
       Inl e \<Rightarrow> is_transport_error e \<and> hr_method rq \<in> IDEMPOTENT_METHODS
     | Inr r \<Rightarrow> (\<exists>why. retry_reason (hc_unicode C) flag r = Inr (Some why)))"

definition answer :: "web \<Rightarrow> http_request \<Rightarrow> nat \<Rightarrow> exn + response" where
  "answer w rq i = wb_server w (wb_sent w @ replicate i rq) rq"

text \<open>What one call does to the world, \<open>k\<close> retries and \<open>ds\<close> the waits, and what it returns.\<close>

definition exchange ::
  "http_client \<Rightarrow> bool \<Rightarrow> http_request \<Rightarrow> nat \<Rightarrow> web \<Rightarrow> (exn + response) \<times> web \<Rightarrow> bool" where
  "exchange C flag rq n w out \<longleftrightarrow> (\<exists>k ds. k < n
     \<and> wb_sent (snd out) = wb_sent w @ replicate (Suc k) rq \<and> wb_slept (snd out) = wb_slept w @ ds
     \<and> wb_server (snd out) = wb_server w \<and> wb_random (snd out) = wb_random w
     \<and> length ds = k \<and> (\<forall>d \<in> set ds. 0 \<le> d \<and> d \<le> rp_max_delay_seconds (hc_policy C))
     \<and> (\<forall>i < k. retried C flag rq (answer w rq i))
     \<and> (fst out = answer w rq k \<or> (\<exists>r e. answer w rq k = Inr r \<and> fst out = Inl e
          \<and> (retry_reason (hc_unicode C) flag r = Inl e \<or> date_failure (hc_parse_date C) e))))"

lemma exchange_once:
  assumes "0 < n" "same_world (w\<lparr>wb_sent := wb_sent w @ [rq]\<rparr>) w'"
    "res = answer w rq 0 \<or> (\<exists>r e. answer w rq 0 = Inr r \<and> res = Inl e
          \<and> (retry_reason (hc_unicode C) flag r = Inl e \<or> date_failure (hc_parse_date C) e))"
  shows "exchange C flag rq n w (res, w')"
  unfolding exchange_def using assms
  by (intro exI[of _ 0] exI[of _ "[]"]) (auto simp: same_world_def)

lemma exchange_again:
  assumes w1: "wb_sent w1 = wb_sent w @ [rq]" "wb_slept w1 = wb_slept w @ [d]"
      "wb_server w1 = wb_server w" "wb_random w1 = wb_random w"
    and d: "0 \<le> d" "d \<le> rp_max_delay_seconds (hc_policy C)" and r: "retried C flag rq (answer w rq 0)"
    and rest: "exchange C flag rq n w1 out"
  shows "exchange C flag rq (Suc n) w out"
proof -
  have a: "answer w1 rq i = answer w rq (Suc i)" for i
    using w1 by (simp add: answer_def)
  from rest obtain k ds where k: "k < n" "wb_sent (snd out) = wb_sent w1 @ replicate (Suc k) rq"
    "wb_slept (snd out) = wb_slept w1 @ ds" "wb_server (snd out) = wb_server w1" "wb_random (snd out) = wb_random w1"
    "length ds = k" "\<forall>d \<in> set ds. 0 \<le> d \<and> d \<le> rp_max_delay_seconds (hc_policy C)"
    "\<forall>i < k. retried C flag rq (answer w rq (Suc i))"
    "fst out = answer w rq (Suc k) \<or> (\<exists>r e. answer w rq (Suc k) = Inr r \<and> fst out = Inl e
          \<and> (retry_reason (hc_unicode C) flag r = Inl e \<or> date_failure (hc_parse_date C) e))"
    unfolding exchange_def a by blast
  have "\<forall>i < Suc k. retried C flag rq (answer w rq i)"
    using r k(8) by (metis Suc_less_eq not0_implies_Suc)
  with k w1 d show ?thesis
    unfolding exchange_def by (intro exI[of _ "Suc k"] exI[of _ "d # ds"]) auto
qed

lemma observe_sleep:
  "\<exists>k. bindS (observe_retry ob why n d) (\<lambda>_. bindS (sleep d) (\<lambda>_. m)) w
     = m (w\<lparr>wb_slept := wb_slept w @ [d], wb_metrics := k\<rparr>)"
proof (cases ob)
  case None
  then show ?thesis
    by (intro exI[of _ "wb_metrics w"]) (simp add: observe_retry_def bindS_def sleep_def)
next
  case (Some f)
  then show ?thesis
    by (intro exI[of _ "f why n d (wb_metrics w)"]) (cases w, simp add: observe_retry_def bindS_def sleep_def)
qed

lemma calmD:
  assumes "calm X Q m" "random_ok w" "m w = (r, w')"
  shows "same_world w w'" "r = Inl e \<Longrightarrow> X e" "r = Inr a \<Longrightarrow> Q a"
  using assms unfolding calm_def by (auto dest: spec[of _ w])

lemma waited_exchange:
  assumes sw: "same_world (w\<lparr>wb_sent := wb_sent w @ [rq]\<rparr>) w1"
    and d: "0 \<le> d" "d \<le> rp_max_delay_seconds (hc_policy C)" and r: "retried C flag rq (answer w rq 0)"
    and rest: "\<And>w'. random_ok w' \<Longrightarrow> exchange C flag rq n w' (m w')" and w: "random_ok w"
  shows "exchange C flag rq (Suc n) w (bindS (observe_retry ob why a d) (\<lambda>_. bindS (sleep d) (\<lambda>_. m)) w1)"
proof -
  obtain k where k: "bindS (observe_retry ob why a d) (\<lambda>_. bindS (sleep d) (\<lambda>_. m)) w1
     = m (w1\<lparr>wb_slept := wb_slept w1 @ [d], wb_metrics := k\<rparr>)" using observe_sleep by blast
  let ?w = "w1\<lparr>wb_slept := wb_slept w1 @ [d], wb_metrics := k\<rparr>"
  have "random_ok ?w" using w sw by (auto simp: random_ok_def same_world_def)
  then have "exchange C flag rq n ?w (m ?w)" by (rule rest)
  then show ?thesis unfolding k
    using sw d r by (intro exchange_again[of ?w w rq d C flag n]) (auto simp: same_world_def)
qed

lemma attempt_exchange:
  assumes p: "valid_policy (hc_policy C)" and w: "random_ok w"
    and last: "attempt = rp_max_attempts (hc_policy C) \<longleftrightarrow> rest = []"
    and IH: "\<And>w. rest \<noteq> [] \<Longrightarrow> random_ok w \<Longrightarrow> exchange C flag rq (length rest) w (retry_attempts C flag rq rest w)"
  shows "exchange C flag rq (length (attempt # rest)) w (retry_attempts C flag rq (attempt # rest) w)"
proof -
  let ?m = "retry_attempts C flag rq rest" and ?w1 = "w\<lparr>wb_sent := wb_sent w @ [rq]\<rparr>"
  let ?n = "length (attempt # rest)"
  have ok1: "random_ok ?w1" using w by (simp add: random_ok_def)
  have sw1: "same_world ?w1 ?w1" by (simp add: same_world_def)
  show ?thesis
  proof (cases "answer w rq 0")
    case (Inl e)
    then have snd: "send rq w = (Inl e, ?w1)" by (simp add: send_def answer_def)
    show ?thesis
    proof (cases "\<not> is_transport_error e \<or> rest = [] \<or> hr_method rq \<notin> IDEMPOTENT_METHODS")
      case True
      with snd last have "retry_attempts C flag rq (attempt # rest) w = (Inl e, ?w1)"
        by (simp add: Let_def tryElseS_def)
      then show ?thesis using exchange_once[OF _ sw1, of ?n "Inl e"] Inl by simp
    next
      case False
      obtain res w2 where b: "backoff_delay (hc_policy C) attempt ?w1 = (res, w2)" by (cases "backoff_delay (hc_policy C) attempt ?w1")
      from calmD[OF backoff_calm[OF p, of "\<lambda>_. False" attempt] ok1 b] obtain d
        where d: "same_world ?w1 w2" "res = Inr d" "0 \<le> d" "d \<le> rp_max_delay_seconds (hc_policy C)" by (cases res) auto
      have "retry_attempts C flag rq (attempt # rest) w =
          bindS (observe_retry (hc_on_retry C) (u ''transport'') attempt d) (\<lambda>_. bindS (sleep d) (\<lambda>_. ?m)) w2"
        using False last snd b d(2) by (simp add: Let_def tryElseS_def bindS_def)
      with waited_exchange[OF d(1,3,4), of flag "length rest" ?m "hc_on_retry C" "u ''transport''" attempt]
        False Inl IH w show ?thesis by (simp add: retried_def)
    qed
  next
    case (Inr r)
    then have snd: "send rq w = (Inr r, ?w1)" by (simp add: send_def answer_def)
    show ?thesis
    proof (cases "\<exists>why. retry_reason (hc_unicode C) flag r = Inr (Some why) \<and> rest \<noteq> []")
      case False
      then have "retry_attempts C flag rq (attempt # rest) w = (Inr r, ?w1)
          \<or> (\<exists>e. retry_reason (hc_unicode C) flag r = Inl e \<and> retry_attempts C flag rq (attempt # rest) w = (Inl e, ?w1))"
        using snd last by (auto simp: Let_def tryElseS_def bindS_def split: sum.split option.split)
      then show ?thesis using exchange_once[OF _ sw1, of ?n] Inr by auto
    next
      case True
      then obtain why where why: "retry_reason (hc_unicode C) flag r = Inr (Some why)" "rest \<noteq> []" by blast
      let ?d = "response_delay (hc_unicode C) (hc_parse_date C) r (hc_policy C) attempt"
      obtain res w2 where b: "?d ?w1 = (res, w2)" by (cases "?d ?w1")
      note c = calmD[OF response_delay_calm[OF p] ok1 b]
      show ?thesis
      proof (cases "\<exists>d. res = Inr (Some d)")
        case True
        then obtain d where d: "res = Inr (Some d)" by blast
        have "retry_attempts C flag rq (attempt # rest) w =
            bindS (observe_retry (hc_on_retry C) why attempt d) (\<lambda>_. bindS (sleep d) (\<lambda>_. ?m)) w2"
          using why last snd b d by (simp add: Let_def tryElseS_def bindS_def)
        with waited_exchange[OF c(1), of d C flag "length rest" ?m "hc_on_retry C" why attempt] c(3)[OF d]
          why Inr IH w show ?thesis by (simp add: retried_def)
      next
        case False
        then have "retry_attempts C flag rq (attempt # rest) w = (Inr r, w2)
          \<or> (\<exists>e. res = Inl e \<and> retry_attempts C flag rq (attempt # rest) w = (Inl e, w2))"
          using why last snd b by (auto simp: Let_def tryElseS_def bindS_def split: sum.split option.split)
        then show ?thesis using exchange_once[OF _ c(1), of ?n] c(2) Inr by auto
      qed
    qed
  qed
qed

lemma retry_attempts_exchange:
  assumes p: "valid_policy (hc_policy C)" and "random_ok w" "xs \<noteq> []" "last xs = rp_max_attempts (hc_policy C)"
    "distinct xs"
  shows "exchange C flag rq (length xs) w (retry_attempts C flag rq xs w)"
  using assms(2-)
proof (induction xs arbitrary: w)
  case (Cons a xs)
  have "a = rp_max_attempts (hc_policy C) \<longleftrightarrow> xs = []"
    using Cons.prems by (cases xs rule: rev_cases) auto
  then show ?case
    using Cons by (intro attempt_exchange p) auto
qed simp

text \<open>C30: a call sends the same request at least once and at most \<open>max_attempts\<close> times, waits
  between the tries only, each wait being between zero and the maximal delay, and repeats the request
  only after a retryable answer: a transport error of an idempotent method, or a transient or
  rate-limit response. What it returns is the answer to the last request, or an exception of the
  examination of that answer.\<close>

theorem request_with_retry_bounded:
  assumes "check_policy (hc_policy C) = Inr q" and "random_ok w"
  shows "exchange C flag (rq\<lparr>hr_method := uc_upper (hc_unicode C) (hr_method rq)\<rparr>)
    (nat (rp_max_attempts (hc_policy C))) w (request_with_retry C flag rq w)"
proof -
  have p: "valid_policy (hc_policy C)" using check_policy_valid[OF assms(1)] by simp
  then have n: "1 \<le> rp_max_attempts (hc_policy C)" by (simp add: valid_policy_def)
  let ?xs = "map int [1..<nat (rp_max_attempts (hc_policy C)) + 1]"
  have "?xs \<noteq> []" "last ?xs = rp_max_attempts (hc_policy C)" "distinct ?xs"
    using n by (auto simp: last_map distinct_map)
  from retry_attempts_exchange[OF p assms(2) this] show ?thesis
    unfolding request_with_retry_def by (simp del: upt_Suc)
qed

text \<open>A concrete world: every request is answered by the same response.\<close>

definition constant_web :: "exn + response \<Rightarrow> web" where
  "constant_web a = \<lparr>wb_server = (\<lambda>_ _. a), wb_sent = [], wb_slept = [], wb_clock = (\<lambda>_. 0), wb_reads = 0,
     wb_random = (\<lambda>_. 1 / 2), wb_draws = 0, wb_metrics = new_metrics\<rparr>"

definition plain_client :: http_client where
  "plain_client = \<lparr>hc_unicode = ascii, hc_parse_date = (\<lambda>_. Inl (ValueError [])), hc_policy = default_policy,
     hc_on_retry = None\<rparr>"

definition json_response :: "int \<Rightarrow> json \<Rightarrow> response" where
  "json_response status body = \<lparr>re_status_code = status, re_headers = [], re_content = [], re_text = [], re_json = Inr body\<rparr>"

definition get_request :: "pystr \<Rightarrow> http_request" where
  "get_request url = \<lparr>hr_method = u ''get'', hr_url = url, hr_headers = [], hr_params = [], hr_data = [],
     hr_json = None, hr_follow_redirects = False\<rparr>"

theorem request_with_retry_bounded_witness:
  "wb_slept (snd (request_with_retry plain_client False (get_request (u ''x'')) (constant_web (Inr (json_response 503 JNull)))))
     = [9 / 8, 9 / 4]
   \<and> exchange plain_client False ((get_request (u ''x''))\<lparr>hr_method := uc_upper ascii (u ''get'')\<rparr>) 3
       (constant_web (Inr (json_response 503 JNull)))
       (request_with_retry plain_client False (get_request (u ''x'')) (constant_web (Inr (json_response 503 JNull))))"
proof
  show "wb_slept (snd (request_with_retry plain_client False (get_request (u ''x'')) (constant_web (Inr (json_response 503 JNull)))))
     = [9 / 8, 9 / 4]" by code_simp
  have "check_policy (hc_policy plain_client) = Inr default_policy" by code_simp
  moreover have "random_ok (constant_web (Inr (json_response 503 JNull)))" by (simp add: random_ok_def constant_web_def)
  ultimately show "exchange plain_client False ((get_request (u ''x''))\<lparr>hr_method := uc_upper ascii (u ''get'')\<rparr>) 3
       (constant_web (Inr (json_response 503 JNull)))
       (request_with_retry plain_client False (get_request (u ''x'')) (constant_web (Inr (json_response 503 JNull))))"
    using request_with_retry_bounded[of plain_client default_policy "constant_web (Inr (json_response 503 JNull))" False "get_request (u ''x'')"]
    by (simp add: plain_client_def default_policy_def get_request_def)
qed

text \<open>A rate-limit response whose JSON body carries its error as a text, \<open>{"error": "..."}\<close>, is
  neither retried nor returned: reading the error code from it raises AttributeError out of the call,
  after a single request.\<close>

lemma rate_limit_text_error_crashes:
  assumes "0 < rp_max_attempts (hc_policy C)"
    and "wb_server w (wb_sent w) (rq\<lparr>hr_method := uc_upper (hc_unicode C) (hr_method rq)\<rparr>) = Inr r"
    and "re_status_code r = 429" and "re_json r = Inr (JObj [(u ''error'', JStr m)])" and "m \<noteq> []"
  shows "fst (request_with_retry C flag rq w) = Inl (attribute_error (u ''get''))
    \<and> length (wb_sent (snd (request_with_retry C flag rq w))) = length (wb_sent w) + 1"
proof -
  let ?rq = "rq\<lparr>hr_method := uc_upper (hc_unicode C) (hr_method rq)\<rparr>"
  have "[1..<nat (rp_max_attempts (hc_policy C)) + 1] = 1 # [2..<nat (rp_max_attempts (hc_policy C)) + 1]"
    using assms(1) by (subst upt_conv_Cons) (auto simp: numeral_2_eq_2)
  moreover have "retry_reason (hc_unicode C) flag r = Inl (attribute_error (u ''get''))"
    using assms(3-5)
    by (simp add: retry_reason_def requires_user_action_def TRANSIENT_STATUS_CODES_def dict_get_def j_or_def j_get_def j_get_or_def)
  moreover have "send ?rq w = (Inr r, w\<lparr>wb_sent := wb_sent w @ [?rq]\<rparr>)"
    using assms(2) by (simp add: send_def)
  ultimately have "request_with_retry C flag rq w = (Inl (attribute_error (u ''get'')), w\<lparr>wb_sent := wb_sent w @ [?rq]\<rparr>)"
    unfolding request_with_retry_def by (simp only: list.map retry_attempts.simps Let_def tryElseS_def bindS_def) simp
  then show ?thesis by simp
qed

section \<open>Which requests a program sends\<close>

text \<open>\<open>extends P w w'\<close>: the same server has been sent more requests, all of which satisfy \<open>P\<close>. A
  program \<open>sends P\<close> if its runs extend the world so. The rules follow the structure of programs.\<close>

definition extends :: "(http_request \<Rightarrow> bool) \<Rightarrow> web \<Rightarrow> web \<Rightarrow> bool" where
  "extends P w w' \<longleftrightarrow> wb_server w' = wb_server w \<and> (\<exists>new. wb_sent w' = wb_sent w @ new \<and> list_all P new)"

definition sends :: "(http_request \<Rightarrow> bool) \<Rightarrow> (web, 'a) prog \<Rightarrow> bool" where
  "sends P m \<longleftrightarrow> (\<forall>w. extends P w (snd (m w)))"

named_theorems sends_intros

lemma extends_trans: "extends P a b \<Longrightarrow> extends P b c \<Longrightarrow> extends P a c"
  unfolding extends_def by (auto simp: list_all_append)

lemma extends_quiet: "wb_sent w' = wb_sent w \<Longrightarrow> wb_server w' = wb_server w \<Longrightarrow> extends P w w'"
  by (simp add: extends_def)

lemma sends_quiet: "(\<And>w. wb_sent (snd (m w)) = wb_sent w \<and> wb_server (snd (m w)) = wb_server w) \<Longrightarrow> sends P m"
  by (simp add: sends_def extends_def)

lemma sendsD: "sends P m \<Longrightarrow> m w = (r, w') \<Longrightarrow> extends P w w'"
  unfolding sends_def by (metis snd_conv)

lemma sends_ret [sends_intros]: "sends P (retS a)"
  by (simp add: sends_quiet)

lemma sends_raise [sends_intros]: "sends P (raiseS e)"
  by (simp add: sends_quiet)

lemma sends_lift [sends_intros]: "sends P (liftS r)"
  by (simp add: sends_quiet)

lemma sends_send [sends_intros]: "P rq \<Longrightarrow> sends P (send rq)"
  by (simp add: sends_def extends_def send_def)

lemma sends_bind_result:
  assumes m: "sends P m" and f: "\<And>w a w'. m w = (Inr a, w') \<Longrightarrow> sends P (f a)"
  shows "sends P (bindS m f)"
  unfolding sends_def
proof
  fix w
  obtain r w1 where r: "m w = (r, w1)" by (cases "m w")
  then have e: "extends P w w1" by (rule sendsD[OF m])
  show "extends P w (snd (bindS m f w))"
  proof (cases r)
    case (Inr a)
    with f[of w a w1] r have "extends P w1 (snd (f a w1))" by (simp add: sends_def)
    with Inr r e show ?thesis by (auto simp: bindS_def intro: extends_trans)
  qed (use r e in \<open>simp add: bindS_def\<close>)
qed

lemma sends_bind [sends_intros]: "sends P m \<Longrightarrow> (\<And>a. sends P (f a)) \<Longrightarrow> sends P (bindS m f)"
  by (rule sends_bind_result)

lemma sends_try_else [sends_intros]:
  assumes m: "sends P m" and h: "\<And>e. sends P (h e)" and f: "\<And>a. sends P (f a)"
  shows "sends P (tryElseS m h f)"
  unfolding sends_def
proof
  fix w
  obtain r w1 where r: "m w = (r, w1)" by (cases "m w")
  then have e: "extends P w w1" by (rule sendsD[OF m])
  have "extends P w1 (snd (h x w1))" "extends P w1 (snd (f a w1))" for x a using h f by (simp_all add: sends_def)
  with r e show "extends P w (snd (tryElseS m h f w))"
    by (cases r) (auto simp: tryElseS_def intro: extends_trans)
qed

lemma tryS_eq: "tryS m h = tryElseS m h retS"
  by (rule ext) (auto simp: tryS_def tryElseS_def split: prod.split sum.split)

lemma sends_try [sends_intros]: "sends P m \<Longrightarrow> (\<And>e. sends P (h e)) \<Longrightarrow> sends P (tryS m h)"
  unfolding tryS_eq by (intro sends_intros)

lemma sends_mapS [sends_intros]: "(\<And>x. x \<in> set xs \<Longrightarrow> sends P (f x)) \<Longrightarrow> sends P (mapS f xs)"
  by (induction xs) (auto intro!: sends_intros)

lemma sends_world [sends_intros]:
  "sends P (sleep d)" "sends P read_time" "sends P (random_uniform a b)" "sends P (observe_retry ob why n d)"
  by (auto intro!: sends_quiet simp: sleep_def read_time_def random_uniform_def observe_retry_def split: option.split)

lemma sends_delay [sends_intros]: "sends P (backoff_delay p n)" "sends P (header_wait p x)"
    "sends P (rate_limit_reset_delay U r)" "sends P (retry_after_date parse v)"
  by (cases x; auto intro!: sends_intros simp: backoff_delay_def Let_def rate_limit_reset_delay_def
      retry_after_date_def split: option.split sum.split)+

lemma sends_response_delay [sends_intros]: "sends P (response_delay U parse r p n)"
  by (auto intro!: sends_intros simp: response_delay_def retry_after_delay_def split: option.split sum.split)

lemma sends_retry_attempts: "P rq \<Longrightarrow> sends P (retry_attempts C flag rq xs)"
  by (induction xs) (auto intro!: sends_intros simp: Let_def split: option.split)

lemma sends_request [sends_intros]:
  "P (rq\<lparr>hr_method := uc_upper (hc_unicode C) (hr_method rq)\<rparr>) \<Longrightarrow> sends P (request_with_retry C flag rq)"
  by (simp add: request_with_retry_def sends_retry_attempts)

lemma sends_weaken: "sends P m \<Longrightarrow> (\<And>rq. P rq \<Longrightarrow> Q rq) \<Longrightarrow> sends Q m"
  unfolding sends_def extends_def by (metis (mono_tags, lifting) list.pred_mono_strong)

end
