(* ===== verification/PyCodec.thy ===== *)
theory PyCodec
  imports PyText
begin

text \<open>
  The encodings of the standard library that the program uses: UTF-8 in both directions, strict and
  with replacement characters; percent encoding of query strings; and base64 with the URL-safe
  alphabet. Byte strings are lists of naturals below 256. The errors of these functions,
  UnicodeDecodeError and \<open>binascii.Error\<close>, are subclasses of ValueError.
\<close>

section \<open>UTF-8\<close>

definition is_surrogate :: "nat \<Rightarrow> bool" where
  "is_surrogate c \<longleftrightarrow> 55296 \<le> c \<and> c \<le> 57343"

definition is_scalar :: "nat \<Rightarrow> bool" where
  "is_scalar c \<longleftrightarrow> c \<le> 1114111 \<and> \<not> is_surrogate c"

definition utf8_char :: "nat \<Rightarrow> nat list" where
  "utf8_char c =
     (if c < 128 then [c]
      else if c < 2048 then [192 + c div 64, 128 + c mod 64]
      else if c < 65536 then [224 + c div 4096, 128 + c div 64 mod 64, 128 + c mod 64]
      else [240 + c div 262144, 128 + c div 4096 mod 64, 128 + c div 64 mod 64, 128 + c mod 64])"

text \<open>No string of Python holds a code point beyond the last, so only surrogates raise.\<close>

definition utf8_encode :: "pystr \<Rightarrow> exn + nat list" where
  "utf8_encode s = (if \<exists>c \<in> set s. \<not> is_scalar c then Inl (ValueError (u ''UnicodeEncodeError''))
     else Inr (concat (map utf8_char s)))"

text \<open>A lead byte gives the number of continuation bytes, the range of the first of them, and the
  bits it carries. \<open>utf8_tail\<close> reads continuation bytes and counts those that fit.\<close>

definition utf8_lead :: "nat \<Rightarrow> (nat \<times> nat \<times> nat \<times> nat) option" where
  "utf8_lead b =
     (if b < 128 then Some (0, 0, 0, b)
      else if b < 194 then None
      else if b < 224 then Some (1, 128, 191, b - 192)
      else if b < 240 then Some (2, (if b = 224 then 160 else 128), (if b = 237 then 159 else 191), b - 224)
      else if b < 245 then Some (3, (if b = 240 then 144 else 128), (if b = 244 then 143 else 191), b - 240)
      else None)"

fun utf8_tail :: "nat \<Rightarrow> nat \<Rightarrow> nat \<Rightarrow> nat \<Rightarrow> nat list \<Rightarrow> nat option \<times> nat" where
  "utf8_tail n lo hi acc bs = (if n = 0 then (Some acc, 0)
     else (case bs of
         [] \<Rightarrow> (None, 0)
       | b # bs' \<Rightarrow> if lo \<le> b \<and> b \<le> hi
           then (let (r, k) = utf8_tail (n - 1) 128 191 (acc * 64 + (b - 128)) bs' in (r, Suc k))
           else (None, 0)))"

declare utf8_tail.simps [simp del]

lemma utf8_tail_zero [simp]: "utf8_tail 0 lo hi acc bs = (Some acc, 0)"
  by (simp add: utf8_tail.simps)

definition utf8_step :: "nat \<Rightarrow> nat list \<Rightarrow> nat option \<times> nat" where
  "utf8_step b bs = (case utf8_lead b of None \<Rightarrow> (None, 0) | Some (n, lo, hi, acc) \<Rightarrow> utf8_tail n lo hi acc bs)"

text \<open>The characters of a byte string, \<open>None\<close> for each maximal ill-formed part.\<close>

function utf8_units :: "nat list \<Rightarrow> nat option list" where
  "utf8_units [] = []"
| "utf8_units (b # bs) = (case utf8_step b bs of (r, k) \<Rightarrow> r # utf8_units (drop k bs))"
  by pat_completeness auto
termination
  by (relation "measure length") auto

declare utf8_units.simps(2) [simp del]

definition utf8_decode :: "nat list \<Rightarrow> exn + pystr" where
  "utf8_decode bs = (let us = utf8_units bs
     in if None \<in> set us then Inl (ValueError (u ''UnicodeDecodeError'')) else Inr (map the us))"

definition utf8_decode_replace :: "nat list \<Rightarrow> pystr" where
  "utf8_decode_replace bs = map (\<lambda>r. case r of None \<Rightarrow> 65533 | Some c \<Rightarrow> c) (utf8_units bs)"

lemma utf8_tail_step:
  "0 < n \<Longrightarrow> lo \<le> b \<Longrightarrow> b \<le> hi \<Longrightarrow>
   utf8_tail n lo hi acc (b # bs) = (case utf8_tail (n - 1) 128 191 (acc * 64 + (b - 128)) bs of (r, k) \<Rightarrow> (r, Suc k))"
  by (simp add: utf8_tail.simps[of n])

lemma utf8_units_step:
  "utf8_lead b = Some (n, lo, hi, acc) \<Longrightarrow> utf8_tail n lo hi acc bs = (r, k) \<Longrightarrow>
   utf8_units (b # bs) = r # utf8_units (drop k bs)"
  by (simp add: utf8_units.simps utf8_step_def)

lemma utf8_units_char:
  assumes "is_scalar c"
  shows "utf8_units (utf8_char c @ bs) = Some c # utf8_units bs"
proof -
  define d e f where def: "d = c div 64" "e = d div 64" "f = e div 64"
  have q: "c div 4096 = e" "c div 262144 = f" "c div 64 = d" by (simp_all add: def div_mult2_eq[symmetric])
  have m: "c mod 64 < 64" "d mod 64 < 64" "e mod 64 < 64" by simp_all
  have c: "d * 64 + c mod 64 = c" "e * 64 + d mod 64 = d" "f * 64 + e mod 64 = e" unfolding def by simp_all
  consider "c < 128" | "128 \<le> c" "c < 2048" | "2048 \<le> c" "c < 65536" | "65536 \<le> c" "c \<le> 1114111"
    using assms unfolding is_scalar_def by linarith
  then show ?thesis
  proof cases
    case 1
    then show ?thesis by (simp add: utf8_char_def utf8_units.simps utf8_step_def utf8_lead_def)
  next
    case 2
    have b: "2 \<le> d" "d < 32" using 2 c(1) m(1) by linarith+
    have "utf8_units ((192 + d) # (128 + c mod 64) # bs) = Some c # utf8_units (drop 1 ((128 + c mod 64) # bs))"
      using b m c by (intro utf8_units_step[of _ 1 128 191 d]) (auto simp: utf8_lead_def utf8_tail_step)
    with 2 q show ?thesis by (simp add: utf8_char_def)
  next
    case 3
    have b: "e < 16" using 3 c m by linarith
    have r: "e = 0 \<Longrightarrow> 32 \<le> d mod 64" "e = 13 \<Longrightarrow> d mod 64 < 32"
      using 3 c m assms unfolding is_scalar_def is_surrogate_def by linarith+
    have "utf8_units ((224 + e) # (128 + d mod 64) # (128 + c mod 64) # bs)
        = Some c # utf8_units (drop 2 ((128 + d mod 64) # (128 + c mod 64) # bs))"
      using b m c r
      by (intro utf8_units_step[of _ 2 "if e = 0 then 160 else 128" "if e = 13 then 159 else 191" e])
        (auto simp: utf8_lead_def utf8_tail_step numeral_2_eq_2)
    with 3 q show ?thesis by (simp add: utf8_char_def)
  next
    case 4
    have b: "f < 5" using 4 c m by linarith
    have r: "f = 0 \<Longrightarrow> 16 \<le> e mod 64" "f = 4 \<Longrightarrow> e mod 64 < 16"
      using 4 c m by linarith+
    have "utf8_units ((240 + f) # (128 + e mod 64) # (128 + d mod 64) # (128 + c mod 64) # bs)
        = Some c # utf8_units (drop 3 ((128 + e mod 64) # (128 + d mod 64) # (128 + c mod 64) # bs))"
      using b m c r
      by (intro utf8_units_step[of _ 3 "if f = 0 then 144 else 128" "if f = 4 then 143 else 191" f])
        (auto simp: utf8_lead_def utf8_tail_step numeral_3_eq_3)
    with 4 q show ?thesis by (simp add: utf8_char_def)
  qed
qed

lemma utf8_roundtrip:
  assumes "\<forall>c \<in> set s. is_scalar c"
  shows "utf8_encode s = Inr (concat (map utf8_char s)) \<and> utf8_decode (concat (map utf8_char s)) = Inr s"
proof -
  have "utf8_units (concat (map utf8_char s)) = map Some s"
    using assms by (induction s) (auto simp: utf8_units_char)
  then show ?thesis
    using assms by (auto simp: utf8_decode_def utf8_encode_def is_scalar_def comp_def)
qed

section \<open>Percent encoding\<close>

definition hex_digit :: "nat \<Rightarrow> nat" where
  "hex_digit n = (if n < 10 then 48 + n else 55 + n)"

definition quote_byte :: "nat \<Rightarrow> pystr" where
  "quote_byte b = (if ascii_word b \<or> b = 46 \<or> b = 45 \<or> b = 126 then [b]
     else if b = 32 then [43] else [37, hex_digit (b div 16), hex_digit (b mod 16)])"

definition quote_plus :: "pystr \<Rightarrow> exn + pystr" where
  "quote_plus s = bindE (utf8_encode s) (\<lambda>bs. Inr (concat (map quote_byte bs)))"

definition urlencode :: "(pystr \<times> pystr) list \<Rightarrow> exn + pystr" where
  "urlencode kvs = bindE (mapE (\<lambda>(k, v). bindE (quote_plus k) (\<lambda>k'. bindE (quote_plus v) (\<lambda>v'. Inr (k' @ 61 # v')))) kvs)
     (\<lambda>parts. Inr (join (u ''&'') parts))"

section \<open>Base64\<close>

definition b64_char :: "nat \<Rightarrow> nat" where
  "b64_char i = (if i < 26 then 65 + i else if i < 52 then 71 + i else if i < 62 then i - 4
     else if i = 62 then 45 else 95)"

definition b64_value :: "nat \<Rightarrow> nat option" where
  "b64_value c = (if 65 \<le> c \<and> c \<le> 90 then Some (c - 65) else if 97 \<le> c \<and> c \<le> 122 then Some (c - 71)
     else if 48 \<le> c \<and> c \<le> 57 then Some (c + 4) else if c = 43 \<or> c = 45 then Some 62
     else if c = 47 \<or> c = 95 then Some 63 else None)"

fun b64_sextets :: "nat list \<Rightarrow> nat list" where
  "b64_sextets [] = []"
| "b64_sextets [a] = [a div 4, a mod 4 * 16]"
| "b64_sextets [a, b] = [a div 4, a mod 4 * 16 + b div 16, b mod 16 * 4]"
| "b64_sextets (a # b # c # bs) =
     a div 4 # (a mod 4 * 16 + b div 16) # (b mod 16 * 4 + c div 64) # c mod 64 # b64_sextets bs"

fun b64_bytes :: "nat list \<Rightarrow> nat list" where
  "b64_bytes (p # q # r # s # xs) = (p * 4 + q div 16) # (q mod 16 * 16 + r div 4) # (r mod 4 * 64 + s) # b64_bytes xs"
| "b64_bytes [p, q, r] = [p * 4 + q div 16, q mod 16 * 16 + r div 4]"
| "b64_bytes [p, q] = [p * 4 + q div 16]"
| "b64_bytes _ = []"

definition b64_padding :: "nat \<Rightarrow> pystr" where
  "b64_padding n = replicate ((4 - n mod 4) mod 4) 61"

definition urlsafe_b64encode :: "nat list \<Rightarrow> pystr" where
  "urlsafe_b64encode bs = (let xs = map b64_char (b64_sextets bs) in xs @ b64_padding (length xs))"

text \<open>\<open>b64decode(s, altchars=b"-_", validate=True)\<close>.\<close>

definition b64decode :: "pystr \<Rightarrow> exn + nat list" where
  "b64decode s = (let body = rstrip_if (\<lambda>c. c = 61) s
     in if length body mod 4 = 1 \<or> s \<noteq> body @ b64_padding (length body) \<or> (\<exists>c \<in> set body. b64_value c = None)
        then Inl (ValueError (u ''binascii.Error'')) else Inr (b64_bytes (map (\<lambda>c. the (b64_value c)) body)))"

lemma b64_value_char [simp]: "i < 64 \<Longrightarrow> b64_value (b64_char i) = Some i"
  by (auto simp: b64_char_def b64_value_def)

lemma b64_char_not_pad: "i < 64 \<Longrightarrow> b64_char i \<noteq> 61"
  by (auto simp: b64_char_def)

lemma b64_sextets_range: "\<forall>b \<in> set bs. b < 256 \<Longrightarrow> i \<in> set (b64_sextets bs) \<Longrightarrow> i < 64"
  by (induction bs rule: b64_sextets.induct) (auto simp: less_mult_imp_div_less)

lemma b64_sextets_length: "length (b64_sextets bs) mod 4 \<noteq> 1"
  by (induction bs rule: b64_sextets.induct) auto

lemma b64_bytes_sextets: "\<forall>b \<in> set bs. b < 256 \<Longrightarrow> b64_bytes (b64_sextets bs) = bs"
proof (induction bs rule: b64_sextets.induct)
  case (4 a b c bs)
  have "a div 4 * 4 + (a mod 4 * 16 + b div 16) div 16 = a" "(a mod 4 * 16 + b div 16) mod 16 * 16 + (b mod 16 * 4 + c div 64) div 4 = b"
    "(b mod 16 * 4 + c div 64) mod 4 * 64 + c mod 64 = c"
    using 4(2) by (auto simp: less_mult_imp_div_less)
  with 4 show ?case by simp
qed (auto simp: less_mult_imp_div_less)

text \<open>The URL-safe form without its padding decodes to the same bytes when the padding is restored.\<close>

lemma b64_roundtrip:
  assumes "\<forall>b \<in> set bs. b < 256"
  shows "let t = rstrip_if (\<lambda>c. c = 61) (urlsafe_b64encode bs) in b64decode (t @ b64_padding (length t)) = Inr bs"
proof -
  let ?t = "map b64_char (b64_sextets bs)"
  have c: "b64_char i \<noteq> 61" if "i \<in> set (b64_sextets bs)" for i
    using b64_char_not_pad b64_sextets_range[OF assms that] by blast
  have t: "rstrip_if (\<lambda>c. c = 61) (?t @ replicate n 61) = ?t" for n
  proof -
    have "dropWhile (\<lambda>c. c = 61) (replicate n 61 @ rev ?t) = dropWhile (\<lambda>c. c = 61) (rev ?t)" by (induction n) auto
    also have "\<dots> = rev ?t" using c by (cases "rev (b64_sextets bs)") (auto simp: rev_map dropWhile_eq_self_iff)
    finally show ?thesis by (simp add: rstrip_if_def)
  qed
  have v: "map (\<lambda>c. the (b64_value c)) ?t = b64_sextets bs"
    using b64_sextets_range[OF assms] by (auto simp: comp_def intro!: map_idI)
  have n: "b64_value c \<noteq> None" if "c \<in> set ?t" for c
    using that b64_sextets_range[OF assms] by auto
  have "b64decode (?t @ b64_padding (length ?t)) = Inr (b64_bytes (map (\<lambda>c. the (b64_value c)) ?t))"
    using n b64_sextets_length[of bs] unfolding b64decode_def b64_padding_def t Let_def by auto
  moreover have "rstrip_if (\<lambda>c. c = 61) (urlsafe_b64encode bs) = ?t"
    unfolding urlsafe_b64encode_def b64_padding_def Let_def by (rule t)
  ultimately show ?thesis using v b64_bytes_sextets[OF assms] by (simp add: Let_def)
qed

end
