(* ===== verification/GitHub.thy ===== *)
theory GitHub
  imports Http_Retry PyCodec
begin

text \<open>
  The GitHub client, \<open>src/pipelens/github.py\<close>. Every method is a program over the world of
  \<open>Http_Retry\<close> that sends its requests through the retrying client and reads the decoded answers
  with Python's operations on them, so that an answer of an unexpected shape is the exception the
  code raises. The libraries the client calls (the JWT encoder, the zip reader, the text form of
  floats and containers, pydantic's conversion to int) are the record \<open>github_lib\<close>. The loops over
  pages that have no bound in the code take theirs from \<open>gh_fuel\<close>; running out of it is the
  exception \<open>pages_exhausted\<close>, which the code never raises.
\<close>

section \<open>Data\<close>

definition MAX_PATCH_TARGET_BYTES :: nat where
  "MAX_PATCH_TARGET_BYTES = 512000"

record JobLog =
  jl_job_name :: pystr
  jl_text :: pystr

text \<open>The fields of \<open>FailedJob\<close> are not validated, so those copied from the answer may be of any type.\<close>

record FailedJob =
  jb_job_id :: json
  jb_name :: json
  jb_failed_steps :: "json list"
  jb_runner_labels :: "pystr list"
  jb_workflow_name :: json
  jb_head_branch :: json

record zip_member =
  zm_filename :: pystr
  zm_is_dir :: bool
  zm_file_size :: int
  zm_read :: "exn + nat list"

record github_lib =
  gl_jwt_encode :: "(pystr \<times> json) list \<Rightarrow> pystr \<Rightarrow> exn + pystr"
  gl_unzip :: "nat list \<Rightarrow> exn + zip_member list"
  gl_repr :: "json \<Rightarrow> pystr"
  gl_to_int :: "json \<Rightarrow> int option"

record gh_client =
  gh_app_id :: "pystr option"
  gh_private_key :: "pystr option"
  gh_max_log_bytes :: int
  gh_http :: http_client
  gh_lib :: github_lib
  gh_fuel :: nat

definition github_client_new ::
  "github_lib \<Rightarrow> nat \<Rightarrow> unicode \<Rightarrow> (pystr \<Rightarrow> exn + datetime) \<Rightarrow> pystr option \<Rightarrow> pystr option \<Rightarrow> int
     \<Rightarrow> RetryPolicy option \<Rightarrow> retry_observer option \<Rightarrow> gh_client" where
  "github_client_new L fuel U parse_date app_id private_key max_log_bytes policy on_retry =
     \<lparr>gh_app_id = app_id,
      gh_private_key = (case private_key of None \<Rightarrow> None
        | Some k \<Rightarrow> if k = [] then None else Some (replace [92, 110] nl k)),
      gh_max_log_bytes = max_log_bytes,
      gh_http = \<lparr>hc_unicode = U, hc_parse_date = parse_date,
        hc_policy = (case policy of None \<Rightarrow> default_policy | Some p \<Rightarrow> p), hc_on_retry = on_retry\<rparr>,
      gh_lib = L, gh_fuel = fuel\<rparr>"

definition api_url :: pystr where
  "api_url = u ''https://api.github.com''"

definition web_url :: pystr where
  "web_url = u ''https://github.com''"

abbreviation gh_str :: "gh_client \<Rightarrow> json \<Rightarrow> pystr" where
  "gh_str C \<equiv> j_text (gl_repr (gh_lib C))"

abbreviation gh_casefold :: "gh_client \<Rightarrow> pystr \<Rightarrow> pystr" where
  "gh_casefold C \<equiv> uc_casefold (hc_unicode (gh_http C))"

text \<open>Running code without effects and going on with its value.\<close>

abbreviation bindL :: "exn + 'a \<Rightarrow> ('a \<Rightarrow> ('s, 'b) prog) \<Rightarrow> ('s, 'b) prog" where
  "bindL r f \<equiv> bindS (liftS r) f"

section \<open>Requests\<close>

definition gh_headers :: "gh_client \<Rightarrow> json \<Rightarrow> (pystr \<times> pystr) list" where
  "gh_headers C token = [(u ''Accept'', u ''application/vnd.github+json''),
     (u ''Authorization'', u ''Bearer '' @ gh_str C token), (u ''X-GitHub-Api-Version'', u ''2022-11-28'')]"

definition raw_headers :: "(pystr \<times> pystr) list \<Rightarrow> (pystr \<times> pystr) list" where
  "raw_headers hs = dict_put (u ''Accept'') (u ''application/vnd.github.raw+json'') hs"

definition gh_request :: "gh_client \<Rightarrow> http_request \<Rightarrow> (web, response) prog" where
  "gh_request C rq = request_with_retry (gh_http C) True rq"

definition plain_request :: "string \<Rightarrow> pystr \<Rightarrow> (pystr \<times> pystr) list \<Rightarrow> (pystr \<times> pystr) list \<Rightarrow> http_request" where
  "plain_request method url headers params = \<lparr>hr_method = u method, hr_url = url, hr_headers = headers,
     hr_params = params, hr_data = [], hr_json = None, hr_follow_redirects = False\<rparr>"

text \<open>A request whose answer must be a success, and its decoded body.\<close>

definition fetch :: "gh_client \<Rightarrow> http_request \<Rightarrow> (web, response) prog" where
  "fetch C rq = bindS (gh_request C rq) (\<lambda>r. bindL (raise_for_status r) (\<lambda>_. retS r))"

definition fetch_json :: "gh_client \<Rightarrow> http_request \<Rightarrow> (web, json) prog" where
  "fetch_json C rq = bindS (fetch C rq) (\<lambda>r. liftS (re_json r))"

definition repo_url :: "pystr \<Rightarrow> pystr \<Rightarrow> pystr" where
  "repo_url repository rest = api_url @ u ''/repos/'' @ repository @ rest"

section \<open>Signing in\<close>

definition authorization_url :: "pystr \<Rightarrow> pystr \<Rightarrow> pystr \<Rightarrow> exn + pystr" where
  "authorization_url client_id redirect_uri state =
     bindE (urlencode [(u ''client_id'', client_id), (u ''redirect_uri'', redirect_uri), (u ''state'', state)])
       (\<lambda>query. Inr (web_url @ u ''/login/oauth/authorize?'' @ query))"

definition exchange_user_code :: "gh_client \<Rightarrow> pystr \<Rightarrow> pystr \<Rightarrow> pystr \<Rightarrow> pystr \<Rightarrow> (web, json) prog" where
  "exchange_user_code C client_id client_secret code redirect_uri =
     bindS (fetch_json C \<lparr>hr_method = u ''POST'', hr_url = web_url @ u ''/login/oauth/access_token'',
         hr_headers = [(u ''Accept'', u ''application/json'')], hr_params = [],
         hr_data = [(u ''client_id'', client_id), (u ''client_secret'', client_secret), (u ''code'', code),
           (u ''redirect_uri'', redirect_uri)], hr_json = None, hr_follow_redirects = False\<rparr>)
       (\<lambda>payload. bindL (j_contains (u ''access_token'') payload)
         (\<lambda>present. if present then retS payload
            else bindL (j_get_or ''error'' (JStr (u ''missing access token'')) payload)
              (\<lambda>err. raiseS (GitHubConfigurationError (u ''GitHub OAuth exchange failed: '' @ gh_str C err)))))"

definition authenticated_user :: "gh_client \<Rightarrow> json \<Rightarrow> (web, json) prog" where
  "authenticated_user C token = fetch_json C (plain_request ''GET'' (api_url @ u ''/user'') (gh_headers C token) [])"

definition pages_exhausted :: exn where
  "pages_exhausted = OtherError (u ''page fuel exhausted'')"

fun page_loop ::
  "gh_client \<Rightarrow> (int \<Rightarrow> http_request) \<Rightarrow> string \<Rightarrow> nat \<Rightarrow> int \<Rightarrow> json list \<Rightarrow> (web, json list) prog" where
  "page_loop C rq key 0 page acc = raiseS pages_exhausted"
| "page_loop C rq key (Suc fuel) page acc = bindS (fetch_json C (rq page)) (\<lambda>body.
     bindL (j_get_or key (JArr []) body) (\<lambda>value. bindL (j_iter value) (\<lambda>batch.
       if length batch < 100 then retS (acc @ batch)
       else page_loop C rq key fuel (page + 1) (acc @ batch))))"

definition page_params :: "int \<Rightarrow> (pystr \<times> pystr) list" where
  "page_params page = [(u ''per_page'', u ''100''), (u ''page'', str_int page)]"

definition user_installations :: "gh_client \<Rightarrow> json \<Rightarrow> (web, json list) prog" where
  "user_installations C token = page_loop C
     (\<lambda>page. plain_request ''GET'' (api_url @ u ''/user/installations'') (gh_headers C token) (page_params page))
     ''installations'' (gh_fuel C) 1 []"

definition app_jwt :: "gh_client \<Rightarrow> (web, pystr) prog" where
  "app_jwt C = (case (gh_app_id C, gh_private_key C) of
       (Some i, Some key) \<Rightarrow> if i = [] \<or> key = []
         then raiseS (GitHubConfigurationError (u ''GitHub App credentials are not configured''))
         else bindS read_time (\<lambda>t. let now = \<lfloor>t\<rfloor> in
           liftS (gl_jwt_encode (gh_lib C) [(u ''iat'', JInt (now - 60)), (u ''exp'', JInt (now + 540)), (u ''iss'', JStr i)] key))
     | _ \<Rightarrow> raiseS (GitHubConfigurationError (u ''GitHub App credentials are not configured'')))"

definition installation_token :: "gh_client \<Rightarrow> int \<Rightarrow> (web, json) prog" where
  "installation_token C installation_id = bindS (app_jwt C) (\<lambda>jwt.
     bindS (fetch_json C (plain_request ''POST''
         (api_url @ u ''/app/installations/'' @ str_int installation_id @ u ''/access_tokens'') (gh_headers C (JStr jwt)) []))
       (\<lambda>body. liftS (j_item ''token'' body)))"

section \<open>The failed run\<close>

definition is_failure :: "json \<Rightarrow> exn + bool" where
  "is_failure x = bindE (j_get ''conclusion'' x) (\<lambda>c. Inr (j_eq c (JStr (u ''failure''))))"

text \<open>A comprehension with a condition that may raise.\<close>

fun filterE :: "('a \<Rightarrow> exn + bool) \<Rightarrow> ('a \<Rightarrow> exn + 'b) \<Rightarrow> 'a list \<Rightarrow> exn + 'b list" where
  "filterE p f [] = Inr []"
| "filterE p f (x # xs) = bindE (p x) (\<lambda>b. if b
     then bindE (f x) (\<lambda>y. bindE (filterE p f xs) (\<lambda>ys. Inr (y # ys))) else filterE p f xs)"

definition failed_job :: "gh_client \<Rightarrow> json \<Rightarrow> exn + FailedJob" where
  "failed_job C job = bindE (j_item ''id'' job) (\<lambda>i. bindE (j_item ''name'' job) (\<lambda>name.
     bindE (j_get_or ''steps'' (JArr []) job) (\<lambda>steps. bindE (j_iter steps) (\<lambda>steps.
     bindE (filterE is_failure (j_item ''name'') steps) (\<lambda>failed.
     bindE (j_get_or ''labels'' (JArr []) job) (\<lambda>labels. bindE (j_iter labels) (\<lambda>labels.
     bindE (j_get ''workflow_name'' job) (\<lambda>workflow. bindE (j_get ''head_branch'' job) (\<lambda>branch.
       Inr \<lparr>jb_job_id = i, jb_name = name, jb_failed_steps = failed, jb_runner_labels = map (gh_str C) labels,
         jb_workflow_name = workflow, jb_head_branch = branch\<rparr>)))))))))"

definition run_url :: "pystr \<Rightarrow> int \<Rightarrow> string \<Rightarrow> pystr" where
  "run_url repository run_id rest = repo_url repository (u ''/actions/runs/'' @ str_int run_id @ u rest)"

definition failed_jobs :: "gh_client \<Rightarrow> pystr \<Rightarrow> int \<Rightarrow> json \<Rightarrow> (web, FailedJob list) prog" where
  "failed_jobs C repository run_id token =
     bindS (page_loop C (\<lambda>page. plain_request ''GET'' (run_url repository run_id ''/jobs'') (gh_headers C token)
         ((u ''filter'', u ''latest'') # page_params page)) ''jobs'' (gh_fuel C) 1 [])
       (\<lambda>jobs. liftS (filterE is_failure (failed_job C) jobs))"

definition removesuffix :: "pystr \<Rightarrow> pystr \<Rightarrow> pystr" where
  "removesuffix s e = (if suffix e s \<and> e \<noteq> [] then take (length s - length e) s else s)"

definition job_logs :: "int \<Rightarrow> zip_member list \<Rightarrow> exn + JobLog list" where
  "job_logs limit members = filterE (\<lambda>m. Inr (\<not> (zm_is_dir m \<or> limit < zm_file_size m)))
     (\<lambda>m. bindE (zm_read m) (\<lambda>bytes. Inr \<lparr>jl_job_name = removesuffix (zm_filename m) (u ''.txt''),
        jl_text = utf8_decode_replace bytes\<rparr>)) members"

definition download_logs :: "gh_client \<Rightarrow> pystr \<Rightarrow> int \<Rightarrow> json \<Rightarrow> (web, JobLog list) prog" where
  "download_logs C repository run_id token =
     bindS (fetch C ((plain_request ''GET'' (run_url repository run_id ''/logs'') (gh_headers C token) [])
         \<lparr>hr_follow_redirects := True\<rparr>))
       (\<lambda>r. if gh_max_log_bytes C < int (length (re_content r))
          then raiseS (ValueError (u ''log archive exceeds '' @ str_int (gh_max_log_bytes C) @ u '' byte safety limit''))
          else liftS (bindE (gl_unzip (gh_lib C) (re_content r)) (job_logs (gh_max_log_bytes C))))"

section \<open>Trust\<close>

text \<open>\<open>x.get(k) or {}\<close>, and the first pull request of a run, \<open>None\<close> without one.\<close>

definition j_get_obj_or_empty :: "string \<Rightarrow> json \<Rightarrow> exn + json" where
  "j_get_obj_or_empty k x = bindE (j_get k x) (\<lambda>v. Inr (j_or v (JObj [])))"

definition first_pull_request :: "json \<Rightarrow> exn + json" where
  "first_pull_request run = bindE (j_get ''pull_requests'' run)
     (\<lambda>prs. if j_truthy prs then j_first prs else Inr JNull)"

definition name_trust :: "(pystr \<Rightarrow> pystr) \<Rightarrow> pystr \<Rightarrow> pystr \<Rightarrow> TrustLevel" where
  "name_trust casefold name reference = (if casefold name = casefold reference then TRUSTED else UNTRUSTED_FORK)"

definition head_repository_trust :: "(pystr \<Rightarrow> pystr) \<Rightarrow> pystr \<Rightarrow> json \<Rightarrow> exn + TrustLevel" where
  "head_repository_trust casefold repository head_repository = bindE (j_get ''full_name'' head_repository)
     (\<lambda>name. Inr (case name of JStr n \<Rightarrow> name_trust casefold n repository | _ \<Rightarrow> UNVERIFIED))"

definition pull_request_trust :: "(pystr \<Rightarrow> pystr) \<Rightarrow> pystr \<Rightarrow> json \<Rightarrow> json \<Rightarrow> exn + TrustLevel" where
  "pull_request_trust casefold repository head_repository pr =
     bindE (j_get_or ''head'' (JObj []) pr) (\<lambda>h. bindE (j_get_obj_or_empty ''repo'' h) (\<lambda>head.
     bindE (j_get_or ''base'' (JObj []) pr) (\<lambda>b. bindE (j_get_obj_or_empty ''repo'' b) (\<lambda>base.
     bindE (j_get ''full_name'' base) (\<lambda>base_name. case base_name of
         JStr bn \<Rightarrow>
           if casefold bn \<noteq> casefold repository then Inr UNVERIFIED
           else bindE (j_get ''id'' head) (\<lambda>head_id. bindE (j_get ''id'' base) (\<lambda>base_id.
             if head_id \<noteq> JNull \<and> base_id \<noteq> JNull
             then Inr (if j_eq head_id base_id then TRUSTED else UNTRUSTED_FORK)
             else bindE (j_get ''full_name'' head) (\<lambda>head_name. case head_name of
                 JStr hn \<Rightarrow> Inr (name_trust casefold hn bn)
               | _ \<Rightarrow> head_repository_trust casefold repository (j_or head head_repository))))
       | _ \<Rightarrow> Inr UNVERIFIED)))))"

definition trust_level :: "(pystr \<Rightarrow> pystr) \<Rightarrow> pystr \<Rightarrow> json \<Rightarrow> exn + TrustLevel" where
  "trust_level casefold repository run = bindE (first_pull_request run) (\<lambda>pr.
     bindE (j_get_obj_or_empty ''head_repository'' run) (\<lambda>head_repository.
       if j_truthy pr then pull_request_trust casefold repository head_repository pr
       else head_repository_trust casefold repository head_repository))"

text \<open>\<open>x.get("full_name", "").casefold()\<close>.\<close>

definition full_name_casefold :: "(pystr \<Rightarrow> pystr) \<Rightarrow> json \<Rightarrow> exn + pystr" where
  "full_name_casefold casefold x = bindE (j_get_or ''full_name'' (JStr []) x)
     (\<lambda>n. bindE (j_str_method (u ''casefold'') n) (\<lambda>s. Inr (casefold s)))"

definition is_external_match :: "(pystr \<Rightarrow> pystr) \<Rightarrow> pystr \<Rightarrow> pystr \<Rightarrow> pystr \<Rightarrow> json \<Rightarrow> exn + bool" where
  "is_external_match casefold repository head_sha head_full_name pr =
     bindE (j_get_obj_or_empty ''head'' pr) (\<lambda>head. bindE (j_get_obj_or_empty ''base'' pr) (\<lambda>base.
     bindE (j_get_obj_or_empty ''repo'' head) (\<lambda>head_repo. bindE (j_get_obj_or_empty ''repo'' base) (\<lambda>base_repo.
     bindE (j_get ''sha'' head) (\<lambda>sha.
       if \<not> j_eq sha (JStr head_sha) then Inr False
       else bindE (full_name_casefold casefold head_repo) (\<lambda>hn.
         if hn \<noteq> casefold head_full_name then Inr False
         else bindE (full_name_casefold casefold base_repo) (\<lambda>bn. Inr (bn = casefold repository))))))))"

text \<open>\<open>head_full_name.partition("/")\<close>: the owner, \<open>None\<close> without a separator.\<close>

definition owner_of :: "pystr \<Rightarrow> pystr option" where
  "owner_of name = (if 47 \<in> set name then Some (takeWhile (\<lambda>c. c \<noteq> 47) name) else None)"

definition set_pull_requests :: "json \<Rightarrow> json list \<Rightarrow> json" where
  "set_pull_requests run matches = (case run of
       JObj d \<Rightarrow> JObj (dict_put (u ''pull_requests'') (JArr matches) d) | _ \<Rightarrow> run)"

definition resolve_external_pull_request ::
  "gh_client \<Rightarrow> pystr \<Rightarrow> pystr \<Rightarrow> (pystr \<times> pystr) list \<Rightarrow> json \<Rightarrow> (web, json) prog" where
  "resolve_external_pull_request C repository head_sha headers run =
     bindL (j_get ''pull_requests'' run) (\<lambda>prs. if j_truthy prs then retS run else
     bindL (j_get ''event'' run) (\<lambda>event. if \<not> j_eq event (JStr (u ''pull_request'')) then retS run else
     bindL (trust_level (gh_casefold C) repository run) (\<lambda>trust. if trust \<noteq> UNTRUSTED_FORK then retS run else
     bindL (j_get_obj_or_empty ''head_repository'' run) (\<lambda>head_repository.
     bindL (j_get ''full_name'' head_repository) (\<lambda>head_full_name.
     bindL (j_get ''head_branch'' run) (\<lambda>head_branch.
       case (head_full_name, head_branch) of
         (JStr name, JStr branch) \<Rightarrow> (case owner_of name of
             None \<Rightarrow> retS run
           | Some owner \<Rightarrow> if owner = [] \<or> branch = [] then retS run
               else bindS (fetch_json C (plain_request ''GET'' (repo_url repository (u ''/pulls'')) headers
                   [(u ''state'', u ''all''), (u ''head'', owner @ u '':'' @ branch), (u ''per_page'', u ''100'')]))
                 (\<lambda>body. bindL (j_iter body) (\<lambda>prs.
                   bindL (filterE (is_external_match (gh_casefold C) repository head_sha name) Inr prs) (\<lambda>matches.
                     if length matches \<noteq> 1 then retS run else retS (set_pull_requests run matches)))))
       | _ \<Rightarrow> retS run))))))"

section \<open>Repository context\<close>

text \<open>How httpx writes a value of a query parameter.\<close>

definition param_text :: "gh_client \<Rightarrow> json \<Rightarrow> pystr" where
  "param_text C v = (case v of JBool b \<Rightarrow> (if b then u ''true'' else u ''false'') | JNull \<Rightarrow> [] | _ \<Rightarrow> gh_str C v)"

fun first_candidate :: "json \<Rightarrow> json list \<Rightarrow> exn + json option" where
  "first_candidate created_at [] = Inr None"
| "first_candidate created_at (c # cs) =
     bindE (if \<not> j_truthy created_at then Inr True
            else bindE (j_get_or ''created_at'' (JStr []) c) (\<lambda>t. j_lt t created_at))
       (\<lambda>earlier. if earlier then bindE (j_get ''head_sha'' c) (\<lambda>sha. Inr (Some sha))
          else first_candidate created_at cs)"

fun previous_pages :: "gh_client \<Rightarrow> (int \<Rightarrow> http_request) \<Rightarrow> json \<Rightarrow> int list \<Rightarrow> (web, pystr option) prog" where
  "previous_pages C rq created_at [] = retS None"
| "previous_pages C rq created_at (page # pages) = bindS (fetch_json C (rq page)) (\<lambda>body.
     bindL (j_get_or ''workflow_runs'' (JArr []) body) (\<lambda>value. bindL (j_iter value) (\<lambda>candidates.
     bindL (first_candidate created_at candidates) (\<lambda>found. case found of
         Some sha \<Rightarrow> retS (case sha of JStr s \<Rightarrow> Some s | _ \<Rightarrow> None)
       | None \<Rightarrow> if length candidates < 100 then retS None else previous_pages C rq created_at pages))))"

definition previous_successful_sha ::
  "gh_client \<Rightarrow> pystr \<Rightarrow> json \<Rightarrow> (pystr \<times> pystr) list \<Rightarrow> (web, pystr option) prog" where
  "previous_successful_sha C repository run headers =
     bindL (j_get ''workflow_id'' run) (\<lambda>workflow_id. bindL (j_get ''head_branch'' run) (\<lambda>branch.
     bindL (j_get ''created_at'' run) (\<lambda>created_at.
       if workflow_id = JNull \<or> \<not> j_truthy branch then retS None
       else previous_pages C (\<lambda>page. plain_request ''GET''
           (repo_url repository (u ''/actions/workflows/'' @ gh_str C workflow_id @ u ''/runs'')) headers
           ([(u ''branch'', param_text C branch), (u ''status'', u ''success'')] @ page_params page))
         created_at (map int [1..<11]))))"

definition changed_file :: "json \<Rightarrow> exn + ChangedFile" where
  "changed_file item = bindE (j_item ''filename'' item) (\<lambda>filename.
     bindE (j_get_or ''status'' (JStr (u ''modified'')) item) (\<lambda>status. bindE (j_get ''patch'' item) (\<lambda>patch.
     bindE (j_get ''previous_filename'' item) (\<lambda>previous.
     bindE (field_str filename) (\<lambda>f. bindE (field_str status) (\<lambda>st. bindE (field_str_opt patch) (\<lambda>pt.
     bindE (field_str_opt previous) (\<lambda>prev.
       Inr \<lparr>cf_filename = f, cf_status = st, cf_patch = pt, cf_previous_filename = prev\<rparr>))))))))"

definition changed_files ::
  "gh_client \<Rightarrow> pystr \<Rightarrow> pystr \<Rightarrow> (pystr \<times> pystr) list \<Rightarrow> json \<Rightarrow> (web, ChangedFile list \<times> json) prog" where
  "changed_files C repository head_sha headers run =
     bindS (bindL (j_get_or ''pull_requests'' (JArr []) run) (\<lambda>prs.
       if j_truthy prs
       then bindL (j_first prs) (\<lambda>pr. bindL (j_item ''number'' pr) (\<lambda>number.
         bindS (fetch_json C (plain_request ''GET'' (repo_url repository (u ''/pulls/'' @ gh_str C number @ u ''/files''))
             headers [(u ''per_page'', u ''100'')])) (\<lambda>files.
         bindL (bindE (j_get_or ''base'' (JObj []) pr) (j_get ''sha'')) (\<lambda>sha. retS (files, sha)))))
       else bindS (previous_successful_sha C repository run headers) (\<lambda>baseline.
         bindS (fetch_json C (if truthy baseline
             then plain_request ''GET'' (repo_url repository (u ''/compare/'' @ the baseline @ u ''...'' @ head_sha))
               headers [(u ''per_page'', u ''100'')]
             else plain_request ''GET'' (repo_url repository (u ''/commits/'' @ head_sha)) headers [])) (\<lambda>body.
         bindL (j_get_or ''files'' (JArr []) body) (\<lambda>files.
           retS (files, case baseline of None \<Rightarrow> JNull | Some b \<Rightarrow> JStr b))))))
     (\<lambda>(files, baseline). bindL (bindE (j_iter files) (mapE changed_file)) (\<lambda>cfs. retS (cfs, baseline)))"

definition workflow_context ::
  "gh_client \<Rightarrow> pystr \<Rightarrow> json \<Rightarrow> pystr \<Rightarrow> (pystr \<times> pystr) list \<Rightarrow> (web, json \<times> pystr option) prog" where
  "workflow_context C repository workflow_id head_sha headers =
     (if workflow_id = JNull then retS (JNull, None)
      else bindS (fetch_json C (plain_request ''GET''
          (repo_url repository (u ''/actions/workflows/'' @ gh_str C workflow_id)) headers [])) (\<lambda>body.
        bindL (j_get ''path'' body) (\<lambda>path. if \<not> j_truthy path then retS (JNull, None)
          else bindS (gh_request C (plain_request ''GET'' (repo_url repository (u ''/contents/'' @ gh_str C path))
              (raw_headers headers) [(u ''ref'', head_sha)])) (\<lambda>r.
            if re_status_code r = 404 then retS (path, None)
            else bindL (raise_for_status r) (\<lambda>_. retS (path, Some (re_text r)))))))"

definition repository_context ::
  "gh_client \<Rightarrow> pystr \<Rightarrow> int \<Rightarrow> pystr \<Rightarrow> json \<Rightarrow> (web, RepositoryContext) prog" where
  "repository_context C repository run_id head_sha token =
     (let headers = gh_headers C token in
      bindS (fetch_json C (plain_request ''GET'' (run_url repository run_id []) headers [])) (\<lambda>run0.
      bindS (resolve_external_pull_request C repository head_sha headers run0) (\<lambda>run.
      bindS (changed_files C repository head_sha headers run) (\<lambda>(cfs, baseline).
      bindL (j_get ''workflow_id'' run) (\<lambda>workflow_id.
      bindS (workflow_context C repository workflow_id head_sha headers) (\<lambda>(path, content).
      bindL (j_get ''pull_requests'' run) (\<lambda>prs.
      bindL (if j_truthy prs then bindE (j_first prs) (j_item ''number'') else Inr JNull) (\<lambda>number.
      bindL (trust_level (gh_casefold C) repository run) (\<lambda>trust.
      bindL (field_str_opt path) (\<lambda>path'.
      bindL (field_int_opt (gl_to_int (gh_lib C)) number) (\<lambda>number'.
      bindL (field_str_opt baseline) (\<lambda>baseline'.
        retS \<lparr>rc_changed_files = cfs, rc_workflow_path = path', rc_workflow_content = content,
          rc_pull_request_number = number', rc_trust_level = trust, rc_baseline_sha = baseline'\<rparr>))))))))))))"

section \<open>Files at the failing commit\<close>

text \<open>\<open>dict.fromkeys(xs)\<close>: the elements without repetition, in order of their first occurrence.\<close>

fun fromkeys :: "'a list \<Rightarrow> 'a list \<Rightarrow> 'a list" where
  "fromkeys seen [] = []"
| "fromkeys seen (x # xs) = (if x \<in> set seen then fromkeys seen xs else x # fromkeys (x # seen) xs)"

fun file_contents_loop ::
  "gh_client \<Rightarrow> (pystr \<Rightarrow> http_request) \<Rightarrow> pystr list \<Rightarrow> (pystr \<times> pystr) list \<Rightarrow> (web, (pystr \<times> pystr) list) prog" where
  "file_contents_loop C rq [] contents = retS contents"
| "file_contents_loop C rq (path # paths) contents = bindS (gh_request C (rq path)) (\<lambda>r.
     if re_status_code r = 404 then file_contents_loop C rq paths contents
     else bindL (raise_for_status r) (\<lambda>_.
       if MAX_PATCH_TARGET_BYTES < length (re_content r) then file_contents_loop C rq paths contents
       else (case utf8_decode (re_content r) of
           Inl _ \<Rightarrow> file_contents_loop C rq paths contents
         | Inr t \<Rightarrow> file_contents_loop C rq paths (dict_put path t contents))))"

definition file_contents ::
  "gh_client \<Rightarrow> pystr \<Rightarrow> pystr list \<Rightarrow> pystr \<Rightarrow> json \<Rightarrow> (web, (pystr \<times> pystr) list) prog" where
  "file_contents C repository paths ref token = file_contents_loop C
     (\<lambda>path. plain_request ''GET'' (repo_url repository (u ''/contents/'' @ path)) (raw_headers (gh_headers C token))
        [(u ''ref'', ref)]) (fromkeys [] paths) []"

section \<open>Publishing\<close>

text \<open>\<open>next((x for x in xs if p(x)), None)\<close>.\<close>

fun firstE :: "('a \<Rightarrow> exn + bool) \<Rightarrow> 'a list \<Rightarrow> exn + 'a option" where
  "firstE p [] = Inr None"
| "firstE p (x # xs) = bindE (p x) (\<lambda>b. if b then Inr (Some x) else firstE p xs)"

definition json_request :: "string \<Rightarrow> pystr \<Rightarrow> (pystr \<times> pystr) list \<Rightarrow> (pystr \<times> json) list \<Rightarrow> http_request" where
  "json_request method url headers body = (plain_request method url headers [])\<lparr>hr_json := Some (JObj body)\<rparr>"

definition check_name :: pystr where
  "check_name = u ''PipeLens diagnosis''"

definition check_body :: "pystr \<Rightarrow> int \<Rightarrow> pystr \<Rightarrow> pystr \<Rightarrow> pystr \<Rightarrow> (pystr \<times> json) list" where
  "check_body head_sha run_id title summary details_url = [
     (u ''name'', JStr check_name), (u ''head_sha'', JStr head_sha), (u ''external_id'', JStr (str_int run_id)),
     (u ''details_url'', JStr details_url), (u ''status'', JStr (u ''completed'')), (u ''conclusion'', JStr (u ''neutral'')),
     (u ''output'', JObj [(u ''title'', JStr (take 255 title)), (u ''summary'', JStr (take 65535 summary))])]"

definition upsert_check ::
  "gh_client \<Rightarrow> pystr \<Rightarrow> pystr \<Rightarrow> int \<Rightarrow> json \<Rightarrow> pystr \<Rightarrow> pystr \<Rightarrow> pystr \<Rightarrow> (web, unit) prog" where
  "upsert_check C repository head_sha run_id token title summary details_url =
     (let body = check_body head_sha run_id title summary details_url; headers = gh_headers C token in
      bindS (fetch_json C (plain_request ''GET'' (repo_url repository (u ''/commits/'' @ head_sha @ u ''/check-runs'')) headers
          [(u ''check_name'', check_name), (u ''filter'', u ''latest''), (u ''per_page'', u ''100'')])) (\<lambda>existing.
      bindL (j_get_or ''check_runs'' (JArr []) existing) (\<lambda>value. bindL (j_iter value) (\<lambda>runs.
      bindL (firstE (\<lambda>item. bindE (j_get ''external_id'' item) (\<lambda>x. Inr (j_eq x (JStr (str_int run_id))))) runs)
        (\<lambda>check. bindS (case check of
            Some c \<Rightarrow> bindL (j_item ''id'' c) (\<lambda>i. gh_request C (json_request ''PATCH''
              (repo_url repository (u ''/check-runs/'' @ gh_str C i)) headers
              (filter (\<lambda>(k, _). k \<noteq> u ''head_sha'') body)))
          | None \<Rightarrow> gh_request C (json_request ''POST'' (repo_url repository (u ''/check-runs'')) headers body))
        (\<lambda>r. liftS (raise_for_status r)))))))"

definition is_own_comment :: "gh_client \<Rightarrow> json \<Rightarrow> exn + bool" where
  "is_own_comment C comment = bindE (j_get_obj_or_empty ''performed_via_github_app'' comment) (\<lambda>app.
     case gh_app_id C of
       None \<Rightarrow> Inr False
     | Some i \<Rightarrow> if i = [] then Inr False
         else bindE (j_get ''id'' app) (\<lambda>x. Inr (gh_str C x = i)))"

definition comment_marker :: "int \<Rightarrow> pystr" where
  "comment_marker run_id = u ''<!-- pipelens:run:'' @ str_int run_id @ u '' -->''"

definition is_marked_comment :: "gh_client \<Rightarrow> int \<Rightarrow> json \<Rightarrow> exn + bool" where
  "is_marked_comment C run_id item = bindE (j_get ''body'' item) (\<lambda>b.
     bindE (j_contains (comment_marker run_id) (j_or b (JStr []))) (\<lambda>marked.
       if marked then is_own_comment C item else Inr False))"

fun find_comment :: "gh_client \<Rightarrow> (int \<Rightarrow> http_request) \<Rightarrow> int \<Rightarrow> nat \<Rightarrow> int \<Rightarrow> (web, json option) prog" where
  "find_comment C rq run_id 0 page = raiseS pages_exhausted"
| "find_comment C rq run_id (Suc fuel) page = bindS (fetch_json C (rq page)) (\<lambda>body.
     bindL (j_iter body) (\<lambda>comments. bindL (firstE (is_marked_comment C run_id) comments) (\<lambda>found.
       if found \<noteq> None \<or> length comments < 100 then retS found
       else find_comment C rq run_id fuel (page + 1))))"

definition upsert_pull_request_comment ::
  "gh_client \<Rightarrow> pystr \<Rightarrow> int \<Rightarrow> int \<Rightarrow> json \<Rightarrow> pystr \<Rightarrow> (web, unit) prog" where
  "upsert_pull_request_comment C repository pull_request_number run_id token body =
     (let headers = gh_headers C token; text_body = comment_marker run_id @ nl @ body;
          url = repo_url repository (u ''/issues/'' @ str_int pull_request_number @ u ''/comments'')
      in bindS (find_comment C (\<lambda>page. plain_request ''GET'' url headers (page_params page)) run_id (gh_fuel C) 1)
        (\<lambda>existing. bindS (case existing of
            Some c \<Rightarrow> bindL (j_item ''id'' c) (\<lambda>i. gh_request C (json_request ''PATCH''
              (repo_url repository (u ''/issues/comments/'' @ gh_str C i)) headers [(u ''body'', JStr text_body)]))
          | None \<Rightarrow> gh_request C (json_request ''POST'' url headers [(u ''body'', JStr text_body)]))
        (\<lambda>r. liftS (raise_for_status r))))"

end
