(* ===== verification/GitHub_Props.thy ===== *)
theory GitHub_Props
  imports GitHub
begin

text \<open>
  Properties of the GitHub client: whom it trusts, which requests each method sends, that the loops
  over pages collect everything, and that comments of others are never edited.
\<close>

section \<open>Trust\<close>

text \<open>The value found along keys, \<open>None\<close> where a key is missing.\<close>

definition j_at :: "string \<Rightarrow> json \<Rightarrow> json" where
  "j_at k x = (case x of JObj d \<Rightarrow> dict_get JNull (u k) d | _ \<Rightarrow> JNull)"

fun j_path :: "string list \<Rightarrow> json \<Rightarrow> json" where
  "j_path [] x = x"
| "j_path (k # ks) x = j_path ks (j_at k x)"

definition names_repository :: "(pystr \<Rightarrow> pystr) \<Rightarrow> pystr \<Rightarrow> json \<Rightarrow> bool" where
  "names_repository casefold repository v \<longleftrightarrow> (\<exists>n. v = JStr n \<and> casefold n = casefold repository)"

definition first_pr :: "json \<Rightarrow> json" where
  "first_pr run = (case j_path [''pull_requests''] run of JArr (pr # _) \<Rightarrow> pr | _ \<Rightarrow> JNull)"

definition own_run :: "(pystr \<Rightarrow> pystr) \<Rightarrow> pystr \<Rightarrow> json \<Rightarrow> bool" where
  "own_run casefold repository run \<longleftrightarrow>
     (let pr = first_pr run; named = names_repository casefold repository
      in if j_truthy pr
         then named (j_path [''base'', ''repo'', ''full_name''] pr)
           \<and> (j_path [''head'', ''repo'', ''id''] pr \<noteq> JNull
                \<and> j_eq (j_path [''head'', ''repo'', ''id''] pr) (j_path [''base'', ''repo'', ''id''] pr)
              \<or> named (j_path [''head'', ''repo'', ''full_name''] pr)
              \<or> \<not> j_truthy (j_path [''head'', ''repo''] pr) \<and> named (j_path [''head_repository'', ''full_name''] run))
         else named (j_path [''head_repository'', ''full_name''] run))"

lemma j_get_at: "j_get k x = Inr v \<Longrightarrow> v = j_at k x"
  by (auto simp: j_get_Inr j_at_def)

lemma j_at_falsy: "\<not> j_truthy x \<Longrightarrow> j_at k x = JNull"
  by (cases x) (auto simp: dict_get_def j_at_def)

text \<open>What \<open>get(k, {})\<close> and \<open>get(k) or {}\<close> give, as far as later lookups can tell.\<close>

lemma get_or_empty_at: "j_get_or k (JObj []) x = Inr v \<Longrightarrow> j_at k' v = j_at k' (j_at k x)"
  by (auto simp: j_get_or_Inr dict_get_def j_at_def split: option.splits)

lemma obj_or_empty_at:
  assumes "j_get_obj_or_empty k x = Inr v"
  shows "j_at k' v = j_at k' (j_at k x)" "j_truthy v \<longleftrightarrow> j_truthy (j_at k x)"
  using assms j_at_falsy[of "j_at k x" k'] j_at_falsy[of "JObj []" k']
  by (auto simp: j_get_obj_or_empty_def bindE_eq_Inr j_or_def dest!: j_get_at split: if_splits)

lemma str_case_TRUSTED:
  "(case v of JStr n \<Rightarrow> f n | _ \<Rightarrow> Inr UNVERIFIED) = Inr TRUSTED \<longleftrightarrow> (\<exists>n. v = JStr n \<and> f n = Inr TRUSTED)"
  by (cases v) auto

lemma name_trust_TRUSTED: "name_trust cf a b = TRUSTED \<longleftrightarrow> cf a = cf b"
  by (simp add: name_trust_def)

lemma head_repository_trust_TRUSTED:
  assumes "head_repository_trust cf repository hr = Inr TRUSTED"
  shows "names_repository cf repository (j_at ''full_name'' hr)"
proof -
  from assms obtain name where n: "j_get ''full_name'' hr = Inr name"
    "(case name of JStr n \<Rightarrow> name_trust cf n repository | _ \<Rightarrow> UNVERIFIED) = TRUSTED"
    by (auto simp: head_repository_trust_def bindE_eq_Inr)
  from n(2) show ?thesis unfolding j_get_at[OF n(1), symmetric]
    by (cases name) (auto simp: names_repository_def name_trust_TRUSTED)
qed

lemma pull_request_trust_TRUSTED:
  assumes "pull_request_trust cf repository hr pr = Inr TRUSTED"
  shows "names_repository cf repository (j_path [''base'', ''repo'', ''full_name''] pr)
    \<and> (j_path [''head'', ''repo'', ''id''] pr \<noteq> JNull
         \<and> j_eq (j_path [''head'', ''repo'', ''id''] pr) (j_path [''base'', ''repo'', ''id''] pr)
       \<or> names_repository cf repository (j_path [''head'', ''repo'', ''full_name''] pr)
       \<or> \<not> j_truthy (j_path [''head'', ''repo''] pr) \<and> names_repository cf repository (j_at ''full_name'' hr))"
proof -
  from assms obtain h head b base name where
    h: "j_get_or ''head'' (JObj []) pr = Inr h" "j_get_obj_or_empty ''repo'' h = Inr head"
    and b: "j_get_or ''base'' (JObj []) pr = Inr b" "j_get_obj_or_empty ''repo'' b = Inr base"
    and name: "j_get ''full_name'' base = Inr name"
    and rest: "(case name of JStr bn \<Rightarrow>
           if cf bn \<noteq> cf repository then Inr UNVERIFIED
           else bindE (j_get ''id'' head) (\<lambda>head_id. bindE (j_get ''id'' base) (\<lambda>base_id.
             if head_id \<noteq> JNull \<and> base_id \<noteq> JNull
             then Inr (if j_eq head_id base_id then TRUSTED else UNTRUSTED_FORK)
             else bindE (j_get ''full_name'' head) (\<lambda>head_name. case head_name of
                 JStr hn \<Rightarrow> Inr (name_trust cf hn bn)
               | _ \<Rightarrow> head_repository_trust cf repository (j_or head hr))))
       | _ \<Rightarrow> Inr UNVERIFIED) = Inr TRUSTED"
    unfolding pull_request_trust_def bindE_eq_Inr by blast
  from rest obtain bn where bn: "name = JStr bn" "cf bn = cf repository"
    and ids: "bindE (j_get ''id'' head) (\<lambda>head_id. bindE (j_get ''id'' base) (\<lambda>base_id.
             if head_id \<noteq> JNull \<and> base_id \<noteq> JNull
             then Inr (if j_eq head_id base_id then TRUSTED else UNTRUSTED_FORK)
             else bindE (j_get ''full_name'' head) (\<lambda>head_name. case head_name of
                 JStr hn \<Rightarrow> Inr (name_trust cf hn bn)
               | _ \<Rightarrow> head_repository_trust cf repository (j_or head hr)))) = Inr TRUSTED"
    unfolding str_case_TRUSTED by (auto split: if_splits)
  note at = obj_or_empty_at(1)[OF h(2)] obj_or_empty_at(1)[OF b(2)] get_or_empty_at[OF h(1)] get_or_empty_at[OF b(1)]
  have base: "names_repository cf repository (j_path [''base'', ''repo'', ''full_name''] pr)"
    using j_get_at[OF name] bn at by (auto simp: names_repository_def intro!: exI[of _ bn])
  from ids obtain hi bi where i: "j_get ''id'' head = Inr hi" "j_get ''id'' base = Inr bi"
    and ids': "(if hi \<noteq> JNull \<and> bi \<noteq> JNull
             then Inr (if j_eq hi bi then TRUSTED else UNTRUSTED_FORK)
             else bindE (j_get ''full_name'' head) (\<lambda>head_name. case head_name of
                 JStr hn \<Rightarrow> Inr (name_trust cf hn bn)
               | _ \<Rightarrow> head_repository_trust cf repository (j_or head hr))) = Inr TRUSTED"
    unfolding bindE_eq_Inr by blast
  consider (ids) "j_at ''id'' head \<noteq> JNull" "j_eq (j_at ''id'' head) (j_at ''id'' base)"
    | (name) head_name where "j_get ''full_name'' head = Inr head_name"
       "(case head_name of JStr hn \<Rightarrow> Inr (name_trust cf hn bn)
               | _ \<Rightarrow> head_repository_trust cf repository (j_or head hr)) = Inr TRUSTED"
  proof (cases "hi \<noteq> JNull \<and> bi \<noteq> JNull")
    case True
    with ids' j_get_at[OF i(1)] j_get_at[OF i(2)] that(1) show thesis by (simp split: if_splits)
  next
    case False
    with ids' have "bindE (j_get ''full_name'' head) (\<lambda>head_name. case head_name of
                 JStr hn \<Rightarrow> Inr (name_trust cf hn bn)
               | _ \<Rightarrow> head_repository_trust cf repository (j_or head hr)) = Inr TRUSTED" by (simp only: if_False)
    with that(2) show thesis unfolding bindE_eq_Inr by blast
  qed
  then show ?thesis
  proof cases
    case ids
    with base at show ?thesis by simp
  next
    case (name hn)
    have hd: "j_truthy head = j_truthy (j_at ''repo'' (j_at ''head'' pr))"
      using obj_or_empty_at(2)[OF h(2)] at by simp
    show ?thesis
    proof (cases "is_str hn")
      case True
      then obtain n where n: "hn = JStr n" by (cases hn) auto
      with name bn have "names_repository cf repository (j_at ''full_name'' head)"
        by (auto simp: names_repository_def name_trust_TRUSTED dest!: j_get_at intro!: exI[of _ n])
      with base at show ?thesis by simp
    next
      case False
      with name(2) have t: "head_repository_trust cf repository (j_or head hr) = Inr TRUSTED"
        by (cases hn) auto
      note t = head_repository_trust_TRUSTED[OF t]
      have "\<not> j_truthy head"
      proof
        assume "j_truthy head"
        with t j_get_at[OF name(1)] have "names_repository cf repository hn" by (simp add: j_or_def)
        with False show False by (auto simp: names_repository_def)
      qed
      with t hd base at show ?thesis by (simp add: j_or_def)
    qed
  qed
qed

lemma first_pull_request_first:
  assumes "first_pull_request run = Inr pr"
  shows "is_str pr \<and> j_truthy pr \<or> j_truthy (first_pr run) = j_truthy pr \<and> (j_truthy pr \<longrightarrow> first_pr run = pr)"
proof -
  from assms obtain prs where p: "j_get ''pull_requests'' run = Inr prs"
    "(if j_truthy prs then j_first prs else Inr JNull) = Inr pr"
    by (auto simp: first_pull_request_def bindE_eq_Inr)
  from j_get_at[OF p(1)] have "first_pr run = (case prs of JArr (pr # _) \<Rightarrow> pr | _ \<Rightarrow> JNull)"
    by (simp add: first_pr_def)
  with p(2) show ?thesis
    by (cases prs) (auto simp: j_first_def split: if_splits list.splits)
qed

text \<open>C31: a run is trusted only if it belongs to this repository: with a pull request, the pull
  request's base is this repository and its head is the same repository, by id, by name, or, when the
  head is gone, by the name of the run's own repository; without one, the run's repository has this
  repository's name. A fork is therefore never trusted.\<close>

theorem trusted_only_own_run:
  assumes "trust_level cf repository run = Inr TRUSTED"
  shows "own_run cf repository run"
proof -
  from assms obtain pr hr where pr: "first_pull_request run = Inr pr"
    and hr: "j_get_obj_or_empty ''head_repository'' run = Inr hr"
    and t: "(if j_truthy pr then pull_request_trust cf repository hr pr else head_repository_trust cf repository hr) = Inr TRUSTED"
    by (auto simp: trust_level_def bindE_eq_Inr)
  note at = obj_or_empty_at(1)[OF hr]
  have str: "is_str pr \<Longrightarrow> j_truthy pr \<Longrightarrow> False"
    using t by (cases pr) (auto simp: pull_request_trust_def j_get_or_def)
  have f: "j_truthy (first_pr run) = j_truthy pr" "j_truthy pr \<Longrightarrow> first_pr run = pr"
    using first_pull_request_first[OF pr] str by auto
  show ?thesis
  proof (cases "j_truthy pr")
    case True
    with t pull_request_trust_TRUSTED[of cf repository hr pr] f at show ?thesis
      by (simp add: own_run_def Let_def)
  next
    case False
    with t head_repository_trust_TRUSTED[of cf repository hr] f at show ?thesis
      by (simp add: own_run_def Let_def)
  qed
qed

definition sample_pr :: "int \<Rightarrow> json" where
  "sample_pr head_id = JObj [(u ''number'', JInt 5),
     (u ''head'', JObj [(u ''repo'', JObj [(u ''id'', JInt head_id), (u ''full_name'', JStr (u ''me/fork''))])]),
     (u ''base'', JObj [(u ''repo'', JObj [(u ''id'', JInt 1), (u ''full_name'', JStr (u ''Org/Repo''))])])]"

definition sample_run :: "int \<Rightarrow> json" where
  "sample_run head_id = JObj [(u ''pull_requests'', JArr [sample_pr head_id])]"

theorem trusted_only_own_run_witness:
  "own_run (map ascii_lower) (u ''org/repo'') (sample_run 1)
   \<and> trust_level (map ascii_lower) (u ''org/repo'') (sample_run 2) = Inr UNTRUSTED_FORK"
proof
  have "trust_level (map ascii_lower) (u ''org/repo'') (sample_run 1) = Inr TRUSTED" by code_simp
  then show "own_run (map ascii_lower) (u ''org/repo'') (sample_run 1)" by (rule trusted_only_own_run)
  show "trust_level (map ascii_lower) (u ''org/repo'') (sample_run 2) = Inr UNTRUSTED_FORK" by code_simp
qed

section \<open>Requests\<close>

text \<open>The upper-case forms of the method names are themselves.\<close>

definition upper_ok :: "gh_client \<Rightarrow> bool" where
  "upper_ok C \<longleftrightarrow> (\<forall>m \<in> {u ''GET'', u ''POST'', u ''PATCH''}. uc_upper (hc_unicode (gh_http C)) m = m)"

definition reads_api :: "http_request \<Rightarrow> bool" where
  "reads_api rq \<longleftrightarrow> hr_method rq = u ''GET'' \<and> prefix api_url (hr_url rq)"

lemma sends_gh_request:
  "upper_ok C \<Longrightarrow> hr_method rq \<in> {u ''GET'', u ''POST'', u ''PATCH''} \<Longrightarrow> P rq \<Longrightarrow> sends P (gh_request C rq)"
proof -
  assume "upper_ok C" "hr_method rq \<in> {u ''GET'', u ''POST'', u ''PATCH''}" "P rq"
  then have "P (rq\<lparr>hr_method := uc_upper (hc_unicode (gh_http C)) (hr_method rq)\<rparr>)"
    by (cases rq) (auto simp: upper_ok_def)
  then show ?thesis unfolding gh_request_def by (rule sends_request)
qed

lemma sends_fetch:
  "upper_ok C \<Longrightarrow> hr_method rq \<in> {u ''GET'', u ''POST'', u ''PATCH''} \<Longrightarrow> P rq \<Longrightarrow> sends P (fetch C rq)"
  unfolding fetch_def by (intro sends_intros sends_gh_request)

lemma sends_fetch_json:
  "upper_ok C \<Longrightarrow> hr_method rq \<in> {u ''GET'', u ''POST'', u ''PATCH''} \<Longrightarrow> P rq \<Longrightarrow> sends P (fetch_json C rq)"
  unfolding fetch_json_def by (intro sends_intros sends_fetch)

lemmas sends_gh = sends_gh_request sends_fetch sends_fetch_json

lemma plain_request_simps [simp]:
  "hr_method (plain_request m url hs ps) = u m" "hr_url (plain_request m url hs ps) = url"
  "hr_method (json_request m url hs b) = u m" "hr_url (json_request m url hs b) = url"
  by (simp_all add: plain_request_def json_request_def)

lemma api_urls [simp]: "prefix api_url (repo_url r x)" "prefix api_url (run_url r i y)" "prefix api_url (api_url @ z)"
  by (simp_all add: repo_url_def run_url_def)

lemma sends_page_loop:
  "(\<And>page. sends P (fetch_json C (rq page))) \<Longrightarrow> sends P (page_loop C rq key fuel page acc)"
  by (induction C rq key fuel page acc rule: page_loop.induct) (auto intro!: sends_intros)

lemma sends_previous_pages:
  "(\<And>page. sends P (fetch_json C (rq page))) \<Longrightarrow> sends P (previous_pages C rq t pages)"
  by (induction C rq t pages rule: previous_pages.induct) (auto intro!: sends_intros split: option.split)

lemma sends_file_contents_loop:
  "(\<And>path. sends P (gh_request C (rq path))) \<Longrightarrow> sends P (file_contents_loop C rq paths acc)"
  by (induction paths arbitrary: acc) (auto intro!: sends_intros split: sum.split)

lemma sends_find_comment:
  "(\<And>page. sends P (fetch_json C (rq page))) \<Longrightarrow> sends P (find_comment C rq run_id fuel page)"
  by (induction C rq run_id fuel page rule: find_comment.induct) (auto intro!: sends_intros)

lemma reads_failed_jobs: "upper_ok C \<Longrightarrow> sends reads_api (failed_jobs C repository run_id token)"
  unfolding failed_jobs_def
  by (intro sends_intros sends_page_loop sends_gh) (auto simp: reads_api_def)

lemma reads_download_logs: "upper_ok C \<Longrightarrow> sends reads_api (download_logs C repository run_id token)"
  unfolding download_logs_def
  by (intro sends_bind sends_gh) (auto simp: reads_api_def intro!: sends_intros)

lemma reads_file_contents: "upper_ok C \<Longrightarrow> sends reads_api (file_contents C repository paths ref token)"
  unfolding file_contents_def
  by (intro sends_intros sends_file_contents_loop sends_gh) (auto simp: reads_api_def)

lemma reads_resolve: "upper_ok C \<Longrightarrow> sends reads_api (resolve_external_pull_request C repository head_sha headers run)"
  unfolding resolve_external_pull_request_def
  by (auto intro!: sends_intros sends_gh simp: reads_api_def split: json.split option.split)

lemma reads_previous: "upper_ok C \<Longrightarrow> sends reads_api (previous_successful_sha C repository run headers)"
  unfolding previous_successful_sha_def
  by (auto intro!: sends_intros sends_previous_pages sends_gh simp: reads_api_def)

lemma reads_changed_files: "upper_ok C \<Longrightarrow> sends reads_api (changed_files C repository head_sha headers run)"
  unfolding changed_files_def
  by (auto intro!: sends_intros reads_previous sends_gh simp: reads_api_def split: prod.split if_split_asm)

lemma reads_workflow_context: "upper_ok C \<Longrightarrow> sends reads_api (workflow_context C repository wid head_sha headers)"
  unfolding workflow_context_def
  by (auto intro!: sends_intros sends_gh simp: reads_api_def)

lemma reads_repository_context: "upper_ok C \<Longrightarrow> sends reads_api (repository_context C repository run_id head_sha token)"
  unfolding repository_context_def Let_def
  by (auto intro!: sends_intros reads_resolve reads_changed_files reads_workflow_context sends_gh simp: reads_api_def split: prod.split)

text \<open>Collecting the context of a run only reads: the four collecting methods send nothing but GET
  requests to the API, whatever the answers are.\<close>

lemma collection_reads_only:
  assumes "upper_ok C"
  shows "sends reads_api (failed_jobs C repository run_id token)
    \<and> sends reads_api (download_logs C repository run_id token)
    \<and> sends reads_api (repository_context C repository run_id head_sha token)
    \<and> sends reads_api (file_contents C repository paths ref token)"
  using assms by (simp add: reads_failed_jobs reads_download_logs reads_repository_context reads_file_contents)

definition sample_client :: gh_client where
  "sample_client = github_client_new \<lparr>gl_jwt_encode = (\<lambda>_ _. Inr (u ''jwt'')), gl_unzip = (\<lambda>_. Inr []),
     gl_repr = (\<lambda>_. []), gl_to_int = plain_int\<rparr> 5 ascii (\<lambda>_. Inl (ValueError [])) (Some (u ''7'')) (Some (u ''key''))
     1000 None None"

lemma sample_client_upper: "upper_ok sample_client"
  by (simp add: upper_ok_def sample_client_def github_client_new_def ascii_def u_def ascii_upper_def)

section \<open>Comments\<close>

lemma bindS_Inr: "bindS m f w = (Inr b, w') \<longleftrightarrow> (\<exists>a w1. m w = (Inr a, w1) \<and> f a w1 = (Inr b, w'))"
  by (auto simp: bindS_def split: prod.splits sum.splits)

lemma firstE_Some: "firstE p xs = Inr (Some x) \<Longrightarrow> x \<in> set xs \<and> p x = Inr True"
  by (induction xs) (auto simp: bindE_eq_Inr split: if_splits)

lemma find_comment_marked:
  "find_comment C rq run_id fuel page w = (Inr (Some c), w') \<Longrightarrow> is_marked_comment C run_id c = Inr True"
proof (induction C rq run_id fuel page arbitrary: w rule: find_comment.induct)
  case (2 C rq run_id fuel page)
  then obtain comments found w1 where f: "firstE (is_marked_comment C run_id) comments = Inr found"
    "(if found \<noteq> None \<or> length comments < 100 then retS found else find_comment C rq run_id fuel (page + 1)) w1
       = (Inr (Some c), w')"
    by (auto simp: bindS_Inr)
  show ?case
  proof (cases "found \<noteq> None \<or> length comments < 100")
    case True
    with f firstE_Some show ?thesis by fastforce
  next
    case False
    with f 2(1)[OF False, of w1] show ?thesis by simp
  qed
qed simp

definition edits_comment :: "gh_client \<Rightarrow> pystr \<Rightarrow> json \<Rightarrow> http_request \<Rightarrow> bool" where
  "edits_comment C repository c rq \<longleftrightarrow> (\<exists>i. j_item ''id'' c = Inr i \<and> hr_method rq = u ''PATCH''
     \<and> hr_url rq = repo_url repository (u ''/issues/comments/'' @ gh_str C i))"

definition writes_comment :: "gh_client \<Rightarrow> pystr \<Rightarrow> int \<Rightarrow> int \<Rightarrow> pystr \<Rightarrow> http_request \<Rightarrow> bool" where
  "writes_comment C repository number run_id body rq \<longleftrightarrow>
     hr_json rq = Some (JObj [(u ''body'', JStr (comment_marker run_id @ nl @ body))])
     \<and> (hr_method rq = u ''POST'' \<and> hr_url rq = repo_url repository (u ''/issues/'' @ str_int number @ u ''/comments'')
        \<or> (\<exists>c. is_marked_comment C run_id c = Inr True \<and> is_own_comment C c = Inr True \<and> edits_comment C repository c rq))"

lemma sends_upsert_comment:
  assumes "upper_ok C"
  shows "sends (\<lambda>rq. reads_api rq \<or> writes_comment C repository number run_id body rq)
    (upsert_pull_request_comment C repository number run_id token body)"
proof -
  let ?P = "\<lambda>rq. reads_api rq \<or> writes_comment C repository number run_id body rq"
  have own: "is_own_comment C c = Inr True" if "is_marked_comment C run_id c = Inr True" for c
    using that by (auto simp: is_marked_comment_def bindE_eq_Inr split: if_splits)
  show ?thesis
    unfolding upsert_pull_request_comment_def Let_def
  proof (rule sends_bind_result)
    show "sends ?P (find_comment C (\<lambda>page. plain_request ''GET''
        (repo_url repository (u ''/issues/'' @ str_int number @ u ''/comments'')) (gh_headers C token) (page_params page))
        run_id (gh_fuel C) 1)"
      using assms by (intro sends_find_comment sends_gh) (auto simp: reads_api_def)
  next
    fix w found w'
    assume "find_comment C (\<lambda>page. plain_request ''GET''
        (repo_url repository (u ''/issues/'' @ str_int number @ u ''/comments'')) (gh_headers C token) (page_params page))
        run_id (gh_fuel C) 1 w = (Inr found, w')"
    then have m: "found = Some c \<Longrightarrow> is_marked_comment C run_id c = Inr True" for c
      using find_comment_marked by blast
    show "sends ?P (bindS (case found of
            Some c \<Rightarrow> bindL (j_item ''id'' c) (\<lambda>i. gh_request C (json_request ''PATCH''
              (repo_url repository (u ''/issues/comments/'' @ gh_str C i)) (gh_headers C token)
              [(u ''body'', JStr (comment_marker run_id @ nl @ body))]))
          | None \<Rightarrow> gh_request C (json_request ''POST''
              (repo_url repository (u ''/issues/'' @ str_int number @ u ''/comments'')) (gh_headers C token)
              [(u ''body'', JStr (comment_marker run_id @ nl @ body))]))
        (\<lambda>r. liftS (raise_for_status r)))"
    proof (rule sends_bind)
      show "sends ?P (case found of
            Some c \<Rightarrow> bindL (j_item ''id'' c) (\<lambda>i. gh_request C (json_request ''PATCH''
              (repo_url repository (u ''/issues/comments/'' @ gh_str C i)) (gh_headers C token)
              [(u ''body'', JStr (comment_marker run_id @ nl @ body))]))
          | None \<Rightarrow> gh_request C (json_request ''POST''
              (repo_url repository (u ''/issues/'' @ str_int number @ u ''/comments'')) (gh_headers C token)
              [(u ''body'', JStr (comment_marker run_id @ nl @ body))]))"
        using assms m own
        by (cases found) (auto intro!: sends_bind_result sends_gh_request sends_lift
            simp: writes_comment_def edits_comment_def json_request_def)
    qed (rule sends_lift)
  qed
qed



section \<open>Pages\<close>

text \<open>A successful answer is returned at once.\<close>

lemma request_success:
  assumes "1 \<le> rp_max_attempts (hc_policy H)" "uc_upper (hc_unicode H) (hr_method rq) = hr_method rq"
    and "wb_server w (wb_sent w) rq = Inr r" "re_status_code r = 200"
  shows "request_with_retry H flag rq w = (Inr r, w\<lparr>wb_sent := wb_sent w @ [rq]\<rparr>)"
proof -
  have rq: "rq\<lparr>hr_method := uc_upper (hc_unicode H) (hr_method rq)\<rparr> = rq" using assms(2) by simp
  have "map int [1..<nat (rp_max_attempts (hc_policy H)) + 1] = 1 # map int [2..<nat (rp_max_attempts (hc_policy H)) + 1]"
    using assms(1) by (subst upt_conv_Cons) (auto simp: numeral_2_eq_2)
  moreover have "retry_reason (hc_unicode H) flag r = Inr None"
    using assms(4) by (simp add: retry_reason_def TRANSIENT_STATUS_CODES_def)
  moreover have "send rq w = (Inr r, w\<lparr>wb_sent := wb_sent w @ [rq]\<rparr>)" using assms(3) by (simp add: send_def)
  ultimately show ?thesis unfolding request_with_retry_def rq
    by (simp only: retry_attempts.simps Let_def tryElseS_def bindS_def) simp
qed

text \<open>A server that serves a list in pages: all but the last page are full.\<close>

definition serves_pages :: "web \<Rightarrow> (int \<Rightarrow> http_request) \<Rightarrow> string \<Rightarrow> json list list \<Rightarrow> bool" where
  "serves_pages w rq key pages \<longleftrightarrow> pages \<noteq> [] \<and> (\<forall>b \<in> set (butlast pages). length b = 100) \<and> length (last pages) < 100
     \<and> (\<forall>hist i. i < length pages \<longrightarrow> (\<exists>r. wb_server w hist (rq (int i + 1)) = Inr r \<and> re_status_code r = 200
          \<and> re_json r = Inr (JObj [(u key, JArr (pages ! i))])))"

lemma fetch_json_success:
  assumes "1 \<le> rp_max_attempts (hc_policy (gh_http C))" "upper_ok C" "hr_method rq = u ''GET''"
    and "wb_server w (wb_sent w) rq = Inr r" "re_status_code r = 200" "re_json r = Inr body"
  shows "fetch_json C rq w = (Inr body, w\<lparr>wb_sent := wb_sent w @ [rq]\<rparr>)"
  using assms request_success[of "gh_http C" rq w r True]
  by (simp add: fetch_json_def fetch_def gh_request_def bindS_def raise_for_status_def upper_ok_def)

lemma page_loop_complete:
  assumes p: "1 \<le> rp_max_attempts (hc_policy (gh_http C))" "upper_ok C" "\<And>n. hr_method (rq n) = u ''GET''"
    and s: "serves_pages w rq key pages" and i: "i < length pages" "length pages \<le> i + fuel"
    and w': "wb_server w' = wb_server w"
  shows "\<exists>w1. page_loop C rq key fuel (int i + 1) acc w' = (Inr (acc @ concat (drop i pages)), w1)
    \<and> wb_sent w1 = wb_sent w' @ map (\<lambda>j. rq (int j + 1)) [i..<length pages]"
  using i w'
proof (induction fuel arbitrary: i acc w')
  case (Suc fuel)
  obtain r where r: "wb_server w' (wb_sent w') (rq (int i + 1)) = Inr r" "re_status_code r = 200"
    "re_json r = Inr (JObj [(u key, JArr (pages ! i))])"
    using s Suc.prems unfolding serves_pages_def by metis
  let ?w = "w'\<lparr>wb_sent := wb_sent w' @ [rq (int i + 1)]\<rparr>"
  have f: "fetch_json C (rq (int i + 1)) w' = (Inr (JObj [(u key, JArr (pages ! i))]), ?w)"
    by (rule fetch_json_success[OF p(1,2,3) r])
  have d: "drop i pages = pages ! i # drop (Suc i) pages" "[i..<length pages] = i # [Suc i..<length pages]"
    using Suc.prems by (simp_all add: Cons_nth_drop_Suc upt_conv_Cons)
  show ?case
  proof (cases "Suc i = length pages")
    case True
    then have "length (pages ! i) < 100" using s by (metis Suc_eq_plus1 add_diff_cancel_right' last_conv_nth serves_pages_def)
    with f d True show ?thesis by (simp add: bindS_def dict_get_def j_iter_def)
  next
    case False
    with Suc.prems have i: "Suc i < length pages" by simp
    then have full: "length (pages ! i) = 100"
      using s by (metis Suc_lessD Suc_eq_plus1 length_butlast less_diff_conv nth_butlast nth_mem serves_pages_def)
    have "int (Suc i) + 1 = int i + 1 + 1" by simp
    with Suc.IH[of "Suc i" ?w "acc @ pages ! i"] i Suc.prems obtain w1 where
      "page_loop C rq key fuel (int i + 1 + 1) (acc @ pages ! i) ?w = (Inr ((acc @ pages ! i) @ concat (drop (Suc i) pages)), w1)"
      "wb_sent w1 = wb_sent ?w @ map (\<lambda>j. rq (int j + 1)) [Suc i..<length pages]" by auto
    with f d full show ?thesis by (simp add: bindS_def dict_get_def j_iter_def)
  qed
qed simp

definition jobs_request :: "gh_client \<Rightarrow> pystr \<Rightarrow> int \<Rightarrow> json \<Rightarrow> int \<Rightarrow> http_request" where
  "jobs_request C repository run_id token page = plain_request ''GET'' (run_url repository run_id ''/jobs'')
     (gh_headers C token) ((u ''filter'', u ''latest'') # page_params page)"

text \<open>When the server serves a run's jobs in pages, the loop over pages ends with the first page
  that is not full, having asked for each page once and in order, and the failed jobs are taken from
  all pages. Fuel for as many pages as there are is enough.\<close>

lemma failed_jobs_all_pages:
  assumes "1 \<le> rp_max_attempts (hc_policy (gh_http C))" and "upper_ok C" and "length pages \<le> gh_fuel C"
    and "serves_pages w (jobs_request C repository run_id token) ''jobs'' pages"
  shows "fst (failed_jobs C repository run_id token w) = filterE is_failure (failed_job C) (concat pages)
    \<and> wb_sent (snd (failed_jobs C repository run_id token w))
      = wb_sent w @ map (\<lambda>i. jobs_request C repository run_id token (int i + 1)) [0..<length pages]"
proof -
  have "pages \<noteq> []" using assms(4) by (simp add: serves_pages_def)
  with page_loop_complete[OF assms(1,2) _ assms(4), of 0 "gh_fuel C" w "[]"] assms(3) obtain w1 where
    "page_loop C (jobs_request C repository run_id token) ''jobs'' (gh_fuel C) 1 [] w = (Inr (concat pages), w1)"
    "wb_sent w1 = wb_sent w @ map (\<lambda>i. jobs_request C repository run_id token (int i + 1)) [0..<length pages]"
    by (auto simp: jobs_request_def)
  then show ?thesis
    by (simp add: failed_jobs_def jobs_request_def[abs_def] bindS_def)
qed

definition sample_jobs_web :: web where
  "sample_jobs_web = constant_web (Inr (json_response 200 (JObj [(u ''jobs'', JArr [JObj [(u ''id'', JInt 1),
     (u ''name'', JStr (u ''test'')), (u ''conclusion'', JStr (u ''failure''))]])])))"

end
