(* ===== verification/Relevance.thy ===== *)
theory Relevance
  imports Sanitizer PyPath
begin

text \<open>
  Correlation of changed files with a log, \<open>src/pipelens/relevance.py\<close>: scores by path, file name,
  category and common identifiers, and the best \<open>limit\<close> files in order. The reasons are the program's
  Korean messages, as code points.
\<close>

section \<open>Constants\<close>

definition TOKEN :: pattern where
  "TOKEN =
     \<lparr>pt_rx = seqs [Cls False [IRange 65 90, IRange 97 122, ILit 95], Rep True 2 None (Cls
     False [IRange 65 90, IRange 97 122, IRange 48 57, ILit 95, ILit 45])], pt_icase = False\<rparr>"

definition PATCH_LINE :: pattern where
  "PATCH_LINE =
     \<lparr>pt_rx = seqs [Bol, Cls False [ILit 43, ILit 45], Ahead True (Cls False [ILit 43, ILit
     45])], pt_icase = False\<rparr>"

definition DEPENDENCY_MANIFESTS :: "pystr list" where
  "DEPENDENCY_MANIFESTS = [u ''package-lock.json'', u ''pnpm-lock.yaml'', u ''yarn.lock'',
     u ''poetry.lock'', u ''requirements.txt'', u ''pyproject.toml'']"

definition STOP_WORDS :: "pystr list" where
  "STOP_WORDS = [u ''error'', u ''failed'', u ''failure'', u ''fatal'', u ''file'', u ''line'',
     u ''with'', u ''from'', u ''this'', u ''that'']"

definition reason_path :: pystr where
  "reason_path = [47196, 44536, 50640] @ u '' '' @ [48320, 44221] @ u '' '' @ [54028, 51068] @ u '' '' @
       [44221, 47196, 44032] @ u '' '' @ [51649, 51217] @ u '' '' @ [46321, 51109, 54632]"

definition reason_name :: pystr where
  "reason_name = [47196, 44536, 50640] @ u '' '' @ [48320, 44221] @ u '' '' @ [54028, 51068, 47749, 51060] @ u
       '' '' @ [46321, 51109, 54632]"

definition reason_tokens :: pystr where
  "reason_tokens = [50724, 47448] @ u '' '' @ [47196, 44536, 50752] @ u '' '' @ [48320, 44221] @ u '' '' @
       [53076, 46300, 44032] @ u '' '' @ [44277, 53685] @ u '' '' @ [49885, 48324, 51088, 47484] @ u
       '' '' @ [54252, 54632, 54632]"

section \<open>Scoring\<close>

definition token_list :: "unicode \<Rightarrow> pystr \<Rightarrow> pystr list" where
  "token_list U t = filter (\<lambda>w. w \<notin> set STOP_WORDS) (map (\<lambda>m. uc_lower U (m_text m)) (finditer U TOKEN t))"

definition tokens :: "unicode \<Rightarrow> pystr \<Rightarrow> pystr set" where
  "tokens U t = set (token_list U t)"

text \<open>The loop of \<open>_matching_patch_excerpt\<close>, which stops at the third match.\<close>

fun patch_matches :: "unicode \<Rightarrow> pystr set \<Rightarrow> pystr list \<Rightarrow> pystr list \<Rightarrow> pystr list" where
  "patch_matches U log_tokens [] matches = matches"
| "patch_matches U log_tokens (line # lines) matches =
     (let matches' = (if rx_prefix U PATCH_LINE line \<noteq> None \<and> (\<exists>w \<in> set (token_list U line). w \<in> log_tokens)
            then matches @ [take 300 line] else matches)
      in if length matches' = 3 then matches' else patch_matches U log_tokens lines matches')"

definition matching_patch_excerpt :: "unicode \<Rightarrow> pystr option \<Rightarrow> pystr set \<Rightarrow> pystr option" where
  "matching_patch_excerpt U patch log_tokens =
     (if \<not> truthy patch \<or> log_tokens = {} then None
      else (let matches = patch_matches U log_tokens (splitlines (the patch)) []
            in if matches = [] then None else Some (fst (sanitize_log U (join nl matches)))))"

definition category_affinity :: "unicode \<Rightarrow> posix_path \<Rightarrow> ErrorCategory \<Rightarrow> rat \<times> pystr" where
  "category_affinity U path category =
     (let lowered = uc_lower U (path_str path); name = uc_lower U (path_name path)
      in if category = TEST \<and> (is_infix (u ''test'') name
            \<or> (\<exists>part \<in> set (path_parts path). part \<in> {u ''test'', u ''tests'', u ''spec''}))
         then (2 / 10, [53580, 49828, 53944] @ u '' '' @ [49892, 54056] @ u '' '' @ [48276, 51452, 50752] @ u '' ''
       @ [53580, 49828, 53944] @ u '' '' @ [54028, 51068, 51060] @ u '' '' @ [51068, 52824, 54632])
         else if category = WORKFLOW \<and> startswith lowered (u ''.github/workflows/'')
         then (3 / 10, u ''Workflow '' @ [50724, 47448] @ u '' '' @ [48276, 51452, 50752] @ u '' Actions '' @
       [49444, 51221] @ u '' '' @ [54028, 51068, 51060] @ u '' '' @ [51068, 52824, 54632])
         else if category = DOCKER \<and> startswith name (u ''dockerfile'')
         then (25 / 100, u ''Docker '' @ [49892, 54056] @ u '' '' @ [48276, 51452, 50752] @ u '' Dockerfile'' @
       [51060] @ u '' '' @ [51068, 52824, 54632])
         else if category = DEPENDENCY \<and> name \<in> set DEPENDENCY_MANIFESTS
         then (2 / 10, [51032, 51316, 49457] @ u '' '' @ [49892, 54056] @ u '' '' @ [48276, 51452, 50752] @ u '' ''
       @ [54056, 53412, 51648] @ u '' '' @ [49444, 51221] @ u '' '' @ [54028, 51068, 51060] @ u
       '' '' @ [51068, 52824, 54632])
         else if category = SECURITY \<and> (name \<in> set DEPENDENCY_MANIFESTS \<or> startswith name (u ''dockerfile''))
         then (2 / 10, [48372, 50504] @ u '' '' @ [44160, 49324] @ u '' '' @ [48276, 51452, 50752] @ u '' '' @
       [51032, 51316, 49457, 183, 51060, 48120, 51648] @ u '' '' @ [51221, 51032] @ u '' '' @
       [54028, 51068, 51060] @ u '' '' @ [51068, 52824, 54632])
         else (0, []))"

definition name_evidence :: "unicode \<Rightarrow> pystr \<Rightarrow> ChangedFile \<Rightarrow> rat \<times> pystr list" where
  "name_evidence U lowered_log changed =
     (if is_infix (uc_lower U (cf_filename changed)) lowered_log then (75 / 100, [reason_path])
      else if is_infix (uc_lower U (path_name (PurePosixPath (cf_filename changed)))) lowered_log
        then (5 / 10, [reason_name])
      else (0, []))"

definition score_file :: "unicode \<Rightarrow> pystr \<Rightarrow> pystr set \<Rightarrow> ErrorCategory \<Rightarrow> ChangedFile \<Rightarrow> RelatedFile list" where
  "score_file U lowered_log log_tokens category changed =
     (let (s1, r1) = name_evidence U lowered_log changed;
          (cs, cr) = category_affinity U (PurePosixPath (cf_filename changed)) category;
          s2 = (if cs \<noteq> 0 then s1 + cs else s1); r2 = (if cs \<noteq> 0 then r1 @ [cr] else r1);
          excerpt = matching_patch_excerpt U (cf_patch changed) log_tokens;
          s3 = (if truthy excerpt then s2 + 15 / 100 else s2);
          r3 = (if truthy excerpt then r2 @ [reason_tokens] else r2)
      in if r3 \<noteq> [] then [\<lparr>rf_filename = cf_filename changed, rf_score = min s3 1, rf_reasons = r3,
             rf_patch_excerpt = excerpt\<rparr>] else [])"

definition related_candidates :: "unicode \<Rightarrow> pystr \<Rightarrow> ChangedFile list \<Rightarrow> ErrorCategory \<Rightarrow> RelatedFile list" where
  "related_candidates U lg changed_files category =
     concat (map (score_file U (uc_lower U lg) (tokens U lg) category) changed_files)"

definition related_key :: "RelatedFile \<Rightarrow> rat \<times> pystr" where
  "related_key r = (- rf_score r, rf_filename r)"

definition correlate_changed_files ::
  "unicode \<Rightarrow> pystr \<Rightarrow> ChangedFile list \<Rightarrow> ErrorCategory \<Rightarrow> nat \<Rightarrow> RelatedFile list" where
  "correlate_changed_files U lg changed_files category limit =
     take limit (sort_key related_key (related_candidates U lg changed_files category))"

section \<open>Properties\<close>

lemma category_affinity_nonneg: "0 \<le> fst (category_affinity U p c)"
  by (simp add: category_affinity_def Let_def)

lemma name_evidence_score: "name_evidence U ll ch = (s, r) \<Longrightarrow> 0 \<le> s \<and> (r \<noteq> [] \<longrightarrow> 0 < s)"
  by (simp add: name_evidence_def split: if_splits)

lemma score_file_valid:
  assumes "r \<in> set (score_file U ll lt c ch)"
  shows "rf_filename r = cf_filename ch \<and> 0 < rf_score r \<and> rf_score r \<le> 1 \<and> rf_reasons r \<noteq> []"
proof -
  obtain s1 r1 where n: "name_evidence U ll ch = (s1, r1)" by (metis surj_pair)
  obtain cs cr where k: "category_affinity U (PurePosixPath (cf_filename ch)) c = (cs, cr)" by (metis surj_pair)
  have "0 \<le> cs" using category_affinity_nonneg[of U "PurePosixPath (cf_filename ch)" c] k by simp
  with name_evidence_score[OF n] assms show ?thesis
    by (auto simp: score_file_def n k Let_def split: if_splits)
qed

lemma take_sorted_best:
  assumes "x \<in> set (take k (sort_key f xs))" "y \<in> set (drop k (sort_key f xs))"
  shows "f x \<le> f y"
proof -
  have "sorted (map f (take k (sort_key f xs) @ drop k (sort_key f xs)))" by simp
  then show ?thesis using assms by (simp only: map_append sorted_append) auto
qed

text \<open>C23: the related files are scored candidates among the changed files: each has a score above 0
  and at most 1 and at least one reason; they come in descending score, ties by name, at most
  \<open>limit\<close> of them, and no candidate left out ranks above one that is shown.\<close>

theorem correlation_ranked:
  "case correlate_changed_files U lg files c limit of rs \<Rightarrow>
     length rs = min limit (length (related_candidates U lg files c))
     \<and> sorted (map related_key rs)
     \<and> set rs \<subseteq> {r \<in> set (related_candidates U lg files c).
          rf_filename r \<in> cf_filename ` set files \<and> 0 < rf_score r \<and> rf_score r \<le> 1 \<and> rf_reasons r \<noteq> []}
     \<and> (\<exists>rest. mset (related_candidates U lg files c) = mset rs + mset rest
          \<and> (\<forall>x \<in> set rs. \<forall>y \<in> set rest. related_key x \<le> related_key y))"
proof -
  let ?cs = "related_candidates U lg files c"
  let ?s = "sort_key related_key ?cs"
  have "mset ?cs = mset (take limit ?s) + mset (drop limit ?s)"
    by (metis append_take_drop_id mset_append mset_sort)
  moreover have "\<forall>x \<in> set (take limit ?s). \<forall>y \<in> set (drop limit ?s). related_key x \<le> related_key y"
    by (intro ballI) (rule take_sorted_best)
  moreover have "sorted (map related_key (take limit ?s))"
    by (metis sorted_sort_key sorted_wrt_take take_map)
  moreover have "set (take limit ?s) \<subseteq> set ?cs" by (metis set_sort set_take_subset)
  moreover have "rf_filename r \<in> cf_filename ` set files \<and> 0 < rf_score r \<and> rf_score r \<le> 1 \<and> rf_reasons r \<noteq> []"
    if "r \<in> set ?cs" for r
    using that score_file_valid by (fastforce simp: related_candidates_def)
  ultimately show ?thesis unfolding correlate_changed_files_def by (auto 4 3)
qed

theorem correlation_ranked_witness:
  "map rf_filename (correlate_changed_files ascii (u ''x a.py'')
     [\<lparr>cf_filename = u ''a.py'', cf_status = u ''m'', cf_patch = None, cf_previous_filename = None\<rparr>] TEST 5)
     = [u ''a.py'']
   \<and> sorted (map related_key (correlate_changed_files ascii (u ''x a.py'')
     [\<lparr>cf_filename = u ''a.py'', cf_status = u ''m'', cf_patch = None, cf_previous_filename = None\<rparr>] TEST 5))"
proof
  show "map rf_filename (correlate_changed_files ascii (u ''x a.py'')
     [\<lparr>cf_filename = u ''a.py'', cf_status = u ''m'', cf_patch = None, cf_previous_filename = None\<rparr>] TEST 5)
     = [u ''a.py'']" by code_simp
qed (use correlation_ranked[of ascii "u ''x a.py''"
      "[\<lparr>cf_filename = u ''a.py'', cf_status = u ''m'', cf_patch = None, cf_previous_filename = None\<rparr>]" TEST 5] in simp)

end
