(* ===== verification/Config.thy ===== *)
theory Config
  imports PyCodec "HOL-Library.Code_Target_Nat"
begin

text \<open>
  The settings of the service, \<open>src/pipelens/config.py\<close>: the record of all settings with their
  defaults, secrets read from files, the ring of token keys and the validation that a production
  configuration must pass. The file system and SHA-256 are arguments; reading the environment into
  the fields is pydantic's work, so validation starts from the fields and the set of names that were
  given explicitly. The URL parser of the standard library is written out; it leaves out its check of
  the netloc under Unicode normalisation.
\<close>

section \<open>Secret files\<close>

definition MAX_SECRET_FILE_BYTES :: nat where
  "MAX_SECRET_FILE_BYTES = 1024 * 1024"

text \<open>What the system says of a path: whether \<open>stat\<close> sees a regular file, and what opening it gives.\<close>

record file_view =
  fv_stat_regular :: "exn + bool"
  fv_open :: "exn + bool \<times> nat list"

definition os_error :: exn where
  "os_error = OtherError (u ''OSError'')"

definition is_newline :: "nat \<Rightarrow> bool" where
  "is_newline c \<longleftrightarrow> c = 13 \<or> c = 10"

definition read_secret_file :: "(pystr \<Rightarrow> file_view) \<Rightarrow> pystr \<Rightarrow> pystr \<Rightarrow> exn + pystr" where
  "read_secret_file fs path setting_name =
     (let unreadable = Inl (ValueError (setting_name @ u '' must reference a readable file''));
          irregular = Inl (ValueError (setting_name @ u '' must reference a regular file''))
      in case fv_stat_regular (fs path) of
        Inl e \<Rightarrow> if e = os_error then unreadable else Inl e
      | Inr regular \<Rightarrow> if \<not> regular then irregular
          else (case fv_open (fs path) of
            Inl e \<Rightarrow> if e = os_error then unreadable else Inl e
          | Inr (still_regular, bytes) \<Rightarrow> if \<not> still_regular then irregular
              else (let content = take (MAX_SECRET_FILE_BYTES + 1) bytes in
                if MAX_SECRET_FILE_BYTES < length content
                then Inl (ValueError (setting_name @ u '' must not exceed '' @ str_nat MAX_SECRET_FILE_BYTES @ u '' bytes''))
                else (case utf8_decode content of
                  Inl _ \<Rightarrow> Inl (ValueError (setting_name @ u '' must contain UTF-8 text''))
                | Inr t \<Rightarrow> (let v = rstrip_if is_newline t in
                    if v = [] then Inl (ValueError (setting_name @ u '' must not be empty'')) else Inr v)))))"

section \<open>Settings\<close>

datatype environment = development | production

record Settings =
  st_environment :: environment
  st_webhook_secret :: pystr
  st_github_app_id :: "pystr option"
  st_github_private_key :: "pystr option"
  st_github_app_slug :: "pystr option"
  st_github_client_id :: "pystr option"
  st_github_client_secret :: "pystr option"
  st_public_url :: pystr
  st_auth_required :: bool
  st_session_secret :: pystr
  st_token_encryption_key :: "pystr option"
  st_token_encryption_fallback_keys :: pystr
  st_session_cookie_secure :: bool
  st_session_ttl_days :: int
  st_database_path :: pystr
  st_database_url :: "pystr option"
  st_publish_checks :: bool
  st_max_log_bytes :: int
  st_log_chunk_chars :: int
  st_max_error_chunks :: int
  st_error_context_lines :: int
  st_llm_provider :: pystr
  st_openai_api_key :: "pystr option"
  st_openai_model :: pystr
  st_max_llm_input_chars :: int
  st_llm_input_cost_per_million :: rat
  st_llm_output_cost_per_million :: rat
  st_queue_backend :: pystr
  st_redis_url :: pystr
  st_queue_name :: pystr
  st_worker_max_attempts :: int
  st_worker_metrics_port :: int
  st_worker_lease_seconds :: int
  st_worker_heartbeat_seconds :: rat
  st_http_retry_max_attempts :: int
  st_http_retry_base_seconds :: rat
  st_http_retry_max_seconds :: rat
  st_analysis_start_slo_seconds :: rat
  st_analysis_completion_slo_seconds :: rat
  st_webhook_secret_file :: "pystr option"
  st_github_private_key_file :: "pystr option"
  st_github_client_secret_file :: "pystr option"
  st_session_secret_file :: "pystr option"
  st_token_encryption_key_file :: "pystr option"
  st_token_encryption_fallback_keys_file :: "pystr option"
  st_openai_api_key_file :: "pystr option"
  st_database_url_file :: "pystr option"
  st_redis_url_file :: "pystr option"

definition default_settings :: Settings where
  "default_settings = \<lparr>
     st_environment = development,
     st_webhook_secret = u ''development-secret'',
     st_github_app_id = None, st_github_private_key = None, st_github_app_slug = None,
     st_github_client_id = None, st_github_client_secret = None,
     st_public_url = u ''http://localhost:3000'',
     st_auth_required = True,
     st_session_secret = u ''development-session-secret'',
     st_token_encryption_key = None, st_token_encryption_fallback_keys = [],
     st_session_cookie_secure = False, st_session_ttl_days = 7,
     st_database_path = u ''./pipelens.db'', st_database_url = None,
     st_publish_checks = False,
     st_max_log_bytes = 10 * 1024 * 1024, st_log_chunk_chars = 200000, st_max_error_chunks = 10, st_error_context_lines = 8,
     st_llm_provider = u ''none'', st_openai_api_key = None, st_openai_model = u ''gpt-5.6'',
     st_max_llm_input_chars = 30000, st_llm_input_cost_per_million = 0, st_llm_output_cost_per_million = 0,
     st_queue_backend = u ''memory'', st_redis_url = u ''redis://localhost:6379/0'', st_queue_name = u ''pipelens:analyses'',
     st_worker_max_attempts = 3, st_worker_metrics_port = 8001, st_worker_lease_seconds = 60, st_worker_heartbeat_seconds = 15,
     st_http_retry_max_attempts = 3, st_http_retry_base_seconds = 1, st_http_retry_max_seconds = 60,
     st_analysis_start_slo_seconds = 60, st_analysis_completion_slo_seconds = 120,
     st_webhook_secret_file = None, st_github_private_key_file = None, st_github_client_secret_file = None,
     st_session_secret_file = None, st_token_encryption_key_file = None, st_token_encryption_fallback_keys_file = None,
     st_openai_api_key_file = None, st_database_url_file = None, st_redis_url_file = None\<rparr>"

definition resolved_database_url :: "Settings \<Rightarrow> pystr" where
  "resolved_database_url s = (case st_database_url s of
       Some (c # cs) \<Rightarrow> c # cs | _ \<Rightarrow> u ''sqlite:///'' @ st_database_path s)"

text \<open>The primary key and then the fallback keys, without repetition.\<close>

fun unique_keys :: "pystr list \<Rightarrow> pystr list \<Rightarrow> pystr list" where
  "unique_keys seen [] = []"
| "unique_keys seen (k # ks) = (if k \<in> set seen then unique_keys seen ks else k # unique_keys (k # seen) ks)"

definition token_encryption_key_ring :: "(nat list \<Rightarrow> nat list) \<Rightarrow> Settings \<Rightarrow> exn + pystr list" where
  "token_encryption_key_ring sha256 s =
     bindE (case st_token_encryption_key s of
         Some (c # cs) \<Rightarrow> Inr (c # cs)
       | _ \<Rightarrow> bindE (utf8_encode (st_session_secret s)) (\<lambda>bs. Inr (urlsafe_b64encode (sha256 bs))))
       (\<lambda>primary. Inr (unique_keys [] (primary # filter (\<lambda>k. k \<noteq> [])
          (map strip (split_on (u '','') (st_token_encryption_fallback_keys s))))))"

lemma unique_keys_set: "set (unique_keys seen ks) = set ks - set seen"
  by (induction seen ks rule: unique_keys.induct) auto

lemma unique_keys_distinct: "distinct (unique_keys seen ks)"
  by (induction seen ks rule: unique_keys.induct) (auto simp: unique_keys_set)

section \<open>URLs\<close>

record url_parts =
  up_scheme :: pystr
  up_netloc :: pystr
  up_path :: pystr
  up_params :: pystr
  up_query :: pystr
  up_fragment :: pystr

definition url_control :: "nat \<Rightarrow> bool" where
  "url_control c \<longleftrightarrow> c \<le> 32"

definition scheme_char :: "nat \<Rightarrow> bool" where
  "scheme_char c \<longleftrightarrow> (48 \<le> c \<and> c \<le> 57) \<or> (65 \<le> c \<and> c \<le> 90) \<or> (97 \<le> c \<and> c \<le> 122) \<or> c = 43 \<or> c = 45 \<or> c = 46"

definition split_scheme :: "pystr \<Rightarrow> pystr \<times> pystr" where
  "split_scheme url = (let a = takeWhile (\<lambda>c. c \<noteq> 58) url in
     if a \<noteq> url \<and> a \<noteq> [] \<and> scheme_char (hd a) \<and> \<not> (48 \<le> hd a \<and> hd a \<le> 57) \<and> hd a \<notin> {43, 45, 46}
        \<and> list_all scheme_char a
     then (map ascii_lower a, drop (length a + 1) url) else ([], url))"

definition split_netloc :: "pystr \<Rightarrow> pystr \<times> pystr" where
  "split_netloc url = (if prefix [47, 47] url
     then (let r = drop 2 url; n = takeWhile (\<lambda>c. c \<notin> {47, 63, 35}) r in (n, drop (length n) r)) else ([], url))"

definition split_at :: "nat \<Rightarrow> pystr \<Rightarrow> pystr \<times> pystr" where
  "split_at c s = (let a = takeWhile (\<lambda>x. x \<noteq> c) s in (a, drop (length a + 1) s))"

text \<open>The parameters after a semicolon in the last segment of the path.\<close>

definition split_params :: "pystr \<Rightarrow> pystr \<times> pystr" where
  "split_params path = (let seg = rev (takeWhile (\<lambda>c. c \<noteq> 47) (rev path)); dir = take (length path - length seg) path
     in if 59 \<in> set seg then (case split_at 59 seg of (a, b) \<Rightarrow> (dir @ a, b)) else (path, []))"

definition uses_params :: "pystr set" where
  "uses_params = {[], u ''ftp'', u ''hdl'', u ''prospero'', u ''http'', u ''https'', u ''shttp'', u ''rtsp'', u ''rtsps'',
     u ''sip'', u ''sips'', u ''mms'', u ''sftp'', u ''tel''}"

definition urlparse :: "pystr \<Rightarrow> exn + url_parts" where
  "urlparse raw =
     (let url0 = filter (\<lambda>c. c \<notin> {9, 10, 13}) (lstrip_if url_control raw);
          (scheme, url1) = split_scheme url0; (netloc, url2) = split_netloc url1;
          (url3, fragment) = split_at 35 url2; (url4, query) = split_at 63 url3;
          (path, params) = (if scheme \<in> uses_params then split_params url4 else (url4, []))
      in if (91 \<in> set netloc) \<noteq> (93 \<in> set netloc) then Inl (ValueError (u ''Invalid IPv6 URL''))
         else Inr \<lparr>up_scheme = scheme, up_netloc = netloc, up_path = path, up_params = params, up_query = query,
           up_fragment = fragment\<rparr>)"

text \<open>User name and password, \<open>None\<close> without an at sign or a colon before it.\<close>

definition userinfo :: "url_parts \<Rightarrow> pystr option" where
  "userinfo p = (let n = up_netloc p; host = rev (takeWhile (\<lambda>c. c \<noteq> 64) (rev n))
     in if 64 \<in> set n then Some (take (length n - length host - 1) n) else None)"

definition url_username :: "url_parts \<Rightarrow> pystr option" where
  "url_username p = map_option (\<lambda>i. fst (split_at 58 i)) (userinfo p)"

definition url_password :: "url_parts \<Rightarrow> pystr option" where
  "url_password p = (case userinfo p of None \<Rightarrow> None | Some i \<Rightarrow> if 58 \<in> set i then Some (snd (split_at 58 i)) else None)"

section \<open>Resolving secrets\<close>

text \<open>One entry of \<open>secret_file_fields\<close>: the attribute, how to read and set it, and its file.\<close>

record secret_field =
  sf_name :: string
  sf_value :: "Settings \<Rightarrow> pystr option"
  sf_set :: "pystr \<Rightarrow> Settings \<Rightarrow> Settings"
  sf_file :: "Settings \<Rightarrow> pystr option"

definition secret_file_fields :: "secret_field list" where
  "secret_file_fields = [
     \<lparr>sf_name = ''webhook_secret'', sf_value = (\<lambda>s. Some (st_webhook_secret s)),
       sf_set = (\<lambda>v s. s\<lparr>st_webhook_secret := v\<rparr>), sf_file = st_webhook_secret_file\<rparr>,
     \<lparr>sf_name = ''github_private_key'', sf_value = st_github_private_key,
       sf_set = (\<lambda>v s. s\<lparr>st_github_private_key := Some v\<rparr>), sf_file = st_github_private_key_file\<rparr>,
     \<lparr>sf_name = ''github_client_secret'', sf_value = st_github_client_secret,
       sf_set = (\<lambda>v s. s\<lparr>st_github_client_secret := Some v\<rparr>), sf_file = st_github_client_secret_file\<rparr>,
     \<lparr>sf_name = ''session_secret'', sf_value = (\<lambda>s. Some (st_session_secret s)),
       sf_set = (\<lambda>v s. s\<lparr>st_session_secret := v\<rparr>), sf_file = st_session_secret_file\<rparr>,
     \<lparr>sf_name = ''token_encryption_key'', sf_value = st_token_encryption_key,
       sf_set = (\<lambda>v s. s\<lparr>st_token_encryption_key := Some v\<rparr>), sf_file = st_token_encryption_key_file\<rparr>,
     \<lparr>sf_name = ''token_encryption_fallback_keys'', sf_value = (\<lambda>s. Some (st_token_encryption_fallback_keys s)),
       sf_set = (\<lambda>v s. s\<lparr>st_token_encryption_fallback_keys := v\<rparr>), sf_file = st_token_encryption_fallback_keys_file\<rparr>,
     \<lparr>sf_name = ''openai_api_key'', sf_value = st_openai_api_key,
       sf_set = (\<lambda>v s. s\<lparr>st_openai_api_key := Some v\<rparr>), sf_file = st_openai_api_key_file\<rparr>,
     \<lparr>sf_name = ''database_url'', sf_value = st_database_url,
       sf_set = (\<lambda>v s. s\<lparr>st_database_url := Some v\<rparr>), sf_file = st_database_url_file\<rparr>,
     \<lparr>sf_name = ''redis_url'', sf_value = (\<lambda>s. Some (st_redis_url s)),
       sf_set = (\<lambda>v s. s\<lparr>st_redis_url := v\<rparr>), sf_file = st_redis_url_file\<rparr>]"

definition env_name :: "string \<Rightarrow> pystr" where
  "env_name name = u ''PIPELENS_'' @ map ascii_upper (u name)"

fun resolve_secrets ::
  "(pystr \<Rightarrow> file_view) \<Rightarrow> string set \<Rightarrow> secret_field list \<Rightarrow> Settings \<Rightarrow> exn + Settings" where
  "resolve_secrets fs given [] s = Inr s"
| "resolve_secrets fs given (f # fds) s = (case sf_file f s of
       None \<Rightarrow> resolve_secrets fs given fds s
     | Some path \<Rightarrow>
         if sf_name f \<in> given \<and> truthy (sf_value f s)
         then Inl (ValueError (env_name (sf_name f) @ u '' and '' @ env_name (sf_name f @ ''_file'') @ u '' conflict''))
         else bindE (read_secret_file fs path (env_name (sf_name f @ ''_file'')))
           (\<lambda>v. resolve_secrets fs given fds (sf_set f v s)))"

section \<open>Validation\<close>

definition check_that :: "bool \<Rightarrow> pystr \<Rightarrow> exn + unit" where
  "check_that ok msg = (if ok then Inr () else Inl (ValueError msg))"

text \<open>Checks in order; the first that fails raises.\<close>

definition production_github_settings :: "(string \<times> (Settings \<Rightarrow> pystr option)) list" where
  "production_github_settings = [(''github_app_id'', st_github_app_id), (''github_private_key'', st_github_private_key),
     (''github_app_slug'', st_github_app_slug), (''github_client_id'', st_github_client_id),
     (''github_client_secret'', st_github_client_secret)]"

definition missing_github_settings :: "Settings \<Rightarrow> pystr list" where
  "missing_github_settings s = map (\<lambda>(name, _). env_name name)
     (filter (\<lambda>(_, get). case get s of None \<Rightarrow> True | Some v \<Rightarrow> strip v = []) production_github_settings)"

definition positive_app_id :: "unicode \<Rightarrow> pystr option \<Rightarrow> bool" where
  "positive_app_id U v = (case v of None \<Rightarrow> False
     | Some t \<Rightarrow> t \<noteq> [] \<and> list_all (uc_digit U) t \<and> 1 \<le> foldl (\<lambda>n c. 10 * n + uc_digit_value U c) 0 t)"

definition check_public_url :: "url_parts \<Rightarrow> exn + unit" where
  "check_public_url p =
     bindE (check_that (up_scheme p = u ''https'' \<and> up_netloc p \<noteq> []) (u ''production public URL must use HTTPS'')) (\<lambda>_.
     bindE (check_that (\<not> truthy (url_username p) \<and> \<not> truthy (url_password p))
       (u ''production public URL must not contain credentials'')) (\<lambda>_.
     bindE (check_that (up_path p \<in> {[], u ''/''} \<and> up_params p = [] \<and> up_query p = [])
       (u ''production public URL must be an origin without path or query'')) (\<lambda>_.
     check_that (up_fragment p = []) (u ''production public URL must not contain a fragment''))))"

definition check_production :: "unicode \<Rightarrow> Settings \<Rightarrow> exn + unit" where
  "check_production U s =
     bindE (urlparse (st_public_url s)) (\<lambda>p. bindE (check_public_url p) (\<lambda>_.
     bindE (check_that (st_auth_required s) (u ''production authentication must be required'')) (\<lambda>_.
     bindE (check_that (st_session_cookie_secure s) (u ''production session cookies must be secure'')) (\<lambda>_.
     bindE (check_that (32 \<le> length (st_webhook_secret s)) (u ''production webhook secret must be at least 32 characters'')) (\<lambda>_.
     bindE (check_that (32 \<le> length (st_session_secret s)) (u ''production session secret must be at least 32 characters'')) (\<lambda>_.
     bindE (check_that (truthy (st_token_encryption_key s)) (u ''production token encryption key must be configured'')) (\<lambda>_.
     bindE (check_that (missing_github_settings s = [])
       (u ''production GitHub App settings must be configured: '' @ join (u '', '') (missing_github_settings s))) (\<lambda>_.
     bindE (check_that (positive_app_id U (st_github_app_id s)) (u ''production GitHub App ID must be a positive integer'')) (\<lambda>_.
     bindE (check_that (truthy (st_database_url s)) (u ''production PostgreSQL URL must be configured'')) (\<lambda>_.
     bindE (urlparse (the (st_database_url s))) (\<lambda>db.
     bindE (check_that (up_scheme db = u ''postgresql+psycopg'' \<and> up_netloc db \<noteq> [])
       (u ''production database URL must use postgresql+psycopg'')) (\<lambda>_.
     bindE (check_that (st_queue_backend s = u ''redis'') (u ''production queue backend must be redis'')) (\<lambda>_.
     bindE (urlparse (st_redis_url s)) (\<lambda>r.
     check_that (up_scheme r \<in> {u ''redis'', u ''rediss''} \<and> up_netloc r \<noteq> [])
       (u ''production Redis URL must use redis or rediss'')))))))))))))))"

definition resolve_secrets_and_validate ::
  "unicode \<Rightarrow> (pystr \<Rightarrow> file_view) \<Rightarrow> string set \<Rightarrow> Settings \<Rightarrow> exn + Settings" where
  "resolve_secrets_and_validate U fs given s0 = bindE (resolve_secrets fs given secret_file_fields s0) (\<lambda>s.
     bindE (check_that (1 \<le> st_worker_lease_seconds s) (u ''worker lease must be at least one second'')) (\<lambda>_.
     bindE (check_that (0 < st_worker_heartbeat_seconds s \<and> st_worker_heartbeat_seconds s < of_int (st_worker_lease_seconds s))
       (u ''worker heartbeat must be positive and shorter than the lease'')) (\<lambda>_.
     bindE (check_that (0 < st_analysis_start_slo_seconds s \<and> 0 < st_analysis_completion_slo_seconds s)
       (u ''analysis SLO thresholds must be positive'')) (\<lambda>_.
     bindE (if st_environment s = production then check_production U s else Inr ()) (\<lambda>_. Inr s)))))"

section \<open>Properties\<close>

lemma check_that_ok [simp]: "check_that ok m = Inr x \<longleftrightarrow> ok"
  by (simp add: check_that_def)

text \<open>What a production configuration guarantees.\<close>

definition production_safe :: "Settings \<Rightarrow> bool" where
  "production_safe s \<longleftrightarrow> (\<exists>p. urlparse (st_public_url s) = Inr p \<and> up_scheme p = u ''https'' \<and> up_netloc p \<noteq> []
       \<and> \<not> truthy (url_username p) \<and> \<not> truthy (url_password p) \<and> up_query p = [] \<and> up_fragment p = [])
     \<and> st_auth_required s \<and> st_session_cookie_secure s
     \<and> 32 \<le> length (st_webhook_secret s) \<and> 32 \<le> length (st_session_secret s)
     \<and> truthy (st_token_encryption_key s) \<and> truthy (st_database_url s) \<and> st_queue_backend s = u ''redis''
     \<and> (\<forall>get \<in> snd ` set production_github_settings. truthy (get s))"

lemma missing_none:
  "missing_github_settings s = [] \<Longrightarrow> get \<in> snd ` set production_github_settings \<Longrightarrow> truthy (get s)"
  by (auto simp: missing_github_settings_def filter_empty_conv truthy_def strip_def lstrip_if_def rstrip_if_def split: option.splits)

lemma check_production_safe: "check_production U s = Inr x \<Longrightarrow> production_safe s"
  using missing_none[of s] by (auto simp: check_production_def check_public_url_def production_safe_def bindE_eq_Inr)

text \<open>A secret that has a file is taken from the file.\<close>

definition secret_from_file :: "(pystr \<Rightarrow> file_view) \<Rightarrow> secret_field \<Rightarrow> Settings \<Rightarrow> Settings \<Rightarrow> bool" where
  "secret_from_file fs f s0 s \<longleftrightarrow> (case sf_file f s0 of
       None \<Rightarrow> sf_value f s = sf_value f s0
     | Some path \<Rightarrow> \<exists>v. read_secret_file fs path (env_name (sf_name f @ ''_file'')) = Inr v \<and> sf_value f s = Some v)"

text \<open>The fields are independent of each other and setting one leaves all files alone.\<close>

lemma secret_fields_independent:
  assumes "f \<in> set secret_file_fields" "g \<in> set secret_file_fields"
  shows "sf_file g (sf_set f v s) = sf_file g s" "sf_value f (sf_set f v s) = Some v"
    "sf_name f \<noteq> sf_name g \<Longrightarrow> sf_value g (sf_set f v s) = sf_value g s"
  using assms by (auto simp: secret_file_fields_def)

lemma resolve_secrets_from_files:
  assumes "resolve_secrets fs given fds s0 = Inr s" "set fds \<subseteq> set secret_file_fields" "distinct (map sf_name fds)"
  shows "(\<forall>g \<in> set secret_file_fields. sf_name g \<notin> sf_name ` set fds \<longrightarrow> sf_value g s = sf_value g s0)
    \<and> (\<forall>f \<in> set fds. secret_from_file fs f s0 s)"
  using assms
proof (induction fds arbitrary: s0)
  case (Cons f fds)
  have f: "f \<in> set secret_file_fields" using Cons.prems(2) by simp
  show ?case
  proof (cases "sf_file f s0")
    case None
    then have "resolve_secrets fs given fds s0 = Inr s" using Cons.prems(1) by simp
    with Cons.IH[of s0] Cons.prems(2,3) f None show ?thesis by (auto simp: secret_from_file_def)
  next
    case (Some path)
    then obtain v where v: "read_secret_file fs path (env_name (sf_name f @ ''_file'')) = Inr v"
      "resolve_secrets fs given fds (sf_set f v s0) = Inr s"
      using Cons.prems(1) by (auto simp: bindE_eq_Inr split: if_splits)
    note IH = Cons.IH[OF v(2)]
    have keep: "secret_from_file fs g (sf_set f v s0) s \<Longrightarrow> secret_from_file fs g s0 s" if "g \<in> set fds" for g
    proof -
      have g: "g \<in> set secret_file_fields" "sf_name f \<noteq> sf_name g" using that Cons.prems(2,3) by auto
      show "secret_from_file fs g (sf_set f v s0) s \<Longrightarrow> secret_from_file fs g s0 s"
        using secret_fields_independent(1,3)[OF f g(1), of v s0] g(2) by (simp add: secret_from_file_def split: option.splits)
    qed
    have "sf_value f s = Some v"
      using IH Cons.prems(2,3) f secret_fields_independent(2)[OF f f] by auto
    moreover have "sf_value g s = sf_value g s0" if "g \<in> set secret_file_fields" "sf_name g \<notin> sf_name ` set (f # fds)" for g
      using IH Cons.prems(2,3) that secret_fields_independent(3)[OF f that(1), of v s0] by auto
    ultimately show ?thesis using IH Cons.prems(2,3) keep v(1) Some by (auto simp: secret_from_file_def)
  qed
qed simp


definition sample_files :: "pystr \<Rightarrow> file_view" where
  "sample_files path = \<lparr>fv_stat_regular = Inr True, fv_open = Inr (True, u ''from-file'' @ nl)\<rparr>"


end
