(* ===== verification/Diagnosing.thy ===== *)
theory Diagnosing
  imports Classifier
begin

text \<open>
  The rule-based diagnosis and its validation, \<open>src/pipelens/diagnosis.py\<close>. The messages are Korean
  and are written as code points. \<open>validate_diagnosis\<close> changes the object it is given and returns
  it; the model returns the changed record.
\<close>

fun MESSAGES :: "ErrorCategory \<Rightarrow> pystr \<times> pystr \<times> pystr" where
  "MESSAGES TEST =
     ([53580, 49828, 53944, 44032] @ u '' '' @ [49892, 54056, 54664, 49845, 45768, 45796] @ u ''.'',
      [53580, 49828, 53944] @ u '' assertion '' @ [46608, 45716] @ u '' '' @ [53580, 49828, 53944]
       @ u '' '' @ [51456, 48708] @ u '' '' @ [44284, 51221, 50640, 49436] @ u '' '' @ [52572,
       52488] @ u '' '' @ [50724, 47448, 44032] @ u '' '' @ [48156, 49373, 54664, 49845, 45768,
       45796] @ u ''.'',
      [52572, 52488] @ u '' '' @ [49892, 54056] @ u '' '' @ [53580, 49828, 53944, 50752] @ u '' ''
       @ [44536] @ u '' '' @ [51077, 47141, 51012] @ u '' '' @ [47196, 52972, 50640, 49436] @ u
       '' '' @ [51116, 54788, 54616, 49464, 50836] @ u ''.'')"
| "MESSAGES BUILD =
     ([48716, 46300] @ u '' '' @ [46608, 45716] @ u '' '' @ [52980, 54028, 51068, 51060] @ u '' ''
       @ [49892, 54056, 54664, 49845, 45768, 45796] @ u ''.'',
      [52980, 54028, 51068, 47084, 44032] @ u '' '' @ [53076, 46300] @ u '' '' @ [46608, 45716] @ u
       '' '' @ [47553, 53356] @ u '' '' @ [50724, 47448, 47484] @ u '' '' @ [48372, 44256, 54664,
       49845, 45768, 45796] @ u ''.'',
      [52572, 52488] @ u '' '' @ [52980, 54028, 51068] @ u '' '' @ [50724, 47448] @ u '' '' @
       [50948, 52824, 47484] @ u '' '' @ [49688, 51221, 54620] @ u '' '' @ [46244] @ u '' '' @
       [48716, 46300, 47484] @ u '' '' @ [45796, 49884] @ u '' '' @ [49892, 54665, 54616, 49464,
       50836] @ u ''.'')"
| "MESSAGES DEPENDENCY =
     ([51032, 51316, 49457] @ u '' '' @ [49444, 52824, 44032] @ u '' '' @ [49892, 54056, 54664,
       49845, 45768, 45796] @ u ''.'',
      [54056, 53412, 51648] @ u '' '' @ [48260, 51204] @ u '' '' @ [54644, 49437] @ u '' '' @
       [46608, 45716] @ u '' '' @ [49444, 52824] @ u '' '' @ [45800, 44228, 50640, 49436] @ u '' ''
       @ [50724, 47448, 44032] @ u '' '' @ [48156, 49373, 54664, 49845, 45768, 45796] @ u ''.'',
      u ''lockfile'' @ [44284] @ u '' '' @ [47088, 53440, 51076] @ u '' '' @ [48260, 51204, 51012]
       @ u '' '' @ [54869, 51064, 54616, 44256] @ u '' '' @ [51032, 51316, 49457, 51012] @ u '' '' @
       [45796, 49884] @ u '' '' @ [44256, 51221, 54616, 49464, 50836] @ u ''.'')"
| "MESSAGES LINT =
     (u ''Lint '' @ [46608, 45716] @ u '' '' @ [54252, 47607] @ u '' '' @ [44160, 49324, 44032] @ u
       '' '' @ [49892, 54056, 54664, 49845, 45768, 45796] @ u ''.'',
      [53076, 46300] @ u '' '' @ [49828, 53440, 51068] @ u '' '' @ [44160, 49324] @ u '' '' @
       [46020, 44396, 44032] @ u '' '' @ [50948, 48152] @ u '' '' @ [49324, 54637, 51012] @ u '' ''
       @ [48156, 44204, 54664, 49845, 45768, 45796] @ u ''.'',
      u ''CI'' @ [50752] @ u '' '' @ [46041, 51068, 54620] @ u '' lint/format '' @ [47749, 47161,
       51012] @ u '' '' @ [49892, 54665, 54644] @ u '' '' @ [48372, 44256, 46108] @ u '' '' @
       [54028, 51068, 51012] @ u '' '' @ [49688, 51221, 54616, 49464, 50836] @ u ''.'')"
| "MESSAGES DOCKER =
     (u ''Docker '' @ [51060, 48120, 51648] @ u '' '' @ [48716, 46300, 44032] @ u '' '' @ [49892,
       54056, 54664, 49845, 45768, 45796] @ u ''.'',
      u ''Dockerfile'' @ [51032] @ u '' '' @ [48716, 46300] @ u '' '' @ [45800, 44228, 44032] @ u
       '' '' @ [51221, 49345, 51201, 51004, 47196] @ u '' '' @ [50756, 47308, 46104, 51648] @ u
       '' '' @ [50506, 50520, 49845, 45768, 45796] @ u ''.'',
      [49892, 54056, 54620] @ u '' Dockerfile '' @ [45800, 44228, 50752] @ u '' build context'' @
       [47484] @ u '' '' @ [54869, 51064, 54616, 49464, 50836] @ u ''.'')"
| "MESSAGES DEPLOY_AUTH =
     ([48176, 54252] @ u '' '' @ [51064, 51613, 50640] @ u '' '' @ [49892, 54056, 54664, 49845,
       45768, 45796] @ u ''.'',
      [48176, 54252] @ u '' '' @ [45824, 49345, 51060] @ u '' '' @ [54788, 51116] @ u '' '' @
       [51088, 44201, 51613, 47749, 51012] @ u '' '' @ [44144, 48512, 54664, 49845, 45768, 45796] @
       u ''.'',
      [48176, 54252, 50857] @ u '' secret'' @ [51032] @ u '' '' @ [47564, 47308] @ u '' '' @
       [50668, 48512, 50752] @ u '' '' @ [44428, 54620] @ u '' '' @ [48276, 50948, 47484] @ u '' ''
       @ [54869, 51064, 54616, 49464, 50836] @ u ''.'')"
| "MESSAGES MISSING_ENV =
     ([54596, 49688] @ u '' '' @ [54872, 44221, 48320, 49688, 44032] @ u '' '' @ [50630, 49845,
       45768, 45796] @ u ''.'',
      [49892, 54665, 50640] @ u '' '' @ [54596, 50836, 54620] @ u '' '' @ [54872, 44221, 48320,
       49688, 44032] @ u '' workflow step'' @ [50640] @ u '' '' @ [51204, 45804, 46104, 51648] @ u
       '' '' @ [50506, 50520, 49845, 45768, 45796] @ u ''.'',
      u ''Repository/Environment secret'' @ [44284] @ u '' workflow'' @ [51032] @ u '' env '' @
       [47588, 54609, 51012] @ u '' '' @ [54869, 51064, 54616, 49464, 50836] @ u ''.'')"
| "MESSAGES TIMEOUT =
     ([51089, 50629] @ u '' '' @ [51228, 54620] @ u '' '' @ [49884, 44036, 51012] @ u '' '' @
       [52488, 44284, 54664, 49845, 45768, 45796] @ u ''.'',
      [47749, 47161, 51060] @ u '' '' @ [54728, 50857, 46108] @ u '' '' @ [49884, 44036] @ u '' ''
       @ [50504, 50640] @ u '' '' @ [45149, 45208, 51648] @ u '' '' @ [50506, 50520, 49845, 45768,
       45796] @ u ''.'',
      [51221, 52404, 46108] @ u '' '' @ [51089, 50629, 51012] @ u '' '' @ [54869, 51064, 54616,
       44256] @ u '' '' @ [54596, 50836, 54616, 47732] @ u '' timeout-minutes'' @ [47484] @ u '' ''
       @ [51312, 51221, 54616, 49464, 50836] @ u ''.'')"
| "MESSAGES RESOURCE =
     ([49892, 54665] @ u '' '' @ [54872, 44221, 51032] @ u '' '' @ [51088, 50896, 51060] @ u '' ''
       @ [48512, 51313, 54633, 45768, 45796] @ u ''.'',
      u ''Runner'' @ [51032] @ u '' '' @ [46356, 49828, 53356] @ u '' '' @ [46608, 45716] @ u '' ''
       @ [47700, 47784, 47532, 44032] @ u '' '' @ [49548, 51652, 46104, 50632, 49845, 45768, 45796]
       @ u ''.'',
      [52880, 49884, 50752] @ u '' '' @ [48520, 54596, 50836, 54620] @ u '' '' @ [49328, 52636,
       47932, 51012] @ u '' '' @ [51460, 51060, 44144, 45208] @ u '' '' @ [45908] @ u '' '' @
       [53360] @ u '' runner'' @ [47484] @ u '' '' @ [49324, 50857, 54616, 49464, 50836] @ u ''.'')"
| "MESSAGES WORKFLOW =
     (u ''GitHub Actions workflow '' @ [49444, 51221, 51060] @ u '' '' @ [50976, 54952, 54616,
       51648] @ u '' '' @ [50506, 49845, 45768, 45796] @ u ''.'',
      u ''Workflow YAML '' @ [54364, 54788, 49885] @ u '' '' @ [46608, 45716] @ u '' '' @ [44396,
       47928] @ u '' '' @ [44160, 51613, 50640] @ u '' '' @ [49892, 54056, 54664, 49845, 45768,
       45796] @ u ''.'',
      [54364, 49884, 46108] @ u '' workflow '' @ [50948, 52824, 51032] @ u '' YAML'' @ [44284] @ u
       '' Actions '' @ [54364, 54788, 49885, 51012] @ u '' '' @ [49688, 51221, 54616, 49464, 50836]
       @ u ''.'')"
| "MESSAGES SECURITY =
     ([48372, 50504] @ u '' '' @ [44160, 49324, 44032] @ u '' '' @ [49892, 54665, 51012] @ u '' ''
       @ [52264, 45800, 54664, 49845, 45768, 45796] @ u ''.'',
      [52712, 50557, 51216, 183] @ u ''secret'' @ [183, 53076, 46300] @ u '' '' @ [49828, 52884] @
       u '' '' @ [46020, 44396, 44032] @ u '' '' @ [54728, 50857] @ u '' '' @ [44592, 51456, 51012]
       @ u '' '' @ [45336, 45716] @ u '' '' @ [48156, 44204] @ u '' '' @ [49324, 54637, 51012] @ u
       '' '' @ [48372, 44256, 54664, 49845, 45768, 45796] @ u ''.'',
      [48372, 44256, 46108] @ u '' package'' @ [47484] @ u '' '' @ [49688, 51221] @ u '' '' @
       [48260, 51204, 51004, 47196] @ u '' '' @ [50732, 47532, 44256] @ u '', secret'' @ [51008] @ u
       '' '' @ [51593, 49884] @ u '' '' @ [54224, 44592, 183, 44368, 52404, 54620] @ u '' '' @
       [46244] @ u '' '' @ [45796, 49884] @ u '' '' @ [44160, 49324, 54616, 49464, 50836] @ u ''.'')"
| "MESSAGES UNKNOWN =
     ([49892, 54056] @ u '' '' @ [50896, 51064, 51012] @ u '' '' @ [51088, 46041] @ u '' '' @
       [48516, 47448, 54616, 51648] @ u '' '' @ [47803, 54664, 49845, 45768, 45796] @ u ''.'',
      [54788, 51116] @ u '' '' @ [47196, 44536, 47564, 51004, 47196] @ u '' '' @ [50896, 51064,
       51012] @ u '' '' @ [54869, 51064, 54624] @ u '' '' @ [49688] @ u '' '' @ [50630, 49845,
       45768, 45796] @ u ''.'',
      [52395] @ u '' '' @ [50724, 47448] @ u '' '' @ [51204, 54980, 51032] @ u '' '' @ [51204,
       52404] @ u '' '' @ [47196, 44536, 50752] @ u '' workflow '' @ [49444, 51221, 51012] @ u '' ''
       @ [54869, 51064, 54616, 49464, 50836] @ u ''.'')"

definition cannot_confirm :: pystr where
  "cannot_confirm = [54869, 51064] @ u '' '' @ [48520, 44032]"

definition unconfirmed_evidence :: pystr where
  "unconfirmed_evidence = [48516, 49437] @ u '' '' @ [44208, 44284, 44032] @ u '' '' @ [51077, 47141] @ u '' '' @
       [47196, 44536, 50640, 49436] @ u '' '' @ [54869, 51064, 54624] @ u '' '' @ [49688] @ u '' ''
       @ [50630, 45716] @ u '' '' @ [44540, 44144, 47484] @ u '' '' @ [51064, 50857, 54664, 49845,
       45768, 45796] @ u ''.''"

definition build_rule_based_diagnosis :: "Classification \<Rightarrow> Diagnosis" where
  "build_rule_based_diagnosis c = (case MESSAGES (cl_category c) of (summary, cause, suggestion) \<Rightarrow>
     \<lparr>dg_summary = summary,
      dg_root_cause = (if cl_category c \<noteq> UNKNOWN then cause else cannot_confirm),
      dg_confidence = cl_confidence c,
      dg_evidence = [\<lparr>ev_source = u ''log'', ev_content = cl_first_error c, ev_location = cl_related_step c\<rparr>],
      dg_suggestions = [\<lparr>sg_description = suggestion, sg_file = None, sg_patch = None,
        sg_source = None, sg_patch_verified = False\<rparr>],
      dg_conflicts = [], dg_notes = []\<rparr>)"

definition validate_diagnosis :: "Diagnosis \<Rightarrow> pystr \<Rightarrow> pystr set option \<Rightarrow> Diagnosis" where
  "validate_diagnosis d lg repository_files =
     (let valid_evidence = filter (\<lambda>e. ev_source e \<noteq> u ''log'' \<or> is_infix (ev_content e) lg) (dg_evidence d);
          valid_suggestions = filter (\<lambda>s. \<not> truthy (sg_file s)
             \<or> (case repository_files of None \<Rightarrow> False | Some fs \<Rightarrow> the (sg_file s) \<in> fs)) (dg_suggestions d);
          d' = (if valid_evidence = []
            then d\<lparr>dg_root_cause := cannot_confirm, dg_confidence := min (dg_confidence d) (3 / 10),
                   dg_conflicts := dg_conflicts d @ [unconfirmed_evidence]\<rparr> else d)
      in d'\<lparr>dg_evidence := valid_evidence, dg_suggestions := valid_suggestions\<rparr>)"

section \<open>Properties\<close>

lemma rule_diagnosis_fields:
  "dg_evidence (build_rule_based_diagnosis c) =
     [\<lparr>ev_source = u ''log'', ev_content = cl_first_error c, ev_location = cl_related_step c\<rparr>]"
  "dg_confidence (build_rule_based_diagnosis c) = cl_confidence c"
  "dg_conflicts (build_rule_based_diagnosis c) = []"
  "filter (\<lambda>s. sg_file s \<noteq> None) (dg_suggestions (build_rule_based_diagnosis c)) = []"
  by (cases "MESSAGES (cl_category c)", simp add: build_rule_based_diagnosis_def)+

lemma validate_diagnosis_fields:
  "dg_evidence (validate_diagnosis d lg fs)
     = filter (\<lambda>e. ev_source e \<noteq> u ''log'' \<or> is_infix (ev_content e) lg) (dg_evidence d)"
  "dg_evidence (validate_diagnosis d lg fs) \<noteq> [] \<Longrightarrow> dg_confidence (validate_diagnosis d lg fs) = dg_confidence d"
  "dg_evidence (validate_diagnosis d lg fs) \<noteq> [] \<Longrightarrow> dg_conflicts (validate_diagnosis d lg fs) = dg_conflicts d"
  "dg_evidence (validate_diagnosis d lg fs) = [] \<Longrightarrow> dg_root_cause (validate_diagnosis d lg fs) = cannot_confirm
     \<and> dg_confidence (validate_diagnosis d lg fs) = min (dg_confidence d) (3 / 10)
     \<and> dg_conflicts (validate_diagnosis d lg fs) = dg_conflicts d @ [unconfirmed_evidence]"
  "set (dg_suggestions (validate_diagnosis d lg fs)) \<subseteq> set (dg_suggestions d)"
  by (auto simp: validate_diagnosis_def Let_def)

lemma is_infix_trans: "is_infix a b \<Longrightarrow> is_infix b c \<Longrightarrow> is_infix a c"
  unfolding is_infix_iff by (metis append.assoc)

lemma dropWhile_infix: "is_infix (rev (dropWhile p (rev (dropWhile q s)))) s"
proof -
  let ?t = "dropWhile q s"
  have "s = takeWhile q s @ rev (dropWhile p (rev ?t)) @ rev (takeWhile p (rev ?t))"
    by (metis rev_append rev_rev_ident takeWhile_dropWhile_id)
  then show ?thesis unfolding is_infix_iff by blast
qed

lemma strip_infix: "is_infix (strip s) s"
  by (simp add: strip_def rstrip_if_def lstrip_if_def dropWhile_infix)

lemma splitlines_infix: "l \<in> set (splitlines s) \<Longrightarrow> is_infix l s"
proof (induction s rule: split_ends.induct)
  case (1 s)
  show ?case
  proof (cases "s = []")
    case False
    obtain l' e r where sp: "split_line s = (l', e, r)" by (metis prod_cases3)
    note app = split_line_append[OF sp]
    from sp 1(2) False have "l = l' \<or> l \<in> set (splitlines r)"
      by (auto simp: splitlines_def split_ends.simps[of s])
    moreover have "is_infix l' s" "is_infix r s"
      unfolding is_infix_iff using app by (metis append_Nil, metis append_Nil2 append.assoc)
    ultimately show ?thesis using 1(1)[OF False sp[symmetric] refl] is_infix_trans by blast
  qed (use 1(2) in \<open>simp add: splitlines_def split_ends.simps\<close>)
qed

lemma log_lines_infix: "l \<in> set (log_lines lg) \<Longrightarrow> is_infix l lg"
  by (auto simp: log_lines_def intro: is_infix_trans[OF strip_infix splitlines_infix])

lemma classified_line:
  assumes "log_lines lg \<noteq> []"
  shows "cl_first_error (classify_log U lg st) \<in> set (log_lines lg)"
proof (cases "first_classified U st (log_lines lg)")
  case None
  obtain l ls where "log_lines lg = l # ls" using assms by (cases "log_lines lg") auto
  with None show ?thesis
    using filter_is_subset[of "rx_found U ERROR_LINE" "l # ls"]
    by (auto simp: classify_log_def Let_def first_error_line_def split: list.splits)
next
  case (Some c)
  with first_classified_Some[OF Some] show ?thesis by (auto simp: classify_log_def Let_def)
qed

text \<open>A text whose lines are all blank consists of white space.\<close>

lemma strip_Nil: "strip s = [] \<Longrightarrow> \<forall>c \<in> set s. is_space c"
proof
  fix c assume "strip s = []" "c \<in> set s"
  then have "dropWhile is_space (rev (dropWhile is_space s)) = []"
    by (simp add: strip_def rstrip_if_def lstrip_if_def)
  then have "\<forall>x \<in> set (dropWhile is_space s). is_space x" by (simp add: dropWhile_eq_Nil_conv)
  then have "dropWhile is_space s = []" by (cases "dropWhile is_space s") (auto dest: hd_dropWhile simp: dropWhile_eq_Cons_conv)
  with \<open>c \<in> set s\<close> show "is_space c" by (simp add: dropWhile_eq_Nil_conv)
qed

lemma line_end_space: "is_line_end c \<Longrightarrow> is_space c" "is_space 13" "is_space 10"
  unfolding is_line_end_def is_space_def by linarith+

lemma split_line_end_space: "split_line s = (l, e, r) \<Longrightarrow> \<forall>c \<in> set e. is_space c"
  by (induction s arbitrary: l e r rule: split_line.induct)
    (auto simp: Let_def line_end_space split: if_splits prod.splits)

lemma blank_lines_space: "\<forall>l \<in> set (splitlines s). strip l = [] \<Longrightarrow> \<forall>c \<in> set s. is_space c"
proof (induction s rule: split_ends.induct)
  case (1 s)
  show ?case
  proof (cases "s = []")
    case False
    obtain l e r where sp: "split_line s = (l, e, r)" by (metis prod_cases3)
    from sp 1(2) False have "strip l = []" "\<forall>l \<in> set (splitlines r). strip l = []"
      by (auto simp: splitlines_def split_ends.simps[of s])
    with 1(1)[OF False sp[symmetric] refl] strip_Nil[of l] split_line_end_space[OF sp] split_line_append[OF sp]
    show ?thesis by auto
  qed simp
qed

text \<open>The rule-based diagnosis of a log is grounded in it. If the log has a line that is not blank,
  the evidence of the validated diagnosis is one such line, an excerpt of the log, and the
  classification's confidence is kept; otherwise the evidence is dropped, the cause is marked as
  unconfirmed and the confidence does not exceed 0.3. No suggestion names a file.\<close>

lemma rule_diagnosis_grounded:
  "case validate_diagnosis (build_rule_based_diagnosis (classify_log U lg st)) lg files of d \<Rightarrow>
     (if log_lines lg \<noteq> []
      then (\<exists>e. dg_evidence d = [e] \<and> ev_content e \<in> set (log_lines lg) \<and> is_infix (ev_content e) lg)
        \<and> dg_confidence d = cl_confidence (classify_log U lg st) \<and> dg_conflicts d = []
      else dg_evidence d = [] \<and> dg_root_cause d = cannot_confirm \<and> dg_confidence d \<le> 3 / 10
        \<and> dg_conflicts d = [unconfirmed_evidence])
     \<and> filter (\<lambda>s. sg_file s \<noteq> None) (dg_suggestions d) = []"
proof -
  let ?b = "build_rule_based_diagnosis (classify_log U lg st)"
  have nofile: "filter (\<lambda>s. sg_file s \<noteq> None) (dg_suggestions (validate_diagnosis ?b lg files)) = []"
    using validate_diagnosis_fields(5)[of ?b lg files] rule_diagnosis_fields(4)[of "classify_log U lg st"]
    by (auto simp: filter_empty_conv)
  show ?thesis
proof (cases "log_lines lg = []")
  case True
  have "\<not> is_infix (u ''No error output was captured'') lg"
  proof
    assume "is_infix (u ''No error output was captured'') lg"
    then obtain a b where lg: "lg = a @ u ''No error output was captured'' @ b" unfolding is_infix_iff by blast
    have "\<forall>l \<in> set (splitlines lg). strip l = []"
      using True by (auto simp: log_lines_def filter_empty_conv)
    then have "\<forall>c \<in> set lg. is_space c" using blank_lines_space by blast
    then have "is_space 78" unfolding lg by (simp add: u_def)
    then show False by (simp add: is_space_def)
  qed
  moreover have "cl_first_error (classify_log U lg st) = u ''No error output was captured''"
    using True by (simp add: classify_log_def first_error_line_def)
  ultimately have "dg_evidence (validate_diagnosis ?b lg files) = []"
    by (simp add: validate_diagnosis_fields(1) rule_diagnosis_fields)
  with validate_diagnosis_fields(4)[OF this] True nofile show ?thesis by (simp add: rule_diagnosis_fields)
next
  case False
  note c = classified_line[OF False, of U st]
  with log_lines_infix[OF c]
  have e: "dg_evidence (validate_diagnosis ?b lg files) =
      [\<lparr>ev_source = u ''log'', ev_content = cl_first_error (classify_log U lg st),
        ev_location = cl_related_step (classify_log U lg st)\<rparr>]"
    by (simp add: validate_diagnosis_fields(1) rule_diagnosis_fields)
  then have "dg_evidence (validate_diagnosis ?b lg files) \<noteq> []" by simp
  with e c log_lines_infix[OF c] False nofile show ?thesis
    by (simp add: validate_diagnosis_fields(2,3) rule_diagnosis_fields)
qed
qed

end
