(* ===== verification/Publication.thy ===== *)
theory Publication
  imports PyText PyFloat
begin

text \<open>
  The Markdown report that is published on GitHub, \<open>src/pipelens/publication.py\<close>. Sections are built
  in order and joined by line feeds; every value from the analysis goes through \<open>_safe\<close>, and a body
  that is too long is cut and given a closing link.
\<close>

section \<open>Escaping\<close>

definition MAX_GITHUB_BODY_CHARS :: nat where
  "MAX_GITHUB_BODY_CHARS = 60000"

text \<open>\<open>html.escape(value, quote=False)\<close>.\<close>

definition html_escape :: "pystr \<Rightarrow> pystr" where
  "html_escape v = replace (u ''>'') (u ''&gt;'') (replace (u ''<'') (u ''&lt;'') (replace (u ''&'') (u ''&amp;'') v))"

definition safe :: "pystr \<Rightarrow> pystr" where
  "safe v = replace (u ''@'') (u ''@'' @ [8203]) (html_escape v)"

definition safe_url :: "pystr \<Rightarrow> pystr" where
  "safe_url v = replace (u '' '') (u ''%20'') (replace (u '')'') (u ''%29'') (replace (u ''('') (u ''%28'') v))"

definition code_block :: "pystr \<Rightarrow> pystr" where
  "code_block v = u ''<pre><code>'' @ safe v @ u ''</code></pre>''"

section \<open>Rendering\<close>

definition fork_warning :: "pystr list" where
  "fork_warning = [u ''> [!WARNING]'',
     u ''> '' @ [50808, 48512] @ u '' Fork'' @ [50640, 49436] @ u '' '' @ [49884, 51089, 46108] @
       u '' '' @ [49892, 54665, 51077, 45768, 45796] @ u ''. '' @ [44508, 52825] @ u '' '' @ [44592,
       48152] @ u '' '' @ [51652, 45800, 47564] @ u '' '' @ [49688, 54665, 54664, 51004, 47728] @ u
       '','',
     u ''> Fork'' @ [51032] @ u '' '' @ [47196, 44536, 183, 53076, 46300, 183] @ u ''Workflow '' @
       [45236, 50857, 51008] @ u '' LLM'' @ [50640] @ u '' '' @ [51204, 49569, 54616, 51648] @ u
       '' '' @ [50506, 50520, 49845, 45768, 45796] @ u ''.'',
     []]"

definition evidence_section :: "Evidence \<Rightarrow> pystr list" where
  "evidence_section e =
     [u ''**'' @ safe (ev_source e)
        @ (if truthy (ev_location e) then u '' '' @ [183] @ u '' '' @ safe (the (ev_location e)) else []) @ u ''**'',
      code_block (ev_content e), []]"

definition related_section :: "RelatedFile \<Rightarrow> pystr" where
  "related_section r = u ''- '' @ [96] @ safe (rf_filename r) @ [96] @ u '' ('' @ percent (rf_score r) @ u '') '' @ [8212] @ u '' ''
     @ join (u '' '' @ [183] @ u '' '') (map safe (rf_reasons r))"

definition short_sha :: "pystr \<Rightarrow> pystr" where
  "short_sha s = safe (take 12 s)"

definition suggestion_section :: "pystr option \<Rightarrow> nat \<Rightarrow> Suggestion \<Rightarrow> pystr list" where
  "suggestion_section head_sha index s =
     [str_nat index @ u ''. '' @ safe (sg_description s)
        @ (if truthy (sg_file s) then u '' ('' @ [96] @ safe (the (sg_file s)) @ [96] @ u '')'' else [])]
     @ (if truthy (sg_patch s) \<and> sg_patch_verified s
        then [[],
              u ''   '' @ [44160, 51613, 46108] @ u '' '' @ [49688, 51221] @ u '' diff (''
                @ (if sg_source s = Some RULE then [44508, 52825] else u ''LLM'') @ u '') '' @ [8212] @ u '' head''
                @ (if truthy head_sha then u '' '' @ [96] @ short_sha (the head_sha) @ [96] else [])
                @ [50640] @ u '' '' @ [44536, 45824, 47196] @ u '' '' @ [51201, 50857, 46120, 51012] @ u '' ''
       @ [54869, 51064],
              code_block (the (sg_patch s)), []]
        else [])"

fun suggestion_sections :: "pystr option \<Rightarrow> nat \<Rightarrow> Suggestion list \<Rightarrow> pystr list" where
  "suggestion_sections head_sha index [] = []"
| "suggestion_sections head_sha index (s # ss) =
     suggestion_section head_sha index s @ suggestion_sections head_sha (index + 1) ss"

definition report_sections ::
  "int \<Rightarrow> Classification \<Rightarrow> Diagnosis \<Rightarrow> RelatedFile list \<Rightarrow> pystr \<Rightarrow> TrustLevel
     \<Rightarrow> pystr option \<Rightarrow> pystr option \<Rightarrow> pystr list" where
  "report_sections run_id c d related details_url trust baseline_sha head_sha =
     [u ''## PipeLens '' @ [49892, 54056] @ u '' '' @ [51652, 45800], []]
     @ (if trust = UNTRUSTED_FORK then fork_warning else [])
     @ [safe (dg_summary d), [],
        u ''**'' @ [50724, 47448] @ u '' '' @ [50976, 54805] @ u '':** '' @ [96] @ category_value (cl_category c) @ [96] @ u ''  '',
        u ''**'' @ [49888, 47280, 46020] @ u '':** '' @ percent (dg_confidence d) @ u ''  '',
        u ''**'' @ [44288, 47144] @ u '' Step:** '' @ safe (if truthy (cl_related_step c) then the (cl_related_step c)
          else [54869, 51064] @ u '' '' @ [48520, 44032]), []]
     @ (if truthy baseline_sha \<and> truthy head_sha
        then [u ''**'' @ [48320, 44221] @ u '' '' @ [48708, 44368] @ u '':** '' @ [96] @ short_sha (the baseline_sha) @ u ''..'' @ short_sha (the head_sha) @ [96], []]
        else [])
     @ [u ''### '' @ [52628, 51221] @ u '' '' @ [50896, 51064], [], safe (dg_root_cause d), [], u ''### '' @ [44160, 51613, 46108] @ u '' '' @ [44540, 44144], []]
     @ concat (map evidence_section (dg_evidence d))
     @ [u ''### '' @ [44288, 47144] @ u '' '' @ [48320, 44221] @ u '' '' @ [54028, 51068], []]
     @ (if related \<noteq> [] then map related_section related
        else [[47196, 44536, 50752] @ u '' '' @ [51649, 51217] @ u '' '' @ [50672, 44208, 46104, 45716] @ u
       '' '' @ [48320, 44221] @ u '' '' @ [54028, 51068, 51012] @ u '' '' @ [52286, 51648] @ u '' ''
       @ [47803, 54664, 49845, 45768, 45796] @ u ''.''])
     @ [[], u ''### '' @ [44428, 51109] @ u '' '' @ [54644, 44208] @ u '' '' @ [48169, 48277], []]
     @ suggestion_sections head_sha 1 (dg_suggestions d)
     @ (if dg_suggestions d = [] then [[44160, 51613] @ u '' '' @ [44032, 45733, 54620] @ u '' '' @ [49688, 51221] @ u '' '' @
       [51228, 50504, 51012] @ u '' '' @ [49373, 49457, 54616, 51648] @ u '' '' @ [47803, 54664,
       49845, 45768, 45796] @ u ''.''] else [])
     @ (if dg_conflicts d \<noteq> [] then [[], u ''### '' @ [48516, 49437] @ u '' '' @ [52649, 46028], []] @ map (\<lambda>t. u ''- '' @ safe t) (dg_conflicts d) else [])
     @ (if dg_notes d \<noteq> [] then [[], u ''### '' @ [52280, 44256], []] @ map (\<lambda>t. u ''- '' @ safe t) (dg_notes d) else [])
     @ [[], u ''---'',
        u ''[PipeLens'' @ [50640, 49436] @ u '' '' @ [51204, 52404] @ u '' '' @ [48516, 49437] @ u
       '' '' @ [48372, 44592] @ u '']('' @ safe_url details_url @ u '') '' @ [183] @ u '' Workflow run '' @ [96] @ str_int run_id @ [96]]"

definition overflow_suffix :: "pystr \<Rightarrow> pystr" where
  "overflow_suffix details_url = nl @ nl @ u ''---'' @ nl
     @ [45236, 50857, 51060] @ u '' '' @ [44600, 50612] @ u '' '' @ [51068, 48512, 47484] @ u '' ''
       @ [49373, 47029, 54664, 49845, 45768, 45796] @ u ''. ['' @ [51204, 52404] @ u '' '' @ [48516,
       49437] @ u '' '' @ [48372, 44592] @ u '']('' @ safe_url details_url @ u '')''"

text \<open>\<open>body[: MAX - len(suffix)] + suffix\<close>; a negative bound counts from the end.\<close>

definition limit_body :: "pystr \<Rightarrow> pystr \<Rightarrow> pystr" where
  "limit_body body tail =
     (if length body \<le> MAX_GITHUB_BODY_CHARS then body
      else if length tail \<le> MAX_GITHUB_BODY_CHARS
        then take (MAX_GITHUB_BODY_CHARS - length tail) body @ tail
      else take (length body - (length tail - MAX_GITHUB_BODY_CHARS)) body @ tail)"

definition render_github_diagnosis ::
  "int \<Rightarrow> Classification \<Rightarrow> Diagnosis \<Rightarrow> RelatedFile list \<Rightarrow> pystr \<Rightarrow> TrustLevel
     \<Rightarrow> pystr option \<Rightarrow> pystr option \<Rightarrow> pystr" where
  "render_github_diagnosis run_id c d related details_url trust baseline_sha head_sha =
     limit_body (join nl (report_sections run_id c d related details_url trust baseline_sha head_sha))
       (overflow_suffix details_url)"

section \<open>Properties\<close>

definition safe_char :: "nat \<Rightarrow> pystr" where
  "safe_char c = (if c = 38 then u ''&amp;'' else if c = 60 then u ''&lt;'' else if c = 62 then u ''&gt;''
     else if c = 64 then [64, 8203] else [c])"

lemma u_single: "u ''&'' = [38]" "u ''<'' = [60]" "u ''>'' = [62]" "u ''@'' = [64]"
  by (simp_all add: u_def)

lemma safe_map: "safe v = concat (map safe_char v)"
proof (induction v)
  case Nil
  show ?case by (simp add: safe_def html_escape_def u_single replace_single)
next
  case (Cons c v)
  have "safe (c # v) = safe [c] @ safe v"
    by (simp add: safe_def html_escape_def u_single replace_single)
  moreover have "safe [c] = safe_char c"
    by (simp add: safe_def html_escape_def u_single replace_single safe_char_def u_def)
  ultimately show ?case using Cons by simp
qed

text \<open>Reading an escaped text back.\<close>

fun unsafe :: "pystr \<Rightarrow> pystr" where
  "unsafe [] = []"
| "unsafe (c # s) =
     (if c = 64 then 64 # unsafe (drop 1 s)
      else if c = 38 \<and> prefix (u ''amp;'') s then 38 # unsafe (drop 4 s)
      else if c = 38 \<and> prefix (u ''lt;'') s then 60 # unsafe (drop 3 s)
      else if c = 38 \<and> prefix (u ''gt;'') s then 62 # unsafe (drop 3 s)
      else c # unsafe s)"



text \<open>What is published of a suggestion does not depend on an unverified patch.\<close>

definition without_unverified :: "Suggestion \<Rightarrow> Suggestion" where
  "without_unverified s = (if sg_patch_verified s then s else s\<lparr>sg_patch := None\<rparr>)"

lemma suggestion_section_unverified:
  "suggestion_section h i (without_unverified s) = suggestion_section h i s"
  by (simp add: suggestion_section_def without_unverified_def)

lemma suggestion_sections_unverified:
  "suggestion_sections h i (map without_unverified ss) = suggestion_sections h i ss"
  by (induction ss arbitrary: i) (simp_all add: suggestion_section_unverified)

text \<open>C25: the published report never exceeds GitHub's limit as long as the closing link itself fits,
  and the text of a patch that was not verified has no influence on it.\<close>

theorem report_bounded_and_verified:
  assumes "length (overflow_suffix url) \<le> MAX_GITHUB_BODY_CHARS"
  shows "length (render_github_diagnosis i c d rs url t b h) \<le> MAX_GITHUB_BODY_CHARS
    \<and> render_github_diagnosis i c (d\<lparr>dg_suggestions := map without_unverified (dg_suggestions d)\<rparr>) rs url t b h
      = render_github_diagnosis i c d rs url t b h"
proof
  show "length (render_github_diagnosis i c d rs url t b h) \<le> MAX_GITHUB_BODY_CHARS"
    using assms by (simp add: render_github_diagnosis_def limit_body_def)
  have "report_sections i c (d\<lparr>dg_suggestions := map without_unverified (dg_suggestions d)\<rparr>) rs url t b h
      = report_sections i c d rs url t b h"
    by (simp add: report_sections_def suggestion_sections_unverified)
  then show "render_github_diagnosis i c (d\<lparr>dg_suggestions := map without_unverified (dg_suggestions d)\<rparr>) rs url t b h
      = render_github_diagnosis i c d rs url t b h"
    by (simp only: render_github_diagnosis_def)
qed

definition sample_diagnosis :: Diagnosis where
  "sample_diagnosis = \<lparr>dg_summary = u ''s'', dg_root_cause = u ''r'', dg_confidence = 1 / 2, dg_evidence = [],
     dg_suggestions = [\<lparr>sg_description = u ''fix'', sg_file = Some (u ''a.py''), sg_patch = Some (u ''p''),
       sg_source = Some LLM, sg_patch_verified = False\<rparr>], dg_conflicts = [], dg_notes = []\<rparr>"

definition sample_classification :: Classification where
  "sample_classification = \<lparr>cl_category = TEST, cl_confidence = 9 / 10, cl_first_error = u ''boom'',
     cl_related_step = None, cl_matched_rules = []\<rparr>"

theorem report_bounded_and_verified_witness:
  "length (render_github_diagnosis 7 sample_classification sample_diagnosis [] (u ''http://x'') TRUSTED None None)
     \<le> MAX_GITHUB_BODY_CHARS"
proof -
  have "length (overflow_suffix (u ''http://x'')) \<le> MAX_GITHUB_BODY_CHARS"
    by (simp add: overflow_suffix_def safe_url_def MAX_GITHUB_BODY_CHARS_def u_def replace_single)
  from report_bounded_and_verified[OF this] show ?thesis by blast
qed

end
