(* ===== verification/Pipeline.thy ===== *)
theory Pipeline
  imports GitHub_Props LLM_Client Config Preprocessing Diagnosing Publication Patch_Check Worker
begin

text \<open>
  The analysis of one run, the class \<open>AnalysisPipeline\<close> of \<open>src/pipelens/pipeline.py\<close>: a program
  over the database, the world of the HTTP clients (which holds the shared metrics), and the sources
  of times and random identifiers. Every store operation is a transaction at the time it reads.
  \<open>asyncio.gather\<close> runs its three calls one after the other, each to its end, and raises the first
  exception in their order; the code allows any interleaving of their requests.
\<close>

section \<open>State and effects\<close>

record pipe =
  pp_db :: db
  pp_web :: web
  pp_now :: "nat \<Rightarrow> int"
  pp_nows :: nat
  pp_perf :: "nat \<Rightarrow> rat"
  pp_perfs :: nat
  pp_uuid :: "nat \<Rightarrow> pystr"
  pp_uuids :: nat

record pipeline =
  ap_settings :: Settings
  ap_unicode :: unicode
  ap_github :: gh_client
  ap_llm :: "llm_provider option"
  ap_patch_lib :: patch_lib
  ap_exc_text :: "exn \<Rightarrow> pystr"

definition on_web :: "(web, 'a) prog \<Rightarrow> (pipe, 'a) prog" where
  "on_web m p = (case m (pp_web p) of (r, w) \<Rightarrow> (r, p\<lparr>pp_web := w\<rparr>))"

definition on_store :: "(int \<Rightarrow> db \<Rightarrow> exn + 'a \<times> db) \<Rightarrow> (pipe, 'a) prog" where
  "on_store f p = (let p1 = p\<lparr>pp_nows := pp_nows p + 1\<rparr> in
     case f (pp_now p (pp_nows p)) (pp_db p) of Inl e \<Rightarrow> (Inl e, p1) | Inr (a, d) \<Rightarrow> (Inr a, p1\<lparr>pp_db := d\<rparr>))"

definition on_store_unit :: "(int \<Rightarrow> db \<Rightarrow> exn + db) \<Rightarrow> (pipe, unit) prog" where
  "on_store_unit f = on_store (\<lambda>now d. bindE (f now d) (\<lambda>d'. Inr ((), d')))"

definition on_metrics_prog :: "(metrics, 'a) prog \<Rightarrow> (pipe, 'a) prog" where
  "on_metrics_prog m = on_web (\<lambda>w. case m (wb_metrics w) of (r, k) \<Rightarrow> (r, w\<lparr>wb_metrics := k\<rparr>))"

definition count_up :: "(metrics \<Rightarrow> metrics) \<Rightarrow> (pipe, unit) prog" where
  "count_up f = on_metrics_prog (updS f)"

definition perf_counter :: "(pipe, rat) prog" where
  "perf_counter p = (Inr (pp_perf p (pp_perfs p)), p\<lparr>pp_perfs := pp_perfs p + 1\<rparr>)"

definition fresh_uuid :: "(pipe, pystr) prog" where
  "fresh_uuid p = (Inr (pp_uuid p (pp_uuids p)), p\<lparr>pp_uuids := pp_uuids p + 1\<rparr>)"

text \<open>\<open>asyncio.gather\<close> of three calls.\<close>

definition gather3 :: "('s, 'a) prog \<Rightarrow> ('s, 'b) prog \<Rightarrow> ('s, 'c) prog \<Rightarrow> ('s, 'a \<times> 'b \<times> 'c) prog" where
  "gather3 ma mb mc s = (case ma s of (ra, s1) \<Rightarrow> case mb s1 of (rb, s2) \<Rightarrow> case mc s2 of (rc, s3) \<Rightarrow>
     (bindE ra (\<lambda>a. bindE rb (\<lambda>b. bindE rc (\<lambda>c. Inr (a, b, c)))), s3))"

definition is_superseded :: "exn \<Rightarrow> bool" where
  "is_superseded e = (case e of AnalysisAttemptSuperseded _ \<Rightarrow> True | _ \<Rightarrow> False)"

section \<open>Stages\<close>

definition mark_stage :: "int \<Rightarrow> AnalysisStage \<Rightarrow> StageStatus \<Rightarrow> pystr option \<Rightarrow> pystr \<Rightarrow> (pipe, unit) prog" where
  "mark_stage run_id stage st err token = on_store_unit (\<lambda>now. record_stage now run_id stage st err (Some token))"

definition in_stage :: "pipeline \<Rightarrow> int \<Rightarrow> AnalysisStage \<Rightarrow> pystr \<Rightarrow> (pipe, 'a) prog \<Rightarrow> (pipe, 'a) prog" where
  "in_stage C run_id stage token body = bindS (mark_stage run_id stage STAGE_STARTED None token) (\<lambda>_.
     tryElseS body
       (\<lambda>e. bindS (mark_stage run_id stage STAGE_FAILED (Some (take 2000 (ap_exc_text C e))) token) (\<lambda>_. raiseS e))
       (\<lambda>a. bindS (mark_stage run_id stage STAGE_COMPLETED None token) (\<lambda>_. retS a)))"

section \<open>Collecting and sanitizing\<close>

definition unverified_context :: RepositoryContext where
  "unverified_context = \<lparr>rc_changed_files = [], rc_workflow_path = None, rc_workflow_content = None,
     rc_pull_request_number = None, rc_trust_level = UNVERIFIED, rc_baseline_sha = None\<rparr>"

definition safe_repository_context :: "pipeline \<Rightarrow> pystr \<Rightarrow> int \<Rightarrow> pystr \<Rightarrow> json \<Rightarrow> (pipe, RepositoryContext) prog" where
  "safe_repository_context C repository run_id head_sha token =
     tryS (on_web (repository_context (ap_github C) repository run_id head_sha token)) (\<lambda>_. retS unverified_context)"

definition collect :: "pipeline \<Rightarrow> AnalysisRequest \<Rightarrow> pystr
    \<Rightarrow> (pipe, json \<times> FailedJob list \<times> JobLog list \<times> RepositoryContext) prog" where
  "collect C rq token =
     bindS (on_web (installation_token (ap_github C) (rq_installation_id rq))) (\<lambda>access.
     bindS (gather3
         (on_web (failed_jobs (ap_github C) (rq_repository rq) (rq_run_id rq) access))
         (on_web (download_logs (ap_github C) (rq_repository rq) (rq_run_id rq) access))
         (safe_repository_context C (rq_repository rq) (rq_run_id rq) (rq_head_sha rq) access)) (\<lambda>(jobs, logs, rc).
     bindS (on_store_unit (\<lambda>now. store_update now (rq_run_id rq) RUNNING
         (no_fields\<lparr>uf_trust_level := Some (rc_trust_level rc)\<rparr>) (Some token))) (\<lambda>_.
     bindS (count_up (inc1 ''analysis_trust'' [trust_value (rc_trust_level rc)])) (\<lambda>_.
       retS (access, jobs, logs, rc)))))"

text \<open>\<open>name in log.job_name\<close> for the names of the failed jobs, in order until one fits.\<close>

fun names_log :: "json list \<Rightarrow> pystr \<Rightarrow> exn + bool" where
  "names_log [] job_name = Inr False"
| "names_log (n # ns) job_name = (case n of
       JStr s \<Rightarrow> if is_infix s job_name then Inr True else names_log ns job_name
     | _ \<Rightarrow> Inl (TypeError (u ''in <string> requires string as left operand'')))"

definition select_logs :: "FailedJob list \<Rightarrow> JobLog list \<Rightarrow> exn + JobLog list" where
  "select_logs jobs logs = bindE (filterE (\<lambda>l. names_log (map jb_name jobs) (jl_job_name l)) Inr logs)
     (\<lambda>matching. Inr (if matching = [] then logs else matching))"

definition sanitize_counted :: "pipeline \<Rightarrow> pystr \<Rightarrow> (pipe, pystr) prog" where
  "sanitize_counted C raw = (let (t, counts) = sanitize_log (ap_unicode C) raw
     in bindS (count_up (record_redactions counts)) (\<lambda>_. retS t))"

text \<open>The inner function \<open>clean\<close>, on a value that need not be a string.\<close>

definition clean_value :: "pipeline \<Rightarrow> json \<Rightarrow> (pipe, pystr option) prog" where
  "clean_value C v = (case v of
       JNull \<Rightarrow> retS None
     | JStr s \<Rightarrow> bindS (sanitize_counted C s) (\<lambda>t. retS (Some t))
     | _ \<Rightarrow> raiseS (TypeError (u ''expected string or bytes-like object'')))"

definition or_default :: "string \<Rightarrow> pystr option \<Rightarrow> pystr" where
  "or_default dflt v = (case v of Some (c # cs) \<Rightarrow> c # cs | _ \<Rightarrow> u dflt)"

fun first_clean :: "pipeline \<Rightarrow> (FailedJob \<Rightarrow> json) \<Rightarrow> FailedJob list \<Rightarrow> (pipe, pystr option) prog" where
  "first_clean C f [] = retS None"
| "first_clean C f (j # js) = (if j_truthy (f j) then clean_value C (f j) else first_clean C f js)"

definition clean_job :: "pipeline \<Rightarrow> FailedJob \<Rightarrow> (pipe, FailedJobContext) prog" where
  "clean_job C j = bindS (clean_value C (jb_name j)) (\<lambda>name.
     bindS (mapS (clean_value C) (jb_failed_steps j)) (\<lambda>steps.
     bindS (mapS (\<lambda>l. clean_value C (JStr l)) (jb_runner_labels j)) (\<lambda>labels.
       retS \<lparr>fj_name = or_default ''unknown job'' name, fj_failed_steps = map (or_default ''unknown step'') steps,
         fj_runner_labels = map (or_default ''unknown'') labels\<rparr>)))"

definition sanitize_execution_context :: "pipeline \<Rightarrow> FailedJob list \<Rightarrow> (pipe, ExecutionContext) prog" where
  "sanitize_execution_context C jobs = bindS (first_clean C jb_workflow_name jobs) (\<lambda>wf.
     bindS (first_clean C jb_head_branch jobs) (\<lambda>br. bindS (mapS (clean_job C) jobs) (\<lambda>js.
       retS \<lparr>ec_workflow_name = wf, ec_head_branch = br, ec_failed_jobs = js\<rparr>)))"

definition sanitize_changed_file :: "pipeline \<Rightarrow> ChangedFile \<Rightarrow> (pipe, ChangedFile) prog" where
  "sanitize_changed_file C f = bindS (sanitize_counted C (case cf_patch f of None \<Rightarrow> [] | Some t \<Rightarrow> t)) (\<lambda>t.
     retS (f\<lparr>cf_patch := (if t = [] then None else Some t)\<rparr>))"

definition sanitize_all :: "pipeline \<Rightarrow> FailedJob list \<Rightarrow> JobLog list \<Rightarrow> RepositoryContext
    \<Rightarrow> (pipe, ExecutionContext \<times> pystr \<times> ChangedFile list \<times> pystr) prog" where
  "sanitize_all C jobs logs rc =
     bindS (liftS (select_logs jobs logs)) (\<lambda>selected.
     bindS (sanitize_execution_context C jobs) (\<lambda>ec.
     let st = ap_settings C;
         processed = preprocess_logs (ap_unicode C) (map jl_text selected) (st_log_chunk_chars st)
           (st_error_context_lines st) (st_max_error_chunks st) in
     bindS (count_up (\<lambda>k. inc_nat ''log_chunks'' [u ''error''] (pl_error_chunks processed)
         (inc_nat ''log_chunks'' [u ''processed''] (pl_chunks_processed processed)
         (record_redactions (pl_redactions processed) k)))) (\<lambda>_.
     bindS (mapS (sanitize_changed_file C) (rc_changed_files rc)) (\<lambda>files.
     bindS (sanitize_counted C (case rc_workflow_content rc of None \<Rightarrow> [] | Some t \<Rightarrow> t)) (\<lambda>workflow.
       retS (ec, pl_context processed, files, workflow))))))"

section \<open>Diagnosing\<close>

definition failed_locations :: "ExecutionContext \<Rightarrow> pystr list" where
  "failed_locations ec = (let steps = concat (map (\<lambda>j. map (\<lambda>s. fj_name j @ u '' / '' @ s) (fj_failed_steps j)) (ec_failed_jobs ec))
     in if steps = [] then map fj_name (ec_failed_jobs ec) else steps)"

definition classify :: "pipeline \<Rightarrow> pystr \<Rightarrow> ExecutionContext \<Rightarrow> (pipe, Classification) prog" where
  "classify C context ec = (let step = join (u '', '') (failed_locations ec);
       c = classify_log (ap_unicode C) context (if step = [] then None else Some step)
     in bindS (count_up (inc1 ''error_categories'' [category_value (cl_category c)])) (\<lambda>_. retS c))"

definition repository_files :: "RepositoryContext \<Rightarrow> pystr set" where
  "repository_files rc = cf_filename ` set (rc_changed_files rc)
     \<union> (case rc_workflow_path rc of None \<Rightarrow> {} | Some p \<Rightarrow> if p = [] then {} else {p})"

definition add_note :: "pystr \<Rightarrow> Diagnosis \<Rightarrow> Diagnosis" where
  "add_note n d = d\<lparr>dg_notes := dg_notes d @ [n]\<rparr>"

definition fork_note :: pystr where
  "fork_note = [50808, 48512] @ u '' Fork '' @ [49892, 54665, 51060, 48064, 47196] @ u '' '' @ [49888,
       47280, 54624] @ u '' '' @ [49688] @ u '' '' @ [50630, 45716] @ u '' '' @ [47196, 44536, 183,
       53076, 46300, 183] @ u ''Workflow'' @ [47484] @ u '' LLM'' @ [50640] @ u '' '' @ [51204,
       49569, 54616, 51648] @ u '' '' @ [50506, 44256] @ u '' '' @ [44508, 52825] @ u '' '' @
       [44592, 48152] @ u '' '' @ [51652, 45800, 47564] @ u '' '' @ [49688, 54665, 54664, 49845,
       45768, 45796] @ u ''.''"

definition unverified_note :: pystr where
  "unverified_note = [51200, 51109, 49548] @ u '' '' @ [49888, 47280] @ u '' '' @ [49688, 51456, 51012] @ u '' ''
       @ [54869, 51064, 54616, 51648] @ u '' '' @ [47803, 54644] @ u '' '' @ [47196, 44536, 183,
       53076, 46300, 183] @ u ''Workflow'' @ [47484] @ u '' LLM'' @ [50640] @ u '' '' @ [51204,
       49569, 54616, 51648] @ u '' '' @ [50506, 44256] @ u '' '' @ [44508, 52825] @ u '' '' @
       [44592, 48152] @ u '' '' @ [51652, 45800, 47564] @ u '' '' @ [49688, 54665, 54664, 49845,
       45768, 45796] @ u ''.''"

definition llm_failed_note :: pystr where
  "llm_failed_note = u ''LLM '' @ [48516, 49437, 50640] @ u '' '' @ [49892, 54056, 54616, 50668] @ u '' '' @
       [44508, 52825] @ u '' '' @ [44592, 48152] @ u '' '' @ [51652, 45800] @ u '' '' @ [44208,
       44284, 47484] @ u '' '' @ [51228, 44277, 54664, 49845, 45768, 45796] @ u ''.''"

definition no_related_note :: pystr where
  "no_related_note = [47196, 44536, 50752] @ u '' '' @ [51649, 51217] @ u '' '' @ [50672, 44208, 46104, 45716] @ u
       '' '' @ [48320, 44221] @ u '' '' @ [54028, 51068, 51012] @ u '' '' @ [52286, 51648] @ u '' ''
       @ [47803, 54664, 49845, 45768, 45796] @ u ''.''"

definition trust_note :: "TrustLevel \<Rightarrow> Diagnosis \<Rightarrow> Diagnosis" where
  "trust_note t d = (case t of UNTRUSTED_FORK \<Rightarrow> add_note fork_note d | UNVERIFIED \<Rightarrow> add_note unverified_note d | TRUSTED \<Rightarrow> d)"

definition estimated_cost :: "Settings \<Rightarrow> LLMProviderResult \<Rightarrow> rat" where
  "estimated_cost st r = (of_int (lr_input_tokens r) * st_llm_input_cost_per_million st
     + of_int (lr_output_tokens r) * st_llm_output_cost_per_million st) / 1000000"

text \<open>
  The call of the language model in its \<open>try\<close>. The diagnosis is assigned before the metrics are
  recorded, so an exception of the metrics leaves the model's diagnosis in place while the note goes to the
  rule-based one.
\<close>

definition llm_failed :: "llm_provider \<Rightarrow> rat \<Rightarrow> (pipe, unit) prog" where
  "llm_failed P started = bindS perf_counter (\<lambda>t.
     on_metrics_prog (record_llm (lp_model_name P) (u ''failed'') (t - started) 0 0 0))"

definition ask_llm :: "pipeline \<Rightarrow> llm_provider \<Rightarrow> LLMContext \<Rightarrow> Diagnosis \<Rightarrow> (pipe, Diagnosis) prog" where
  "ask_llm C P ctx fallback = bindS perf_counter (\<lambda>started. bindS fresh_uuid (\<lambda>request_id.
     tryElseS (bindS (on_web (llm_analyze P request_id ctx)) (\<lambda>r.
         bindS (liftS (validate_llm_analysis (lr_analysis r) ctx)) (\<lambda>d. retS (r, d))))
       (\<lambda>_. bindS (llm_failed P started) (\<lambda>_. retS (add_note llm_failed_note fallback)))
       (\<lambda>(r, d). tryElseS (bindS perf_counter (\<lambda>t. on_metrics_prog (record_llm (lp_model_name P) (u ''success'') (t - started)
             (lr_input_tokens r) (lr_output_tokens r) (estimated_cost (ap_settings C) r))))
         (\<lambda>_. bindS (llm_failed P started) (\<lambda>_. retS d))
         (\<lambda>_. retS d))))"

section \<open>Patches\<close>

definition llm_patch_files :: "Diagnosis \<Rightarrow> pystr list" where
  "llm_patch_files d = map (\<lambda>s. the (sg_file s)) (filter (\<lambda>s. truthy (sg_patch s) \<and> truthy (sg_file s)) (dg_suggestions d))"

definition known_files :: "RepositoryContext \<Rightarrow> (pystr \<times> pystr) list" where
  "known_files rc = (if truthy (rc_workflow_path rc) \<and> truthy (rc_workflow_content rc)
     then [(the (rc_workflow_path rc), the (rc_workflow_content rc))] else [])"

definition patch_targets :: "unicode \<Rightarrow> pystr \<Rightarrow> VersionBump list \<Rightarrow> Diagnosis \<Rightarrow> RelatedFile list \<Rightarrow> RepositoryContext
    \<Rightarrow> pystr list" where
  "patch_targets U lg bumps d related rc = filter (\<lambda>f. map_of (known_files rc) f = None)
     (fromkeys [] (map rf_filename related @ llm_patch_files d @ (if bumps = [] then [] else manifest_paths_in_log U lg)))"

fun count_outcomes :: "patch_outcomes \<Rightarrow> metrics \<Rightarrow> metrics" where
  "count_outcomes [] k = k"
| "count_outcomes (((source, outcome), n) # os) k = count_outcomes os (inc_nat ''patch_proposals'' [source, outcome] n k)"

definition attach_verified_patches ::
  "pipeline \<Rightarrow> AnalysisRequest \<Rightarrow> json \<Rightarrow> Diagnosis \<Rightarrow> pystr \<Rightarrow> RelatedFile list \<Rightarrow> RepositoryContext \<Rightarrow> (pipe, Diagnosis) prog" where
  "attach_verified_patches C rq access d lg related rc =
     bindS (liftS (find_version_bumps (ap_unicode C) lg)) (\<lambda>bumps.
       if bumps = [] \<and> llm_patch_files d = [] then retS d
       else (let targets = patch_targets (ap_unicode C) lg bumps d related rc in
         bindS (if targets = [] then retS (known_files rc)
             else tryElseS (on_web (file_contents (ap_github C) (rq_repository rq) targets (rq_head_sha rq) access))
               (\<lambda>_. retS (known_files rc))
               (\<lambda>fetched. retS (foldl (\<lambda>fs (f, t). dict_put f t fs) (known_files rc) fetched))) (\<lambda>files.
         bindS (liftS (propose_and_verify_patches (ap_unicode C) (ap_patch_lib C) d bumps files)) (\<lambda>(verified, outcomes).
         bindS (count_up (count_outcomes outcomes)) (\<lambda>_. retS verified)))))"

section \<open>The analysis\<close>

definition diagnose :: "pipeline \<Rightarrow> AnalysisRequest \<Rightarrow> json \<Rightarrow> Classification \<Rightarrow> pystr \<Rightarrow> RelatedFile list \<Rightarrow> ExecutionContext
    \<Rightarrow> RepositoryContext \<Rightarrow> pystr \<Rightarrow> (pipe, Diagnosis \<times> pystr option \<times> pystr option) prog" where
  "diagnose C rq access c context related ec rc workflow =
     (let fallback = trust_note (rc_trust_level rc)
            (validate_diagnosis (build_rule_based_diagnosis c) context (Some (repository_files rc)));
          trusted = (rc_trust_level rc = TRUSTED);
          ctx = \<lparr>lc_classification = c, lc_log = context, lc_related_files = related, lc_execution_context = Some ec,
            lc_workflow_path = rc_workflow_path rc, lc_workflow_content = (if workflow = [] then None else Some workflow)\<rparr>
      in bindS (case ap_llm C of
            Some P \<Rightarrow> if trusted
              then bindS (ask_llm C P ctx fallback) (\<lambda>d. retS (d, Some (lp_model_name P), Some PROMPT_VERSION))
              else retS (fallback, None, None)
          | None \<Rightarrow> retS (fallback, None, None)) (\<lambda>(d0, model, prompt).
         bindS (if trusted then attach_verified_patches C rq access d0 context related rc else retS (strip_patches d0)) (\<lambda>d.
           retS (if related = [] then add_note no_related_note d else d, model, prompt))))"

definition analysis_fields :: "Classification \<Rightarrow> Diagnosis \<Rightarrow> RelatedFile list \<Rightarrow> RepositoryContext \<Rightarrow> pystr option \<Rightarrow> pystr option
    \<Rightarrow> ExecutionContext \<Rightarrow> update_fields" where
  "analysis_fields c d related rc model prompt ec = \<lparr>uf_classification = Some c, uf_diagnosis = Some d,
     uf_related_files = Some related, uf_workflow_path = rc_workflow_path rc, uf_execution_context = Some ec,
     uf_model_name = model, uf_prompt_version = prompt, uf_trust_level = Some (rc_trust_level rc),
     uf_baseline_sha = rc_baseline_sha rc, uf_error = None\<rparr>"

definition details_url :: "Settings \<Rightarrow> int \<Rightarrow> pystr" where
  "details_url st run_id = rstrip_if (\<lambda>c. c = 47) (st_public_url st) @ u ''/?run_id='' @ str_int run_id"

definition publish :: "pipeline \<Rightarrow> AnalysisRequest \<Rightarrow> json \<Rightarrow> Classification \<Rightarrow> Diagnosis \<Rightarrow> RelatedFile list \<Rightarrow> RepositoryContext
    \<Rightarrow> (pipe, unit) prog" where
  "publish C rq access c d related rc =
     (if \<not> st_publish_checks (ap_settings C) then retS ()
      else (let url = details_url (ap_settings C) (rq_run_id rq);
                body = render_github_diagnosis (rq_run_id rq) c d related url (rc_trust_level rc) (rc_baseline_sha rc)
                  (Some (rq_head_sha rq))
        in case rc_pull_request_number rc of
          Some number \<Rightarrow> if rc_trust_level rc \<in> {TRUSTED, UNTRUSTED_FORK}
            then on_web (upsert_pull_request_comment (ap_github C) (rq_repository rq) number (rq_run_id rq) access body)
            else retS ()
        | None \<Rightarrow> if rc_trust_level rc = TRUSTED
            then on_web (upsert_check (ap_github C) (rq_repository rq) (rq_head_sha rq) (rq_run_id rq) access (dg_summary d) body url)
            else retS ()))"

definition run_stages :: "pipeline \<Rightarrow> AnalysisRequest \<Rightarrow> pystr \<Rightarrow> (pipe, unit) prog" where
  "run_stages C rq token = (let run_id = rq_run_id rq in
     bindS (in_stage C run_id COLLECTING token (collect C rq token)) (\<lambda>(access, jobs, logs, rc).
     bindS (in_stage C run_id SANITIZING token (sanitize_all C jobs logs rc)) (\<lambda>(ec, context, files, workflow).
     bindS (in_stage C run_id CLASSIFYING token (classify C context ec)) (\<lambda>c.
     bindS (in_stage C run_id CORRELATING token
         (retS (correlate_changed_files (ap_unicode C) context files (cl_category c) 5))) (\<lambda>related.
     bindS (in_stage C run_id DIAGNOSING token (diagnose C rq access c context related ec rc workflow)) (\<lambda>(d, model, prompt).
     bindS (on_store_unit (\<lambda>now. store_update now run_id RUNNING (analysis_fields c d related rc model prompt ec) (Some token))) (\<lambda>_.
       in_stage C run_id PUBLISHING token (publish C rq access c d related rc))))))))"

definition observe_duration :: "rat \<Rightarrow> (pipe, unit) prog" where
  "observe_duration started = bindS perf_counter (\<lambda>t. count_up (observe ''analysis_duration'' [] (t - started)))"

definition report_superseded :: "rat \<Rightarrow> (pipe, unit) prog" where
  "report_superseded started = bindS (count_up (inc1 ''analyses'' [u ''superseded''])) (\<lambda>_. observe_duration started)"

definition slo_label :: "rat \<Rightarrow> rat \<Rightarrow> pystr" where
  "slo_label x limit = (if x \<le> limit then u ''met'' else u ''breached'')"

definition note_start :: "Settings \<Rightarrow> AnalysisStart \<Rightarrow> (pipe, unit) prog" where
  "note_start st a = (if first_start a
     then count_up (\<lambda>k. inc1 ''slo_results'' [u ''start'', slo_label (queue_wait_seconds a) (st_analysis_start_slo_seconds st)]
        (observe ''queue_wait'' [] (queue_wait_seconds a) k))
     else retS ())"

definition on_failure :: "AnalysisRequest \<Rightarrow> pystr \<Rightarrow> rat \<Rightarrow> int option \<Rightarrow> exn \<Rightarrow> (pipe, unit) prog" where
  "on_failure rq token started started_at e =
     (if is_superseded e then report_superseded started
      else (let finish = (bindS (count_up (inc1 ''analyses'' [u ''failed_attempt''])) (\<lambda>_.
              bindS (observe_duration started) (\<lambda>_. raiseS e)))
        in case started_at of
          None \<Rightarrow> finish
        | Some t \<Rightarrow> tryElseS (on_store (\<lambda>now. finish_analysis now (rq_run_id rq) t FAILED (Some token)))
            (\<lambda>e'. if is_superseded e' then report_superseded started else raiseS e') (\<lambda>_. finish)))"

definition complete :: "pipeline \<Rightarrow> AnalysisRequest \<Rightarrow> pystr \<Rightarrow> rat \<Rightarrow> int \<Rightarrow> (pipe, unit) prog" where
  "complete C rq token started started_at =
     tryElseS (on_store (\<lambda>now. finish_analysis now (rq_run_id rq) started_at COMPLETED (Some token)))
       (\<lambda>e. if is_superseded e then report_superseded started else raiseS e)
       (\<lambda>latency. bindS (count_up (inc1 ''analyses'' [u ''completed''])) (\<lambda>_. bindS (observe_duration started) (\<lambda>_.
          count_up (\<lambda>k. inc1 ''slo_results'' [u ''completion'', slo_label latency (st_analysis_completion_slo_seconds (ap_settings C))]
            (observe ''total_latency'' [] latency k)))))"

definition pipeline_analyze :: "pipeline \<Rightarrow> AnalysisRequest \<Rightarrow> (pipe, unit) prog" where
  "pipeline_analyze C rq = bindS perf_counter (\<lambda>started. bindS fresh_uuid (\<lambda>token.
     tryElseS (on_store (\<lambda>now. begin_analysis now (rq_run_id rq) (Some token)))
       (on_failure rq token started None)
       (\<lambda>start. tryElseS (bindS (note_start (ap_settings C) start) (\<lambda>_. run_stages C rq token))
          (on_failure rq token started (Some (attempt_started_at start)))
          (\<lambda>_. complete C rq token started (attempt_started_at start)))))"

text \<open>The pipeline as the worker calls it, on its database and its metrics.\<close>

definition worker_analyze :: "pipeline \<Rightarrow> pipe analyze" where
  "worker_analyze C rq s = (case s of (d, k, p) \<Rightarrow>
     (case pipeline_analyze C rq (p\<lparr>pp_db := d, pp_web := (pp_web p)\<lparr>wb_metrics := k\<rparr>\<rparr>) of
        (r, p') \<Rightarrow> (r, (pp_db p', wb_metrics (pp_web p'), p'))))"

end
