(* ===== verification/Sha256.thy ===== *)
theory Sha256
  imports PyText "HOL-Library.Word"
begin

text \<open>
  The digests of the standard library that the program uses, \<open>hashlib.sha256\<close> (FIPS 180-4) and
  \<open>hmac.new(..., hashlib.sha256)\<close> (RFC 2104), on byte strings, their hexadecimal notation, and
  \<open>hmac.compare_digest\<close> on strings.
\<close>

unbundle bit_operations_syntax

section \<open>SHA-256\<close>

text \<open>The leading 32 bits of the fractions of the cube roots of the first 64 primes, and of the square roots
  of the first eight.\<close>

definition sha_k :: "32 word list" where
  "sha_k = [
    1116352408, 1899447441, 3049323471, 3921009573, 961987163, 1508970993, 2453635748, 2870763221,
    3624381080, 310598401, 607225278, 1426881987, 1925078388, 2162078206, 2614888103, 3248222580,
    3835390401, 4022224774, 264347078, 604807628, 770255983, 1249150122, 1555081692, 1996064986,
    2554220882, 2821834349, 2952996808, 3210313671, 3336571891, 3584528711, 113926993, 338241895,
    666307205, 773529912, 1294757372, 1396182291, 1695183700, 1986661051, 2177026350, 2456956037,
    2730485921, 2820302411, 3259730800, 3345764771, 3516065817, 3600352804, 4094571909, 275423344,
    430227734, 506948616, 659060556, 883997877, 958139571, 1322822218, 1537002063, 1747873779, 1955562222,
    2024104815, 2227730452, 2361852424, 2428436474, 2756734187, 3204031479, 3329325298]"

type_synonym sha_state = "32 word \<times> 32 word \<times> 32 word \<times> 32 word \<times> 32 word \<times> 32 word \<times> 32 word \<times> 32 word"

definition sha_init :: sha_state where
  "sha_init = (
    1779033703, 3144134277, 1013904242, 2773480762, 1359893119, 2600822924, 528734635, 1541459225)"

definition rotr :: "nat \<Rightarrow> 32 word \<Rightarrow> 32 word" where
  "rotr n w = drop_bit n w OR push_bit (32 - n) w"

definition big_sigma0 :: "32 word \<Rightarrow> 32 word" where
  "big_sigma0 x = rotr 2 x XOR rotr 13 x XOR rotr 22 x"

definition big_sigma1 :: "32 word \<Rightarrow> 32 word" where
  "big_sigma1 x = rotr 6 x XOR rotr 11 x XOR rotr 25 x"

definition small_sigma0 :: "32 word \<Rightarrow> 32 word" where
  "small_sigma0 x = rotr 7 x XOR rotr 18 x XOR drop_bit 3 x"

definition small_sigma1 :: "32 word \<Rightarrow> 32 word" where
  "small_sigma1 x = rotr 17 x XOR rotr 19 x XOR drop_bit 10 x"

text \<open>The message schedule, newest word first: 48 words follow the 16 of the block.\<close>

definition next_word :: "32 word list \<Rightarrow> 32 word" where
  "next_word ws = small_sigma1 (ws ! 1) + ws ! 6 + small_sigma0 (ws ! 14) + ws ! 15"

fun schedule :: "nat \<Rightarrow> 32 word list \<Rightarrow> 32 word list" where
  "schedule 0 ws = ws"
| "schedule (Suc n) ws = schedule n (next_word ws # ws)"

definition sha_round :: "sha_state \<Rightarrow> 32 word \<times> 32 word \<Rightarrow> sha_state" where
  "sha_round = (\<lambda>(a, b, c, d, e, f, g, h) (k, w).
     let t1 = h + big_sigma1 e + ((e AND f) XOR (NOT e AND g)) + k + w;
         t2 = big_sigma0 a + ((a AND b) XOR (a AND c) XOR (b AND c))
     in (t1 + t2, a, b, c, d + t1, e, f, g))"

definition add_state :: "sha_state \<Rightarrow> sha_state \<Rightarrow> sha_state" where
  "add_state = (\<lambda>(a, b, c, d, e, f, g, h) (a', b', c', d', e', f', g', h').
     (a + a', b + b', c + c', d + d', e + e', f + f', g + g', h + h'))"

fun words_of :: "nat list \<Rightarrow> 32 word list" where
  "words_of (a # b # c # d # bs) = (((of_nat a * 256 + of_nat b) * 256 + of_nat c) * 256 + of_nat d) # words_of bs"
| "words_of _ = []"

definition compress :: "sha_state \<Rightarrow> nat list \<Rightarrow> sha_state" where
  "compress st block = add_state st (foldl sha_round st (zip sha_k (rev (schedule 48 (rev (words_of block))))))"

function sha_blocks :: "sha_state \<Rightarrow> nat list \<Rightarrow> sha_state" where
  "sha_blocks st bs = (if bs = [] then st else sha_blocks (compress st (take 64 bs)) (drop 64 bs))"
  by auto

termination sha_blocks
  by (relation "measure (length \<circ> snd)") auto

declare sha_blocks.simps [simp del]

fun be_bytes :: "nat \<Rightarrow> nat \<Rightarrow> nat list" where
  "be_bytes 0 n = []"
| "be_bytes (Suc k) n = be_bytes k (n div 256) @ [n mod 256]"

definition sha_pad :: "nat list \<Rightarrow> nat list" where
  "sha_pad bs = bs @ [128] @ replicate (nat ((55 - int (length bs)) mod 64)) 0 @ be_bytes 8 (8 * length bs)"

definition word_bytes :: "32 word \<Rightarrow> nat list" where
  "word_bytes w = map (\<lambda>n. unat (drop_bit n w AND 255)) [24, 16, 8, 0]"

definition sha256 :: "nat list \<Rightarrow> nat list" where
  "sha256 bs = (case sha_blocks sha_init (sha_pad bs) of (a, b, c, d, e, f, g, h) \<Rightarrow>
     concat (map word_bytes [a, b, c, d, e, f, g, h]))"

section \<open>HMAC\<close>

definition hmac_sha256 :: "nat list \<Rightarrow> nat list \<Rightarrow> nat list" where
  "hmac_sha256 key msg = (let k = (if length key > 64 then sha256 key else key); k = k @ replicate (64 - length k) 0 in
     sha256 (map (\<lambda>b. b XOR 92) k @ sha256 (map (\<lambda>b. b XOR 54) k @ msg)))"

definition hex_char :: "nat \<Rightarrow> nat" where
  "hex_char d = (if d < 10 then 48 + d else 87 + d)"

definition hexdigest :: "nat list \<Rightarrow> pystr" where
  "hexdigest bs = concat (map (\<lambda>b. [hex_char (b div 16), hex_char (b mod 16)]) bs)"

text \<open>On strings, \<open>compare_digest\<close> raises TypeError unless both are ASCII.\<close>

definition is_ascii :: "pystr \<Rightarrow> bool" where
  "is_ascii s \<longleftrightarrow> list_all (\<lambda>c. c < 128) s"

definition compare_digest :: "pystr \<Rightarrow> pystr \<Rightarrow> exn + bool" where
  "compare_digest a b = (if is_ascii a \<and> is_ascii b then Inr (a = b)
     else Inl (TypeError (u ''comparing strings with non-ASCII characters is not supported'')))"

section \<open>Shape of a digest\<close>

lemma word_bytes_props: "length (word_bytes w) = 4" "list_all (\<lambda>b. b < 256) (word_bytes w)"
proof -
  have "unat (x AND 255) < 256" for x :: "32 word"
    using word_and_le1[of x 255] by (simp add: word_le_nat_alt)
  then show "length (word_bytes w) = 4" "list_all (\<lambda>b. b < 256) (word_bytes w)" by (simp_all add: word_bytes_def)
qed

lemma sha256_bytes: "length (sha256 bs) = 32" "list_all (\<lambda>b. b < 256) (sha256 bs)"
  by (simp_all add: sha256_def case_prod_beta word_bytes_props)

lemma hmac_bytes: "length (hmac_sha256 k m) = 32" "list_all (\<lambda>b. b < 256) (hmac_sha256 k m)"
  by (simp_all add: hmac_sha256_def Let_def sha256_bytes)

lemma hexdigest_chars: "list_all (\<lambda>b. b < 256) bs \<Longrightarrow> list_all (\<lambda>c. c \<in> {48..57} \<union> {97..102}) (hexdigest bs)"
  by (induction bs) (auto simp: hexdigest_def hex_char_def less_mult_imp_div_less)

lemma hexdigest_ascii: "list_all (\<lambda>b. b < 256) bs \<Longrightarrow> is_ascii (hexdigest bs)"
  using hexdigest_chars[of bs] by (auto simp: is_ascii_def list_all_iff)

lemma hexdigest_length [simp]: "length (hexdigest bs) = 2 * length bs"
  by (induction bs) (simp_all add: hexdigest_def)

end
