(* ===== verification/PyDate.thy ===== *)
theory PyDate
  imports PyText
begin

text \<open>
  Dates in ISO 8601 notation: \<open>datetime.isoformat\<close> and \<open>datetime.fromisoformat\<close> of the standard library
  (its Python version, \<open>_pydatetime\<close>), on the proleptic Gregorian calendar. The parts of a number are
  strings of ASCII digits; the ValueErrors are not told apart. The main lemma is that the notation of
  an instant in UTC is read back.
\<close>

section \<open>The calendar\<close>

definition is_leap :: "int \<Rightarrow> bool" where
  "is_leap year \<longleftrightarrow> year mod 4 = 0 \<and> (year mod 100 \<noteq> 0 \<or> year mod 400 = 0)"

definition days_before_year :: "int \<Rightarrow> int" where
  "days_before_year year = (let y = year - 1 in y * 365 + y div 4 - y div 100 + y div 400)"

definition DAYS_IN_MONTH :: "int list" where
  "DAYS_IN_MONTH = [31, 28, 31, 30, 31, 30, 31, 31, 30, 31, 30, 31]"

definition DAYS_BEFORE_MONTH :: "int list" where
  "DAYS_BEFORE_MONTH = [0, 31, 59, 90, 120, 151, 181, 212, 243, 273, 304, 334]"

definition days_in_month :: "int \<Rightarrow> int \<Rightarrow> int" where
  "days_in_month year month = (if month = 2 \<and> is_leap year then 29 else DAYS_IN_MONTH ! nat (month - 1))"

definition days_before_month :: "bool \<Rightarrow> int \<Rightarrow> int" where
  "days_before_month leap month = DAYS_BEFORE_MONTH ! nat (month - 1) + (if month > 2 \<and> leap then 1 else 0)"

definition ymd2ord :: "int \<Rightarrow> int \<Rightarrow> int \<Rightarrow> int" where
  "ymd2ord year month day = days_before_year year + days_before_month (is_leap year) month + day"

text \<open>The month and the day of the month at an offset into a year.\<close>

definition month_day :: "bool \<Rightarrow> int \<Rightarrow> int \<times> int" where
  "month_day leap n = (let month = (n + 50) div 32; preceding = days_before_month leap month in
     if preceding > n
     then (month - 1, n - (preceding - (DAYS_IN_MONTH ! nat (month - 2) + (if month = 3 \<and> leap then 1 else 0))) + 1)
     else (month, n - preceding + 1))"

definition ord2ymd :: "int \<Rightarrow> int \<times> int \<times> int" where
  "ord2ymd ord = (let n = ord - 1;
     n400 = n div 146097; n = n mod 146097;
     n100 = n div 36524; n = n mod 36524;
     n4 = n div 1461; n = n mod 1461;
     n1 = n div 365; n = n mod 365;
     year = n400 * 400 + 1 + n100 * 100 + n4 * 4 + n1 in
     if n1 = 4 \<or> n100 = 4 then (year - 1, 12, 31)
     else (let (month, day) = month_day (n1 = 3 \<and> (n4 \<noteq> 24 \<or> n100 = 3)) n in (year, month, day)))"

lemma month_day_cases:
  assumes "0 \<le> n" "n < (if leap then 366 else 365)"
  shows "days_before_month leap (fst (month_day leap n)) + snd (month_day leap n) = n + 1
    \<and> 1 \<le> fst (month_day leap n) \<and> fst (month_day leap n) \<le> 12 \<and> 1 \<le> snd (month_day leap n)
    \<and> snd (month_day leap n) \<le> (if fst (month_day leap n) = 2 \<and> leap then 29 else DAYS_IN_MONTH ! nat (fst (month_day leap n) - 1))"
proof -
  have "(n + 50) div 32 \<in> {1..12}" using assms by (auto split: if_splits)
  moreover have "{1..12::int} = {1, 2, 3, 4, 5, 6, 7, 8, 9, 10, 11, 12}" by (simp add: upto_rec1 flip: set_upto)
  ultimately have "(n + 50) div 32 \<in> {1, 2, 3, 4, 5, 6, 7, 8, 9, 10, 11, 12}" by (simp only:)
  then consider "(n + 50) div 32 = 1" | "(n + 50) div 32 = 2" | "(n + 50) div 32 = 3" | "(n + 50) div 32 = 4"
    | "(n + 50) div 32 = 5" | "(n + 50) div 32 = 6" | "(n + 50) div 32 = 7" | "(n + 50) div 32 = 8"
    | "(n + 50) div 32 = 9" | "(n + 50) div 32 = 10" | "(n + 50) div 32 = 11" | "(n + 50) div 32 = 12"
    by blast
  then show ?thesis
    using assms by cases (auto simp: month_day_def Let_def days_before_month_def DAYS_BEFORE_MONTH_def DAYS_IN_MONTH_def
        nth_Cons' split: if_splits)
qed


lemma year_parts:
  fixes a b c d :: int
  assumes "0 \<le> b" "b < 4" "0 \<le> c" "c < 25" "0 \<le> d" "d < 4" "Y = 400 * a + 100 * b + 4 * c + d"
  shows "days_before_year (Y + 1) = 146097 * a + 36524 * b + 1461 * c + 365 * d"
    and "is_leap (Y + 1) \<longleftrightarrow> d = 3 \<and> (c \<noteq> 24 \<or> b = 3)"
proof -
  have "Y div 4 = 100 * a + 25 * b + c" "Y div 100 = 4 * a + b" "Y div 400 = a" using assms by auto
  then show "days_before_year (Y + 1) = 146097 * a + 36524 * b + 1461 * c + 365 * d"
    using assms(7) by (simp add: days_before_year_def)
  have mod_0: "x mod k = 0 \<longleftrightarrow> x = k" if "0 < x" "x \<le> k" for x k :: int
    using that by (metis mod_self mod_pos_pos_trivial order_le_less less_le)
  have "Y + 1 = (d + 1) + 4 * (100 * a + 25 * b + c)" using assms(7) by simp
  then have "(Y + 1) mod 4 = (d + 1) mod 4" by (simp only: mod_mult_self2)
  then have "(Y + 1) mod 4 = 0 \<longleftrightarrow> d = 3" using mod_0[of "d + 1" 4] assms by auto
  moreover have "Y + 1 = (4 * c + d + 1) + 100 * (4 * a + b)" using assms(7) by simp
  then have "(Y + 1) mod 100 = (4 * c + d + 1) mod 100" by (simp only: mod_mult_self2)
  then have "(Y + 1) mod 100 = 0 \<longleftrightarrow> c = 24 \<and> d = 3" using mod_0[of "4 * c + d + 1" 100] assms(1-6) by linarith
  moreover have "Y + 1 = (100 * b + 4 * c + d + 1) + 400 * a" using assms(7) by simp
  then have "(Y + 1) mod 400 = (100 * b + 4 * c + d + 1) mod 400" by (simp only: mod_mult_self2)
  then have "(Y + 1) mod 400 = 0 \<longleftrightarrow> b = 3 \<and> c = 24 \<and> d = 3" using mod_0[of "100 * b + 4 * c + d + 1" 400] assms(1-6) by linarith
  ultimately show "is_leap (Y + 1) \<longleftrightarrow> d = 3 \<and> (c \<noteq> 24 \<or> b = 3)" unfolding is_leap_def by auto
qed

definition good_date :: "int \<Rightarrow> int \<Rightarrow> int \<Rightarrow> bool" where
  "good_date y m d \<longleftrightarrow> 1 \<le> m \<and> m \<le> 12 \<and> 1 \<le> d \<and> d \<le> days_in_month y m"

text \<open>The day at an offset into the year that four-year, hundred-year and four-hundred-year cycles give.\<close>

lemma date_at:
  fixes a b c d n :: int
  assumes "0 \<le> b" "b < 4" "0 \<le> c" "c < 25" "0 \<le> d" "d < 4" "0 \<le> n"
    and leap: "leap \<longleftrightarrow> d = 3 \<and> (c \<noteq> 24 \<or> b = 3)" and n: "n < (if leap then 366 else 365)"
    and md: "month_day leap n = (m, k)" and y: "y = 400 * a + 100 * b + 4 * c + d + 1"
  shows "ymd2ord y m k = 146097 * a + 36524 * b + 1461 * c + 365 * d + n + 1" "good_date y m k"
proof -
  note Y = year_parts[OF assms(1-6) refl, of a]
  note M = month_day_cases[OF assms(7) n, unfolded md fst_conv snd_conv]
  from Y(1) M show "ymd2ord y m k = 146097 * a + 36524 * b + 1461 * c + 365 * d + n + 1"
    unfolding ymd2ord_def y Y(2) leap[symmetric] by linarith
  from M show "good_date y m k" unfolding good_date_def days_in_month_def y Y(2) leap[symmetric] by blast
qed

lemma last_of_year: "month_day True 365 = (12, 31)" "month_day False 364 = (12, 31)"
  by (simp_all add: month_day_def days_before_month_def DAYS_BEFORE_MONTH_def)

lemma ord2ymd_correct:
  assumes "ord2ymd ord = (y, m, k)"
  shows "ymd2ord y m k = ord" "good_date y m k"
proof -
  define a where "a = (ord - 1) div 146097"
  define r where "r = (ord - 1) mod 146097"
  define b where "b = r div 36524"
  define s where "s = r mod 36524"
  define c where "c = s div 1461"
  define t where "t = s mod 1461"
  define d where "d = t div 365"
  define n where "n = t mod 365"
  have r: "0 \<le> r" "r < 146097" "ord - 1 = 146097 * a + r" by (simp_all add: r_def a_def)
  have s: "0 \<le> s" "s < 36524" "r = 36524 * b + s" by (simp_all add: s_def b_def)
  have t: "0 \<le> t" "t < 1461" "s = 1461 * c + t" by (simp_all add: t_def c_def)
  have n: "0 \<le> n" "n < 365" "t = 365 * d + n" by (simp_all add: n_def d_def)
  have b: "0 \<le> b" "b \<le> 4" using r s by linarith+
  have c: "0 \<le> c" "c < 25" using s t by linarith+
  have d: "0 \<le> d" "d \<le> 4" using t n by linarith+
  have o: "ord2ymd ord = (if d = 4 \<or> b = 4 then (400 * a + 100 * b + 4 * c + d, 12, 31)
      else (400 * a + 100 * b + 4 * c + d + 1, month_day (d = 3 \<and> (c \<noteq> 24 \<or> b = 3)) n))"
    unfolding ord2ymd_def Let_def a_def[symmetric] r_def[symmetric] b_def[symmetric] s_def[symmetric] c_def[symmetric]
      t_def[symmetric] d_def[symmetric] n_def[symmetric]
    by (auto split: prod.splits)
  consider (last400) "b = 4" | (last4) "d = 4" "b \<noteq> 4" | (inner) "d < 4" "b < 4" using b d by linarith
  then have "ymd2ord y m k = ord \<and> good_date y m k"
  proof cases
    case last400
    then have z: "s = 0" "c = 0" "d = 0" "n = 0" using r s t n c d by linarith+
    then have "y = 400 * a + 100 * 3 + 4 * 24 + 3 + 1" "m = 12" "k = 31" using assms o last400 by auto
    with date_at[of 3 24 3 365 True 12 31 y a] last_of_year r s t n z last400 show ?thesis by simp
  next
    case last4
    then have z: "n = 0" "t = 1460" using t n by linarith+
    then have c': "c < 24" using s t by linarith
    have "y = 400 * a + 100 * b + 4 * c + 3 + 1" "m = 12" "k = 31" using assms o last4 by auto
    with date_at[of b c 3 365 True 12 31 y a] last_of_year r s t n z last4 b c c' show ?thesis by simp
  next
    case inner
    then have "y = 400 * a + 100 * b + 4 * c + d + 1" "month_day (d = 3 \<and> (c \<noteq> 24 \<or> b = 3)) n = (m, k)"
      using assms o by auto
    with date_at[of b c d n "d = 3 \<and> (c \<noteq> 24 \<or> b = 3)" m k y a] inner b c d n r s t show ?thesis by simp
  qed
  then show "ymd2ord y m k = ord" "good_date y m k" by auto
qed

text \<open>The years of a \<open>datetime\<close> are 1 to 9999.\<close>

definition MAXORDINAL :: int where
  "MAXORDINAL = 3652059"

lemma ord2ymd_year:
  assumes "ord2ymd ord = (y, m, k)" "1 \<le> ord" "ord \<le> MAXORDINAL"
  shows "1 \<le> y" "y \<le> 9999"
proof -
  have k: "0 < days_before_month l m + k" if "good_date y m k" for l
  proof -
    have "0 \<le> days_before_month l m" using that unfolding good_date_def days_before_month_def
      by (auto simp: DAYS_BEFORE_MONTH_def nth_Cons')
    with that show ?thesis unfolding good_date_def by linarith
  qed
  have lo: "days_before_year y \<le> - 366" if "y \<le> 0"
  proof -
    define p q r where "p = (y - 1) div 4" and "q = (y - 1) div 100" and "r = (y - 1) div 400"
    have "p \<le> - 1" "r \<le> - 1" "y - 1 \<le> q" using that unfolding p_def q_def r_def by linarith+
    with that show ?thesis unfolding days_before_year_def Let_def p_def[symmetric] q_def[symmetric] r_def[symmetric]
      by (simp add: algebra_simps)
  qed
  have hi: "3652059 \<le> days_before_year y" if "10000 \<le> y" using that unfolding days_before_year_def Let_def by auto
  have up: "days_before_month l m + k \<le> 366" if "good_date y m k" for l
    using that unfolding good_date_def days_before_month_def days_in_month_def
    by (auto simp: DAYS_BEFORE_MONTH_def DAYS_IN_MONTH_def nth_Cons' split: if_splits)
  note D = ord2ymd_correct[OF assms(1)]
  note e = D(1)[unfolded ymd2ord_def] k[OF D(2), of "is_leap y"] up[OF D(2), of "is_leap y"]
  show "1 \<le> y" using e lo assms(2) by linarith
  show "y \<le> 9999" using e hi assms(3) unfolding MAXORDINAL_def by linarith
qed

section \<open>Writing\<close>

definition pad_digits :: "nat \<Rightarrow> int \<Rightarrow> pystr" where
  "pad_digits w n = (let t = str_nat (nat n) in replicate (w - length t) 48 @ t)"

definition day_micros :: int where
  "day_micros = 86400000000"

text \<open>The ordinal of 1970-01-01, from which the microseconds count.\<close>

definition EPOCH_ORDINAL :: int where
  "EPOCH_ORDINAL = 719163"

definition format_hms :: "int \<Rightarrow> pystr" where
  "format_hms us = pad_digits 2 (us div 3600000000) @ [58] @ pad_digits 2 (us div 60000000 mod 60) @ [58]
     @ pad_digits 2 (us div 1000000 mod 60)"

definition format_micros :: "int \<Rightarrow> pystr" where
  "format_micros us = (if us mod 1000000 = 0 then [] else [46] @ pad_digits 6 (us mod 1000000))"

definition format_offset :: "int \<Rightarrow> pystr" where
  "format_offset off = (let sign = (if off < 0 then [45] else [43]); a = \<bar>off\<bar> in
     sign @ pad_digits 2 (a div 3600000000) @ [58] @ pad_digits 2 (a div 60000000 mod 60)
     @ (if a mod 60000000 = 0 then [] else [58] @ pad_digits 2 (a div 1000000 mod 60) @ format_micros a))"

definition format_wall :: "int \<Rightarrow> pystr" where
  "format_wall t = (let (y, m, d) = ord2ymd (t div day_micros + EPOCH_ORDINAL); us = t mod day_micros in
     pad_digits 4 y @ [45] @ pad_digits 2 m @ [45] @ pad_digits 2 d @ [84] @ format_hms us @ format_micros us)"

fun isoformat :: "datetime \<Rightarrow> pystr" where
  "isoformat (Naive t) = format_wall t"
| "isoformat (Aware t off) = format_wall t @ format_offset off"

section \<open>Reading\<close>

definition iso_error :: exn where
  "iso_error = ValueError (u ''Invalid isoformat string'')"

definition digits_int :: "pystr \<Rightarrow> int" where
  "digits_int s = foldl (\<lambda>a c. a * 10 + (int c - 48)) 0 s"

definition iso_int :: "pystr \<Rightarrow> exn + int" where
  "iso_int s = (if s = [] \<or> \<not> list_all ascii_digit s then Inl iso_error else Inr (digits_int s))"

definition char_at :: "nat \<Rightarrow> nat \<Rightarrow> pystr \<Rightarrow> bool" where
  "char_at i c s \<longleftrightarrow> i < length s \<and> s ! i = c"

text \<open>Where the date ends.\<close>

definition date_end :: "pystr \<Rightarrow> exn + nat" where
  "date_end s = (let n = length s in
     if n = 7 then Inr 7
     else if char_at 4 45 s then
       (if char_at 5 87 s then
          (if n > 8 \<and> char_at 8 45 s
           then (if n = 9 then Inl iso_error else if n > 10 \<and> ascii_digit (s ! 10) then Inr 8 else Inr 10)
           else Inr 8)
        else Inr 10)
     else if char_at 4 87 s then
       (let i = 7 + length (takeWhile ascii_digit (drop 7 s)) in
        if i < 9 then Inr i else if i mod 2 = 0 then Inr 7 else Inr 8)
     else Inr 8)"

definition isoweek1monday :: "int \<Rightarrow> int" where
  "isoweek1monday year = (let firstday = ymd2ord year 1 1; firstweekday = (firstday + 6) mod 7;
     week1monday = firstday - firstweekday in if firstweekday > 3 then week1monday + 7 else week1monday)"

definition isoweek_to_gregorian :: "int \<Rightarrow> int \<Rightarrow> int \<Rightarrow> exn + int \<times> int \<times> int" where
  "isoweek_to_gregorian year week day = (let first_weekday = ymd2ord year 1 1 mod 7 in
     if \<not> (1 \<le> year \<and> year \<le> 9999) then Inl iso_error
     else if \<not> (0 < week \<and> week < 53) \<and> \<not> (week = 53 \<and> (first_weekday = 4 \<or> first_weekday = 3 \<and> is_leap year))
     then Inl iso_error
     else if \<not> (0 < day \<and> day < 8) then Inl iso_error
     else Inr (ord2ymd (isoweek1monday year + (week - 1) * 7 + (day - 1))))"

definition parse_isoformat_date :: "pystr \<Rightarrow> exn + int \<times> int \<times> int" where
  "parse_isoformat_date s = bindE (iso_int (take 4 s)) (\<lambda>year.
     let has_sep = char_at 4 45 s; skip = (if has_sep then 1 else 0); pos = 4 + skip in
     if char_at pos 87 s then
       bindE (iso_int (take 2 (drop (pos + 1) s))) (\<lambda>weekno.
         if length s > pos + 3 then
           (if char_at (pos + 3) 45 s \<noteq> has_sep then Inl iso_error
            else bindE (iso_int (take 1 (drop (pos + 3 + skip) s))) (\<lambda>dayno. isoweek_to_gregorian year weekno dayno))
         else isoweek_to_gregorian year weekno 1)
     else bindE (iso_int (take 2 (drop pos s))) (\<lambda>month.
       if char_at (pos + 2) 45 s \<noteq> has_sep then Inl iso_error
       else bindE (iso_int (take 2 (drop (pos + 2 + skip) s))) (\<lambda>day. Inr (year, month, day))))"

text \<open>\<open>HH[:MM[:SS]]\<close>: the numbers read, and the rest. The first separator decides for all.\<close>

fun parse_hms :: "nat \<Rightarrow> bool \<Rightarrow> pystr \<Rightarrow> exn + int list \<times> pystr" where
  "parse_hms 0 has_sep s = Inr ([], s)"
| "parse_hms (Suc k) has_sep s =
     (if length s < 2 then Inl iso_error
      else bindE (iso_int (take 2 s)) (\<lambda>v. let rest = drop 2 s in
        if rest = [] \<or> k = 0 then Inr ([v], rest)
        else if has_sep \<and> hd rest \<noteq> 58 then Inl iso_error
        else bindE (parse_hms k has_sep (if has_sep then tl rest else rest)) (\<lambda>(vs, r). Inr (v # vs, r))))"

definition parse_fraction :: "pystr \<Rightarrow> exn + int" where
  "parse_fraction s = (case s of
       [] \<Rightarrow> Inr 0
     | c # f \<Rightarrow> if c \<noteq> 46 \<and> c \<noteq> 44 then Inl iso_error
         else bindE (iso_int (take 6 f)) (\<lambda>v.
           if \<not> list_all ascii_digit (drop 6 f) then Inl iso_error else Inr (v * 10 ^ (6 - length f))))"

definition nth_or_0 :: "int list \<Rightarrow> nat \<Rightarrow> int" where
  "nth_or_0 xs i = (if i < length xs then xs ! i else 0)"

definition parse_hh_mm_ss_ff :: "pystr \<Rightarrow> exn + int \<times> int \<times> int \<times> int" where
  "parse_hh_mm_ss_ff s = bindE (parse_hms 3 (char_at 2 58 s) s) (\<lambda>(vs, rest).
     bindE (parse_fraction rest) (\<lambda>us. Inr (nth_or_0 vs 0, nth_or_0 vs 1, nth_or_0 vs 2, us)))"

definition split_zone :: "pystr \<Rightarrow> pystr \<times> pystr option" where
  "split_zone s = (let cut = (\<lambda>c. (takeWhile (\<lambda>x. x \<noteq> c) s, Some (dropWhile (\<lambda>x. x \<noteq> c) s))) in
     if 45 \<in> set s then cut 45 else if 43 \<in> set s then cut 43 else if 90 \<in> set s then cut 90 else (s, None))"

definition span_micros :: "int \<times> int \<times> int \<times> int \<Rightarrow> int" where
  "span_micros = (\<lambda>(h, m, s, us). ((h * 60 + m) * 60 + s) * 1000000 + us)"

definition parse_zone :: "pystr \<Rightarrow> exn + int" where
  "parse_zone z = (if z = [90] then Inr 0
     else if length z - 1 \<in> {0, 1, 3} then Inl iso_error
     else bindE (parse_hh_mm_ss_ff (tl z)) (\<lambda>parts.
       let td = span_micros parts in if td < day_micros then Inr (if hd z = 45 then - td else td) else Inl iso_error))"

definition parse_isoformat_time :: "pystr \<Rightarrow> exn + (int \<times> int \<times> int \<times> int) \<times> int option" where
  "parse_isoformat_time s = (if length s < 2 then Inl iso_error
     else (let (timestr, zone) = split_zone s in
       bindE (parse_hh_mm_ss_ff timestr) (\<lambda>parts. case zone of
           None \<Rightarrow> Inr (parts, None)
         | Some z \<Rightarrow> bindE (parse_zone z) (\<lambda>off. Inr (parts, Some off)))))"

definition make_datetime :: "int \<times> int \<times> int \<Rightarrow> int \<times> int \<times> int \<times> int \<Rightarrow> int option \<Rightarrow> exn + datetime" where
  "make_datetime date parts zone = (case (date, parts) of ((y, m, d), (hh, mi, ss, us)) \<Rightarrow>
     if 1 \<le> y \<and> y \<le> 9999 \<and> good_date y m d \<and> 0 \<le> hh \<and> hh < 24 \<and> 0 \<le> mi \<and> mi < 60 \<and> 0 \<le> ss \<and> ss < 60
       \<and> 0 \<le> us \<and> us < 1000000
     then (let wall = (ymd2ord y m d - EPOCH_ORDINAL) * day_micros + span_micros parts in
       Inr (case zone of None \<Rightarrow> Naive wall | Some off \<Rightarrow> Aware wall off))
     else Inl iso_error)"

definition fromisoformat :: "pystr \<Rightarrow> exn + datetime" where
  "fromisoformat s = (if length s < 7 then Inl iso_error
     else bindE (date_end s) (\<lambda>i. bindE (parse_isoformat_date (take i s)) (\<lambda>date.
       let tstr = drop (i + 1) s in
       if tstr = [] then make_datetime date (0, 0, 0, 0) None
       else bindE (parse_isoformat_time tstr) (\<lambda>(parts, zone). make_datetime date parts zone))))"

section \<open>Reading what was written\<close>

lemma digits_int_append: "digits_int (s @ t) = digits_int s * 10 ^ length t + digits_int t"
proof -
  let ?f = "\<lambda>a c. a * 10 + (int c - 48)"
  have "foldl ?f x t = x * 10 ^ length t + foldl ?f 0 t" for x
  proof (induction t arbitrary: x)
    case (Cons c t)
    show ?case unfolding foldl_Cons Cons.IH[of "x * 10 + (int c - 48)"] Cons.IH[of "0 * 10 + (int c - 48)"]
      by (simp add: distrib_right)
  qed simp
  then show ?thesis unfolding digits_int_def foldl_append by blast
qed

lemma digits_int_zeros [simp]: "digits_int (replicate n 48 @ s) = digits_int s"
proof -
  have "digits_int (replicate n 48) = 0" by (induction n) (simp_all add: digits_int_def)
  then show ?thesis by (simp add: digits_int_append)
qed

lemma str_nat_number:
  "digits_int (str_nat n) = int n \<and> (n < 10 ^ w \<longrightarrow> 0 < w \<longrightarrow> length (str_nat n) \<le> w)"
proof (induction n arbitrary: w rule: str_nat.induct)
  case (1 n)
  show ?case
  proof (cases "n < 10")
    case True
    then show ?thesis by (subst (1 2) str_nat.simps) (simp add: digits_int_def)
  next
    case False
    from 1[OF False] have IH: "digits_int (str_nat (n div 10)) = int (n div 10)"
      "n div 10 < 10 ^ v \<Longrightarrow> 0 < v \<Longrightarrow> length (str_nat (n div 10)) \<le> v" for v by blast+
    have l: "length (str_nat n) \<le> w" if "n < 10 ^ w" "0 < w"
    proof -
      from that False obtain v where v: "w = Suc v" "0 < v" by (cases w; cases "w - 1") auto
      with that have "n div 10 < 10 ^ v" by simp
      from IH(2)[OF this v(2)] False v show ?thesis by (subst str_nat.simps) simp
    qed
    have "digits_int (str_nat n) = int n"
      using False IH(1) by (subst str_nat.simps) (simp add: digits_int_append, simp add: digits_int_def zdiv_int zmod_int)
    with l show ?thesis by blast
  qed
qed

lemma pad_digits_props:
  assumes "0 \<le> n" "n < 10 ^ w" "0 < w"
  shows "length (pad_digits w n) = w" "list_all ascii_digit (pad_digits w n)" "digits_int (pad_digits w n) = n"
    "iso_int (pad_digits w n) = Inr n"
proof -
  have "nat n < 10 ^ w" using assms by (simp add: nat_less_iff)
  with assms have s: "digits_int (str_nat (nat n)) = n" "length (str_nat (nat n)) \<le> w" using str_nat_number by simp_all
  then show l: "length (pad_digits w n) = w" and d: "digits_int (pad_digits w n) = n"
    by (simp_all add: pad_digits_def Let_def)
  show a: "list_all ascii_digit (pad_digits w n)"
    by (auto simp: pad_digits_def Let_def list_all_iff ascii_digit_def dest: str_nat_digits)
  from l assms(3) have "pad_digits w n \<noteq> []" by auto
  with a d show "iso_int (pad_digits w n) = Inr n" by (simp add: iso_int_def)
qed

lemma digits_no_mark: "list_all ascii_digit s \<Longrightarrow> c \<notin> {48..57} \<Longrightarrow> c \<notin> set s"
  by (auto simp: list_all_iff ascii_digit_def)

lemma parse_fraction_micros:
  assumes "0 \<le> us"
  shows "parse_fraction (format_micros us) = Inr (us mod 1000000)"
  using pad_digits_props[of "us mod 1000000" 6] by (simp add: format_micros_def parse_fraction_def)

lemma parse_hms_written:
  assumes "length h = 2" "length m = 2" "length s = 2" "iso_int h = Inr hh" "iso_int m = Inr mm" "iso_int s = Inr ss"
  shows "parse_hms 3 (char_at 2 58 (h @ 58 # m @ 58 # s @ x)) (h @ 58 # m @ 58 # s @ x) = Inr ([hh, mm, ss], x)"
  using assms by (simp add: numeral_3_eq_3 char_at_def nth_append)

lemma two_digits:
  assumes "0 \<le> n" "n < 100"
  shows "length (pad_digits 2 n) = 2" "list_all ascii_digit (pad_digits 2 n)" "iso_int (pad_digits 2 n) = Inr n"
  using pad_digits_props[of n 2] assms by simp_all

definition hms_ok :: "int \<Rightarrow> int \<Rightarrow> int \<Rightarrow> bool" where
  "hms_ok h m s \<longleftrightarrow> 0 \<le> h \<and> h < 24 \<and> 0 \<le> m \<and> m < 60 \<and> 0 \<le> s \<and> s < 60"

lemma hms_ok_micros:
  assumes "0 \<le> us" "us < day_micros"
  shows "hms_ok (us div 3600000000) (us div 60000000 mod 60) (us div 1000000 mod 60)"
proof -
  have "us div 3600000000 < 24" using assms unfolding day_micros_def by linarith
  moreover have "0 \<le> us div 3600000000" using assms(1) by (simp add: pos_imp_zdiv_nonneg_iff)
  ultimately show ?thesis unfolding hms_ok_def by simp
qed

lemma parse_time_written:
  assumes "0 \<le> us" "us < day_micros"
  shows "parse_hh_mm_ss_ff (format_hms us @ format_micros us)
    = Inr (us div 3600000000, us div 60000000 mod 60, us div 1000000 mod 60, us mod 1000000)"
proof -
  obtain h m s where e: "h = us div 3600000000" "m = us div 60000000 mod 60" "s = us div 1000000 mod 60" by blast
  have ok: "hms_ok h m s" unfolding e by (rule hms_ok_micros[OF assms])
  have "parse_hms 3 (char_at 2 58 (format_hms us @ x)) (format_hms us @ x) = Inr ([h, m, s], x)" for x
    unfolding format_hms_def e[symmetric] append_assoc append_Cons append_Nil
    by (rule parse_hms_written; use ok in \<open>simp add: two_digits hms_ok_def\<close>)
  then show ?thesis
    unfolding parse_hh_mm_ss_ff_def e[symmetric] by (simp add: parse_fraction_micros[OF assms(1)] nth_or_0_def)
qed

lemma format_offset_utc: "format_offset 0 = [43, 48, 48, 58, 48, 48]"
  by (simp add: format_offset_def pad_digits_def str_nat.simps)

lemma parse_zone_utc: "parse_zone [43, 48, 48, 58, 48, 48] = Inr 0"
  by (simp add: parse_zone_def parse_hh_mm_ss_ff_def numeral_3_eq_3 char_at_def iso_int_def ascii_digit_def digits_int_def
      parse_fraction_def nth_or_0_def span_micros_def day_micros_def)

lemma time_no_mark:
  assumes "0 \<le> us" "us < day_micros" "c \<noteq> 46" "c < 48 \<or> 58 < c"
  shows "c \<notin> set (format_hms us @ format_micros us)"
proof -
  have "list_all ascii_digit (pad_digits w n)" for w n
    by (auto simp: pad_digits_def Let_def list_all_iff ascii_digit_def dest: str_nat_digits)
  from digits_no_mark[OF this] assms(4) have "c \<notin> set (pad_digits w n)" for w n by auto
  with assms(3,4) show ?thesis by (auto simp: format_hms_def format_micros_def)
qed

lemma parse_isoformat_time_written:
  assumes "0 \<le> us" "us < day_micros"
  shows "parse_isoformat_time ((format_hms us @ format_micros us) @ [43, 48, 48, 58, 48, 48])
    = Inr ((us div 3600000000, us div 60000000 mod 60, us div 1000000 mod 60, us mod 1000000), Some 0)"
proof -
  obtain T where T: "T = format_hms us @ format_micros us" by blast
  have n: "c \<notin> set T" if "c \<in> {43, 45, 90}" for c using time_no_mark[OF assms, of c] that T by auto
  have "split_zone (T @ [43, 48, 48, 58, 48, 48]) = (T, Some [43, 48, 48, 58, 48, 48])"
    using n[of 43] n[of 45] by (auto simp: split_zone_def Let_def takeWhile_append dropWhile_append)
  then show ?thesis using parse_time_written[OF assms] unfolding T[symmetric]
    by (simp add: parse_isoformat_time_def parse_zone_utc)
qed

lemma parse_date_written:
  assumes "0 \<le> y" "y < 10000" "0 \<le> m" "m < 100" "0 \<le> d" "d < 100"
  shows "date_end (pad_digits 4 y @ 45 # pad_digits 2 m @ 45 # pad_digits 2 d @ x # r) = Inr 10"
    "parse_isoformat_date (pad_digits 4 y @ 45 # pad_digits 2 m @ 45 # pad_digits 2 d) = Inr (y, m, d)"
proof -
  note Y = pad_digits_props[of y 4, simplified, OF assms(1,2)]
  note M = two_digits[OF assms(3,4)] and D = two_digits[OF assms(5,6)]
  obtain a b where ab: "pad_digits 2 m = [a, b]" "ascii_digit a"
    using M(1,2) by (auto simp: numeral_2_eq_2 length_Suc_conv)
  show "date_end (pad_digits 4 y @ 45 # pad_digits 2 m @ 45 # pad_digits 2 d @ x # r) = Inr 10"
    using Y(1) D(1) ab by (simp add: date_end_def char_at_def nth_append ascii_digit_def)
  show "parse_isoformat_date (pad_digits 4 y @ 45 # pad_digits 2 m @ 45 # pad_digits 2 d) = Inr (y, m, d)"
    using Y(1,4) M(1,3) D(1,3) ab by (auto simp: parse_isoformat_date_def char_at_def nth_append ascii_digit_def)
qed

text \<open>The instants a \<open>datetime\<close> in UTC can hold.\<close>

definition datetime_range :: "int \<Rightarrow> bool" where
  "datetime_range t \<longleftrightarrow> 1 \<le> t div day_micros + EPOCH_ORDINAL \<and> t div day_micros + EPOCH_ORDINAL \<le> MAXORDINAL"

lemma span_parts: "a = h * 60 + m \<Longrightarrow> b = a * 60 + s \<Longrightarrow> us = b * 1000000 + f \<Longrightarrow> span_micros (h, m, s, f) = us"
  by (simp add: span_micros_def)

lemma make_datetime_ok:
  assumes "1 \<le> y" "y \<le> 9999" "good_date y m d" "hms_ok hh mi ss" "0 \<le> f" "f < 1000000"
  shows "make_datetime (y, m, d) (hh, mi, ss, f) (Some off)
    = Inr (Aware ((ymd2ord y m d - EPOCH_ORDINAL) * day_micros + span_micros (hh, mi, ss, f)) off)"
  using assms by (simp add: make_datetime_def hms_ok_def)

lemma span_micros_split: "span_micros (us div 3600000000, us div 60000000 mod 60, us div 1000000 mod 60, us mod 1000000) = us"
proof (rule span_parts)
  show "us div 60000000 = us div 3600000000 * 60 + us div 60000000 mod 60"
    using div_mult_mod_eq[of "us div 60000000" 60] by (simp add: zdiv_zmult2_eq[symmetric])
  show "us div 1000000 = us div 60000000 * 60 + us div 1000000 mod 60"
    using div_mult_mod_eq[of "us div 1000000" 60] by (simp add: zdiv_zmult2_eq[symmetric])
  show "us = us div 1000000 * 1000000 + us mod 1000000" by simp
qed

lemma make_datetime_written:
  assumes "ord2ymd (t div day_micros + EPOCH_ORDINAL) = (y, m, d)" "datetime_range t"
    and us: "us = t mod day_micros"
  shows "make_datetime (y, m, d) (us div 3600000000, us div 60000000 mod 60, us div 1000000 mod 60, us mod 1000000) (Some 0)
    = Inr (Aware t 0)"
proof -
  note O = ord2ymd_correct[OF assms(1)]
  have y: "1 \<le> y" "y \<le> 9999" using ord2ymd_year[OF assms(1)] assms(2) unfolding datetime_range_def by simp_all
  have "0 \<le> us" "us < day_micros" unfolding us day_micros_def by simp_all
  note M = make_datetime_ok[OF y O(2) hms_ok_micros[OF this], of "us mod 1000000" 0, unfolded span_micros_split O(1)]
  have "(t div day_micros + EPOCH_ORDINAL - EPOCH_ORDINAL) * day_micros + us = t" unfolding us by simp
  with M show ?thesis by (simp only: pos_mod_sign pos_mod_bound zero_less_numeral)
qed

lemma fromisoformat_isoformat:
  assumes "datetime_range t"
  shows "fromisoformat (isoformat (Aware t 0)) = Inr (Aware t 0)"
proof -
  obtain y m d where o: "ord2ymd (t div day_micros + EPOCH_ORDINAL) = (y, m, d)" by (metis prod_cases3)
  obtain us where us: "us = t mod day_micros" by blast
  have b: "0 \<le> us" "us < day_micros" unfolding us day_micros_def by simp_all
  have y: "1 \<le> y" "y \<le> 9999" using ord2ymd_year[OF o] assms unfolding datetime_range_def by simp_all
  have md: "1 \<le> m" "m \<le> 12" "1 \<le> d" "d \<le> 31"
    using ord2ymd_correct(2)[OF o] unfolding good_date_def days_in_month_def
    by (auto simp: DAYS_IN_MONTH_def nth_Cons' split: if_splits)
  obtain T where T: "T = (format_hms us @ format_micros us) @ [43, 48, 48, 58, 48, 48]" by blast
  obtain D where D: "D = pad_digits 4 y @ 45 # pad_digits 2 m @ 45 # pad_digits 2 d" by blast
  have s: "isoformat (Aware t 0) = D @ 84 # T"
    by (simp add: format_wall_def o us[symmetric] format_offset_utc Let_def T D)
  have len: "length D = 10"
    using pad_digits_props(1)[of y 4] two_digits(1)[of m] two_digits(1)[of d] y md by (simp add: D)
  have "date_end (D @ 84 # T) = Inr 10" using parse_date_written(1)[of y m d 84 T] y md by (simp add: D)
  moreover have "take 10 (D @ 84 # T) = D" "drop 11 (D @ 84 # T) = T" using len by simp_all
  moreover have "parse_isoformat_date D = Inr (y, m, d)" using parse_date_written(2)[of y m d] y md by (simp add: D)
  moreover have "parse_isoformat_time T
      = Inr ((us div 3600000000, us div 60000000 mod 60, us div 1000000 mod 60, us mod 1000000), Some 0)"
    unfolding T by (rule parse_isoformat_time_written[OF b])
  moreover have "T \<noteq> []" by (simp add: T)
  ultimately show ?thesis
    unfolding fromisoformat_def s using len by (simp add: make_datetime_written[OF o assms us])
qed

end
