(* ===== verification/Auth.thy ===== *)
theory Auth
  imports Pipeline Sha256 PyDate
begin

text \<open>
  Signatures and sessions: \<open>src/pipelens/security.py\<close> and \<open>src/pipelens/auth.py\<close>. The programs run on
  the state of the pipeline (database, HTTP world, clock). The package \<open>cryptography\<close> is the record
  \<open>fernet_lib\<close>: \<open>Fernet(key)\<close>, its \<open>encrypt\<close> (with a number for the fresh salt and time) and \<open>decrypt\<close>,
  whose InvalidToken is \<open>None\<close>, and those of \<open>MultiFernet\<close>. \<open>secrets.token_urlsafe\<close> reads the source of
  random identifiers of the state.
\<close>

section \<open>Webhook signatures\<close>

definition verify_github_signature :: "nat list \<Rightarrow> pystr option \<Rightarrow> pystr \<Rightarrow> exn + unit" where
  "verify_github_signature body signature secret = (case signature of
       None \<Rightarrow> Inl (InvalidSignatureError (u ''missing or malformed X-Hub-Signature-256 header''))
     | Some s \<Rightarrow> if \<not> prefix (u ''sha256='') s
         then Inl (InvalidSignatureError (u ''missing or malformed X-Hub-Signature-256 header''))
         else bindE (utf8_encode secret) (\<lambda>key.
           let expected = u ''sha256='' @ hexdigest (hmac_sha256 key body) in
           bindE (compare_digest expected s) (\<lambda>same.
             if same then Inr () else Inl (InvalidSignatureError (u ''webhook signature does not match'')))))"

section \<open>The service\<close>

record fernet_lib =
  fl_check :: "nat list \<Rightarrow> exn + unit"
  fl_encrypt :: "nat list \<Rightarrow> nat \<Rightarrow> nat list \<Rightarrow> nat list"
  fl_decrypt :: "nat list \<Rightarrow> nat list \<Rightarrow> nat list option"
  fl_multi_encrypt :: "nat list list \<Rightarrow> nat \<Rightarrow> nat list \<Rightarrow> nat list"
  fl_multi_decrypt :: "nat list list \<Rightarrow> nat list \<Rightarrow> nat list option"

record auth_service =
  au_settings :: Settings
  au_github :: gh_client
  au_fernet :: fernet_lib
  au_keys :: "nat list list"

record AuthenticatedSession =
  sn_session_hash :: pystr
  sn_user :: GitHubUser
  sn_access_token :: pystr

definition auth_service_new :: "fernet_lib \<Rightarrow> Settings \<Rightarrow> gh_client \<Rightarrow> exn + auth_service" where
  "auth_service_new F st github =
     (case bindE (token_encryption_key_ring sha256 st)
         (mapE (\<lambda>k. bindE (utf8_encode k) (\<lambda>key. bindE (fl_check F key) (\<lambda>_. Inr key)))) of
       Inr keys \<Rightarrow> Inr \<lparr>au_settings = st, au_github = github, au_fernet = F, au_keys = keys\<rparr>
     | Inl (ValueError _) \<Rightarrow> Inl (ValueError (u ''PIPELENS_TOKEN_ENCRYPTION_KEY and fallback keys must be Fernet keys''))
     | Inl (TypeError _) \<Rightarrow> Inl (ValueError (u ''PIPELENS_TOKEN_ENCRYPTION_KEY and fallback keys must be Fernet keys''))
     | Inl e \<Rightarrow> Inl e)"

definition callback_url :: "auth_service \<Rightarrow> pystr" where
  "callback_url A = rstrip_if (\<lambda>c. c = 47) (st_public_url (au_settings A)) @ u ''/auth/github/callback''"

definition require_oauth_configuration :: "auth_service \<Rightarrow> exn + pystr \<times> pystr" where
  "require_oauth_configuration A = (let st = au_settings A in
     if truthy (st_github_client_id st) \<and> truthy (st_github_client_secret st)
     then Inr (the (st_github_client_id st), the (st_github_client_secret st))
     else Inl (GitHubConfigurationError (u ''GitHub OAuth client credentials are not configured'')))"

section \<open>The state of a login\<close>

definition token_urlsafe :: "(pipe, pystr) prog" where
  "token_urlsafe = fresh_uuid"

definition state_signature :: "Settings \<Rightarrow> pystr \<Rightarrow> exn + pystr" where
  "state_signature st nonce = bindE (utf8_encode (st_session_secret st)) (\<lambda>key.
     bindE (utf8_encode nonce) (\<lambda>msg. Inr (hexdigest (hmac_sha256 key msg))))"

definition new_oauth_state :: "auth_service \<Rightarrow> (pipe, pystr) prog" where
  "new_oauth_state A = bindS token_urlsafe (\<lambda>nonce.
     bindL (state_signature (au_settings A) nonce) (\<lambda>signature. retS (nonce @ [46] @ signature)))"

text \<open>\<open>rsplit('.', 1)\<close>, unless there is no dot.\<close>

definition rsplit_dot :: "pystr \<Rightarrow> (pystr \<times> pystr) option" where
  "rsplit_dot s = (if 46 \<in> set s
     then Some (rev (tl (dropWhile (\<lambda>c. c \<noteq> 46) (rev s))), rev (takeWhile (\<lambda>c. c \<noteq> 46) (rev s))) else None)"

definition invalid_state :: exn where
  "invalid_state = AuthenticationError (u ''invalid OAuth state'')"

definition verify_oauth_state :: "auth_service \<Rightarrow> pystr option \<Rightarrow> pystr option \<Rightarrow> exn + unit" where
  "verify_oauth_state A state cookie_state =
     (if \<not> truthy state \<or> \<not> truthy cookie_state then Inl invalid_state
      else bindE (compare_digest (the state) (the cookie_state)) (\<lambda>same.
        if \<not> same then Inl invalid_state
        else (case rsplit_dot (the state) of
            None \<Rightarrow> Inl invalid_state
          | Some (nonce, signature) \<Rightarrow> bindE (state_signature (au_settings A) nonce) (\<lambda>expected.
              bindE (compare_digest signature expected) (\<lambda>same. if same then Inr () else Inl invalid_state)))))"

section \<open>Sessions\<close>

definition hash_token :: "pystr \<Rightarrow> exn + pystr" where
  "hash_token token = bindE (utf8_encode token) (\<lambda>bs. Inr (hexdigest (sha256 bs)))"

definition read_installation :: "gh_client \<Rightarrow> json \<Rightarrow> exn + GitHubInstallation" where
  "read_installation C item = bindE (j_item ''id'' item) (\<lambda>i. bindE (j_item ''account'' item) (\<lambda>account.
     bindE (j_item ''login'' account) (\<lambda>login. bindE (j_item ''account'' item) (\<lambda>account.
     bindE (j_get_or ''type'' (JStr (u ''Unknown'')) account) (\<lambda>kind.
     bindE (j_get_or ''repository_selection'' (JStr (u ''selected'')) item) (\<lambda>selection.
     bindE (field_int (gl_to_int (gh_lib C)) i) (\<lambda>i. bindE (field_str login) (\<lambda>login.
     bindE (field_str kind) (\<lambda>kind. bindE (field_str selection) (\<lambda>selection.
       Inr \<lparr>gi_installation_id = i, gi_account_login = login, gi_account_type = kind,
         gi_repository_selection = selection\<rparr>))))))))))"

definition sync_installations :: "auth_service \<Rightarrow> int \<Rightarrow> json \<Rightarrow> (pipe, GitHubInstallation list) prog" where
  "sync_installations A uid access =
     bindS (on_web (user_installations (au_github A) access)) (\<lambda>raw.
     bindL (mapE (read_installation (au_github A)) raw) (\<lambda>installations.
     bindS (on_store_unit (\<lambda>now. replace_user_installations now uid installations)) (\<lambda>_. retS installations)))"

text \<open>\<open>int(v)\<close> of a decoded value.\<close>

definition py_int_text :: "unicode \<Rightarrow> pystr \<Rightarrow> exn + int" where
  "py_int_text U t = (let (neg, s) = take_sign (strip t); (ds, r) = digit_run U s in
     if ds = [] \<or> r \<noteq> [] \<or> length ds > 4300 then Inl (ValueError (u ''invalid literal for int()''))
     else Inr (if neg then - int (digits_value ds) else int (digits_value ds)))"

definition py_int :: "unicode \<Rightarrow> json \<Rightarrow> exn + int" where
  "py_int U v = (case v of
       JInt i \<Rightarrow> Inr i
     | JBool b \<Rightarrow> Inr (if b then 1 else 0)
     | JFloat r \<Rightarrow> Inr (if r < 0 then - \<lfloor>- r\<rfloor> else \<lfloor>r\<rfloor>)
     | JStr s \<Rightarrow> py_int_text U s
     | _ \<Rightarrow> Inl (TypeError (u ''int() argument must be a string, a bytes-like object or a real number'')))"

text \<open>A \<open>timedelta\<close> and a sum of it with an instant, both of limited range.\<close>

definition overflow_error :: exn where
  "overflow_error = OtherError (u ''OverflowError'')"

definition timedelta :: "int \<Rightarrow> exn + int" where
  "timedelta us = (if \<bar>us\<bar> div day_micros > 999999999 then Inl overflow_error else Inr us)"

definition add_time :: "int \<Rightarrow> int \<Rightarrow> exn + int" where
  "add_time t us = (if datetime_range (t + us) then Inr (t + us) else Inl overflow_error)"

definition session_ttl :: "unicode \<Rightarrow> Settings \<Rightarrow> json \<Rightarrow> exn + int" where
  "session_ttl U st payload = bindE (timedelta (st_session_ttl_days st * day_micros)) (\<lambda>ttl.
     bindE (j_get ''expires_in'' payload) (\<lambda>e. if e = JNull then Inr ttl
       else bindE (j_item ''expires_in'' payload) (\<lambda>e. bindE (py_int U e) (\<lambda>s.
         bindE (timedelta (s * 1000000)) (\<lambda>t. Inr (min ttl t))))))"

definition utc_now :: "(pipe, int) prog" where
  "utc_now p = (Inr (pp_now p (pp_nows p)), p\<lparr>pp_nows := pp_nows p + 1\<rparr>)"

definition fresh_salt :: "(pipe, nat) prog" where
  "fresh_salt p = (Inr (pp_uuids p), p\<lparr>pp_uuids := pp_uuids p + 1\<rparr>)"

definition read_user :: "gh_client \<Rightarrow> json \<Rightarrow> exn + GitHubUser" where
  "read_user C raw = bindE (j_item ''id'' raw) (\<lambda>i. bindE (j_item ''login'' raw) (\<lambda>login.
     bindE (j_get ''avatar_url'' raw) (\<lambda>avatar.
     bindE (field_int (gl_to_int (gh_lib C)) i) (\<lambda>i. bindE (field_str login) (\<lambda>login. bindE (field_str_opt avatar) (\<lambda>avatar.
       Inr \<lparr>gu_github_user_id = i, gu_login = login, gu_avatar_url = avatar\<rparr>))))))"

definition create_session :: "auth_service \<Rightarrow> json \<Rightarrow> json \<Rightarrow> GitHubUser \<Rightarrow> (pipe, pystr) prog" where
  "create_session A payload access usr =
     bindS token_urlsafe (\<lambda>token.
     bindL (session_ttl (hc_unicode (gh_http (au_github A))) (au_settings A) payload) (\<lambda>ttl.
     bindS utc_now (\<lambda>now. bindL (add_time now ttl) (\<lambda>expires_at.
     bindL (hash_token token) (\<lambda>h.
     bindL (bindE (j_str_method (u ''encode'') access) utf8_encode) (\<lambda>plain.
     bindS fresh_salt (\<lambda>salt.
     bindL (utf8_decode (fl_multi_encrypt (au_fernet A) (au_keys A) salt plain)) (\<lambda>secret.
     bindS (on_store_unit (\<lambda>now. create_auth_session now h (gu_github_user_id usr) secret expires_at)) (\<lambda>_.
       retS token)))))))))"

definition complete_login :: "auth_service \<Rightarrow> pystr \<Rightarrow> (pipe, pystr \<times> CurrentUser) prog" where
  "complete_login A code =
     bindL (require_oauth_configuration A) (\<lambda>(client_id, client_secret).
     bindS (on_web (exchange_user_code (au_github A) client_id client_secret code (callback_url A))) (\<lambda>payload.
     bindL (j_item ''access_token'' payload) (\<lambda>access.
     bindS (on_web (authenticated_user (au_github A) access)) (\<lambda>raw.
     bindL (read_user (au_github A) raw) (\<lambda>usr.
     bindS (on_store_unit (\<lambda>now d. Inr (upsert_github_user now usr d))) (\<lambda>_.
     bindS (sync_installations A (gu_github_user_id usr) access) (\<lambda>installations.
     bindS (create_session A payload access usr) (\<lambda>token.
       retS (token, \<lparr>cu_user = usr, cu_installations = installations\<rparr>)))))))))"

definition drop_session :: "pystr \<Rightarrow> (pipe, unit) prog" where
  "drop_session h = on_store_unit (\<lambda>_ d. Inr (delete_auth_session h d))"

text \<open>The stored token in plain, rewritten under the first key when only a later key opens it.\<close>

definition open_token :: "auth_service \<Rightarrow> pystr \<Rightarrow> nat list \<Rightarrow> (pipe, nat list option) prog" where
  "open_token A h tok = (case fl_decrypt (au_fernet A) (hd (au_keys A)) tok of
       Some b \<Rightarrow> retS (Some b)
     | None \<Rightarrow> (case fl_multi_decrypt (au_fernet A) (au_keys A) tok of
         None \<Rightarrow> bindS (drop_session h) (\<lambda>_. retS None)
       | Some b \<Rightarrow> bindS fresh_salt (\<lambda>salt.
           bindL (utf8_decode (fl_encrypt (au_fernet A) (hd (au_keys A)) salt b)) (\<lambda>secret.
           bindS (on_store_unit (\<lambda>_ d. Inr (update_auth_session_token h secret d))) (\<lambda>_. retS (Some b))))))"

definition authenticate :: "auth_service \<Rightarrow> pystr option \<Rightarrow> (pipe, AuthenticatedSession option) prog" where
  "authenticate A session_token =
     (if \<not> truthy session_token then retS None
      else bindL (hash_token (the session_token)) (\<lambda>h.
        bindS (on_store (\<lambda>_ d. Inr (get_auth_session h d, d))) (\<lambda>row. case row of
            None \<Rightarrow> retS None
          | Some r \<Rightarrow> bindS utc_now (\<lambda>now.
              if utc_micros (as_expires_at r) \<le> now then bindS (drop_session h) (\<lambda>_. retS None)
              else bindL (utf8_encode (as_encrypted_access_token r)) (\<lambda>tok.
                bindS (open_token A h tok) (\<lambda>opened. case opened of
                    None \<Rightarrow> retS None
                  | Some b \<Rightarrow> (case utf8_decode b of
                      Inl _ \<Rightarrow> bindS (drop_session h) (\<lambda>_. retS None)
                    | Inr access \<Rightarrow> retS (Some \<lparr>sn_session_hash = h,
                        sn_user = \<lparr>gu_github_user_id = as_github_user_id r, gu_login = as_login r,
                          gu_avatar_url = as_avatar_url r\<rparr>,
                        sn_access_token = access\<rparr>))))))))"

definition auth_current_user :: "auth_service \<Rightarrow> AuthenticatedSession \<Rightarrow> (pipe, CurrentUser) prog" where
  "auth_current_user A s = on_store (\<lambda>_ d. Inr (\<lparr>cu_user = sn_user s,
     cu_installations = installations_for_user (gu_github_user_id (sn_user s)) d\<rparr>, d))"

end
