(* ===== verification/Bootstrap.thy ===== *)
theory Bootstrap
  imports Pipeline Auth
begin

text \<open>
  The wiring of the service, \<open>src/pipelens/bootstrap.py\<close> with \<open>create_queue\<close> of \<open>src/pipelens/queue.py\<close>: from the
  settings to the clients, the pipeline and the queue. Opening the database and the Redis connection
  is left to their libraries; the store is named by its URL.
\<close>

datatype queue_choice = InMemory | OnRedis pystr pystr redis_client

definition create_queue :: "pystr \<Rightarrow> pystr \<Rightarrow> pystr \<Rightarrow> pystr \<Rightarrow> pystr option \<Rightarrow> int \<Rightarrow> exn + queue_choice" where
  "create_queue uuid backend redis_url queue_name wid lease =
     (if backend = u ''memory'' then Inr InMemory
      else if backend = u ''redis'' then bindE (redis_client_new uuid wid lease) (\<lambda>c. Inr (OnRedis redis_url queue_name c))
      else Inl (ValueError (u ''unsupported queue backend: '' @ backend)))"

text \<open>The libraries behind the clients.\<close>

record runtime_libs =
  rl_github :: github_lib
  rl_fuel :: nat
  rl_unicode :: unicode
  rl_parse_date :: "pystr \<Rightarrow> exn + datetime"
  rl_llm :: llm_lib
  rl_patch :: patch_lib
  rl_exc_text :: "exn \<Rightarrow> pystr"
  rl_uuid :: pystr

record Runtime =
  rt_database_url :: pystr
  rt_github :: gh_client
  rt_llm_provider :: "llm_provider option"
  rt_pipeline :: pipeline
  rt_queue :: queue_choice

definition settings_policy :: "Settings \<Rightarrow> exn + RetryPolicy" where
  "settings_policy st = check_policy (default_policy\<lparr>rp_max_attempts := st_http_retry_max_attempts st,
     rp_base_delay_seconds := st_http_retry_base_seconds st, rp_max_delay_seconds := st_http_retry_max_seconds st\<rparr>)"

definition count_retry :: "string \<Rightarrow> retry_observer" where
  "count_retry provider reason attempt delay = inc1 ''http_retries'' [u provider, reason]"

definition choose_llm :: "runtime_libs \<Rightarrow> Settings \<Rightarrow> RetryPolicy \<Rightarrow> exn + llm_provider option" where
  "choose_llm L st policy =
     (if st_llm_provider st = u ''openai''
      then (if \<not> truthy (st_openai_api_key st) then Inl (ValueError (u ''PIPELENS_OPENAI_API_KEY is required for the OpenAI provider''))
        else Inr (Some (llm_provider_new (rl_llm L) (rl_unicode L) (rl_parse_date L) (the (st_openai_api_key st)) (st_openai_model st)
               (st_max_llm_input_chars st) (Some policy) (Some (count_retry ''openai'')))))
      else if st_llm_provider st \<noteq> u ''none'' then Inl (ValueError (u ''unsupported LLM provider: '' @ st_llm_provider st))
      else Inr None)"

definition create_runtime :: "runtime_libs \<Rightarrow> Settings \<Rightarrow> exn + Runtime" where
  "create_runtime L st = bindE (settings_policy st) (\<lambda>policy.
     let github = github_client_new (rl_github L) (rl_fuel L) (rl_unicode L) (rl_parse_date L) (st_github_app_id st)
           (st_github_private_key st) (st_max_log_bytes st) (Some policy) (Some (count_retry ''github'')) in
     bindE (choose_llm L st policy) (\<lambda>llm.
     bindE (create_queue (rl_uuid L) (st_queue_backend st) (st_redis_url st) (st_queue_name st) None (st_worker_lease_seconds st)) (\<lambda>q.
       Inr \<lparr>rt_database_url = resolved_database_url st, rt_github = github, rt_llm_provider = llm,
         rt_pipeline = \<lparr>ap_settings = st, ap_unicode = rl_unicode L, ap_github = github, ap_llm = llm,
           ap_patch_lib = rl_patch L, ap_exc_text = rl_exc_text L\<rparr>,
         rt_queue = q\<rparr>)))"

lemma settings_policy_valid: "settings_policy st = Inr p \<Longrightarrow> valid_policy p"
  by (auto simp: settings_policy_def check_policy_def valid_policy_def default_policy_def split: if_splits)

lemma runtime_policies:
  assumes "create_runtime L st = Inr R"
  shows "valid_policy (hc_policy (gh_http (rt_github R)))" "rt_llm_provider R = Some P \<Longrightarrow> valid_policy (hc_policy (lp_http P))"
    "ap_github (rt_pipeline R) = rt_github R" "ap_llm (rt_pipeline R) = rt_llm_provider R"
  using assms settings_policy_valid[of st]
  by (auto simp: create_runtime_def bindE_eq_Inr Let_def github_client_new_def choose_llm_def llm_provider_new_def split: if_splits)

end
