(* ===== verification/Worker_Tasks.thy ===== *)
theory Worker_Tasks
  imports Worker_Props Bootstrap
begin

text \<open>
  The tasks of a worker process, \<open>run\<close>, \<open>start\<close>, \<open>stop\<close> and \<open>run_worker\<close> of \<open>src/pipelens/worker.py\<close>: the main task and the
  maintenance task it creates, cut at their awaits. Between two awaits the event loop runs nothing else, so one step of
  a task is one queue call with what follows it. Steps of the two tasks and of other processes interleave, a connection may be
  lost at any call, with any part of the call's commands carried out, and the process may be stopped at any await.
\<close>

section \<open>The tasks\<close>

datatype main_point =
    AtHeartbeat | AtRecover | AtTake | AtDepthIdle
  | AtDepthTaken QueueJob | AtAnalyze QueueJob | AtRetry QueueJob | AtGiveUp QueueJob | AtAcknowledge QueueJob
  | AtDepthSettled | MainRaised exn | MainCancelled

datatype maint_point = MaintSleep | MaintHeartbeat | MaintRecover

text \<open>The handlers of \<open>RedisError\<close> in \<open>run\<close>: the error is counted and the loop goes on \<open>again\<close>; other exceptions end the task.\<close>

definition after_call :: "rat \<Rightarrow> string \<Rightarrow> main_point \<Rightarrow> (exn + 'a) \<times> ('q, 'e) worker \<Rightarrow> ('a \<Rightarrow> main_point)
    \<Rightarrow> main_point \<times> ('q, 'e) worker" where
  "after_call clock phase again res next = (case res of
       (Inl e, w) \<Rightarrow> if is_redis_error e then (again, record_queue_error clock (u phase) w) else (MainRaised e, w)
     | (Inr a, w) \<Rightarrow> (next a, w))"

text \<open>The \<open>else\<close> clauses, where a phase that failed before is recorded as recovered.\<close>

definition succeed :: "rat \<Rightarrow> string \<Rightarrow> (('q, 'e) worker, unit) prog" where
  "succeed clock phase = updS (record_queue_success clock (u phase))"

definition sweep :: "'q queue_ops \<Rightarrow> (('q, 'e) worker, unit) prog" where
  "sweep Q = bindS (on_queue (qo_recover_orphaned Q)) (\<lambda>recovered.
     if recovered \<noteq> 0 then on_metrics (inc_nat ''queue_recovered'' [] recovered) else retS ())"

definition record_failure :: "(exn \<Rightarrow> pystr) \<Rightarrow> int \<Rightarrow> int \<Rightarrow> QueueJob \<Rightarrow> exn \<Rightarrow> (('q, 'e) worker, bool) prog" where
  "record_failure exc_text max_attempts now job exc =
     (let again = qe_attempts (qj_envelope job) + 1 < max_attempts
      in bindS (worker_store_update now (env_run_id (qj_envelope job)) (if again then QUEUED else FAILED) (exc_text exc)) (\<lambda>_. retS again))"

definition main_step :: "'q queue_ops \<Rightarrow> (exn \<Rightarrow> pystr) \<Rightarrow> 'e analyze \<Rightarrow> int \<Rightarrow> int \<Rightarrow> rat \<Rightarrow> main_point \<Rightarrow> ('q, 'e) worker
    \<Rightarrow> main_point \<times> ('q, 'e) worker" where
  "main_step Q exc_text analyze max_attempts now clock p w = (case p of
       AtHeartbeat \<Rightarrow> after_call clock ''startup'' AtHeartbeat (on_queue_unit (qo_heartbeat Q) w) (\<lambda>_. AtRecover)
     | AtRecover \<Rightarrow> after_call clock ''startup'' AtHeartbeat (bindS (sweep Q) (\<lambda>_. succeed clock ''startup'') w) (\<lambda>_. AtTake)
     | AtTake \<Rightarrow> after_call clock ''processing'' AtTake (on_queue (qo_dequeue Q) w)
         (\<lambda>j. case j of None \<Rightarrow> AtDepthIdle | Some job \<Rightarrow> AtDepthTaken job)
     | AtDepthIdle \<Rightarrow> after_call clock ''processing'' AtTake
         (bindS (set_queue_depth Q) (\<lambda>_. succeed clock ''processing'') w) (\<lambda>_. AtTake)
     | AtDepthTaken job \<Rightarrow> after_call clock ''processing'' AtTake (set_queue_depth Q w) (\<lambda>_. AtAnalyze job)
     | AtAnalyze job \<Rightarrow> (case run_analyze analyze (qe_request (qj_envelope job)) w of
           (Inl exc, w') \<Rightarrow> after_call clock ''processing'' AtTake (record_failure exc_text max_attempts now job exc w')
             (\<lambda>again. if again then AtRetry job else AtGiveUp job)
         | (Inr _, w') \<Rightarrow> (AtAcknowledge job, w'))
     | AtRetry job \<Rightarrow> after_call clock ''processing'' AtTake
         (bindS (on_queue_unit (qo_retry Q job)) (\<lambda>_. on_metrics (inc1 ''queue_retries'' [])) w) (\<lambda>_. AtDepthSettled)
     | AtGiveUp job \<Rightarrow> after_call clock ''processing'' AtTake
         (bindS (on_queue_unit (qo_acknowledge Q job)) (\<lambda>_. on_metrics (inc1 ''analyses'' [u ''failed''])) w) (\<lambda>_. AtDepthSettled)
     | AtAcknowledge job \<Rightarrow> after_call clock ''processing'' AtTake (on_queue_unit (qo_acknowledge Q job) w) (\<lambda>_. AtDepthSettled)
     | AtDepthSettled \<Rightarrow> after_call clock ''processing'' AtTake
         (bindS (set_queue_depth Q) (\<lambda>_. succeed clock ''processing'') w) (\<lambda>_. AtTake)
     | _ \<Rightarrow> (p, w))"

text \<open>\<open>_maintain_queue\<close>, which catches every exception and sleeps before each turn.\<close>

definition maint_step :: "'q queue_ops \<Rightarrow> rat \<Rightarrow> maint_point \<Rightarrow> ('q, 'e) worker \<Rightarrow> maint_point \<times> ('q, 'e) worker" where
  "maint_step Q clock p w =
     (let failed = (\<lambda>e w'. (MaintSleep, if is_redis_error e then record_queue_error clock (u ''maintenance'') w' else w'))
      in case p of
       MaintSleep \<Rightarrow> (MaintHeartbeat, w)
     | MaintHeartbeat \<Rightarrow> (case on_queue_unit (qo_heartbeat Q) w of (Inl e, w') \<Rightarrow> failed e w' | (Inr _, w') \<Rightarrow> (MaintRecover, w'))
     | MaintRecover \<Rightarrow> (case bindS (sweep Q) (\<lambda>_. succeed clock ''maintenance'') w of
           (Inl e, w') \<Rightarrow> failed e w' | (Inr _, w') \<Rightarrow> (MaintSleep, w')))"

record ('q, 'e) tasks =
  tk_main :: main_point
  tk_maint :: "maint_point option"
  tk_worker :: "('q, 'e) worker"

definition started :: "('q, 'e) worker \<Rightarrow> ('q, 'e) tasks" where
  "started w = \<lparr>tk_main = AtHeartbeat, tk_maint = None, tk_worker = w\<rparr>"

definition run_worker :: "runtime_libs \<Rightarrow> Settings \<Rightarrow> 'q \<Rightarrow> db \<Rightarrow> 'e \<Rightarrow> exn + Runtime \<times> ('q, 'e) tasks" where
  "run_worker L st q d env = bindE (create_runtime L st) (\<lambda>R.
     bindE (worker_new (st_worker_heartbeat_seconds st) q d new_metrics env) (\<lambda>w. Inr (R, started w)))"

text \<open>The maintenance task is created when the start-up loop is left.\<close>

definition maint_after :: "main_point \<Rightarrow> main_point \<Rightarrow> maint_point option \<Rightarrow> maint_point option" where
  "maint_after p p' mt = (if p = AtRecover \<and> p' = AtTake then Some MaintSleep else mt)"

section \<open>The steps are the loops\<close>

text \<open>Undisturbed, the steps of a turn are the turn: from \<open>AtTake\<close> the main task comes back to \<open>AtTake\<close>, or ends, with the
  outcome of \<open>loop_turn\<close>, and a turn of the maintenance task is \<open>maintain_turn\<close>.\<close>

lemmas step_defs = main_step_def after_call_def succeed_def record_failure_def sweep_def

inductive undisturbed :: "'q queue_ops \<Rightarrow> (exn \<Rightarrow> pystr) \<Rightarrow> 'e analyze \<Rightarrow> int \<Rightarrow> int \<Rightarrow> rat \<Rightarrow> main_point \<times> ('q, 'e) worker
    \<Rightarrow> main_point \<times> ('q, 'e) worker \<Rightarrow> bool" for Q xt analyze m now clock where
  stay: "undisturbed Q xt analyze m now clock s s"
| move: "undisturbed Q xt analyze m now clock (main_step Q xt analyze m now clock p w) s
    \<Longrightarrow> undisturbed Q xt analyze m now clock (p, w) s"

lemma bindS_assoc: "bindS (bindS f g) h = bindS f (\<lambda>a. bindS (g a) h)"
  by (rule ext) (simp add: bindS_def split: sum.splits prod.splits)

lemma bindS_retS: "bindS (retS a) k = k a"
  by (rule ext) (simp add: bindS_def retS_def)

definition turn_end :: "rat \<Rightarrow> (exn + 'a) \<times> ('q, 'e) worker \<Rightarrow> main_point \<times> ('q, 'e) worker" where
  "turn_end clock r = after_call clock ''processing'' AtTake r (\<lambda>_. AtTake)"

lemma turn_via_call:
  assumes "\<And>a w'. f w = (Inr a, w') \<Longrightarrow> undisturbed Q xt analyze m now clock (nx a, w') (turn_end clock (k a w'))"
  shows "undisturbed Q xt analyze m now clock (after_call clock ''processing'' AtTake (f w) nx) (turn_end clock (bindS f k w))"
  using assms by (auto simp: after_call_def turn_end_def bindS_def split: sum.splits prod.splits intro: undisturbed.stay)

lemma turn_depth:
  assumes "p = AtDepthIdle \<or> p = AtDepthSettled"
  shows "undisturbed Q xt analyze m now clock (p, w)
     (turn_end clock (bindS (bindS (set_queue_depth Q) (\<lambda>_. retS b)) (\<lambda>_. succeed clock ''processing'') w))"
  using assms
  by (intro undisturbed.move) (auto simp: main_step_def turn_end_def after_call_def bindS_def retS_def split: sum.splits prod.splits
      intro: undisturbed.stay)

lemma turn_settle:
  assumes "main_step Q xt analyze m now clock p w = after_call clock ''processing'' AtTake (f w) (\<lambda>_. AtDepthSettled)"
  shows "undisturbed Q xt analyze m now clock (p, w)
     (turn_end clock (bindS (bindS f (\<lambda>_. bindS (set_queue_depth Q) (\<lambda>_. retS b))) (\<lambda>_. succeed clock ''processing'') w))"
  unfolding bindS_assoc
  by (intro undisturbed.move, unfold assms, rule turn_via_call) (simp only: turn_depth[unfolded bindS_assoc] simp_thms)

lemma turn_analyze:
  "undisturbed Q xt analyze m now clock (AtAnalyze job, w)
     (turn_end clock (bindS (bindS (process_job Q xt analyze m now job) (\<lambda>_. bindS (set_queue_depth Q) (\<lambda>_. retS b)))
        (\<lambda>_. succeed clock ''processing'') w))"
proof -
  obtain r w' where r: "run_analyze analyze (qe_request (qj_envelope job)) w = (r, w')" by (rule prod.exhaust)
  show ?thesis
  proof (cases r)
    case (Inr x)
    have "undisturbed Q xt analyze m now clock (AtAcknowledge job, w')
       (turn_end clock (bindS (bindS (on_queue_unit (qo_acknowledge Q job)) (\<lambda>_. bindS (set_queue_depth Q) (\<lambda>_. retS b)))
          (\<lambda>_. succeed clock ''processing'') w'))"
      by (rule turn_settle) (simp add: main_step_def)
    then show ?thesis
      by (intro undisturbed.move) (simp add: main_step_def r Inr process_job_def bindS_def)
  next
    case (Inl exc)
    let ?again = "qe_attempts (qj_envelope job) + 1 < m"
    let ?rest = "if ?again then bindS (on_queue_unit (qo_retry Q job)) (\<lambda>_. on_metrics (inc1 ''queue_retries'' []))
      else bindS (on_queue_unit (qo_acknowledge Q job)) (\<lambda>_. on_metrics (inc1 ''analyses'' [u ''failed'']))"
    have hf: "handle_failure Q xt m now job exc = bindS (record_failure xt m now job exc) (\<lambda>_. ?rest)"
      by (simp add: handle_failure_def record_failure_def Let_def bindS_assoc bindS_retS)
    have b: "record_failure xt m now job exc w' = (Inr a, w'') \<Longrightarrow> a = ?again" for a w''
      by (auto simp: record_failure_def Let_def bindS_def retS_def split: sum.splits prod.splits)
    have "undisturbed Q xt analyze m now clock
       (after_call clock ''processing'' AtTake (record_failure xt m now job exc w') (\<lambda>again. if again then AtRetry job else AtGiveUp job))
       (turn_end clock (bindS (record_failure xt m now job exc) (\<lambda>_. bindS (bindS ?rest (\<lambda>_. bindS (set_queue_depth Q) (\<lambda>_. retS b)))
          (\<lambda>_. succeed clock ''processing'')) w'))"
      by (rule turn_via_call, drule b, rule turn_settle) (simp add: main_step_def)
    moreover have pj: "bindS (process_job Q xt analyze m now job) K w = bindS (record_failure xt m now job exc) (\<lambda>_. bindS ?rest K) w'" for K
      unfolding bindS_assoc[symmetric] hf[symmetric] by (simp add: bindS_def process_job_def r Inl)
    ultimately show ?thesis
      by (intro undisturbed.move) (simp add: main_step_def r Inl bindS_assoc pj)
  qed
qed

text \<open>Undisturbed, the steps of the main task from \<open>AtTake\<close> are a turn of the processing loop.\<close>

lemma loop_turn_undisturbed:
  "undisturbed Q xt analyze m now clock (AtTake, w) (case loop_turn Q xt analyze m now clock w of
     (Inl e, w') \<Rightarrow> (MainRaised e, w') | (Inr _, w') \<Rightarrow> (AtTake, w'))"
proof -
  let ?P = "process_next Q xt analyze m now"
  have "undisturbed Q xt analyze m now clock (AtTake, w) (turn_end clock (bindS ?P (\<lambda>_. succeed clock ''processing'') w))"
    unfolding process_next_def bindS_assoc
  proof (rule undisturbed.move, simp only: main_step_def main_point.case, rule turn_via_call)
    fix j :: "QueueJob option" and w'
    have taken: "main_step Q xt analyze m now clock (AtDepthTaken job) w'
        = after_call clock ''processing'' AtTake (set_queue_depth Q w') (\<lambda>_. AtAnalyze job)" for job
      by (simp add: main_step_def)
    show "undisturbed Q xt analyze m now clock (case j of None \<Rightarrow> AtDepthIdle | Some job \<Rightarrow> AtDepthTaken job, w')
       (turn_end clock (bindS (case j of None \<Rightarrow> bindS (set_queue_depth Q) (\<lambda>_. retS False)
          | Some job \<Rightarrow> bindS (set_queue_depth Q) (\<lambda>_. bindS (process_job Q xt analyze m now job)
              (\<lambda>_. bindS (set_queue_depth Q) (\<lambda>_. retS True)))) (\<lambda>_. succeed clock ''processing'') w'))"
    proof (cases j)
      case None
      then show ?thesis by (simp add: turn_depth)
    next
      case (Some job)
      have "undisturbed Q xt analyze m now clock (AtDepthTaken job, w')
         (turn_end clock (bindS (set_queue_depth Q) (\<lambda>_. bindS (bindS (process_job Q xt analyze m now job)
              (\<lambda>_. bindS (set_queue_depth Q) (\<lambda>_. retS True))) (\<lambda>_. succeed clock ''processing'')) w'))"
        by (rule undisturbed.move, unfold taken, rule turn_via_call, rule turn_analyze)
      with Some show ?thesis by (simp add: bindS_assoc)
    qed
  qed
  moreover have "turn_end clock (bindS ?P (\<lambda>_. succeed clock ''processing'') w) = (case loop_turn Q xt analyze m now clock w of
     (Inl e, w') \<Rightarrow> (MainRaised e, w') | (Inr _, w') \<Rightarrow> (AtTake, w'))"
    by (auto simp: turn_end_def after_call_def loop_turn_def bindS_def succeed_def split: sum.splits prod.splits)
  ultimately show ?thesis by simp
qed

lemma maintain_turn_undisturbed:
  "maint_step Q clock MaintSleep w = (MaintHeartbeat, w)"
  "(case maint_step Q clock MaintHeartbeat w of (p, w') \<Rightarrow> if p = MaintSleep then (p, w') else maint_step Q clock p w')
     = (MaintSleep, maintain_turn Q clock w)"
  by (auto simp: maint_step_def maintain_turn_def maintain_queue_once_def sweep_def succeed_def bindS_def Let_def
      split: sum.splits prod.splits if_splits)

section \<open>Interleaving, lost connections and stopping\<close>

text \<open>The commands a task has sent to the server when its call is over, and the queue calls of a worker without a connection.\<close>

definition main_commands :: "redis_client \<Rightarrow> int \<Rightarrow> pystr list \<Rightarrow> main_point \<Rightarrow> redis_op list" where
  "main_commands c now keys p = (case p of
       AtHeartbeat \<Rightarrow> [RHeartbeat c now]
     | AtRecover \<Rightarrow> map (RRecover c now) keys
     | AtTake \<Rightarrow> [RHeartbeat c now, RTake c]
     | AtRetry job \<Rightarrow> [RRetry c (qj_envelope job)]
     | AtGiveUp job \<Rightarrow> [RAck c (qj_envelope job)]
     | AtAcknowledge job \<Rightarrow> [RAck c (qj_envelope job)]
     | _ \<Rightarrow> [])"

definition maint_commands :: "redis_client \<Rightarrow> int \<Rightarrow> pystr list \<Rightarrow> maint_point \<Rightarrow> redis_op list" where
  "maint_commands c now keys p = (case p of
     MaintSleep \<Rightarrow> [] | MaintHeartbeat \<Rightarrow> [RHeartbeat c now] | MaintRecover \<Rightarrow> map (RRecover c now) keys)"

definition lost_ops :: "'q queue_ops" where
  "lost_ops = (let e = RedisError (u ''connection lost'') in \<lparr>qo_dequeue = (\<lambda>_. Inl e), qo_acknowledge = (\<lambda>_ _. Inl e), qo_retry = (\<lambda>_ _. Inl e),
     qo_heartbeat = (\<lambda>_. Inl e), qo_recover_orphaned = (\<lambda>_. Inl e), qo_size = (\<lambda>_. Inl e)\<rparr>)"

definition send_first :: "nat \<Rightarrow> redis_op list \<Rightarrow> (redis, 'e) worker \<Rightarrow> (redis, 'e) worker" where
  "send_first k ops w = w\<lparr>wk_queue := redis_run (take k ops) (wk_queue w)\<rparr>"

fun active :: "main_point \<Rightarrow> bool" where
  "active (MainRaised _) = False"
| "active MainCancelled = False"
| "active _ = True"

fun held_job :: "main_point \<Rightarrow> QueueJob option" where
  "held_job (AtDepthTaken job) = Some job"
| "held_job (AtAnalyze job) = Some job"
| "held_job (AtRetry job) = Some job"
| "held_job (AtGiveUp job) = Some job"
| "held_job (AtAcknowledge job) = Some job"
| "held_job _ = None"

fun op_client :: "redis_op \<Rightarrow> redis_client option" where
  "op_client (REnqueue _) = None"
| "op_client (RHeartbeat c _) = Some c"
| "op_client (RTake c) = Some c"
| "op_client (RAck c _) = Some c"
| "op_client (RRetry c _) = Some c"
| "op_client (RRecover c _ _) = Some c"

definition foreign :: "redis_client \<Rightarrow> redis_op \<Rightarrow> bool" where
  "foreign c op \<longleftrightarrow> (case op_client op of None \<Rightarrow> True | Some c' \<Rightarrow> worker_id c' \<noteq> worker_id c)"

text \<open>The labels show the end of an analysis with its outcome, and what other processes do to the queue.\<close>

datatype task_label = Silent | Analyzed QueueEnvelope "exn + unit" | Foreign redis_op

definition step_label :: "'e analyze \<Rightarrow> main_point \<Rightarrow> ('q, 'e) worker \<Rightarrow> task_label" where
  "step_label analyze p w = (case p of
       AtAnalyze job \<Rightarrow> Analyzed (qj_envelope job) (fst (run_analyze analyze (qe_request (qj_envelope job)) w))
     | _ \<Rightarrow> Silent)"

text \<open>
  A call whose connection is lost has sent the first \<open>k\<close> of its commands. Stopping cancels the main task at its await, where part
  of a call may have been sent too and a running analysis leaves what it has done so far, and then the maintenance task.
\<close>

inductive tasks_step :: "redis_client \<Rightarrow> (exn \<Rightarrow> pystr) \<Rightarrow> 'e analyze \<Rightarrow> int \<Rightarrow> (redis, 'e) tasks \<Rightarrow> task_label \<Rightarrow> (redis, 'e) tasks \<Rightarrow> bool"
  for c xt analyze m where
  main: "active p \<Longrightarrow> main_step (redis_ops c now keys) xt analyze m now clock p w = (p', w') \<Longrightarrow>
     tasks_step c xt analyze m \<lparr>tk_main = p, tk_maint = mt, tk_worker = w\<rparr> (step_label analyze p w)
       \<lparr>tk_main = p', tk_maint = maint_after p p' mt, tk_worker = w'\<rparr>"
| main_lost: "active p \<Longrightarrow> (\<forall>job. p \<noteq> AtAnalyze job) \<Longrightarrow>
     main_step lost_ops xt analyze m now clock p (send_first k (main_commands c now keys p) w) = (p', w') \<Longrightarrow>
     tasks_step c xt analyze m \<lparr>tk_main = p, tk_maint = mt, tk_worker = w\<rparr> Silent \<lparr>tk_main = p', tk_maint = mt, tk_worker = w'\<rparr>"
| maint: "maint_step (redis_ops c now keys) clock q w = (q', w') \<Longrightarrow>
     tasks_step c xt analyze m \<lparr>tk_main = p, tk_maint = Some q, tk_worker = w\<rparr> Silent \<lparr>tk_main = p, tk_maint = Some q', tk_worker = w'\<rparr>"
| maint_lost: "q \<noteq> MaintSleep \<Longrightarrow> maint_step lost_ops clock q (send_first k (maint_commands c now keys q) w) = (q', w') \<Longrightarrow>
     tasks_step c xt analyze m \<lparr>tk_main = p, tk_maint = Some q, tk_worker = w\<rparr> Silent \<lparr>tk_main = p, tk_maint = Some q', tk_worker = w'\<rparr>"
| other: "foreign c op \<Longrightarrow>
     tasks_step c xt analyze m \<lparr>tk_main = p, tk_maint = mt, tk_worker = w\<rparr> (Foreign op)
       \<lparr>tk_main = p, tk_maint = mt, tk_worker = w\<lparr>wk_queue := exec_redis op (wk_queue w), wk_db := d\<rparr>\<rparr>"
| stop: "active p \<Longrightarrow> (if \<exists>job. p = AtAnalyze job then wk_queue w' = wk_queue w else w' = w) \<Longrightarrow>
     tasks_step c xt analyze m \<lparr>tk_main = p, tk_maint = mt, tk_worker = w\<rparr> Silent
       \<lparr>tk_main = MainCancelled, tk_maint = mt, tk_worker = send_first k (main_commands c now keys p) w'\<rparr>"
| stop_maint: "\<not> active p \<Longrightarrow>
     tasks_step c xt analyze m \<lparr>tk_main = p, tk_maint = Some q, tk_worker = w\<rparr> Silent
       \<lparr>tk_main = p, tk_maint = None, tk_worker = send_first k (maint_commands c now keys q) w\<rparr>"

inductive tasks_run :: "redis_client \<Rightarrow> (exn \<Rightarrow> pystr) \<Rightarrow> 'e analyze \<Rightarrow> int \<Rightarrow> (redis, 'e) tasks \<Rightarrow> task_label list \<Rightarrow> (redis, 'e) tasks \<Rightarrow> bool"
  for c xt analyze m where
  none: "tasks_run c xt analyze m t [] t"
| more: "tasks_run c xt analyze m t ls t' \<Longrightarrow> tasks_step c xt analyze m t' l t'' \<Longrightarrow> tasks_run c xt analyze m t (ls @ [l]) t''"

section \<open>What the tasks do to the queue\<close>

lemma wk_queue_record [simp]:
  "wk_queue (record_queue_error clock p w) = wk_queue w" "wk_queue (record_queue_success clock p w) = wk_queue w"
  by (simp_all add: record_queue_error_def record_queue_success_def split: option.splits)

lemma recover_orphaned_run: "snd (recover_orphaned c now keys s) = redis_run (map (RRecover c now) keys) s"
  by (induction keys arbitrary: s) (simp_all add: Let_def split_beta)

lemma queue_after_call [simp]: "wk_queue (snd (after_call clock phase again r nx)) = wk_queue (snd r)"
  by (auto simp: after_call_def split: prod.splits sum.splits)

lemma queue_on_queue: "wk_queue (snd (on_queue f w)) = (case f (wk_queue w) of Inl _ \<Rightarrow> wk_queue w | Inr (_, q) \<Rightarrow> q)"
  by (auto simp: on_queue_def transS_def bindE_def split: sum.splits prod.splits)

lemma queue_on_queue_unit: "wk_queue (snd (on_queue_unit f w)) = (case f (wk_queue w) of Inl _ \<Rightarrow> wk_queue w | Inr q \<Rightarrow> q)"
  by (auto simp: on_queue_unit_def queue_on_queue bindE_def split: sum.splits)

lemma queue_bindS_frame: "(\<And>a w. wk_queue (snd (k a w)) = wk_queue w) \<Longrightarrow> wk_queue (snd (bindS f k w)) = wk_queue (snd (f w))"
  by (auto simp: bindS_def split: sum.splits prod.splits)

lemma queue_frames [simp]:
  "wk_queue (snd (on_metrics f w)) = wk_queue w" "wk_queue (snd (succeed clock phase w)) = wk_queue w"
  "wk_queue (snd (set_queue_depth Q w)) = wk_queue w" "wk_queue (snd (record_failure xt m now job exc w)) = wk_queue w"
  "wk_queue (snd (run_analyze analyze r w)) = wk_queue w"
  by (auto simp: on_metrics_def succeed_def set_queue_depth_def record_failure_def worker_store_update_def run_analyze_def bindS_def transS_def
      bindE_def Let_def split: sum.splits prod.splits if_splits)

lemma queue_analyze: "run_analyze analyze r w = (x, w') \<Longrightarrow> wk_queue w' = wk_queue w"
  by (metis queue_frames(5) snd_conv)

lemma queue_sweep: "wk_queue (snd (sweep Q w)) = (case qo_recover_orphaned Q (wk_queue w) of Inl _ \<Rightarrow> wk_queue w | Inr (_, q) \<Rightarrow> q)"
  unfolding sweep_def by (subst queue_bindS_frame) (auto simp: queue_on_queue)

lemmas queue_calls = queue_on_queue queue_on_queue_unit queue_bindS_frame queue_sweep

text \<open>A call that returns has sent its commands; a lost one leaves what was sent.\<close>

definition own_job :: "QueueJob \<Rightarrow> bool" where
  "own_job job \<longleftrightarrow> qj_receipt job = Some (qj_envelope job)"

lemma own_job_eq: "own_job job \<Longrightarrow> job = job_of (qj_envelope job)"
  by (simp add: own_job_def job_of_def)

lemma main_step_queue:
  assumes "\<And>job. held_job p = Some job \<Longrightarrow> own_job job"
  shows "wk_queue (snd (main_step (redis_ops c now keys) xt analyze m now clock p w)) = redis_run (main_commands c now keys p) (wk_queue w)"
  using assms recover_orphaned_run[of c now keys "wk_queue w"]
  by (cases p) (auto simp: main_step_def queue_calls main_commands_def redis_ops_def own_job_def job_of_def redis_dequeue_def
      redis_acknowledge_def redis_retry_def Let_def split: prod.splits sum.splits option.splits dest: queue_analyze)

lemma maint_step_queue:
  "wk_queue (snd (maint_step (redis_ops c now keys) clock q w)) = redis_run (maint_commands c now keys q) (wk_queue w)"
  using recover_orphaned_run[of c now keys "wk_queue w"] queue_on_queue_unit[of "qo_heartbeat (redis_ops c now keys)" w]
    queue_bindS_frame[of "\<lambda>_. succeed clock ''maintenance''" "sweep (redis_ops c now keys)" w] queue_sweep[of "redis_ops c now keys" w]
  by (cases q) (auto simp: maint_step_def maint_commands_def redis_ops_def Let_def split: prod.splits sum.splits)

lemma lost_step_queue:
  "wk_queue (snd (main_step lost_ops xt analyze m now clock p w)) = wk_queue w" "wk_queue (snd (maint_step lost_ops clock q w)) = wk_queue w"
proof -
  show "wk_queue (snd (main_step lost_ops xt analyze m now clock p w)) = wk_queue w"
    by (cases p) (auto simp: main_step_def queue_calls lost_ops_def Let_def split: prod.splits sum.splits dest: queue_analyze)
  show "wk_queue (snd (maint_step lost_ops clock q w)) = wk_queue w"
    by (cases q) (auto simp: maint_step_def lost_ops_def on_queue_unit_def on_queue_def sweep_def transS_def bindS_def bindE_def Let_def)
qed

text \<open>A task releases a run only at the end of a job it has settled.\<close>

fun releasing :: "main_point \<Rightarrow> QueueJob option" where
  "releasing (AtGiveUp job) = Some job"
| "releasing (AtAcknowledge job) = Some job"
| "releasing _ = None"

lemma releasing_step:
  assumes "main_step Q xt analyze m now clock p w = (p', w')" "active p" "releasing p' = Some job"
  shows "\<exists>r. step_label analyze p w = Analyzed (qj_envelope job) r \<and> (r = Inr () \<or> m \<le> qe_attempts (qj_envelope job) + 1)"
    "held_job p = Some job"
  using assms
  by (cases p; force simp: main_step_def after_call_def step_label_def record_failure_def bindS_def Let_def
      split: prod.splits sum.splits if_splits option.splits)+

lemma held_step:
  assumes "main_step Q xt analyze m now clock p w = (p', w')" "active p" "held_job p' = Some job"
  shows "held_job p = Some job \<or> p = AtTake \<and> on_queue (qo_dequeue Q) w = (Inr (Some job), w')"
  using assms
  by (cases p) (auto simp: main_step_def after_call_def split: prod.splits sum.splits if_splits option.splits)

text \<open>What the commands of a step may be: another process acts, or this worker with its own client, where it acknowledges and
  retries only the job it is about to settle.\<close>

definition step_op :: "redis_client \<Rightarrow> main_point \<Rightarrow> task_label \<Rightarrow> redis_op \<Rightarrow> bool" where
  "step_op c p l op \<longleftrightarrow> l = Foreign op \<and> foreign c op
     \<or> (case op of
          RHeartbeat c' _ \<Rightarrow> c' = c
        | RRecover c' _ _ \<Rightarrow> c' = c
        | RTake c' \<Rightarrow> c' = c \<and> p = AtTake
        | RRetry c' e \<Rightarrow> c' = c \<and> (\<exists>job. p = AtRetry job \<and> e = qj_envelope job)
        | RAck c' e \<Rightarrow> c' = c \<and> (\<exists>job. releasing p = Some job \<and> e = qj_envelope job)
        | REnqueue _ \<Rightarrow> False)"

lemma command_ops:
  "op \<in> set (main_commands c now keys p) \<Longrightarrow> step_op c p l op" "op \<in> set (maint_commands c now keys q) \<Longrightarrow> step_op c p l op"
  by (cases p; auto simp: main_commands_def step_op_def) (cases q; auto simp: maint_commands_def step_op_def)

lemma step_ops:
  assumes "tasks_step c xt analyze m t l t'" "\<And>job. held_job (tk_main t) = Some job \<Longrightarrow> own_job job"
  shows "\<exists>ops. wk_queue (tk_worker t') = redis_run ops (wk_queue (tk_worker t)) \<and> list_all (step_op c (tk_main t) l) ops
    \<and> (\<forall>op. l = Foreign op \<longrightarrow> ops = [op])"
  using assms
proof cases
  case (main p now keys clock w p' w' mt)
  with assms(2) main_step_queue[of p c now keys xt analyze m clock w] show ?thesis
    by (intro exI[of _ "main_commands c now keys p"]) (auto simp: list_all_iff step_label_def intro: command_ops split: main_point.splits)
next
  case (main_lost p now clock k keys w p' w' mt)
  with lost_step_queue(1)[of xt analyze m now clock p "send_first k (main_commands c now keys p) w"] show ?thesis
    by (intro exI[of _ "take k (main_commands c now keys p)"]) (auto simp: list_all_iff send_first_def dest: in_set_takeD intro: command_ops)
next
  case (maint now keys clock q w q' w' p)
  with maint_step_queue[of c now keys clock q w] show ?thesis
    by (intro exI[of _ "maint_commands c now keys q"]) (auto simp: list_all_iff intro: command_ops)
next
  case (maint_lost q clock k now keys w q' w' p)
  with lost_step_queue(2)[of clock q "send_first k (maint_commands c now keys q) w"] show ?thesis
    by (intro exI[of _ "take k (maint_commands c now keys q)"]) (auto simp: list_all_iff send_first_def dest: in_set_takeD intro: command_ops)
next
  case (other op p mt w d)
  then show ?thesis by (intro exI[of _ "[op]"]) (simp add: step_op_def)
next
  case (stop p w' w mt k now keys)
  then show ?thesis
    by (intro exI[of _ "take k (main_commands c now keys p)"])
      (auto simp: list_all_iff send_first_def dest: in_set_takeD intro: command_ops split: if_splits)
next
  case (stop_maint p q w k now keys)
  then show ?thesis
    by (intro exI[of _ "take k (maint_commands c now keys q)"]) (auto simp: list_all_iff send_first_def dest: in_set_takeD intro: command_ops)
qed

lemma held_tasks_step:
  assumes "tasks_step c xt analyze m t l t'" "held_job (tk_main t') = Some job"
  shows "held_job (tk_main t) = Some job
    \<or> tk_main t = AtTake \<and> (\<exists>now q. redis_dequeue c now (wk_queue (tk_worker t)) = Inr (Some job, q) \<and> wk_queue (tk_worker t') = q)"
  using assms
proof cases
  case (main p now keys clock w p' w' mt)
  from held_step[OF main(5,4)] main assms(2) show ?thesis
    by (auto simp: redis_ops_def on_queue_def transS_def bindE_def split: sum.splits prod.splits)
next
  case (main_lost p now clock k keys w p' w' mt)
  from held_step[OF main_lost(6,4)] main_lost assms(2) show ?thesis
    by (auto simp: lost_ops_def on_queue_def transS_def bindE_def Let_def)
qed auto

lemma releasing_tasks_step:
  assumes "tasks_step c xt analyze m t l t'" "releasing (tk_main t') = Some job"
  shows "tk_main t' = tk_main t
    \<or> (\<exists>r. l = Analyzed (qj_envelope job) r \<and> (r = Inr () \<or> m \<le> qe_attempts (qj_envelope job) + 1))"
  using assms
proof cases
  case (main p now keys clock w p' w' mt)
  with releasing_step(1)[OF main(5,4)] assms(2) show ?thesis by auto
next
  case (main_lost p now clock k keys w p' w' mt)
  with releasing_step(1)[OF main_lost(6,4)] assms(2) show ?thesis
    by (cases p) (auto simp: step_label_def)
qed auto

lemma dequeued_own: "redis_dequeue c now s = Inr (Some job, q) \<Longrightarrow> own_job job"
  by (auto simp: redis_dequeue_def own_job_def Let_def split: prod.splits)

text \<open>A run is settled in a trace when its analysis returned, or failed with no try left; or another process acknowledged it.\<close>

definition settled :: "int \<Rightarrow> task_label list \<Rightarrow> int \<Rightarrow> bool" where
  "settled m ls i \<longleftrightarrow> (\<exists>e r. Analyzed e r \<in> set ls \<and> env_run_id e = i \<and> (r = Inr () \<or> m \<le> qe_attempts e + 1))
     \<or> (\<exists>c' e. Foreign (RAck c' e) \<in> set ls \<and> env_run_id e = i)"

definition known :: "redis \<Rightarrow> task_label list \<Rightarrow> int \<Rightarrow> bool" where
  "known s ls i \<longleftrightarrow> i \<in> rd_run_ids s \<or> (\<exists>r. Foreign (REnqueue r) \<in> set ls \<and> rq_run_id r = i)"

definition tasks_inv :: "int \<Rightarrow> redis \<Rightarrow> task_label list \<Rightarrow> (redis, 'e) tasks \<Rightarrow> bool" where
  "tasks_inv m s ls t \<longleftrightarrow> reachable_redis (wk_queue (tk_worker t)) \<and> (\<forall>job. held_job (tk_main t) = Some job \<longrightarrow> own_job job)
     \<and> (\<forall>job. releasing (tk_main t) = Some job \<longrightarrow> settled m ls (env_run_id (qj_envelope job)))
     \<and> (\<forall>i. known s ls i \<longrightarrow> settled m ls i \<or> i \<in> rd_run_ids (wk_queue (tk_worker t)))"

lemma tasks_inv_step:
  assumes inv: "tasks_inv m s ls t" and step: "tasks_step c xt analyze m t l t'"
  shows "tasks_inv m s (ls @ [l]) t'"
proof -
  obtain ops where ops: "wk_queue (tk_worker t') = redis_run ops (wk_queue (tk_worker t))" "list_all (step_op c (tk_main t) l) ops"
    "\<And>op. l = Foreign op \<Longrightarrow> ops = [op]"
    using step_ops[OF step] inv unfolding tasks_inv_def by blast
  have grow: "settled m ls i \<Longrightarrow> settled m (ls @ [l]) i" for i by (auto simp: settled_def)
  have "own_job job" if "held_job (tk_main t') = Some job" for job
    using held_tasks_step[OF step that] inv dequeued_own unfolding tasks_inv_def by blast
  moreover have "settled m (ls @ [l]) (env_run_id (qj_envelope job))" if "releasing (tk_main t') = Some job" for job
    using releasing_tasks_step[OF step that]
  proof
    assume "tk_main t' = tk_main t"
    with that inv show ?thesis by (intro grow) (simp add: tasks_inv_def)
  qed (auto simp: settled_def)
  moreover have "settled m (ls @ [l]) i \<or> i \<in> rd_run_ids (wk_queue (tk_worker t'))" if "known s (ls @ [l]) i" for i
  proof (cases "known s ls i")
    case True
    show ?thesis
    proof (rule disjCI)
      assume no: "i \<notin> rd_run_ids (wk_queue (tk_worker t'))"
      show "settled m (ls @ [l]) i"
      proof (cases "settled m ls i")
        case False
        with True inv have "i \<in> rd_run_ids (wk_queue (tk_worker t))" by (auto simp: tasks_inv_def)
        with no ops(1) run_ids_run[of i] obtain c' e where "RAck c' e \<in> set ops" "env_run_id e = i" by metis
        with ops(2) have "step_op c (tk_main t) l (RAck c' e)" by (simp add: list_all_iff)
        then consider "l = Foreign (RAck c' e)" | job where "releasing (tk_main t) = Some job" "e = qj_envelope job"
          by (auto simp: step_op_def)
        then show ?thesis
        proof cases
          case 1
          with \<open>env_run_id e = i\<close> show ?thesis by (auto simp: settled_def)
        next
          case 2
          with \<open>env_run_id e = i\<close> inv show ?thesis by (intro grow) (auto simp: tasks_inv_def)
        qed
      qed (rule grow)
    qed
  next
    case False
    with that obtain r where "l = Foreign (REnqueue r)" "rq_run_id r = i" by (auto simp: known_def)
    with ops(1,3) show ?thesis by (simp add: enqueue_script_def)
  qed
  ultimately show ?thesis
    using reachable_run[of "wk_queue (tk_worker t)" ops] inv ops(1) by (auto simp: tasks_inv_def)
qed

lemma tasks_inv_run:
  assumes "tasks_run c xt analyze m t ls t'" "t = started w" "reachable_redis (wk_queue w)"
  shows "tasks_inv m (wk_queue w) ls t'"
  using assms
proof induction
  case none
  then show ?case by (auto simp: tasks_inv_def started_def known_def)
qed (blast intro: tasks_inv_step)

section \<open>Stopping loses nothing\<close>

text \<open>C19: a worker process on a Redis queue, whatever its analyses do, however its two tasks, the connection losses and the other
  processes interleave, and wherever it is stopped, loses no run: each run that was queued at its start or was enqueued since is in exactly one
  place of the queue, or its analysis has returned, or failed on its last try, or another process acknowledged it.\<close>

theorem stopped_worker_loses_no_run:
  assumes "run_worker L st q d env = Inr (R, t0)" "rt_queue R = OnRedis url name c" "reachable_redis q"
    "tasks_run c xt analyze (st_worker_max_attempts st) t0 ls t" "known q ls i"
  shows "(\<exists>!p. i \<in> env_run_id ` set (slot (wk_queue (tk_worker t)) p)) \<or> settled (st_worker_max_attempts st) ls i"
proof -
  obtain w where w: "t0 = started w" "wk_queue w = q"
    using assms(1) by (auto simp: run_worker_def worker_new_def bindE_eq_Inr split: if_splits)
  have inv: "tasks_inv (st_worker_max_attempts st) q ls t"
    using tasks_inv_run[OF assms(4) w(1)] assms(3) w(2) by simp
  let ?s = "wk_queue (tk_worker t)"
  have "redis_inv ?s" using inv redis_inv_reachable unfolding tasks_inv_def by blast
  with inv assms(5) show ?thesis unfolding tasks_inv_def redis_inv_one_place[OF \<open>redis_inv ?s\<close>, symmetric] by blast
qed

section \<open>A job nobody takes back\<close>

text \<open>The commands of a worker leave alone what its processing list holds besides the job in hand.\<close>

lemma step_op_keeps:
  assumes "step_op c p l op" "\<And>c' now. l \<noteq> Foreign (RRecover c' now (worker_id c))"
    "\<And>job. held_job p = Some job \<Longrightarrow> qj_envelope job \<noteq> e" "e \<in> set (rd_processing s (worker_id c))"
  shows "e \<in> set (rd_processing (exec_redis op s) (worker_id c))"
proof -
  have "held_job p = Some job" if "releasing p = Some job" for job using that by (cases p) auto
  with assms show ?thesis
    by (cases op) (fastforce simp: step_op_def foreign_def enqueue_script_def redis_heartbeat_def brpoplpush_def redis_acknowledge_def
        acknowledge_script_def redis_retry_def retry_script_def lrem1_def job_of_def recover_script_eq)+
qed

definition strands :: "redis_client \<Rightarrow> QueueEnvelope \<Rightarrow> (redis, 'e) tasks \<Rightarrow> bool" where
  "strands c e t \<longleftrightarrow> reachable_redis (wk_queue (tk_worker t)) \<and> e \<in> set (rd_processing (wk_queue (tk_worker t)) (worker_id c))
     \<and> (\<forall>job. held_job (tk_main t) = Some job \<longrightarrow> own_job job \<and> env_run_id (qj_envelope job) \<noteq> env_run_id e)"

lemma dequeued_other_run:
  assumes "redis_dequeue c now s = Inr (Some job, q)" "redis_inv s" "e \<in> set (rd_processing s w)"
  shows "env_run_id (qj_envelope job) \<noteq> env_run_id e"
proof -
  have "qj_envelope job \<in> set (rd_pending s)"
    using assms(1) by (auto simp: redis_dequeue_def redis_heartbeat_def brpoplpush_def Let_def split: if_splits)
  with redis_inv_dist[OF assms(2), of w] assms(3) show ?thesis by (auto simp: disjoint_iff)
qed

lemma redis_run_keeps:
  assumes "list_all P ops" "\<And>op s. P op \<Longrightarrow> I s \<Longrightarrow> I (exec_redis op s)" "I s"
  shows "I (redis_run ops s)"
  using assms(1,3) by (induction ops arbitrary: s) (auto intro: assms(2))

lemma strands_step:
  assumes st: "strands c e t" and step: "tasks_step c xt analyze m t l t'" and l: "\<And>c' now. l \<noteq> Foreign (RRecover c' now (worker_id c))"
  shows "strands c e t'"
proof -
  obtain ops where ops: "wk_queue (tk_worker t') = redis_run ops (wk_queue (tk_worker t))" "list_all (step_op c (tk_main t) l) ops"
    using step_ops[OF step] st unfolding strands_def by blast
  have "e \<in> set (rd_processing (wk_queue (tk_worker t')) (worker_id c))"
    unfolding ops(1)
    by (rule redis_run_keeps[OF ops(2), where I = "\<lambda>s. e \<in> set (rd_processing s (worker_id c))"], rule step_op_keeps)
      (use st l in \<open>auto simp: strands_def\<close>)
  moreover have "own_job job \<and> env_run_id (qj_envelope job) \<noteq> env_run_id e" if "held_job (tk_main t') = Some job" for job
    using held_tasks_step[OF step that] st dequeued_own dequeued_other_run redis_inv_reachable unfolding strands_def by blast
  ultimately show ?thesis
    using reachable_run[of "wk_queue (tk_worker t)" ops] st ops(1) by (simp add: strands_def)
qed

lemma strands_run:
  assumes "tasks_run c xt analyze m t ls t'" "strands c e t" "\<And>c' now. Foreign (RRecover c' now (worker_id c)) \<notin> set ls"
  shows "strands c e t'"
  using assms by induction (auto intro: strands_step)


section \<open>A run of the tasks\<close>

text \<open>The main task alone, for examples.\<close>

fun drive :: "redis_client \<Rightarrow> (exn \<Rightarrow> pystr) \<Rightarrow> 'e analyze \<Rightarrow> int \<Rightarrow> nat \<Rightarrow> (redis, 'e) tasks \<Rightarrow> task_label list \<times> (redis, 'e) tasks" where
  "drive c xt analyze m 0 t = ([], t)"
| "drive c xt analyze m (Suc n) t = (let (ls, t') = drive c xt analyze m n t; p = tk_main t'; w = tk_worker t'
     in if active p
        then (let (p', w') = main_step (redis_ops c 0 []) xt analyze m 0 0 p w
              in (ls @ [step_label analyze p w], \<lparr>tk_main = p', tk_maint = maint_after p p' (tk_maint t'), tk_worker = w'\<rparr>))
        else (ls, t'))"

lemma drive_run: "tasks_run c xt analyze m t (fst (drive c xt analyze m n t)) (snd (drive c xt analyze m n t))"
proof (induction n)
  case (Suc n)
  obtain ls t' where d: "drive c xt analyze m n t = (ls, t')" by (rule prod.exhaust)
  obtain p mt w where t': "t' = \<lparr>tk_main = p, tk_maint = mt, tk_worker = w\<rparr>" by (cases t') auto
  show ?case
  proof (cases "active p")
    case True
    obtain p' w' where m: "main_step (redis_ops c 0 []) xt analyze m 0 0 p w = (p', w')" by (rule prod.exhaust)
    have "tasks_run c xt analyze m t (ls @ [step_label analyze p w]) \<lparr>tk_main = p', tk_maint = maint_after p p' mt, tk_worker = w'\<rparr>"
      using Suc d t' tasks_step.main[OF True m] by (auto intro: tasks_run.more)
    with d t' m True show ?thesis by simp
  qed (use Suc d t' in simp)
qed (simp add: tasks_run.none)

definition sample_libs :: runtime_libs where
  "sample_libs = \<lparr>rl_github = \<lparr>gl_jwt_encode = (\<lambda>_ _. Inr (u ''jwt'')), gl_unzip = (\<lambda>_. Inr []), gl_repr = (\<lambda>_. []), gl_to_int = (\<lambda>_. None)\<rparr>,
     rl_fuel = 10, rl_unicode = ascii, rl_parse_date = (\<lambda>_. Inl (ValueError [])),
     rl_llm = \<lparr>ll_validate_json = (\<lambda>_. Inl (ValueError [])), ll_schema = JNull, ll_to_int = (\<lambda>_. None), ll_float = (\<lambda>_. [])\<rparr>,
     rl_patch = \<lparr>pl_yaml_ok = (\<lambda>_. True), pl_toml_ok = (\<lambda>_. True), pl_json_ok = (\<lambda>_. True), pl_unified_diff = (\<lambda>_ _ _ _. [])\<rparr>,
     rl_exc_text = (\<lambda>_. u ''down''), rl_uuid = u ''worker-1''\<rparr>"

definition sample_queue :: redis where
  "sample_queue = exec_redis (REnqueue sample_request) redis_new"

definition sample_tasks :: "(redis, unit) tasks" where
  "sample_tasks = started \<lparr>wk_queue = sample_queue, wk_db = sample_db Postgresql, wk_metrics = new_metrics, wk_failures = (\<lambda>_. None), wk_env = ()\<rparr>"

definition sample_task_client :: redis_client where
  "sample_task_client = \<lparr>worker_id = u ''worker-1'', lease_seconds = 60\<rparr>"

definition sample_task_settings :: Settings where
  "sample_task_settings = default_settings\<lparr>st_queue_backend := u ''redis''\<rparr>"

abbreviation sample_drive :: "nat \<Rightarrow> (redis, unit) tasks \<Rightarrow> task_label list \<times> (redis, unit) tasks" where
  "sample_drive \<equiv> drive sample_task_client (\<lambda>_. u ''down'') failing_analyze 3"

lemma sample_starts: "\<exists>R. run_worker sample_libs sample_task_settings sample_queue (sample_db Postgresql) () = Inr (R, sample_tasks)
    \<and> rt_queue R = OnRedis (u ''redis://localhost:6379/0'') (u ''pipelens:analyses'') sample_task_client"
  by (simp add: run_worker_def create_runtime_def settings_policy_def check_policy_def default_policy_def sample_task_settings_def
      default_settings_def choose_llm_def create_queue_def redis_client_new_def sample_libs_def worker_new_def sample_tasks_def
      sample_task_client_def Let_def)

lemma sample_drive_taken:
  "fst (sample_drive 4 sample_tasks) = [Silent, Silent, Silent, Silent]"
  "tk_main (snd (sample_drive 4 sample_tasks)) = AtAnalyze (job_of (new_envelope sample_request))"
  by code_simp+

lemma sample_drive_retry:
  "tk_main (snd (sample_drive 5 sample_tasks)) = AtRetry (job_of (new_envelope sample_request))"
  "rd_processing (wk_queue (tk_worker (snd (sample_drive 5 sample_tasks)))) (u ''worker-1'') = [new_envelope sample_request]"
  by code_simp+

theorem stopped_worker_loses_no_run_witness:
  "\<exists>w. tk_main (snd (sample_drive 4 sample_tasks)) = AtAnalyze (job_of (new_envelope sample_request))
     \<and> tasks_run sample_task_client (\<lambda>_. u ''down'') failing_analyze 3 sample_tasks [Silent, Silent, Silent, Silent, Silent]
         \<lparr>tk_main = MainCancelled, tk_maint = tk_maint (snd (sample_drive 4 sample_tasks)), tk_worker = w\<rparr>
     \<and> (\<exists>!p. 7 \<in> env_run_id ` set (slot (wk_queue w) p))"
proof -
  obtain R where R: "run_worker sample_libs sample_task_settings sample_queue (sample_db Postgresql) () = Inr (R, sample_tasks)"
    "rt_queue R = OnRedis (u ''redis://localhost:6379/0'') (u ''pipelens:analyses'') sample_task_client"
    using sample_starts by blast
  let ?t = "snd (sample_drive 4 sample_tasks)"
  let ?w = "send_first 0 (main_commands sample_task_client 0 [] (tk_main ?t)) (tk_worker ?t)"
  let ?stopped = "\<lparr>tk_main = MainCancelled, tk_maint = tk_maint ?t, tk_worker = ?w\<rparr>"
  have a: "active (tk_main ?t)" by (simp add: sample_drive_taken)
  have "tasks_step sample_task_client (\<lambda>_. u ''down'') failing_analyze 3
      \<lparr>tk_main = tk_main ?t, tk_maint = tk_maint ?t, tk_worker = tk_worker ?t\<rparr> Silent ?stopped"
    by (rule tasks_step.stop[OF a]) simp
  moreover have "\<lparr>tk_main = tk_main ?t, tk_maint = tk_maint ?t, tk_worker = tk_worker ?t\<rparr> = ?t" by (cases ?t) simp
  ultimately have run: "tasks_run sample_task_client (\<lambda>_. u ''down'') failing_analyze 3 sample_tasks [Silent, Silent, Silent, Silent, Silent] ?stopped"
    using tasks_run.more[OF drive_run[of sample_task_client "\<lambda>_. u ''down''" failing_analyze 3 sample_tasks 4], of Silent ?stopped]
    by (simp add: sample_drive_taken(1) del: drive.simps)
  have m: "st_worker_max_attempts sample_task_settings = 3" by (simp add: sample_task_settings_def default_settings_def)
  have q: "reachable_redis sample_queue" unfolding sample_queue_def by (intro reachable_redis.intros)
  have k: "known sample_queue [Silent, Silent, Silent, Silent, Silent] 7"
    by (simp add: known_def sample_queue_def enqueue_script_def redis_new_def sample_request_def)
  have "\<exists>!p. 7 \<in> env_run_id ` set (slot (wk_queue ?w) p)"
    using stopped_worker_loses_no_run[OF R q run[folded m] k] by (simp add: settled_def m del: drive.simps)
  with run sample_drive_taken(2) show ?thesis by blast
qed


end
