(* ===== verification/Queue_Spec.thy ===== *)
theory Queue_Spec
  imports Queue_Props
begin

text \<open>
  What a queue is to its one consumer: a first-in-first-out list that knows which runs are waiting or being
  worked on. Both queues of \<open>src/pipelens/queue.py\<close> refine this specification along every sequence of
  calls, so a consumer cannot tell them apart.
\<close>

section \<open>The specification\<close>

datatype queue_event = Submit AnalysisRequest | Take int | Finish | Postpone | Beat int | Measure

datatype queue_answer = Submitted bool | Taken "QueueEnvelope option" | Nothing | Finished | Postponed | Measured nat | Raised exn

record fifo =
  ff_waiting :: "QueueEnvelope list"
  ff_ids :: "int set"
  ff_held :: "QueueEnvelope option"

definition fifo_new :: fifo where
  "fifo_new = \<lparr>ff_waiting = [], ff_ids = {}, ff_held = None\<rparr>"

text \<open>
  The consumer follows the protocol of the worker: it takes a job only when it holds none, and finishes or postpones
  the job it holds.
\<close>

fun fifo_step :: "queue_event \<Rightarrow> fifo \<Rightarrow> queue_answer \<times> fifo" where
  "fifo_step (Submit r) s = (if rq_run_id r \<in> ff_ids s then (Submitted False, s)
     else (Submitted True, s\<lparr>ff_waiting := ff_waiting s @ [new_envelope r], ff_ids := insert (rq_run_id r) (ff_ids s)\<rparr>))"
| "fifo_step (Take now) s = (case ff_held s of
       Some _ \<Rightarrow> (Nothing, s)
     | None \<Rightarrow> (case ff_waiting s of
         [] \<Rightarrow> (Taken None, s)
       | e # es \<Rightarrow> (Taken (Some e), s\<lparr>ff_waiting := es, ff_held := Some e\<rparr>)))"
| "fifo_step Finish s = (case ff_held s of
       None \<Rightarrow> (Nothing, s)
     | Some e \<Rightarrow> (Finished, s\<lparr>ff_ids := ff_ids s - {env_run_id e}, ff_held := None\<rparr>))"
| "fifo_step Postpone s = (case ff_held s of
       None \<Rightarrow> (Nothing, s)
     | Some e \<Rightarrow> (Postponed, s\<lparr>ff_waiting := ff_waiting s @ [bump_attempts e], ff_held := None\<rparr>))"
| "fifo_step (Beat now) s = (Nothing, s)"
| "fifo_step Measure s = (Measured (length (ff_waiting s)), s)"

section \<open>Driving a queue\<close>

text \<open>The operations of a queue, as the protocol class \<open>AnalysisQueue\<close> lists them for a consumer.\<close>

record 'q client_ops =
  co_enqueue :: "AnalysisRequest \<Rightarrow> 'q \<Rightarrow> exn + bool \<times> 'q"
  co_dequeue :: "int \<Rightarrow> 'q \<Rightarrow> exn + QueueJob option \<times> 'q"
  co_acknowledge :: "QueueJob \<Rightarrow> 'q \<Rightarrow> exn + 'q"
  co_retry :: "QueueJob \<Rightarrow> 'q \<Rightarrow> exn + 'q"
  co_heartbeat :: "int \<Rightarrow> 'q \<Rightarrow> 'q"
  co_size :: "'q \<Rightarrow> nat"

definition mem_client_ops :: "mem_queue client_ops" where
  "mem_client_ops = \<lparr>co_enqueue = mem_enqueue, co_dequeue = (\<lambda>_. mem_dequeue), co_acknowledge = mem_acknowledge,
     co_retry = mem_retry, co_heartbeat = (\<lambda>_. mem_heartbeat), co_size = mem_size\<rparr>"

definition redis_client_ops :: "redis_client \<Rightarrow> redis client_ops" where
  "redis_client_ops c = \<lparr>co_enqueue = redis_enqueue, co_dequeue = redis_dequeue c, co_acknowledge = redis_acknowledge c,
     co_retry = redis_retry c, co_heartbeat = redis_heartbeat c, co_size = redis_size\<rparr>"

fun queue_step :: "'q client_ops \<Rightarrow> queue_event \<Rightarrow> 'q \<times> QueueJob option \<Rightarrow> queue_answer \<times> 'q \<times> QueueJob option" where
  "queue_step Q (Submit r) (q, held) = (case co_enqueue Q r q of
       Inl e \<Rightarrow> (Raised e, q, held) | Inr (b, q') \<Rightarrow> (Submitted b, q', held))"
| "queue_step Q (Take now) (q, held) = (case held of
       Some _ \<Rightarrow> (Nothing, q, held)
     | None \<Rightarrow> (case co_dequeue Q now q of
         Inl e \<Rightarrow> (Raised e, q, held) | Inr (job, q') \<Rightarrow> (Taken (map_option qj_envelope job), q', job)))"
| "queue_step Q Finish (q, held) = (case held of
       None \<Rightarrow> (Nothing, q, held)
     | Some job \<Rightarrow> (case co_acknowledge Q job q of Inl e \<Rightarrow> (Raised e, q, held) | Inr q' \<Rightarrow> (Finished, q', None)))"
| "queue_step Q Postpone (q, held) = (case held of
       None \<Rightarrow> (Nothing, q, held)
     | Some job \<Rightarrow> (case co_retry Q job q of Inl e \<Rightarrow> (Raised e, q, held) | Inr q' \<Rightarrow> (Postponed, q', None)))"
| "queue_step Q (Beat now) (q, held) = (Nothing, co_heartbeat Q now q, held)"
| "queue_step Q Measure (q, held) = (Measured (co_size Q q), q, held)"

text \<open>The answers to a sequence of calls, and the state after them.\<close>

fun answers :: "(queue_event \<Rightarrow> 's \<Rightarrow> queue_answer \<times> 's) \<Rightarrow> queue_event list \<Rightarrow> 's \<Rightarrow> queue_answer list \<times> 's" where
  "answers step [] s = ([], s)"
| "answers step (e # es) s = (case step e s of (a, s') \<Rightarrow> (case answers step es s' of (as, s'') \<Rightarrow> (a # as, s'')))"

section \<open>Refinement\<close>

text \<open>What a queue and the held job stand for, given what waits and which runs are known.\<close>

definition fifo_view :: "('q \<Rightarrow> QueueEnvelope list) \<Rightarrow> ('q \<Rightarrow> int set) \<Rightarrow> 'q \<times> QueueJob option \<Rightarrow> fifo" where
  "fifo_view waiting ids s = \<lparr>ff_waiting = waiting (fst s), ff_ids = ids (fst s), ff_held = map_option qj_envelope (snd s)\<rparr>"

text \<open>A queue whose calls see the clock: at every instant it keeps the laws of the protocol, and heartbeats change nothing of it.\<close>

locale timed_queue =
  fixes Q :: "'q client_ops"
    and waiting :: "'q \<Rightarrow> QueueEnvelope list"
    and ids :: "'q \<Rightarrow> int set"
    and holds :: "QueueJob \<Rightarrow> 'q \<Rightarrow> bool"
    and invar :: "'q \<Rightarrow> bool"
  assumes laws: "analysis_queue (co_enqueue Q) (co_dequeue Q now) (co_acknowledge Q) (co_retry Q) (co_size Q) waiting ids holds invar"
    and beat: "waiting (co_heartbeat Q now q) = waiting q" "ids (co_heartbeat Q now q) = ids q"
      "holds job (co_heartbeat Q now q) = holds job q" "invar (co_heartbeat Q now q) = invar q"
begin

abbreviation view :: "'q \<times> QueueJob option \<Rightarrow> fifo" where
  "view \<equiv> fifo_view waiting ids"

abbreviation sound :: "'q \<times> QueueJob option \<Rightarrow> bool" where
  "sound s \<equiv> invar (fst s) \<and> (\<forall>job. snd s = Some job \<longrightarrow> holds job (fst s))"

lemma step_refines:
  assumes "sound s" "queue_step Q e s = (a, s')"
  shows "sound s' \<and> fifo_step e (view s) = (a, view s')"
proof -
  obtain q held where s: "s = (q, held)" by force
  have inv: "invar q" and held: "\<And>job. held = Some job \<Longrightarrow> holds job q" using assms(1) by (auto simp: s)
  show ?thesis
  proof (cases e)
    case (Submit r)
    show ?thesis
    proof (cases "rq_run_id r \<in> ids q")
      case True
      with assms Submit analysis_queue.enqueue_known[OF laws True] show ?thesis by (auto simp: s fifo_view_def)
    next
      case False
      from analysis_queue.enqueue_new[OF laws inv False] False assms Submit held show ?thesis
        by (auto simp: s fifo_view_def)
    qed
  next
    case (Take now)
    show ?thesis
    proof (cases held)
      case None
      show ?thesis
      proof (cases "waiting q")
        case Nil
        obtain q' where "co_dequeue Q now q = Inr (None, q')" "invar q'" "waiting q' = []" "ids q = ids q'"
          using analysis_queue.dequeue_empty[OF laws[of now] inv Nil] by blast
        moreover from this(1) None assms(2) Take have "a = Taken None" "s' = (q', None)" by (simp_all add: s)
        ultimately show ?thesis using Nil None Take by (simp add: s fifo_view_def)
      next
        case (Cons x xs)
        obtain job q' where "co_dequeue Q now q = Inr (Some job, q')" "qj_envelope job = x" "invar q'" "waiting q' = xs"
          "ids q = ids q'" "holds job q'" using analysis_queue.dequeue_first[OF laws[of now] inv Cons] by blast
        moreover from this(1,2) None assms(2) Take have "a = Taken (Some x)" "s' = (q', Some job)" by (simp_all add: s)
        ultimately show ?thesis using Cons None Take by (simp add: s fifo_view_def)
      qed
    qed (use assms Take in \<open>auto simp: s fifo_view_def\<close>)
  next
    case Finish
    show ?thesis
    proof (cases held)
      case (Some job)
      obtain q' where q': "co_acknowledge Q job q = Inr q'" "invar q'" "waiting q' = waiting q"
        "ids q' = ids q - {env_run_id (qj_envelope job)}"
        using analysis_queue.acknowledge_held[OF laws inv held[OF Some]] by blast
      moreover from q'(1) Some assms(2) Finish have "a = Finished" "s' = (q', None)" by (simp_all add: s)
      ultimately show ?thesis using Some Finish by (simp add: s fifo_view_def)
    qed (use assms Finish in \<open>auto simp: s fifo_view_def\<close>)
  next
    case Postpone
    show ?thesis
    proof (cases held)
      case (Some job)
      obtain q' where q': "co_retry Q job q = Inr q'" "invar q'" "waiting q' = waiting q @ [bump_attempts (qj_envelope job)]" "ids q' = ids q"
        using analysis_queue.retry_held[OF laws inv held[OF Some]] by blast
      moreover from q'(1) Some assms(2) Postpone have "a = Postponed" "s' = (q', None)" by (simp_all add: s)
      ultimately show ?thesis using Some Postpone by (simp add: s fifo_view_def)
    qed (use assms Postpone in \<open>auto simp: s fifo_view_def\<close>)
  next
    case (Beat now)
    with assms show ?thesis by (auto simp: s fifo_view_def beat)
  next
    case Measure
    with assms analysis_queue.size_waiting[OF laws] show ?thesis by (auto simp: s fifo_view_def)
  qed
qed

lemma answers_refine:
  "sound s \<Longrightarrow> answers (queue_step Q) es s = (as, s') \<Longrightarrow> sound s' \<and> answers fifo_step es (view s) = (as, view s')"
proof (induction es arbitrary: s as)
  case (Cons e es)
  obtain a t where t: "queue_step Q e s = (a, t)" by (cases "queue_step Q e s")
  obtain bs where bs: "answers (queue_step Q) es t = (bs, s')" "as = a # bs"
    using Cons.prems(2) t by (auto split: prod.splits)
  with step_refines[OF Cons.prems(1) t] Cons.IH[of t bs] show ?case by (auto split: prod.splits)
qed simp

end

interpretation tm: timed_queue mem_client_ops mq_items mq_run_ids mem_holds mem_invar
  by (intro timed_queue.intro) (simp_all add: mem_client_ops_def mem_heartbeat_def mq.analysis_queue_axioms)

interpretation tr: timed_queue "redis_client_ops c" redis_waiting rd_run_ids "redis_holds c" "\<lambda>_. True" for c
  by (intro timed_queue.intro)
    (simp_all add: redis_client_ops_def redis_heartbeat_def redis_waiting_def redis_holds_def rq.analysis_queue_axioms)

lemma mem_refines: "answers (queue_step mem_client_ops) es (mem_new, None) = (as, s) \<Longrightarrow>
    answers fifo_step es fifo_new = (as, fifo_view mq_items mq_run_ids s)"
  using tm.answers_refine[of "(mem_new, None)" es as s] by (simp add: mem_new_def mem_invar_def fifo_new_def fifo_view_def)

lemma redis_refines: "answers (queue_step (redis_client_ops c)) es (redis_new, None) = (as, s) \<Longrightarrow>
    answers fifo_step es fifo_new = (as, fifo_view redis_waiting rd_run_ids s)"
  using tr.answers_refine[of "(redis_new, None)" c es as s] by (simp add: redis_new_def redis_waiting_def fifo_new_def fifo_view_def)

text \<open>C9: both queues implement the specification: from empty queues, every sequence of calls of a consumer is answered
  as the first-in-first-out list with known runs answers it, without an exception, and the content at the end is the specified one.\<close>

theorem queues_refine_fifo:
  "(case answers (queue_step mem_client_ops) es (mem_new, None) of
      (as, s) \<Rightarrow> answers fifo_step es fifo_new = (as, fifo_view mq_items mq_run_ids s))
   \<and> (case answers (queue_step (redis_client_ops c)) es (redis_new, None) of
      (as, s) \<Rightarrow> answers fifo_step es fifo_new = (as, fifo_view redis_waiting rd_run_ids s))"
proof
  show "case answers (queue_step mem_client_ops) es (mem_new, None) of
      (as, s) \<Rightarrow> answers fifo_step es fifo_new = (as, fifo_view mq_items mq_run_ids s)"
    by (rule case_prodI2) (simp add: mem_refines)
  show "case answers (queue_step (redis_client_ops c)) es (redis_new, None) of
      (as, s) \<Rightarrow> answers fifo_step es fifo_new = (as, fifo_view redis_waiting rd_run_ids s)"
    by (rule case_prodI2) (simp add: redis_refines)
qed


end
