(* ===== verification/Json_Bytes.thy ===== *)
theory Json_Bytes
  imports JsonText PyCodec
begin

text \<open>
  \<open>json.loads\<close> on bytes: the encoding is guessed from the first bytes (\<open>json.detect_encoding\<close>), the bytes are
  decoded with the error handler \<open>surrogatepass\<close>, and the text is parsed. A failure to decode is
  UnicodeDecodeError, which is not a JSONDecodeError.
\<close>

definition unicode_decode_error :: exn where
  "unicode_decode_error = ValueError (u ''UnicodeDecodeError'')"

section \<open>Decoding with surrogates\<close>

definition utf8_step_pass :: "nat \<Rightarrow> nat list \<Rightarrow> nat option \<times> nat" where
  "utf8_step_pass b bs = (if b = 237 then utf8_tail 2 128 191 13 bs else utf8_step b bs)"

function utf8_units_pass :: "nat list \<Rightarrow> nat option list" where
  "utf8_units_pass [] = []"
| "utf8_units_pass (b # bs) = (case utf8_step_pass b bs of (r, k) \<Rightarrow> r # utf8_units_pass (drop k bs))"
  by pat_completeness auto
termination
  by (relation "measure length") auto

declare utf8_units_pass.simps(2) [simp del]

definition all_units :: "nat option list \<Rightarrow> exn + pystr" where
  "all_units us = (if None \<in> set us then Inl unicode_decode_error else Inr (map the us))"

fun join_surrogates :: "nat list \<Rightarrow> nat option list" where
  "join_surrogates (a # b # us) = (if 55296 \<le> a \<and> a < 56320 \<and> 56320 \<le> b \<and> b < 57344
     then Some (65536 + (a - 55296) * 1024 + (b - 56320)) # join_surrogates us
     else Some a # join_surrogates (b # us))"
| "join_surrogates [a] = [Some a]"
| "join_surrogates [] = []"

fun units16 :: "bool \<Rightarrow> nat list \<Rightarrow> nat list option" where
  "units16 be (a # b # bs) = map_option (\<lambda>us. (if be then a * 256 + b else b * 256 + a) # us) (units16 be bs)"
| "units16 be [a] = None"
| "units16 be [] = Some []"

definition utf16_decode :: "bool \<Rightarrow> nat list \<Rightarrow> exn + pystr" where
  "utf16_decode be bs = (case units16 be bs of
       None \<Rightarrow> Inl unicode_decode_error | Some us \<Rightarrow> all_units (join_surrogates us))"

fun utf32_units :: "bool \<Rightarrow> nat list \<Rightarrow> nat option list" where
  "utf32_units be (a # b # c # d # bs) =
     (let n = (if be then ((a * 256 + b) * 256 + c) * 256 + d else ((d * 256 + c) * 256 + b) * 256 + a)
      in (if n \<le> 1114111 then Some n else None) # utf32_units be bs)"
| "utf32_units be [] = []"
| "utf32_units be _ = [None]"

section \<open>Guessing the encoding\<close>

datatype text_encoding = Utf8 | Utf8_Sig | Utf16 | Utf16_BE | Utf16_LE | Utf32 | Utf32_BE | Utf32_LE

definition detect_encoding :: "nat list \<Rightarrow> text_encoding" where
  "detect_encoding b =
     (if prefix [0, 0, 254, 255] b \<or> prefix [255, 254, 0, 0] b then Utf32
      else if prefix [254, 255] b \<or> prefix [255, 254] b then Utf16
      else if prefix [239, 187, 191] b then Utf8_Sig
      else if length b \<ge> 4 then
        (if b ! 0 = 0 then (if b ! 1 \<noteq> 0 then Utf16_BE else Utf32_BE)
         else if b ! 1 = 0 then (if b ! 2 \<noteq> 0 \<or> b ! 3 \<noteq> 0 then Utf16_LE else Utf32_LE)
         else Utf8)
      else if length b = 2 then (if b ! 0 = 0 then Utf16_BE else if b ! 1 = 0 then Utf16_LE else Utf8)
      else Utf8)"

fun decode_as :: "text_encoding \<Rightarrow> nat list \<Rightarrow> exn + pystr" where
  "decode_as Utf8 b = all_units (utf8_units_pass b)"
| "decode_as Utf8_Sig b = all_units (utf8_units_pass (drop 3 b))"
| "decode_as Utf16 b = utf16_decode (prefix [254, 255] b) (drop 2 b)"
| "decode_as Utf16_BE b = utf16_decode True b"
| "decode_as Utf16_LE b = utf16_decode False b"
| "decode_as Utf32 b = all_units (utf32_units (prefix [0, 0, 254, 255] b) (drop 4 b))"
| "decode_as Utf32_BE b = all_units (utf32_units True b)"
| "decode_as Utf32_LE b = all_units (utf32_units False b)"

definition loads_bytes :: "nat list \<Rightarrow> exn + json" where
  "loads_bytes b = bindE (decode_as (detect_encoding b) b) loads"

section \<open>Plain ASCII\<close>

lemma utf8_units_pass_ascii: "list_all (\<lambda>c. c < 128) s \<Longrightarrow> utf8_units_pass s = map Some s"
  by (induction s) (simp_all add: utf8_units_pass.simps(2) utf8_step_pass_def utf8_step_def utf8_lead_def)

lemma detect_ascii: "list_all (\<lambda>c. 0 < c \<and> c < 128) s \<Longrightarrow> detect_encoding s = Utf8"
  by (cases s; cases "tl s") (auto simp: detect_encoding_def nth_Cons' list_all_iff prefix_Cons split: if_splits)

lemma loads_bytes_ascii:
  assumes "list_all (\<lambda>c. 0 < c \<and> c < 128) s"
  shows "loads_bytes s = loads s"
proof -
  have "utf8_units_pass s = map Some s" by (rule utf8_units_pass_ascii) (use assms in \<open>auto simp: list_all_iff\<close>)
  with detect_ascii[OF assms] show ?thesis by (simp add: loads_bytes_def all_units_def comp_def)
qed

end
