(* ===== verification/Main_App.thy ===== *)
theory Main_App
  imports Bootstrap Json_Bytes Store_Props
begin

text \<open>
  The HTTP service, \<open>src/pipelens/main.py\<close>. A handler is a program over the state of the pipeline and the
  queue that returns a reply or raises; an HTTPException is the reply FastAPI makes of it, any other
  exception a 500. Routing, the conversion of path and query parameters and the JSON form of replies
  are FastAPI's, so handlers take converted parameters and return the values. A repository name in a
  webhook that is not a string is an error of the database driver.
\<close>

section \<open>State and replies\<close>

record 'q app_state =
  aw_pipe :: pipe
  aw_queue :: 'q

record 'q app_queue =
  aq_enqueue :: "AnalysisRequest \<Rightarrow> 'q \<Rightarrow> exn + bool \<times> 'q"
  aq_size :: "'q \<Rightarrow> exn + nat"
  aq_healthcheck :: "'q \<Rightarrow> exn + unit"

definition mem_app_queue :: "mem_queue app_queue" where
  "mem_app_queue = \<lparr>aq_enqueue = mem_enqueue, aq_size = (\<lambda>q. Inr (mem_size q)), aq_healthcheck = (\<lambda>_. Inr ())\<rparr>"

definition redis_app_queue :: "redis app_queue" where
  "redis_app_queue = \<lparr>aq_enqueue = redis_enqueue, aq_size = (\<lambda>q. Inr (redis_size q)), aq_healthcheck = (\<lambda>_. Inr ())\<rparr>"

definition on_pipe :: "(pipe, 'a) prog \<Rightarrow> ('q app_state, 'a) prog" where
  "on_pipe m w = (case m (aw_pipe w) of (r, p) \<Rightarrow> (r, w\<lparr>aw_pipe := p\<rparr>))"

definition on_queue :: "('q \<Rightarrow> exn + 'a \<times> 'q) \<Rightarrow> ('q app_state, 'a) prog" where
  "on_queue f w = (case f (aw_queue w) of Inl e \<Rightarrow> (Inl e, w) | Inr (a, q) \<Rightarrow> (Inr a, w\<lparr>aw_queue := q\<rparr>))"

definition count_app :: "(metrics \<Rightarrow> metrics) \<Rightarrow> ('q app_state, unit) prog" where
  "count_app f = on_pipe (count_up f)"

record cookie =
  ck_name :: pystr
  ck_value :: pystr
  ck_max_age :: int
  ck_secure :: bool

record reply =
  rp_status :: nat
  rp_headers :: "(pystr \<times> pystr) list"
  rp_set_cookies :: "cookie list"
  rp_deleted_cookies :: "pystr list"
  rp_body :: json

definition empty_reply :: "nat \<Rightarrow> reply" where
  "empty_reply code = \<lparr>rp_status = code, rp_headers = [], rp_set_cookies = [], rp_deleted_cookies = [], rp_body = JNull\<rparr>"

definition redirect :: "nat \<Rightarrow> pystr \<Rightarrow> reply" where
  "redirect code url = (empty_reply code)\<lparr>rp_headers := [(u ''location'', url)]\<rparr>"

definition http_error :: "nat \<Rightarrow> string \<Rightarrow> exn" where
  "http_error code detail = HTTPException code (u detail)"

section \<open>Middleware\<close>

definition API_V1_PREFIX :: pystr where
  "API_V1_PREFIX = u ''/api/v1''"

definition LEGACY_API_DEPRECATION :: pystr where
  "LEGACY_API_DEPRECATION = u ''@1788134400''"

definition DEPRECATION_POLICY_URL :: pystr where
  "DEPRECATION_POLICY_URL = u ''https://github.com/sangmu1126/PipeLens/blob/main/docs/api-versioning.md''"

definition put_header :: "string \<Rightarrow> pystr \<Rightarrow> reply \<Rightarrow> reply" where
  "put_header name v r = r\<lparr>rp_headers := dict_put (u name) v (rp_headers r)\<rparr>"

definition add_security_headers :: "pystr \<Rightarrow> reply \<Rightarrow> reply" where
  "add_security_headers path r =
     (let r = put_header ''Permissions-Policy'' (u ''camera=(), geolocation=(), microphone=()'')
         (put_header ''Referrer-Policy'' (u ''no-referrer'') (put_header ''X-Frame-Options'' (u ''DENY'')
         (put_header ''X-Content-Type-Options'' (u ''nosniff'') r))) in
      if path = u ''/api/me'' \<or> prefix (u ''/api/analyses'') path
      then put_header ''Link'' ([60] @ DEPRECATION_POLICY_URL @ [62] @ u ''; rel=\"deprecation\"; type=\"text/html\"'')
        (put_header ''Deprecation'' LEGACY_API_DEPRECATION r)
      else r)"

section \<open>Sessions and access\<close>

definition require_session :: "auth_service \<Rightarrow> pystr option \<Rightarrow> (pipe, AuthenticatedSession) prog" where
  "require_session A session_cookie = bindS (authenticate A session_cookie) (\<lambda>s. case s of
       None \<Rightarrow> raiseS (http_error 401 ''GitHub login required'') | Some s \<Rightarrow> retS s)"

definition session_installations :: "auth_service \<Rightarrow> AuthenticatedSession \<Rightarrow> (pipe, GitHubInstallation list) prog" where
  "session_installations A s = sync_installations A (gu_github_user_id (sn_user s)) (JStr (sn_access_token s))"

definition analysis_access :: "auth_service \<Rightarrow> pystr option \<Rightarrow> (pipe, int set option) prog" where
  "analysis_access A session_cookie =
     (if \<not> st_auth_required (au_settings A) then retS None
      else bindS (require_session A session_cookie) (\<lambda>s. bindS (session_installations A s) (\<lambda>installations.
        retS (Some (gi_installation_id ` set installations)))))"

section \<open>System and login\<close>

definition health :: reply where
  "health = (empty_reply 200)\<lparr>rp_body := JObj [(u ''status'', JStr (u ''ok''))]\<rparr>"

definition check_text :: "exn + 'a \<Rightarrow> pystr" where
  "check_text r = (case r of Inl _ \<Rightarrow> u ''unavailable'' | Inr _ \<Rightarrow> u ''ok'')"

definition readiness :: "exn + unit \<Rightarrow> exn + unit \<Rightarrow> reply" where
  "readiness database_check queue_check =
     (let checks = [(u ''database'', JStr (check_text database_check)), (u ''queue'', JStr (check_text queue_check))];
          ready = list_all (\<lambda>(_, v). v = JStr (u ''ok'')) checks in
      (empty_reply (if ready then 200 else 503))\<lparr>rp_body := JObj [
        (u ''status'', JStr (if ready then u ''ready'' else u ''not_ready'')), (u ''checks'', JObj checks)]\<rparr>)"

definition github_login :: "auth_service \<Rightarrow> (pipe, reply) prog" where
  "github_login A = (case require_oauth_configuration A of
       Inl (GitHubConfigurationError m) \<Rightarrow> raiseS (HTTPException 503 m)
     | Inl e \<Rightarrow> raiseS e
     | Inr (client_id, _) \<Rightarrow> bindS (new_oauth_state A) (\<lambda>state.
         bindL (authorization_url client_id (callback_url A) state) (\<lambda>url.
           retS ((redirect 302 url)\<lparr>rp_set_cookies := [\<lparr>ck_name = u ''pipelens_oauth_state'', ck_value = state, ck_max_age = 600,
             ck_secure = st_session_cookie_secure (au_settings A)\<rparr>]\<rparr>))))"

definition login_error :: "exn \<Rightarrow> exn" where
  "login_error e = (case e of
       AuthenticationError m \<Rightarrow> HTTPException 400 m
     | GitHubConfigurationError m \<Rightarrow> HTTPException 502 m
     | KeyError k \<Rightarrow> HTTPException 502 ([39] @ k @ [39])
     | _ \<Rightarrow> e)"

definition github_callback :: "auth_service \<Rightarrow> pystr option \<Rightarrow> pystr \<Rightarrow> pystr option \<Rightarrow> (pipe, reply) prog" where
  "github_callback A state_cookie code state = tryElseS
     (bindL (verify_oauth_state A state state_cookie) (\<lambda>_. complete_login A code))
     (\<lambda>e. raiseS (login_error e))
     (\<lambda>(token, _). retS ((redirect 303 (st_public_url (au_settings A)))\<lparr>
        rp_deleted_cookies := [u ''pipelens_oauth_state''],
        rp_set_cookies := [\<lparr>ck_name = u ''pipelens_session'', ck_value = token,
          ck_max_age = st_session_ttl_days (au_settings A) * 86400, ck_secure = st_session_cookie_secure (au_settings A)\<rparr>]\<rparr>))"

definition logout :: "auth_service \<Rightarrow> pystr option \<Rightarrow> (pipe, reply) prog" where
  "logout A session_cookie = bindS (require_session A session_cookie) (\<lambda>s.
     bindS (drop_session (sn_session_hash s)) (\<lambda>_. retS ((empty_reply 204)\<lparr>rp_deleted_cookies := [u ''pipelens_session'']\<rparr>)))"

definition current_user :: "auth_service \<Rightarrow> pystr option \<Rightarrow> (pipe, CurrentUser) prog" where
  "current_user A session_cookie = bindS (require_session A session_cookie) (\<lambda>s. bindS (session_installations A s) (\<lambda>installations.
     retS \<lparr>cu_user = sn_user s, cu_installations = installations\<rparr>))"

definition install_github_app :: "auth_service \<Rightarrow> pystr option \<Rightarrow> (pipe, reply) prog" where
  "install_github_app A session_cookie = bindS (require_session A session_cookie) (\<lambda>_.
     let slug = st_github_app_slug (au_settings A) in
     if \<not> truthy slug then raiseS (http_error 503 ''GitHub App slug is not configured'')
     else retS (redirect 302 (u ''https://github.com/apps/'' @ the slug @ u ''/installations/new'')))"

definition github_setup :: "auth_service \<Rightarrow> pystr option \<Rightarrow> int \<Rightarrow> (pipe, reply) prog" where
  "github_setup A session_cookie installation_id = bindS (require_session A session_cookie) (\<lambda>s.
     bindS (session_installations A s) (\<lambda>installations.
       if installation_id \<notin> gi_installation_id ` set installations
       then raiseS (http_error 403 ''installation is not accessible to user'')
       else retS (redirect 303 (st_public_url (au_settings A)))))"

section \<open>Cursors\<close>

definition compact_style :: "(rat \<Rightarrow> pystr) \<Rightarrow> dump_style" where
  "compact_style float = \<lparr>ds_item_sep = u '','', ds_key_sep = u '':'', ds_float = float\<rparr>"

definition encode_analysis_cursor :: "(rat \<Rightarrow> pystr) \<Rightarrow> AnalysisCursor \<Rightarrow> exn + pystr" where
  "encode_analysis_cursor float c =
     (let payload = dumps (compact_style float) (JArr [JStr (isoformat (Aware (cursor_created_at c) 0)), JInt (cursor_run_id c)])
      in bindE (utf8_encode payload) (\<lambda>bs. Inr (rstrip_if (\<lambda>ch. ch = 61) (urlsafe_b64encode bs))))"

text \<open>The value of \<open>created_at\<close> in a query: SQLite stores the wall clock without its zone, PostgreSQL the instant.\<close>

fun bind_datetime :: "backend \<Rightarrow> datetime \<Rightarrow> int" where
  "bind_datetime Sqlite (Naive t) = t"
| "bind_datetime Sqlite (Aware t off) = t"
| "bind_datetime Postgresql v = utc_micros v"

definition unpack2 :: "json \<Rightarrow> exn + json \<times> json" where
  "unpack2 v = bindE (j_iter v) (\<lambda>xs. case xs of [a, b] \<Rightarrow> Inr (a, b) | _ \<Rightarrow> Inl (ValueError (u ''wrong number of values to unpack'')))"

fun json_int :: "json \<Rightarrow> int option" where
  "json_int (JInt i) = Some i"
| "json_int (JBool b) = Some (if b then 1 else 0)"
| "json_int _ = None"

definition iso_value :: "json \<Rightarrow> exn + datetime" where
  "iso_value v = (case v of JStr s \<Rightarrow> fromisoformat s | _ \<Rightarrow> Inl (TypeError (u ''fromisoformat: argument must be str'')))"

definition is_naive :: "datetime \<Rightarrow> bool" where
  "is_naive v = (case v of Naive _ \<Rightarrow> True | Aware _ _ \<Rightarrow> False)"

definition read_cursor :: "pystr \<Rightarrow> exn + datetime \<times> int" where
  "read_cursor value = bindE (if list_all (\<lambda>c. c < 128) value then b64decode (value @ b64_padding (length value))
        else Inl (ValueError (u ''string argument should contain only ASCII characters''))) (\<lambda>decoded.
     bindE (loads_bytes decoded) (\<lambda>v. bindE (unpack2 v) (\<lambda>(a, b). bindE (iso_value a) (\<lambda>created_at.
       case json_int b of
         Some run_id \<Rightarrow> if is_naive created_at \<or> run_id < 1 then Inl (ValueError []) else Inr (created_at, run_id)
       | None \<Rightarrow> Inl (ValueError [])))))"

definition is_type_error :: "exn \<Rightarrow> bool" where
  "is_type_error e = (case e of TypeError _ \<Rightarrow> True | _ \<Rightarrow> False)"

definition is_value_error :: "exn \<Rightarrow> bool" where
  "is_value_error e = (case e of ValueError _ \<Rightarrow> True | _ \<Rightarrow> False)"

definition is_key_error :: "exn \<Rightarrow> bool" where
  "is_key_error e = (case e of KeyError _ \<Rightarrow> True | _ \<Rightarrow> False)"

definition decode_analysis_cursor :: "pystr \<Rightarrow> exn + datetime \<times> int" where
  "decode_analysis_cursor value = (case read_cursor value of
       Inr c \<Rightarrow> Inr c
     | Inl e \<Rightarrow> if is_type_error e \<or> is_value_error e then Inl (http_error 422 ''invalid analysis cursor'') else Inl e)"

section \<open>Analyses\<close>

definition list_analyses :: "auth_service \<Rightarrow> (rat \<Rightarrow> pystr) \<Rightarrow> pystr option \<Rightarrow> nat \<Rightarrow> list_filter \<Rightarrow> pystr option
    \<Rightarrow> (pipe, AnalysisRecord list \<times> pystr option) prog" where
  "list_analyses A float session_cookie limit lf cursor = bindS (analysis_access A session_cookie) (\<lambda>ids.
     bindL (if truthy cursor then bindE (decode_analysis_cursor (the cursor)) (\<lambda>c. Inr (Some c)) else Inr None) (\<lambda>c.
     bindS (on_store (\<lambda>_ d. Inr (list_page limit ids lf (map_option (\<lambda>(t, run_id).
         \<lparr>cursor_created_at = bind_datetime (db_backend d) t, cursor_run_id = run_id\<rparr>) c) d, d))) (\<lambda>page.
     case next_cursor page of
       None \<Rightarrow> retS (page_records page, None)
     | Some nc \<Rightarrow> bindL (encode_analysis_cursor float nc) (\<lambda>h. retS (page_records page, Some h)))))"

definition get_analysis :: "auth_service \<Rightarrow> pystr option \<Rightarrow> int \<Rightarrow> (pipe, AnalysisRecord) prog" where
  "get_analysis A session_cookie run_id = bindS (analysis_access A session_cookie) (\<lambda>ids.
     bindS (on_store (\<lambda>_ d. Inr (store_get run_id ids d, d))) (\<lambda>record. case record of
       None \<Rightarrow> raiseS (http_error 404 ''analysis not found'') | Some r \<Rightarrow> retS r))"

definition count_feedback :: "FeedbackRequest \<Rightarrow> metrics \<Rightarrow> metrics" where
  "count_feedback f k =
     (let k = (case fq_accuracy f of None \<Rightarrow> k | Some a \<Rightarrow> inc1 ''feedback'' [u ''accuracy'', accuracy_value a] k) in
      case fq_suggestion_resolved f of
        None \<Rightarrow> k
      | Some b \<Rightarrow> inc1 ''feedback'' [u ''suggestion_resolved'', (if b then u ''true'' else u ''false'')] k)"

definition put_analysis_feedback :: "auth_service \<Rightarrow> pystr option \<Rightarrow> int \<Rightarrow> FeedbackRequest \<Rightarrow> (pipe, FeedbackRecord) prog" where
  "put_analysis_feedback A session_cookie run_id f = bindS (analysis_access A session_cookie) (\<lambda>ids.
     bindS (on_store (\<lambda>now d. Inr (save_feedback now run_id f ids d))) (\<lambda>saved. case saved of
       None \<Rightarrow> raiseS (http_error 404 ''analysis not found'')
     | Some r \<Rightarrow> bindS (count_up (count_feedback f)) (\<lambda>_. retS r)))"

section \<open>The webhook\<close>

fun first_pr_number :: "json list \<Rightarrow> int option" where
  "first_pr_number [] = None"
| "first_pr_number (v # vs) = (case v of
       JObj d \<Rightarrow> (case json_int (dict_get JNull (u ''number'') d) of Some n \<Rightarrow> Some n | None \<Rightarrow> first_pr_number vs)
     | _ \<Rightarrow> first_pr_number vs)"

definition pull_request_number :: "json \<Rightarrow> exn + int option" where
  "pull_request_number run = bindE (j_get ''pull_requests'' run) (\<lambda>v. Inr (case v of JArr xs \<Rightarrow> first_pr_number xs | _ \<Rightarrow> None))"

definition workflow_run_completed_at :: "json \<Rightarrow> (pipe, int) prog" where
  "workflow_run_completed_at v = (case v of
       JStr s \<Rightarrow> bindL (fromisoformat (replace (u ''Z'') (u ''+00:00'') s)) (\<lambda>parsed. case parsed of
           Naive _ \<Rightarrow> raiseS (ValueError (u ''workflow run timestamp must include a timezone''))
         | Aware t off \<Rightarrow> if datetime_range (t - off) then retS (t - off) else raiseS overflow_error)
     | _ \<Rightarrow> utc_now)"

record run_event =
  re_run_id :: int
  re_run_attempt :: int
  re_workflow_name :: pystr
  re_head_branch :: "pystr option"
  re_pull_request :: "int option"
  re_completed_at :: int
  re_html_url :: pystr

definition read_run_event :: "auth_service \<Rightarrow> json \<Rightarrow> (pipe, run_event) prog" where
  "read_run_event A run = (let U = hc_unicode (gh_http (au_github A)); text_of = gh_str (au_github A) in
     bindL (bindE (j_item ''id'' run) (py_int U)) (\<lambda>run_id.
     bindL (bindE (j_get_or ''run_attempt'' (JInt 1) run) (py_int U)) (\<lambda>run_attempt.
     if run_attempt < 1 then raiseS (ValueError [])
     else bindL (j_get_or ''name'' (JStr (u ''unknown workflow'')) run) (\<lambda>name.
     bindL (j_get ''head_branch'' run) (\<lambda>branch.
     bindL (pull_request_number run) (\<lambda>pr.
     bindL (j_get ''updated_at'' run) (\<lambda>updated_at.
     bindS (workflow_run_completed_at updated_at) (\<lambda>completed_at.
     bindL (j_item ''html_url'' run) (\<lambda>url.
       retS \<lparr>re_run_id = run_id, re_run_attempt = run_attempt, re_workflow_name = text_of name,
         re_head_branch = (case branch of JStr b \<Rightarrow> Some b | _ \<Rightarrow> None), re_pull_request = pr,
         re_completed_at = completed_at, re_html_url = text_of url\<rparr>)))))))))"

definition followup_of :: "pystr \<Rightarrow> pystr \<Rightarrow> run_event \<Rightarrow> followup_run" where
  "followup_of repository conclusion e = \<lparr>fu_repository = repository, fu_workflow_name = re_workflow_name e,
     fu_head_branch = re_head_branch e, fu_pull_request_number = re_pull_request e, fu_run_id = re_run_id e,
     fu_run_attempt = re_run_attempt e, fu_html_url = re_html_url e, fu_conclusion = conclusion,
     fu_completed_at = Aware (re_completed_at e) 0\<rparr>"

definition count_resolution :: "ResolutionMatch option \<Rightarrow> metrics \<Rightarrow> metrics" where
  "count_resolution m k = (case m of None \<Rightarrow> k | Some m \<Rightarrow> (let rs = resolution m; o1 = outcome_value (rs_outcome rs) in
     observe ''recovery_duration'' [o1] (rs_recovery_seconds rs) (inc1 ''resolutions'' [o1] k)))"

definition new_record :: "int \<Rightarrow> int \<Rightarrow> pystr \<Rightarrow> pystr \<Rightarrow> pystr \<Rightarrow> int \<Rightarrow> run_event \<Rightarrow> AnalysisRecord" where
  "new_record created updated delivery repository head_sha installation e = \<lparr>
     ar_run_id = re_run_id e, ar_delivery_id = delivery, ar_repository = repository, ar_workflow_name = re_workflow_name e,
     ar_head_sha = head_sha, ar_html_url = re_html_url e, ar_run_attempt = re_run_attempt e, ar_head_branch = re_head_branch e,
     ar_pull_request_number = re_pull_request e, ar_run_completed_at = Some (re_completed_at e),
     ar_installation_id = Some installation, ar_trust_level = UNVERIFIED, ar_baseline_sha = None, ar_status = QUEUED,
     ar_classification = None, ar_diagnosis = None, ar_related_files = [], ar_workflow_path = None, ar_execution_context = None,
     ar_model_name = None, ar_prompt_version = None, ar_feedback = None, ar_resolution = None, ar_error = None,
     ar_analysis_started_at = None, ar_analysis_completed_at = None, ar_duration_seconds = None, ar_queue_wait_seconds = None,
     ar_total_latency_seconds = None, ar_stage_history = [], ar_created_at = created, ar_updated_at = updated\<rparr>"

definition request_of_record :: "AnalysisRecord \<Rightarrow> AnalysisRequest option" where
  "request_of_record r = (if ar_status r = QUEUED then map_option (\<lambda>i. \<lparr>rq_run_id = ar_run_id r, rq_repository = ar_repository r,
     rq_installation_id = i, rq_head_sha = ar_head_sha r\<rparr>) (ar_installation_id r) else None)"

text \<open>The answers of the handler that only count.\<close>

definition ignored :: "string \<Rightarrow> ('q app_state, reply) prog" where
  "ignored outcome = bindS (count_app (inc1 ''webhooks'' [u outcome])) (\<lambda>_. retS (empty_reply 204))"

definition rejected :: "string \<Rightarrow> nat \<Rightarrow> pystr \<Rightarrow> ('q app_state, 'a) prog" where
  "rejected outcome code detail = bindS (count_app (inc1 ''webhooks'' [u outcome])) (\<lambda>_. raiseS (HTTPException code detail))"

definition bad_payload :: "('q app_state, 'a) prog" where
  "bad_payload = rejected ''invalid_payload'' 400 (u ''invalid workflow_run payload'')"

text \<open>\<open>conclusion in {'success', 'failure'}\<close>: lists and dictionaries cannot be hashed.\<close>

definition known_conclusion :: "json \<Rightarrow> exn + pystr option" where
  "known_conclusion v = (case v of
       JStr s \<Rightarrow> Inr (if s \<in> {u ''success'', u ''failure''} then Some s else None)
     | JArr _ \<Rightarrow> Inl (TypeError (u ''unhashable type'')) | JObj _ \<Rightarrow> Inl (TypeError (u ''unhashable type''))
     | _ \<Rightarrow> Inr None)"

definition read_payload :: "nat list \<Rightarrow> exn + json \<times> json \<times> json" where
  "read_payload body = bindE (loads_bytes body) (\<lambda>payload. bindE (j_item ''workflow_run'' payload) (\<lambda>run.
     bindE (bindE (j_item ''repository'' payload) (j_item ''full_name'')) (\<lambda>repository. Inr (payload, run, repository))))"

definition event_conclusion :: "json \<Rightarrow> json \<Rightarrow> exn + pystr option" where
  "event_conclusion payload run = bindE (j_get ''conclusion'' run) (\<lambda>conclusion. bindE (j_get ''action'' payload) (\<lambda>action.
     if action \<noteq> JStr (u ''completed'') then Inr None else known_conclusion conclusion))"

definition field_repository :: "json \<Rightarrow> exn + pystr" where
  "field_repository v = (case v of JStr s \<Rightarrow> Inr s | _ \<Rightarrow> Inl (OtherError (u ''database driver error'')))"

definition enqueue_existing :: "'q app_queue \<Rightarrow> AnalysisRecord option \<Rightarrow> ('q app_state, bool) prog" where
  "enqueue_existing Q existing = (case Option.bind existing request_of_record of
       None \<Rightarrow> retS False
     | Some rq \<Rightarrow> bindS (tryElseS (on_queue (aq_enqueue Q rq))
           (\<lambda>_. rejected ''queue_error'' 503 (u ''analysis queue unavailable'')) retS) (\<lambda>enqueued.
         bindS (on_queue (\<lambda>q. bindE (aq_size Q q) (\<lambda>n. Inr (n, q)))) (\<lambda>n.
         bindS (count_app (set_gauge ''queue_depth'' (of_nat n))) (\<lambda>_. retS enqueued))))"

definition store_and_enqueue :: "'q app_queue \<Rightarrow> AnalysisRecord \<Rightarrow> ('q app_state, reply) prog" where
  "store_and_enqueue Q record =
     bindS (on_pipe (on_store (\<lambda>_ d. Inr (create_if_absent record d)))) (\<lambda>created.
     bindS (if created then retS (Some record)
            else on_pipe (on_store (\<lambda>_ d. Inr (store_get (ar_run_id record) None d, d)))) (\<lambda>existing.
     bindS (enqueue_existing Q existing) (\<lambda>enqueued.
     bindS (count_app (inc1 ''webhooks'' [u (if created then ''accepted'' else if enqueued then ''recovered'' else ''duplicate'')])) (\<lambda>_.
       retS ((empty_reply 202)\<lparr>rp_body := JObj [(u ''accepted'', JBool (created \<or> enqueued)),
         (u ''run_id'', JInt (ar_run_id record))]\<rparr>)))))"

definition accept_run :: "auth_service \<Rightarrow> 'q app_queue \<Rightarrow> pystr \<Rightarrow> json \<Rightarrow> json \<Rightarrow> pystr \<Rightarrow> run_event \<Rightarrow> ('q app_state, reply) prog" where
  "accept_run A Q delivery payload run repository e =
     bindL (bindE (j_get_or ''installation'' (JObj []) payload) (j_get ''id'')) (\<lambda>installation.
     if installation = JNull then rejected ''invalid_payload'' 400 (u ''payload has no GitHub App installation id'')
     else bindL (j_item ''head_sha'' run) (\<lambda>sha.
     bindL (field_str sha) (\<lambda>head_sha.
     bindL (field_int (gl_to_int (gh_lib (au_github A))) installation) (\<lambda>installation_id.
     bindS (on_pipe utc_now) (\<lambda>created_at. bindS (on_pipe utc_now) (\<lambda>updated_at.
       store_and_enqueue Q (new_record created_at updated_at delivery repository head_sha installation_id e)))))))"

definition completed_run :: "auth_service \<Rightarrow> 'q app_queue \<Rightarrow> pystr \<Rightarrow> json \<Rightarrow> json \<Rightarrow> json \<Rightarrow> pystr \<Rightarrow> ('q app_state, reply) prog" where
  "completed_run A Q delivery payload run repository conclusion =
     bindS (tryElseS (on_pipe (read_run_event A run))
         (\<lambda>e. if is_key_error e \<or> is_type_error e \<or> is_value_error e then bad_payload else raiseS e) retS) (\<lambda>e.
     bindL (field_repository repository) (\<lambda>repository.
     bindS (on_pipe (on_store (\<lambda>now d. Inr (record_followup_run now (followup_of repository conclusion e) d)))) (\<lambda>found.
     bindS (count_app (count_resolution found)) (\<lambda>_.
     if conclusion = u ''success'' then ignored (if found = None then ''ignored_run'' else ''resolution_recorded'')
     else accept_run A Q delivery payload run repository e))))"

definition github_webhook :: "auth_service \<Rightarrow> 'q app_queue \<Rightarrow> nat list \<Rightarrow> pystr option \<Rightarrow> pystr option \<Rightarrow> pystr option
    \<Rightarrow> ('q app_state, reply) prog" where
  "github_webhook A Q body event delivery signature =
     tryElseS (liftS (verify_github_signature body signature (st_webhook_secret (au_settings A))))
       (\<lambda>e. case e of InvalidSignatureError m \<Rightarrow> rejected ''invalid_signature'' 401 m | _ \<Rightarrow> raiseS e)
       (\<lambda>_. if event \<noteq> Some (u ''workflow_run'') then ignored ''ignored_event''
         else if \<not> truthy delivery then rejected ''invalid_payload'' 400 (u ''missing X-GitHub-Delivery header'')
         else tryElseS (liftS (read_payload body))
           (\<lambda>e. if e = json_error \<or> is_key_error e \<or> is_type_error e then bad_payload else raiseS e)
           (\<lambda>(payload, run, repository). bindL (event_conclusion payload run) (\<lambda>conclusion. case conclusion of
               None \<Rightarrow> ignored ''ignored_run''
             | Some c \<Rightarrow> completed_run A Q (the delivery) payload run repository c)))"

section \<open>Start\<close>

fun enqueue_all :: "'q app_queue \<Rightarrow> AnalysisRequest list \<Rightarrow> nat \<Rightarrow> ('q app_state, nat) prog" where
  "enqueue_all Q [] n = retS n"
| "enqueue_all Q (r # rs) n = bindS (on_queue (aq_enqueue Q r)) (\<lambda>added. enqueue_all Q rs (if added then n + 1 else n))"

definition reconcile_queued_analyses :: "'q app_queue \<Rightarrow> ('q app_state, nat) prog" where
  "reconcile_queued_analyses Q = bindS (on_pipe (on_store (\<lambda>_ d. Inr (queued_requests d, d)))) (\<lambda>rs. enqueue_all Q rs 0)"

definition lifespan_start :: "'q app_queue \<Rightarrow> ('q app_state, unit) prog" where
  "lifespan_start Q = bindS (reconcile_queued_analyses Q) (\<lambda>n.
     bindS (if n = 0 then retS () else count_app (inc_nat ''queue_reconciled'' [] n)) (\<lambda>_.
     bindS (on_queue (\<lambda>q. bindE (aq_size Q q) (\<lambda>n. Inr (n, q)))) (\<lambda>size. count_app (set_gauge ''queue_depth'' (of_nat size)))))"

end
