(* ===== verification/Auth_Props.thy ===== *)
theory Auth_Props
  imports Auth
begin

text \<open>
  What signatures and sessions guarantee: which webhook bodies and login states are accepted, which
  sessions authenticate, and that a change of the encryption keys keeps the sessions.
\<close>

section \<open>Signatures\<close>

lemma hmac_hex_ascii: "is_ascii (hexdigest (hmac_sha256 k m))"
  by (rule hexdigest_ascii[OF hmac_bytes(2)])

lemma is_ascii_append [simp]: "is_ascii (a @ b) \<longleftrightarrow> is_ascii a \<and> is_ascii b" "is_ascii (c # b) \<longleftrightarrow> c < 128 \<and> is_ascii b"
  by (simp_all add: is_ascii_def)

lemma compare_digest_Inr: "compare_digest a b = Inr c \<longleftrightarrow> is_ascii a \<and> is_ascii b \<and> c = (a = b)"
  by (auto simp: compare_digest_def)

text \<open>A webhook body is accepted exactly when the signature header is the HMAC of that very body under the webhook secret.\<close>

lemma signature_exact:
  "verify_github_signature body signature secret = Inr () \<longleftrightarrow>
     (\<exists>key. utf8_encode secret = Inr key \<and> signature = Some (u ''sha256='' @ hexdigest (hmac_sha256 key body)))"
proof -
  have a: "is_ascii (u ''sha256='')" by (simp add: is_ascii_def u_def)
  show ?thesis
    by (auto simp: verify_github_signature_def bindE_eq_Inr compare_digest_Inr hmac_hex_ascii a Let_def
        split: option.split if_splits)
qed

text \<open>A signature header with the right prefix and a character outside ASCII makes the check raise
  TypeError, which the webhook handler does not catch, instead of InvalidSignatureError.\<close>

lemma non_ascii_signature_crashes:
  assumes "utf8_encode secret = Inr key" "128 \<le> c"
  shows "verify_github_signature body (Some (u ''sha256='' @ [c])) secret
    = Inl (TypeError (u ''comparing strings with non-ASCII characters is not supported''))"
  using assms by (simp add: verify_github_signature_def compare_digest_def is_ascii_def Let_def)

section \<open>The state of a login\<close>

lemma rsplit_dot_Some: "rsplit_dot s = Some (a, b) \<longleftrightarrow> s = a @ 46 # b \<and> 46 \<notin> set b"
proof
  assume r: "rsplit_dot s = Some (a, b)"
  then have m: "46 \<in> set (rev s)" by (simp add: rsplit_dot_def split: if_splits)
  obtain y ys where d: "dropWhile (\<lambda>c. c \<noteq> 46) (rev s) = y # ys"
    using m by (cases "dropWhile (\<lambda>c. c \<noteq> 46) (rev s)") (auto simp: dropWhile_eq_Nil_conv)
  then have y: "y = 46" using hd_dropWhile[of "\<lambda>c. c \<noteq> 46" "rev s"] by simp
  have "rev s = takeWhile (\<lambda>c. c \<noteq> 46) (rev s) @ 46 # ys" using d y by (metis takeWhile_dropWhile_id)
  then have "s = rev ys @ 46 # rev (takeWhile (\<lambda>c. c \<noteq> 46) (rev s))" by (metis rev_rev_ident rev_append rev.simps(2) append_assoc append_Cons append_Nil)
  moreover have "a = rev ys" "b = rev (takeWhile (\<lambda>c. c \<noteq> 46) (rev s))" using r m d by (auto simp: rsplit_dot_def)
  ultimately show "s = a @ 46 # b \<and> 46 \<notin> set b" by (auto dest: set_takeWhileD)
next
  assume "s = a @ 46 # b \<and> 46 \<notin> set b"
  moreover from this have "takeWhile (\<lambda>c. c \<noteq> 46) (rev b @ 46 # rev a) = rev b" "dropWhile (\<lambda>c. c \<noteq> 46) (rev b @ 46 # rev a) = 46 # rev a"
    by (auto simp: takeWhile_append dropWhile_append)
  ultimately show "rsplit_dot s = Some (a, b)" by (simp add: rsplit_dot_def)
qed

lemma state_signature_props:
  assumes "state_signature st nonce = Inr signature"
  shows "is_ascii signature" "46 \<notin> set signature"
proof -
  from assms obtain k m where s: "signature = hexdigest (hmac_sha256 k m)"
    by (auto simp: state_signature_def bindE_eq_Inr)
  then show "is_ascii signature" by (simp add: hmac_hex_ascii)
  from hexdigest_chars[OF hmac_bytes(2), of k m] s show "46 \<notin> set signature" by (auto simp: list_all_iff)
qed

text \<open>C37: the callback of a login accepts a state exactly when the browser's cookie holds the same text and
  that text is a nonce with its HMAC under the session secret; what \<open>new_oauth_state\<close> issues for an
  ASCII nonce is therefore accepted, and nobody without the secret can make another.\<close>

theorem oauth_state_authentic:
  "verify_oauth_state A state cookie = Inr () \<longleftrightarrow>
     (\<exists>nonce signature. state = Some (nonce @ [46] @ signature) \<and> cookie = state \<and> is_ascii nonce
        \<and> state_signature (au_settings A) nonce = Inr signature)"
proof
  assume v: "verify_oauth_state A state cookie = Inr ()"
  then obtain s c where s: "state = Some s" "cookie = Some c"
    by (cases state; cases cookie) (auto simp: verify_oauth_state_def)
  from v s have c: "s = c" "is_ascii s" and v': "(case rsplit_dot s of None \<Rightarrow> Inl invalid_state
      | Some (nonce, signature) \<Rightarrow> bindE (state_signature (au_settings A) nonce) (\<lambda>expected.
          bindE (compare_digest signature expected) (\<lambda>same. if same then Inr () else Inl invalid_state))) = Inr ()"
    by (auto simp: verify_oauth_state_def bindE_eq_Inr compare_digest_Inr split: if_splits)
  from v' obtain n g e where r: "rsplit_dot s = Some (n, g)" "state_signature (au_settings A) n = Inr e" "g = e"
    by (auto simp: bindE_eq_Inr compare_digest_Inr split: option.splits prod.splits if_splits)
  with s c show "\<exists>nonce signature. state = Some (nonce @ [46] @ signature) \<and> cookie = state \<and> is_ascii nonce
      \<and> state_signature (au_settings A) nonce = Inr signature"
    using rsplit_dot_Some[of s n g] by auto
next
  assume "\<exists>nonce signature. state = Some (nonce @ [46] @ signature) \<and> cookie = state \<and> is_ascii nonce
        \<and> state_signature (au_settings A) nonce = Inr signature"
  then obtain n g where g: "state = Some (n @ [46] @ g)" "cookie = state" "is_ascii n" "state_signature (au_settings A) n = Inr g"
    by blast
  note p = state_signature_props[OF g(4)]
  have "rsplit_dot (n @ [46] @ g) = Some (n, g)" using rsplit_dot_Some p(2) by simp
  with g p show "verify_oauth_state A state cookie = Inr ()"
    by (simp add: verify_oauth_state_def compare_digest_def)
qed

section \<open>Encryption\<close>

fun first_some :: "'a option list \<Rightarrow> 'a option" where
  "first_some [] = None"
| "first_some (Some a # _) = Some a"
| "first_some (None # xs) = first_some xs"

lemma first_some_in: "first_some xs = Some a \<Longrightarrow> Some a \<in> set xs"
  by (induction xs rule: first_some.induct) auto

lemma first_some_only: "set xs \<subseteq> {None, Some a} \<Longrightarrow> Some a \<in> set xs \<Longrightarrow> first_some xs = Some a"
  by (induction xs rule: first_some.induct) auto

text \<open>What the package documents: a key opens what it has sealed, another key reads nothing else there;
  tokens are URL-safe base64; \<open>MultiFernet\<close> seals with its first key and tries the keys in order.\<close>

definition fernet_laws :: "fernet_lib \<Rightarrow> bool" where
  "fernet_laws F \<longleftrightarrow>
     (\<forall>k n m. fl_decrypt F k (fl_encrypt F k n m) = Some m)
     \<and> (\<forall>k k' n m. fl_decrypt F k' (fl_encrypt F k n m) \<in> {None, Some m})
     \<and> (\<forall>k n m. is_ascii (fl_encrypt F k n m))
     \<and> (\<forall>k ks n m. fl_multi_encrypt F (k # ks) n m = fl_encrypt F k n m)
     \<and> (\<forall>ks t. fl_multi_decrypt F ks t = first_some (map (\<lambda>k. fl_decrypt F k t) ks))"

lemma ascii_utf8:
  assumes "is_ascii t"
  shows "utf8_encode t = Inr t" "utf8_decode t = Inr t"
proof -
  have s: "\<forall>c \<in> set t. is_scalar c" using assms by (auto simp: is_ascii_def list_all_iff is_scalar_def is_surrogate_def)
  have "map utf8_char t = map (\<lambda>c. [c]) t"
    using assms by (simp add: is_ascii_def list_all_iff utf8_char_def)
  then have e: "concat (map utf8_char t) = t" by (simp only: concat_map_singleton list.map_ident)
  show "utf8_encode t = Inr t" "utf8_decode t = Inr t" using utf8_roundtrip[OF s] unfolding e by blast+
qed

lemma utf8_decode_encode: "utf8_encode t = Inr bs \<Longrightarrow> utf8_decode bs = Inr t"
  using utf8_roundtrip[of t] by (auto simp: utf8_encode_def split: if_splits)

lemma multi_decrypt_sealed:
  assumes "fernet_laws F" "k \<in> set ks"
  shows "fl_multi_decrypt F ks (fl_encrypt F k n m) = Some m"
proof -
  have "first_some (map (\<lambda>k'. fl_decrypt F k' (fl_encrypt F k n m)) ks) = Some m"
  proof (rule first_some_only)
    show "set (map (\<lambda>k'. fl_decrypt F k' (fl_encrypt F k n m)) ks) \<subseteq> {None, Some m}"
      using assms(1) unfolding fernet_laws_def by (simp only: set_map image_subset_iff) blast
    show "Some m \<in> set (map (\<lambda>k'. fl_decrypt F k' (fl_encrypt F k n m)) ks)"
      using assms unfolding fernet_laws_def by (auto intro: rev_image_eqI)
  qed
  with assms(1) show ?thesis unfolding fernet_laws_def by simp
qed

section \<open>Sessions\<close>

lemma get_auth_session_row:
  assumes "keyed s_session_hash (db_auth_sessions d)" "s \<in> set (db_auth_sessions d)" "known_user (s_github_user_id s) d"
  shows "\<exists>g \<in> set (db_github_users d). g_github_user_id g = s_github_user_id s
    \<and> get_auth_session (s_session_hash s) d = Some \<lparr>as_github_user_id = s_github_user_id s,
        as_encrypted_access_token = s_encrypted_access_token s, as_expires_at = read_column (db_backend d) (s_expires_at s),
        as_login = g_login g, as_avatar_url = g_avatar_url g\<rparr>"
proof -
  have "filter (\<lambda>x. s_session_hash x = s_session_hash s \<and> known_user (s_github_user_id x) d) (db_auth_sessions d)
      = filter (\<lambda>x. known_user (s_github_user_id x) d) (filter (\<lambda>x. s_session_hash x = s_session_hash s) (db_auth_sessions d))"
    by (simp add: conj_commute)
  also have "\<dots> = [s]" using keyed_filter_single[OF assms(1,2)] assms(3) by simp
  finally have f: "filter (\<lambda>x. s_session_hash x = s_session_hash s \<and> known_user (s_github_user_id x) d) (db_auth_sessions d) = [s]" .
  obtain g where g: "first_row (sql_select (\<lambda>g. g_github_user_id g = s_github_user_id s) (db_github_users d)) = Some g"
    using assms(3) by (cases "first_row (sql_select (\<lambda>g. g_github_user_id g = s_github_user_id s) (db_github_users d))")
      (auto simp: known_user_def sql_select_def filter_empty_conv)
  from first_row_in[OF g] have "g \<in> set (db_github_users d)" "g_github_user_id g = s_github_user_id s"
    by (auto simp: sql_select_def)
  moreover have "get_auth_session (s_session_hash s) d = Some \<lparr>as_github_user_id = s_github_user_id s,
        as_encrypted_access_token = s_encrypted_access_token s, as_expires_at = read_column (db_backend d) (s_expires_at s),
        as_login = g_login g, as_avatar_url = g_avatar_url g\<rparr>"
    using f g by (simp add: get_auth_session_def sql_select_def)
  ultimately show ?thesis by blast
qed

lemma get_auth_session_Some:
  assumes "get_auth_session h d = Some r"
  shows "\<exists>s \<in> set (db_auth_sessions d). s_session_hash s = h \<and> known_user (s_github_user_id s) d
    \<and> as_github_user_id r = s_github_user_id s \<and> as_encrypted_access_token r = s_encrypted_access_token s
    \<and> utc_micros (as_expires_at r) = s_expires_at s"
proof -
  obtain s where s: "first_row (sql_select (\<lambda>s. s_session_hash s = h \<and> known_user (s_github_user_id s) d) (db_auth_sessions d)) = Some s"
    using assms by (cases "first_row (sql_select (\<lambda>s. s_session_hash s = h \<and> known_user (s_github_user_id s) d) (db_auth_sessions d))")
      (auto simp: get_auth_session_def)
  from first_row_in[OF s] s assms show ?thesis
    by (cases "db_backend d") (auto simp: get_auth_session_def sql_select_def read_column_def)
qed

text \<open>The rows of other sessions.\<close>

abbreviation other_sessions :: "pystr \<Rightarrow> db \<Rightarrow> auth_session_row list" where
  "other_sessions h d \<equiv> filter (\<lambda>s. s_session_hash s \<noteq> h) (db_auth_sessions d)"

lemma other_sessions_writes [simp]:
  "other_sessions h (delete_auth_session h d) = other_sessions h d"
  "other_sessions h (update_auth_session_token h t d) = other_sessions h d"
proof -
  show "other_sessions h (delete_auth_session h d) = other_sessions h d"
    by (simp add: delete_auth_session_def sql_delete_def)
  show "other_sessions h (update_auth_session_token h t d) = other_sessions h d"
    unfolding update_auth_session_token_def by (simp add: filter_map comp_def if_distrib) (rule map_idI, simp)
qed

lemma delete_no_session: "get_auth_session h (delete_auth_session h d) = None"
  by (auto simp: get_auth_session_def delete_auth_session_def sql_delete_def sql_select_def filter_empty_conv)

text \<open>The effects of one session's operations.\<close>

lemma session_effects:
  "drop_session h p = (Inr (), p\<lparr>pp_nows := pp_nows p + 1, pp_db := delete_auth_session h (pp_db p)\<rparr>)"
  "utc_now p = (Inr (pp_now p (pp_nows p)), p\<lparr>pp_nows := pp_nows p + 1\<rparr>)"
  "fresh_salt p = (Inr (pp_uuids p), p\<lparr>pp_uuids := pp_uuids p + 1\<rparr>)"
  "on_store (\<lambda>now d. Inr (f d, d)) p = (Inr (f (pp_db p)), p\<lparr>pp_nows := pp_nows p + 1\<rparr>)"
  "on_store_unit (\<lambda>now d. Inr (g d)) p = (Inr (), p\<lparr>pp_nows := pp_nows p + 1, pp_db := g (pp_db p)\<rparr>)"
  by (simp_all add: drop_session_def utc_now_def fresh_salt_def on_store_def on_store_unit_def)

lemma bindS_success: "m s = (Inr a, s') \<Longrightarrow> bindS m f s = f a s'"
  by (simp add: bindS_def)

lemma bindS_run: "bindS m f s = (Inr b, s') \<longleftrightarrow> (\<exists>a t. m s = (Inr a, t) \<and> f a t = (Inr b, s'))"
  by (auto simp: bindS_def split: prod.splits sum.splits)

lemma bindL_run: "bindL r f s = (Inr b, s') \<longleftrightarrow> (\<exists>a. r = Inr a \<and> f a s = (Inr b, s'))"
  by (auto simp: bindS_run)

lemma open_token_cases:
  assumes "open_token A h tok p = (Inr r, p')"
  shows "other_sessions h (pp_db p') = other_sessions h (pp_db p)
    \<and> (case r of None \<Rightarrow> get_auth_session h (pp_db p') = None
       | Some b \<Rightarrow> fl_decrypt (au_fernet A) (hd (au_keys A)) tok = Some b
           \<or> fl_multi_decrypt (au_fernet A) (au_keys A) tok = Some b)"
  using assms
  by (auto simp: open_token_def bindS_run session_effects delete_no_session split: option.splits)

lemma authenticate_run:
  assumes "authenticate A (Some t) p = (Inr r, p')" "t \<noteq> []"
  obtains h where "hash_token t = Inr h" "other_sessions h (pp_db p') = other_sessions h (pp_db p)"
    "r = None \<Longrightarrow> get_auth_session h (pp_db p') = None"
    "\<And>sn. r = Some sn \<Longrightarrow> sn_session_hash sn = h \<and> (\<exists>row tok b. get_auth_session h (pp_db p) = Some row
       \<and> pp_now p (pp_nows p + 1) < utc_micros (as_expires_at row) \<and> gu_github_user_id (sn_user sn) = as_github_user_id row
       \<and> utf8_encode (as_encrypted_access_token row) = Inr tok \<and> utf8_decode b = Inr (sn_access_token sn)
       \<and> (fl_decrypt (au_fernet A) (hd (au_keys A)) tok = Some b \<or> fl_multi_decrypt (au_fernet A) (au_keys A) tok = Some b))"
proof -
  from assms obtain h where h: "hash_token t = Inr h" by (auto simp: authenticate_def bindL_run)
  show ?thesis
  proof (cases "get_auth_session h (pp_db p)")
    case None
    with assms h have "r = None" "p' = p\<lparr>pp_nows := pp_nows p + 1\<rparr>"
      by (auto simp: authenticate_def bindS_run session_effects)
    with None that[OF h] show ?thesis by simp
  next
    case (Some row)
    let ?p = "p\<lparr>pp_nows := pp_nows p + 1 + 1\<rparr>"
    show ?thesis
    proof (cases "utc_micros (as_expires_at row) \<le> pp_now p (pp_nows p + 1)")
      case True
      with assms h Some have "r = None" "p' = ?p\<lparr>pp_nows := pp_nows p + 3, pp_db := delete_auth_session h (pp_db p)\<rparr>"
        by (auto simp: authenticate_def bindS_run session_effects)
      then show ?thesis by (intro that[OF h]) (simp_all add: delete_no_session)
    next
      case False
      with assms h Some obtain tok o1 p1 where tok: "utf8_encode (as_encrypted_access_token row) = Inr tok"
        and o: "open_token A h tok ?p = (Inr o1, p1)"
        and k: "(case o1 of None \<Rightarrow> retS None
                  | Some b \<Rightarrow> (case utf8_decode b of
                      Inl _ \<Rightarrow> bindS (drop_session h) (\<lambda>_. retS None)
                    | Inr access \<Rightarrow> retS (Some \<lparr>sn_session_hash = h,
                        sn_user = \<lparr>gu_github_user_id = as_github_user_id row, gu_login = as_login row,
                          gu_avatar_url = as_avatar_url row\<rparr>,
                        sn_access_token = access\<rparr>))) p1 = (Inr r, p')"
        by (auto simp: authenticate_def bindS_run session_effects)
      note C = open_token_cases[OF o]
      have e: "pp_db ?p = pp_db p" by simp
      show ?thesis
      proof (cases o1)
        case None
        with k C that[OF h] show ?thesis by simp
      next
        case (Some b)
        show ?thesis
        proof (cases "utf8_decode b")
          case (Inl e)
          with Some k have "r = None" "pp_db p' = delete_auth_session h (pp_db p1)"
            by (auto simp: bindS_run session_effects)
          with C show ?thesis by (intro that[OF h]) (simp_all add: delete_no_session)
        next
          case (Inr access)
          with Some k have r: "p' = p1" "r = Some \<lparr>sn_session_hash = h,
                        sn_user = \<lparr>gu_github_user_id = as_github_user_id row, gu_login = as_login row,
                          gu_avatar_url = as_avatar_url row\<rparr>, sn_access_token = access\<rparr>" by simp_all
          show ?thesis
          proof (rule that[OF h])
            show "other_sessions h (pp_db p') = other_sessions h (pp_db p)" using C r by simp
          qed (use r Inr Some \<open>get_auth_session h (pp_db p) = Some row\<close> False tok C in auto)
        qed
      qed
    qed
  qed
qed

definition valid_session :: "auth_service \<Rightarrow> pipe \<Rightarrow> pystr \<Rightarrow> AuthenticatedSession \<Rightarrow> bool" where
  "valid_session A p h sn \<longleftrightarrow> sn_session_hash sn = h \<and> (\<exists>s k tok b. s \<in> set (db_auth_sessions (pp_db p))
     \<and> s_session_hash s = h \<and> pp_now p (pp_nows p + 1) < s_expires_at s
     \<and> gu_github_user_id (sn_user sn) = s_github_user_id s \<and> known_user (s_github_user_id s) (pp_db p)
     \<and> k \<in> set (au_keys A) \<and> utf8_encode (s_encrypted_access_token s) = Inr tok \<and> fl_decrypt (au_fernet A) k tok = Some b
     \<and> utf8_decode b = Inr (sn_access_token sn))"

text \<open>A request is authenticated only by a session that is stored under the hash of its token, belongs to a
  known user, has not expired and holds an access token that opens under one of the configured keys;
  otherwise the session is gone afterwards. No other session is touched in either case.\<close>

lemma session_checked:
  assumes "authenticate A (Some t) p = (Inr r, p')" "t \<noteq> []" "fernet_laws (au_fernet A)" "au_keys A \<noteq> []"
  shows "\<exists>h. hash_token t = Inr h \<and> other_sessions h (pp_db p') = other_sessions h (pp_db p)
    \<and> (case r of None \<Rightarrow> get_auth_session h (pp_db p') = None | Some sn \<Rightarrow> valid_session A p h sn)"
proof (rule authenticate_run[OF assms(1,2)])
  fix h assume h: "hash_token t = Inr h" "other_sessions h (pp_db p') = other_sessions h (pp_db p)"
    "r = None \<Longrightarrow> get_auth_session h (pp_db p') = None"
    and S: "\<And>sn. r = Some sn \<Longrightarrow> sn_session_hash sn = h \<and> (\<exists>row tok b. get_auth_session h (pp_db p) = Some row
       \<and> pp_now p (pp_nows p + 1) < utc_micros (as_expires_at row) \<and> gu_github_user_id (sn_user sn) = as_github_user_id row
       \<and> utf8_encode (as_encrypted_access_token row) = Inr tok \<and> utf8_decode b = Inr (sn_access_token sn)
       \<and> (fl_decrypt (au_fernet A) (hd (au_keys A)) tok = Some b \<or> fl_multi_decrypt (au_fernet A) (au_keys A) tok = Some b))"
  have "valid_session A p h sn" if r: "r = Some sn" for sn
  proof -
    from S[OF r] obtain row tok b where R: "sn_session_hash sn = h" "get_auth_session h (pp_db p) = Some row"
      "pp_now p (pp_nows p + 1) < utc_micros (as_expires_at row)" "gu_github_user_id (sn_user sn) = as_github_user_id row"
      "utf8_encode (as_encrypted_access_token row) = Inr tok" "utf8_decode b = Inr (sn_access_token sn)"
      "fl_decrypt (au_fernet A) (hd (au_keys A)) tok = Some b \<or> fl_multi_decrypt (au_fernet A) (au_keys A) tok = Some b" by blast
    have "\<exists>k \<in> set (au_keys A). fl_decrypt (au_fernet A) k tok = Some b"
      using R(7)
    proof
      assume "fl_multi_decrypt (au_fernet A) (au_keys A) tok = Some b"
      then have "first_some (map (\<lambda>k. fl_decrypt (au_fernet A) k tok) (au_keys A)) = Some b"
        using assms(3) by (simp add: fernet_laws_def)
      from first_some_in[OF this] show ?thesis by auto
    qed (use assms(4) in auto)
    with get_auth_session_Some[OF R(2)] R show ?thesis unfolding valid_session_def by fastforce
  qed
  with h show ?thesis by (auto split: option.split)
qed

lemma session_of_row:
  assumes "keyed s_session_hash (db_auth_sessions (pp_db p))" "s \<in> set (db_auth_sessions (pp_db p))"
    "known_user (s_github_user_id s) (pp_db p)" "pp_now p (pp_nows p + 1) < s_expires_at s"
    and "t \<noteq> []" "hash_token t = Inr (s_session_hash s)"
    and o: "utf8_encode (s_encrypted_access_token s) = Inr tok" "utf8_decode b = Inr access"
      "open_token A (s_session_hash s) tok (p\<lparr>pp_nows := pp_nows p + 1 + 1\<rparr>) = (Inr (Some b), p')"
  shows "\<exists>sn. authenticate A (Some t) p = (Inr (Some sn), p') \<and> sn_access_token sn = access
    \<and> sn_session_hash sn = s_session_hash s \<and> gu_github_user_id (sn_user sn) = s_github_user_id s
    \<and> (\<exists>g \<in> set (db_github_users (pp_db p)). g_github_user_id g = s_github_user_id s
         \<and> gu_login (sn_user sn) = g_login g \<and> gu_avatar_url (sn_user sn) = g_avatar_url g)"
proof -
  obtain g where gi: "g \<in> set (db_github_users (pp_db p))" "g_github_user_id g = s_github_user_id s" and
    g: "get_auth_session (s_session_hash s) (pp_db p) = Some \<lparr>as_github_user_id = s_github_user_id s,
        as_encrypted_access_token = s_encrypted_access_token s,
        as_expires_at = read_column (db_backend (pp_db p)) (s_expires_at s), as_login = g_login g, as_avatar_url = g_avatar_url g\<rparr>"
    using get_auth_session_row[OF assms(1-3)] by blast
  have x: "utc_micros (read_column (db_backend (pp_db p)) (s_expires_at s)) = s_expires_at s"
    by (cases "db_backend (pp_db p)") (simp_all add: read_column_def)
  show ?thesis
    using assms(4-6) o g gi x by (auto simp: authenticate_def bindS_def session_effects intro!: bexI[of _ g])
qed

lemma rotated_session:
  assumes "fernet_laws (au_fernet A)" "keyed s_session_hash (db_auth_sessions (pp_db p))" "s \<in> set (db_auth_sessions (pp_db p))"
    and "known_user (s_github_user_id s) (pp_db p)" "pp_now p (pp_nows p + 1) < s_expires_at s"
    and "t \<noteq> []" "hash_token t = Inr (s_session_hash s)"
    and k: "k \<in> set (au_keys A)" "s_encrypted_access_token s = fl_encrypt (au_fernet A) k n plain" "utf8_decode plain = Inr access"
  shows "\<exists>sn p' s'. authenticate A (Some t) p = (Inr (Some sn), p') \<and> sn_access_token sn = access
    \<and> gu_github_user_id (sn_user sn) = s_github_user_id s
    \<and> s' \<in> set (db_auth_sessions (pp_db p')) \<and> s_session_hash s' = s_session_hash s
    \<and> fl_decrypt (au_fernet A) (hd (au_keys A)) (s_encrypted_access_token s') = Some plain
    \<and> (\<exists>g \<in> set (db_github_users (pp_db p)). g_github_user_id g = s_github_user_id s
         \<and> gu_login (sn_user sn) = g_login g \<and> gu_avatar_url (sn_user sn) = g_avatar_url g)"
proof -
  let ?F = "au_fernet A" let ?h = "s_session_hash s" let ?k1 = "hd (au_keys A)"
  let ?tok = "fl_encrypt ?F k n plain" let ?p = "p\<lparr>pp_nows := pp_nows p + 1 + 1\<rparr>"
  have asc: "is_ascii (fl_encrypt ?F k' n' m)" for k' n' m using assms(1) by (simp add: fernet_laws_def)
  have e: "utf8_encode (s_encrypted_access_token s) = Inr ?tok" using ascii_utf8(1)[OF asc] k(2) by simp
  note S = session_of_row[OF assms(2-7) e k(3)]
  show ?thesis
  proof (cases "fl_decrypt ?F ?k1 ?tok")
    case (Some m)
    moreover have "fl_decrypt ?F ?k1 ?tok \<in> {None, Some plain}" using assms(1) unfolding fernet_laws_def by blast
    ultimately have m: "fl_decrypt ?F ?k1 ?tok = Some plain" by simp
    then have "open_token A ?h ?tok ?p = (Inr (Some plain), ?p)" by (simp add: open_token_def)
    from S[OF this] assms(3) m k(2) show ?thesis by force
  next
    case None
    let ?new = "fl_encrypt ?F ?k1 (pp_uuids p) plain"
    have "open_token A ?h ?tok ?p = (Inr (Some plain), ?p\<lparr>pp_uuids := pp_uuids p + 1, pp_nows := pp_nows p + 3,
        pp_db := update_auth_session_token ?h ?new (pp_db p)\<rparr>)" (is "_ = (_, ?p')")
      using None multi_decrypt_sealed[OF assms(1) k(1)]
      by (simp add: open_token_def bindS_def session_effects ascii_utf8(2)[OF asc])
    from S[OF this] obtain sn where sn: "authenticate A (Some t) p = (Inr (Some sn), ?p')" "sn_access_token sn = access"
      "gu_github_user_id (sn_user sn) = s_github_user_id s" "\<exists>g \<in> set (db_github_users (pp_db p)). g_github_user_id g = s_github_user_id s
         \<and> gu_login (sn_user sn) = g_login g \<and> gu_avatar_url (sn_user sn) = g_avatar_url g" by blast
    moreover have "s\<lparr>s_encrypted_access_token := ?new\<rparr> \<in> set (db_auth_sessions (pp_db ?p'))"
      using assms(3) by (auto simp: update_auth_session_token_def intro!: rev_image_eqI[of s])
    moreover have "fl_decrypt ?F ?k1 ?new = Some plain" using assms(1) by (simp add: fernet_laws_def)
    ultimately show ?thesis by (intro exI[of _ sn] exI[of _ ?p'] exI[of _ "s\<lparr>s_encrypted_access_token := ?new\<rparr>"]) simp
  qed
qed

text \<open>C38: changing the encryption keys keeps the sessions: a stored session that has not expired, sealed under
  any key of the ring, authenticates with its access token, and afterwards its token is sealed under
  the first key, so that the old key can then be taken out of the ring.\<close>

theorem rotation_keeps_session:
  assumes "fernet_laws (au_fernet A)" "keyed s_session_hash (db_auth_sessions (pp_db p))" "s \<in> set (db_auth_sessions (pp_db p))"
    and "known_user (s_github_user_id s) (pp_db p)" "pp_now p (pp_nows p + 1) < s_expires_at s"
    and "t \<noteq> []" "hash_token t = Inr (s_session_hash s)"
    and k: "k \<in> set (au_keys A)" "s_encrypted_access_token s = fl_encrypt (au_fernet A) k n plain" "utf8_decode plain = Inr access"
  shows "\<exists>sn p' s'. authenticate A (Some t) p = (Inr (Some sn), p') \<and> sn_access_token sn = access
    \<and> gu_github_user_id (sn_user sn) = s_github_user_id s
    \<and> s' \<in> set (db_auth_sessions (pp_db p')) \<and> s_session_hash s' = s_session_hash s
    \<and> fl_decrypt (au_fernet A) (hd (au_keys A)) (s_encrypted_access_token s') = Some plain"
  using rotated_session[OF assms] by blast

section \<open>Logging in\<close>

lemma run_on_store_unit:
  "on_store_unit f p = (Inr x, p') \<longleftrightarrow> (\<exists>d. f (pp_now p (pp_nows p)) (pp_db p) = Inr d \<and> p' = p\<lparr>pp_nows := pp_nows p + 1, pp_db := d\<rparr>)"
  by (auto simp: on_store_unit_def on_store_def bindE_def split: sum.splits)

lemma on_web_db: "on_web m p = (r, p') \<Longrightarrow> pp_db p' = pp_db p"
  by (auto simp: on_web_def split: prod.splits)

lemma token_db: "token_urlsafe p = (r, p') \<Longrightarrow> pp_db p' = pp_db p" "utc_now p = (r2, p') \<Longrightarrow> pp_db p' = pp_db p"
  "fresh_salt p = (r3, p') \<Longrightarrow> pp_db p' = pp_db p"
  by (auto simp: token_urlsafe_def fresh_uuid_def utc_now_def fresh_salt_def)

lemma create_session_run:
  assumes "create_session A payload access usr p = (Inr token, p')" "fernet_laws (au_fernet A)" "au_keys A \<noteq> []"
  shows "\<exists>s n plain t. db_auth_sessions (pp_db p') = db_auth_sessions (pp_db p) @ [s]
    \<and> db_github_users (pp_db p') = db_github_users (pp_db p)
    \<and> s_session_hash s \<notin> s_session_hash ` set (db_auth_sessions (pp_db p))
    \<and> hash_token token = Inr (s_session_hash s) \<and> s_github_user_id s = gu_github_user_id usr
    \<and> access = JStr t \<and> utf8_encode t = Inr plain
    \<and> s_encrypted_access_token s = fl_encrypt (au_fernet A) (hd (au_keys A)) n plain"
proof -
  have m: "fl_multi_encrypt (au_fernet A) (au_keys A) n m = fl_encrypt (au_fernet A) (hd (au_keys A)) n m" for n m
    using assms(2,3) by (cases "au_keys A") (simp_all add: fernet_laws_def)
  have asc: "utf8_decode (fl_encrypt (au_fernet A) k n m) = Inr (fl_encrypt (au_fernet A) k n m)" for k n m
    using assms(2) by (intro ascii_utf8(2)) (simp add: fernet_laws_def)
  have e: "j_str_method x access = Inr t \<longleftrightarrow> access = JStr t" for x t by (cases access) (auto simp: j_str_method_def)
  from assms(1) show ?thesis
    by (auto simp: create_session_def bindS_run run_on_store_unit m asc bindE_eq_Inr e create_auth_session_def
        split: if_splits dest!: token_db)
qed

lemma upsert_user_rows:
  assumes "g \<in> set (db_github_users (upsert_github_user now usr d))" "g_github_user_id g = gu_github_user_id usr"
  shows "g_login g = gu_login usr \<and> g_avatar_url g = gu_avatar_url usr"
  using assms by (auto simp: upsert_github_user_def sql_select_def filter_empty_conv split: if_splits)

lemma upsert_known: "known_user (gu_github_user_id usr) (upsert_github_user now usr d)"
  by (auto simp: upsert_github_user_def known_user_def sql_select_def filter_empty_conv intro: rev_image_eqI)

text \<open>The access token GitHub gives for the code of a login.\<close>

definition issued_token :: "auth_service \<Rightarrow> pystr \<Rightarrow> web \<Rightarrow> pystr \<Rightarrow> bool" where
  "issued_token A code w access \<longleftrightarrow> (\<exists>client_id client_secret payload. require_oauth_configuration A = Inr (client_id, client_secret)
     \<and> fst (exchange_user_code (au_github A) client_id client_secret code (callback_url A) w) = Inr payload
     \<and> j_item ''access_token'' payload = Inr (JStr access))"

lemma login_run:
  assumes "complete_login A code p = (Inr (token, cu), p')" "fernet_laws (au_fernet A)" "au_keys A \<noteq> []"
  shows "\<exists>s n plain t. db_auth_sessions (pp_db p') = db_auth_sessions (pp_db p) @ [s]
    \<and> (\<exists>now. db_github_users (pp_db p') = db_github_users (upsert_github_user now (cu_user cu) (pp_db p)))
    \<and> s_session_hash s \<notin> s_session_hash ` set (db_auth_sessions (pp_db p))
    \<and> hash_token token = Inr (s_session_hash s) \<and> s_github_user_id s = gu_github_user_id (cu_user cu)
    \<and> utf8_encode t = Inr plain \<and> s_encrypted_access_token s = fl_encrypt (au_fernet A) (hd (au_keys A)) n plain
    \<and> issued_token A code (pp_web p) t"
proof -
  from assms(1) obtain client_id client_secret payload access raw usr pa p1 p2 p3 ins where
    o: "require_oauth_configuration A = Inr (client_id, client_secret)"
      "on_web (exchange_user_code (au_github A) client_id client_secret code (callback_url A)) p = (Inr payload, pa)"
      "j_item ''access_token'' payload = Inr access" "on_web (authenticated_user (au_github A) access) pa = (Inr raw, p1)"
    and r: "on_store_unit (\<lambda>now d. Inr (upsert_github_user now usr d)) p1 = (Inr (), p2)"
      "sync_installations A (gu_github_user_id usr) access p2 = (Inr ins, p3)"
      "create_session A payload access usr p3 = (Inr token, p')" "cu = \<lparr>cu_user = usr, cu_installations = ins\<rparr>"
    by (auto simp: complete_login_def bindS_run)
  have d: "pp_db p1 = pp_db p" using on_web_db[OF o(2)] on_web_db[OF o(4)] by simp
  have i: "issued_token A code (pp_web p) t" if "access = JStr t" for t
    using o(1-3) that by (auto simp: issued_token_def on_web_def split: prod.splits)
  from r(2) have "db_auth_sessions (pp_db p3) = db_auth_sessions (pp_db p2)" "db_github_users (pp_db p3) = db_github_users (pp_db p2)"
    by (auto simp: sync_installations_def bindS_run run_on_store_unit replace_user_installations_def Let_def
        split: if_splits dest!: on_web_db)
  moreover from r(1) obtain now where p2: "pp_db p2 = upsert_github_user now usr (pp_db p)"
    by (auto simp: run_on_store_unit d)
  moreover have "db_auth_sessions (upsert_github_user now usr d) = db_auth_sessions d" for now d
    by (simp add: upsert_github_user_def)
  moreover obtain s n plain t where "db_auth_sessions (pp_db p') = db_auth_sessions (pp_db p3) @ [s]"
    "db_github_users (pp_db p') = db_github_users (pp_db p3)"
    "s_session_hash s \<notin> s_session_hash ` set (db_auth_sessions (pp_db p3))" "hash_token token = Inr (s_session_hash s)"
    "s_github_user_id s = gu_github_user_id usr" "access = JStr t" "utf8_encode t = Inr plain"
    "s_encrypted_access_token s = fl_encrypt (au_fernet A) (hd (au_keys A)) n plain"
    using create_session_run[OF r(3) assms(2,3)] by blast
  ultimately show ?thesis using r(4) i
    by (intro exI[of _ s] exI[of _ n] exI[of _ plain] exI[of _ t] conjI exI[of _ now]) simp_all
qed

text \<open>C39: after a completed login, the session token it returns authenticates the same user, with the access token
  GitHub issued, at every time before the stored expiry, in any service whose ring still holds the key
  that was first at login.\<close>

theorem login_opens_session:
  assumes "complete_login A code p = (Inr (token, cu), p')" "fernet_laws (au_fernet A)" "au_keys A \<noteq> []"
    and "keyed s_session_hash (db_auth_sessions (pp_db p))" "token \<noteq> []"
    and "au_fernet B = au_fernet A" "hd (au_keys A) \<in> set (au_keys B)"
  shows "\<exists>s access. s \<in> set (db_auth_sessions (pp_db p')) \<and> issued_token A code (pp_web p) access
    \<and> (\<forall>q. pp_db q = pp_db p' \<longrightarrow> pp_now q (pp_nows q + 1) < s_expires_at s \<longrightarrow>
         (\<exists>sn q'. authenticate B (Some token) q = (Inr (Some sn), q') \<and> sn_user sn = cu_user cu \<and> sn_access_token sn = access))"
proof -
  from login_run[OF assms(1-3)] obtain s n plain t now where
    L: "db_auth_sessions (pp_db p') = db_auth_sessions (pp_db p) @ [s]"
      "db_github_users (pp_db p') = db_github_users (upsert_github_user now (cu_user cu) (pp_db p))"
      "s_session_hash s \<notin> s_session_hash ` set (db_auth_sessions (pp_db p))" "hash_token token = Inr (s_session_hash s)"
      "s_github_user_id s = gu_github_user_id (cu_user cu)" "utf8_encode t = Inr plain"
      "s_encrypted_access_token s = fl_encrypt (au_fernet A) (hd (au_keys A)) n plain" "issued_token A code (pp_web p) t" by blast
  have keyed: "keyed s_session_hash (db_auth_sessions (pp_db p'))" using assms(4) L(1,3) by (simp add: keyed_append_new)
  have known: "known_user (s_github_user_id s) (pp_db p')"
    using upsert_known[of "cu_user cu" now "pp_db p"] L(2,5) by (simp add: known_user_def)
  have "\<exists>sn q'. authenticate B (Some token) q = (Inr (Some sn), q') \<and> sn_user sn = cu_user cu \<and> sn_access_token sn = t"
    if q: "pp_db q = pp_db p'" "pp_now q (pp_nows q + 1) < s_expires_at s" for q
  proof -
    have "fernet_laws (au_fernet B)" using assms(2,6) by simp
    from rotated_session[OF this, of q s token "hd (au_keys A)" n plain t] keyed known L q assms(5-7) utf8_decode_encode[OF L(6)]
    obtain sn q' where "authenticate B (Some token) q = (Inr (Some sn), q')" "sn_access_token sn = t"
      "gu_github_user_id (sn_user sn) = s_github_user_id s"
      "\<exists>g \<in> set (db_github_users (pp_db p')). g_github_user_id g = s_github_user_id s
         \<and> gu_login (sn_user sn) = g_login g \<and> gu_avatar_url (sn_user sn) = g_avatar_url g" by auto
    moreover from this(3,4) upsert_user_rows have "sn_user sn = cu_user cu" using L(2,5) by fastforce
    ultimately show ?thesis by blast
  qed
  with L(1,8) show ?thesis by (intro exI[of _ s] exI[of _ t]) simp
qed

section \<open>An instance\<close>

text \<open>A cipher with the laws: the token is the key, a mark and the message, with every byte in unary.\<close>

definition unary :: "nat list \<Rightarrow> nat list" where
  "unary bs = concat (map (\<lambda>b. replicate b 1 @ [0]) bs)"

fun from_unary :: "nat \<Rightarrow> nat list \<Rightarrow> nat list" where
  "from_unary n [] = []"
| "from_unary n (c # cs) = (if c = 0 then n # from_unary 0 cs else from_unary (n + 1) cs)"

definition plain_decrypt :: "nat list \<Rightarrow> nat list \<Rightarrow> nat list option" where
  "plain_decrypt k t = (if prefix (unary k @ [2]) t then Some (from_unary 0 (drop (length (unary k @ [2])) t)) else None)"

definition plain_fernet :: fernet_lib where
  "plain_fernet = \<lparr>fl_check = (\<lambda>_. Inr ()), fl_encrypt = (\<lambda>k n m. unary k @ [2] @ unary m), fl_decrypt = plain_decrypt,
     fl_multi_encrypt = (\<lambda>ks n m. unary (hd ks) @ [2] @ unary m),
     fl_multi_decrypt = (\<lambda>ks t. first_some (map (\<lambda>k. plain_decrypt k t) ks))\<rparr>"

lemma from_unary_unary: "from_unary 0 (unary m) = m"
proof (induction m)
  case (Cons b m)
  have "from_unary n (replicate k 1 @ 0 # cs) = (n + k) # from_unary 0 cs" for n k cs
    by (induction k arbitrary: n) auto
  from this[of 0 b "unary m"] Cons show ?case by (simp add: unary_def)
qed (simp add: unary_def)

lemma set_unary: "set (unary m) \<subseteq> {0, 1}"
  by (induction m) (auto simp: unary_def)

lemma unary_mark: "unary k @ 2 # x = unary k' @ 2 # y \<longleftrightarrow> unary k = unary k' \<and> x = y"
proof -
  have "takeWhile (\<lambda>c. c \<noteq> 2) (unary k @ 2 # x) = unary k" "dropWhile (\<lambda>c. c \<noteq> 2) (unary k @ 2 # x) = 2 # x" for k x
    using set_unary[of k] by (auto simp: takeWhile_append dropWhile_append)
  then show ?thesis by (metis list.inject)
qed

lemma plain_fernet_laws: "fernet_laws plain_fernet"
proof -
  have "plain_decrypt k (unary k @ 2 # unary m) = Some m" for k m by (simp add: plain_decrypt_def from_unary_unary)
  moreover have "plain_decrypt k' (unary k @ 2 # unary m) \<in> {None, Some m}" for k k' m
    by (auto simp: plain_decrypt_def prefix_def from_unary_unary unary_mark)
  moreover have "is_ascii (unary k @ 2 # unary m)" for k m
    using set_unary[of k] set_unary[of m] by (auto simp: is_ascii_def list_all_iff)
  ultimately show ?thesis by (simp add: fernet_laws_def plain_fernet_def)
qed

definition sample_auth :: auth_service where
  "sample_auth = \<lparr>au_settings = default_settings, au_github = GitHub_Props.sample_client, au_fernet = plain_fernet,
     au_keys = [u ''new'', u ''old'']\<rparr>"

definition sample_session :: auth_session_row where
  "sample_session = \<lparr>s_session_hash = hexdigest (sha256 (u ''t'')), s_github_user_id = 7,
     s_encrypted_access_token = fl_encrypt plain_fernet (u ''old'') 0 (u ''gho''), s_expires_at = 100, s_created_at = 0\<rparr>"

definition sample_auth_pipe :: pipe where
  "sample_auth_pipe = \<lparr>pp_db = (initialize Sqlite)\<lparr>db_auth_sessions := [sample_session],
       db_github_users := [\<lparr>g_github_user_id = 7, g_login = u ''me'', g_avatar_url = None, g_created_at = 0, g_updated_at = 0\<rparr>]\<rparr>,
     pp_web = constant_web (Inl (OtherError (u ''no network''))), pp_now = int,
     pp_nows = 0, pp_perf = (\<lambda>_. 0), pp_perfs = 0, pp_uuid = (\<lambda>_. u ''id''), pp_uuids = 0\<rparr>"

lemma u_ascii [simp]: "is_ascii (u ''t'')" "is_ascii (u ''gho'')"
  by (simp_all add: is_ascii_def u_def)

lemma sample_session_ok:
  "fernet_laws (au_fernet sample_auth)" "keyed s_session_hash (db_auth_sessions (pp_db sample_auth_pipe))"
  "sample_session \<in> set (db_auth_sessions (pp_db sample_auth_pipe))"
  "known_user (s_github_user_id sample_session) (pp_db sample_auth_pipe)"
  "pp_now sample_auth_pipe (pp_nows sample_auth_pipe + 1) < s_expires_at sample_session"
  "u ''t'' \<noteq> []" "hash_token (u ''t'') = Inr (s_session_hash sample_session)" "u ''old'' \<in> set (au_keys sample_auth)"
  "s_encrypted_access_token sample_session = fl_encrypt (au_fernet sample_auth) (u ''old'') 0 (u ''gho'')"
  "utf8_decode (u ''gho'') = Inr (u ''gho'')"
  by (simp_all add: sample_auth_def sample_auth_pipe_def sample_session_def plain_fernet_laws known_user_def ascii_utf8
      hash_token_def keyed_def)

theorem rotation_keeps_session_witness:
  "\<exists>sn p' s'. authenticate sample_auth (Some (u ''t'')) sample_auth_pipe = (Inr (Some sn), p') \<and> sn_access_token sn = u ''gho''
    \<and> gu_github_user_id (sn_user sn) = s_github_user_id sample_session
    \<and> s' \<in> set (db_auth_sessions (pp_db p')) \<and> s_session_hash s' = s_session_hash sample_session
    \<and> fl_decrypt (au_fernet sample_auth) (hd (au_keys sample_auth)) (s_encrypted_access_token s') = Some (u ''gho'')"
  by (rule rotation_keeps_session[OF sample_session_ok])

text \<open>A login against a server that answers every request with the same object.\<close>

definition sample_answer :: json where
  "sample_answer = JObj [(u ''access_token'', JStr (u ''gho'')), (u ''id'', JInt 7), (u ''login'', JStr (u ''me'')),
     (u ''installations'', JArr [])]"

definition login_auth :: auth_service where
  "login_auth = sample_auth\<lparr>au_settings := default_settings\<lparr>st_github_client_id := Some (u ''c''), st_github_client_secret := Some (u ''s'')\<rparr>\<rparr>"

definition login_pipe :: pipe where
  "login_pipe = sample_auth_pipe\<lparr>pp_db := initialize Sqlite, pp_web := constant_web (Inr (json_response 200 sample_answer))\<rparr>"

lemma constant_fetch:
  assumes "wb_server w = (\<lambda>_ _. Inr (json_response 200 v))"
  shows "\<exists>w'. fetch_json GitHub_Props.sample_client rq w = (Inr v, w') \<and> wb_server w' = (\<lambda>_ _. Inr (json_response 200 v))"
proof -
  have "\<exists>w'. retry_attempts K flag q (1 # rest) w = (Inr (json_response 200 v), w') \<and> wb_server w' = wb_server w" for K flag q rest
    using assms by (simp add: Let_def tryElseS_def send_def retry_reason_def json_response_def TRANSIENT_STATUS_CODES_def bindS_def
        is_rate_limited_def)
  moreover have "map int [1..<nat (rp_max_attempts (hc_policy (gh_http GitHub_Props.sample_client))) + 1] = [1, 2, 3]"
    by (simp add: GitHub_Props.sample_client_def github_client_new_def default_policy_def upt_rec)
  ultimately obtain w' where "gh_request GitHub_Props.sample_client rq w = (Inr (json_response 200 v), w')" "wb_server w' = wb_server w"
    unfolding gh_request_def request_with_retry_def by metis
  then show ?thesis using assms
    by (simp add: fetch_json_def fetch_def bindS_def raise_for_status_def json_response_def)
qed

lemma constant_fetch_bind:
  assumes "wb_server w = (\<lambda>_ _. Inr (json_response 200 v))"
    and "\<And>w'. wb_server w' = (\<lambda>_ _. Inr (json_response 200 v)) \<Longrightarrow> f v w' = (Inr b, w')"
  shows "\<exists>w'. bindS (fetch_json GitHub_Props.sample_client rq) f w = (Inr b, w') \<and> wb_server w' = (\<lambda>_ _. Inr (json_response 200 v))"
  using constant_fetch[OF assms(1), of rq] assms(2) by (auto simp: bindS_def)

lemma sample_sync:
  assumes "wb_server (pp_web p) = (\<lambda>_ _. Inr (json_response 200 sample_answer))" "db_backend (pp_db p) = Sqlite"
  shows "\<exists>p'. sync_installations login_auth uid a p = (Inr [], p') \<and> db_auth_sessions (pp_db p') = db_auth_sessions (pp_db p)
    \<and> db_backend (pp_db p') = Sqlite \<and> pp_now p' = pp_now p \<and> pp_uuid p' = pp_uuid p
    \<and> pp_nows p' = pp_nows p + 1"
proof -
  let ?rq = "plain_request ''GET'' (api_url @ u ''/user/installations'') (gh_headers GitHub_Props.sample_client a) (page_params 1)"
  obtain w' where w: "fetch_json GitHub_Props.sample_client ?rq (pp_web p) = (Inr sample_answer, w')"
    using constant_fetch[OF assms(1)] by blast
  obtain n where n: "gh_fuel GitHub_Props.sample_client = Suc n"
    by (simp add: GitHub_Props.sample_client_def github_client_new_def)
  have "user_installations GitHub_Props.sample_client a (pp_web p) = (Inr [], w')"
    using w n by (simp add: user_installations_def bindS_def sample_answer_def dict_get_def j_iter_def)
  then show ?thesis using assms(2)
    by (simp add: sync_installations_def bindS_def on_web_def login_auth_def sample_auth_def on_store_unit_def on_store_def
        replace_user_installations_def)
qed

lemma sample_create:
  assumes "db_auth_sessions (pp_db p) = []" "db_backend (pp_db p) = Sqlite" "pp_now p = int" "pp_uuid p = (\<lambda>_. u ''id'')"
    "pp_nows p < 100"
  shows "\<exists>p'. create_session login_auth sample_answer (JStr (u ''gho'')) usr p = (Inr (u ''id''), p')"
proof -
  have a: "is_ascii (u ''id'')" by (simp add: is_ascii_def u_def)
  have ttl: "session_ttl U (au_settings login_auth) sample_answer = Inr (7 * day_micros)" for U
    by (simp add: session_ttl_def login_auth_def default_settings_def timedelta_def sample_answer_def dict_get_def day_micros_def)
  have "(int (pp_nows p) + 7 * day_micros) div day_micros = 7"
    using assms(5) by (simp add: day_micros_def)
  then have t: "add_time (int (pp_nows p)) (7 * day_micros) = Inr (int (pp_nows p) + 7 * day_micros)"
    by (simp add: add_time_def datetime_range_def EPOCH_ORDINAL_def MAXORDINAL_def)
  have F: "au_fernet login_auth = plain_fernet" "au_keys login_auth = [u ''new'', u ''old'']"
    by (simp_all add: login_auth_def sample_auth_def)
  have e: "fl_multi_encrypt plain_fernet [u ''new'', u ''old''] n m = fl_encrypt plain_fernet (u ''new'') n m"
    "is_ascii (fl_encrypt plain_fernet (u ''new'') n m)" for n m
    using plain_fernet_laws by (simp_all add: fernet_laws_def)
  show ?thesis unfolding create_session_def F
    using assms ttl t a by (simp add: bindS_def token_urlsafe_def fresh_uuid_def utc_now_def fresh_salt_def hash_token_def ascii_utf8
        j_str_method_def e on_store_unit_def on_store_def create_auth_session_def fk_enforced_def)
qed

lemma sample_login:
  "\<exists>p'. complete_login login_auth (u ''code'') login_pipe = (Inr (u ''id'', \<lparr>cu_user = \<lparr>gu_github_user_id = 7, gu_login = u ''me'',
      gu_avatar_url = None\<rparr>, cu_installations = []\<rparr>), p')"
proof -
  let ?srv = "\<lambda>_ _. Inr (json_response 200 sample_answer)" let ?C = "GitHub_Props.sample_client"
  have C: "au_github login_auth = ?C" by (simp add: login_auth_def sample_auth_def)
  have conf: "require_oauth_configuration login_auth = Inr (u ''c'', u ''s'')"
    by (simp add: require_oauth_configuration_def login_auth_def)
  have srv: "wb_server (pp_web login_pipe) = ?srv" by (simp add: login_pipe_def constant_web_def)
  obtain w1 where w1: "exchange_user_code ?C (u ''c'') (u ''s'') (u ''code'') (callback_url login_auth) (pp_web login_pipe) = (Inr sample_answer, w1)"
    "wb_server w1 = ?srv"
    unfolding exchange_user_code_def
    using constant_fetch_bind[OF srv, of "\<lambda>payload. bindL (j_contains (u ''access_token'') payload)
         (\<lambda>present. if present then retS payload
            else bindL (j_get_or ''error'' (JStr (u ''missing access token'')) payload)
              (\<lambda>err. raiseS (GitHubConfigurationError (u ''GitHub OAuth exchange failed: '' @ gh_str ?C err))))" sample_answer]
    by (auto simp: j_contains_def sample_answer_def bindS_def)
  obtain w2 where w2: "authenticated_user ?C (JStr (u ''gho'')) w1 = (Inr sample_answer, w2)" "wb_server w2 = ?srv"
    using constant_fetch[OF w1(2)] unfolding authenticated_user_def by blast
  let ?usr = "\<lparr>gu_github_user_id = 7, gu_login = u ''me'', gu_avatar_url = None\<rparr>"
  have usr: "read_user ?C sample_answer = Inr ?usr"
    by (simp add: read_user_def sample_answer_def j_item_def dict_get_def field_int_def field_str_def field_str_opt_def
        GitHub_Props.sample_client_def github_client_new_def)
  define p2 where "p2 = login_pipe\<lparr>pp_web := w2, pp_nows := 1, pp_db := upsert_github_user 0 ?usr (initialize Sqlite)\<rparr>"
  have up: "on_store_unit (\<lambda>now d. Inr (upsert_github_user now ?usr d)) (login_pipe\<lparr>pp_web := w2\<rparr>) = (Inr (), p2)"
    by (simp add: on_store_unit_def on_store_def p2_def login_pipe_def sample_auth_pipe_def)
  have d2: "db_backend (pp_db p2) = Sqlite" "db_auth_sessions (pp_db p2) = []" "wb_server (pp_web p2) = ?srv"
    using w2(2) by (simp_all add: p2_def upsert_github_user_def initialize_def)
  obtain p3 where p3: "sync_installations login_auth 7 (JStr (u ''gho'')) p2 = (Inr [], p3)" "db_auth_sessions (pp_db p3) = []"
    "db_backend (pp_db p3) = Sqlite" "pp_now p3 = int" "pp_uuid p3 = (\<lambda>_. u ''id'')" "pp_nows p3 = 2"
    using sample_sync[OF d2(3,1), of 7 "JStr (u ''gho'')"] d2(2) by (auto simp: p2_def login_pipe_def sample_auth_pipe_def)
  obtain p4 where p4: "create_session login_auth sample_answer (JStr (u ''gho'')) ?usr p3 = (Inr (u ''id''), p4)"
    using sample_create[OF p3(2-5)] p3(6) by auto
  have item: "j_item ''access_token'' sample_answer = Inr (JStr (u ''gho''))" by (simp add: sample_answer_def j_item_def)
  show ?thesis unfolding complete_login_def C
    using conf w1(1) w2(1) usr up p3(1) p4 item by (simp add: bindS_def on_web_def)
qed

text \<open>The login holds its session at every time before the expiry.\<close>

theorem login_opens_session_witness:
  "\<exists>p' s access sn q'. s \<in> set (db_auth_sessions (pp_db p')) \<and> issued_token login_auth (u ''code'') (pp_web login_pipe) access
     \<and> authenticate login_auth (Some (u ''id'')) (p'\<lparr>pp_now := (\<lambda>_. s_expires_at s - 1)\<rparr>) = (Inr (Some sn), q')
     \<and> gu_login (sn_user sn) = u ''me'' \<and> sn_access_token sn = access"
proof -
  obtain p' cu where l: "complete_login login_auth (u ''code'') login_pipe = (Inr (u ''id'', cu), p')" "gu_login (cu_user cu) = u ''me''"
    using sample_login by auto
  have "fernet_laws (au_fernet login_auth)" "au_keys login_auth \<noteq> []" "keyed s_session_hash (db_auth_sessions (pp_db login_pipe))"
    "u ''id'' \<noteq> []" "hd (au_keys login_auth) \<in> set (au_keys login_auth)"
    by (simp_all add: login_auth_def sample_auth_def plain_fernet_laws login_pipe_def initialize_def)
  from login_opens_session[OF l(1) this(1-4) refl this(5)] obtain s access where
    s: "s \<in> set (db_auth_sessions (pp_db p'))" "issued_token login_auth (u ''code'') (pp_web login_pipe) access"
      "\<And>q. pp_db q = pp_db p' \<Longrightarrow> pp_now q (pp_nows q + 1) < s_expires_at s \<Longrightarrow>
         \<exists>sn q'. authenticate login_auth (Some (u ''id'')) q = (Inr (Some sn), q') \<and> sn_user sn = cu_user cu \<and> sn_access_token sn = access"
    by blast
  from s(3)[of "p'\<lparr>pp_now := (\<lambda>_. s_expires_at s - 1)\<rparr>"] s(1,2) l(2) show ?thesis by force
qed

end
