(* ===== verification/Store_Queries.thy ===== *)
theory Store_Queries
  imports Store_Props
begin

text \<open>
  The queries of the store: round trips of lookups, pagination, access control, the linking of
  follow-up runs, the timing of attempts, and the requests that a restart puts back on the queue.
\<close>

section \<open>Pagination\<close>

text \<open>The rows a listing is about, newest first, and the record each is shown as.\<close>

definition listed_rows :: "int set option \<Rightarrow> list_filter \<Rightarrow> db \<Rightarrow> analysis_row list" where
  "listed_rows ids lf d = order_desc page_key (sql_select (filter_matches ids lf) (db_analyses d))"

definition shown :: "db \<Rightarrow> analysis_row \<Rightarrow> AnalysisRecord" where
  "shown d r = to_record d r (stage_history d [a_run_id r] (a_run_id r))"

text \<open>A client that follows \<open>next_cursor\<close> until there is none, for at most \<open>n\<close> pages.\<close>

fun walk_pages ::
  "nat \<Rightarrow> nat \<Rightarrow> int set option \<Rightarrow> list_filter \<Rightarrow> AnalysisCursor option \<Rightarrow> db \<Rightarrow> AnalysisRecord list" where
  "walk_pages 0 limit ids lf c d = []"
| "walk_pages (Suc n) limit ids lf c d =
     (let p = list_page limit ids lf c d
      in page_records p @ (case next_cursor p of
            None \<Rightarrow> [] | Some c' \<Rightarrow> walk_pages n limit ids lf (Some c') d))"

lemma stage_history_single:
  "i \<in> set is \<Longrightarrow> stage_history d is i = stage_history d [i] i"
  by (auto simp: stage_history_def sql_select_def intro!: arg_cong[of _ _ "map event_of_row"]
      arg_cong[of _ _ "sort_key e_id"] filter_cong)

lemma order_desc_filter: "order_desc k (filter P rows) = filter P (order_desc k rows)"
  by (simp add: order_desc_def filter_sort flip: rev_filter)

lemma after_cursor_Some:
  "after_cursor (Some c) r \<longleftrightarrow> page_key r < (cursor_created_at c, cursor_run_id c)"
  by (auto simp: after_cursor_def page_key_def)

lemma sorted_listed:
  assumes "wf_db d"
  shows "sorted_wrt (\<lambda>a b. page_key b < page_key a) (listed_rows ids lf d)"
proof -
  have "keyed a_run_id (sql_select (filter_matches ids lf) (db_analyses d))"
    using assms by (simp add: wf_defs sql_select_def keyed_filter)
  then have "keyed page_key (sql_select (filter_matches ids lf) (db_analyses d))"
    by (rule keyed_finer) (simp add: page_key_def)
  then show ?thesis unfolding listed_rows_def by (rule sorted_order_desc_strict)
qed

text \<open>
  One page, given the listed rows that lie after its cursor: the first \<open>limit\<close> of them, and a
  cursor at the last one shown exactly when more follow.
\<close>

lemma list_page_rest:
  assumes rest: "filter (after_cursor c) (listed_rows ids lf d) = M" and limit: "0 < limit"
  shows "page_records (list_page limit ids lf c d) = map (shown d) (take limit M)"
    and "next_cursor (list_page limit ids lf c d) =
      (if limit < length M then Some \<lparr>cursor_created_at = a_created_at (M ! (limit - 1)),
         cursor_run_id = a_run_id (M ! (limit - 1))\<rparr> else None)"
proof -
  have none: "M = []" if "ids = Some {}"
    using rest that by (auto simp: listed_rows_def sql_select_def filter_matches_def
        installation_in_def filter_empty_conv split: option.splits)
  have sel: "order_desc page_key (sql_select (\<lambda>r. filter_matches ids lf r \<and> after_cursor c r)
      (db_analyses d)) = M"
    using rest by (simp add: listed_rows_def sql_select_def order_desc_filter conj_commute)
  have hist: "stage_history d (map a_run_id xs) (a_run_id r) = stage_history d [a_run_id r] (a_run_id r)"
    if "r \<in> set xs" for r xs
    using that by (intro stage_history_single) auto
  show "page_records (list_page limit ids lf c d) = map (shown d) (take limit M)"
    using none by (auto simp: list_page_def sel Let_def shown_def hist min_def take_take)
  show "next_cursor (list_page limit ids lf c d) =
      (if limit < length M then Some \<lparr>cursor_created_at = a_created_at (M ! (limit - 1)),
         cursor_run_id = a_run_id (M ! (limit - 1))\<rparr> else None)"
    using none limit by (auto simp: list_page_def sel Let_def last_conv_nth take_take min_def)
qed

lemma walk_pages_rest:
  assumes wf: "wf_db d" and limit: "0 < limit"
  shows "filter (after_cursor c) (listed_rows ids lf d) = M \<Longrightarrow> listed_rows ids lf d = pre @ M
    \<Longrightarrow> length M < n \<Longrightarrow> walk_pages n limit ids lf c d = map (shown d) M"
proof (induction n arbitrary: c M pre)
  case (Suc n)
  let ?c = "\<lparr>cursor_created_at = a_created_at (M ! (limit - 1)), cursor_run_id = a_run_id (M ! (limit - 1))\<rparr>"
  show ?case
  proof (cases "limit < length M")
    case True
    let ?k = "limit - 1"
    have M: "M = take ?k M @ M ! ?k # drop limit M"
      using True limit by (metis Suc_diff_1 id_take_nth_drop less_imp_diff_less)
    then have L: "listed_rows ids lf d = (pre @ take ?k M) @ M ! ?k # drop limit M"
      using Suc.prems(2) by simp
    have cursor: "after_cursor (Some ?c) = (\<lambda>r. page_key r < page_key (M ! ?k))"
      by (rule ext, subst after_cursor_Some) (simp add: page_key_def)
    have "filter (after_cursor (Some ?c)) (listed_rows ids lf d) = drop limit M"
      unfolding cursor L using sorted_listed[OF wf, of ids lf] unfolding L by (rule filter_below)
    moreover have "listed_rows ids lf d = (pre @ take limit M) @ drop limit M"
      using Suc.prems(2) by simp
    moreover have "length (drop limit M) < n" using True limit Suc.prems(3) by simp
    ultimately have "walk_pages n limit ids lf (Some ?c) d = map (shown d) (drop limit M)"
      by (rule Suc.IH)
    then show ?thesis
      using True list_page_rest[OF Suc.prems(1) limit]
      by (simp add: Let_def flip: map_append)
  next
    case False
    then show ?thesis using list_page_rest[OF Suc.prems(1) limit] by (simp add: Let_def)
  qed
qed simp

text \<open>C11: pagination is complete. Following \<open>next_cursor\<close> from the first page, with any
  positive limit, yields exactly the analyses that match the filter and the caller's
  installations, newest first, each once, none skipped at a page boundary.\<close>

theorem pagination_complete:
  assumes "wf_db d" and "0 < limit" and "length (db_analyses d) < n"
  shows "walk_pages n limit ids lf None d = map (shown d) (listed_rows ids lf d)"
proof -
  have "length (listed_rows ids lf d) < n"
    using le_less_trans[OF length_filter_le assms(3)] by (simp add: listed_rows_def sql_select_def)
  then show ?thesis
    using walk_pages_rest[OF assms(1,2), of None ids lf "listed_rows ids lf d" "[]" n]
    by (simp add: after_cursor_def)
qed

definition any_filter :: list_filter where
  "any_filter = \<lparr>lf_repository = None, lf_status = None, lf_category = None\<rparr>"

theorem pagination_complete_witness:
  "walk_pages 2 1 (Some {9}) any_filter None (sample_db Sqlite)
     = map (shown (sample_db Sqlite)) (listed_rows (Some {9}) any_filter (sample_db Sqlite))"
  by (rule pagination_complete) (simp_all add: wf_sample_db sample_db_rows)

section \<open>Access control\<close>

text \<open>Installation access control of single lookups. A lookup restricted to a set of
  installations returns what the unrestricted lookup returns when that record belongs to one of
  them, and nothing otherwise; an empty set sees nothing.\<close>

lemma store_get_access:
  assumes "wf_db d"
  shows "store_get i (Some S) d =
    (case store_get i None d of
       None \<Rightarrow> None
     | Some r \<Rightarrow> (if \<exists>k. ar_installation_id r = Some k \<and> k \<in> S then Some r else None))"
proof -
  have keyed: "keyed a_run_id (db_analyses d)" using assms by (simp add: wf_defs)
  show ?thesis
  proof (cases "first_row (filter (\<lambda>r. a_run_id r = i) (db_analyses d))")
    case None
    then have "\<forall>r \<in> set (db_analyses d). a_run_id r \<noteq> i" by (simp add: filter_empty_conv)
    then show ?thesis
      by (auto simp: store_get_def sql_select_def installation_in_def filter_empty_conv
          split: option.splits)
  next
    case (Some r)
    then have r: "r \<in> set (db_analyses d)" "a_run_id r = i"
      using keyed_find_iff[OF keyed] by auto
    have "filter (\<lambda>x. a_run_id x = i \<and> installation_in (Some S) x) (db_analyses d)
        = filter (installation_in (Some S)) (filter (\<lambda>x. a_run_id x = i) (db_analyses d))"
      by (simp add: conj_commute)
    also have "\<dots> = filter (installation_in (Some S)) [r]"
      using keyed_filter_single[OF keyed r(1)] r(2) by simp
    finally show ?thesis
      using Some by (auto simp: store_get_def sql_select_def installation_in_def to_record_def
          split: option.splits)
  qed
qed


text \<open>Every page of a restricted listing shows only analyses of the caller's
  installations, whatever the filter, the limit and the cursor.\<close>

lemma list_page_access:
  "list_all (\<lambda>r. \<exists>k. ar_installation_id r = Some k \<and> k \<in> S)
     (page_records (list_page limit (Some S) lf c d))"
proof -
  have "installation_in (Some S) r"
    if "r \<in> set (take n (take m (order_desc page_key
          (sql_select (\<lambda>r. filter_matches (Some S) lf r \<and> after_cursor c r) (db_analyses d)))))"
    for r n m
    using that by (auto simp: sql_select_def filter_matches_def dest!: in_set_takeD)
  moreover have "\<exists>k. ar_installation_id (to_record d r h) = Some k \<and> k \<in> S"
    if "installation_in (Some S) r" for r h
    using that by (simp add: installation_in_def to_record_def split: option.splits)
  ultimately show ?thesis
    unfolding list_page_def Let_def list_all_iff by (auto simp del: take_take)
qed

section \<open>Creating an analysis\<close>



section \<open>Follow-up runs\<close>

lemma followup_candidate_Some:
  assumes "followup_candidate q d = Some c"
  shows "c \<in> set (db_analyses d)" "a_repository c = fu_repository q"
    "a_workflow_name c = fu_workflow_name q" "unresolved_or_same_run_retry q c"
    "target_match q c" "prior_run q c"
  using first_row_in[OF assms[unfolded followup_candidate_def]] by (auto simp: sql_select_def)

lemma followup_update_one:
  assumes "wf_db d" "followup_candidate q d = Some c"
  shows "filter (\<lambda>r. a_run_id r = a_run_id c \<and> unresolved_or_same_run_retry q r) (db_analyses d) = [c]"
proof -
  have keyed: "keyed a_run_id (db_analyses d)" using assms(1) by (simp add: wf_defs)
  have "filter (\<lambda>r. a_run_id r = a_run_id c \<and> unresolved_or_same_run_retry q r) (db_analyses d)
      = filter (unresolved_or_same_run_retry q) (filter (\<lambda>r. a_run_id r = a_run_id c) (db_analyses d))"
    by (simp add: conj_commute)
  also have "\<dots> = [c]"
    using keyed_filter_single[OF keyed followup_candidate_Some(1)[OF assms(2)]]
      followup_candidate_Some(4)[OF assms(2)] by simp
  finally show ?thesis .
qed

text \<open>The outcome of linking a follow-up run, on a database that satisfies its constraints.\<close>

lemma record_followup_run_eq:
  assumes "wf_db d"
  shows "record_followup_run now q d =
    (if fu_conclusion q \<notin> {u ''success'', u ''failure''}
        \<or> fu_head_branch q = None \<and> fu_pull_request_number q = None then (None, d)
     else case followup_candidate q d of
       None \<Rightarrow> (None, d)
     | Some c \<Rightarrow> (Some \<lparr>failed_run_id = a_run_id c, resolution = followup_resolution q d c\<rparr>,
         d\<lparr>db_analyses := map (\<lambda>r. if r = c then set_resolution now (followup_resolution q d c) r else r)
             (db_analyses d)\<rparr>))"
proof (cases "followup_candidate q d")
  case (Some c)
  have "map (\<lambda>r. if a_run_id r = a_run_id c \<and> unresolved_or_same_run_retry q r
             then set_resolution now (followup_resolution q d c) r else r) (db_analyses d)
      = map (\<lambda>r. if r = c then set_resolution now (followup_resolution q d c) r else r) (db_analyses d)"
  proof (rule map_cong[OF refl])
    fix r assume r: "r \<in> set (db_analyses d)"
    have "keyed a_run_id (db_analyses d)" using assms by (simp add: wf_defs)
    from keyed_unique[OF this r followup_candidate_Some(1)[OF Some]]
    have "(a_run_id r = a_run_id c \<and> unresolved_or_same_run_retry q r) \<longleftrightarrow> r = c"
      using followup_candidate_Some(4)[OF Some] by auto
    then show "(if a_run_id r = a_run_id c \<and> unresolved_or_same_run_retry q r
        then set_resolution now (followup_resolution q d c) r else r)
      = (if r = c then set_resolution now (followup_resolution q d c) r else r)"
      by simp
  qed
  then show ?thesis
    using followup_update_one[OF assms Some]
    by (simp add: record_followup_run_def Some sql_update_def Let_def)
qed (simp add: record_followup_run_def)


text \<open>C13: a follow-up run is linked to the right failure. When a completed run is linked,
  it is to an analysis of the same repository and workflow, of the same pull request or branch,
  that is earlier and still open; among all such analyses it is the one that completed last (the
  higher run id deciding ties); the outcome is \<open>resolved\<close> exactly for a successful run, the
  recovery time is never negative, and no other row of the table changes.\<close>

theorem followup_links_latest_failure:
  assumes "wf_db d" and "record_followup_run now q d = (Some m, d')"
  shows "\<exists>c. c \<in> set (db_analyses d) \<and> a_run_id c = failed_run_id m
    \<and> a_repository c = fu_repository q \<and> a_workflow_name c = fu_workflow_name q
    \<and> unresolved_or_same_run_retry q c \<and> target_match q c \<and> prior_run q c
    \<and> \<not> (\<exists>r. r \<in> set (db_analyses d) \<and> a_repository r = fu_repository q
          \<and> a_workflow_name r = fu_workflow_name q \<and> unresolved_or_same_run_retry q r
          \<and> target_match q r \<and> prior_run q r
          \<and> (completed_rank (db_backend d) (a_run_completed_at c), a_run_id c)
              < (completed_rank (db_backend d) (a_run_completed_at r), a_run_id r))
    \<and> (rs_outcome (resolution m) = RESOLVED \<longleftrightarrow> fu_conclusion q = u ''success'')
    \<and> 0 \<le> rs_recovery_seconds (resolution m)
    \<and> db_analyses d' = map (\<lambda>r. if r = c then set_resolution now (resolution m) r else r) (db_analyses d)"
proof -
  obtain c where c: "followup_candidate q d = Some c"
    and m: "m = \<lparr>failed_run_id = a_run_id c, resolution = followup_resolution q d c\<rparr>"
    and d': "db_analyses d' = map (\<lambda>r. if r = c then set_resolution now (followup_resolution q d c) r else r)
               (db_analyses d)"
    using assms by (auto simp: record_followup_run_eq split: if_splits option.splits)
  have max: "\<not> (completed_rank (db_backend d) (a_run_completed_at c), a_run_id c)
              < (completed_rank (db_backend d) (a_run_completed_at r), a_run_id r)"
    if "r \<in> set (db_analyses d)" "a_repository r = fu_repository q"
      "a_workflow_name r = fu_workflow_name q" "unresolved_or_same_run_retry q r"
      "target_match q r" "prior_run q r" for r
    using first_order_desc_max[OF c[unfolded followup_candidate_def], of r] that
    by (auto simp: sql_select_def)
  show ?thesis
    by (rule exI[of _ c])
      (use followup_candidate_Some[OF c] max d' m in
        \<open>auto simp: followup_resolution_def Let_def\<close>)
qed

definition sample_followup :: followup_run where
  "sample_followup = \<lparr>fu_repository = u ''o/r'', fu_workflow_name = u ''ci'',
     fu_head_branch = Some (u ''main''), fu_pull_request_number = None, fu_run_id = 2,
     fu_run_attempt = 1, fu_html_url = u ''http2'', fu_conclusion = u ''success'',
     fu_completed_at = Naive 90000000\<rparr>"

lemma sample_followup_matches:
  "\<exists>m d'. record_followup_run 5 sample_followup (sample_db Sqlite) = (Some m, d')"
  by (simp add: record_followup_run_def followup_candidate_def sql_select_def sql_update_def
      sample_db_rows sample_followup_def sample_record_def row_of_record_def order_desc_def
      unresolved_or_same_run_retry_def target_match_def prior_run_def Let_def)

theorem followup_links_latest_failure_witness:
  "\<exists>m d'. record_followup_run 5 sample_followup (sample_db Sqlite) = (Some m, d')
     \<and> rs_outcome (resolution m) = RESOLVED \<and> 0 \<le> rs_recovery_seconds (resolution m)"
proof -
  obtain m d' where m: "record_followup_run 5 sample_followup (sample_db Sqlite) = (Some m, d')"
    using sample_followup_matches by blast
  from followup_links_latest_failure[OF wf_sample_db m] m show ?thesis
    by (auto simp: sample_followup_def)
qed

text \<open>The resolution columns of a row, and that nothing but a deletion changes a resolved one.\<close>

definition resolution_part where
  "resolution_part r = (a_resolution_outcome r, a_resolution_run_id r, a_resolution_run_attempt r,
     a_resolution_html_url r, a_resolution_completed_at r, a_recovery_seconds r)"

definition has_resolution where
  "has_resolution i p d \<longleftrightarrow> (\<exists>r \<in> set (db_analyses d). a_run_id r = i \<and> resolution_part r = p)"

lemma row_updates_resolution_part [simp]:
  "resolution_part (apply_update now st v r) = resolution_part r"
  "resolution_part (begin_row t tok w r) = resolution_part r"
  "resolution_part (finish_row t st c l r) = resolution_part r"
  by (simp_all add: resolution_part_def apply_update_def begin_row_def finish_row_def)

lemma has_resolution_frame:
  "db_analyses d' = db_analyses d \<Longrightarrow> has_resolution i p d' = has_resolution i p d"
  by (simp add: has_resolution_def)

lemma has_resolution_pointwise:
  assumes "has_resolution i p d" "db_analyses d' = map f (db_analyses d)"
    and "\<And>r. r \<in> set (db_analyses d) \<Longrightarrow> a_run_id (f r) = a_run_id r"
    and "\<And>r. r \<in> set (db_analyses d) \<Longrightarrow> resolution_part r = p \<Longrightarrow> resolution_part (f r) = p"
  shows "has_resolution i p d'"
proof -
  obtain r where r: "r \<in> set (db_analyses d)" "a_run_id r = i" "resolution_part r = p"
    using assms(1) by (auto simp: has_resolution_def)
  then have "f r \<in> set (db_analyses d')" by (simp add: assms(2))
  moreover have "a_run_id (f r) = i" "resolution_part (f r) = p" using r assms(3,4) by simp_all
  ultimately show ?thesis unfolding has_resolution_def by blast
qed

lemma has_resolution_map:
  assumes "has_resolution i p d"
    and "\<And>r. a_run_id (f r) = a_run_id r" "\<And>r. resolution_part (f r) = resolution_part r"
  shows "has_resolution i p (d\<lparr>db_analyses := map (\<lambda>r. if c r then f r else r) (db_analyses d)\<rparr>)"
  by (rule has_resolution_pointwise[OF assms(1), where f = "\<lambda>r. if c r then f r else r"])
    (auto simp: assms)

lemma has_resolution_events [simp]:
  "has_resolution i p (d\<lparr>db_stage_events := e\<rparr>) = has_resolution i p d"
  by (rule has_resolution_frame) simp

lemma has_resolution_followup:
  assumes "wf_db d" "has_resolution i p d" "fst p = Some RESOLVED"
  shows "has_resolution i p (snd (record_followup_run now q d))"
proof (cases "db_analyses (snd (record_followup_run now q d)) = db_analyses d")
  case True
  with assms(2) show ?thesis by (simp add: has_resolution_frame[OF True])
next
  case False
  then obtain c where c: "followup_candidate q d = Some c"
    and rows: "db_analyses (snd (record_followup_run now q d)) =
      map (\<lambda>r. if r = c then set_resolution now (followup_resolution q d c) r else r) (db_analyses d)"
    using assms(1) by (auto simp: record_followup_run_eq split: if_splits option.splits)
  have "resolution_part c \<noteq> p"
    using followup_candidate_Some(4)[OF c] assms(3)
    by (auto simp: unresolved_or_same_run_retry_def resolution_part_def)
  then show ?thesis
    by (intro has_resolution_pointwise[OF assms(2) rows]) auto
qed

lemma has_resolution_step:
  assumes "wf_db d" "has_resolution i p d" "fst p = Some RESOLVED" "op \<noteq> OpDelete i"
  shows "has_resolution i p (exec_op op d)"
proof (cases op)
  case (OpCreate r)
  with assms show ?thesis by (auto simp: create_if_absent_def has_resolution_def)
next
  case (OpUpdate now j st v t)
  with assms show ?thesis
    by (auto simp: store_update_def Let_def sql_update_def require_current_attempt_def
        intro!: has_resolution_map)
next
  case (OpBegin now j t)
  with assms show ?thesis
    by (auto simp: begin_analysis_def Let_def sql_update_def require_current_attempt_def
        split: option.splits intro!: has_resolution_map)
next
  case (OpFinish now j s st t)
  with assms show ?thesis
    by (auto simp: finish_analysis_def Let_def sql_update_def require_current_attempt_def
        split: option.splits intro!: has_resolution_map)
next
  case (OpDelete j)
  with assms show ?thesis
    by (auto simp: store_delete_def Let_def sql_delete_def has_resolution_def)
qed (use assms has_resolution_followup in \<open>auto simp: has_resolution_frame[OF analyses_frame(1)]
      has_resolution_frame[OF analyses_frame(2)] has_resolution_frame[OF analyses_frame(3)]
      has_resolution_frame[OF analyses_frame(4)] has_resolution_frame[OF analyses_frame(5)]
      has_resolution_frame[OF analyses_frame(6)] has_resolution_frame[OF analyses_frame(7)]\<close>)

text \<open>C14: a resolution is final. Once a failed run is marked \<open>resolved\<close>, no sequence of
  store operations that does not delete the run changes which run resolved it, when, or how long
  the recovery took.\<close>

theorem resolved_is_final:
  assumes "wf_db d" and "has_resolution i p d" and "fst p = Some RESOLVED" and "OpDelete i \<notin> set ops"
  shows "has_resolution i p (fold exec_op ops d)"
  using assms
proof (induction ops arbitrary: d)
  case (Cons op ops)
  have "has_resolution i p (exec_op op d)"
    using Cons.prems by (intro has_resolution_step) auto
  then show ?case using Cons by (auto simp: wf_exec_op)
qed simp

theorem resolved_is_final_witness:
  "\<exists>p. has_resolution 1 p (fold exec_op [OpDelete 2, OpBegin 8 1 (Some (u ''t''))]
     (snd (record_followup_run 5 sample_followup (sample_db Sqlite)))) \<and> fst p = Some RESOLVED"
proof -
  let ?d = "snd (record_followup_run 5 sample_followup (sample_db Sqlite))"
  have "\<exists>p. has_resolution 1 p ?d \<and> fst p = Some RESOLVED"
    by (simp add: record_followup_run_def followup_candidate_def sql_select_def sql_update_def
        sample_db_rows sample_followup_def sample_record_def row_of_record_def order_desc_def
        unresolved_or_same_run_retry_def target_match_def prior_run_def Let_def has_resolution_def
        resolution_part_def set_resolution_def followup_resolution_def)
  then obtain p where p: "has_resolution 1 p ?d" "fst p = Some RESOLVED" by blast
  have "wf_db ?d" by (intro wf_followup wf_sample_db)
  from resolved_is_final[OF this p, of "[OpDelete 2, OpBegin 8 1 (Some (u ''t''))]"] p(2)
  show ?thesis by (intro exI[of _ p]) (simp del: fold_simps)
qed


section \<open>Attempts\<close>

lemma begin_analysis_row:
  assumes wf: "wf_db d" and beg: "begin_analysis now i (Some tok) d = Inr (s, d')"
  obtains row where "row \<in> set (db_analyses d)" "a_run_id row = i"
    "a_status row \<in> {QUEUED, RUNNING}"
    "s = \<lparr>attempt_started_at = now, queue_wait_seconds = started_wait d now row,
          first_start = (a_analysis_started_at row = None)\<rparr>"
    "filter (\<lambda>r. a_run_id r = i) (db_analyses d')
       = [begin_row now (Some tok) (started_wait d now row) row]"
proof -
  have keyed: "keyed a_run_id (db_analyses d)" using wf by (simp add: wf_defs)
  from beg obtain row w where
    row: "first_row (sql_select (\<lambda>r. a_run_id r = i) (db_analyses d)) = Some row"
    and w: "w = started_wait d now row"
    and s: "s = \<lparr>attempt_started_at = now, queue_wait_seconds = w,
           first_start = (a_analysis_started_at row = None)\<rparr>"
    and rows: "db_analyses d' = map (\<lambda>r. if a_run_id r = i \<and> a_status r \<in> {QUEUED, RUNNING}
           then begin_row now (Some tok) w r else r) (db_analyses d)"
    and one: "length (filter (\<lambda>r. a_run_id r = i \<and> a_status r \<in> {QUEUED, RUNNING}) (db_analyses d)) = 1"
    by (rule begin_analysis_Inr) auto
  have r: "row \<in> set (db_analyses d)" "a_run_id row = i"
    using row keyed_find_iff[OF keyed] by (auto simp: sql_select_def)
  have only: "filter (\<lambda>r. a_run_id r = i) (db_analyses d) = [row]"
    using keyed_filter_single[OF keyed r(1)] r(2) by simp
  have "filter (\<lambda>r. a_run_id r = i \<and> a_status r \<in> {QUEUED, RUNNING}) (db_analyses d)
      = filter (\<lambda>r. a_status r \<in> {QUEUED, RUNNING}) (filter (\<lambda>r. a_run_id r = i) (db_analyses d))"
    by (simp add: conj_commute)
  then have st: "a_status row \<in> {QUEUED, RUNNING}"
    using one only by (simp split: if_splits)
  let ?f = "\<lambda>r. if a_run_id r = i \<and> a_status r \<in> {QUEUED, RUNNING} then begin_row now (Some tok) w r else r"
  have "filter (\<lambda>r. a_run_id r = i) (map ?f (db_analyses d))
      = map ?f (filter (\<lambda>r. a_run_id r = i) (db_analyses d))"
    unfolding filter_map by (rule arg_cong[of _ _ "map ?f"], rule filter_cong) auto
  then have "filter (\<lambda>r. a_run_id r = i) (db_analyses d') = [begin_row now (Some tok) w row]"
    using only st r(2) by (simp add: rows)
  with r st s w show thesis by (intro that) auto
qed

text \<open>Retries keep the first timing. When an attempt begins a run that an earlier
  attempt had already begun, it is not reported as a first start, the queue wait it reports is the
  one of the first attempt, and no stage of the run is left open in the history.\<close>

lemma restart_keeps_first_timing:
  assumes "wf_db d" and "begin_analysis now i (Some tok) d = Inr (s, d')"
    and "begin_analysis now' i (Some tok') d' = Inr (s', d'')"
  shows "\<not> first_start s' \<and> queue_wait_seconds s' = queue_wait_seconds s
    \<and> \<not> (\<exists>e. e \<in> set (db_stage_events d'') \<and> e_run_id e = i \<and> e_status e = STAGE_STARTED)"
proof -
  have wf': "wf_db d'" using wf_begin[OF assms(1), of now i "Some tok"] assms(2) by simp
  from assms(1,2) obtain row where s: "queue_wait_seconds s = started_wait d now row"
    and row: "filter (\<lambda>r. a_run_id r = i) (db_analyses d')
       = [begin_row now (Some tok) (started_wait d now row) row]"
    by (rule begin_analysis_row) simp
  from wf' assms(3) obtain row' where r': "row' \<in> set (db_analyses d')" "a_run_id row' = i"
    and s': "s' = \<lparr>attempt_started_at = now', queue_wait_seconds = started_wait d' now' row',
          first_start = (a_analysis_started_at row' = None)\<rparr>"
    by (rule begin_analysis_row) simp
  have "row' \<in> set (filter (\<lambda>r. a_run_id r = i) (db_analyses d'))" using r' by simp
  then have "row' = begin_row now (Some tok) (started_wait d now row) row" by (simp add: row)
  then have "a_analysis_started_at row' \<noteq> None" "a_queue_wait_seconds row' = Some (started_wait d now row)"
    by (simp_all add: begin_row_def split: option.splits)
  then have "\<not> first_start s' \<and> queue_wait_seconds s' = queue_wait_seconds s"
    unfolding s s' by (simp add: started_wait_def)
  moreover
  let ?g = "\<lambda>e. if e_run_id e = i \<and> e_status e = STAGE_STARTED then supersede_event e else e"
  from assms(3) have events: "db_stage_events d'' = map ?g (db_stage_events d')"
    by (rule begin_analysis_Inr) simp
  have "\<not> (e_run_id (?g e) = i \<and> e_status (?g e) = STAGE_STARTED)" for e
    by (simp add: supersede_event_def)
  then have "\<not> (\<exists>e. e \<in> set (db_stage_events d'') \<and> e_run_id e = i \<and> e_status e = STAGE_STARTED)"
    unfolding events set_map by blast
  ultimately show ?thesis by blast
qed

section \<open>Requests waiting in the database\<close>

lemma queued_requests_rows:
  "map rq_run_id (queued_requests d) = map a_run_id
     (sort_key a_created_at (sql_select (\<lambda>r. a_status r = QUEUED \<and> a_installation_id r \<noteq> None) (db_analyses d)))"
proof -
  have "map rq_run_id (concat (map request_of_row xs)) = map a_run_id xs"
    if "\<forall>r \<in> set xs. a_installation_id r \<noteq> None" for xs
    using that by (induction xs) (auto simp: request_of_row_def)
  then show ?thesis by (simp add: queued_requests_def sql_select_def)
qed

lemma queued_requests_distinct: "wf_db d \<Longrightarrow> distinct (map rq_run_id (queued_requests d))"
proof -
  assume "wf_db d"
  then have "keyed a_run_id (sql_select (\<lambda>r. a_status r = QUEUED \<and> a_installation_id r \<noteq> None) (db_analyses d))"
    by (simp add: wf_defs sql_select_def keyed_filter)
  then have "distinct (map a_run_id (sort_key a_created_at
      (sql_select (\<lambda>r. a_status r = QUEUED \<and> a_installation_id r \<noteq> None) (db_analyses d))))"
    by (simp only: keyed_def distinct_map_sort_key)
  then show ?thesis by (simp add: queued_requests_rows)
qed

lemma queued_requests_iff:
  "i \<in> rq_run_id ` set (queued_requests d) \<longleftrightarrow>
     (\<exists>r \<in> set (db_analyses d). a_run_id r = i \<and> a_status r = QUEUED \<and> a_installation_id r \<noteq> None)"
proof -
  have "rq_run_id ` set (queued_requests d) = set (map rq_run_id (queued_requests d))" by simp
  also have "\<dots> = a_run_id ` set (sql_select (\<lambda>r. a_status r = QUEUED \<and> a_installation_id r \<noteq> None)
      (db_analyses d))"
    by (simp only: queued_requests_rows set_map set_sort)
  finally show ?thesis by (auto simp: sql_select_def)
qed

end
