(* ===== verification/Pipeline_Props.thy ===== *)
theory Pipeline_Props
  imports Pipeline
begin

text \<open>
  What an analysis sends to the outside, whatever the servers answer and wherever it fails: a triple
  \<open>runs srv P m Q\<close> says that from every state whose server is \<open>srv\<close> the program \<open>m\<close> sends only requests
  with \<open>P\<close> and returns only values with \<open>Q\<close>.
\<close>

section \<open>Triples\<close>

definition runs :: "(http_request list \<Rightarrow> http_request \<Rightarrow> exn + response) \<Rightarrow> (http_request \<Rightarrow> bool)
    \<Rightarrow> (pipe, 'a) prog \<Rightarrow> ('a \<Rightarrow> bool) \<Rightarrow> bool" where
  "runs srv P m Q \<longleftrightarrow> (\<forall>p. wb_server (pp_web p) = srv \<longrightarrow> extends P (pp_web p) (pp_web (snd (m p)))
     \<and> (\<forall>a. fst (m p) = Inr a \<longrightarrow> Q a))"

named_theorems runs_intros

lemma extends_server: "extends P w w' \<Longrightarrow> wb_server w' = wb_server w"
  by (simp add: extends_def)

lemma extends_refl [simp]: "extends P w w"
  by (simp add: extends_def)

lemma runsD:
  assumes "runs srv P m Q" "wb_server (pp_web p) = srv" "m p = (r, p')"
  shows "extends P (pp_web p) (pp_web p')" "wb_server (pp_web p') = srv" "r = Inr a \<Longrightarrow> Q a"
proof -
  from assms have e: "extends P (pp_web p) (pp_web (snd (m p)))" "\<forall>a. fst (m p) = Inr a \<longrightarrow> Q a"
    unfolding runs_def by blast+
  with assms show "extends P (pp_web p) (pp_web p')" "wb_server (pp_web p') = srv" "r = Inr a \<Longrightarrow> Q a"
    by (auto dest: extends_server)
qed

lemma runs_ret [runs_intros]: "Q a \<Longrightarrow> runs srv P (retS a) Q"
  by (simp add: runs_def)

lemma runs_raise [runs_intros]: "runs srv P (raiseS e) Q"
  by (simp add: runs_def)

lemma runs_lift: "(\<And>a. r = Inr a \<Longrightarrow> Q a) \<Longrightarrow> runs srv P (liftS r) Q"
  by (simp add: runs_def)

lemma runs_weaken: "runs srv P m R \<Longrightarrow> (\<And>a. R a \<Longrightarrow> Q a) \<Longrightarrow> runs srv P m Q"
  unfolding runs_def by blast

lemma runs_any: "runs srv P m Q \<Longrightarrow> runs srv P m (\<lambda>_. True)"
  by (erule runs_weaken) simp

lemma runs_try_else:
  assumes m: "runs srv P m R" and h: "\<And>e. runs srv P (h e) Q" and f: "\<And>a. R a \<Longrightarrow> runs srv P (f a) Q"
  shows "runs srv P (tryElseS m h f) Q"
  unfolding runs_def
proof (intro allI impI)
  fix p :: pipe assume p: "wb_server (pp_web p) = srv"
  obtain r p1 where r: "m p = (r, p1)" by (cases "m p")
  note D = runsD[OF m p r]
  show "extends P (pp_web p) (pp_web (snd (tryElseS m h f p))) \<and> (\<forall>a. fst (tryElseS m h f p) = Inr a \<longrightarrow> Q a)"
  proof (cases r)
    case (Inl e)
    obtain r' p2 where h2: "h e p1 = (r', p2)" by (cases "h e p1")
    note E = runsD[OF h D(2) h2]
    show ?thesis using r Inl h2 extends_trans[OF D(1) E(1)] E(3) by (simp add: tryElseS_def)
  next
    case (Inr a)
    obtain r' p2 where f2: "f a p1 = (r', p2)" by (cases "f a p1")
    note E = runsD[OF f[OF D(3)[OF Inr]] D(2) f2]
    show ?thesis using r Inr f2 extends_trans[OF D(1) E(1)] E(3) by (simp add: tryElseS_def)
  qed
qed

lemma bindS_eq: "bindS m f = tryElseS m raiseS f"
  by (rule ext) (auto simp: bindS_def tryElseS_def split: prod.split sum.split)

lemma runs_bind: "runs srv P m R \<Longrightarrow> (\<And>a. R a \<Longrightarrow> runs srv P (f a) Q) \<Longrightarrow> runs srv P (bindS m f) Q"
  unfolding bindS_eq by (erule runs_try_else) (auto intro: runs_raise)

lemma runs_try: "runs srv P m Q \<Longrightarrow> (\<And>e. runs srv P (h e) Q) \<Longrightarrow> runs srv P (tryS m h) Q"
  unfolding tryS_eq by (erule runs_try_else) (auto intro: runs_ret)

lemma runs_web:
  assumes "sends P m" "\<And>w a w'. wb_server w = srv \<Longrightarrow> m w = (Inr a, w') \<Longrightarrow> Q a"
  shows "runs srv P (on_web m) Q"
  unfolding runs_def
proof (intro allI impI)
  fix p :: pipe assume p: "wb_server (pp_web p) = srv"
  obtain r w where r: "m (pp_web p) = (r, w)" by (cases "m (pp_web p)")
  from sendsD[OF assms(1) r] assms(2)[OF p] r
  show "extends P (pp_web p) (pp_web (snd (on_web m p))) \<and> (\<forall>a. fst (on_web m p) = Inr a \<longrightarrow> Q a)"
    by (simp add: on_web_def)
qed

lemma runs_web_any: "sends P m \<Longrightarrow> runs srv P (on_web m) (\<lambda>_. True)"
  by (rule runs_web) simp_all

lemma runs_effects [runs_intros]:
  "runs srv P (on_store f) (\<lambda>_. True)" "runs srv P (on_store_unit g) (\<lambda>_. True)"
  "runs srv P (on_metrics_prog k) (\<lambda>_. True)" "runs srv P (count_up c) (\<lambda>_. True)"
  "runs srv P perf_counter (\<lambda>_. True)" "runs srv P fresh_uuid (\<lambda>_. True)"
proof -
  show s: "runs srv P (on_store f) (\<lambda>_. True)" for f :: "int \<Rightarrow> db \<Rightarrow> exn + 'c \<times> db"
    by (auto simp: runs_def on_store_def Let_def split: sum.split prod.split)
  show m: "runs srv P (on_metrics_prog k) (\<lambda>_. True)" for k :: "(metrics, 'd) prog"
    unfolding on_metrics_prog_def by (rule runs_web_any, rule sends_quiet) (auto split: prod.split)
  show "runs srv P (on_store_unit g) (\<lambda>_. True)" unfolding on_store_unit_def
    by (auto simp: runs_def on_store_def Let_def split: sum.split prod.split)
  show "runs srv P (count_up c) (\<lambda>_. True)" unfolding count_up_def on_metrics_prog_def
    by (rule runs_web_any, rule sends_quiet) (auto split: prod.split)
  show "runs srv P perf_counter (\<lambda>_. True)" "runs srv P fresh_uuid (\<lambda>_. True)"
    by (simp_all add: runs_def perf_counter_def fresh_uuid_def)
qed

lemma runs_lift_any [runs_intros]: "runs srv P (liftS r) (\<lambda>_. True)"
  by (rule runs_lift) simp

text \<open>Sequencing when nothing is known of the value in between.\<close>

lemma runs_then: "runs srv P m (\<lambda>_. True) \<Longrightarrow> (\<And>a. runs srv P (f a) Q) \<Longrightarrow> runs srv P (bindS m f) Q"
  by (rule runs_bind)

lemma runs_mapS [runs_intros]: "(\<And>x. runs srv P (f x) (\<lambda>_. True)) \<Longrightarrow> runs srv P (mapS f xs) (\<lambda>_. True)"
  by (induction xs) (auto intro!: runs_then runs_ret)

lemma runs_gather3:
  assumes "runs srv P a A" "runs srv P b B" "runs srv P c Z"
  shows "runs srv P (gather3 a b c) (\<lambda>(x, y, z). A x \<and> B y \<and> Z z)"
  unfolding runs_def
proof (intro allI impI)
  fix p :: pipe assume p: "wb_server (pp_web p) = srv"
  obtain ra p1 where ra: "a p = (ra, p1)" by (cases "a p")
  note D1 = runsD[OF assms(1) p ra]
  obtain rb p2 where rb: "b p1 = (rb, p2)" by (cases "b p1")
  note D2 = runsD[OF assms(2) D1(2) rb]
  obtain rc p3 where rc: "c p2 = (rc, p3)" by (cases "c p2")
  note D3 = runsD[OF assms(3) D2(2) rc]
  show "extends P (pp_web p) (pp_web (snd (gather3 a b c p))) \<and>
      (\<forall>x. fst (gather3 a b c p) = Inr x \<longrightarrow> (case x of (x, y, z) \<Rightarrow> A x \<and> B y \<and> Z z))"
    using ra rb rc D1 D2 D3 by (auto simp: gather3_def bindE_eq_Inr intro: extends_trans)
qed

lemma runs_in_stage: "runs srv P body Q \<Longrightarrow> runs srv P (in_stage C run_id stage token body) Q"
  unfolding in_stage_def mark_stage_def
  by (rule runs_then, rule runs_effects, erule runs_try_else) (intro runs_then runs_effects runs_raise runs_ret; assumption)+

section \<open>What the steps send and return\<close>

text \<open>The trust levels a run can get from a server.\<close>

definition possible_trust :: "pipeline \<Rightarrow> AnalysisRequest \<Rightarrow> (http_request list \<Rightarrow> http_request \<Rightarrow> exn + response)
    \<Rightarrow> TrustLevel \<Rightarrow> bool" where
  "possible_trust C rq srv t \<longleftrightarrow> t = UNVERIFIED \<or> (\<exists>w w' access rc. wb_server w = srv
     \<and> repository_context (ap_github C) (rq_repository rq) (rq_run_id rq) (rq_head_sha rq) access w = (Inr rc, w')
     \<and> rc_trust_level rc = t)"

definition token_request :: "AnalysisRequest \<Rightarrow> http_request \<Rightarrow> bool" where
  "token_request rq r \<longleftrightarrow> hr_method r = u ''POST''
     \<and> hr_url r = api_url @ u ''/app/installations/'' @ str_int (rq_installation_id rq) @ u ''/access_tokens''"

definition writes_check :: "AnalysisRequest \<Rightarrow> pystr \<Rightarrow> pystr \<Rightarrow> http_request \<Rightarrow> bool" where
  "writes_check rq body url r \<longleftrightarrow> prefix (repo_url (rq_repository rq) (u ''/check-runs'')) (hr_url r)
     \<and> (\<exists>title b. b = check_body (rq_head_sha rq) (rq_run_id rq) title body url
          \<and> (hr_method r = u ''POST'' \<and> hr_json r = Some (JObj b)
             \<or> hr_method r = u ''PATCH'' \<and> hr_json r = Some (JObj (filter (\<lambda>(k, _). k \<noteq> u ''head_sha'') b))))"

text \<open>A diagnosis fit for a report: a diff that is marked as verified has passed every check against
  fetched files, and without trust there is no diff at all.\<close>

definition reportable :: "pipeline \<Rightarrow> TrustLevel \<Rightarrow> Diagnosis \<Rightarrow> bool" where
  "reportable C t d \<longleftrightarrow>
     (\<forall>s \<in> set (dg_suggestions d). sg_patch_verified s \<and> truthy (sg_patch s)
        \<longrightarrow> (\<exists>files. publishable (ap_unicode C) (ap_patch_lib C) files s))
     \<and> (t \<noteq> TRUSTED \<longrightarrow> (\<forall>s \<in> set (dg_suggestions d). sg_patch s = None))"

definition report_of :: "pipeline \<Rightarrow> AnalysisRequest \<Rightarrow> TrustLevel \<Rightarrow> pystr \<Rightarrow> bool" where
  "report_of C rq t body \<longleftrightarrow> (\<exists>c d related base. reportable C t d
     \<and> body = render_github_diagnosis (rq_run_id rq) c d related (details_url (ap_settings C) (rq_run_id rq)) t base
         (Some (rq_head_sha rq)))"

definition publishes :: "pipeline \<Rightarrow> AnalysisRequest \<Rightarrow> TrustLevel \<Rightarrow> http_request \<Rightarrow> bool" where
  "publishes C rq t r \<longleftrightarrow> st_publish_checks (ap_settings C) \<and> (\<exists>body. report_of C rq t body
     \<and> (t \<noteq> UNVERIFIED \<and> (\<exists>n. writes_comment (ap_github C) (rq_repository rq) n (rq_run_id rq) body r)
        \<or> t = TRUSTED \<and> writes_check rq body (details_url (ap_settings C) (rq_run_id rq)) r))"

definition allowed :: "pipeline \<Rightarrow> AnalysisRequest \<Rightarrow> (TrustLevel \<Rightarrow> bool) \<Rightarrow> http_request \<Rightarrow> bool" where
  "allowed C rq T r \<longleftrightarrow> reads_api r \<or> token_request rq r \<or> T TRUSTED \<and> hr_url r = llm_api_url
     \<or> (\<exists>t. T t \<and> publishes C rq t r)"

lemma allowed_reads: "sends reads_api m \<Longrightarrow> sends (allowed C rq T) m"
  by (erule sends_weaken) (simp add: allowed_def)

lemma sends_token:
  assumes "upper_ok C"
  shows "sends (token_request rq) (installation_token C (rq_installation_id rq))"
proof -
  have "sends P (app_jwt C)" for P
    by (auto simp: app_jwt_def Let_def intro!: sends_intros split: option.split)
  with assms show ?thesis unfolding installation_token_def
    by (intro sends_intros sends_fetch_json) (auto simp: token_request_def)
qed

lemma runs_collect:
  assumes "upper_ok (ap_github C)"
  shows "runs srv (allowed C rq (possible_trust C rq srv)) (collect C rq token)
    (\<lambda>(access, jobs, logs, rc). possible_trust C rq srv (rc_trust_level rc))"
proof -
  let ?P = "allowed C rq (possible_trust C rq srv)"
  have tok: "sends ?P (installation_token (ap_github C) (rq_installation_id rq))"
    by (rule sends_weaken[OF sends_token[OF assms]]) (simp add: allowed_def)
  have ctx: "runs srv ?P (safe_repository_context C (rq_repository rq) (rq_run_id rq) (rq_head_sha rq) access)
      (\<lambda>rc. possible_trust C rq srv (rc_trust_level rc))" for access
    unfolding safe_repository_context_def
    by (intro runs_try runs_web runs_ret allowed_reads reads_repository_context assms)
      (auto simp: possible_trust_def unverified_context_def)
  have jobs: "runs srv ?P (on_web (failed_jobs (ap_github C) (rq_repository rq) (rq_run_id rq) access)) (\<lambda>_. True)"
    "runs srv ?P (on_web (download_logs (ap_github C) (rq_repository rq) (rq_run_id rq) access)) (\<lambda>_. True)" for access
    by (intro runs_web_any allowed_reads reads_failed_jobs reads_download_logs assms)+
  show ?thesis unfolding collect_def
    by (rule runs_then[OF runs_web_any[OF tok]], rule runs_bind[OF runs_gather3[OF jobs ctx]])
      (auto intro!: runs_then runs_effects runs_ret)
qed

lemma runs_sanitize_counted: "runs srv P (sanitize_counted C raw) (\<lambda>_. True)"
  unfolding sanitize_counted_def Let_def by (auto intro!: runs_then runs_effects runs_ret split: prod.split)

lemma runs_clean_value: "runs srv P (clean_value C v) (\<lambda>_. True)"
  unfolding clean_value_def by (auto intro!: runs_then runs_sanitize_counted runs_ret runs_raise split: json.split)

lemma runs_first_clean: "runs srv P (first_clean C f jobs) (\<lambda>_. True)"
  by (induction jobs) (auto intro!: runs_clean_value runs_ret simp del: prog_simps)

lemma runs_sanitize_all: "runs srv P (sanitize_all C jobs logs rc) (\<lambda>_. True)"
proof -
  have job: "runs srv P (clean_job C j) (\<lambda>_. True)" for j
    unfolding clean_job_def by (intro runs_then runs_mapS runs_clean_value runs_ret) simp
  have changed: "runs srv P (sanitize_changed_file C f) (\<lambda>_. True)" for f
    unfolding sanitize_changed_file_def by (intro runs_then runs_sanitize_counted runs_ret) simp
  have ec: "runs srv P (sanitize_execution_context C jobs) (\<lambda>_. True)"
    unfolding sanitize_execution_context_def by (intro runs_then runs_mapS runs_first_clean job runs_ret) simp
  show ?thesis unfolding sanitize_all_def Let_def
    by (intro runs_then runs_lift_any ec runs_effects runs_mapS changed runs_sanitize_counted runs_ret) simp
qed

section \<open>Diagnosis and publication\<close>

definition nothing_verified :: "Diagnosis \<Rightarrow> bool" where
  "nothing_verified d \<longleftrightarrow> (\<forall>s \<in> set (dg_suggestions d). \<not> sg_patch_verified s)"

lemma nothing_verified_reportable: "nothing_verified d \<Longrightarrow> reportable C TRUSTED d"
  by (simp add: nothing_verified_def reportable_def)

lemma nothing_verified_note [simp]: "nothing_verified (add_note n d) = nothing_verified d"
    "nothing_verified (trust_note t d) = nothing_verified d" "reportable C t (add_note n d) = reportable C t d"
  by (cases t; simp add: nothing_verified_def add_note_def trust_note_def reportable_def)+

lemma rule_based_unverified: "nothing_verified (validate_diagnosis (build_rule_based_diagnosis c) lg files)"
  by (auto simp: nothing_verified_def validate_diagnosis_def build_rule_based_diagnosis_def Let_def split: prod.splits)

lemma llm_unverified: "validate_llm_analysis a c = Inr d \<Longrightarrow> nothing_verified d"
  by (auto simp: nothing_verified_def validate_llm_analysis_def Let_def split: if_splits)

lemma strip_patches_reportable: "nothing_verified d \<Longrightarrow> reportable C t (strip_patches d)"
  by (auto simp: reportable_def strip_patches_def)

lemma runs_ask_llm:
  assumes "nothing_verified fallback" "T TRUSTED"
  shows "runs srv (allowed C rq T) (ask_llm C P ctx fallback) nothing_verified"
proof -
  have llm: "sends (allowed C rq T) (llm_analyze P request_id ctx)" for request_id
    unfolding llm_analyze_def using assms(2) by (intro sends_intros sends_request) (simp add: allowed_def)
  have failed: "runs srv (allowed C rq T) (llm_failed P started) (\<lambda>_. True)" for started
    unfolding llm_failed_def by (intro runs_then runs_effects)
  have asked: "runs srv (allowed C rq T) (bindS (on_web (llm_analyze P request_id ctx)) (\<lambda>r.
      bindS (liftS (validate_llm_analysis (lr_analysis r) ctx)) (\<lambda>d. retS (r, d)))) (\<lambda>(r, d). nothing_verified d)" for request_id
    by (rule runs_then[OF runs_web_any[OF llm]], rule runs_bind[where R = nothing_verified], rule runs_lift, erule llm_unverified)
      (rule runs_ret, simp)
  show ?thesis unfolding ask_llm_def
    by (intro runs_then runs_effects runs_try_else[OF asked] failed)
      (auto intro!: runs_ret runs_then runs_effects runs_try_else[where R = "\<lambda>_. True"] failed simp: assms(1) simp del: prog_simps)
qed

lemma runs_attach:
  assumes "upper_ok (ap_github C)" "nothing_verified d"
  shows "runs srv (allowed C rq T) (attach_verified_patches C rq access d lg related rc) (reportable C TRUSTED)"
proof -
  have fetch: "runs srv (allowed C rq T) (on_web (file_contents (ap_github C) (rq_repository rq) targets (rq_head_sha rq) access))
      (\<lambda>_. True)" for targets
    by (intro runs_web_any allowed_reads reads_file_contents assms)
  have checked: "runs srv (allowed C rq T) (liftS (propose_and_verify_patches (ap_unicode C) (ap_patch_lib C) d bumps files))
      (\<lambda>(v, outcomes). reportable C TRUSTED v)" for bumps files
  proof (rule runs_lift)
    fix x assume x: "propose_and_verify_patches (ap_unicode C) (ap_patch_lib C) d bumps files = Inr x"
    obtain v outcomes where v: "x = (v, outcomes)" by (cases x)
    from propose_and_verify_sound[OF x[unfolded v]] v show "case x of (v, outcomes) \<Rightarrow> reportable C TRUSTED v"
      by (auto simp: reportable_def)
  qed
  show ?thesis unfolding attach_verified_patches_def Let_def
    using nothing_verified_reportable[OF assms(2)]
    by (auto intro!: runs_then[OF runs_lift_any] runs_ret runs_bind[OF checked] runs_then runs_effects
        runs_try_else[OF fetch] simp del: prog_simps)
qed

lemma runs_diagnose:
  assumes "upper_ok (ap_github C)" "T (rc_trust_level rc)"
  shows "runs srv (allowed C rq T) (diagnose C rq access c context related ec rc workflow)
    (\<lambda>(d, model, prompt). reportable C (rc_trust_level rc) d)"
proof -
  let ?fb = "trust_note (rc_trust_level rc) (validate_diagnosis (build_rule_based_diagnosis c) context (Some (repository_files rc)))"
  have fb: "nothing_verified ?fb" by (simp add: rule_based_unverified)
  have first: "runs srv (allowed C rq T) (case ap_llm C of
            Some P \<Rightarrow> if rc_trust_level rc = TRUSTED
              then bindS (ask_llm C P ctx ?fb) (\<lambda>d. retS (d, Some (lp_model_name P), Some PROMPT_VERSION))
              else retS (?fb, None, None)
          | None \<Rightarrow> retS (?fb, None, None)) (\<lambda>(d, model, prompt). nothing_verified d)" for ctx
    using fb assms(2)
    by (auto intro!: runs_ret runs_bind[OF runs_ask_llm] simp del: prog_simps split: option.split)
  show ?thesis unfolding diagnose_def Let_def
  proof (rule runs_bind[OF first], clarify)
    fix d model prompt assume d: "nothing_verified d"
    show "runs srv (allowed C rq T) (bindS (if rc_trust_level rc = TRUSTED
        then attach_verified_patches C rq access d context related rc else retS (strip_patches d))
        (\<lambda>d. retS (if related = [] then add_note no_related_note d else d, model, prompt)))
      (\<lambda>(d, model, prompt). reportable C (rc_trust_level rc) d)"
      using runs_attach[OF assms(1) d] strip_patches_reportable[OF d]
      by (intro runs_bind[where R = "reportable C (rc_trust_level rc)"]) (auto intro!: runs_ret simp del: prog_simps)
  qed
qed

lemma writes_check_requests:
  "writes_check rq body url (json_request ''POST'' (repo_url (rq_repository rq) (u ''/check-runs'')) hs
     (check_body (rq_head_sha rq) (rq_run_id rq) title body url))"
  "writes_check rq body url (json_request ''PATCH'' (repo_url (rq_repository rq) (u ''/check-runs/'' @ i)) hs
     (filter (\<lambda>(k, _). k \<noteq> u ''head_sha'') (check_body (rq_head_sha rq) (rq_run_id rq) title body url)))"
  by (auto simp: writes_check_def json_request_def repo_url_def u_def)

lemma sends_upsert_check:
  assumes "upper_ok C"
  shows "sends (\<lambda>r. reads_api r \<or> writes_check rq body url r)
    (upsert_check C (rq_repository rq) (rq_head_sha rq) (rq_run_id rq) access title body url)"
  unfolding upsert_check_def Let_def using assms
  by (auto intro!: sends_intros sends_gh disjI2[OF writes_check_requests(1)] disjI2[OF writes_check_requests(2)]
      simp: reads_api_def split: option.split)

lemma runs_publish:
  assumes "upper_ok (ap_github C)" "T (rc_trust_level rc)" "reportable C (rc_trust_level rc) d"
  shows "runs srv (allowed C rq T) (publish C rq access c d related rc) (\<lambda>_. True)"
proof -
  let ?t = "rc_trust_level rc" let ?url = "details_url (ap_settings C) (rq_run_id rq)"
  let ?body = "render_github_diagnosis (rq_run_id rq) c d related ?url ?t (rc_baseline_sha rc) (Some (rq_head_sha rq))"
  have rep: "report_of C rq ?t ?body" unfolding report_of_def using assms(3) by blast
  have comment: "sends (allowed C rq T) (upsert_pull_request_comment (ap_github C) (rq_repository rq) n (rq_run_id rq) access ?body)"
    if "st_publish_checks (ap_settings C)" "?t \<noteq> UNVERIFIED" for n
    using that rep assms(2)
    by (intro sends_weaken[OF sends_upsert_comment[OF assms(1)]]) (auto simp: allowed_def publishes_def)
  have check: "sends (allowed C rq T) (upsert_check (ap_github C) (rq_repository rq) (rq_head_sha rq) (rq_run_id rq) access
      (dg_summary d) ?body ?url)" if "st_publish_checks (ap_settings C)" "?t = TRUSTED"
    using that rep assms(2)
    by (intro sends_weaken[OF sends_upsert_check[OF assms(1)]]) (auto simp: allowed_def publishes_def)
  show ?thesis unfolding publish_def Let_def using comment check
    by (auto intro!: runs_ret runs_web_any simp del: prog_simps split: option.split)
qed

lemma runs_run_stages:
  assumes "upper_ok (ap_github C)"
  shows "runs srv (allowed C rq (possible_trust C rq srv)) (run_stages C rq token) (\<lambda>_. True)"
proof -
  have classified: "runs srv P (classify C ctx ec) (\<lambda>_. True)" for P ctx ec
    unfolding classify_def Let_def by (intro runs_then runs_effects runs_ret) simp
  have related: "runs srv P (retS x) (\<lambda>_. True)" for P and x :: "RelatedFile list" by (rule runs_ret) simp
  show ?thesis unfolding run_stages_def Let_def
    apply (rule runs_bind[OF runs_in_stage[OF runs_collect[OF assms]]], clarify)
    apply (rule runs_then[OF runs_in_stage[OF runs_sanitize_all]], clarify)
    apply (rule runs_then[OF runs_in_stage[OF classified]])
    apply (rule runs_then[OF runs_in_stage[OF related]])
    apply (rule runs_bind[OF runs_in_stage[OF runs_diagnose[OF assms]]], assumption, clarify)
    by (intro runs_then runs_effects runs_in_stage runs_publish assms)
qed

lemma runs_pipeline:
  assumes "upper_ok (ap_github C)"
  shows "runs srv (allowed C rq (possible_trust C rq srv)) (pipeline_analyze C rq) (\<lambda>_. True)"
proof -
  have dur: "runs srv P (observe_duration started) (\<lambda>_. True)" for P started
    unfolding observe_duration_def by (intro runs_then runs_effects)
  have sup: "runs srv P (report_superseded started) (\<lambda>_. True)" for P started
    unfolding report_superseded_def by (intro runs_then runs_effects dur)
  have fail: "runs srv P (on_failure rq token started t e) (\<lambda>_. True)" for P token started t e
    unfolding on_failure_def Let_def
    by (auto intro!: sup runs_then runs_effects dur runs_raise runs_try_else[where R = "\<lambda>_. True"]
        simp del: prog_simps split: option.split)
  have completed: "runs srv P (complete C rq token started t) (\<lambda>_. True)" for P token started t
    unfolding complete_def
    by (auto intro!: sup runs_then runs_effects dur runs_raise runs_try_else[where R = "\<lambda>_. True"] simp del: prog_simps)
  have started: "runs srv P (note_start st a) (\<lambda>_. True)" for P st a
    unfolding note_start_def by (auto intro!: runs_effects runs_ret simp del: prog_simps)
  show ?thesis unfolding pipeline_analyze_def
    by (intro runs_then runs_effects runs_try_else[where R = "\<lambda>_. True"] fail completed started runs_run_stages assms)
qed

section \<open>Published reports\<close>

text \<open>C3: whatever GitHub and the model provider answer and wherever the analysis fails, every request it
  sends is a read of the GitHub API, the request for the installation token, a call of the model
  provider when the run can be trusted, or the publication of a report. A report is rendered from a
  diagnosis whose verified diffs have passed every check against files fetched from the repository;
  it goes to a check run only when the run is trusted, to this analysis's comment unless the trust is
  unknown, and it has no diff when the run is not trusted.\<close>

theorem published_reports_verified:
  assumes "upper_ok (ap_github C)"
  shows "extends (allowed C rq (possible_trust C rq (wb_server (pp_web p)))) (pp_web p)
    (pp_web (snd (pipeline_analyze C rq p)))"
  using runs_pipeline[OF assms, of "wb_server (pp_web p)" rq] by (simp add: runs_def)

text \<open>What a run without trust may still cause: reads, the token request, and a comment whose report has
  no diff.\<close>

definition contained :: "pipeline \<Rightarrow> AnalysisRequest \<Rightarrow> http_request \<Rightarrow> bool" where
  "contained C rq r \<longleftrightarrow> reads_api r \<or> token_request rq r
     \<or> (\<exists>n c d related base. list_all (\<lambda>s. sg_patch s = None) (dg_suggestions d)
          \<and> writes_comment (ap_github C) (rq_repository rq) n (rq_run_id rq)
             (render_github_diagnosis (rq_run_id rq) c d related (details_url (ap_settings C) (rq_run_id rq))
               UNTRUSTED_FORK base (Some (rq_head_sha rq))) r)"

lemma allowed_contained:
  assumes "allowed C rq T r" "\<not> T TRUSTED"
  shows "contained C rq r"
proof -
  have fork: "t = UNTRUSTED_FORK" if "t \<noteq> UNVERIFIED" "T t" for t using that assms(2) by (cases t) auto
  consider "reads_api r \<or> token_request rq r" | t where "T t" "publishes C rq t r"
    using assms unfolding allowed_def by auto
  then show ?thesis
  proof cases
    case 1 then show ?thesis by (auto simp: contained_def)
  next
    case (2 t)
    with assms(2) have t: "t \<noteq> TRUSTED" by auto
    from 2(2) obtain body n where b: "report_of C rq t body" "t \<noteq> UNVERIFIED"
      "writes_comment (ap_github C) (rq_repository rq) n (rq_run_id rq) body r"
      unfolding publishes_def using t by auto
    from b(1) t fork[OF b(2) 2(1)] show ?thesis using b(3) unfolding contained_def report_of_def reportable_def list_all_iff by blast
  qed
qed

lemma extends_weaken: "extends P w w' \<Longrightarrow> (\<And>r. P r \<Longrightarrow> Q r) \<Longrightarrow> extends Q w w'"
  unfolding extends_def by (auto simp: list_all_iff)

text \<open>C4: when the server's answers give no way for the run to be trusted (a run of a fork, or one whose
  origin cannot be read), the analysis sends nothing to the model provider and creates no check run:
  it only reads, gets the installation token, and writes its own comment, without any diff.\<close>

theorem untrusted_run_contained:
  assumes "upper_ok (ap_github C)" "\<not> possible_trust C rq (wb_server (pp_web p)) TRUSTED"
  shows "extends (contained C rq) (pp_web p) (pp_web (snd (pipeline_analyze C rq p)))"
  using runs_pipeline[OF assms(1), of "wb_server (pp_web p)" rq] assms(2)
  by (auto simp: runs_def intro: extends_weaken allowed_contained)

text \<open>A server without answers: every request fails, so the trust of a run stays unknown.\<close>

definition sample_pipeline :: pipeline where
  "sample_pipeline = \<lparr>ap_settings = default_settings, ap_unicode = ascii, ap_github = GitHub_Props.sample_client, ap_llm = None,
     ap_patch_lib = lenient_lib, ap_exc_text = (\<lambda>_. u ''error'')\<rparr>"

definition sample_pipe :: pipe where
  "sample_pipe = \<lparr>pp_db = initialize Sqlite, pp_web = constant_web (Inl (OtherError (u ''no network''))), pp_now = int,
     pp_nows = 0, pp_perf = (\<lambda>_. 0), pp_perfs = 0, pp_uuid = (\<lambda>_. u ''id''), pp_uuids = 0\<rparr>"

definition sample_run_request :: AnalysisRequest where
  "sample_run_request = \<lparr>rq_run_id = 3, rq_repository = u ''o/r'', rq_installation_id = 1, rq_head_sha = u ''abc''\<rparr>"

lemma bindS_fails: "fst (m s) = Inl e \<Longrightarrow> fst (bindS m f s) = Inl e"
  by (cases "m s") (simp add: bindS_def)

lemma no_network_fetch:
  assumes "wb_server w = (\<lambda>_ _. Inl (OtherError e))"
  shows "fst (fetch_json GitHub_Props.sample_client rq w) = Inl (OtherError e)"
proof -
  have "fst (retry_attempts K flag q (1 # rest) w) = Inl (OtherError e)" for K flag q rest
    using assms by (simp add: Let_def tryElseS_def send_def is_transport_error_def)
  moreover have "map int [1..<nat (rp_max_attempts (hc_policy (gh_http GitHub_Props.sample_client))) + 1] = [1, 2, 3]"
    by (simp add: GitHub_Props.sample_client_def github_client_new_def default_policy_def upt_rec)
  ultimately have "fst (gh_request GitHub_Props.sample_client rq w) = Inl (OtherError e)"
    unfolding gh_request_def request_with_retry_def by (metis (no_types))
  then show ?thesis unfolding fetch_json_def fetch_def by (intro bindS_fails)
qed

lemma no_network_no_trust: "\<not> possible_trust sample_pipeline sample_run_request (wb_server (pp_web sample_pipe)) TRUSTED"
proof -
  have "fst (repository_context GitHub_Props.sample_client r i h a w) = Inl (OtherError e)"
    if "wb_server w = (\<lambda>_ _. Inl (OtherError e))" for r i h a w e
    unfolding repository_context_def Let_def by (rule bindS_fails, rule no_network_fetch[OF that])
  note no = this
  show ?thesis
  proof
    assume "possible_trust sample_pipeline sample_run_request (wb_server (pp_web sample_pipe)) TRUSTED"
    then obtain w w' access rc where "wb_server w = (\<lambda>_ _. Inl (OtherError (u ''no network'')))"
      "repository_context GitHub_Props.sample_client (rq_repository sample_run_request) (rq_run_id sample_run_request)
        (rq_head_sha sample_run_request) access w = (Inr rc, w')"
      by (auto simp: possible_trust_def sample_pipeline_def sample_pipe_def constant_web_def)
    with no[of w] show False by (metis fst_conv sum.simps(4))
  qed
qed

lemma sample_pipeline_upper: "upper_ok (ap_github sample_pipeline)"
  by (simp add: sample_pipeline_def sample_client_upper)

theorem untrusted_run_contained_witness:
  "extends (contained sample_pipeline sample_run_request) (pp_web sample_pipe)
     (pp_web (snd (pipeline_analyze sample_pipeline sample_run_request sample_pipe)))"
  by (rule untrusted_run_contained[OF sample_pipeline_upper no_network_no_trust])

theorem published_reports_verified_witness:
  "extends (allowed sample_pipeline sample_run_request (possible_trust sample_pipeline sample_run_request
       (wb_server (pp_web sample_pipe)))) (pp_web sample_pipe)
     (pp_web (snd (pipeline_analyze sample_pipeline sample_run_request sample_pipe)))"
  by (rule published_reports_verified[OF sample_pipeline_upper])

end
