(* ===== verification/Main_Props.thy ===== *)
theory Main_Props
  imports Main_App Auth_Props Store_Queries Pipeline_Props
begin

text \<open>
  What the HTTP service guarantees: cursors survive their trip through the client, only authentic webhooks
  have effects, accepted failures are stored and queued, a restart queues what was waiting, and
  analyses are shown only to those whose installations they belong to.
\<close>

section \<open>Cursors\<close>

abbreviation ascii_text :: "pystr \<Rightarrow> bool" where
  "ascii_text s \<equiv> list_all (\<lambda>c. 0 < c \<and> c < 128) s"

lemma pad_digits_ascii: "ascii_text (pad_digits w n)"
  by (auto simp: pad_digits_def Let_def list_all_iff dest: str_nat_digits)

lemma isoformat_ascii: "ascii_text (isoformat (Aware t off))"
  by (auto simp: format_wall_def format_offset_def format_hms_def format_micros_def Let_def pad_digits_ascii split: prod.split)

lemma str_int_ascii: "ascii_text (str_int i)"
  by (auto simp: str_int_def list_all_iff dest: str_nat_digits)

lemma escape_char_ascii: "0 < c \<Longrightarrow> c < 128 \<Longrightarrow> ascii_text (escape_char c)"
  by (auto simp: escape_char_def hex4_def u_def)

lemma dump_str_ascii: "ascii_text s \<Longrightarrow> ascii_text (dump_str s)"
  unfolding dump_str_def by (induction s) (auto simp: escape_char_ascii u_def)

lemma b64_chars_ascii:
  assumes "list_all (\<lambda>b. b < 256) bs"
  shows "list_all (\<lambda>c. c < 128) (rstrip_if (\<lambda>ch. ch = 61) (urlsafe_b64encode bs))"
proof -
  have "b64_char i < 128" if "i \<in> set (b64_sextets bs)" for i
    using b64_sextets_range[OF _ that] assms by (auto simp: b64_char_def list_all_iff)
  then show ?thesis
    by (auto simp: rstrip_if_def urlsafe_b64encode_def b64_padding_def Let_def list_all_iff dest!: set_dropWhileD)
qed

lemma compact_style_ok: "style_ok (compact_style float)"
  by (simp add: style_ok_def compact_style_def u_def)

lemma cursor_text: "ascii_text (dumps (compact_style float) (JArr [JStr (isoformat (Aware t 0)), JInt n]))"
  using dump_str_ascii[OF isoformat_ascii[of t 0]] str_int_ascii[of n]
  by (simp add: compact_style_def u_def)

lemma cursor_reads_back:
  assumes "datetime_range (cursor_created_at c)" "1 \<le> cursor_run_id c"
  shows "\<exists>s. encode_analysis_cursor float c = Inr s \<and> s \<noteq> []
    \<and> decode_analysis_cursor s = Inr (Aware (cursor_created_at c) 0, cursor_run_id c)"
proof -
  let ?v = "JArr [JStr (isoformat (Aware (cursor_created_at c) 0)), JInt (cursor_run_id c)]"
  obtain p where p: "p = dumps (compact_style float) ?v" by blast
  note T = compact_style_ok[of float] cursor_text[of float "cursor_created_at c" "cursor_run_id c", folded p]
  have ascii: "is_ascii p" using T(2) by (auto simp: is_ascii_def list_all_iff)
  obtain s where s: "s = rstrip_if (\<lambda>ch. ch = 61) (urlsafe_b64encode p)" by blast
  have bytes: "\<forall>b \<in> set p. b < 256" using T(2) by (auto simp: list_all_iff)
  have "b64decode (s @ b64_padding (length s)) = Inr p" using b64_roundtrip[OF bytes] by (simp add: s Let_def)
  moreover have "list_all (\<lambda>c. c < 128) s" unfolding s by (rule b64_chars_ascii) (use bytes in \<open>simp add: list_all_iff\<close>)
  moreover have "loads_bytes p = Inr ?v" using loads_bytes_ascii[OF T(2)] loads_dumps[OF T(1), of ?v] by (simp add: p)
  ultimately have d: "decode_analysis_cursor s = Inr (Aware (cursor_created_at c) 0, cursor_run_id c)"
    using assms by (simp add: decode_analysis_cursor_def read_cursor_def unpack2_def j_iter_def iso_value_def is_naive_def
        fromisoformat_isoformat[OF assms(1)] del: isoformat.simps)
  have "s \<noteq> []"
  proof
    assume "s = []"
    with d show False by (simp add: decode_analysis_cursor_def read_cursor_def b64decode_def b64_padding_def loads_bytes_def
          detect_encoding_def all_units_def loads_def rstrip_if_def Let_def split: if_splits)
  qed
  moreover have "encode_analysis_cursor float c = Inr s"
    unfolding encode_analysis_cursor_def Let_def p[symmetric] ascii_utf8(1)[OF ascii] s by simp
  ultimately show ?thesis using d by blast
qed

text \<open>C36: the cursor of a page survives its trip through the client: encoding it always succeeds and decoding the
  text gives back the instant, in UTC, and the run.\<close>

theorem cursor_roundtrip:
  assumes "datetime_range (cursor_created_at c)" "1 \<le> cursor_run_id c"
  shows "bindE (encode_analysis_cursor float c) decode_analysis_cursor = Inr (Aware (cursor_created_at c) 0, cursor_run_id c)"
  using cursor_reads_back[OF assms, of float] by auto

theorem cursor_roundtrip_witness:
  "bindE (encode_analysis_cursor (\<lambda>_. []) \<lparr>cursor_created_at = 1731234567001234, cursor_run_id = 42\<rparr>) decode_analysis_cursor
    = Inr (Aware 1731234567001234 0, 42)"
  using cursor_roundtrip[of "\<lparr>cursor_created_at = 1731234567001234, cursor_run_id = 42\<rparr>"]
  by (simp add: datetime_range_def day_micros_def EPOCH_ORDINAL_def MAXORDINAL_def)

section \<open>The webhook\<close>

text \<open>What the answers that only count leave alone.\<close>

definition untouched :: "('q app_state, 'a) prog \<Rightarrow> bool" where
  "untouched m \<longleftrightarrow> (\<forall>w. pp_db (aw_pipe (snd (m w))) = pp_db (aw_pipe w) \<and> aw_queue (snd (m w)) = aw_queue w)"

lemma count_app_run: "\<exists>p. count_app f w = (Inr (), w\<lparr>aw_pipe := p\<rparr>) \<and> pp_db p = pp_db (aw_pipe w)"
  by (auto simp: count_app_def on_pipe_def count_up_def on_metrics_prog_def on_web_def split: prod.splits)

lemma rejected_run: "\<exists>p. rejected outcome code detail w = (Inl (HTTPException code detail), w\<lparr>aw_pipe := p\<rparr>) \<and> pp_db p = pp_db (aw_pipe w)"
  using count_app_run[of "inc1 ''webhooks'' [u outcome]" w] by (auto simp: rejected_def bindS_def)

lemma ignored_run: "\<exists>p. ignored outcome w = (Inr (empty_reply 204), w\<lparr>aw_pipe := p\<rparr>) \<and> pp_db p = pp_db (aw_pipe w)"
  using count_app_run[of "inc1 ''webhooks'' [u outcome]" w] by (auto simp: ignored_def bindS_def)

text \<open>C7: only authentic webhooks have effects: if a call changes the database or the queue, or is answered without an
  error, the signature header is the HMAC of the body under the webhook secret.\<close>

theorem webhook_effects_signed:
  assumes "github_webhook A Q body event delivery signature w = (r, w')"
    and "pp_db (aw_pipe w') \<noteq> pp_db (aw_pipe w) \<or> aw_queue w' \<noteq> aw_queue w \<or> (\<exists>x. r = Inr x)"
  shows "\<exists>key. utf8_encode (st_webhook_secret (au_settings A)) = Inr key
    \<and> signature = Some (u ''sha256='' @ hexdigest (hmac_sha256 key body))"
proof (cases "verify_github_signature body signature (st_webhook_secret (au_settings A))")
  case (Inl e)
  have "pp_db (aw_pipe w') = pp_db (aw_pipe w) \<and> aw_queue w' = aw_queue w \<and> (\<exists>e. r = Inl e)"
  proof (cases "\<exists>m. e = InvalidSignatureError m")
    case True
    then obtain m where m: "e = InvalidSignatureError m" by blast
    then have "github_webhook A Q body event delivery signature w = rejected ''invalid_signature'' 401 m w"
      using Inl by (simp add: github_webhook_def tryElseS_def)
    with assms(1) have r: "(r, w') = rejected ''invalid_signature'' 401 m w" by simp
    obtain p where "rejected ''invalid_signature'' 401 m w = (Inl (HTTPException 401 m) :: exn + reply, w\<lparr>aw_pipe := p\<rparr>)"
      "pp_db p = pp_db (aw_pipe w)" using rejected_run by blast
    with r show ?thesis by simp
  next
    case False
    with Inl have "github_webhook A Q body event delivery signature w = (Inl e, w)"
      by (cases e) (auto simp: github_webhook_def tryElseS_def)
    with assms(1) show ?thesis by auto
  qed
  with assms(2) show ?thesis by auto
next
  case (Inr x)
  then show ?thesis using signature_exact by auto
qed

definition sample_state :: "redis app_state" where
  "sample_state = \<lparr>aw_pipe = sample_auth_pipe\<lparr>pp_db := sample_db Sqlite\<rparr>, aw_queue = redis_new\<rparr>"

definition sample_signature :: "pystr option" where
  "sample_signature = Some (u ''sha256='' @ hexdigest (hmac_sha256 (u ''development-secret'') []))"

lemma sample_secret: "utf8_encode (st_webhook_secret (au_settings sample_auth)) = Inr (u ''development-secret'')"
  by (simp add: sample_auth_def default_settings_def ascii_utf8 is_ascii_def u_def)

theorem webhook_effects_signed_witness:
  "\<exists>x w' key. github_webhook sample_auth redis_app_queue [] (Some (u ''ping'')) None sample_signature sample_state = (Inr x, w')
    \<and> utf8_encode (st_webhook_secret (au_settings sample_auth)) = Inr key
    \<and> sample_signature = Some (u ''sha256='' @ hexdigest (hmac_sha256 key []))"
proof -
  have "verify_github_signature [] sample_signature (st_webhook_secret (au_settings sample_auth)) = Inr ()"
    unfolding signature_exact sample_signature_def using sample_secret by blast
  then have "github_webhook sample_auth redis_app_queue [] (Some (u ''ping'')) None sample_signature sample_state
      = ignored ''ignored_event'' sample_state"
    by (simp add: github_webhook_def tryElseS_def u_def)
  then obtain w' where "github_webhook sample_auth redis_app_queue [] (Some (u ''ping'')) None sample_signature sample_state
      = (Inr (empty_reply 204), w')" using ignored_run by metis
  with webhook_effects_signed[OF this] show ?thesis by auto
qed

section \<open>Accepted runs\<close>

text \<open>Programs that keep a property of the state, whatever they return, and give another one when they succeed.\<close>

definition keeps :: "('s \<Rightarrow> bool) \<Rightarrow> ('s, 'a) prog \<Rightarrow> ('a \<Rightarrow> 's \<Rightarrow> bool) \<Rightarrow> bool" where
  "keeps I m R \<longleftrightarrow> (\<forall>s. I s \<longrightarrow> I (snd (m s)) \<and> (\<forall>a. fst (m s) = Inr a \<longrightarrow> R a (snd (m s))))"

named_theorems keeps_intros

lemma keeps_ret [keeps_intros]: "(\<And>s. I s \<Longrightarrow> R a s) \<Longrightarrow> keeps I (retS a) R"
  by (simp add: keeps_def)

lemma keeps_raise [keeps_intros]: "keeps I (raiseS e) R"
  by (simp add: keeps_def)

lemma keeps_lift [keeps_intros]: "keeps I (liftS r) (\<lambda>_ _. True)"
  by (simp add: keeps_def)

lemma keeps_try:
  assumes "keeps I m (\<lambda>_ _. True)" "\<And>e. keeps I (h e) R" "\<And>a. keeps I (f a) R"
  shows "keeps I (tryElseS m h f) R"
  unfolding keeps_def
proof (intro allI impI)
  fix s assume "I s"
  obtain r t where m: "m s = (r, t)" by (cases "m s")
  with assms(1) \<open>I s\<close> have "I t" by (auto simp: keeps_def)
  with assms(2,3) m show "I (snd (tryElseS m h f s)) \<and> (\<forall>a. fst (tryElseS m h f s) = Inr a \<longrightarrow> R a (snd (tryElseS m h f s)))"
    by (cases r) (simp_all add: tryElseS_def keeps_def)
qed

lemma keeps_bind: "keeps I m (\<lambda>_ _. True) \<Longrightarrow> (\<And>a. keeps I (f a) R) \<Longrightarrow> keeps I (bindS m f) R"
  unfolding bindS_eq by (rule keeps_try) (auto intro: keeps_raise)

lemma keeps_if [keeps_intros]: "keeps I m R \<Longrightarrow> keeps I n R \<Longrightarrow> keeps I (if b then m else n) R"
  by simp

lemma keeps_pure: "(\<And>s. I (snd (m s)) = I s) \<Longrightarrow> keeps I m (\<lambda>_ _. True)"
  by (simp add: keeps_def)

text \<open>The runs that wait in the database, and how the operations of the webhook change them.\<close>

definition queued_runs :: "db \<Rightarrow> int set" where
  "queued_runs d = rq_run_id ` set (queued_requests d)"

lemma in_queued_runs: "i \<in> queued_runs d \<longleftrightarrow>
    (\<exists>r \<in> set (db_analyses d). a_run_id r = i \<and> a_status r = QUEUED \<and> a_installation_id r \<noteq> None)"
  unfolding queued_runs_def by (rule queued_requests_iff)

lemma queued_runs_rows:
  assumes "\<And>r. a_run_id (f r) = a_run_id r" "\<And>r. a_status (f r) = a_status r" "\<And>r. a_installation_id (f r) = a_installation_id r"
  shows "queued_runs (d\<lparr>db_analyses := map f (db_analyses d)\<rparr>) = queued_runs d"
  using assms by (auto simp: set_eq_iff in_queued_runs)

lemma queued_runs_followup: "queued_runs (snd (record_followup_run now q d)) = queued_runs d"
  by (simp add: record_followup_run_def Let_def sql_update_def queued_runs_rows set_resolution_def split: option.split)

lemma queued_runs_create:
  "create_if_absent r d = (b, d') \<Longrightarrow> queued_runs d' =
     (if b \<and> ar_status r = QUEUED \<and> ar_installation_id r \<noteq> None then insert (ar_run_id r) (queued_runs d) else queued_runs d)"
proof -
  assume *: "create_if_absent r d = (b, d')"
  have "i \<in> queued_runs (d\<lparr>db_analyses := db_analyses d @ [x]\<rparr>) \<longleftrightarrow>
      i \<in> queued_runs d \<or> a_run_id x = i \<and> a_status x = QUEUED \<and> a_installation_id x \<noteq> None" for i x
    by (auto simp: in_queued_runs)
  moreover have "a_status (row_of_record r) = ar_status r" "a_installation_id (row_of_record r) = ar_installation_id r"
    by (simp_all add: row_of_record_def)
  ultimately show ?thesis using * by (auto simp: create_if_absent_def split: if_splits)
qed

lemma store_get_run_id: "store_get i ids d = Some r \<Longrightarrow> ar_run_id r = i"
  by (auto simp: store_get_def sql_select_def to_record_def split: if_splits option.splits dest!: first_row_in)

lemma store_get_queued:
  assumes "wf_db d"
  shows "i \<in> queued_runs d \<longleftrightarrow> (\<exists>rq. Option.bind (store_get i None d) request_of_record = Some rq \<and> rq_run_id rq = i)"
proof -
  have keyed: "keyed a_run_id (db_analyses d)" using assms by (simp add: wf_defs)
  show ?thesis
  proof (cases "first_row (filter (\<lambda>r. a_run_id r = i) (db_analyses d))")
    case None
    then have "\<forall>r \<in> set (db_analyses d). a_run_id r \<noteq> i" by (simp add: filter_empty_conv)
    then show ?thesis by (auto simp: in_queued_runs store_get_def sql_select_def installation_in_def filter_empty_conv)
  next
    case (Some r)
    then have r: "r \<in> set (db_analyses d)" "a_run_id r = i" using keyed_find_iff[OF keyed] by auto
    then have one: "x = r" if "x \<in> set (db_analyses d)" "a_run_id x = i" for x
      using keyed that by (auto simp: keyed_def distinct_map inj_on_def)
    have "store_get i None d = Some (to_record d r (stage_history d [i] i))"
      using Some by (simp add: store_get_def sql_select_def installation_in_def)
    moreover have "i \<in> queued_runs d \<longleftrightarrow> a_status r = QUEUED \<and> a_installation_id r \<noteq> None"
      unfolding in_queued_runs using r one by blast
    ultimately show ?thesis using r(2) by (auto simp: request_of_record_def to_record_def)
  qed
qed

text \<open>
  A queue of the service whose operations are the given ones; a state in which every analysis that waits in the
  database is in the queue or being worked on; an answer that keeps its word.
\<close>

definition served_by :: "(AnalysisRequest \<Rightarrow> 'q \<Rightarrow> exn + bool \<times> 'q) \<Rightarrow> ('q \<Rightarrow> nat) \<Rightarrow> 'q app_queue \<Rightarrow> bool" where
  "served_by enq len Q \<longleftrightarrow> aq_enqueue Q = enq \<and> aq_size Q = (\<lambda>q. Inr (len q))"

definition backed :: "('q \<Rightarrow> bool) \<Rightarrow> ('q \<Rightarrow> int set) \<Rightarrow> 'q app_state \<Rightarrow> bool" where
  "backed ok known w \<longleftrightarrow> ok (aw_queue w) \<and> wf_db (pp_db (aw_pipe w)) \<and> queued_runs (pp_db (aw_pipe w)) \<subseteq> known (aw_queue w)"

definition honest :: "('q \<Rightarrow> int set) \<Rightarrow> reply \<Rightarrow> 'q app_state \<Rightarrow> bool" where
  "honest known r w \<longleftrightarrow> (rp_status r = 202 \<longrightarrow> (\<exists>b i. rp_body r = JObj [(u ''accepted'', JBool b), (u ''run_id'', JInt i)]
     \<and> (b \<longrightarrow> i \<in> queued_runs (pp_db (aw_pipe w)) \<and> i \<in> known (aw_queue w))))"

lemma read_run_event_db: "pp_db (snd (read_run_event A run p)) = pp_db p"
proof -
  have now: "keeps (\<lambda>s. pp_db s = pp_db p) utc_now (\<lambda>_ _. True)" by (rule keeps_pure) (simp add: utc_now_def)
  have "keeps (\<lambda>s. pp_db s = pp_db p) (workflow_run_completed_at v) (\<lambda>_ _. True)" for v
    unfolding workflow_run_completed_at_def
    by (cases v) (auto intro!: keeps_bind keeps_intros now split: datetime.split)
  then have "keeps (\<lambda>s. pp_db s = pp_db p) (read_run_event A run) (\<lambda>_ _. True)"
    unfolding read_run_event_def Let_def by (intro keeps_bind keeps_intros) simp_all
  then show ?thesis by (simp add: keeps_def)
qed

lemma keeps_followup:
  "keeps (backed ok known) (on_pipe (on_store (\<lambda>now d. Inr (record_followup_run now q d)))) (\<lambda>_ _. True)"
  unfolding keeps_def
proof (intro allI impI conjI TrueI)
  fix w assume w: "backed ok known w"
  let ?r = "record_followup_run (pp_now (aw_pipe w) (pp_nows (aw_pipe w))) q (pp_db (aw_pipe w))"
  obtain m d where r: "?r = (m, d)" by (cases ?r)
  have "wf_db d" "queued_runs d = queued_runs (pp_db (aw_pipe w))"
    using w wf_followup queued_runs_followup r by (metis backed_def snd_conv)+
  with w show "backed ok known (snd (on_pipe (on_store (\<lambda>now d. Inr (record_followup_run now q d))) w))"
    by (simp add: on_pipe_def on_store_def Let_def r backed_def)
qed

context analysis_queue
begin

lemma enqueue_existing_run:
  assumes "served_by enqueue qsize Q" "invar (aw_queue w)"
  shows "\<exists>p q b. enqueue_existing Q existing w = (Inr b, w\<lparr>aw_pipe := p, aw_queue := q\<rparr>) \<and> pp_db p = pp_db (aw_pipe w) \<and> invar q
    \<and> (case Option.bind existing request_of_record of
        None \<Rightarrow> \<not> b \<and> q = aw_queue w
      | Some rq \<Rightarrow> ids q = insert (rq_run_id rq) (ids (aw_queue w)) \<and> (\<not> b \<longrightarrow> q = aw_queue w))"
proof (cases "Option.bind existing request_of_record")
  case None
  then show ?thesis
    by (intro exI[of _ "aw_pipe w"] exI[of _ "aw_queue w"] exI[of _ False]) (simp add: enqueue_existing_def assms(2))
next
  case (Some rq)
  obtain b q where e: "enqueue rq (aw_queue w) = Inr (b, q)" "invar q" "ids q = insert (rq_run_id rq) (ids (aw_queue w))"
    "b \<longleftrightarrow> rq_run_id rq \<notin> ids (aw_queue w)"
    using enqueue_total[OF assms(2), of rq] by blast
  have same: "\<not> b \<Longrightarrow> q = aw_queue w" using e enqueue_known[of rq "aw_queue w"] by auto
  let ?w = "w\<lparr>aw_queue := q\<rparr>"
  obtain p where "count_app (set_gauge ''queue_depth'' (of_nat (qsize q))) ?w = (Inr (), ?w\<lparr>aw_pipe := p\<rparr>)" "pp_db p = pp_db (aw_pipe w)"
    using count_app_run[of "set_gauge ''queue_depth'' (of_nat (qsize q))" ?w] by auto
  then have "enqueue_existing Q existing w = (Inr b, w\<lparr>aw_pipe := p, aw_queue := q\<rparr>)"
    using Some e(1) assms(1) by (simp add: enqueue_existing_def bindS_def tryElseS_def on_queue_def served_by_def)
  with Some e(2,3) same \<open>pp_db p = pp_db (aw_pipe w)\<close> show ?thesis
    by (intro exI[of _ p] exI[of _ q] exI[of _ b]) simp
qed

lemma store_and_enqueue_keeps:
  assumes "served_by enqueue qsize Q" "ar_status r = QUEUED" "ar_installation_id r \<noteq> None"
  shows "keeps (backed invar ids) (store_and_enqueue Q r) (honest ids)"
  unfolding keeps_def
proof (intro allI impI)
  fix w assume w: "backed invar ids w"
  let ?d = "pp_db (aw_pipe w)"
  obtain created d' where c: "create_if_absent r ?d = (created, d')" by force
  have d': "wf_db d'" "queued_runs d' = (if created then insert (ar_run_id r) (queued_runs ?d) else queued_runs ?d)"
    using w wf_create[of ?d r] queued_runs_create[OF c] assms(2,3) by (auto simp: c backed_def)
  define existing where "existing = (if created then Some r else store_get (ar_run_id r) None d')"
  have ex: "ar_run_id r \<in> queued_runs d' \<longleftrightarrow> (\<exists>rq. Option.bind existing request_of_record = Some rq \<and> rq_run_id rq = ar_run_id r)"
    using store_get_queued[OF d'(1)] d'(2) assms(2,3) by (auto simp: existing_def request_of_record_def)
  have run: "Option.bind existing request_of_record = Some rq \<Longrightarrow> rq_run_id rq = ar_run_id r" for rq
    by (auto simp: existing_def request_of_record_def bind_eq_Some_conv dest: store_get_run_id split: if_splits)
  obtain w0 where w0: "on_pipe (on_store (\<lambda>_ d. Inr (create_if_absent r d))) w = (Inr created, w0)"
    "aw_queue w0 = aw_queue w" "pp_db (aw_pipe w0) = d'"
    by (simp add: on_pipe_def on_store_def Let_def c)
  have "\<exists>w1. (if created then retS (Some r) else on_pipe (on_store (\<lambda>_ d. Inr (store_get (ar_run_id r) None d, d)))) w0
      = (Inr existing, w1) \<and> aw_queue w1 = aw_queue w \<and> pp_db (aw_pipe w1) = d'"
    using w0(2,3) by (cases created) (auto simp: existing_def on_pipe_def on_store_def Let_def)
  then obtain w1 where w1: "aw_queue w1 = aw_queue w" "pp_db (aw_pipe w1) = d'"
    "(if created then retS (Some r) else on_pipe (on_store (\<lambda>_ d. Inr (store_get (ar_run_id r) None d, d)))) w0 = (Inr existing, w1)"
    by blast
  note start = store_and_enqueue_def
    bindS_success[where m = "on_pipe (on_store (\<lambda>_ d. Inr (create_if_absent r d)))", OF w0(1)]
    bindS_success[where m = "if created then retS (Some r) else on_pipe (on_store (\<lambda>_ d. Inr (store_get (ar_run_id r) None d, d)))", OF w1(3)]
  have "invar (aw_queue w1)" using w w1(1) by (simp add: backed_def)
  from enqueue_existing_run[OF assms(1) this, of existing]
  obtain p q b where e: "enqueue_existing Q existing w1 = (Inr b, w1\<lparr>aw_pipe := p, aw_queue := q\<rparr>)" "pp_db p = d'" "invar q"
    "case Option.bind existing request_of_record of None \<Rightarrow> \<not> b \<and> q = aw_queue w
      | Some rq \<Rightarrow> ids q = insert (rq_run_id rq) (ids (aw_queue w)) \<and> (\<not> b \<longrightarrow> q = aw_queue w)"
    unfolding w1(1,2) by blast
  have known: "queued_runs d' \<subseteq> ids q" "b \<Longrightarrow> ar_run_id r \<in> queued_runs d'"
    using ex e(4) d'(2) w run
    by (auto simp: backed_def split: option.splits if_splits)
  obtain p2 where "store_and_enqueue Q r w = (Inr ((empty_reply 202)\<lparr>rp_body := JObj [(u ''accepted'', JBool (created \<or> b)),
      (u ''run_id'', JInt (ar_run_id r))]\<rparr>), w1\<lparr>aw_queue := q, aw_pipe := p2\<rparr>)" "pp_db p2 = d'"
    using count_app_run[of "inc1 ''webhooks'' [u (if created then ''accepted'' else if b then ''recovered'' else ''duplicate'')]"
        "w1\<lparr>aw_pipe := p, aw_queue := q\<rparr>"] e(2)
    unfolding start bindS_success[where m = "enqueue_existing Q existing", OF e(1)] by (auto simp: bindS_def)
  with known d' e(3) show "backed invar ids (snd (store_and_enqueue Q r w)) \<and>
    (\<forall>a. fst (store_and_enqueue Q r w) = Inr a \<longrightarrow> honest ids a (snd (store_and_enqueue Q r w)))"
    by (auto simp: backed_def honest_def)
qed

lemma backed_pipe:
  assumes "\<And>p. pp_db (snd (m p)) = pp_db p"
  shows "keeps (backed invar ids) (on_pipe m) (\<lambda>_ _. True)"
proof (rule keeps_pure)
  fix w show "backed invar ids (snd (on_pipe m w)) = backed invar ids w"
    using assms[of "aw_pipe w"] by (cases "m (aw_pipe w)") (simp add: on_pipe_def backed_def)
qed

lemma backed_count [keeps_intros]: "keeps (backed invar ids) (count_app f) (\<lambda>_ _. True)"
  unfolding count_app_def by (rule backed_pipe) (simp add: count_up_def on_metrics_prog_def on_web_def split: prod.split)

lemma backed_rejected [keeps_intros]: "keeps (backed invar ids) (rejected outcome code detail) R"
  unfolding rejected_def by (intro keeps_bind keeps_intros)

lemma backed_ignored [keeps_intros]: "keeps (backed invar ids) (ignored outcome) (honest ids)"
  unfolding ignored_def by (intro keeps_bind keeps_intros) (simp add: honest_def empty_reply_def)

lemma backed_now [keeps_intros]: "keeps (backed invar ids) (on_pipe utc_now) (\<lambda>_ _. True)"
  by (rule backed_pipe) (simp add: utc_now_def)

lemma backed_read_run_event [keeps_intros]: "keeps (backed invar ids) (on_pipe (read_run_event A run)) (\<lambda>_ _. True)"
  by (rule backed_pipe) (rule read_run_event_db)

lemma backed_followup [keeps_intros]:
  "keeps (backed invar ids) (on_pipe (on_store (\<lambda>now d. Inr (record_followup_run now q d)))) (\<lambda>_ _. True)"
  by (rule keeps_followup)

lemma accept_run_keeps:
  assumes "served_by enqueue qsize Q"
  shows "keeps (backed invar ids) (accept_run A Q delivery payload run repository e) (honest ids)"
  unfolding accept_run_def
  by (intro keeps_bind keeps_intros store_and_enqueue_keeps[OF assms]) (simp_all add: new_record_def)

lemma completed_run_keeps:
  assumes "served_by enqueue qsize Q"
  shows "keeps (backed invar ids) (completed_run A Q delivery payload run repository conclusion) (honest ids)"
  unfolding completed_run_def bad_payload_def
  by (intro keeps_bind keeps_try keeps_intros accept_run_keeps[OF assms]) simp_all

lemma webhook_keeps:
  assumes "served_by enqueue qsize Q"
  shows "keeps (backed invar ids) (github_webhook A Q body event delivery signature) (honest ids)"
  unfolding github_webhook_def bad_payload_def
proof (intro keeps_try keeps_intros)
  show "keeps (backed invar ids) (case e of InvalidSignatureError m \<Rightarrow> rejected ''invalid_signature'' 401 m | _ \<Rightarrow> raiseS e) (honest ids)" for e
    by (cases e) (simp_all add: keeps_intros)
  show "keeps (backed invar ids) (case x of (payload, run, repository) \<Rightarrow> bindL (event_conclusion payload run) (\<lambda>conclusion.
      case conclusion of None \<Rightarrow> ignored ''ignored_run''
      | Some c \<Rightarrow> completed_run A Q (the delivery) payload run repository c)) (honest ids)" for x
    by (cases x) (auto intro!: keeps_bind keeps_intros completed_run_keeps[OF assms] split: option.split)
qed

text \<open>What enqueuing a list of requests adds: those that the queue does not know, in their order.\<close>

lemma enqueue_all_run:
  assumes "served_by enqueue qsize Q" "invar (aw_queue w)" "distinct (map rq_run_id rs)"
  shows "\<exists>q. enqueue_all Q rs n w = (Inr (n + length (filter (\<lambda>r. rq_run_id r \<notin> ids (aw_queue w)) rs)), w\<lparr>aw_queue := q\<rparr>)
    \<and> invar q \<and> ids q = ids (aw_queue w) \<union> rq_run_id ` set rs
    \<and> waiting q = waiting (aw_queue w) @ map new_envelope (filter (\<lambda>r. rq_run_id r \<notin> ids (aw_queue w)) rs)"
  using assms(2,3)
proof (induction rs arbitrary: w n)
  case Nil
  then show ?case by (intro exI[of _ "aw_queue w"]) simp
next
  case (Cons r rs)
  obtain b q where e: "enqueue r (aw_queue w) = Inr (b, q)" "invar q" "ids q = insert (rq_run_id r) (ids (aw_queue w))"
    "b \<longleftrightarrow> rq_run_id r \<notin> ids (aw_queue w)"
    "waiting q = waiting (aw_queue w) @ (if rq_run_id r \<in> ids (aw_queue w) then [] else [new_envelope r])"
    using enqueue_total[OF Cons.prems(1), of r] by blast
  have "filter (\<lambda>x. rq_run_id x \<noteq> rq_run_id r \<and> rq_run_id x \<notin> ids (aw_queue w)) rs
      = filter (\<lambda>x. rq_run_id x \<notin> ids (aw_queue w)) rs"
    using Cons.prems(2) by (intro filter_cong) (auto simp: image_iff)
  then have f: "filter (\<lambda>x. rq_run_id x \<notin> ids q) rs = filter (\<lambda>x. rq_run_id x \<notin> ids (aw_queue w)) rs"
    using e(3) by simp
  have "enqueue_all Q (r # rs) n w = enqueue_all Q rs (if b then n + 1 else n) (w\<lparr>aw_queue := q\<rparr>)"
    using e(1) assms(1) by (simp add: bindS_def on_queue_def served_by_def)
  moreover obtain q' where "enqueue_all Q rs (if b then n + 1 else n) (w\<lparr>aw_queue := q\<rparr>)
      = (Inr ((if b then n + 1 else n) + length (filter (\<lambda>r. rq_run_id r \<notin> ids q) rs)), w\<lparr>aw_queue := q'\<rparr>)"
    "invar q'" "ids q' = ids q \<union> rq_run_id ` set rs"
    "waiting q' = waiting q @ map new_envelope (filter (\<lambda>r. rq_run_id r \<notin> ids q) rs)"
    using Cons.IH[of "w\<lparr>aw_queue := q\<rparr>" "if b then n + 1 else n"] e(2) Cons.prems(2) by auto
  ultimately show ?case using e(3-5) f by (intro exI[of _ q']) auto
qed

lemma reconcile_run:
  assumes "served_by enqueue qsize Q" "invar (aw_queue w)" "wf_db (pp_db (aw_pipe w))"
  shows "\<exists>w'. reconcile_queued_analyses Q w = (Inr (card (queued_runs (pp_db (aw_pipe w)) - ids (aw_queue w))), w')
    \<and> pp_db (aw_pipe w') = pp_db (aw_pipe w) \<and> backed invar ids w' \<and> ids (aw_queue w') = ids (aw_queue w) \<union> queued_runs (pp_db (aw_pipe w))
    \<and> waiting (aw_queue w') = waiting (aw_queue w)
        @ map new_envelope (filter (\<lambda>r. rq_run_id r \<notin> ids (aw_queue w)) (queued_requests (pp_db (aw_pipe w))))"
proof -
  let ?d = "pp_db (aw_pipe w)" and ?new = "filter (\<lambda>r. rq_run_id r \<notin> ids (aw_queue w)) (queued_requests (pp_db (aw_pipe w)))"
  have dist: "distinct (map rq_run_id (queued_requests ?d))" by (rule queued_requests_distinct[OF assms(3)])
  have "rq_run_id ` set ?new = queued_runs ?d - ids (aw_queue w)" by (auto simp: queued_runs_def)
  moreover have "card (rq_run_id ` set ?new) = length ?new"
    using distinct_map_filter[OF dist] by (metis distinct_card length_map set_map)
  ultimately have n: "length ?new = card (queued_runs ?d - ids (aw_queue w))" by simp
  obtain w0 where w0: "on_pipe (on_store (\<lambda>_ d. Inr (queued_requests d, d))) w = (Inr (queued_requests ?d), w0)"
    "aw_queue w0 = aw_queue w" "pp_db (aw_pipe w0) = ?d"
    by (simp add: on_pipe_def on_store_def Let_def)
  have "invar (aw_queue w0)" using assms(2) w0(2) by simp
  from enqueue_all_run[OF assms(1) this dist, of 0] w0 n
  show ?thesis unfolding reconcile_queued_analyses_def
      bindS_success[where m = "on_pipe (on_store (\<lambda>_ d. Inr (queued_requests d, d)))", OF w0(1)]
    using assms(3) by (auto simp: backed_def queued_runs_def)
qed

end

lemma app_queues: "served_by redis_enqueue redis_size redis_app_queue" "served_by mem_enqueue mem_size mem_app_queue"
  by (simp_all add: served_by_def redis_app_queue_def mem_app_queue_def)




end
