(* ===== verification/Access_Props.thy ===== *)
theory Access_Props
  imports Main_Props
begin

text \<open>
  Who sees which analyses through the HTTP service: the composition of sessions, the installations GitHub
  reports and the restricted queries of the store.
\<close>

section \<open>What a request is granted\<close>

text \<open>
  The installations a request may see: all of them when the service runs without logins; otherwise those that GitHub
  lists for the access token of the valid session the cookie names.
\<close>

definition granted :: "auth_service \<Rightarrow> pystr option \<Rightarrow> pipe \<Rightarrow> int set option \<Rightarrow> bool" where
  "granted A cookie p ids \<longleftrightarrow> (if \<not> st_auth_required (au_settings A) then ids = None
     else \<exists>t h sn raw v xs. cookie = Some t \<and> hash_token t = Inr h \<and> valid_session A p h sn
       \<and> user_installations (au_github A) (JStr (sn_access_token sn)) (pp_web p) = (Inr raw, v)
       \<and> mapE (read_installation (au_github A)) raw = Inr xs \<and> ids = Some (gi_installation_id ` set xs))"

text \<open>What authentication leaves alone: the network, and everything in the database but the sessions.\<close>

abbreviation same_outside :: "pipe \<Rightarrow> pipe \<Rightarrow> bool" where
  "same_outside p s \<equiv> pp_web s = pp_web p \<and> (\<exists>x. pp_db s = (pp_db p)\<lparr>db_auth_sessions := x\<rparr>)"

lemma keeps_outside:
  assumes "\<And>now d. \<exists>r x. f now d = Inr (r, d\<lparr>db_auth_sessions := x\<rparr>)"
  shows "keeps (same_outside p) (on_store f) (\<lambda>_ _. True)"
  unfolding keeps_def
proof (intro allI impI conjI)
  fix s assume s: "same_outside p s"
  obtain r x where "f (pp_now s (pp_nows s)) (pp_db s) = Inr (r, (pp_db s)\<lparr>db_auth_sessions := x\<rparr>)" using assms by metis
  with s show "pp_web (snd (on_store f s)) = pp_web p" "\<exists>x. pp_db (snd (on_store f s)) = (pp_db p)\<lparr>db_auth_sessions := x\<rparr>"
    by (auto simp: on_store_def Let_def)
qed simp

lemma keeps_outside_ops:
  "keeps (same_outside p) (on_store (\<lambda>_ d. Inr (g d, d))) (\<lambda>_ _. True)" "keeps (same_outside p) (drop_session h) (\<lambda>_ _. True)"
  "keeps (same_outside p) (on_store_unit (\<lambda>_ d. Inr (update_auth_session_token h tok d))) (\<lambda>_ _. True)"
  "keeps (same_outside p) utc_now (\<lambda>_ _. True)" "keeps (same_outside p) fresh_salt (\<lambda>_ _. True)"
proof -
  have "\<exists>x. d = d\<lparr>db_auth_sessions := x\<rparr>" for d :: db by (rule exI[of _ "db_auth_sessions d"]) simp
  then show "keeps (same_outside p) (on_store (\<lambda>_ d. Inr (g d, d))) (\<lambda>_ _. True)" by (intro keeps_outside) auto
  show "keeps (same_outside p) (drop_session h) (\<lambda>_ _. True)"
    "keeps (same_outside p) (on_store_unit (\<lambda>_ d. Inr (update_auth_session_token h tok d))) (\<lambda>_ _. True)"
    unfolding drop_session_def on_store_unit_def
    by (rule keeps_outside, auto simp: delete_auth_session_def update_auth_session_token_def)+
  show "keeps (same_outside p) utc_now (\<lambda>_ _. True)" "keeps (same_outside p) fresh_salt (\<lambda>_ _. True)"
    by (rule keeps_pure, simp add: utc_now_def fresh_salt_def)+
qed

lemma authenticate_frame: "same_outside p (snd (authenticate A c p))"
proof -
  have "keeps (same_outside p) (open_token A h tok) (\<lambda>_ _. True)" for h tok
    unfolding open_token_def by (auto intro!: keeps_bind keeps_intros keeps_outside_ops split: option.split)
  then have "keeps (same_outside p) (authenticate A c) (\<lambda>_ _. True)"
    unfolding authenticate_def by (auto intro!: keeps_bind keeps_intros keeps_outside_ops split: option.split sum.split)
  moreover have "same_outside p p" by (rule conjI[OF refl exI[of _ "db_auth_sessions (pp_db p)"]]) simp
  ultimately show ?thesis unfolding keeps_def by blast
qed

lemma analysis_access_granted:
  assumes "analysis_access A cookie p = (Inr ids, p')" "fernet_laws (au_fernet A)" "au_keys A \<noteq> []"
  shows "granted A cookie p ids"
proof (cases "st_auth_required (au_settings A)")
  case True
  from assms(1) True obtain sn p1 xs where a: "authenticate A cookie p = (Inr (Some sn), p1)"
    "session_installations A sn p1 = (Inr xs, p')" "ids = Some (gi_installation_id ` set xs)"
    by (auto simp: analysis_access_def require_session_def bindS_run split: option.splits)
  have w: "pp_web p1 = pp_web p" using authenticate_frame[where p = p and A = A and c = cookie] a(1) by simp
  have "truthy cookie"
  proof (rule ccontr)
    assume "\<not> truthy cookie"
    with a(1) show False by (simp add: authenticate_def)
  qed
  then obtain t where t: "cookie = Some t" "t \<noteq> []" by (cases cookie) (auto simp: truthy_def)
  from session_checked[OF a(1)[unfolded t(1)] t(2) assms(2,3)] obtain h where "hash_token t = Inr h" "valid_session A p h sn" by auto
  moreover from a(2) w obtain raw v where "user_installations (au_github A) (JStr (sn_access_token sn)) (pp_web p) = (Inr raw, v)"
    "mapE (read_installation (au_github A)) raw = Inr xs"
    by (auto simp: session_installations_def sync_installations_def bindS_run on_web_def split: prod.splits)
  ultimately show ?thesis using True t(1) a(3) by (auto simp: granted_def)
qed (use assms(1) in \<open>simp add: analysis_access_def granted_def\<close>)

section \<open>Analyses\<close>

abbreviation owned_by :: "int set option \<Rightarrow> int option \<Rightarrow> bool" where
  "owned_by ids i \<equiv> (case ids of None \<Rightarrow> True | Some S \<Rightarrow> (case i of None \<Rightarrow> False | Some k \<Rightarrow> k \<in> S))"

lemma store_get_owned: "store_get i ids d = Some r \<Longrightarrow> owned_by ids (ar_installation_id r)"
  by (auto simp: store_get_def sql_select_def installation_in_def to_record_def
      split: if_splits option.splits dest!: first_row_in)

lemma list_page_owned: "r \<in> set (page_records (list_page limit ids lf c d)) \<Longrightarrow> owned_by ids (ar_installation_id r)"
  using list_page_access[of _ limit lf c d] by (cases ids) (fastforce simp: list_all_iff)+

lemma save_feedback_owned:
  "save_feedback now i f ids d = (Some r, d') \<Longrightarrow> \<exists>x \<in> set (db_analyses d). a_run_id x = i \<and> owned_by ids (a_installation_id x)"
  by (auto simp: save_feedback_def sql_select_def installation_in_def filter_empty_conv split: if_splits option.splits)

lemma save_feedback_analyses: "db_analyses (snd (save_feedback now i f ids d)) = db_analyses d"
  by (simp add: save_feedback_def Let_def)

lemma count_up_db: "count_up f p = (r, p') \<Longrightarrow> pp_db p' = pp_db p"
  by (auto simp: count_up_def on_metrics_prog_def on_web_def split: prod.splits)

text \<open>C6: analyses are shown, and feedback on them is taken, only where access is granted: every record that a lookup or a listing
  returns belongs to an installation that GitHub reports, at this request, for the access token of the valid session
  that the cookie names (or the service runs without logins), and so does every analysis that gets feedback.\<close>

theorem analyses_only_to_members:
  assumes "fernet_laws (au_fernet A)" "au_keys A \<noteq> []"
  shows "(\<forall>r p'. get_analysis A cookie i p = (Inr r, p') \<longrightarrow> (\<exists>ids. granted A cookie p ids \<and> owned_by ids (ar_installation_id r)))
    \<and> (\<forall>rs next p'. list_analyses A float cookie limit lf cursor p = (Inr (rs, next), p') \<longrightarrow>
         (\<exists>ids. granted A cookie p ids \<and> list_all (\<lambda>r. owned_by ids (ar_installation_id r)) rs))
    \<and> (\<forall>r p'. put_analysis_feedback A cookie i f p = (Inr r, p') \<longrightarrow>
         (\<exists>ids. granted A cookie p ids \<and> list_ex (\<lambda>x. a_run_id x = i \<and> owned_by ids (a_installation_id x)) (db_analyses (pp_db p'))))"
proof (intro conjI allI impI)
  fix r p' assume "get_analysis A cookie i p = (Inr r, p')"
  then obtain ids p1 where "analysis_access A cookie p = (Inr ids, p1)" "store_get i ids (pp_db p1) = Some r"
    by (auto simp: get_analysis_def bindS_run on_store_def Let_def split: option.splits)
  with analysis_access_granted[OF _ assms] store_get_owned
  show "\<exists>ids. granted A cookie p ids \<and> owned_by ids (ar_installation_id r)" by blast
next
  fix rs "next" p' assume "list_analyses A float cookie limit lf cursor p = (Inr (rs, next), p')"
  then obtain ids p1 c where "analysis_access A cookie p = (Inr ids, p1)" "rs = page_records (list_page limit ids lf c (pp_db p1))"
    by (auto simp: list_analyses_def bindS_run on_store_def Let_def split: option.splits)
  with analysis_access_granted[OF _ assms] list_page_owned
  show "\<exists>ids. granted A cookie p ids \<and> list_all (\<lambda>r. owned_by ids (ar_installation_id r)) rs"
    unfolding list_all_iff by blast
next
  fix r p' assume "put_analysis_feedback A cookie i f p = (Inr r, p')"
  then obtain ids p1 now d where a: "analysis_access A cookie p = (Inr ids, p1)" "save_feedback now i f ids (pp_db p1) = (Some r, d)"
    "pp_db p' = d"
    by (auto simp: put_analysis_feedback_def bindS_run on_store_def Let_def split: option.splits prod.splits dest!: count_up_db)
  from save_feedback_analyses[of _ i f ids "pp_db p1"] a(2) have "db_analyses d = db_analyses (pp_db p1)" by (metis snd_conv)
  with a save_feedback_owned[OF a(2)] analysis_access_granted[OF a(1) assms]
  show "\<exists>ids. granted A cookie p ids \<and> list_ex (\<lambda>x. a_run_id x = i \<and> owned_by ids (a_installation_id x)) (db_analyses (pp_db p'))"
    by (auto simp: list_ex_iff)
qed

text \<open>A session whose user GitHub lists as a member of installation 9, on the service of the samples with logins required.\<close>

definition member_answer :: json where
  "member_answer = JObj [(u ''installations'', JArr [JObj [(u ''id'', JInt 9), (u ''account'', JObj [(u ''login'', JStr (u ''o''))])]])]"

definition member_auth :: auth_service where
  "member_auth = sample_auth\<lparr>au_settings := default_settings\<lparr>st_auth_required := True\<rparr>\<rparr>"

definition member_pipe :: pipe where
  "member_pipe = sample_auth_pipe\<lparr>pp_db := (pp_db sample_auth_pipe)\<lparr>db_analyses := [row_of_record (sample_record 1 0)]\<rparr>,
     pp_web := constant_web (Inr (json_response 200 member_answer))\<rparr>"

lemma member_sync:
  assumes "wb_server (pp_web p) = (\<lambda>_ _. Inr (json_response 200 member_answer))" "db_backend (pp_db p) = Sqlite"
  shows "\<exists>x p'. sync_installations member_auth uid a p = (Inr [x], p') \<and> gi_installation_id x = 9 \<and> db_analyses (pp_db p') = db_analyses (pp_db p)
    \<and> db_backend (pp_db p') = Sqlite"
proof -
  let ?rq = "plain_request ''GET'' (api_url @ u ''/user/installations'') (gh_headers GitHub_Props.sample_client a) (page_params 1)"
  obtain w' where w: "fetch_json GitHub_Props.sample_client ?rq (pp_web p) = (Inr member_answer, w')"
    using constant_fetch[OF assms(1)] by blast
  obtain n where n: "gh_fuel GitHub_Props.sample_client = Suc n"
    by (simp add: GitHub_Props.sample_client_def github_client_new_def)
  let ?i = "JObj [(u ''id'', JInt 9), (u ''account'', JObj [(u ''login'', JStr (u ''o''))])]"
  have "user_installations GitHub_Props.sample_client a (pp_web p) = (Inr [?i], w')"
    using w n by (simp add: user_installations_def bindS_def member_answer_def dict_get_def j_iter_def)
  moreover obtain x where "read_installation GitHub_Props.sample_client ?i = Inr x" "gi_installation_id x = 9"
    by (simp add: read_installation_def j_item_def dict_get_def field_int_def field_str_def GitHub_Props.sample_client_def
        github_client_new_def)
  ultimately show ?thesis using assms(2)
    by (auto simp: sync_installations_def bindS_def on_web_def member_auth_def sample_auth_def on_store_unit_def on_store_def
        replace_user_installations_def fk_enforced_def)
qed

lemma member_shown: "\<exists>r p'. get_analysis member_auth (Some (u ''t'')) 1 member_pipe = (Inr r, p')"
proof -
  have ok: "fernet_laws (au_fernet member_auth)" "keyed s_session_hash (db_auth_sessions (pp_db member_pipe))"
    "sample_session \<in> set (db_auth_sessions (pp_db member_pipe))" "known_user (s_github_user_id sample_session) (pp_db member_pipe)"
    "pp_now member_pipe (pp_nows member_pipe + 1) < s_expires_at sample_session" "u ''old'' \<in> set (au_keys member_auth)"
    "s_encrypted_access_token sample_session = fl_encrypt (au_fernet member_auth) (u ''old'') 0 (u ''gho'')"
    using sample_session_ok by (simp_all add: member_auth_def member_pipe_def sample_auth_def known_user_def)
  obtain sn p1 where a: "authenticate member_auth (Some (u ''t'')) member_pipe = (Inr (Some sn), p1)"
    using rotated_session[OF ok(1-5) sample_session_ok(6,7) ok(6,7) sample_session_ok(10)] by blast
  have f: "pp_web p1 = pp_web member_pipe" "\<exists>x. pp_db p1 = (pp_db member_pipe)\<lparr>db_auth_sessions := x\<rparr>"
    using authenticate_frame[where p = member_pipe and A = member_auth and c = "Some (u ''t'')"] a by simp_all
  then have p1: "wb_server (pp_web p1) = (\<lambda>_ _. Inr (json_response 200 member_answer))" "db_backend (pp_db p1) = Sqlite"
    "db_analyses (pp_db p1) = [row_of_record (sample_record 1 0)]"
    by (auto simp: member_pipe_def constant_web_def sample_auth_pipe_def initialize_def)
  obtain x p2 where p2: "sync_installations member_auth (gu_github_user_id (sn_user sn)) (JStr (sn_access_token sn)) p1 = (Inr [x], p2)"
    "gi_installation_id x = 9" "db_analyses (pp_db p2) = [row_of_record (sample_record 1 0)]"
    using member_sync[OF p1(1,2)] p1(3) by metis
  have "analysis_access member_auth (Some (u ''t'')) member_pipe = (Inr (Some {9}), p2)"
    using a p2 by (simp add: analysis_access_def require_session_def session_installations_def bindS_def member_auth_def)
  moreover have "store_get 1 (Some {9}) (pp_db p2) \<noteq> None"
    by (simp add: store_get_def sql_select_def p2(3) installation_in_def row_of_record_def sample_record_def)
  ultimately show ?thesis by (auto simp: get_analysis_def bindS_def on_store_def Let_def)
qed

theorem analyses_only_to_members_witness:
  "\<exists>r p' S. get_analysis member_auth (Some (u ''t'')) 1 member_pipe = (Inr r, p') \<and> granted member_auth (Some (u ''t'')) member_pipe (Some S)
    \<and> owned_by (Some S) (ar_installation_id r)"
proof -
  obtain r p' where r: "get_analysis member_auth (Some (u ''t'')) 1 member_pipe = (Inr r, p')" using member_shown by blast
  have "fernet_laws (au_fernet member_auth)" "au_keys member_auth \<noteq> []"
    using sample_session_ok(1) by (simp_all add: member_auth_def sample_auth_def)
  from analyses_only_to_members[OF this] r obtain ids where "granted member_auth (Some (u ''t'')) member_pipe ids"
    "owned_by ids (ar_installation_id r)" by meson
  moreover from this(1) obtain S where "ids = Some S" by (auto simp: granted_def member_auth_def)
  ultimately show ?thesis using r by blast
qed

end
