(* ===== verification/Evidence.thy ===== *)
theory Evidence
  imports Json_Bytes Sha256 PyDate Auth PyFloat
begin

text \<open>
  What the evidence verifiers under \<open>ops/\<close> share: the checks of single values, of sections of an observation and
  of timelines, the loading of the input and the exit code. Each script carries its own copy of these
  functions; the map names the copy of \<open>ops/worker/verify_soak_evidence.py\<close>, the most complete one. An
  observation is a decoded JSON object.
  JSON constants NaN and Infinity are outside the decoded values.
  Reading files and writing the result are left to the operating system.
\<close>

section \<open>Floats\<close>

text \<open>\<open>float(v)\<close> of an integer, which may be too large, and of a float, which may be infinite.\<close>

definition float_of_int :: "int \<Rightarrow> exn + rat" where
  "float_of_int i = (let x = double_of (of_int i) in if \<bar>x\<bar> \<le> max_double then Inr x else Inl overflow_error)"

definition is_finite :: "rat \<Rightarrow> bool" where
  "is_finite x \<longleftrightarrow> \<bar>x\<bar> \<le> max_double"

text \<open>The seconds between two instants, rounded to milliseconds.\<close>

definition duration_seconds :: "int \<Rightarrow> int \<Rightarrow> rat" where
  "duration_seconds start stop = round3 (double_of (of_int (stop - start) / 1000000))"

section \<open>Values\<close>

definition accepted :: "exn + 'a \<Rightarrow> bool" where
  "accepted r = (case r of Inl _ \<Rightarrow> False | Inr _ \<Rightarrow> True)"

lemma acceptedE: "accepted r \<Longrightarrow> (\<And>a. r = Inr a \<Longrightarrow> P) \<Longrightarrow> P"
  by (cases r) (auto simp: accepted_def)

type_synonym mapping = "(pystr \<times> json) list"

type_synonym checker = "json \<Rightarrow> pystr \<Rightarrow> exn + json"

definition invalid :: "pystr \<Rightarrow> string \<Rightarrow> exn + 'a" where
  "invalid label message = Inl (ValueError (label @ u message))"

definition require_mapping :: "json \<Rightarrow> pystr \<Rightarrow> exn + mapping" where
  "require_mapping v label = (case v of JObj d \<Rightarrow> Inr d | _ \<Rightarrow> invalid label '' must be a JSON object'')"

definition require_exact_keys :: "mapping \<Rightarrow> string list \<Rightarrow> pystr \<Rightarrow> exn + unit" where
  "require_exact_keys d expected label =
     (let missing = sort (remdups (filter (\<lambda>k. k \<notin> fst ` set d) (map u expected)));
          unknown = sort (remdups (filter (\<lambda>k. k \<notin> u ` set expected) (map fst d)));
          details = (if missing = [] then [] else [u ''missing '' @ join (u '', '') missing])
            @ (if unknown = [] then [] else [u ''unknown '' @ join (u '', '') unknown])
      in if details = [] then Inr () else Inl (ValueError (label @ u '' has invalid fields: '' @ join (u ''; '') details)))"

definition item :: "mapping \<Rightarrow> string \<Rightarrow> exn + json" where
  "item d k = (case map_of d (u k) of None \<Rightarrow> Inl (KeyError (u k)) | Some v \<Rightarrow> Inr v)"

text \<open>\<open>SAFE_IDENTIFIER\<close>: a letter or digit, then at most 199 letters, digits and \<open>. _ : @ # / -\<close>.\<close>

definition alphanumeric :: "nat \<Rightarrow> bool" where
  "alphanumeric c \<longleftrightarrow> 48 \<le> c \<and> c \<le> 57 \<or> 65 \<le> c \<and> c \<le> 90 \<or> 97 \<le> c \<and> c \<le> 122"

definition SAFE_IDENTIFIER :: "pystr \<Rightarrow> bool" where
  "SAFE_IDENTIFIER s = (case s of
       [] \<Rightarrow> False
     | c # cs \<Rightarrow> alphanumeric c \<and> length cs \<le> 199 \<and> list_all (\<lambda>c. alphanumeric c \<or> c \<in> set (u ''._:@#/-'')) cs)"

definition SHA256 :: "pystr \<Rightarrow> bool" where
  "SHA256 s \<longleftrightarrow> length s = 64 \<and> list_all (\<lambda>c. 48 \<le> c \<and> c \<le> 57 \<or> 97 \<le> c \<and> c \<le> 102) s"

definition safe_identifier :: checker where
  "safe_identifier v label = (case v of
       JStr s \<Rightarrow> if is_infix (u ''://'') s \<or> \<not> SAFE_IDENTIFIER s
         then invalid label '' must be a non-secret identifier of at most 200 characters'' else Inr (JStr s)
     | _ \<Rightarrow> invalid label '' must be a non-secret identifier of at most 200 characters'')"

definition require_bool :: checker where
  "require_bool v label = (case v of JBool b \<Rightarrow> Inr (JBool b) | _ \<Rightarrow> invalid label '' must be a boolean'')"

definition non_negative_int :: checker where
  "non_negative_int v label = (case v of
       JInt i \<Rightarrow> if i < 0 then invalid label '' must be a non-negative integer'' else Inr (JInt i)
     | _ \<Rightarrow> invalid label '' must be a non-negative integer'')"

definition positive_int :: checker where
  "positive_int v label = bindE (non_negative_int v label) (\<lambda>r.
     if r = JInt 0 then invalid label '' must be a positive integer'' else Inr r)"

definition non_negative_number :: checker where
  "non_negative_number v label = (let message = '' must be a non-negative finite number'' in
     bindE (case v of JInt i \<Rightarrow> float_of_int i | JFloat x \<Rightarrow> Inr (double_of x) | _ \<Rightarrow> invalid label message) (\<lambda>x.
       if \<not> is_finite x \<or> x < 0 then invalid label message else Inr (JFloat x)))"

definition positive_number :: checker where
  "positive_number v label = bindE (non_negative_number v label) (\<lambda>r.
     if r = JFloat 0 then invalid label '' must be a positive finite number'' else Inr r)"

fun number :: "json \<Rightarrow> rat" where
  "number (JFloat x) = x"
| "number (JInt i) = of_int i"
| "number _ = 0"

fun flag :: "json \<Rightarrow> bool" where
  "flag (JBool b) = b"
| "flag _ = False"

fun whole :: "json \<Rightarrow> int" where
  "whole (JInt i) = i"
| "whole _ = 0"

definition percentage :: checker where
  "percentage v label = bindE (non_negative_number v label) (\<lambda>r.
     if 100 < number r then invalid label '' must be between 0 and 100'' else Inr r)"

definition sha256_value :: checker where
  "sha256_value v label = (case v of
       JStr s \<Rightarrow> if SHA256 s then Inr (JStr s) else invalid label '' must be lowercase SHA-256''
     | _ \<Rightarrow> invalid label '' must be lowercase SHA-256'')"

section \<open>Instants\<close>

definition parse_timestamp :: "json \<Rightarrow> pystr \<Rightarrow> exn + int" where
  "parse_timestamp v label = (case v of
       JStr s \<Rightarrow> (case fromisoformat (replace (u ''Z'') (u ''+00:00'') s) of
           Inl (ValueError _) \<Rightarrow> invalid label '' must be an ISO 8601 timestamp''
         | Inl e \<Rightarrow> Inl e
         | Inr (Naive t) \<Rightarrow> invalid label '' must include a UTC offset''
         | Inr (Aware t off) \<Rightarrow> if datetime_range (t - off) then Inr (t - off) else Inl overflow_error)
     | _ \<Rightarrow> invalid label '' must be an ISO 8601 timestamp'')"

definition utc_timestamp :: "int \<Rightarrow> json" where
  "utc_timestamp t = JStr (replace (u ''+00:00'') (u ''Z'') (isoformat (Aware t 0)))"

text \<open>The label of a field.\<close>

definition dotted :: "pystr \<Rightarrow> string \<Rightarrow> pystr" where
  "dotted label k = label @ u ''.'' @ u k"

definition read_times :: "mapping \<Rightarrow> string list \<Rightarrow> pystr \<Rightarrow> exn + (string \<times> int) list" where
  "read_times d keys label = mapE (\<lambda>k. bindE (item d k) (\<lambda>v. bindE (parse_timestamp v (dotted label k)) (\<lambda>t. Inr (k, t)))) keys"

definition ordered_timestamps :: "mapping \<Rightarrow> string list \<Rightarrow> pystr \<Rightarrow> exn + (string \<times> int) list" where
  "ordered_timestamps d keys label = bindE (read_times d keys label) (\<lambda>ts.
     if sorted (map snd ts) then Inr ts else invalid label '' timestamps must be chronological'')"

definition timeline :: "(string \<times> int) list \<Rightarrow> json" where
  "timeline ts = JObj (map (\<lambda>(k, t). (u k, utc_timestamp t)) ts)"

definition time_at :: "(string \<times> int) list \<Rightarrow> string \<Rightarrow> int" where
  "time_at ts k = the (map_of ts k)"

section \<open>Sections\<close>

text \<open>A dictionary of checked fields, built in the order in which the source names them.\<close>

definition checked_fields :: "mapping \<Rightarrow> pystr \<Rightarrow> (string \<times> checker) list \<Rightarrow> exn + mapping" where
  "checked_fields d label specs =
     mapE (\<lambda>(k, check). bindE (item d k) (\<lambda>v. bindE (check v (dotted label k)) (\<lambda>r. Inr (u k, r)))) specs"

definition section_of :: "mapping \<Rightarrow> string \<Rightarrow> string list \<Rightarrow> exn + mapping" where
  "section_of observation name expected = bindE (item observation name) (\<lambda>v. bindE (require_mapping v (u name)) (\<lambda>d.
     bindE (require_exact_keys d expected (u name)) (\<lambda>_. Inr d)))"

definition field :: "mapping \<Rightarrow> string \<Rightarrow> json" where
  "field d k = dict_get JNull (u k) d"

definition schema_1 :: "mapping \<Rightarrow> exn + unit" where
  "schema_1 observation = bindE (item observation ''schema_version'') (\<lambda>v.
     if j_eq v (JInt 1) then Inr () else Inl (ValueError (u ''observation.schema_version must be 1'')))"

section \<open>Verdicts\<close>

definition checks_json :: "(string \<times> bool) list \<Rightarrow> json" where
  "checks_json checks = JObj (map (\<lambda>(k, b). (u k, JBool b)) checks)"

definition all_passed :: "(string \<times> bool) list \<Rightarrow> json" where
  "all_passed checks = JBool (list_all snd checks)"

definition evidence_passed :: "json \<Rightarrow> bool" where
  "evidence_passed ev = (case ev of JObj d \<Rightarrow> field d ''passed'' = JBool True | _ \<Rightarrow> False)"

definition MAX_INPUT_BYTES :: nat where
  "MAX_INPUT_BYTES = 1024 * 1024"

definition load_observation :: "nat list option \<Rightarrow> exn + mapping \<times> pystr" where
  "load_observation input = (case input of
       None \<Rightarrow> Inl (ValueError (u ''--input must be an existing regular file''))
     | Some raw \<Rightarrow> if \<not> (0 < length raw \<and> length raw \<le> MAX_INPUT_BYTES)
         then Inl (ValueError (u ''--input must contain between 1 byte and 1 MiB''))
         else (case loads_bytes raw of
             Inl e \<Rightarrow> if e = json_error \<or> e = unicode_decode_error
               then Inl (ValueError (u ''--input must contain UTF-8 JSON'')) else Inl e
           | Inr payload \<Rightarrow> bindE (require_mapping payload (u ''observation'')) (\<lambda>d. Inr (d, hexdigest (sha256 raw)))))"

text \<open>
  The run of a verifier: a ValueError ends it with its text as the message of SystemExit, a verdict is written and gives
  the exit code.
\<close>

datatype verifier_exit = Message pystr | Crash exn | Written json int

definition verifier_main :: "(mapping \<Rightarrow> pystr \<Rightarrow> exn + json) \<Rightarrow> bool \<Rightarrow> nat list option \<Rightarrow> verifier_exit" where
  "verifier_main compile same_path input =
     (case (if same_path then Inl (ValueError (u ''--output must not replace --input''))
            else bindE (load_observation input) (\<lambda>(observation, digest). compile observation digest)) of
        Inl (ValueError m) \<Rightarrow> Message m
      | Inl e \<Rightarrow> Crash e
      | Inr ev \<Rightarrow> Written ev (if evidence_passed ev then 0 else 1))"

section \<open>What the checks establish\<close>

text \<open>The value of a number of the observation as a float.\<close>

definition float_value :: "json \<Rightarrow> rat" where
  "float_value v = (case v of JInt i \<Rightarrow> double_of (of_int i) | JFloat x \<Rightarrow> double_of x | _ \<Rightarrow> 0)"

definition raw_field :: "mapping \<Rightarrow> string \<Rightarrow> string \<Rightarrow> json" where
  "raw_field observation name k = (case field observation name of JObj d \<Rightarrow> field d k | _ \<Rightarrow> JNull)"

definition part_of :: "mapping \<Rightarrow> string \<Rightarrow> string \<Rightarrow> mapping" where
  "part_of obs name k = (case raw_field obs name k of JObj d \<Rightarrow> d | _ \<Rightarrow> [])"

named_theorems checker_results

lemma kept_values [checker_results]:
  "require_bool v l = Inr r \<Longrightarrow> r = v" "non_negative_int v l = Inr r \<Longrightarrow> r = v" "positive_int v l = Inr r \<Longrightarrow> r = v"
  "sha256_value v l = Inr r \<Longrightarrow> r = v" "safe_identifier v l = Inr r \<Longrightarrow> r = v"
  by (auto simp: require_bool_def non_negative_int_def positive_int_def sha256_value_def safe_identifier_def invalid_def bindE_eq_Inr
      split: json.splits if_splits)

lemma number_values [checker_results]:
  "non_negative_number v l = Inr r \<Longrightarrow> number r = float_value v" "positive_number v l = Inr r \<Longrightarrow> number r = float_value v"
  "percentage v l = Inr r \<Longrightarrow> number r = float_value v"
  by (auto simp: non_negative_number_def positive_number_def percentage_def float_of_int_def float_value_def invalid_def Let_def bindE_eq_Inr
      split: json.splits if_splits)

lemma item_field: "item d k = Inr v \<Longrightarrow> field d k = v"
  by (simp add: item_def field_def dict_get_def split: option.splits)

lemma require_mapping_Inr [simp]: "require_mapping v l = Inr d \<longleftrightarrow> v = JObj d"
  by (cases v) (auto simp: require_mapping_def invalid_def)

lemma section_of_field: "section_of observation name expected = Inr d \<Longrightarrow> raw_field observation name k = field d k"
  by (auto simp: section_of_def raw_field_def bindE_eq_Inr dest!: item_field)

lemma mapE_fields:
  assumes "mapE (\<lambda>(k, check). bindE (item d k) (\<lambda>v. bindE (check v (dotted label k)) (\<lambda>r. Inr (u k, r)))) specs = Inr rs"
    and "(k, check) \<in> set specs" "distinct (map fst specs)"
  shows "check (field d k) (dotted label k) = Inr (field rs k)"
  using assms
proof (induction specs arbitrary: rs)
  case (Cons s specs)
  obtain k0 check0 where s: "s = (k0, check0)" by (cases s)
  from Cons.prems(1) s obtain v r rs' where r: "item d k0 = Inr v" "check0 v (dotted label k0) = Inr r" "rs = (u k0, r) # rs'"
    "mapE (\<lambda>(k, check). bindE (item d k) (\<lambda>v. bindE (check v (dotted label k)) (\<lambda>r. Inr (u k, r)))) specs = Inr rs'"
    by (auto simp: bindE_eq_Inr)
  show ?case
  proof (cases "k = k0")
    case True
    with Cons.prems(2,3) s have "check = check0" by (auto simp: image_iff)
    with True r item_field[OF r(1)] show ?thesis by (simp add: field_def dict_get_def)
  next
    case False
    with Cons.prems(2,3) s have "(k, check) \<in> set specs" "distinct (map fst specs)" by auto
    from Cons.IH[OF r(4) this] False r(3) show ?thesis by (simp add: field_def dict_get_def)
  qed
qed simp

lemma checked_fieldsD:
  "checked_fields d label specs = Inr rs \<Longrightarrow> distinct (map fst specs) \<Longrightarrow> (k, check) \<in> set specs \<Longrightarrow>
     check (field d k) (dotted label k) = Inr (field rs k)"
  unfolding checked_fields_def by (rule mapE_fields)

definition keeper :: "checker \<Rightarrow> bool" where
  "keeper check \<longleftrightarrow> (\<forall>v l r. check v l = Inr r \<longrightarrow> r = v)"

definition floater :: "checker \<Rightarrow> bool" where
  "floater check \<longleftrightarrow> (\<forall>v l r. check v l = Inr r \<longrightarrow> number r = float_value v)"

lemma keepers [simp]: "keeper require_bool" "keeper non_negative_int" "keeper positive_int" "keeper sha256_value" "keeper safe_identifier"
  by (auto simp: keeper_def dest: kept_values)

lemma floaters [simp]: "floater non_negative_number" "floater positive_number" "floater percentage"
  by (auto simp: floater_def dest: number_values)

lemma kept_field:
  "checked_fields d label specs = Inr rs \<Longrightarrow> map_of specs k = Some check \<Longrightarrow> distinct (map fst specs) \<Longrightarrow> keeper check \<Longrightarrow>
     field rs k = field d k"
  using checked_fieldsD[of d label specs rs k check] by (auto simp: keeper_def dest: map_of_SomeD)

lemma float_field:
  "checked_fields d label specs = Inr rs \<Longrightarrow> map_of specs k = Some check \<Longrightarrow> distinct (map fst specs) \<Longrightarrow> floater check \<Longrightarrow>
     number (field rs k) = float_value (field d k)"
  using checked_fieldsD[of d label specs rs k check] by (auto simp: floater_def dest: map_of_SomeD)

lemma flag_JBool [simp]: "flag v \<longleftrightarrow> v = JBool True"
  by (cases v) auto

text \<open>An instant of the observation; the label only shows in error messages.\<close>

definition instant :: "json \<Rightarrow> int" where
  "instant v = (case parse_timestamp v [] of Inr t \<Rightarrow> t | Inl _ \<Rightarrow> 0)"

lemma parse_timestamp_instant: "parse_timestamp v label = Inr t \<Longrightarrow> instant v = t"
  by (auto simp: instant_def parse_timestamp_def invalid_def split: json.splits sum.splits exn.splits datetime.splits if_splits)

lemma read_times_instant:
  "read_times d keys label = Inr ts \<Longrightarrow> k \<in> set keys \<Longrightarrow> distinct keys \<Longrightarrow> time_at ts k = instant (field d k)"
  unfolding read_times_def
proof (induction keys arbitrary: ts)
  case (Cons a keys)
  then obtain v t ts' where "item d a = Inr v" "parse_timestamp v (dotted label a) = Inr t" "ts = (a, t) # ts'"
    "mapE (\<lambda>k. bindE (item d k) (\<lambda>v. bindE (parse_timestamp v (dotted label k)) (\<lambda>t. Inr (k, t)))) keys = Inr ts'"
    by (auto simp: bindE_eq_Inr)
  with Cons show ?case by (auto simp: time_at_def parse_timestamp_instant dest!: item_field)
qed simp

lemma ordered_instant:
  "ordered_timestamps d keys label = Inr ts \<Longrightarrow> k \<in> set keys \<Longrightarrow> distinct keys \<Longrightarrow> time_at ts k = instant (field d k)"
  by (auto simp: ordered_timestamps_def bindE_eq_Inr read_times_instant invalid_def split: if_splits)

lemma mapE_keys:
  "mapE (\<lambda>k. bindE (f k) (\<lambda>v. bindE (g k v) (\<lambda>r. Inr (u k, r)))) ks = Inr rs \<Longrightarrow> map fst rs = map u ks"
  by (induction ks arbitrary: rs) (auto simp: bindE_eq_Inr)

lemma checked_fields_keys: "checked_fields d label specs = Inr rs \<Longrightarrow> map fst rs = map (u \<circ> fst) specs"
  unfolding checked_fields_def by (induction specs arbitrary: rs) (auto simp: bindE_eq_Inr)

lemma field_append: "field (a @ b) k = (if u k \<in> set (map fst a) then field a k else field b k)"
  using map_of_eq_None_iff[of a "u k"]
  by (cases "map_of a (u k)") (auto simp: field_def dict_get_def map_add_def split: option.split)

lemma field_Cons: "field ((k0, v) # d) k = (if k0 = u k then v else field d k)"
  by (simp add: field_def dict_get_def)

lemma guard_Inr: "(if c then Inl e else m) = Inr r \<longleftrightarrow> \<not> c \<and> m = Inr r"
  by simp

section \<open>A verifier as a whole\<close>

text \<open>The contract of a verifier: the document it compiles says \<open>passed\<close> exactly for the observations that meet the conditions.
  Then its exit code tells the same of the file it was given.\<close>

locale verifier =
  fixes compile_document :: "mapping \<Rightarrow> pystr \<Rightarrow> exn + json"
    and meets :: "mapping \<Rightarrow> bool"
  assumes verdict: "compile_document obs digest = Inr ev \<Longrightarrow> evidence_passed ev \<longleftrightarrow> meets obs"
begin

lemma main_written:
  assumes "verifier_main compile_document same_path input = Written ev code"
  shows "\<exists>obs digest. load_observation input = Inr (obs, digest) \<and> compile_document obs digest = Inr ev
    \<and> code = (if meets obs then 0 else 1)"
  using assms by (auto simp: verifier_main_def bindE_eq_Inr verdict split: if_splits sum.splits exn.splits)

lemma main_accepts:
  assumes "load_observation input = Inr (obs, digest)" "compile_document obs digest = Inr ev" "meets obs"
  shows "verifier_main compile_document False input = Written ev 0"
  using assms verdict by (simp add: verifier_main_def)

end

text \<open>An observation printed as plain ASCII JSON is read back.\<close>

definition spaced_style :: dump_style where
  "spaced_style = \<lparr>ds_item_sep = u '', '', ds_key_sep = u '': '', ds_float = (\<lambda>_. [])\<rparr>"

definition printed :: "mapping \<Rightarrow> nat list" where
  "printed d = dumps spaced_style (JObj d)"

fun json_ascii :: "json \<Rightarrow> bool" where
  "json_ascii (JStr s) = list_all (\<lambda>c. 0 < c \<and> c < 128) s"
| "json_ascii (JArr xs) = (\<forall>x \<in> set xs. json_ascii x)"
| "json_ascii (JObj d) = (\<forall>kv \<in> set d. list_all (\<lambda>c. 0 < c \<and> c < 128) (fst kv) \<and> json_ascii (snd kv))"
| "json_ascii _ = True"

lemma dump_str_plain: "list_all (\<lambda>c. 0 < c \<and> c < 128) s \<Longrightarrow> list_all (\<lambda>c. 0 < c \<and> c < 128) (dump_str s)"
  unfolding dump_str_def by (induction s) (auto simp: escape_char_def hex4_def)

lemma str_int_plain: "list_all (\<lambda>c. 0 < c \<and> c < 128) (str_int i)"
  by (auto simp: str_int_def list_all_iff dest: str_nat_digits)

lemma join_all: "list_all P sep \<Longrightarrow> \<forall>x \<in> set xs. list_all P x \<Longrightarrow> list_all P (join sep xs)"
  by (induction sep xs rule: join.induct) auto

lemma dumps_ascii:
  "json_plain v \<Longrightarrow> json_ascii v \<Longrightarrow> list_all (\<lambda>c. 0 < c \<and> c < 128) (dumps spaced_style v)"
proof (induction v rule: json_plain.induct)
  case (2 xs)
  then show ?case by (auto intro!: join_all simp: spaced_style_def u_def)
next
  case (3 d)
  then show ?case by (auto intro!: join_all dump_str_plain simp: spaced_style_def u_def split: prod.splits) fastforce
qed (simp_all add: u_def dump_str_plain str_int_plain)

definition printable_observation :: "mapping \<Rightarrow> bool" where
  "printable_observation d \<longleftrightarrow> json_plain (JObj d) \<and> json_ascii (JObj d)
     \<and> 0 < length (printed d) \<and> length (printed d) \<le> MAX_INPUT_BYTES"

lemma load_printed:
  assumes "printable_observation d"
  shows "load_observation (Some (printed d)) = Inr (d, hexdigest (sha256 (printed d)))"
proof -
  have "style_ok spaced_style" by (simp add: style_ok_def spaced_style_def u_def json_space_def)
  with assms have "loads_bytes (printed d) = Inr (JObj d)"
    by (metis dumps_ascii loads_bytes_ascii loads_dumps printable_observation_def printed_def)
  with assms show ?thesis by (simp add: load_observation_def printable_observation_def require_mapping_def)
qed

end
