(* ===== verification/Soak_Evidence.thy ===== *)
theory Soak_Evidence
  imports Evidence
begin

text \<open>
  The verdict on a soak test of the workers, \<open>ops/worker/verify_soak_evidence.py\<close>: the observation is checked field by
  field, and the evidence says it passed exactly when the test ran long enough, lost and repeated no job, recovered
  from every injected fault and stayed within its limits.
\<close>

section \<open>Sections of the observation\<close>

definition TOP_LEVEL_KEYS_soak :: "string list" where
  "TOP_LEVEL_KEYS_soak = [''schema_version'', ''soak_id'', ''source_revision'', ''environment'', ''started_at'', ''completed_at'',
     ''load_profile'', ''resource_limits'', ''provider_profile'', ''fault_injection'', ''results'', ''resource_observation'',
     ''capacity_recommendation'', ''artifacts'']"

definition parse_provider :: "json \<Rightarrow> pystr \<Rightarrow> exn + mapping" where
  "parse_provider v label = bindE (require_mapping v label) (\<lambda>d.
     bindE (require_exact_keys d [''requests'', ''latency_p50_seconds'', ''latency_p95_seconds'', ''rate_limit_responses'',
       ''transient_failures'', ''retry_successes''] label) (\<lambda>_.
     bindE (checked_fields d label [(''requests'', positive_int), (''latency_p50_seconds'', positive_number),
       (''latency_p95_seconds'', positive_number)]) (\<lambda>a.
     if number (field a ''latency_p95_seconds'') < number (field a ''latency_p50_seconds'')
     then invalid label '' p95 latency must not be lower than p50''
     else bindE (checked_fields d label [(''rate_limit_responses'', non_negative_int), (''transient_failures'', non_negative_int),
       (''retry_successes'', non_negative_int)]) (\<lambda>b.
     let failures = whole (field b ''rate_limit_responses'') + whole (field b ''transient_failures'') in
     if whole (field a ''requests'') < failures \<or> failures < whole (field b ''retry_successes'')
     then invalid label '' failure and retry counts are inconsistent'' else Inr (a @ b)))))"

definition parse_fault :: "string \<Rightarrow> string list \<Rightarrow> json \<Rightarrow> pystr \<Rightarrow> exn + mapping" where
  "parse_fault count_key extra_keys v label = bindE (require_mapping v label) (\<lambda>d.
     bindE (require_exact_keys d ([''injected_at'', ''recovered_at'', count_key, ''lost_jobs''] @ extra_keys) label) (\<lambda>_.
     bindE (ordered_timestamps d [''injected_at'', ''recovered_at''] label) (\<lambda>ts.
     bindE (checked_fields d label [(count_key, positive_int), (''lost_jobs'', non_negative_int)]) (\<lambda>counts.
     bindE (checked_fields d label (map (\<lambda>k. (k, safe_identifier)) extra_keys)) (\<lambda>extra.
       Inr ([(u ''timeline'', timeline ts)] @ counts
         @ [(u ''recovery_seconds'', JFloat (duration_seconds (time_at ts ''injected_at'') (time_at ts ''recovered_at'')))] @ extra))))))"

definition parse_load :: "mapping \<Rightarrow> exn + mapping" where
  "parse_load observation = bindE (section_of observation ''load_profile'' [''jobs'', ''arrival_rate_per_second'', ''burst_size'',
       ''concurrency'', ''planned_duration_seconds'']) (\<lambda>d.
     bindE (checked_fields d (u ''load_profile'') [(''jobs'', positive_int), (''arrival_rate_per_second'', positive_number),
       (''burst_size'', positive_int), (''concurrency'', positive_int), (''planned_duration_seconds'', positive_number)]) (\<lambda>r.
     if whole (field r ''jobs'') < whole (field r ''burst_size'')
     then Inl (ValueError (u ''load_profile.burst_size must not exceed jobs'')) else Inr r))"

definition parse_limits :: "mapping \<Rightarrow> exn + mapping" where
  "parse_limits observation = bindE (section_of observation ''resource_limits'' [''worker_replicas'', ''worker_cpu_cores_each'',
       ''worker_memory_mib_each'', ''postgres_pool_size_each'', ''postgres_max_connections'', ''redis_maxmemory_mib'']) (\<lambda>d.
     checked_fields d (u ''resource_limits'') [(''worker_replicas'', positive_int), (''worker_cpu_cores_each'', positive_number),
       (''worker_memory_mib_each'', positive_number), (''postgres_pool_size_each'', positive_int),
       (''postgres_max_connections'', positive_int), (''redis_maxmemory_mib'', positive_number)])"

definition parse_providers :: "mapping \<Rightarrow> exn + (string \<times> mapping) list" where
  "parse_providers observation = bindE (section_of observation ''provider_profile'' [''github'', ''llm'']) (\<lambda>d.
     mapE (\<lambda>name. bindE (item d name) (\<lambda>v. bindE (parse_provider v (dotted (u ''provider_profile'') name)) (\<lambda>r. Inr (name, r))))
       [''github'', ''llm''])"

definition parse_faults :: "mapping \<Rightarrow> exn + (string \<times> mapping) list" where
  "parse_faults observation =
     bindE (section_of observation ''fault_injection'' [''worker_termination'', ''expired_lease'', ''network_interruption'']) (\<lambda>d.
     mapE (\<lambda>(name, count_key, extra). bindE (item d name) (\<lambda>v.
         bindE (parse_fault count_key extra v (dotted (u ''fault_injection'') name)) (\<lambda>r. Inr (name, r))))
       [(''worker_termination'', ''workers'', []), (''expired_lease'', ''recovered_jobs'', []),
        (''network_interruption'', ''interruptions'', [''target''])])"

definition RESULT_FIELDS :: "(string \<times> checker) list" where
  "RESULT_FIELDS = [(''completed_jobs'', non_negative_int), (''throughput_jobs_per_second'', positive_number),
     (''start_latency_p95_seconds'', non_negative_number), (''completion_latency_p95_seconds'', non_negative_number),
     (''start_slo_attainment_percent'', percentage), (''completion_slo_attainment_percent'', percentage),
     (''duplicate_completions'', non_negative_int), (''lost_jobs'', non_negative_int), (''exactly_once'', require_bool),
     (''queue_drained'', require_bool)]"

definition parse_results :: "mapping \<Rightarrow> exn + mapping" where
  "parse_results observation = bindE (section_of observation ''results'' (map fst RESULT_FIELDS)) (\<lambda>d.
     checked_fields d (u ''results'') RESULT_FIELDS)"

definition parse_resources :: "mapping \<Rightarrow> exn + mapping" where
  "parse_resources observation = bindE (section_of observation ''resource_observation'' [''captured_at'', ''worker_cpu_peak_percent'',
       ''worker_memory_peak_percent'', ''postgres_pool_peak_connections'', ''postgres_total_peak_connections'',
       ''redis_memory_peak_percent'']) (\<lambda>d.
     bindE (checked_fields d (u ''resource_observation'') [(''worker_cpu_peak_percent'', percentage),
       (''worker_memory_peak_percent'', percentage), (''postgres_pool_peak_connections'', positive_int),
       (''postgres_total_peak_connections'', positive_int), (''redis_memory_peak_percent'', percentage)]) (\<lambda>r.
     bindE (item d ''captured_at'') (\<lambda>v. bindE (parse_timestamp v (u ''resource_observation.captured_at'')) (\<lambda>t.
       Inr ((u ''captured_at'', utc_timestamp t) # r)))))"

definition parse_capacity :: "mapping \<Rightarrow> exn + mapping" where
  "parse_capacity observation = bindE (section_of observation ''capacity_recommendation'' [''max_sustained_rate_per_second'',
       ''recommended_rate_per_second'', ''recommended_worker_replicas'', ''headroom_percent'', ''limiting_resource'', ''owner'',
       ''reviewed'']) (\<lambda>d. let label = u ''capacity_recommendation'' in
     bindE (checked_fields d label [(''max_sustained_rate_per_second'', positive_number),
       (''recommended_rate_per_second'', positive_number), (''headroom_percent'', percentage), (''reviewed'', require_bool)]) (\<lambda>a.
     bindE (checked_fields d label [(''recommended_worker_replicas'', positive_int), (''limiting_resource'', safe_identifier)]) (\<lambda>b.
     bindE (checked_fields d label [(''owner'', safe_identifier)]) (\<lambda>own.
       Inr (a @ b @ [(u ''owner_documented'', JBool (j_truthy (field own ''owner'')))])))))"

definition parse_artifacts :: "mapping \<Rightarrow> exn + mapping" where
  "parse_artifacts observation = bindE (section_of observation ''artifacts'' [''runner_sha256'', ''telemetry_sha256'',
       ''provider_audit_sha256'', ''secret_scan_matches'']) (\<lambda>d.
     checked_fields d (u ''artifacts'') [(''runner_sha256'', sha256_value), (''telemetry_sha256'', sha256_value),
       (''provider_audit_sha256'', sha256_value), (''secret_scan_matches'', non_negative_int)])"

section \<open>The verdict\<close>

record soak_thresholds =
  sk_min_duration_seconds :: rat
  sk_min_slo_attainment_percent :: rat
  sk_max_resource_utilization_percent :: rat
  sk_max_fault_recovery_seconds :: rat

definition check_soak_thresholds :: "soak_thresholds \<Rightarrow> exn + unit" where
  "check_soak_thresholds T =
     (if list_ex (\<lambda>x. \<not> is_finite x \<or> x < 0) [sk_min_duration_seconds T, sk_min_slo_attainment_percent T,
          sk_max_resource_utilization_percent T, sk_max_fault_recovery_seconds T]
      then Inl (ValueError (u ''thresholds must be non-negative finite numbers''))
      else if 100 < sk_min_slo_attainment_percent T \<or> 100 < sk_max_resource_utilization_percent T
      then Inl (ValueError (u ''percentage thresholds must not exceed 100'')) else Inr ())"

text \<open>The instants of the faults, read back from the parsed timelines.\<close>

definition timeline_field :: "mapping \<Rightarrow> string \<Rightarrow> json" where
  "timeline_field m k = (case field m ''timeline'' of JObj d \<Rightarrow> field d k | _ \<Rightarrow> JNull)"

definition fault_times :: "(string \<times> mapping) list \<Rightarrow> exn + int list" where
  "fault_times faults = mapE (\<lambda>(name, m, k). parse_timestamp (timeline_field m k) (u ''fault_injection.'' @ u name @ u ''.'' @ u k))
     (concat (map (\<lambda>(name, m). map (\<lambda>k. (name, m, k)) [''injected_at'', ''recovered_at'']) faults))"

definition soak_checks :: "soak_thresholds \<Rightarrow> rat \<Rightarrow> mapping \<Rightarrow> mapping \<Rightarrow> (string \<times> mapping) list \<Rightarrow> (string \<times> mapping) list
    \<Rightarrow> mapping \<Rightarrow> mapping \<Rightarrow> mapping \<Rightarrow> mapping \<Rightarrow> (string \<times> bool) list" where
  "soak_checks T observed_duration load limits providers faults results resources capacity artifacts =
     (let pool_budget = whole (field limits ''worker_replicas'') * whole (field limits ''postgres_pool_size_each'');
          peak = sk_max_resource_utilization_percent T;
          slo = sk_min_slo_attainment_percent T in
      [(''production_duration'', sk_min_duration_seconds T \<le> observed_duration
          \<and> sk_min_duration_seconds T \<le> number (field load ''planned_duration_seconds'')),
       (''resource_limits_consistent'', pool_budget \<le> whole (field limits ''postgres_max_connections'')),
       (''provider_failures_exercised'', list_all (\<lambda>(_, p). 1 \<le> whole (field p ''rate_limit_responses'')
          \<and> 1 \<le> whole (field p ''transient_failures'')
          \<and> whole (field p ''retry_successes'') = whole (field p ''rate_limit_responses'') + whole (field p ''transient_failures'')) providers),
       (''faults_recovered'', list_all (\<lambda>(_, f). whole (field f ''lost_jobs'') = 0
          \<and> number (field f ''recovery_seconds'') \<le> sk_max_fault_recovery_seconds T) faults),
       (''exactly_once_and_drained'', whole (field results ''completed_jobs'') = whole (field load ''jobs'')
          \<and> whole (field results ''duplicate_completions'') = 0 \<and> whole (field results ''lost_jobs'') = 0
          \<and> flag (field results ''exactly_once'') \<and> flag (field results ''queue_drained'')),
       (''analysis_slo'', number (field results ''start_latency_p95_seconds'') \<le> 60
          \<and> number (field results ''completion_latency_p95_seconds'') \<le> 120
          \<and> slo \<le> number (field results ''start_slo_attainment_percent'')
          \<and> slo \<le> number (field results ''completion_slo_attainment_percent'')),
       (''resource_headroom'', number (field resources ''worker_cpu_peak_percent'') \<le> peak
          \<and> number (field resources ''worker_memory_peak_percent'') \<le> peak
          \<and> number (field resources ''redis_memory_peak_percent'') \<le> peak
          \<and> whole (field resources ''postgres_pool_peak_connections'') \<le> pool_budget
          \<and> whole (field resources ''postgres_total_peak_connections'') \<le> whole (field limits ''postgres_max_connections'')),
       (''capacity_recommendation'', number (field capacity ''recommended_rate_per_second'')
            \<le> number (field capacity ''max_sustained_rate_per_second'')
          \<and> number (field load ''arrival_rate_per_second'') \<le> number (field capacity ''recommended_rate_per_second'')
          \<and> 20 \<le> number (field capacity ''headroom_percent'') \<and> flag (field capacity ''reviewed'')),
       (''artifact_secret_scan'', whole (field artifacts ''secret_scan_matches'') = 0)])"

definition soak_document :: "soak_thresholds \<Rightarrow> pystr \<Rightarrow> int \<Rightarrow> mapping \<Rightarrow> int \<Rightarrow> int \<Rightarrow> rat \<Rightarrow> mapping \<Rightarrow> mapping
    \<Rightarrow> (string \<times> mapping) list \<Rightarrow> (string \<times> mapping) list \<Rightarrow> mapping \<Rightarrow> mapping \<Rightarrow> mapping \<Rightarrow> mapping \<Rightarrow> json" where
  "soak_document T digest now names started completed duration load limits providers faults results resources capacity artifacts =
     (let checks = soak_checks T duration load limits providers faults results resources capacity artifacts;
          nest = (\<lambda>xs. JObj (map (\<lambda>(k, m). (u k, JObj m)) xs)) in
      JObj ([(u ''schema_version'', JInt 1), (u ''checked_at'', utc_timestamp now)] @ names
        @ [(u ''soak_window'', JObj [(u ''started_at'', utc_timestamp started), (u ''completed_at'', utc_timestamp completed),
             (u ''observed_duration_seconds'', JFloat duration)]),
           (u ''load_profile'', JObj load), (u ''resource_limits'', JObj limits), (u ''provider_profile'', nest providers),
           (u ''fault_injection'', nest faults), (u ''results'', JObj results), (u ''resource_observation'', JObj resources),
           (u ''capacity_recommendation'', JObj capacity), (u ''artifacts'', JObj artifacts),
           (u ''thresholds'', JObj [(u ''minimum_duration_seconds'', JFloat (sk_min_duration_seconds T)),
             (u ''minimum_slo_attainment_percent'', JFloat (sk_min_slo_attainment_percent T)),
             (u ''maximum_resource_utilization_percent'', JFloat (sk_max_resource_utilization_percent T)),
             (u ''maximum_fault_recovery_seconds'', JFloat (sk_max_fault_recovery_seconds T))]),
           (u ''checks'', checks_json checks), (u ''passed'', all_passed checks), (u ''input_sha256'', JStr digest)]))"

definition soak_evidence :: "soak_thresholds \<Rightarrow> int \<Rightarrow> mapping \<Rightarrow> pystr \<Rightarrow> exn + json" where
  "soak_evidence T now observation digest =
     bindE (require_exact_keys observation TOP_LEVEL_KEYS_soak (u ''observation'')) (\<lambda>_.
     bindE (schema_1 observation) (\<lambda>_.
     bindE (check_soak_thresholds T) (\<lambda>_.
     bindE (mapE (\<lambda>k. bindE (item observation k) (\<lambda>v. bindE (safe_identifier v (u k)) (\<lambda>r. Inr (u k, r))))
       [''soak_id'', ''source_revision'', ''environment'']) (\<lambda>names.
     bindE (bindE (item observation ''started_at'') (\<lambda>v. parse_timestamp v (u ''started_at''))) (\<lambda>started.
     bindE (bindE (item observation ''completed_at'') (\<lambda>v. parse_timestamp v (u ''completed_at''))) (\<lambda>completed.
     if completed \<le> started then Inl (ValueError (u ''completed_at must follow started_at''))
     else bindE (parse_load observation) (\<lambda>load.
     bindE (parse_limits observation) (\<lambda>limits.
     bindE (parse_providers observation) (\<lambda>providers.
     bindE (parse_faults observation) (\<lambda>faults.
     bindE (parse_results observation) (\<lambda>results.
     bindE (parse_resources observation) (\<lambda>resources.
     bindE (parse_capacity observation) (\<lambda>capacity.
     bindE (parse_artifacts observation) (\<lambda>artifacts.
     bindE (fault_times faults) (\<lambda>ts.
     bindE (parse_timestamp (field resources ''captured_at'') (u ''resource_observation.captured_at'')) (\<lambda>captured.
     if Min (set (captured # ts)) < started \<or> completed < Max (set (captured # ts))
     then Inl (ValueError (u ''resource and fault events must be within the soak window''))
     else if now < completed then Inl (ValueError (u ''observation must not contain future events''))
     else Inr (soak_document T digest now names started completed (duration_seconds started completed) load limits providers faults
       results resources capacity artifacts)))))))))))))))))"

section \<open>What the verdict means\<close>

text \<open>The conditions, on the observation as it was submitted.\<close>

abbreviation count_in :: "mapping \<Rightarrow> string \<Rightarrow> string \<Rightarrow> int" where
  "count_in obs name k \<equiv> whole (raw_field obs name k)"

abbreviation float_in :: "mapping \<Rightarrow> string \<Rightarrow> string \<Rightarrow> rat" where
  "float_in obs name k \<equiv> float_value (raw_field obs name k)"

definition ran_long_enough :: "soak_thresholds \<Rightarrow> mapping \<Rightarrow> bool" where
  "ran_long_enough T obs \<longleftrightarrow>
     sk_min_duration_seconds T \<le> duration_seconds (instant (field obs ''started_at'')) (instant (field obs ''completed_at''))
     \<and> sk_min_duration_seconds T \<le> float_in obs ''load_profile'' ''planned_duration_seconds''"

definition exactly_once :: "mapping \<Rightarrow> bool" where
  "exactly_once obs \<longleftrightarrow> count_in obs ''results'' ''completed_jobs'' = count_in obs ''load_profile'' ''jobs''
     \<and> count_in obs ''results'' ''duplicate_completions'' = 0 \<and> count_in obs ''results'' ''lost_jobs'' = 0
     \<and> raw_field obs ''results'' ''exactly_once'' = JBool True \<and> raw_field obs ''results'' ''queue_drained'' = JBool True"

definition within_slo :: "soak_thresholds \<Rightarrow> mapping \<Rightarrow> bool" where
  "within_slo T obs \<longleftrightarrow> float_in obs ''results'' ''start_latency_p95_seconds'' \<le> 60
     \<and> float_in obs ''results'' ''completion_latency_p95_seconds'' \<le> 120
     \<and> sk_min_slo_attainment_percent T \<le> float_in obs ''results'' ''start_slo_attainment_percent''
     \<and> sk_min_slo_attainment_percent T \<le> float_in obs ''results'' ''completion_slo_attainment_percent''"

definition within_limits :: "soak_thresholds \<Rightarrow> mapping \<Rightarrow> bool" where
  "within_limits T obs \<longleftrightarrow>
     (let pool = count_in obs ''resource_limits'' ''worker_replicas'' * count_in obs ''resource_limits'' ''postgres_pool_size_each'';
          connections = count_in obs ''resource_limits'' ''postgres_max_connections'' in
      pool \<le> connections
      \<and> list_all (\<lambda>k. float_in obs ''resource_observation'' k \<le> sk_max_resource_utilization_percent T)
          [''worker_cpu_peak_percent'', ''worker_memory_peak_percent'', ''redis_memory_peak_percent'']
      \<and> count_in obs ''resource_observation'' ''postgres_pool_peak_connections'' \<le> pool
      \<and> count_in obs ''resource_observation'' ''postgres_total_peak_connections'' \<le> connections)"

definition failures_exercised :: "mapping \<Rightarrow> bool" where
  "failures_exercised obs \<longleftrightarrow> list_all (\<lambda>name. let p = part_of obs ''provider_profile'' name in
     1 \<le> whole (field p ''rate_limit_responses'') \<and> 1 \<le> whole (field p ''transient_failures'')
     \<and> whole (field p ''retry_successes'') = whole (field p ''rate_limit_responses'') + whole (field p ''transient_failures''))
     [''github'', ''llm'']"

definition faults_survived :: "soak_thresholds \<Rightarrow> mapping \<Rightarrow> bool" where
  "faults_survived T obs \<longleftrightarrow> list_all (\<lambda>name. let f = part_of obs ''fault_injection'' name in
     whole (field f ''lost_jobs'') = 0
     \<and> duration_seconds (instant (field f ''injected_at'')) (instant (field f ''recovered_at'')) \<le> sk_max_fault_recovery_seconds T)
     [''worker_termination'', ''expired_lease'', ''network_interruption'']"

definition capacity_reviewed :: "mapping \<Rightarrow> bool" where
  "capacity_reviewed obs \<longleftrightarrow> float_in obs ''capacity_recommendation'' ''recommended_rate_per_second''
       \<le> float_in obs ''capacity_recommendation'' ''max_sustained_rate_per_second''
     \<and> float_in obs ''load_profile'' ''arrival_rate_per_second'' \<le> float_in obs ''capacity_recommendation'' ''recommended_rate_per_second''
     \<and> 20 \<le> float_in obs ''capacity_recommendation'' ''headroom_percent''
     \<and> raw_field obs ''capacity_recommendation'' ''reviewed'' = JBool True"

lemma load_fields:
  assumes "parse_load obs = Inr r"
  shows "field r ''jobs'' = raw_field obs ''load_profile'' ''jobs''"
    "number (field r ''arrival_rate_per_second'') = float_in obs ''load_profile'' ''arrival_rate_per_second''"
    "number (field r ''planned_duration_seconds'') = float_in obs ''load_profile'' ''planned_duration_seconds''"
proof -
  obtain d where d: "section_of obs ''load_profile'' [''jobs'', ''arrival_rate_per_second'', ''burst_size'',
       ''concurrency'', ''planned_duration_seconds''] = Inr d"
    "checked_fields d (u ''load_profile'') [(''jobs'', positive_int), (''arrival_rate_per_second'', positive_number),
       (''burst_size'', positive_int), (''concurrency'', positive_int), (''planned_duration_seconds'', positive_number)] = Inr r"
    using assms by (auto simp: parse_load_def bindE_eq_Inr split: if_splits)
  show "field r ''jobs'' = raw_field obs ''load_profile'' ''jobs''"
    "number (field r ''arrival_rate_per_second'') = float_in obs ''load_profile'' ''arrival_rate_per_second''"
    "number (field r ''planned_duration_seconds'') = float_in obs ''load_profile'' ''planned_duration_seconds''"
    by (simp_all add: kept_field[OF d(2)] float_field[OF d(2)] section_of_field[OF d(1)])
qed

lemma results_fields:
  assumes "parse_results obs = Inr r"
  shows "k \<in> {''completed_jobs'', ''duplicate_completions'', ''lost_jobs'', ''exactly_once'', ''queue_drained''} \<Longrightarrow>
      field r k = raw_field obs ''results'' k"
    "k \<in> {''start_latency_p95_seconds'', ''completion_latency_p95_seconds'', ''start_slo_attainment_percent'',
        ''completion_slo_attainment_percent''} \<Longrightarrow> number (field r k) = float_in obs ''results'' k"
proof -
  obtain d where d: "section_of obs ''results'' (map fst RESULT_FIELDS) = Inr d" "checked_fields d (u ''results'') RESULT_FIELDS = Inr r"
    using assms by (auto simp: parse_results_def bindE_eq_Inr)
  note K = kept_field[OF d(2)] float_field[OF d(2)] section_of_field[OF d(1)] RESULT_FIELDS_def
  show "k \<in> {''completed_jobs'', ''duplicate_completions'', ''lost_jobs'', ''exactly_once'', ''queue_drained''} \<Longrightarrow>
      field r k = raw_field obs ''results'' k"
    "k \<in> {''start_latency_p95_seconds'', ''completion_latency_p95_seconds'', ''start_slo_attainment_percent'',
        ''completion_slo_attainment_percent''} \<Longrightarrow> number (field r k) = float_in obs ''results'' k"
    by (auto simp: K)
qed

lemma limits_fields:
  assumes "parse_limits obs = Inr r"
  shows "k \<in> {''worker_replicas'', ''postgres_pool_size_each'', ''postgres_max_connections''} \<Longrightarrow>
    field r k = raw_field obs ''resource_limits'' k"
proof -
  obtain d where d: "section_of obs ''resource_limits'' [''worker_replicas'', ''worker_cpu_cores_each'',
       ''worker_memory_mib_each'', ''postgres_pool_size_each'', ''postgres_max_connections'', ''redis_maxmemory_mib''] = Inr d"
    "checked_fields d (u ''resource_limits'') [(''worker_replicas'', positive_int), (''worker_cpu_cores_each'', positive_number),
       (''worker_memory_mib_each'', positive_number), (''postgres_pool_size_each'', positive_int),
       (''postgres_max_connections'', positive_int), (''redis_maxmemory_mib'', positive_number)] = Inr r"
    using assms by (auto simp: parse_limits_def bindE_eq_Inr)
  show "k \<in> {''worker_replicas'', ''postgres_pool_size_each'', ''postgres_max_connections''} \<Longrightarrow>
    field r k = raw_field obs ''resource_limits'' k"
    by (auto simp: kept_field[OF d(2)] section_of_field[OF d(1)])
qed

lemma resources_fields:
  assumes "parse_resources obs = Inr r"
  shows "k \<in> {''postgres_pool_peak_connections'', ''postgres_total_peak_connections''} \<Longrightarrow> field r k = raw_field obs ''resource_observation'' k"
    "k \<in> {''worker_cpu_peak_percent'', ''worker_memory_peak_percent'', ''redis_memory_peak_percent''} \<Longrightarrow>
      number (field r k) = float_in obs ''resource_observation'' k"
proof -
  obtain d rs t where d: "section_of obs ''resource_observation'' [''captured_at'', ''worker_cpu_peak_percent'',
       ''worker_memory_peak_percent'', ''postgres_pool_peak_connections'', ''postgres_total_peak_connections'',
       ''redis_memory_peak_percent''] = Inr d"
    "checked_fields d (u ''resource_observation'') [(''worker_cpu_peak_percent'', percentage),
       (''worker_memory_peak_percent'', percentage), (''postgres_pool_peak_connections'', positive_int),
       (''postgres_total_peak_connections'', positive_int), (''redis_memory_peak_percent'', percentage)] = Inr rs"
    "r = (u ''captured_at'', utc_timestamp t) # rs"
    using assms by (auto simp: parse_resources_def bindE_eq_Inr)
  note K = kept_field[OF d(2)] float_field[OF d(2)] section_of_field[OF d(1)] d(3) field_Cons
  show "k \<in> {''postgres_pool_peak_connections'', ''postgres_total_peak_connections''} \<Longrightarrow> field r k = raw_field obs ''resource_observation'' k"
    "k \<in> {''worker_cpu_peak_percent'', ''worker_memory_peak_percent'', ''redis_memory_peak_percent''} \<Longrightarrow>
      number (field r k) = float_in obs ''resource_observation'' k"
    by (auto simp: K)
qed

lemma capacity_fields:
  assumes "parse_capacity obs = Inr r"
  shows "field r ''reviewed'' = raw_field obs ''capacity_recommendation'' ''reviewed''"
    "k \<in> {''max_sustained_rate_per_second'', ''recommended_rate_per_second'', ''headroom_percent''} \<Longrightarrow>
      number (field r k) = float_in obs ''capacity_recommendation'' k"
proof -
  obtain d a b own where d: "section_of obs ''capacity_recommendation'' [''max_sustained_rate_per_second'',
       ''recommended_rate_per_second'', ''recommended_worker_replicas'', ''headroom_percent'', ''limiting_resource'', ''owner'',
       ''reviewed''] = Inr d"
    "checked_fields d (u ''capacity_recommendation'') [(''max_sustained_rate_per_second'', positive_number),
       (''recommended_rate_per_second'', positive_number), (''headroom_percent'', percentage), (''reviewed'', require_bool)] = Inr a"
    "r = a @ b @ own"
    using assms by (auto simp: parse_capacity_def bindE_eq_Inr Let_def)
  note K = kept_field[OF d(2)] float_field[OF d(2)] section_of_field[OF d(1)] d(3) field_append checked_fields_keys[OF d(2)]
  show "field r ''reviewed'' = raw_field obs ''capacity_recommendation'' ''reviewed''"
    "k \<in> {''max_sustained_rate_per_second'', ''recommended_rate_per_second'', ''headroom_percent''} \<Longrightarrow>
      number (field r k) = float_in obs ''capacity_recommendation'' k"
    by (auto simp: K)
qed

lemma artifacts_fields:
  assumes "parse_artifacts obs = Inr r"
  shows "field r ''secret_scan_matches'' = raw_field obs ''artifacts'' ''secret_scan_matches''"
proof -
  obtain d where d: "section_of obs ''artifacts'' [''runner_sha256'', ''telemetry_sha256'',
       ''provider_audit_sha256'', ''secret_scan_matches''] = Inr d"
    "checked_fields d (u ''artifacts'') [(''runner_sha256'', sha256_value), (''telemetry_sha256'', sha256_value),
       (''provider_audit_sha256'', sha256_value), (''secret_scan_matches'', non_negative_int)] = Inr r"
    using assms by (auto simp: parse_artifacts_def bindE_eq_Inr)
  show ?thesis by (simp add: kept_field[OF d(2)] section_of_field[OF d(1)])
qed

lemma provider_fields:
  assumes "parse_provider v label = Inr r"
  shows "\<exists>d. v = JObj d \<and> (\<forall>k \<in> {''rate_limit_responses'', ''transient_failures'', ''retry_successes''}. field r k = field d k)"
proof -
  obtain d a b where d: "v = JObj d"
    "checked_fields d label [(''requests'', positive_int), (''latency_p50_seconds'', positive_number),
       (''latency_p95_seconds'', positive_number)] = Inr a"
    "checked_fields d label [(''rate_limit_responses'', non_negative_int), (''transient_failures'', non_negative_int),
       (''retry_successes'', non_negative_int)] = Inr b" "r = a @ b"
    using assms by (auto simp: parse_provider_def bindE_eq_Inr invalid_def Let_def split: if_splits)
  then show ?thesis by (auto simp: field_append checked_fields_keys[OF d(2)] kept_field[OF d(3)])
qed

lemma fault_fields:
  assumes "parse_fault count_key extra v label = Inr r" "count_key \<notin> {''lost_jobs'', ''timeline'', ''recovery_seconds''}"
  shows "\<exists>d. v = JObj d \<and> field r ''lost_jobs'' = field d ''lost_jobs''
    \<and> number (field r ''recovery_seconds'') = duration_seconds (instant (field d ''injected_at'')) (instant (field d ''recovered_at''))"
proof -
  obtain d ts counts es where d: "v = JObj d" "ordered_timestamps d [''injected_at'', ''recovered_at''] label = Inr ts"
    "checked_fields d label [(count_key, positive_int), (''lost_jobs'', non_negative_int)] = Inr counts"
    "r = [(u ''timeline'', timeline ts)] @ counts
       @ [(u ''recovery_seconds'', JFloat (duration_seconds (time_at ts ''injected_at'') (time_at ts ''recovered_at'')))] @ es"
    using assms(1) by (auto simp: parse_fault_def bindE_eq_Inr)
  have "field counts ''lost_jobs'' = field d ''lost_jobs''"
    using kept_field[OF d(3), of "''lost_jobs''" non_negative_int] assms(2) by auto
  with d(1,4) assms(2) show ?thesis
    by (auto simp: field_append field_Cons checked_fields_keys[OF d(3)] ordered_instant[OF d(2)])
qed

lemma providers_meet:
  assumes "parse_providers obs = Inr ps"
  shows "list_all (\<lambda>(_, p). 1 \<le> whole (field p ''rate_limit_responses'') \<and> 1 \<le> whole (field p ''transient_failures'')
      \<and> whole (field p ''retry_successes'') = whole (field p ''rate_limit_responses'') + whole (field p ''transient_failures'')) ps
    \<longleftrightarrow> failures_exercised obs"
proof -
  obtain d a b va vb where d: "section_of obs ''provider_profile'' [''github'', ''llm''] = Inr d" "item d ''github'' = Inr va" "item d ''llm'' = Inr vb"
    "parse_provider va (dotted (u ''provider_profile'') ''github'') = Inr a" "parse_provider vb (dotted (u ''provider_profile'') ''llm'') = Inr b"
    "ps = [(''github'', a), (''llm'', b)]"
    using assms by (auto simp: parse_providers_def bindE_eq_Inr)
  obtain da db where "va = JObj da" "vb = JObj db"
    "\<forall>k \<in> {''rate_limit_responses'', ''transient_failures'', ''retry_successes''}. field a k = field da k"
    "\<forall>k \<in> {''rate_limit_responses'', ''transient_failures'', ''retry_successes''}. field b k = field db k"
    using provider_fields[OF d(4)] provider_fields[OF d(5)] by blast
  with d(2,3,6) show ?thesis
    by (simp add: failures_exercised_def part_of_def section_of_field[OF d(1)] item_field)
qed

lemma faults_meet:
  assumes "parse_faults obs = Inr fs"
  shows "list_all (\<lambda>(_, f). whole (field f ''lost_jobs'') = 0 \<and> number (field f ''recovery_seconds'') \<le> sk_max_fault_recovery_seconds T) fs
    \<longleftrightarrow> faults_survived T obs"
proof -
  let ?l = "dotted (u ''fault_injection'')"
  obtain d a b c va vb vc where d: "section_of obs ''fault_injection'' [''worker_termination'', ''expired_lease'', ''network_interruption''] = Inr d"
    "item d ''worker_termination'' = Inr va" "item d ''expired_lease'' = Inr vb" "item d ''network_interruption'' = Inr vc"
    "parse_fault ''workers'' [] va (?l ''worker_termination'') = Inr a" "parse_fault ''recovered_jobs'' [] vb (?l ''expired_lease'') = Inr b"
    "parse_fault ''interruptions'' [''target''] vc (?l ''network_interruption'') = Inr c"
    "fs = [(''worker_termination'', a), (''expired_lease'', b), (''network_interruption'', c)]"
    using assms by (auto simp: parse_faults_def bindE_eq_Inr)
  from fault_fields[OF d(5)] fault_fields[OF d(6)] fault_fields[OF d(7)] d(2-4,8) show ?thesis
    by (auto simp: faults_survived_def part_of_def section_of_field[OF d(1)] item_field)
qed

text \<open>The conditions of a soak test, together.\<close>

definition soak_met :: "soak_thresholds \<Rightarrow> mapping \<Rightarrow> bool" where
  "soak_met T obs \<longleftrightarrow> ran_long_enough T obs \<and> exactly_once obs \<and> faults_survived T obs \<and> failures_exercised obs
     \<and> within_slo T obs \<and> within_limits T obs \<and> capacity_reviewed obs \<and> count_in obs ''artifacts'' ''secret_scan_matches'' = 0"

lemma soak_verdict:
  assumes "soak_evidence T now obs digest = Inr ev"
  shows "evidence_passed ev \<longleftrightarrow> soak_met T obs"
proof -
  from assms obtain names started completed load limits providers faults results resources capacity artifacts where
    P: "mapE (\<lambda>k. bindE (item obs k) (\<lambda>v. bindE (safe_identifier v (u k)) (\<lambda>r. Inr (u k, r))))
       [''soak_id'', ''source_revision'', ''environment''] = Inr names"
      "bindE (item obs ''started_at'') (\<lambda>v. parse_timestamp v (u ''started_at'')) = Inr started"
      "bindE (item obs ''completed_at'') (\<lambda>v. parse_timestamp v (u ''completed_at'')) = Inr completed"
      "parse_load obs = Inr load" "parse_limits obs = Inr limits" "parse_providers obs = Inr providers" "parse_faults obs = Inr faults"
      "parse_results obs = Inr results" "parse_resources obs = Inr resources" "parse_capacity obs = Inr capacity"
      "parse_artifacts obs = Inr artifacts"
    and ev: "ev = soak_document T digest now names started completed (duration_seconds started completed) load limits providers faults
       results resources capacity artifacts"
    unfolding soak_evidence_def bindE_eq_Inr guard_Inr by (clarsimp simp del: mapE.simps)
  have t: "instant (field obs ''started_at'') = started" "instant (field obs ''completed_at'') = completed"
    using P(2,3) by (auto simp: bindE_eq_Inr parse_timestamp_instant dest!: item_field)
  have "evidence_passed ev \<longleftrightarrow> list_all snd (soak_checks T (duration_seconds started completed) load limits providers faults
       results resources capacity artifacts)"
    unfolding ev soak_document_def evidence_passed_def Let_def
    by (simp add: field_append field_Cons mapE_keys[OF P(1)] all_passed_def)
  then show ?thesis
    by (simp add: soak_met_def soak_checks_def Let_def t ran_long_enough_def exactly_once_def within_slo_def within_limits_def capacity_reviewed_def
        providers_meet[OF P(6)] faults_meet[OF P(7)] load_fields[OF P(4)] limits_fields[OF P(5)] results_fields[OF P(8)]
        resources_fields[OF P(9)] capacity_fields[OF P(10)] artifacts_fields[OF P(11)]) blast
qed

interpretation sv: verifier "soak_evidence T now" "soak_met T" for T now
  by unfold_locales (rule soak_verdict)

text \<open>C40: the verdict on a soak test is right: when the verifier writes its evidence, the input file held an observation, and
  the exit code is 0 exactly when the submitted figures show a run of the required length in which every job was completed once,
  every injected fault was survived without loss in time, failures of both providers were met and retried, the service
  objectives and the resource limits held, the capacity figures were reviewed, and no secret was found.\<close>

theorem soak_verdict_exact:
  assumes "verifier_main (soak_evidence T now) same_path input = Written ev code"
  shows "\<exists>obs digest. load_observation input = Inr (obs, digest) \<and> soak_evidence T now obs digest = Inr ev
    \<and> code = (if soak_met T obs then 0 else 1)"
  by (rule sv.main_written[OF assms])

text \<open>The example of \<open>ops/worker/soak-observation.example.json\<close> with whole numbers, and the limits of its test.\<close>

definition soak_example :: mapping where
  "soak_example =
    [(u ''schema_version'', JInt 1), (u ''soak_id'', JStr (u ''worker-soak-example-20250902'')),
    (u ''source_revision'', JStr (u ''release-example'')), (u ''environment'', JStr (u ''staging-example'')),
    (u ''started_at'', JStr (u ''2025-09-02T02:00:00Z'')), (u ''completed_at'', JStr (u ''2025-09-02T04:00:00Z'')),
    (u ''load_profile'', JObj [(u ''jobs'', JInt 180000), (u ''arrival_rate_per_second'', JInt 25), (u ''burst_size'', JInt 50),
    (u ''concurrency'', JInt 8), (u ''planned_duration_seconds'', JInt 7200)]),
    (u ''resource_limits'', JObj [(u ''worker_replicas'', JInt 8), (u ''worker_cpu_cores_each'', JInt 1),
    (u ''worker_memory_mib_each'', JInt 512), (u ''postgres_pool_size_each'', JInt 8),
    (u ''postgres_max_connections'', JInt 100), (u ''redis_maxmemory_mib'', JInt 1024)]),
    (u ''provider_profile'', JObj [(u ''github'', JObj [(u ''requests'', JInt 360000), (u ''latency_p50_seconds'', JInt 1),
    (u ''latency_p95_seconds'', JInt 1), (u ''rate_limit_responses'', JInt 12), (u ''transient_failures'', JInt 8),
    (u ''retry_successes'', JInt 20)]), (u ''llm'', JObj [(u ''requests'', JInt 180000), (u ''latency_p50_seconds'', JInt 1),
    (u ''latency_p95_seconds'', JInt 4), (u ''rate_limit_responses'', JInt 20), (u ''transient_failures'', JInt 10),
    (u ''retry_successes'', JInt 30)])]),
    (u ''fault_injection'', JObj [(u ''worker_termination'', JObj [(u ''injected_at'', JStr (u ''2025-09-02T02:30:00Z'')),
    (u ''recovered_at'', JStr (u ''2025-09-02T02:30:45Z'')), (u ''workers'', JInt 1), (u ''lost_jobs'', JInt 0)]),
    (u ''expired_lease'', JObj [(u ''injected_at'', JStr (u ''2025-09-02T03:00:00Z'')),
    (u ''recovered_at'', JStr (u ''2025-09-02T03:01:00Z'')), (u ''recovered_jobs'', JInt 1), (u ''lost_jobs'', JInt 0)]),
    (u ''network_interruption'', JObj [(u ''injected_at'', JStr (u ''2025-09-02T03:30:00Z'')),
    (u ''recovered_at'', JStr (u ''2025-09-02T03:31:15Z'')), (u ''interruptions'', JInt 1), (u ''lost_jobs'', JInt 0),
    (u ''target'', JStr (u ''redis''))])]), (u ''results'', JObj [(u ''completed_jobs'', JInt 180000),
    (u ''throughput_jobs_per_second'', JInt 25), (u ''start_latency_p95_seconds'', JInt 2),
    (u ''completion_latency_p95_seconds'', JInt 8), (u ''start_slo_attainment_percent'', JInt 99),
    (u ''completion_slo_attainment_percent'', JInt 99), (u ''duplicate_completions'', JInt 0), (u ''lost_jobs'', JInt 0),
    (u ''exactly_once'', JBool True), (u ''queue_drained'', JBool True)]),
    (u ''resource_observation'', JObj [(u ''captured_at'', JStr (u ''2025-09-02T03:59:50Z'')),
    (u ''worker_cpu_peak_percent'', JInt 72), (u ''worker_memory_peak_percent'', JInt 68),
    (u ''postgres_pool_peak_connections'', JInt 58), (u ''postgres_total_peak_connections'', JInt 66),
    (u ''redis_memory_peak_percent'', JInt 61)]),
    (u ''capacity_recommendation'', JObj [(u ''max_sustained_rate_per_second'', JInt 40),
    (u ''recommended_rate_per_second'', JInt 30), (u ''recommended_worker_replicas'', JInt 8),
    (u ''headroom_percent'', JInt 25), (u ''limiting_resource'', JStr (u ''postgres-connections'')),
    (u ''owner'', JStr (u ''platform-capacity'')), (u ''reviewed'', JBool True)]),
    (u ''artifacts'', JObj [(u ''runner_sha256'', JStr (u ''1111111111111111111111111111111111111111111111111111111111111111'')),
    (u ''telemetry_sha256'', JStr (u ''2222222222222222222222222222222222222222222222222222222222222222'')),
    (u ''provider_audit_sha256'', JStr (u ''3333333333333333333333333333333333333333333333333333333333333333'')),
    (u ''secret_scan_matches'', JInt 0)])]"

definition soak_limits :: soak_thresholds where
  "soak_limits = \<lparr>sk_min_duration_seconds = 3600, sk_min_slo_attainment_percent = 99,
     sk_max_resource_utilization_percent = 90, sk_max_fault_recovery_seconds = 120\<rparr>"

lemma soak_example_fields:
  "require_exact_keys soak_example TOP_LEVEL_KEYS_soak (u ''observation'') = Inr ()"
  "schema_1 soak_example = Inr ()" "check_soak_thresholds soak_limits = Inr ()"
  "accepted (mapE (\<lambda>k. bindE (item soak_example k) (\<lambda>v. bindE (safe_identifier v (u k)) (\<lambda>r. Inr (u k, r))))
     [''soak_id'', ''source_revision'', ''environment''])"
  "bindE (item soak_example ''started_at'') (\<lambda>v. parse_timestamp v (u ''started_at'')) = Inr 1756778400000000"
  "bindE (item soak_example ''completed_at'') (\<lambda>v. parse_timestamp v (u ''completed_at'')) = Inr 1756785600000000"
  by code_simp+

lemma soak_example_sections:
  "accepted (parse_load soak_example)" "accepted (parse_limits soak_example)" "accepted (parse_providers soak_example)"
  "accepted (parse_results soak_example)" "accepted (parse_capacity soak_example)" "accepted (parse_artifacts soak_example)"
  by code_simp+

lemma soak_example_events:
  "case (parse_faults soak_example, parse_resources soak_example) of
     (Inr faults, Inr resources) \<Rightarrow> (case (fault_times faults,
         parse_timestamp (field resources ''captured_at'') (u ''resource_observation.captured_at'')) of
       (Inr ts, Inr captured) \<Rightarrow> \<not> (Min (set (captured # ts)) < 1756778400000000 \<or> 1756785600000000 < Max (set (captured # ts)))
     | _ \<Rightarrow> False)
   | _ \<Rightarrow> False"
  by code_simp

lemma soak_example_accepted: "\<exists>ev. soak_evidence soak_limits 1788307200000000 soak_example digest = Inr ev"
proof -
  obtain names load limits providers results capacity artifacts where "parse_load soak_example = Inr load"
    "parse_limits soak_example = Inr limits" "parse_providers soak_example = Inr providers" "parse_results soak_example = Inr results"
    "parse_capacity soak_example = Inr capacity" "parse_artifacts soak_example = Inr artifacts"
    "mapE (\<lambda>k. bindE (item soak_example k) (\<lambda>v. bindE (safe_identifier v (u k)) (\<lambda>r. Inr (u k, r))))
       [''soak_id'', ''source_revision'', ''environment''] = Inr names"
    using soak_example_sections soak_example_fields(4) by (elim acceptedE)
  moreover obtain faults resources ts captured where "parse_faults soak_example = Inr faults" "parse_resources soak_example = Inr resources"
    "fault_times faults = Inr ts" "parse_timestamp (field resources ''captured_at'') (u ''resource_observation.captured_at'') = Inr captured"
    "\<not> (Min (set (captured # ts)) < 1756778400000000 \<or> 1756785600000000 < Max (set (captured # ts)))"
    using soak_example_events by (auto split: sum.splits)
  ultimately show ?thesis
    by (simp only: soak_evidence_def soak_example_fields bindE_simps if_False) simp
qed

lemma soak_example_parts_met:
  "ran_long_enough soak_limits soak_example" "exactly_once soak_example" "faults_survived soak_limits soak_example"
  "failures_exercised soak_example" "within_slo soak_limits soak_example" "within_limits soak_limits soak_example"
  "capacity_reviewed soak_example" "count_in soak_example ''artifacts'' ''secret_scan_matches'' = 0"
  by code_simp+

lemma soak_example_printable: "printable_observation soak_example"
  by code_simp

theorem soak_verdict_exact_witness:
  "\<exists>ev digest. verifier_main (soak_evidence soak_limits 1788307200000000) False (Some (printed soak_example)) = Written ev 0
     \<and> load_observation (Some (printed soak_example)) = Inr (soak_example, digest) \<and> soak_met soak_limits soak_example"
proof -
  note l = load_printed[OF soak_example_printable]
  obtain ev where "soak_evidence soak_limits 1788307200000000 soak_example (hexdigest (sha256 (printed soak_example))) = Inr ev"
    using soak_example_accepted by blast
  moreover have "soak_met soak_limits soak_example" by (simp add: soak_met_def soak_example_parts_met)
  ultimately have m: "verifier_main (soak_evidence soak_limits 1788307200000000) False (Some (printed soak_example)) = Written ev 0"
    using sv.main_accepts[OF l] by blast
  from soak_verdict_exact[OF m] l have "soak_met soak_limits soak_example" by (auto split: if_splits)
  with m l show ?thesis by blast
qed

end
