(* ===== verification/Rotation_Evidence.thy ===== *)
theory Rotation_Evidence
  imports Evidence
begin

text \<open>
  The verdict on a drill of secret rotation, \<open>ops/secrets/verify_rotation_evidence.py\<close>: the inventory of secrets, the rights of
  the workloads, the rotation of the encryption key and of an external credential, and the response to an
  unavailable secret. The evidence names versions by fingerprints only.
\<close>

section \<open>The inventory\<close>

definition MANAGER_TYPES :: "string list" where
  "MANAGER_TYPES = [''aws-secrets-manager'', ''azure-key-vault'', ''gcp-secret-manager'', ''kubernetes-external-secrets'', ''other'', ''vault'']"

definition WORKLOADS :: "string list" where
  "WORKLOADS = [''alertmanager'', ''api'', ''migration'', ''worker'']"

definition REQUIRED_SECRETS :: "string list" where
  "REQUIRED_SECRETS = [''alertmanager_receiver'', ''database_url'', ''github_client_secret'', ''github_private_key'', ''redis_url'',
     ''session_secret'', ''token_encryption_fallback'', ''token_encryption_primary'', ''webhook_secret'']"

definition OPTIONAL_SECRETS :: "string list" where
  "OPTIONAL_SECRETS = [''openai_api_key'']"

definition EXTERNAL_CREDENTIALS :: "string list" where
  "EXTERNAL_CREDENTIALS = [''alertmanager_receiver'', ''database_url'', ''github_client_secret'', ''github_private_key'', ''openai_api_key'',
     ''redis_url'', ''webhook_secret'']"

definition TOP_LEVEL_KEYS_rotation :: "string list" where
  "TOP_LEVEL_KEYS_rotation = [''schema_version'', ''drill_id'', ''source_revision'', ''environment'', ''manager_type'', ''started_at'',
     ''completed_at'', ''inventory'', ''workload_identity'', ''fernet_rotation'', ''external_rotation'', ''unavailable_secret'',
     ''artifact_scans'']"

record secret_item =
  si_name :: pystr
  si_workloads :: "pystr list"
  si_owner :: pystr
  si_version :: pystr
  si_created_at :: int
  si_rotation_due_at :: int
  si_injected_via_file :: bool
  si_read_only :: bool

fun string_of :: "json \<Rightarrow> pystr" where
  "string_of (JStr s) = s"
| "string_of _ = []"

text \<open>A checked field, and an instant, of a mapping.\<close>

definition get_checked :: "checker \<Rightarrow> mapping \<Rightarrow> pystr \<Rightarrow> string \<Rightarrow> exn + json" where
  "get_checked check d label k = bindE (item d k) (\<lambda>v. check v (dotted label k))"

definition get_time :: "mapping \<Rightarrow> pystr \<Rightarrow> string \<Rightarrow> exn + int" where
  "get_time d label k = bindE (item d k) (\<lambda>v. parse_timestamp v (dotted label k))"

definition workloads_ok :: "json \<Rightarrow> bool" where
  "workloads_ok v = (case v of
       JArr xs \<Rightarrow> xs \<noteq> [] \<and> list_all (\<lambda>w. w \<in> JStr ` u ` set WORKLOADS) xs \<and> distinct xs
     | _ \<Rightarrow> False)"

definition parse_secret :: "pystr \<Rightarrow> pystr list \<Rightarrow> json \<Rightarrow> exn + secret_item" where
  "parse_secret label seen v = bindE (require_mapping v label) (\<lambda>d.
     bindE (require_exact_keys d [''name'', ''workloads'', ''owner'', ''version'', ''created_at'', ''rotation_due_at'', ''injected_via_file'',
       ''read_only''] label) (\<lambda>_.
     bindE (get_checked safe_identifier d label ''name'') (\<lambda>name.
     if string_of name \<notin> u ` set (REQUIRED_SECRETS @ OPTIONAL_SECRETS) then invalid label ''.name is not a supported credential''
     else if string_of name \<in> set seen then Inl (ValueError (u ''inventory contains duplicate credential: '' @ string_of name))
     else bindE (item d ''workloads'') (\<lambda>workloads.
     if \<not> workloads_ok workloads then invalid label ''.workloads must contain unique supported workloads''
     else bindE (get_checked safe_identifier d label ''owner'') (\<lambda>owner.
     bindE (get_checked safe_identifier d label ''version'') (\<lambda>version.
     bindE (get_time d label ''created_at'') (\<lambda>created.
     bindE (get_time d label ''rotation_due_at'') (\<lambda>due.
     if due \<le> created then invalid label ''.rotation_due_at must follow created_at''
     else bindE (get_checked require_bool d label ''injected_via_file'') (\<lambda>via_file.
     bindE (get_checked require_bool d label ''read_only'') (\<lambda>read_only.
       Inr \<lparr>si_name = string_of name,
         si_workloads = sort (map string_of (case workloads of JArr xs \<Rightarrow> xs | _ \<Rightarrow> [])),
         si_owner = string_of owner, si_version = string_of version, si_created_at = created, si_rotation_due_at = due,
         si_injected_via_file = flag via_file, si_read_only = flag read_only\<rparr>))))))))))"

fun parse_secrets :: "nat \<Rightarrow> pystr list \<Rightarrow> json list \<Rightarrow> exn + secret_item list" where
  "parse_secrets i seen [] = Inr []"
| "parse_secrets i seen (v # vs) = bindE (parse_secret (u ''inventory['' @ str_nat i @ u '']'') seen v) (\<lambda>s.
     bindE (parse_secrets (i + 1) (si_name s # seen) vs) (\<lambda>ss. Inr (s # ss)))"

definition parse_inventory :: "json \<Rightarrow> exn + secret_item list" where
  "parse_inventory v = (case v of
       JArr xs \<Rightarrow> if xs = [] then Inl (ValueError (u ''inventory must be a non-empty JSON array'')) else parse_secrets 0 [] xs
     | _ \<Rightarrow> Inl (ValueError (u ''inventory must be a non-empty JSON array'')))"

definition secret_named :: "secret_item list \<Rightarrow> pystr \<Rightarrow> secret_item option" where
  "secret_named inventory name = find (\<lambda>s. si_name s = name) inventory"

section \<open>The exercises\<close>

definition IDENTITY_FLAGS :: "string list" where
  "IDENTITY_FLAGS = [''read_allowed'', ''list_allowed'', ''write_allowed'', ''delete_allowed'', ''long_lived_key_present'']"

record identity_part =
  ip_authentication :: pystr
  ip_allowed_secret_count :: int
  ip_policy_checked_at :: int
  ip_flags :: mapping

definition parse_identity :: "mapping \<Rightarrow> exn + identity_part" where
  "parse_identity observation = (let label = u ''workload_identity'' in
     bindE (section_of observation ''workload_identity'' ([''identity'', ''authentication'', ''allowed_secret_count''] @ IDENTITY_FLAGS
       @ [''policy_checked_at''])) (\<lambda>d.
     bindE (get_checked safe_identifier d label ''identity'') (\<lambda>_.
     bindE (get_checked safe_identifier d label ''authentication'') (\<lambda>authentication.
     bindE (get_checked non_negative_int d label ''allowed_secret_count'') (\<lambda>allowed.
     bindE (get_time d label ''policy_checked_at'') (\<lambda>t.
     bindE (checked_fields d label (map (\<lambda>k. (k, require_bool)) IDENTITY_FLAGS)) (\<lambda>flags.
       Inr \<lparr>ip_authentication = string_of authentication, ip_allowed_secret_count = whole allowed, ip_policy_checked_at = t,
         ip_flags = flags\<rparr>)))))))"

definition FERNET_TIME_KEYS :: "string list" where
  "FERNET_TIME_KEYS = [''new_version_created_at'', ''old_primary_new_fallback_deployed_at'', ''dual_read_verified_at'',
     ''new_primary_old_fallback_deployed_at'', ''lazy_rewrap_verified_at'', ''observation_window_ended_at'', ''old_fallback_removed_at'',
     ''post_removal_canary_at'']"

definition FERNET_FLAGS :: "string list" where
  "FERNET_FLAGS = [''all_instances_updated'', ''old_deployments_terminated'', ''existing_session_verified'']"

record rotation_part =
  rn_name :: pystr
  rn_new_version :: pystr
  rn_old_version :: pystr
  rn_times :: "(string \<times> int) list"
  rn_flags :: mapping
  rn_outage :: rat

definition parse_fernet :: "secret_item list \<Rightarrow> mapping \<Rightarrow> exn + rotation_part" where
  "parse_fernet inventory observation = (let label = u ''fernet_rotation'' in
     bindE (section_of observation ''fernet_rotation'' ([''new_version'', ''old_version''] @ FERNET_TIME_KEYS @ FERNET_FLAGS)) (\<lambda>d.
     bindE (get_checked safe_identifier d label ''new_version'') (\<lambda>new.
     bindE (get_checked safe_identifier d label ''old_version'') (\<lambda>old.
     if new = old then Inl (ValueError (u ''Fernet new_version and old_version must differ''))
     else if (case secret_named inventory (u ''token_encryption_primary'') of None \<Rightarrow> False | Some s \<Rightarrow> string_of new \<noteq> si_version s)
     then Inl (ValueError (u ''Fernet new_version must match the primary inventory version''))
     else bindE (ordered_timestamps d FERNET_TIME_KEYS label) (\<lambda>ts.
     bindE (checked_fields d label (map (\<lambda>k. (k, require_bool)) FERNET_FLAGS)) (\<lambda>flags.
       Inr \<lparr>rn_name = [], rn_new_version = string_of new, rn_old_version = string_of old, rn_times = ts, rn_flags = flags, rn_outage = 0\<rparr>))))))"

definition EXTERNAL_TIME_KEYS :: "string list" where
  "EXTERNAL_TIME_KEYS = [''new_version_created_at'', ''new_version_deployed_at'', ''pre_revoke_canary_at'', ''old_version_revoked_at'',
     ''post_revoke_canary_at'']"

definition parse_external :: "secret_item list \<Rightarrow> mapping \<Rightarrow> exn + rotation_part" where
  "parse_external inventory observation = (let label = u ''external_rotation'' in
     bindE (section_of observation ''external_rotation'' ([''credential_name'', ''new_version'', ''old_version''] @ EXTERNAL_TIME_KEYS
       @ [''rollback_prepared'', ''unplanned_outage_seconds''])) (\<lambda>d.
     bindE (get_checked safe_identifier d label ''credential_name'') (\<lambda>name.
     case secret_named inventory (string_of name) of
       None \<Rightarrow> Inl (ValueError (u ''external_rotation.credential_name must reference an inventoried credential''))
     | Some s \<Rightarrow> if string_of name \<notin> u ` set EXTERNAL_CREDENTIALS
         then Inl (ValueError (u ''external_rotation.credential_name must reference an inventoried credential''))
         else bindE (get_checked safe_identifier d label ''new_version'') (\<lambda>new.
     bindE (get_checked safe_identifier d label ''old_version'') (\<lambda>old.
     if new = old then Inl (ValueError (u ''external credential new_version and old_version must differ''))
     else if string_of new \<noteq> si_version s then Inl (ValueError (u ''external rotation new_version must match the inventory version''))
     else bindE (ordered_timestamps d EXTERNAL_TIME_KEYS label) (\<lambda>ts.
     bindE (checked_fields d label [(''rollback_prepared'', require_bool)]) (\<lambda>flags.
     bindE (get_checked non_negative_number d label ''unplanned_outage_seconds'') (\<lambda>outage.
       Inr \<lparr>rn_name = string_of name, rn_new_version = string_of new, rn_old_version = string_of old, rn_times = ts, rn_flags = flags,
         rn_outage = number outage\<rparr>))))))))"

definition UNAVAILABLE_TIME_KEYS :: "string list" where
  "UNAVAILABLE_TIME_KEYS = [''unavailable_at'', ''detected_at'', ''incident_declared_at'', ''replacement_deployed_at'', ''recovered_at'']"

record incident_part =
  in_name :: pystr
  in_incident_id :: pystr
  in_times :: "(string \<times> int) list"
  in_fail_closed :: bool
  in_secret_exposed :: bool

definition parse_unavailable :: "secret_item list \<Rightarrow> mapping \<Rightarrow> exn + incident_part" where
  "parse_unavailable inventory observation = (let label = u ''unavailable_secret'' in
     bindE (section_of observation ''unavailable_secret'' ([''credential_name'', ''incident_id''] @ UNAVAILABLE_TIME_KEYS
       @ [''fail_closed'', ''secret_exposed''])) (\<lambda>d.
     bindE (get_checked safe_identifier d label ''credential_name'') (\<lambda>name.
     if secret_named inventory (string_of name) = None then Inl (ValueError (u ''unavailable_secret.credential_name must reference inventory''))
     else bindE (get_checked safe_identifier d label ''incident_id'') (\<lambda>incident.
     bindE (ordered_timestamps d UNAVAILABLE_TIME_KEYS label) (\<lambda>ts.
     bindE (get_checked require_bool d label ''fail_closed'') (\<lambda>closed.
     bindE (get_checked require_bool d label ''secret_exposed'') (\<lambda>exposed.
       Inr \<lparr>in_name = string_of name, in_incident_id = string_of incident, in_times = ts, in_fail_closed = flag closed,
         in_secret_exposed = flag exposed\<rparr>)))))))"

definition SCAN_FLAGS :: "string list" where
  "SCAN_FLAGS = [''repository_clean'', ''images_clean'', ''manifests_clean'', ''logs_clean'']"

definition parse_scans :: "mapping \<Rightarrow> exn + int \<times> mapping" where
  "parse_scans observation = (let label = u ''artifact_scans'' in
     bindE (section_of observation ''artifact_scans'' (SCAN_FLAGS @ [''checked_at''])) (\<lambda>d.
     bindE (get_time d label ''checked_at'') (\<lambda>t.
     bindE (checked_fields d label (map (\<lambda>k. (k, require_bool)) SCAN_FLAGS)) (\<lambda>flags. Inr (t, flags)))))"

section \<open>The verdict\<close>

record rotation_thresholds =
  rt_max_detection_seconds :: rat
  rt_max_recovery_seconds :: rat
  rt_max_unplanned_outage_seconds :: rat

definition rotation_checks :: "rotation_thresholds \<Rightarrow> int \<Rightarrow> secret_item list \<Rightarrow> identity_part \<Rightarrow> rotation_part \<Rightarrow> rotation_part
    \<Rightarrow> incident_part \<Rightarrow> mapping \<Rightarrow> (string \<times> bool) list" where
  "rotation_checks T completed inventory identity fernet external incident scans =
     (let ts = in_times incident; allowed = (\<lambda>k. flag (field (ip_flags identity) k)) in
      [(''inventory_complete'', u ` set REQUIRED_SECRETS \<subseteq> si_name ` set inventory),
       (''rotation_deadlines_current'', list_all (\<lambda>s. completed < si_rotation_due_at s) inventory),
       (''file_injection'', list_all si_injected_via_file inventory),
       (''read_only_mounts'', list_all si_read_only inventory),
       (''least_privilege_identity'', ip_authentication identity = u ''workload_identity''
          \<and> ip_allowed_secret_count identity = int (length inventory) \<and> allowed ''read_allowed'' \<and> \<not> allowed ''list_allowed''
          \<and> \<not> allowed ''write_allowed'' \<and> \<not> allowed ''delete_allowed'' \<and> \<not> allowed ''long_lived_key_present''),
       (''fernet_rolling_rotation'', list_all (\<lambda>(_, v). flag v) (rn_flags fernet)),
       (''external_credential_rotation'', flag (field (rn_flags external) ''rollback_prepared'')
          \<and> rn_outage external \<le> rt_max_unplanned_outage_seconds T),
       (''unavailable_secret_response'', in_fail_closed incident \<and> \<not> in_secret_exposed incident
          \<and> duration_seconds (time_at ts ''unavailable_at'') (time_at ts ''detected_at'') \<le> rt_max_detection_seconds T
          \<and> duration_seconds (time_at ts ''unavailable_at'') (time_at ts ''recovered_at'') \<le> rt_max_recovery_seconds T),
       (''artifact_scans_clean'', list_all (\<lambda>(_, v). flag v) scans)])"

text \<open>\<open>fingerprint\<close>: identifiers are plain ASCII, so encoding them succeeds.\<close>

definition fingerprint :: "pystr \<Rightarrow> json" where
  "fingerprint v = JStr (take 16 (hexdigest (sha256 (case utf8_encode v of Inr b \<Rightarrow> b | Inl _ \<Rightarrow> []))))"

definition secret_json :: "secret_item \<Rightarrow> json" where
  "secret_json s = JObj [(u ''name'', JStr (si_name s)), (u ''workloads'', JArr (map JStr (si_workloads s))),
     (u ''owner_documented'', JBool True), (u ''version_fingerprint'', fingerprint (si_version s)),
     (u ''created_at'', utc_timestamp (si_created_at s)), (u ''rotation_due_at'', utc_timestamp (si_rotation_due_at s)),
     (u ''injected_via_file'', JBool (si_injected_via_file s)), (u ''read_only'', JBool (si_read_only s))]"

definition rotation_json :: "mapping \<Rightarrow> rotation_part \<Rightarrow> mapping \<Rightarrow> json" where
  "rotation_json first_fields r last_fields = JObj (first_fields @ [(u ''new_version_fingerprint'', fingerprint (rn_new_version r)),
     (u ''old_version_fingerprint'', fingerprint (rn_old_version r)), (u ''timeline'', timeline (rn_times r))] @ rn_flags r @ last_fields)"

definition rotation_document :: "rotation_thresholds \<Rightarrow> pystr \<Rightarrow> int \<Rightarrow> mapping \<Rightarrow> int \<Rightarrow> int \<Rightarrow> secret_item list \<Rightarrow> identity_part
    \<Rightarrow> rotation_part \<Rightarrow> rotation_part \<Rightarrow> incident_part \<Rightarrow> int \<times> mapping \<Rightarrow> json" where
  "rotation_document T digest now names started completed inventory identity fernet external incident scans =
     (let checks = rotation_checks T completed inventory identity fernet external incident (snd scans); ts = in_times incident in
      JObj ([(u ''schema_version'', JInt 1), (u ''checked_at'', utc_timestamp now)] @ names
        @ [(u ''input_sha256'', JStr digest), (u ''inventory'', JArr (map secret_json (sort_key si_name inventory))),
           (u ''workload_identity'', JObj ([(u ''authentication'', JStr (ip_authentication identity)), (u ''identity_documented'', JBool True),
              (u ''allowed_secret_count'', JInt (ip_allowed_secret_count identity))] @ ip_flags identity
              @ [(u ''policy_checked_at'', utc_timestamp (ip_policy_checked_at identity))])),
           (u ''rotations'', JObj [(u ''fernet'', rotation_json [] fernet []),
              (u ''external'', rotation_json [(u ''credential_name'', JStr (rn_name external))] external
                [(u ''unplanned_outage_seconds'', JFloat (rn_outage external))])]),
           (u ''unavailable_secret'', JObj [(u ''credential_name'', JStr (in_name incident)), (u ''incident_id'', JStr (in_incident_id incident)),
              (u ''timeline'', timeline ts),
              (u ''detection_seconds'', JFloat (duration_seconds (time_at ts ''unavailable_at'') (time_at ts ''detected_at''))),
              (u ''recovery_seconds'', JFloat (duration_seconds (time_at ts ''unavailable_at'') (time_at ts ''recovered_at''))),
              (u ''fail_closed'', JBool (in_fail_closed incident)), (u ''secret_exposed'', JBool (in_secret_exposed incident))]),
           (u ''artifact_scans'', JObj (snd scans @ [(u ''checked_at'', utc_timestamp (fst scans))])),
           (u ''threshold_seconds'', JObj [(u ''detection'', JFloat (rt_max_detection_seconds T)),
              (u ''recovery'', JFloat (rt_max_recovery_seconds T)), (u ''unplanned_outage'', JFloat (rt_max_unplanned_outage_seconds T))]),
           (u ''timeline'', JObj [(u ''started_at'', utc_timestamp started), (u ''completed_at'', utc_timestamp completed)]),
           (u ''checks'', checks_json checks), (u ''passed'', all_passed checks)]))"

definition drill_events :: "identity_part \<Rightarrow> rotation_part \<Rightarrow> rotation_part \<Rightarrow> incident_part \<Rightarrow> int \<times> mapping \<Rightarrow> int list" where
  "drill_events identity fernet external incident scans = [ip_policy_checked_at identity] @ map snd (rn_times fernet)
     @ map snd (rn_times external) @ map snd (in_times incident) @ [fst scans]"

definition rotation_evidence :: "rotation_thresholds \<Rightarrow> int \<Rightarrow> mapping \<Rightarrow> pystr \<Rightarrow> exn + json" where
  "rotation_evidence T now observation digest =
     bindE (require_exact_keys observation TOP_LEVEL_KEYS_rotation (u ''observation'')) (\<lambda>_.
     bindE (schema_1 observation) (\<lambda>_.
     if list_ex (\<lambda>x. \<not> is_finite x \<or> x < 0) [rt_max_detection_seconds T, rt_max_recovery_seconds T, rt_max_unplanned_outage_seconds T]
     then Inl (ValueError (u ''thresholds must be non-negative finite numbers''))
     else bindE (mapE (\<lambda>k. bindE (item observation k) (\<lambda>v. bindE (safe_identifier v (u k)) (\<lambda>r. Inr (u k, r))))
       [''drill_id'', ''source_revision'', ''environment'', ''manager_type'']) (\<lambda>names.
     if string_of (field names ''manager_type'') \<notin> u ` set MANAGER_TYPES
     then Inl (ValueError (u ''manager_type must be one of '' @ join (u '', '') (sort (map u MANAGER_TYPES))))
     else bindE (bindE (item observation ''started_at'') (\<lambda>v. parse_timestamp v (u ''started_at''))) (\<lambda>started.
     bindE (bindE (item observation ''completed_at'') (\<lambda>v. parse_timestamp v (u ''completed_at''))) (\<lambda>completed.
     if completed \<le> started then Inl (ValueError (u ''completed_at must follow started_at''))
     else bindE (bindE (item observation ''inventory'') parse_inventory) (\<lambda>inventory.
     bindE (parse_identity observation) (\<lambda>identity.
     bindE (parse_fernet inventory observation) (\<lambda>fernet.
     bindE (parse_external inventory observation) (\<lambda>external.
     bindE (parse_unavailable inventory observation) (\<lambda>incident.
     bindE (parse_scans observation) (\<lambda>scans.
     if list_ex (\<lambda>t. t < started \<or> completed < t) (drill_events identity fernet external incident scans)
     then Inl (ValueError (u ''all drill event timestamps must fall between started_at and completed_at''))
     else if list_ex (\<lambda>s. completed < si_created_at s) inventory
     then Inl (ValueError (u ''inventory created_at cannot follow completed_at''))
     else if now < completed then Inl (ValueError (u ''drill timestamps cannot be in the future''))
     else Inr (rotation_document T digest now names started completed inventory identity fernet external incident scans))))))))))))"

section \<open>What the verdict means\<close>

lemma get_checked_kept: "get_checked check d label k = Inr r \<Longrightarrow> keeper check \<Longrightarrow> field d k = r"
  by (auto simp: get_checked_def keeper_def bindE_eq_Inr dest!: item_field)

lemma get_checked_float: "get_checked check d label k = Inr r \<Longrightarrow> floater check \<Longrightarrow> number r = float_value (field d k)"
  by (auto simp: get_checked_def floater_def bindE_eq_Inr dest!: item_field)

lemma safe_identifier_text: "safe_identifier v label = Inr r \<Longrightarrow> r = JStr (string_of r)"
  by (cases v) (auto simp: safe_identifier_def invalid_def split: if_splits)

lemma get_time_instant: "get_time d label k = Inr t \<Longrightarrow> instant (field d k) = t"
  by (auto simp: get_time_def bindE_eq_Inr parse_timestamp_instant dest!: item_field)

lemma read_times_list:
  "read_times d keys label = Inr ts \<Longrightarrow> map snd ts = map (\<lambda>k. instant (field d k)) keys"
  unfolding read_times_def
  by (induction keys arbitrary: ts) (auto simp: bindE_eq_Inr parse_timestamp_instant dest!: item_field)

lemma ordered_list:
  assumes "ordered_timestamps d keys label = Inr ts"
  shows "map snd ts = map (\<lambda>k. instant (field d k)) keys" "sorted (map (\<lambda>k. instant (field d k)) keys)"
  using assms read_times_list by (auto simp: ordered_timestamps_def bindE_eq_Inr invalid_def split: if_splits)

lemma parse_secrets_names:
  "parse_secrets i seen vs = Inr ss \<Longrightarrow> distinct (map si_name ss) \<and> set (map si_name ss) \<inter> set seen = {}"
proof (induction vs arbitrary: i seen ss)
  case (Cons v vs)
  then obtain s ss' where s: "parse_secret (u ''inventory['' @ str_nat i @ u '']'') seen v = Inr s" "ss = s # ss'"
    "parse_secrets (i + 1) (si_name s # seen) vs = Inr ss'"
    by (auto simp: bindE_eq_Inr)
  from s(1) have "si_name s \<notin> set seen" by (auto simp: parse_secret_def bindE_eq_Inr invalid_def split: if_splits)
  with Cons.IH[OF s(3)] s(2) show ?case by auto
qed simp

lemma all_flags:
  assumes "checked_fields d label (map (\<lambda>k. (k, require_bool)) ks) = Inr rs"
  shows "list_all (\<lambda>(_, v). flag v) rs \<longleftrightarrow> list_all (\<lambda>k. field d k = JBool True) ks"
  using assms unfolding checked_fields_def
  by (induction ks arbitrary: rs) (auto simp: bindE_eq_Inr dest!: kept_values(1) item_field)

text \<open>The instants of an exercise, and its flags, as they were submitted.\<close>

abbreviation times_in :: "mapping \<Rightarrow> string \<Rightarrow> string list \<Rightarrow> int list" where
  "times_in obs name keys \<equiv> map (\<lambda>k. instant (raw_field obs name k)) keys"

abbreviation yes :: "mapping \<Rightarrow> string \<Rightarrow> string \<Rightarrow> bool" where
  "yes obs name k \<equiv> raw_field obs name k = JBool True"

definition least_privilege :: "mapping \<Rightarrow> nat \<Rightarrow> bool" where
  "least_privilege obs n \<longleftrightarrow> raw_field obs ''workload_identity'' ''authentication'' = JStr (u ''workload_identity'')
     \<and> whole (raw_field obs ''workload_identity'' ''allowed_secret_count'') = int n \<and> yes obs ''workload_identity'' ''read_allowed''
     \<and> list_all (\<lambda>k. \<not> yes obs ''workload_identity'' k) [''list_allowed'', ''write_allowed'', ''delete_allowed'', ''long_lived_key_present'']"

definition incident_handled :: "rotation_thresholds \<Rightarrow> mapping \<Rightarrow> bool" where
  "incident_handled T obs \<longleftrightarrow> (let at_time = (\<lambda>k. instant (raw_field obs ''unavailable_secret'' k)) in
     yes obs ''unavailable_secret'' ''fail_closed'' \<and> \<not> yes obs ''unavailable_secret'' ''secret_exposed''
     \<and> duration_seconds (at_time ''unavailable_at'') (at_time ''detected_at'') \<le> rt_max_detection_seconds T
     \<and> duration_seconds (at_time ''unavailable_at'') (at_time ''recovered_at'') \<le> rt_max_recovery_seconds T)"

lemma identity_fields:
  assumes "parse_identity obs = Inr p"
  shows "ip_policy_checked_at p = instant (raw_field obs ''workload_identity'' ''policy_checked_at'')"
    "(ip_authentication p = u ''workload_identity'' \<and> ip_allowed_secret_count p = int n \<and> flag (field (ip_flags p) ''read_allowed'')
      \<and> \<not> flag (field (ip_flags p) ''list_allowed'') \<and> \<not> flag (field (ip_flags p) ''write_allowed'')
      \<and> \<not> flag (field (ip_flags p) ''delete_allowed'') \<and> \<not> flag (field (ip_flags p) ''long_lived_key_present'')) \<longleftrightarrow> least_privilege obs n"
proof -
  let ?l = "u ''workload_identity''"
  obtain d auth allowed t flags where d: "section_of obs ''workload_identity'' ([''identity'', ''authentication'', ''allowed_secret_count'']
       @ IDENTITY_FLAGS @ [''policy_checked_at'']) = Inr d"
    "get_checked safe_identifier d ?l ''authentication'' = Inr auth" "get_checked non_negative_int d ?l ''allowed_secret_count'' = Inr allowed"
    "get_time d ?l ''policy_checked_at'' = Inr t" "checked_fields d ?l (map (\<lambda>k. (k, require_bool)) IDENTITY_FLAGS) = Inr flags"
    "p = \<lparr>ip_authentication = string_of auth, ip_allowed_secret_count = whole allowed, ip_policy_checked_at = t, ip_flags = flags\<rparr>"
    using assms by (auto simp: parse_identity_def bindE_eq_Inr Let_def)
  have s: "auth = JStr (string_of auth)"
    using d(2) by (auto simp: get_checked_def bindE_eq_Inr dest: safe_identifier_text)
  have auth: "string_of auth = x \<longleftrightarrow> auth = JStr x" for x by (subst (2) s) auto
  note K = kept_field[OF d(5)] section_of_field[OF d(1)] get_checked_kept[OF d(2)] get_checked_kept[OF d(3)] IDENTITY_FLAGS_def
  show "ip_policy_checked_at p = instant (raw_field obs ''workload_identity'' ''policy_checked_at'')"
    using d(6) by (simp add: section_of_field[OF d(1)] get_time_instant[OF d(4)])
  show "(ip_authentication p = u ''workload_identity'' \<and> ip_allowed_secret_count p = int n \<and> flag (field (ip_flags p) ''read_allowed'')
      \<and> \<not> flag (field (ip_flags p) ''list_allowed'') \<and> \<not> flag (field (ip_flags p) ''write_allowed'')
      \<and> \<not> flag (field (ip_flags p) ''delete_allowed'') \<and> \<not> flag (field (ip_flags p) ''long_lived_key_present'')) \<longleftrightarrow> least_privilege obs n"
    by (simp add: d(6) least_privilege_def K auth)
qed

lemma fernet_fields:
  assumes "parse_fernet inventory obs = Inr p"
  shows "map snd (rn_times p) = times_in obs ''fernet_rotation'' FERNET_TIME_KEYS" "sorted (times_in obs ''fernet_rotation'' FERNET_TIME_KEYS)"
    "list_all (\<lambda>(_, v). flag v) (rn_flags p) \<longleftrightarrow> list_all (yes obs ''fernet_rotation'') FERNET_FLAGS"
proof -
  let ?l = "u ''fernet_rotation''"
  obtain d ts flags where d: "section_of obs ''fernet_rotation'' ([''new_version'', ''old_version''] @ FERNET_TIME_KEYS @ FERNET_FLAGS) = Inr d"
    "ordered_timestamps d FERNET_TIME_KEYS ?l = Inr ts" "checked_fields d ?l (map (\<lambda>k. (k, require_bool)) FERNET_FLAGS) = Inr flags"
    "rn_times p = ts" "rn_flags p = flags"
    using assms unfolding parse_fernet_def Let_def bindE_eq_Inr guard_Inr by auto
  note K = section_of_field[OF d(1)] ordered_list[OF d(2)] all_flags[OF d(3)] d(4,5)
  show "map snd (rn_times p) = times_in obs ''fernet_rotation'' FERNET_TIME_KEYS" "sorted (times_in obs ''fernet_rotation'' FERNET_TIME_KEYS)"
    "list_all (\<lambda>(_, v). flag v) (rn_flags p) \<longleftrightarrow> list_all (yes obs ''fernet_rotation'') FERNET_FLAGS"
    by (simp_all only: K)
qed

lemma external_fields:
  assumes "parse_external inventory obs = Inr p"
  shows "map snd (rn_times p) = times_in obs ''external_rotation'' EXTERNAL_TIME_KEYS" "sorted (times_in obs ''external_rotation'' EXTERNAL_TIME_KEYS)"
    "flag (field (rn_flags p) ''rollback_prepared'') \<longleftrightarrow> yes obs ''external_rotation'' ''rollback_prepared''"
    "rn_outage p = float_value (raw_field obs ''external_rotation'' ''unplanned_outage_seconds'')"
proof -
  let ?l = "u ''external_rotation''"
  obtain d ts flags out where d: "section_of obs ''external_rotation'' ([''credential_name'', ''new_version'', ''old_version''] @ EXTERNAL_TIME_KEYS
       @ [''rollback_prepared'', ''unplanned_outage_seconds'']) = Inr d"
    "ordered_timestamps d EXTERNAL_TIME_KEYS ?l = Inr ts" "checked_fields d ?l [(''rollback_prepared'', require_bool)] = Inr flags"
    "get_checked non_negative_number d ?l ''unplanned_outage_seconds'' = Inr out" "rn_times p = ts" "rn_flags p = flags" "rn_outage p = number out"
    using assms unfolding parse_external_def Let_def bindE_eq_Inr by (auto split: option.splits if_splits simp: bindE_eq_Inr)
  note K = section_of_field[OF d(1)] ordered_list[OF d(2)] d(5-7)
  show "map snd (rn_times p) = times_in obs ''external_rotation'' EXTERNAL_TIME_KEYS" "sorted (times_in obs ''external_rotation'' EXTERNAL_TIME_KEYS)"
    by (simp_all only: K)
  show "flag (field (rn_flags p) ''rollback_prepared'') \<longleftrightarrow> yes obs ''external_rotation'' ''rollback_prepared''"
    "rn_outage p = float_value (raw_field obs ''external_rotation'' ''unplanned_outage_seconds'')"
    by (simp_all add: K kept_field[OF d(3)] get_checked_float[OF d(4)])
qed

lemma incident_fields:
  assumes "parse_unavailable inventory obs = Inr p"
  shows "map snd (in_times p) = times_in obs ''unavailable_secret'' UNAVAILABLE_TIME_KEYS"
    "sorted (times_in obs ''unavailable_secret'' UNAVAILABLE_TIME_KEYS)"
    "(in_fail_closed p \<and> \<not> in_secret_exposed p
      \<and> duration_seconds (time_at (in_times p) ''unavailable_at'') (time_at (in_times p) ''detected_at'') \<le> rt_max_detection_seconds T
      \<and> duration_seconds (time_at (in_times p) ''unavailable_at'') (time_at (in_times p) ''recovered_at'') \<le> rt_max_recovery_seconds T)
      \<longleftrightarrow> incident_handled T obs"
proof -
  let ?l = "u ''unavailable_secret''"
  obtain d ts a b where d: "section_of obs ''unavailable_secret'' ([''credential_name'', ''incident_id''] @ UNAVAILABLE_TIME_KEYS
       @ [''fail_closed'', ''secret_exposed'']) = Inr d"
    "ordered_timestamps d UNAVAILABLE_TIME_KEYS ?l = Inr ts" "get_checked require_bool d ?l ''fail_closed'' = Inr a"
    "get_checked require_bool d ?l ''secret_exposed'' = Inr b" "in_times p = ts" "in_fail_closed p = flag a" "in_secret_exposed p = flag b"
    using assms unfolding parse_unavailable_def Let_def bindE_eq_Inr guard_Inr by auto
  show "map snd (in_times p) = times_in obs ''unavailable_secret'' UNAVAILABLE_TIME_KEYS"
    "sorted (times_in obs ''unavailable_secret'' UNAVAILABLE_TIME_KEYS)"
    by (simp_all only: section_of_field[OF d(1)] ordered_list[OF d(2)] d(5))
  have t: "time_at ts ''unavailable_at'' = instant (field d ''unavailable_at'')" "time_at ts ''detected_at'' = instant (field d ''detected_at'')"
    "time_at ts ''recovered_at'' = instant (field d ''recovered_at'')"
    by (rule ordered_instant[OF d(2)]; simp add: UNAVAILABLE_TIME_KEYS_def)+
  have f: "field d ''fail_closed'' = a" "field d ''secret_exposed'' = b"
    by (rule get_checked_kept[OF d(3)], simp, rule get_checked_kept[OF d(4)], simp)
  show "(in_fail_closed p \<and> \<not> in_secret_exposed p
      \<and> duration_seconds (time_at (in_times p) ''unavailable_at'') (time_at (in_times p) ''detected_at'') \<le> rt_max_detection_seconds T
      \<and> duration_seconds (time_at (in_times p) ''unavailable_at'') (time_at (in_times p) ''recovered_at'') \<le> rt_max_recovery_seconds T)
      \<longleftrightarrow> incident_handled T obs"
    by (simp only: incident_handled_def Let_def section_of_field[OF d(1)] d(5-7) t f flag_JBool)
qed

lemma scans_fields:
  assumes "parse_scans obs = Inr p"
  shows "fst p = instant (raw_field obs ''artifact_scans'' ''checked_at'')"
    "list_all (\<lambda>(_, v). flag v) (snd p) \<longleftrightarrow> list_all (yes obs ''artifact_scans'') SCAN_FLAGS"
proof -
  let ?l = "u ''artifact_scans''"
  obtain d t flags where d: "section_of obs ''artifact_scans'' (SCAN_FLAGS @ [''checked_at'']) = Inr d"
    "get_time d ?l ''checked_at'' = Inr t" "checked_fields d ?l (map (\<lambda>k. (k, require_bool)) SCAN_FLAGS) = Inr flags" "p = (t, flags)"
    using assms unfolding parse_scans_def Let_def bindE_eq_Inr by auto
  show "fst p = instant (raw_field obs ''artifact_scans'' ''checked_at'')"
    "list_all (\<lambda>(_, v). flag v) (snd p) \<longleftrightarrow> list_all (yes obs ''artifact_scans'') SCAN_FLAGS"
    by (simp_all only: section_of_field[OF d(1)] get_time_instant[OF d(2)] all_flags[OF d(3)] d(4) fst_conv snd_conv)
qed

text \<open>The conditions of a rotation drill, and the order of its events.\<close>

definition rotation_met :: "rotation_thresholds \<Rightarrow> mapping \<Rightarrow> bool" where
  "rotation_met T obs = (case parse_inventory (field obs ''inventory'') of
       Inl _ \<Rightarrow> False
     | Inr inventory \<Rightarrow> u ` set REQUIRED_SECRETS \<subseteq> si_name ` set inventory
         \<and> list_all (\<lambda>s. instant (field obs ''completed_at'') < si_rotation_due_at s \<and> si_injected_via_file s \<and> si_read_only s) inventory
         \<and> least_privilege obs (length inventory) \<and> list_all (yes obs ''fernet_rotation'') FERNET_FLAGS
         \<and> yes obs ''external_rotation'' ''rollback_prepared''
         \<and> float_value (raw_field obs ''external_rotation'' ''unplanned_outage_seconds'') \<le> rt_max_unplanned_outage_seconds T
         \<and> incident_handled T obs \<and> list_all (yes obs ''artifact_scans'') SCAN_FLAGS)"

definition rotation_ordered :: "int \<Rightarrow> mapping \<Rightarrow> bool" where
  "rotation_ordered now obs \<longleftrightarrow> (let fernet = times_in obs ''fernet_rotation'' FERNET_TIME_KEYS;
       external = times_in obs ''external_rotation'' EXTERNAL_TIME_KEYS; incident = times_in obs ''unavailable_secret'' UNAVAILABLE_TIME_KEYS;
       started = instant (field obs ''started_at''); completed = instant (field obs ''completed_at'') in
     sorted fernet \<and> sorted external \<and> sorted incident
     \<and> list_all (\<lambda>t. started \<le> t \<and> t \<le> completed) (fernet @ external @ incident) \<and> completed \<le> now)"

lemma rotation_verdict:
  assumes "rotation_evidence T now obs digest = Inr ev"
  shows "evidence_passed ev \<longleftrightarrow> rotation_met T obs" "rotation_ordered now obs"
proof -
  from assms obtain names started completed inventory identity fernet external incident scans where
    P: "mapE (\<lambda>k. bindE (item obs k) (\<lambda>v. bindE (safe_identifier v (u k)) (\<lambda>r. Inr (u k, r))))
       [''drill_id'', ''source_revision'', ''environment'', ''manager_type''] = Inr names"
      "bindE (item obs ''started_at'') (\<lambda>v. parse_timestamp v (u ''started_at'')) = Inr started"
      "bindE (item obs ''completed_at'') (\<lambda>v. parse_timestamp v (u ''completed_at'')) = Inr completed"
      "bindE (item obs ''inventory'') parse_inventory = Inr inventory" "parse_identity obs = Inr identity"
      "parse_fernet inventory obs = Inr fernet" "parse_external inventory obs = Inr external"
      "parse_unavailable inventory obs = Inr incident" "parse_scans obs = Inr scans"
      "\<not> list_ex (\<lambda>t. t < started \<or> completed < t) (drill_events identity fernet external incident scans)" "\<not> now < completed"
    and ev: "ev = rotation_document T digest now names started completed inventory identity fernet external incident scans"
    unfolding rotation_evidence_def bindE_eq_Inr guard_Inr by (clarsimp simp del: mapE.simps)
  have t: "instant (field obs ''started_at'') = started" "instant (field obs ''completed_at'') = completed"
    "parse_inventory (field obs ''inventory'') = Inr inventory"
    using P(2-4) by (auto simp: bindE_eq_Inr parse_timestamp_instant dest!: item_field)
  have p: "evidence_passed ev \<longleftrightarrow> list_all snd (rotation_checks T completed inventory identity fernet external incident (snd scans))"
    unfolding ev rotation_document_def evidence_passed_def Let_def
    by (simp add: field_append field_Cons mapE_keys[OF P(1)] all_passed_def)
  have w: "list_all (\<lambda>t. started \<le> t \<and> t \<le> completed) (drill_events identity fernet external incident scans)"
    using P(10) by (auto simp: list_ex_iff list_all_iff not_less)
  have i: "list_all (\<lambda>s. completed < si_rotation_due_at s \<and> si_injected_via_file s \<and> si_read_only s) inventory \<longleftrightarrow>
      list_all (\<lambda>s. completed < si_rotation_due_at s) inventory \<and> list_all si_injected_via_file inventory \<and> list_all si_read_only inventory"
    by (auto simp: list_all_iff)
  note F = fernet_fields[OF P(6)] external_fields[OF P(7)] incident_fields(1,2)[OF P(8)] incident_fields(3)[OF P(8), of T] scans_fields[OF P(9)]
    identity_fields(2)[OF P(5), of "length inventory"]
  show "evidence_passed ev \<longleftrightarrow> rotation_met T obs" using p i F
    by (simp only: t sum.case rotation_met_def rotation_checks_def Let_def list.pred_inject snd_conv simp_thms) blast
  show "rotation_ordered now obs" using w F P(11)
    by (simp only: t rotation_ordered_def Let_def drill_events_def list_all_append list.pred_inject not_less simp_thms)
qed

interpretation rv: verifier "rotation_evidence T now" "rotation_met T" for T now
  by unfold_locales (rule rotation_verdict(1))

text \<open>The verdict on a rotation drill is right: when the verifier writes its evidence, the input file held an observation
  in which the rotation of the encryption key, of the external credential and the incident happened in the order the
  procedure prescribes, all within the drill and none in the future, and the exit code is 0 exactly when the submitted
  facts meet every condition of the procedure.\<close>

theorem rotation_exit_code:
  assumes "verifier_main (rotation_evidence T now) same_path input = Written ev code"
  shows "\<exists>obs digest. load_observation input = Inr (obs, digest) \<and> rotation_ordered now obs \<and> code = (if rotation_met T obs then 0 else 1)"
  using rv.main_written[OF assms] rotation_verdict(2) by blast

end
