(* ===== verification/Drill_Evidence.thy ===== *)
theory Drill_Evidence
  imports Rotation_Evidence
begin

text \<open>
  The verdict on a recovery drill, \<open>ops/recovery/verify_drill_evidence.py\<close>: the restores of PostgreSQL and Grafana, the
  cutover and the rollback against the recovery objectives.
\<close>

section \<open>Sections of the observation\<close>

definition TOP_LEVEL_KEYS_drill :: "string list" where
  "TOP_LEVEL_KEYS_drill = [''schema_version'', ''drill_id'', ''source_revision'', ''environment'', ''started_at'', ''completed_at'',
     ''objectives_seconds'', ''postgres'', ''grafana'', ''cutover'', ''rollback'', ''artifacts'']"

definition SERVICE_FIELDS :: "(string \<times> checker) list" where
  "SERVICE_FIELDS = [(''evidence_sha256'', sha256_value), (''backup_bytes'', positive_int), (''representative_minimum_bytes'', positive_int),
     (''backup_duration_seconds'', positive_number), (''restore_duration_seconds'', positive_number), (''recovery_seconds'', positive_number),
     (''observed_rpo_seconds'', non_negative_number), (''integrity_checks_passed'', require_bool), (''source_preserved'', require_bool)]"

definition SERVICE_TIME_KEYS :: "string list" where
  "SERVICE_TIME_KEYS = [''write_freeze_at'', ''backup_created_at'', ''restore_started_at'', ''validated_at'']"

definition parse_service :: "string \<Rightarrow> mapping \<Rightarrow> exn + (string \<times> int) list \<times> mapping" where
  "parse_service name observation = bindE (section_of observation name (map fst SERVICE_FIELDS @ SERVICE_TIME_KEYS)) (\<lambda>d.
     bindE (ordered_timestamps d SERVICE_TIME_KEYS (u name)) (\<lambda>ts.
     bindE (checked_fields d (u name) SERVICE_FIELDS) (\<lambda>r. Inr (ts, r))))"

definition OBJECTIVES :: "string list" where
  "OBJECTIVES = [''postgres_rto'', ''grafana_rto'', ''rpo'', ''rollback_rto'']"

definition parse_objectives :: "mapping \<Rightarrow> exn + mapping" where
  "parse_objectives observation = bindE (section_of observation ''objectives_seconds'' OBJECTIVES) (\<lambda>d.
     checked_fields d (u ''objectives_seconds'') (map (\<lambda>k. (k, positive_number)) OBJECTIVES))"

definition CUTOVER_TIME_KEYS :: "string list" where
  "CUTOVER_TIME_KEYS = [''approved_at'', ''started_at'', ''completed_at'']"

definition parse_cutover :: "mapping \<Rightarrow> exn + (string \<times> int) list \<times> bool" where
  "parse_cutover observation = (let label = u ''cutover'' in
     bindE (section_of observation ''cutover'' (CUTOVER_TIME_KEYS @ [''approved'', ''approver''])) (\<lambda>d.
     bindE (ordered_timestamps d CUTOVER_TIME_KEYS label) (\<lambda>ts.
     bindE (get_checked require_bool d label ''approved'') (\<lambda>approved.
     bindE (get_checked safe_identifier d label ''approver'') (\<lambda>_. Inr (ts, flag approved))))))"

definition ROLLBACK_PROOFS :: "string list" where
  "ROLLBACK_PROOFS = [''used_preserved_postgres_source'', ''used_preserved_grafana_source'', ''postgres_integrity_verified'',
     ''grafana_content_verified'', ''grafana_access_policy_verified'', ''client_smoke_verified'']"

definition ROLLBACK_FLAGS :: "string list" where
  "ROLLBACK_FLAGS = ROLLBACK_PROOFS @ [''crossed_point_of_no_return'', ''reconciliation_plan_reviewed'']"

record rollback_part =
  rb_times :: "(string \<times> int) list"
  rb_condition :: json
  rb_flags :: mapping

definition parse_rollback :: "int \<Rightarrow> mapping \<Rightarrow> exn + rollback_part" where
  "parse_rollback cutover_completed observation = (let label = u ''rollback'' in
     bindE (section_of observation ''rollback'' ([''initiated_at'', ''completed_at'', ''point_of_no_return_condition''] @ ROLLBACK_FLAGS)) (\<lambda>d.
     bindE (ordered_timestamps d [''initiated_at'', ''completed_at''] label) (\<lambda>ts.
     if time_at ts ''initiated_at'' < cutover_completed then Inl (ValueError (u ''rollback must follow completed cutover''))
     else bindE (get_checked safe_identifier d label ''point_of_no_return_condition'') (\<lambda>condition.
     bindE (checked_fields d label (map (\<lambda>k. (k, require_bool)) ROLLBACK_FLAGS)) (\<lambda>flags.
       Inr \<lparr>rb_times = ts, rb_condition = condition, rb_flags = flags\<rparr>)))))"

definition rollback_duration :: "rollback_part \<Rightarrow> rat" where
  "rollback_duration r = duration_seconds (time_at (rb_times r) ''initiated_at'') (time_at (rb_times r) ''completed_at'')"

definition DRILL_ARTIFACTS :: "(string \<times> checker) list" where
  "DRILL_ARTIFACTS = [(''cutover_audit_sha256'', sha256_value), (''rollback_audit_sha256'', sha256_value),
     (''secret_scan_matches'', non_negative_int), (''reviewed'', require_bool)]"

definition parse_drill_artifacts :: "mapping \<Rightarrow> exn + mapping" where
  "parse_drill_artifacts observation = bindE (section_of observation ''artifacts'' (map fst DRILL_ARTIFACTS)) (\<lambda>d.
     checked_fields d (u ''artifacts'') DRILL_ARTIFACTS)"

section \<open>The verdict\<close>

definition service_passed :: "mapping \<Rightarrow> mapping \<Rightarrow> string \<Rightarrow> bool" where
  "service_passed objectives service rto \<longleftrightarrow>
     whole (field service ''representative_minimum_bytes'') \<le> whole (field service ''backup_bytes'')
     \<and> number (field service ''recovery_seconds'') \<le> number (field objectives rto)
     \<and> number (field service ''observed_rpo_seconds'') \<le> number (field objectives ''rpo'')
     \<and> flag (field service ''integrity_checks_passed'') \<and> flag (field service ''source_preserved'')"

definition drill_checks :: "mapping \<Rightarrow> mapping \<Rightarrow> mapping \<Rightarrow> bool \<Rightarrow> rollback_part \<Rightarrow> mapping \<Rightarrow> (string \<times> bool) list" where
  "drill_checks objectives postgres grafana approved rollback artifacts =
     [(''postgres_recovery'', service_passed objectives postgres ''postgres_rto''),
      (''grafana_recovery'', service_passed objectives grafana ''grafana_rto''),
      (''cutover_approved'', approved),
      (''rollback_verified'', list_all (\<lambda>k. flag (field (rb_flags rollback) k)) ROLLBACK_PROOFS
         \<and> rollback_duration rollback \<le> number (field objectives ''rollback_rto'')),
      (''point_of_no_return_controlled'', \<not> flag (field (rb_flags rollback) ''crossed_point_of_no_return'')
         \<or> flag (field (rb_flags rollback) ''reconciliation_plan_reviewed'')),
      (''artifacts_reviewed_and_clean'', flag (field artifacts ''reviewed'') \<and> whole (field artifacts ''secret_scan_matches'') = 0)]"

definition service_json :: "(string \<times> int) list \<times> mapping \<Rightarrow> json" where
  "service_json s = JObj (snd s @ [(u ''timeline'', timeline (fst s))])"

definition drill_document :: "pystr \<Rightarrow> int \<Rightarrow> mapping \<Rightarrow> int \<Rightarrow> int \<Rightarrow> mapping \<Rightarrow> (string \<times> int) list \<times> mapping \<Rightarrow> (string \<times> int) list \<times> mapping
    \<Rightarrow> (string \<times> int) list \<times> bool \<Rightarrow> rollback_part \<Rightarrow> mapping \<Rightarrow> json" where
  "drill_document digest now names started completed objectives postgres grafana cutover rollback artifacts =
     (let checks = drill_checks objectives (snd postgres) (snd grafana) (snd cutover) rollback artifacts in
      JObj ([(u ''schema_version'', JInt 1), (u ''checked_at'', utc_timestamp now)] @ names
        @ [(u ''drill_window'', JObj [(u ''started_at'', utc_timestamp started), (u ''completed_at'', utc_timestamp completed)]),
           (u ''objectives_seconds'', JObj objectives), (u ''postgres'', service_json postgres), (u ''grafana'', service_json grafana),
           (u ''cutover'', JObj [(u ''timeline'', timeline (fst cutover)), (u ''approved'', JBool (snd cutover)),
              (u ''approver_documented'', JBool True)]),
           (u ''rollback'', JObj ([(u ''timeline'', timeline (rb_times rollback)), (u ''duration_seconds'', JFloat (rollback_duration rollback)),
              (u ''point_of_no_return_condition'', rb_condition rollback)] @ rb_flags rollback)),
           (u ''artifacts'', JObj artifacts), (u ''checks'', checks_json checks), (u ''passed'', all_passed checks),
           (u ''input_sha256'', JStr digest)]))"

text \<open>The instants of a service are read back from the texts of its timeline.\<close>

definition reread_times :: "string \<Rightarrow> (string \<times> int) list \<Rightarrow> exn + int list" where
  "reread_times name ts = mapE (\<lambda>k. parse_timestamp (utc_timestamp (time_at ts k)) (dotted (u name) k)) SERVICE_TIME_KEYS"

definition drill_evidence :: "int \<Rightarrow> mapping \<Rightarrow> pystr \<Rightarrow> exn + json" where
  "drill_evidence now observation digest =
     bindE (require_exact_keys observation TOP_LEVEL_KEYS_drill (u ''observation'')) (\<lambda>_.
     bindE (schema_1 observation) (\<lambda>_.
     bindE (mapE (\<lambda>k. bindE (item observation k) (\<lambda>v. bindE (safe_identifier v (u k)) (\<lambda>r. Inr (u k, r))))
       [''drill_id'', ''source_revision'', ''environment'']) (\<lambda>names.
     bindE (bindE (item observation ''started_at'') (\<lambda>v. parse_timestamp v (u ''started_at''))) (\<lambda>started.
     bindE (bindE (item observation ''completed_at'') (\<lambda>v. parse_timestamp v (u ''completed_at''))) (\<lambda>completed.
     if completed \<le> started then Inl (ValueError (u ''completed_at must follow started_at''))
     else bindE (parse_objectives observation) (\<lambda>objectives.
     bindE (parse_service ''postgres'' observation) (\<lambda>postgres.
     bindE (parse_service ''grafana'' observation) (\<lambda>grafana.
     bindE (parse_cutover observation) (\<lambda>cutover.
     bindE (parse_rollback (time_at (fst cutover) ''completed_at'') observation) (\<lambda>rollback.
     bindE (parse_drill_artifacts observation) (\<lambda>artifacts.
     bindE (reread_times ''postgres'' (fst postgres)) (\<lambda>pt. bindE (reread_times ''grafana'' (fst grafana)) (\<lambda>gt.
     let events = pt @ gt @ map snd (fst cutover) @ map snd (rb_times rollback) in
     if Min (set events) < started \<or> completed < Max (set events)
     then Inl (ValueError (u ''service, cutover, and rollback events must be within the drill window''))
     else if now < completed then Inl (ValueError (u ''observation must not contain future events''))
     else Inr (drill_document digest now names started completed objectives postgres grafana cutover rollback artifacts))))))))))))))"

section \<open>What the verdict means\<close>

lemma service_fields:
  assumes "parse_service name obs = Inr s"
  shows "k \<in> {''backup_bytes'', ''representative_minimum_bytes'', ''integrity_checks_passed'', ''source_preserved''} \<Longrightarrow>
      field (snd s) k = raw_field obs name k"
    "k \<in> {''recovery_seconds'', ''observed_rpo_seconds''} \<Longrightarrow> number (field (snd s) k) = float_value (raw_field obs name k)"
    "sorted (times_in obs name SERVICE_TIME_KEYS)"
proof -
  obtain d ts r where d: "section_of obs name (map fst SERVICE_FIELDS @ SERVICE_TIME_KEYS) = Inr d"
    "ordered_timestamps d SERVICE_TIME_KEYS (u name) = Inr ts" "checked_fields d (u name) SERVICE_FIELDS = Inr r" "s = (ts, r)"
    using assms by (auto simp: parse_service_def bindE_eq_Inr)
  note K = kept_field[OF d(3)] float_field[OF d(3)] section_of_field[OF d(1)] d(4) SERVICE_FIELDS_def
  show "k \<in> {''backup_bytes'', ''representative_minimum_bytes'', ''integrity_checks_passed'', ''source_preserved''} \<Longrightarrow>
      field (snd s) k = raw_field obs name k"
    "k \<in> {''recovery_seconds'', ''observed_rpo_seconds''} \<Longrightarrow> number (field (snd s) k) = float_value (raw_field obs name k)"
    by (auto simp: K)
  show "sorted (times_in obs name SERVICE_TIME_KEYS)"
    using ordered_list(2)[OF d(2)] by (simp only: section_of_field[OF d(1)])
qed

lemma objective_fields:
  assumes "parse_objectives obs = Inr r" "k \<in> set OBJECTIVES"
  shows "number (field r k) = float_value (raw_field obs ''objectives_seconds'' k)"
proof -
  obtain d where d: "section_of obs ''objectives_seconds'' OBJECTIVES = Inr d"
    "checked_fields d (u ''objectives_seconds'') (map (\<lambda>k. (k, positive_number)) OBJECTIVES) = Inr r"
    using assms(1) by (auto simp: parse_objectives_def bindE_eq_Inr)
  show ?thesis using assms(2) float_field[OF d(2), of k positive_number] by (auto simp: OBJECTIVES_def section_of_field[OF d(1)])
qed

text \<open>A service was recovered in time, from a representative backup, without losing its source.\<close>

definition recovered_in_time :: "mapping \<Rightarrow> string \<Rightarrow> string \<Rightarrow> bool" where
  "recovered_in_time obs name rto \<longleftrightarrow>
     whole (raw_field obs name ''representative_minimum_bytes'') \<le> whole (raw_field obs name ''backup_bytes'')
     \<and> float_value (raw_field obs name ''recovery_seconds'') \<le> float_value (raw_field obs ''objectives_seconds'' rto)
     \<and> float_value (raw_field obs name ''observed_rpo_seconds'') \<le> float_value (raw_field obs ''objectives_seconds'' ''rpo'')
     \<and> yes obs name ''integrity_checks_passed'' \<and> yes obs name ''source_preserved''"

lemma service_passed_iff:
  assumes "parse_service name obs = Inr s" "parse_objectives obs = Inr r" "rto \<in> set OBJECTIVES"
  shows "service_passed r (snd s) rto \<longleftrightarrow> recovered_in_time obs name rto"
proof -
  have "''rpo'' \<in> set OBJECTIVES" by (simp add: OBJECTIVES_def)
  with assms(3) show ?thesis
    by (simp add: service_passed_def recovered_in_time_def service_fields(1,2)[OF assms(1)] objective_fields[OF assms(2)])
qed

lemma rollback_fields:
  assumes "parse_rollback c obs = Inr r"
  shows "k \<in> set ROLLBACK_FLAGS \<Longrightarrow> field (rb_flags r) k = raw_field obs ''rollback'' k"
    "rollback_duration r = duration_seconds (instant (raw_field obs ''rollback'' ''initiated_at'')) (instant (raw_field obs ''rollback'' ''completed_at''))"
    "c \<le> instant (raw_field obs ''rollback'' ''initiated_at'')"
proof -
  let ?l = "u ''rollback''"
  obtain d ts where d: "section_of obs ''rollback'' ([''initiated_at'', ''completed_at'', ''point_of_no_return_condition''] @ ROLLBACK_FLAGS) = Inr d"
    "ordered_timestamps d [''initiated_at'', ''completed_at''] ?l = Inr ts" "\<not> time_at ts ''initiated_at'' < c"
    "checked_fields d ?l (map (\<lambda>k. (k, require_bool)) ROLLBACK_FLAGS) = Inr (rb_flags r)" "rb_times r = ts"
    using assms unfolding parse_rollback_def Let_def bindE_eq_Inr guard_Inr by auto
  have t: "time_at ts ''initiated_at'' = instant (field d ''initiated_at'')" "time_at ts ''completed_at'' = instant (field d ''completed_at'')"
    by (rule ordered_instant[OF d(2)]; simp)+
  show "k \<in> set ROLLBACK_FLAGS \<Longrightarrow> field (rb_flags r) k = raw_field obs ''rollback'' k"
    using kept_field[OF d(4), of k require_bool]
    by (auto simp: ROLLBACK_FLAGS_def ROLLBACK_PROOFS_def section_of_field[OF d(1)])
  show "rollback_duration r = duration_seconds (instant (raw_field obs ''rollback'' ''initiated_at'')) (instant (raw_field obs ''rollback'' ''completed_at''))"
    "c \<le> instant (raw_field obs ''rollback'' ''initiated_at'')"
    using d(3) by (simp_all add: rollback_duration_def d(5) t section_of_field[OF d(1)])
qed

lemma cutover_fields:
  assumes "parse_cutover obs = Inr c"
  shows "snd c \<longleftrightarrow> yes obs ''cutover'' ''approved''" "time_at (fst c) ''completed_at'' = instant (raw_field obs ''cutover'' ''completed_at'')"
proof -
  let ?l = "u ''cutover''"
  obtain d ts a where d: "section_of obs ''cutover'' (CUTOVER_TIME_KEYS @ [''approved'', ''approver'']) = Inr d"
    "ordered_timestamps d CUTOVER_TIME_KEYS ?l = Inr ts" "get_checked require_bool d ?l ''approved'' = Inr a" "c = (ts, flag a)"
    using assms unfolding parse_cutover_def Let_def bindE_eq_Inr by auto
  show "snd c \<longleftrightarrow> yes obs ''cutover'' ''approved''" by (simp add: d(4) section_of_field[OF d(1)] get_checked_kept[OF d(3)])
  have "time_at ts ''completed_at'' = instant (field d ''completed_at'')"
    by (rule ordered_instant[OF d(2)]) (simp_all add: CUTOVER_TIME_KEYS_def)
  then show "time_at (fst c) ''completed_at'' = instant (raw_field obs ''cutover'' ''completed_at'')"
    by (simp add: d(4) section_of_field[OF d(1)])
qed

lemma drill_artifact_fields:
  assumes "parse_drill_artifacts obs = Inr r" "k \<in> {''reviewed'', ''secret_scan_matches''}"
  shows "field r k = raw_field obs ''artifacts'' k"
proof -
  obtain d where d: "section_of obs ''artifacts'' (map fst DRILL_ARTIFACTS) = Inr d" "checked_fields d (u ''artifacts'') DRILL_ARTIFACTS = Inr r"
    using assms(1) by (auto simp: parse_drill_artifacts_def bindE_eq_Inr)
  show ?thesis using assms(2) by (auto simp: kept_field[OF d(2)] section_of_field[OF d(1)] DRILL_ARTIFACTS_def)
qed

text \<open>The conditions of a recovery drill: both services were recovered within their objectives, the cutover was approved, the
  rollback was verified in time, no point of no return was crossed without a reviewed plan, and the artifacts are
  clean. In every well-formed observation the steps of the services are in order and the rollback follows the cutover.\<close>

definition drill_met :: "mapping \<Rightarrow> bool" where
  "drill_met obs \<longleftrightarrow> recovered_in_time obs ''postgres'' ''postgres_rto'' \<and> recovered_in_time obs ''grafana'' ''grafana_rto''
     \<and> yes obs ''cutover'' ''approved'' \<and> list_all (yes obs ''rollback'') ROLLBACK_PROOFS
     \<and> duration_seconds (instant (raw_field obs ''rollback'' ''initiated_at'')) (instant (raw_field obs ''rollback'' ''completed_at''))
         \<le> float_value (raw_field obs ''objectives_seconds'' ''rollback_rto'')
     \<and> (yes obs ''rollback'' ''crossed_point_of_no_return'' \<longrightarrow> yes obs ''rollback'' ''reconciliation_plan_reviewed'')
     \<and> yes obs ''artifacts'' ''reviewed'' \<and> whole (raw_field obs ''artifacts'' ''secret_scan_matches'') = 0"

definition drill_ordered :: "mapping \<Rightarrow> bool" where
  "drill_ordered obs \<longleftrightarrow> instant (raw_field obs ''cutover'' ''completed_at'') \<le> instant (raw_field obs ''rollback'' ''initiated_at'')
     \<and> sorted (times_in obs ''postgres'' SERVICE_TIME_KEYS) \<and> sorted (times_in obs ''grafana'' SERVICE_TIME_KEYS)"

lemma drill_verdict:
  assumes "drill_evidence now obs digest = Inr ev"
  shows "evidence_passed ev \<longleftrightarrow> drill_met obs" "drill_ordered obs"
proof -
  from assms obtain names started completed objectives postgres grafana cutover rollback artifacts where
    P: "mapE (\<lambda>k. bindE (item obs k) (\<lambda>v. bindE (safe_identifier v (u k)) (\<lambda>r. Inr (u k, r))))
       [''drill_id'', ''source_revision'', ''environment''] = Inr names"
      "parse_objectives obs = Inr objectives" "parse_service ''postgres'' obs = Inr postgres" "parse_service ''grafana'' obs = Inr grafana"
      "parse_cutover obs = Inr cutover" "parse_rollback (time_at (fst cutover) ''completed_at'') obs = Inr rollback"
      "parse_drill_artifacts obs = Inr artifacts"
    and ev: "ev = drill_document digest now names started completed objectives postgres grafana cutover rollback artifacts"
    unfolding drill_evidence_def Let_def bindE_eq_Inr guard_Inr by (clarsimp simp del: mapE.simps)
  have "evidence_passed ev \<longleftrightarrow> list_all snd (drill_checks objectives (snd postgres) (snd grafana) (snd cutover) rollback artifacts)"
    unfolding ev drill_document_def evidence_passed_def Let_def
    by (simp add: field_append field_Cons mapE_keys[OF P(1)] all_passed_def)
  moreover have "list_all (\<lambda>k. flag (field (rb_flags rollback) k)) ROLLBACK_PROOFS \<longleftrightarrow> list_all (yes obs ''rollback'') ROLLBACK_PROOFS"
    by (auto simp: list_all_iff rollback_fields(1)[OF P(6)] ROLLBACK_FLAGS_def)
  moreover have "''postgres_rto'' \<in> set OBJECTIVES" "''grafana_rto'' \<in> set OBJECTIVES" "''rollback_rto'' \<in> set OBJECTIVES"
    "''crossed_point_of_no_return'' \<in> set ROLLBACK_FLAGS" "''reconciliation_plan_reviewed'' \<in> set ROLLBACK_FLAGS"
    by (simp_all add: OBJECTIVES_def ROLLBACK_FLAGS_def)
  ultimately show "evidence_passed ev \<longleftrightarrow> drill_met obs"
    by (auto simp: drill_met_def drill_checks_def service_passed_iff[OF P(3,2)] service_passed_iff[OF P(4,2)] cutover_fields[OF P(5)]
        rollback_fields(1,2)[OF P(6)] objective_fields[OF P(2)] drill_artifact_fields[OF P(7)])
  show "drill_ordered obs"
    using service_fields(3)[OF P(3)] service_fields(3)[OF P(4)] rollback_fields(3)[OF P(6)] cutover_fields[OF P(5)]
    by (auto simp: drill_ordered_def)
qed

interpretation dv: verifier "drill_evidence now" drill_met for now
  by unfold_locales (rule drill_verdict(1))

theorem drill_exit_code:
  assumes "verifier_main (drill_evidence now) same_path input = Written ev code"
  shows "\<exists>obs digest. load_observation input = Inr (obs, digest) \<and> drill_ordered obs \<and> code = (if drill_met obs then 0 else 1)"
  using dv.main_written[OF assms] drill_verdict(2) by blast

end
