(* ===== verification/Channel_Evidence.thy ===== *)
theory Channel_Evidence
  imports Rotation_Evidence
begin

text \<open>
  The verdict on an exercise of the alert channel, \<open>ops/alertmanager/verify_channel_evidence.py\<close>: delivery, acknowledgement,
  grouping, deduplication, inhibition, silence, the rotation of the receiver's credential and its retries.
\<close>

section \<open>Sections of the observation\<close>

definition RECEIVER_TYPES :: "string list" where
  "RECEIVER_TYPES = [''incidentio'', ''pagerduty'', ''slack'', ''webhook'', ''other'']"

definition TOP_LEVEL_KEYS_channel :: "string list" where
  "TOP_LEVEL_KEYS_channel = [''schema_version'', ''source_revision'', ''environment'', ''receiver_type'', ''owner'', ''escalation_policy_ref'',
     ''alertmanager_group'', ''external_incident_id'', ''probe'', ''grouping'', ''deduplication'', ''inhibition'', ''silence'',
     ''credential_rotation'', ''receiver_failure'']"

text \<open>In this script \<open>ordered_timestamps\<close> checks the mapping and its keys as well.\<close>

definition exact_timestamps :: "json \<Rightarrow> string list \<Rightarrow> string \<Rightarrow> exn + (string \<times> int) list" where
  "exact_timestamps v keys name = bindE (require_mapping v (u name)) (\<lambda>d.
     bindE (require_exact_keys d keys (u name)) (\<lambda>_. ordered_timestamps d keys (u name)))"

definition count_check :: "mapping \<Rightarrow> string \<Rightarrow> string \<Rightarrow> string \<Rightarrow> exn + int \<times> int" where
  "count_check observation name first second = bindE (section_of observation name [first, second]) (\<lambda>d.
     bindE (get_checked non_negative_int d (u name) first) (\<lambda>a. bindE (get_checked non_negative_int d (u name) second) (\<lambda>b.
       Inr (whole a, whole b))))"

definition PROBE_KEYS :: "string list" where
  "PROBE_KEYS = [''firing_sent_at'', ''firing_delivered_at'', ''acknowledged_at'', ''resolved_sent_at'', ''resolved_delivered_at'']"

definition CHANNEL_ROTATION_KEYS :: "string list" where
  "CHANNEL_ROTATION_KEYS = [''before_sent_at'', ''before_delivered_at'', ''rotated_at'', ''after_sent_at'', ''after_delivered_at'']"

definition FAILURE_KEYS :: "string list" where
  "FAILURE_KEYS = [''failure_started_at'', ''alert_sent_at'', ''recovered_at'', ''delivered_at'']"

text \<open>A section with instants and one further field: the instants are checked in a copy without that field.\<close>

definition times_and_field :: "mapping \<Rightarrow> string \<Rightarrow> string list \<Rightarrow> string \<Rightarrow> checker \<Rightarrow> exn + (string \<times> int) list \<times> json" where
  "times_and_field observation name keys extra check = bindE (section_of observation name (keys @ [extra])) (\<lambda>d.
     bindE (exact_timestamps (JObj (filter (\<lambda>(k, _). k \<noteq> u extra) d)) keys name) (\<lambda>ts.
     bindE (get_checked check d (u name) extra) (\<lambda>v. Inr (ts, v))))"

record channel_thresholds =
  ch_max_delivery_seconds :: rat
  ch_max_acknowledgement_seconds :: rat
  ch_max_resolve_delivery_seconds :: rat
  ch_max_retry_seconds :: rat

record channel_parts =
  cp_probe :: "(string \<times> int) list"
  cp_grouping :: "int \<times> int"
  cp_deduplication :: "int \<times> int"
  cp_inhibition :: "int \<times> int"
  cp_silence :: "int \<times> int"
  cp_rotation :: "(string \<times> int) list \<times> json"
  cp_failure :: "(string \<times> int) list \<times> json"

definition parse_channel :: "mapping \<Rightarrow> exn + channel_parts" where
  "parse_channel observation =
     bindE (bindE (item observation ''probe'') (\<lambda>v. exact_timestamps v PROBE_KEYS ''probe'')) (\<lambda>probe.
     bindE (count_check observation ''grouping'' ''source_alerts'' ''notifications'') (\<lambda>grouping.
     bindE (count_check observation ''deduplication'' ''repeated_firings'' ''new_external_incidents'') (\<lambda>deduplication.
     bindE (count_check observation ''inhibition'' ''candidates'' ''deliveries'') (\<lambda>inhibition.
     bindE (count_check observation ''silence'' ''candidates'' ''deliveries'') (\<lambda>silence.
     bindE (times_and_field observation ''credential_rotation'' CHANNEL_ROTATION_KEYS ''old_credential_revoked'' require_bool) (\<lambda>rotation.
     bindE (times_and_field observation ''receiver_failure'' FAILURE_KEYS ''attempts'' non_negative_int) (\<lambda>failure.
       Inr \<lparr>cp_probe = probe, cp_grouping = grouping, cp_deduplication = deduplication, cp_inhibition = inhibition, cp_silence = silence,
         cp_rotation = rotation, cp_failure = failure\<rparr>)))))))"

section \<open>The verdict\<close>

definition channel_latencies :: "channel_parts \<Rightarrow> (string \<times> rat) list" where
  "channel_latencies p = (let between = (\<lambda>ts a b. duration_seconds (time_at ts a) (time_at ts b)) in
     [(''firing_delivery'', between (cp_probe p) ''firing_sent_at'' ''firing_delivered_at''),
      (''acknowledgement'', between (cp_probe p) ''firing_delivered_at'' ''acknowledged_at''),
      (''resolved_delivery'', between (cp_probe p) ''resolved_sent_at'' ''resolved_delivered_at''),
      (''rotation_before_delivery'', between (fst (cp_rotation p)) ''before_sent_at'' ''before_delivered_at''),
      (''rotation_after_delivery'', between (fst (cp_rotation p)) ''after_sent_at'' ''after_delivered_at''),
      (''receiver_retry'', between (fst (cp_failure p)) ''alert_sent_at'' ''delivered_at'')])"

definition channel_checks :: "channel_thresholds \<Rightarrow> channel_parts \<Rightarrow> (string \<times> bool) list" where
  "channel_checks T p = (let lat = (\<lambda>k. the (map_of (channel_latencies p) k)) in
     [(''firing_delivery'', lat ''firing_delivery'' \<le> ch_max_delivery_seconds T),
      (''resolved_delivery'', lat ''resolved_delivery'' \<le> ch_max_resolve_delivery_seconds T),
      (''acknowledgement'', lat ''acknowledgement'' \<le> ch_max_acknowledgement_seconds T),
      (''grouping'', 2 \<le> fst (cp_grouping p) \<and> snd (cp_grouping p) = 1),
      (''deduplication'', 1 \<le> fst (cp_deduplication p) \<and> snd (cp_deduplication p) = 0),
      (''inhibition'', 1 \<le> fst (cp_inhibition p) \<and> snd (cp_inhibition p) = 0),
      (''silence'', 1 \<le> fst (cp_silence p) \<and> snd (cp_silence p) = 0),
      (''credential_rotation'', flag (snd (cp_rotation p)) \<and> lat ''rotation_before_delivery'' \<le> ch_max_delivery_seconds T
         \<and> lat ''rotation_after_delivery'' \<le> ch_max_delivery_seconds T),
      (''receiver_retry'', 2 \<le> whole (snd (cp_failure p)) \<and> lat ''receiver_retry'' \<le> ch_max_retry_seconds T)])"

definition channel_document :: "channel_thresholds \<Rightarrow> pystr \<Rightarrow> int \<Rightarrow> mapping \<Rightarrow> mapping \<Rightarrow> channel_parts \<Rightarrow> json" where
  "channel_document T digest now names incident p =
     (let checks = channel_checks T p; pair = (\<lambda>a b (x, y). [(u a, JInt x), (u b, JInt y)]) in
      JObj ([(u ''schema_version'', JInt 1), (u ''checked_at'', utc_timestamp now)] @ names
        @ [(u ''ownership'', JObj [(u ''owner_documented'', JBool True), (u ''escalation_policy_documented'', JBool True)]),
           (u ''incident'', JObj incident),
           (u ''timeline'', JObj [(u ''probe'', timeline (cp_probe p)), (u ''credential_rotation'', timeline (fst (cp_rotation p))),
              (u ''receiver_failure'', timeline (fst (cp_failure p)))]),
           (u ''latency_seconds'', JObj (map (\<lambda>(k, x). (u k, JFloat x)) (channel_latencies p))),
           (u ''threshold_seconds'', JObj [(u ''delivery'', JFloat (ch_max_delivery_seconds T)),
              (u ''acknowledgement'', JFloat (ch_max_acknowledgement_seconds T)),
              (u ''resolved_delivery'', JFloat (ch_max_resolve_delivery_seconds T)), (u ''receiver_retry'', JFloat (ch_max_retry_seconds T))]),
           (u ''exercise_counts'', JObj (pair ''grouping_source_alerts'' ''grouping_notifications'' (cp_grouping p)
              @ pair ''deduplication_repeated_firings'' ''deduplication_new_external_incidents'' (cp_deduplication p)
              @ pair ''inhibition_candidates'' ''inhibition_deliveries'' (cp_inhibition p)
              @ pair ''silence_candidates'' ''silence_deliveries'' (cp_silence p) @ [(u ''receiver_retry_attempts'', snd (cp_failure p))])),
           (u ''checks'', checks_json checks), (u ''passed'', all_passed checks), (u ''input_sha256'', JStr digest)]))"

definition named_identifiers :: "mapping \<Rightarrow> string list \<Rightarrow> exn + mapping" where
  "named_identifiers observation keys =
     mapE (\<lambda>k. bindE (item observation k) (\<lambda>v. bindE (safe_identifier v (u k)) (\<lambda>r. Inr (u k, r)))) keys"

definition channel_evidence :: "channel_thresholds \<Rightarrow> int \<Rightarrow> mapping \<Rightarrow> pystr \<Rightarrow> exn + json" where
  "channel_evidence T now observation digest =
     bindE (require_exact_keys observation TOP_LEVEL_KEYS_channel (u ''observation'')) (\<lambda>_.
     bindE (schema_1 observation) (\<lambda>_.
     if list_ex (\<lambda>x. \<not> is_finite x \<or> x \<le> 0) [ch_max_delivery_seconds T, ch_max_acknowledgement_seconds T, ch_max_resolve_delivery_seconds T,
          ch_max_retry_seconds T]
     then Inl (ValueError (u ''latency thresholds must be positive''))
     else bindE (named_identifiers observation [''source_revision'', ''environment'', ''receiver_type'']) (\<lambda>names.
     if string_of (field names ''receiver_type'') \<notin> u ` set RECEIVER_TYPES
     then Inl (ValueError (u ''receiver_type must be one of '' @ join (u '', '') (sort (map u RECEIVER_TYPES))))
     else bindE (named_identifiers observation [''owner'', ''escalation_policy_ref'']) (\<lambda>_.
     bindE (named_identifiers observation [''alertmanager_group'', ''external_incident_id'']) (\<lambda>incident.
     bindE (parse_channel observation) (\<lambda>p.
     if now < Max (snd ` set (cp_probe p @ fst (cp_rotation p) @ fst (cp_failure p)))
     then Inl (ValueError (u ''observation timestamps cannot be in the future''))
     else Inr (channel_document T digest now names incident p)))))))"

section \<open>What the verdict means\<close>

definition counts_in :: "mapping \<Rightarrow> string \<Rightarrow> string \<Rightarrow> string \<Rightarrow> int \<times> int" where
  "counts_in obs name a b = (whole (raw_field obs name a), whole (raw_field obs name b))"

lemma count_check_raw:
  assumes "count_check obs name a b = Inr p"
  shows "p = counts_in obs name a b"
proof -
  obtain d x y where d: "section_of obs name [a, b] = Inr d" "get_checked non_negative_int d (u name) a = Inr x"
    "get_checked non_negative_int d (u name) b = Inr y" "p = (whole x, whole y)"
    using assms by (auto simp: count_check_def bindE_eq_Inr)
  show ?thesis by (simp add: d(4) counts_in_def section_of_field[OF d(1)] get_checked_kept[OF d(2)] get_checked_kept[OF d(3)])
qed

lemma field_filter: "k \<noteq> e \<Longrightarrow> field (filter (\<lambda>(k, _). k \<noteq> u e) d) k = field d k"
  by (induction d) (auto simp: field_Cons)

lemma times_and_field_raw:
  assumes "times_and_field obs name keys e check = Inr p" "e \<notin> set keys" "distinct keys" "keeper check"
  shows "snd p = raw_field obs name e" "k \<in> set keys \<Longrightarrow> time_at (fst p) k = instant (raw_field obs name k)"
    "sorted (times_in obs name keys)"
proof -
  obtain d ts v where d: "section_of obs name (keys @ [e]) = Inr d"
    "ordered_timestamps (filter (\<lambda>(k, _). k \<noteq> u e) d) keys (u name) = Inr ts" "get_checked check d (u name) e = Inr v" "p = (ts, v)"
    using assms(1) by (auto simp: times_and_field_def exact_timestamps_def bindE_eq_Inr)
  have f: "field (filter (\<lambda>(k, _). k \<noteq> u e) d) k = field d k" if "k \<in> set keys" for k
    using that assms(2) by (intro field_filter) auto
  show "snd p = raw_field obs name e" by (simp add: d(4) section_of_field[OF d(1)] get_checked_kept[OF d(3) assms(4)])
  show "k \<in> set keys \<Longrightarrow> time_at (fst p) k = instant (raw_field obs name k)"
    using ordered_instant[OF d(2) _ assms(3), of k] f by (simp add: d(4) section_of_field[OF d(1)])
  show "sorted (times_in obs name keys)"
    using ordered_list(2)[OF d(2)] f by (simp add: section_of_field[OF d(1)] cong: map_cong)
qed

text \<open>The latency between two instants of a section, as it was submitted.\<close>

abbreviation latency_in :: "mapping \<Rightarrow> string \<Rightarrow> string \<Rightarrow> string \<Rightarrow> rat" where
  "latency_in obs name a b \<equiv> duration_seconds (instant (raw_field obs name a)) (instant (raw_field obs name b))"

lemma probe_raw:
  assumes "bindE (item obs ''probe'') (\<lambda>v. exact_timestamps v PROBE_KEYS ''probe'') = Inr ts"
  shows "k \<in> set PROBE_KEYS \<Longrightarrow> time_at ts k = instant (raw_field obs ''probe'' k)" "sorted (times_in obs ''probe'' PROBE_KEYS)"
proof -
  obtain d where d: "item obs ''probe'' = Inr (JObj d)" "ordered_timestamps d PROBE_KEYS (u ''probe'') = Inr ts"
    using assms by (auto simp: exact_timestamps_def bindE_eq_Inr)
  have r: "raw_field obs ''probe'' k = field d k" for k by (simp add: raw_field_def item_field[OF d(1)])
  have "distinct PROBE_KEYS" by (simp add: PROBE_KEYS_def)
  then show "k \<in> set PROBE_KEYS \<Longrightarrow> time_at ts k = instant (raw_field obs ''probe'' k)" by (simp add: r ordered_instant[OF d(2)])
  show "sorted (times_in obs ''probe'' PROBE_KEYS)" using ordered_list(2)[OF d(2)] by (simp only: r)
qed

definition exercised :: "mapping \<Rightarrow> bool" where
  "exercised obs \<longleftrightarrow> (case counts_in obs ''grouping'' ''source_alerts'' ''notifications'' of (a, b) \<Rightarrow> 2 \<le> a \<and> b = 1)
     \<and> (case counts_in obs ''deduplication'' ''repeated_firings'' ''new_external_incidents'' of (a, b) \<Rightarrow> 1 \<le> a \<and> b = 0)
     \<and> (case counts_in obs ''inhibition'' ''candidates'' ''deliveries'' of (a, b) \<Rightarrow> 1 \<le> a \<and> b = 0)
     \<and> (case counts_in obs ''silence'' ''candidates'' ''deliveries'' of (a, b) \<Rightarrow> 1 \<le> a \<and> b = 0)"

lemma channel_checks_raw:
  assumes "parse_channel obs = Inr p"
  shows "list_all snd (channel_checks T p) \<longleftrightarrow> exercised obs
    \<and> latency_in obs ''probe'' ''firing_sent_at'' ''firing_delivered_at'' \<le> ch_max_delivery_seconds T
    \<and> latency_in obs ''probe'' ''firing_delivered_at'' ''acknowledged_at'' \<le> ch_max_acknowledgement_seconds T
    \<and> latency_in obs ''probe'' ''resolved_sent_at'' ''resolved_delivered_at'' \<le> ch_max_resolve_delivery_seconds T
    \<and> yes obs ''credential_rotation'' ''old_credential_revoked''
    \<and> latency_in obs ''credential_rotation'' ''before_sent_at'' ''before_delivered_at'' \<le> ch_max_delivery_seconds T
    \<and> latency_in obs ''credential_rotation'' ''after_sent_at'' ''after_delivered_at'' \<le> ch_max_delivery_seconds T
    \<and> 2 \<le> whole (raw_field obs ''receiver_failure'' ''attempts'')
    \<and> latency_in obs ''receiver_failure'' ''alert_sent_at'' ''delivered_at'' \<le> ch_max_retry_seconds T"
proof -
  obtain probe g dd i s rot fl where P: "bindE (item obs ''probe'') (\<lambda>v. exact_timestamps v PROBE_KEYS ''probe'') = Inr probe"
    "count_check obs ''grouping'' ''source_alerts'' ''notifications'' = Inr g"
    "count_check obs ''deduplication'' ''repeated_firings'' ''new_external_incidents'' = Inr dd"
    "count_check obs ''inhibition'' ''candidates'' ''deliveries'' = Inr i" "count_check obs ''silence'' ''candidates'' ''deliveries'' = Inr s"
    "times_and_field obs ''credential_rotation'' CHANNEL_ROTATION_KEYS ''old_credential_revoked'' require_bool = Inr rot"
    "times_and_field obs ''receiver_failure'' FAILURE_KEYS ''attempts'' non_negative_int = Inr fl"
    "p = \<lparr>cp_probe = probe, cp_grouping = g, cp_deduplication = dd, cp_inhibition = i, cp_silence = s, cp_rotation = rot, cp_failure = fl\<rparr>"
    using assms unfolding parse_channel_def bindE_eq_Inr by auto
  have k: "''old_credential_revoked'' \<notin> set CHANNEL_ROTATION_KEYS" "distinct CHANNEL_ROTATION_KEYS" "''attempts'' \<notin> set FAILURE_KEYS"
    "distinct FAILURE_KEYS" by (simp_all add: CHANNEL_ROTATION_KEYS_def FAILURE_KEYS_def)
  note R = times_and_field_raw[OF P(6) k(1,2) keepers(1)] and F = times_and_field_raw[OF P(7) k(3,4) keepers(2)]
  have t: "time_at probe ''firing_sent_at'' = instant (raw_field obs ''probe'' ''firing_sent_at'')"
    "time_at probe ''firing_delivered_at'' = instant (raw_field obs ''probe'' ''firing_delivered_at'')"
    "time_at probe ''acknowledged_at'' = instant (raw_field obs ''probe'' ''acknowledged_at'')"
    "time_at probe ''resolved_sent_at'' = instant (raw_field obs ''probe'' ''resolved_sent_at'')"
    "time_at probe ''resolved_delivered_at'' = instant (raw_field obs ''probe'' ''resolved_delivered_at'')"
    by (rule probe_raw(1)[OF P(1)], simp add: PROBE_KEYS_def)+
  have r: "time_at (fst rot) ''before_sent_at'' = instant (raw_field obs ''credential_rotation'' ''before_sent_at'')"
    "time_at (fst rot) ''before_delivered_at'' = instant (raw_field obs ''credential_rotation'' ''before_delivered_at'')"
    "time_at (fst rot) ''after_sent_at'' = instant (raw_field obs ''credential_rotation'' ''after_sent_at'')"
    "time_at (fst rot) ''after_delivered_at'' = instant (raw_field obs ''credential_rotation'' ''after_delivered_at'')"
    by (rule R(2), simp add: CHANNEL_ROTATION_KEYS_def)+
  have f: "time_at (fst fl) ''alert_sent_at'' = instant (raw_field obs ''receiver_failure'' ''alert_sent_at'')"
    "time_at (fst fl) ''delivered_at'' = instant (raw_field obs ''receiver_failure'' ''delivered_at'')"
    by (rule F(2), simp add: FAILURE_KEYS_def)+
  have g: "g = counts_in obs ''grouping'' ''source_alerts'' ''notifications''"
    "dd = counts_in obs ''deduplication'' ''repeated_firings'' ''new_external_incidents''"
    "i = counts_in obs ''inhibition'' ''candidates'' ''deliveries''" "s = counts_in obs ''silence'' ''candidates'' ''deliveries''"
    using P(2-5) by (simp_all add: count_check_raw)
  have "list_all snd (channel_checks T p) \<longleftrightarrow> exercised obs
    \<and> duration_seconds (time_at probe ''firing_sent_at'') (time_at probe ''firing_delivered_at'') \<le> ch_max_delivery_seconds T
    \<and> duration_seconds (time_at probe ''firing_delivered_at'') (time_at probe ''acknowledged_at'') \<le> ch_max_acknowledgement_seconds T
    \<and> duration_seconds (time_at probe ''resolved_sent_at'') (time_at probe ''resolved_delivered_at'') \<le> ch_max_resolve_delivery_seconds T
    \<and> flag (snd rot) \<and> duration_seconds (time_at (fst rot) ''before_sent_at'') (time_at (fst rot) ''before_delivered_at'') \<le> ch_max_delivery_seconds T
    \<and> duration_seconds (time_at (fst rot) ''after_sent_at'') (time_at (fst rot) ''after_delivered_at'') \<le> ch_max_delivery_seconds T
    \<and> 2 \<le> whole (snd fl) \<and> duration_seconds (time_at (fst fl) ''alert_sent_at'') (time_at (fst fl) ''delivered_at'') \<le> ch_max_retry_seconds T"
    unfolding P(8) channel_checks_def channel_latencies_def exercised_def Let_def
    by (auto simp: g split_beta)
  then show ?thesis by (simp only: t r f R(1) F(1) flag_JBool)
qed

text \<open>The conditions of the exercise of the alert channel, on every latency, count and flag that was submitted.\<close>

definition channel_met :: "channel_thresholds \<Rightarrow> mapping \<Rightarrow> bool" where
  "channel_met T obs \<longleftrightarrow> exercised obs
     \<and> latency_in obs ''probe'' ''firing_sent_at'' ''firing_delivered_at'' \<le> ch_max_delivery_seconds T
     \<and> latency_in obs ''probe'' ''firing_delivered_at'' ''acknowledged_at'' \<le> ch_max_acknowledgement_seconds T
     \<and> latency_in obs ''probe'' ''resolved_sent_at'' ''resolved_delivered_at'' \<le> ch_max_resolve_delivery_seconds T
     \<and> yes obs ''credential_rotation'' ''old_credential_revoked''
     \<and> latency_in obs ''credential_rotation'' ''before_sent_at'' ''before_delivered_at'' \<le> ch_max_delivery_seconds T
     \<and> latency_in obs ''credential_rotation'' ''after_sent_at'' ''after_delivered_at'' \<le> ch_max_delivery_seconds T
     \<and> 2 \<le> whole (raw_field obs ''receiver_failure'' ''attempts'')
     \<and> latency_in obs ''receiver_failure'' ''alert_sent_at'' ''delivered_at'' \<le> ch_max_retry_seconds T"

lemma channel_verdict:
  assumes "channel_evidence T now obs digest = Inr ev"
  shows "evidence_passed ev \<longleftrightarrow> channel_met T obs"
proof -
  from assms obtain names incident p where P: "named_identifiers obs [''source_revision'', ''environment'', ''receiver_type''] = Inr names"
    "parse_channel obs = Inr p" "ev = channel_document T digest now names incident p"
    unfolding channel_evidence_def bindE_eq_Inr guard_Inr by (clarsimp simp del: mapE.simps)
  have "evidence_passed ev \<longleftrightarrow> list_all snd (channel_checks T p)"
    unfolding P(3) channel_document_def evidence_passed_def Let_def
    by (simp add: field_append field_Cons mapE_keys[OF P(1)[unfolded named_identifiers_def]] all_passed_def)
  with channel_checks_raw[OF P(2), of T] show ?thesis by (simp add: channel_met_def)
qed

interpretation cv: verifier "channel_evidence T now" "channel_met T" for T now
  by unfold_locales (rule channel_verdict)

theorem channel_exit_code:
  assumes "verifier_main (channel_evidence T now) same_path input = Written ev code"
  shows "\<exists>obs digest. load_observation input = Inr (obs, digest) \<and> code = (if channel_met T obs then 0 else 1)"
  using cv.main_written[OF assms] by blast

end
