(* ===== verification/PyUrl.thy ===== *)
theory PyUrl
  imports PyText
begin

text \<open>
  \<open>urllib.parse.urlsplit\<close> and the parts of its result that the verifiers read. What the function objects to in an
  authority with brackets or with characters outside ASCII differs between releases of Python and needs Unicode tables; it is the
  argument \<open>objection\<close>, asked for no other authority.
\<close>

record SplitResult =
  url_scheme :: pystr
  url_netloc :: pystr
  url_path :: pystr
  url_query :: pystr
  url_fragment :: pystr

definition is_alpha :: "nat \<Rightarrow> bool" where
  "is_alpha c \<longleftrightarrow> 65 \<le> c \<and> c \<le> 90 \<or> 97 \<le> c \<and> c \<le> 122"

definition scheme_char :: "nat \<Rightarrow> bool" where
  "scheme_char c \<longleftrightarrow> is_alpha c \<or> ascii_digit c \<or> c \<in> set (u ''+-.'')"

text \<open>Leading control characters and blanks are dropped, and tabs and line ends anywhere.\<close>

definition clean_url :: "pystr \<Rightarrow> pystr" where
  "clean_url url = filter (\<lambda>c. c \<notin> {9, 13, 10}) (dropWhile (\<lambda>c. c \<le> 32) url)"

text \<open>\<open>str.partition\<close>, without the separator.\<close>

definition partition_at :: "nat \<Rightarrow> pystr \<Rightarrow> pystr \<times> pystr" where
  "partition_at c s = (takeWhile (\<lambda>x. x \<noteq> c) s, drop 1 (dropWhile (\<lambda>x. x \<noteq> c) s))"

definition split_scheme :: "pystr \<Rightarrow> pystr \<times> pystr" where
  "split_scheme url = (let (a, b) = partition_at 58 url in
     if 58 \<in> set url \<and> a \<noteq> [] \<and> is_alpha (hd a) \<and> list_all scheme_char a then (map ascii_lower a, b) else ([], url))"

definition split_netloc :: "pystr \<Rightarrow> pystr \<times> pystr" where
  "split_netloc url = (if take 2 url = u ''//''
     then (takeWhile (\<lambda>c. c \<notin> set (u ''/?#'')) (drop 2 url), dropWhile (\<lambda>c. c \<notin> set (u ''/?#'')) (drop 2 url))
     else ([], url))"

definition urlsplit :: "(pystr \<Rightarrow> pystr option) \<Rightarrow> pystr \<Rightarrow> exn + SplitResult" where
  "urlsplit objection url =
     (let (scheme, rest) = split_scheme (clean_url url); (netloc, rest) = split_netloc rest;
          (rest, fragment) = partition_at 35 rest; (path, query) = partition_at 63 rest;
          opens = 91 \<in> set netloc; closes = 93 \<in> set netloc
      in if opens \<noteq> closes then Inl (ValueError (u ''Invalid IPv6 URL''))
         else (case (if opens \<or> \<not> list_all (\<lambda>c. c < 128) netloc then objection netloc else None) of
             Some m \<Rightarrow> Inl (ValueError m)
           | None \<Rightarrow> Inr \<lparr>url_scheme = scheme, url_netloc = netloc, url_path = path, url_query = query, url_fragment = fragment\<rparr>))"

text \<open>The user information is what precedes the last \<open>@\<close> of the authority.\<close>

definition url_userinfo :: "SplitResult \<Rightarrow> pystr option" where
  "url_userinfo r = (if 64 \<in> set (url_netloc r)
     then Some (rev (drop 1 (dropWhile (\<lambda>c. c \<noteq> 64) (rev (url_netloc r))))) else None)"

definition url_username :: "SplitResult \<Rightarrow> pystr option" where
  "url_username r = map_option (fst \<circ> partition_at 58) (url_userinfo r)"

definition url_password :: "SplitResult \<Rightarrow> pystr option" where
  "url_password r = (case url_userinfo r of
       None \<Rightarrow> None | Some i \<Rightarrow> if 58 \<in> set i then Some (snd (partition_at 58 i)) else None)"

end
