(* ===== verification/App_Evidence.thy ===== *)
theory App_Evidence
  imports Rotation_Evidence PyUrl
begin

text \<open>
  The verdict on an acceptance run of the GitHub App, \<open>ops/acceptance/verify_github_app_evidence.py\<close>: a failed run of a pull
  request and one of a branch, the redelivery of their webhooks, the scan for a seeded secret and the run of an external
  fork, all on one repository.
\<close>

section \<open>Addresses on GitHub\<close>

definition segment :: "pystr \<Rightarrow> bool" where
  "segment s \<longleftrightarrow> s \<noteq> [] \<and> list_all (\<lambda>c. alphanumeric c \<or> c \<in> set (u ''_.-'')) s"

definition positive_decimal :: "pystr \<Rightarrow> bool" where
  "positive_decimal s \<longleftrightarrow> s \<noteq> [] \<and> hd s \<noteq> 48 \<and> list_all ascii_digit s"

text \<open>The patterns, each giving its groups. Segments hold no slash, so the parts between the slashes decide.\<close>

type_synonym url_pattern = "pystr \<Rightarrow> pystr list option"

definition REPOSITORY_PATH :: url_pattern where
  "REPOSITORY_PATH t = (case split_on (u ''/'') t of
       [r, a, b] \<Rightarrow> if r = [] \<and> segment a \<and> segment b then Some [a, b] else None
     | _ \<Rightarrow> None)"

definition RUN_PATH :: url_pattern where
  "RUN_PATH t = (case split_on (u ''/'') t of
       [r, a, b, x, y, n] \<Rightarrow> if r = [] \<and> segment a \<and> segment b \<and> x = u ''actions'' \<and> y = u ''runs'' \<and> positive_decimal n
         then Some [a, b, n] else None
     | _ \<Rightarrow> None)"

definition COMMENT_PATH :: url_pattern where
  "COMMENT_PATH t = (case split_on (u ''/'') t of
       [r, a, b, x, y] \<Rightarrow> (case find_sub (u ''#issuecomment-'') y of
           None \<Rightarrow> None
         | Some (n, m) \<Rightarrow> if r = [] \<and> segment a \<and> segment b \<and> x = u ''pull'' \<and> positive_decimal n \<and> positive_decimal m
             then Some [a, b, n, m] else None)
     | _ \<Rightarrow> None)"

definition CHECK_PATH :: url_pattern where
  "CHECK_PATH t = (case split_on (u ''/'') t of
       [r, a, b, x, n] \<Rightarrow> if r = [] \<and> segment a \<and> segment b \<and> x \<in> {u ''runs'', u ''checks''} \<and> positive_decimal n
         then Some [a, b, n] else None
     | _ \<Rightarrow> None)"

definition EXPECTED_PERMISSIONS :: "(string \<times> string) list" where
  "EXPECTED_PERMISSIONS = [(''actions'', ''read''), (''checks'', ''write''), (''contents'', ''read''), (''metadata'', ''read''),
     (''pull_requests'', ''write'')]"

definition TOP_LEVEL_KEYS_app :: "string list" where
  "TOP_LEVEL_KEYS_app = [''schema_version'', ''acceptance_id'', ''source_revision'', ''environment'', ''repository_url'', ''installation_id'',
     ''permissions'', ''started_at'', ''completed_at'', ''pr_run'', ''branch_run'', ''redelivery'', ''seeded_secret_scan'', ''external_fork'']"

text \<open>In this script every refusal of \<open>positive_int\<close> has the same text.\<close>

definition app_positive_int :: checker where
  "app_positive_int v label = (case v of
       JInt i \<Rightarrow> if i \<le> 0 then invalid label '' must be a positive integer'' else Inr (JInt i)
     | _ \<Rightarrow> invalid label '' must be a positive integer'')"

definition github_url :: "(pystr \<Rightarrow> pystr option) \<Rightarrow> json \<Rightarrow> pystr \<Rightarrow> url_pattern \<Rightarrow> exn + pystr list" where
  "github_url objection v label pat = (case v of
       JStr s \<Rightarrow> bindE (urlsplit objection s) (\<lambda>parsed.
         if url_scheme parsed \<noteq> u ''https'' \<or> url_netloc parsed \<noteq> u ''github.com'' \<or> url_username parsed \<noteq> None
            \<or> url_password parsed \<noteq> None \<or> url_query parsed \<noteq> []
         then invalid label '' must be a credential-free github.com HTTPS URL''
         else (case pat (url_path parsed @ (if url_fragment parsed \<noteq> [] then u ''#'' @ url_fragment parsed else [])) of
             None \<Rightarrow> invalid label '' has an unsupported GitHub URL shape''
           | Some parts \<Rightarrow> Inr parts))
     | _ \<Rightarrow> invalid label '' must be a GitHub HTTPS URL'')"

definition same_repository :: "pystr list \<Rightarrow> pystr list \<Rightarrow> pystr \<Rightarrow> exn + unit" where
  "same_repository parts repository label =
     (if take 2 parts \<noteq> repository then invalid label '' must belong to repository_url'' else Inr ())"

text \<open>\<open>int\<close> of a decimal: texts of more than 4300 digits are refused.\<close>

definition decimal_int :: "pystr \<Rightarrow> exn + int" where
  "decimal_int s = (if 4300 < length s
     then Inl (ValueError (u ''Exceeds the limit (4300 digits) for integer string conversion: value has '' @ str_nat (length s)
       @ u '' digits; use sys.set_int_max_str_digits() to increase the limit''))
     else Inr (int (nat_of_digits s)))"

text \<open>An address of the repository with the pattern, and the number in its third group.\<close>

definition own_url :: "(pystr \<Rightarrow> pystr option) \<Rightarrow> pystr list \<Rightarrow> mapping \<Rightarrow> pystr \<Rightarrow> string \<Rightarrow> url_pattern \<Rightarrow> exn + pystr list" where
  "own_url objection repository d label k pat = bindE (item d k) (\<lambda>v.
     bindE (github_url objection v (dotted label k) pat) (\<lambda>parts.
     bindE (same_repository parts repository (dotted label k)) (\<lambda>_. Inr parts)))"

definition must_contain :: "pystr list \<Rightarrow> json \<Rightarrow> pystr \<Rightarrow> string \<Rightarrow> exn + unit" where
  "must_contain parts n label message = bindE (decimal_int (parts ! 2)) (\<lambda>i.
     if i \<noteq> whole n then invalid label message else Inr ())"

section \<open>The exercises\<close>

definition RUN_TIME_KEYS :: "string list" where
  "RUN_TIME_KEYS = [''workflow_failed_at'', ''webhook_recorded_at'', ''analysis_started_at'', ''analysis_completed_at'', ''published_at'']"

definition CONTENT_FLAGS :: "string list" where
  "CONTENT_FLAGS = [''evidence_present'', ''related_files_present'', ''run_link_present'']"

record run_part =
  ru_run_id :: json
  ru_run_url :: json
  ru_conclusion :: json
  ru_publication :: json
  ru_times :: "(string \<times> int) list"
  ru_extra :: mapping

definition start_seconds :: "run_part \<Rightarrow> rat" where
  "start_seconds r = duration_seconds (time_at (ru_times r) ''webhook_recorded_at'') (time_at (ru_times r) ''analysis_started_at'')"

definition completion_seconds :: "run_part \<Rightarrow> rat" where
  "completion_seconds r = duration_seconds (time_at (ru_times r) ''webhook_recorded_at'') (time_at (ru_times r) ''analysis_completed_at'')"

definition pr_fields :: "mapping \<Rightarrow> pystr \<Rightarrow> pystr list \<Rightarrow> exn + mapping" where
  "pr_fields d label parts =
     bindE (get_checked app_positive_int d label ''pull_request_number'') (\<lambda>n.
     bindE (must_contain parts n label ''.comment_url must contain pull_request_number'') (\<lambda>_.
     bindE (checked_fields d label (map (\<lambda>k. (k, require_bool)) CONTENT_FLAGS)) (\<lambda>flags.
       Inr ((u ''pull_request_number'', n) # flags))))"

definition parse_run :: "(pystr \<Rightarrow> pystr option) \<Rightarrow> pystr list \<Rightarrow> mapping \<Rightarrow> string \<Rightarrow> string \<Rightarrow> url_pattern \<Rightarrow> exn + run_part" where
  "parse_run objection repository observation name key pat = (let label = u name; pr = (key = ''comment_url'') in
     bindE (section_of observation name ([''run_id'', ''run_url'', ''workflow_conclusion''] @ RUN_TIME_KEYS @ [key]
       @ (if pr then ''pull_request_number'' # CONTENT_FLAGS else []))) (\<lambda>d.
     bindE (get_checked app_positive_int d label ''run_id'') (\<lambda>run_id.
     bindE (own_url objection repository d label ''run_url'' RUN_PATH) (\<lambda>run_parts.
     bindE (must_contain run_parts run_id label ''.run_url must contain run_id'') (\<lambda>_.
     bindE (own_url objection repository d label key pat) (\<lambda>parts.
     bindE (ordered_timestamps d RUN_TIME_KEYS label) (\<lambda>ts.
     bindE (get_checked safe_identifier d label ''workflow_conclusion'') (\<lambda>conclusion.
     bindE (if pr then pr_fields d label parts else Inr []) (\<lambda>extra.
       Inr \<lparr>ru_run_id = run_id, ru_run_url = field d ''run_url'', ru_conclusion = conclusion, ru_publication = field d key,
         ru_times = ts, ru_extra = extra\<rparr>)))))))))"

definition run_json :: "string \<Rightarrow> run_part \<Rightarrow> json" where
  "run_json key r = JObj ([(u ''run_id'', ru_run_id r), (u ''run_url'', ru_run_url r), (u ''workflow_conclusion'', ru_conclusion r),
     (u key, ru_publication r), (u ''timeline'', timeline (ru_times r)), (u ''start_seconds'', JFloat (start_seconds r)),
     (u ''completion_seconds'', JFloat (completion_seconds r))] @ ru_extra r)"

record redelivery_part =
  re_initial :: json
  re_again :: json
  re_before :: json
  re_after :: json
  re_time :: int

definition parse_redelivery_item :: "(pystr \<Rightarrow> pystr option) \<Rightarrow> pystr list \<Rightarrow> mapping \<Rightarrow> string \<Rightarrow> url_pattern \<Rightarrow> exn + redelivery_part" where
  "parse_redelivery_item objection repository redelivery name pat = (let label = u ''redelivery.'' @ u name in
     bindE (item redelivery name) (\<lambda>v. bindE (require_mapping v label) (\<lambda>d.
     bindE (require_exact_keys d [''initial_url'', ''redelivery_url'', ''count_before'', ''count_after'', ''redelivered_at''] label) (\<lambda>_.
     bindE (bindE (item d ''initial_url'') (\<lambda>v. github_url objection v (dotted label ''initial_url'') pat)) (\<lambda>first.
     bindE (bindE (item d ''redelivery_url'') (\<lambda>v. github_url objection v (dotted label ''redelivery_url'') pat)) (\<lambda>second.
     bindE (same_repository first repository (dotted label ''initial_url'')) (\<lambda>_.
     bindE (same_repository second repository (dotted label ''redelivery_url'')) (\<lambda>_.
     bindE (get_checked non_negative_int d label ''count_before'') (\<lambda>before.
     bindE (get_checked non_negative_int d label ''count_after'') (\<lambda>after.
     bindE (get_time d label ''redelivered_at'') (\<lambda>t.
       Inr \<lparr>re_initial = field d ''initial_url'', re_again = field d ''redelivery_url'', re_before = before, re_after = after, re_time = t\<rparr>)))))))))))"

definition redelivery_json :: "redelivery_part \<Rightarrow> json" where
  "redelivery_json r = JObj [(u ''initial_url'', re_initial r), (u ''redelivery_url'', re_again r), (u ''count_before'', re_before r),
     (u ''count_after'', re_after r), (u ''redelivered_at'', utc_timestamp (re_time r))]"

definition SCAN_COUNTS :: "string list" where
  "SCAN_COUNTS = [''published_matches'', ''persistence_matches'', ''provider_request_matches'']"

definition parse_secret_scan :: "mapping \<Rightarrow> exn + json \<times> mapping \<times> int" where
  "parse_secret_scan observation = (let label = u ''seeded_secret_scan'' in
     bindE (section_of observation ''seeded_secret_scan'' ([''seeded_secret_sha256''] @ SCAN_COUNTS @ [''checked_at''])) (\<lambda>d.
     bindE (get_checked sha256_value d label ''seeded_secret_sha256'') (\<lambda>digest.
     bindE (checked_fields d label (map (\<lambda>k. (k, non_negative_int)) SCAN_COUNTS)) (\<lambda>counts.
     bindE (get_time d label ''checked_at'') (\<lambda>t. Inr (digest, counts, t))))))"

record fork_part =
  fk_run_id :: json
  fk_run_url :: json
  fk_pull_request :: json
  fk_warning_url :: json
  fk_times :: "(string \<times> int) list"
  fk_llm_invocations :: json
  fk_check_publications :: json

definition FORK_TIME_KEYS :: "string list" where
  "FORK_TIME_KEYS = [''webhook_recorded_at'', ''processed_at'']"

definition parse_fork :: "(pystr \<Rightarrow> pystr option) \<Rightarrow> pystr list \<Rightarrow> mapping \<Rightarrow> exn + fork_part" where
  "parse_fork objection repository observation = (let label = u ''external_fork'' in
     bindE (section_of observation ''external_fork'' ([''run_id'', ''run_url'', ''pull_request_number''] @ FORK_TIME_KEYS
       @ [''warning_comment_url'', ''llm_invocations'', ''commit_check_publications''])) (\<lambda>d.
     bindE (get_checked app_positive_int d label ''run_id'') (\<lambda>run_id.
     bindE (own_url objection repository d label ''run_url'' RUN_PATH) (\<lambda>run_parts.
     bindE (must_contain run_parts run_id label ''.run_url must contain run_id'') (\<lambda>_.
     bindE (get_checked app_positive_int d label ''pull_request_number'') (\<lambda>n.
     bindE (own_url objection repository d label ''warning_comment_url'' COMMENT_PATH) (\<lambda>parts.
     bindE (must_contain parts n label ''.warning_comment_url must contain pull_request_number'') (\<lambda>_.
     bindE (ordered_timestamps d FORK_TIME_KEYS label) (\<lambda>ts.
     bindE (get_checked non_negative_int d label ''llm_invocations'') (\<lambda>llm.
     bindE (get_checked non_negative_int d label ''commit_check_publications'') (\<lambda>checks.
       Inr \<lparr>fk_run_id = run_id, fk_run_url = field d ''run_url'', fk_pull_request = n, fk_warning_url = field d ''warning_comment_url'',
         fk_times = ts, fk_llm_invocations = llm, fk_check_publications = checks\<rparr>)))))))))))"

definition parse_permissions :: "mapping \<Rightarrow> exn + mapping" where
  "parse_permissions observation = bindE (section_of observation ''permissions'' (map fst EXPECTED_PERMISSIONS)) (\<lambda>d.
     if \<not> list_all (\<lambda>(_, v). is_str v) d then Inl (ValueError (u ''permissions values must be strings'')) else Inr d)"

section \<open>The verdict\<close>

record app_thresholds =
  at_max_start_seconds :: rat
  at_max_completion_seconds :: rat

definition idempotent :: "redelivery_part \<Rightarrow> bool" where
  "idempotent r \<longleftrightarrow> re_initial r = re_again r \<and> whole (re_before r) = 1 \<and> whole (re_after r) = 1"

definition app_checks :: "app_thresholds \<Rightarrow> mapping \<Rightarrow> run_part \<Rightarrow> run_part \<Rightarrow> redelivery_part \<Rightarrow> redelivery_part \<Rightarrow> mapping \<Rightarrow> fork_part
    \<Rightarrow> (string \<times> bool) list" where
  "app_checks T permissions pr branch pr_again branch_again counts fork =
     [(''least_privilege_permissions'', list_all (\<lambda>(k, v). field permissions k = JStr (u v)) EXPECTED_PERMISSIONS),
      (''pr_workflow_failed'', ru_conclusion pr = JStr (u ''failure'')),
      (''branch_workflow_failed'', ru_conclusion branch = JStr (u ''failure'')),
      (''pr_start_slo'', start_seconds pr \<le> at_max_start_seconds T),
      (''pr_completion_slo'', completion_seconds pr \<le> at_max_completion_seconds T),
      (''branch_start_slo'', start_seconds branch \<le> at_max_start_seconds T),
      (''branch_completion_slo'', completion_seconds branch \<le> at_max_completion_seconds T),
      (''pr_content_complete'', list_all (\<lambda>k. flag (field (ru_extra pr) k)) CONTENT_FLAGS),
      (''pr_comment_idempotent'', idempotent pr_again),
      (''branch_check_idempotent'', idempotent branch_again),
      (''seeded_secret_absent'', list_all (\<lambda>k. whole (field counts k) = 0) SCAN_COUNTS),
      (''external_fork_isolated'', whole (fk_llm_invocations fork) = 0 \<and> whole (fk_check_publications fork) = 0)]"

definition fork_json :: "fork_part \<Rightarrow> json" where
  "fork_json f = JObj [(u ''run_id'', fk_run_id f), (u ''run_url'', fk_run_url f), (u ''pull_request_number'', fk_pull_request f),
     (u ''warning_comment_url'', fk_warning_url f), (u ''timeline'', timeline (fk_times f)), (u ''llm_invocations'', fk_llm_invocations f),
     (u ''commit_check_publications'', fk_check_publications f)]"

definition app_document :: "app_thresholds \<Rightarrow> pystr \<Rightarrow> int \<Rightarrow> mapping \<Rightarrow> json \<Rightarrow> json \<Rightarrow> mapping \<Rightarrow> int \<Rightarrow> int \<Rightarrow> run_part \<Rightarrow> run_part
    \<Rightarrow> redelivery_part \<Rightarrow> redelivery_part \<Rightarrow> json \<times> mapping \<times> int \<Rightarrow> fork_part \<Rightarrow> json" where
  "app_document T digest now names repository_url installation permissions started completed pr branch pr_again branch_again scan fork =
     (let checks = app_checks T permissions pr branch pr_again branch_again (fst (snd scan)) fork in
      JObj ([(u ''schema_version'', JInt 1), (u ''checked_at'', utc_timestamp now)] @ names
        @ [(u ''repository_url'', repository_url), (u ''installation_id'', installation),
           (u ''permissions'', JObj (sort_key fst permissions)),
           (u ''acceptance_window'', JObj [(u ''started_at'', utc_timestamp started), (u ''completed_at'', utc_timestamp completed)]),
           (u ''pr_run'', run_json ''comment_url'' pr), (u ''branch_run'', run_json ''check_url'' branch),
           (u ''redelivery'', JObj [(u ''pr_comment'', redelivery_json pr_again), (u ''branch_check'', redelivery_json branch_again)]),
           (u ''seeded_secret_scan'', JObj ([(u ''seeded_secret_sha256'', fst scan)] @ fst (snd scan)
              @ [(u ''checked_at'', utc_timestamp (snd (snd scan)))])),
           (u ''external_fork'', fork_json fork),
           (u ''threshold_seconds'', JObj [(u ''analysis_start'', JFloat (at_max_start_seconds T)),
              (u ''analysis_completion'', JFloat (at_max_completion_seconds T))]),
           (u ''checks'', checks_json checks), (u ''passed'', all_passed checks), (u ''input_sha256'', JStr digest)]))"

text \<open>The instants of the runs and redeliveries are read back from their texts.\<close>

definition reread :: "int \<Rightarrow> pystr \<Rightarrow> exn + int" where
  "reread t label = parse_timestamp (utc_timestamp t) label"

definition in_window :: "int \<Rightarrow> int \<Rightarrow> string \<Rightarrow> run_part \<Rightarrow> exn + unit" where
  "in_window started completed name r =
     bindE (reread (time_at (ru_times r) ''workflow_failed_at'') (u name)) (\<lambda>first.
     bindE (reread (time_at (ru_times r) ''published_at'') (u name)) (\<lambda>published.
       if first < started \<or> completed < published then invalid (u name) '' timeline must be within the acceptance window'' else Inr ()))"

definition check_order :: "int \<Rightarrow> int \<Rightarrow> int \<Rightarrow> run_part \<Rightarrow> run_part \<Rightarrow> redelivery_part \<Rightarrow> redelivery_part \<Rightarrow> int \<Rightarrow> (string \<times> int) list \<Rightarrow> exn + unit" where
  "check_order now started completed pr branch pr_again branch_again scanned fork_times =
     (let processed = time_at fork_times ''processed_at'' in
      bindE (reread (re_time pr_again) (u ''redelivery.pr_comment.redelivered_at'')) (\<lambda>pr_time.
      bindE (reread (re_time branch_again) (u ''redelivery.branch_check.redelivered_at'')) (\<lambda>branch_time.
      bindE (reread (time_at (ru_times pr) ''published_at'') (u ''pr_run.published_at'')) (\<lambda>pr_published.
      if pr_time < pr_published then Inl (ValueError (u ''PR redelivery must follow initial publication''))
      else bindE (reread (time_at (ru_times branch) ''published_at'') (u ''branch_run.published_at'')) (\<lambda>branch_published.
      if branch_time < branch_published then Inl (ValueError (u ''branch redelivery must follow initial publication''))
      else if scanned < max (max pr_time branch_time) processed
      then Inl (ValueError (u ''seeded secret scan must follow all publication exercises''))
      else if now < max completed (max scanned (max processed (max pr_time branch_time)))
      then Inl (ValueError (u ''observation must not contain future events''))
      else bindE (in_window started completed ''pr_run'' pr) (\<lambda>_. bindE (in_window started completed ''branch_run'' branch) (\<lambda>_.
      if time_at fork_times ''webhook_recorded_at'' < started \<or> completed < scanned
      then Inl (ValueError (u ''security exercises must be within the acceptance window'')) else Inr ())))))))"

definition parse_redelivery :: "(pystr \<Rightarrow> pystr option) \<Rightarrow> pystr list \<Rightarrow> run_part \<Rightarrow> run_part \<Rightarrow> mapping \<Rightarrow> exn + redelivery_part \<times> redelivery_part" where
  "parse_redelivery objection repository pr branch observation =
     bindE (section_of observation ''redelivery'' [''pr_comment'', ''branch_check'']) (\<lambda>d.
     bindE (parse_redelivery_item objection repository d ''pr_comment'' COMMENT_PATH) (\<lambda>pr_again.
     bindE (parse_redelivery_item objection repository d ''branch_check'' CHECK_PATH) (\<lambda>branch_again.
     if re_initial pr_again \<noteq> ru_publication pr
     then Inl (ValueError (u ''redelivery.pr_comment.initial_url must match pr_run.comment_url''))
     else if re_initial branch_again \<noteq> ru_publication branch
     then Inl (ValueError (u ''redelivery.branch_check.initial_url must match branch_run.check_url''))
     else Inr (pr_again, branch_again))))"

definition app_evidence :: "(pystr \<Rightarrow> pystr option) \<Rightarrow> app_thresholds \<Rightarrow> int \<Rightarrow> mapping \<Rightarrow> pystr \<Rightarrow> exn + json" where
  "app_evidence objection T now observation digest =
     bindE (require_exact_keys observation TOP_LEVEL_KEYS_app (u ''observation'')) (\<lambda>_.
     bindE (schema_1 observation) (\<lambda>_.
     if list_ex (\<lambda>x. \<not> is_finite x \<or> x < 0) [at_max_start_seconds T, at_max_completion_seconds T]
     then Inl (ValueError (u ''thresholds must be non-negative finite numbers''))
     else bindE (mapE (\<lambda>k. bindE (item observation k) (\<lambda>v. bindE (safe_identifier v (u k)) (\<lambda>r. Inr (u k, r))))
       [''acceptance_id'', ''source_revision'', ''environment'']) (\<lambda>names.
     bindE (bindE (item observation ''repository_url'') (\<lambda>v. github_url objection v (u ''repository_url'') REPOSITORY_PATH)) (\<lambda>repository.
     bindE (bindE (item observation ''installation_id'') (\<lambda>v. app_positive_int v (u ''installation_id''))) (\<lambda>installation.
     bindE (parse_permissions observation) (\<lambda>permissions.
     bindE (bindE (item observation ''started_at'') (\<lambda>v. parse_timestamp v (u ''started_at''))) (\<lambda>started.
     bindE (bindE (item observation ''completed_at'') (\<lambda>v. parse_timestamp v (u ''completed_at''))) (\<lambda>completed.
     if completed \<le> started then Inl (ValueError (u ''completed_at must follow started_at''))
     else bindE (parse_run objection repository observation ''pr_run'' ''comment_url'' COMMENT_PATH) (\<lambda>pr.
     bindE (parse_run objection repository observation ''branch_run'' ''check_url'' CHECK_PATH) (\<lambda>branch.
     if ru_run_id pr = ru_run_id branch then Inl (ValueError (u ''pr_run and branch_run must use different run IDs''))
     else bindE (parse_redelivery objection repository pr branch observation) (\<lambda>(pr_again, branch_again).
     bindE (parse_secret_scan observation) (\<lambda>scan.
     bindE (parse_fork objection repository observation) (\<lambda>fork.
     bindE (check_order now started completed pr branch pr_again branch_again (snd (snd scan)) (fk_times fork)) (\<lambda>_.
       Inr (app_document T digest now names (field observation ''repository_url'') installation permissions started completed pr branch
         pr_again branch_again scan fork)))))))))))))))"

section \<open>What the verdict means\<close>

lemma app_positive_int_keeps [simp]: "keeper app_positive_int"
  by (auto simp: keeper_def app_positive_int_def invalid_def split: json.splits if_splits)

text \<open>The latency of a run, a redelivery and the conditions, on the observation as it was submitted.\<close>

definition run_latency :: "mapping \<Rightarrow> string \<Rightarrow> string \<Rightarrow> rat" where
  "run_latency obs name k = duration_seconds (instant (raw_field obs name ''webhook_recorded_at'')) (instant (raw_field obs name k))"

definition delivered_once :: "mapping \<Rightarrow> string \<Rightarrow> bool" where
  "delivered_once obs name \<longleftrightarrow> (let d = part_of obs ''redelivery'' name in
     field d ''initial_url'' = field d ''redelivery_url'' \<and> whole (field d ''count_before'') = 1 \<and> whole (field d ''count_after'') = 1)"

definition run_in_time :: "app_thresholds \<Rightarrow> mapping \<Rightarrow> string \<Rightarrow> bool" where
  "run_in_time T obs name \<longleftrightarrow> raw_field obs name ''workflow_conclusion'' = JStr (u ''failure'')
     \<and> run_latency obs name ''analysis_started_at'' \<le> at_max_start_seconds T
     \<and> run_latency obs name ''analysis_completed_at'' \<le> at_max_completion_seconds T"

definition app_met :: "app_thresholds \<Rightarrow> mapping \<Rightarrow> bool" where
  "app_met T obs \<longleftrightarrow> list_all (\<lambda>(k, v). raw_field obs ''permissions'' k = JStr (u v)) EXPECTED_PERMISSIONS
     \<and> run_in_time T obs ''pr_run'' \<and> run_in_time T obs ''branch_run'' \<and> list_all (yes obs ''pr_run'') CONTENT_FLAGS
     \<and> delivered_once obs ''pr_comment'' \<and> delivered_once obs ''branch_check''
     \<and> list_all (\<lambda>k. whole (raw_field obs ''seeded_secret_scan'' k) = 0) SCAN_COUNTS
     \<and> whole (raw_field obs ''external_fork'' ''llm_invocations'') = 0
     \<and> whole (raw_field obs ''external_fork'' ''commit_check_publications'') = 0"

text \<open>An address that is on GitHub, of the shape and in the repository.\<close>

definition on_repository :: "(pystr \<Rightarrow> pystr option) \<Rightarrow> pystr list \<Rightarrow> json \<Rightarrow> url_pattern \<Rightarrow> bool" where
  "on_repository objection repository v pat \<longleftrightarrow> (\<exists>label parts. github_url objection v label pat = Inr parts \<and> take 2 parts = repository)"

lemma own_url_on:
  "own_url objection repository d label k pat = Inr parts \<Longrightarrow> on_repository objection repository (field d k) pat"
  by (auto simp: own_url_def same_repository_def bindE_eq_Inr on_repository_def invalid_def split: if_splits dest!: item_field)

lemma run_fields:
  assumes "parse_run objection repository obs name key pat = Inr r"
  shows "ru_conclusion r = raw_field obs name ''workflow_conclusion''" "ru_publication r = raw_field obs name key"
    "start_seconds r = run_latency obs name ''analysis_started_at''" "completion_seconds r = run_latency obs name ''analysis_completed_at''"
    "key = ''comment_url'' \<Longrightarrow> k \<in> set CONTENT_FLAGS \<Longrightarrow> field (ru_extra r) k = raw_field obs name k"
    "on_repository objection repository (raw_field obs name ''run_url'') RUN_PATH"
    "on_repository objection repository (raw_field obs name key) pat"
    "sorted (times_in obs name RUN_TIME_KEYS)"
proof -
  let ?l = "u name"
  obtain d run_parts parts ts conclusion extra where d: "section_of obs name ([''run_id'', ''run_url'', ''workflow_conclusion''] @ RUN_TIME_KEYS @ [key]
       @ (if key = ''comment_url'' then ''pull_request_number'' # CONTENT_FLAGS else [])) = Inr d"
    "own_url objection repository d ?l ''run_url'' RUN_PATH = Inr run_parts" "own_url objection repository d ?l key pat = Inr parts"
    "ordered_timestamps d RUN_TIME_KEYS ?l = Inr ts" "get_checked safe_identifier d ?l ''workflow_conclusion'' = Inr conclusion"
    "(if key = ''comment_url'' then pr_fields d ?l parts else Inr []) = Inr extra"
    "ru_conclusion r = conclusion" "ru_publication r = field d key" "ru_times r = ts" "ru_extra r = extra"
    using assms unfolding parse_run_def Let_def bindE_eq_Inr by auto
  note f = section_of_field[OF d(1)]
  have t: "time_at ts k = instant (field d k)" if "k \<in> set RUN_TIME_KEYS" for k
    by (rule ordered_instant[OF d(4) that]) (simp add: RUN_TIME_KEYS_def)
  show "ru_conclusion r = raw_field obs name ''workflow_conclusion''" "ru_publication r = raw_field obs name key"
    using get_checked_kept[OF d(5)] d(7,8) by (simp_all add: f)
  show "start_seconds r = run_latency obs name ''analysis_started_at''" "completion_seconds r = run_latency obs name ''analysis_completed_at''"
    by (simp_all add: start_seconds_def completion_seconds_def run_latency_def d(9) t f RUN_TIME_KEYS_def)
  show "on_repository objection repository (raw_field obs name ''run_url'') RUN_PATH" "on_repository objection repository (raw_field obs name key) pat"
    using own_url_on[OF d(2)] own_url_on[OF d(3)] by (simp_all add: f)
  show "sorted (times_in obs name RUN_TIME_KEYS)" using ordered_list(2)[OF d(4)] by (simp only: f)
  assume "key = ''comment_url''" "k \<in> set CONTENT_FLAGS"
  with d(6) obtain n flags where "checked_fields d ?l (map (\<lambda>k. (k, require_bool)) CONTENT_FLAGS) = Inr flags"
    "extra = (u ''pull_request_number'', n) # flags"
    by (auto simp: pr_fields_def bindE_eq_Inr)
  with \<open>k \<in> set CONTENT_FLAGS\<close> show "field (ru_extra r) k = raw_field obs name k"
    using kept_field[of d ?l "map (\<lambda>k. (k, require_bool)) CONTENT_FLAGS" flags k require_bool]
    by (auto simp: d(10) f field_Cons CONTENT_FLAGS_def u_def)
qed

lemma redelivery_item_fields:
  assumes "parse_redelivery_item objection repository d name pat = Inr r" "field d name = JObj x"
  shows "re_initial r = field x ''initial_url''" "idempotent r \<longleftrightarrow> field x ''initial_url'' = field x ''redelivery_url''
      \<and> whole (field x ''count_before'') = 1 \<and> whole (field x ''count_after'') = 1"
    "on_repository objection repository (field x ''redelivery_url'') pat"
proof -
  let ?l = "u ''redelivery.'' @ u name"
  obtain second before after where y: "github_url objection (field x ''redelivery_url'') (dotted ?l ''redelivery_url'') pat = Inr second"
    "same_repository second repository (dotted ?l ''redelivery_url'') = Inr ()"
    "get_checked non_negative_int x ?l ''count_before'' = Inr before" "get_checked non_negative_int x ?l ''count_after'' = Inr after"
    "re_initial r = field x ''initial_url''" "re_again r = field x ''redelivery_url''" "re_before r = before" "re_after r = after"
    using assms unfolding parse_redelivery_item_def Let_def bindE_eq_Inr by (auto dest!: item_field)
  show "re_initial r = field x ''initial_url''" "idempotent r \<longleftrightarrow> field x ''initial_url'' = field x ''redelivery_url''
      \<and> whole (field x ''count_before'') = 1 \<and> whole (field x ''count_after'') = 1"
    using get_checked_kept[OF y(3)] get_checked_kept[OF y(4)] by (simp_all add: idempotent_def y(5-8))
  show "on_repository objection repository (field x ''redelivery_url'') pat"
    using y(1,2) by (auto simp: same_repository_def on_repository_def invalid_def split: if_splits)
qed

lemma redelivery_fields:
  assumes "parse_redelivery objection repository pr branch obs = Inr (pr_again, branch_again)"
  shows "idempotent pr_again \<longleftrightarrow> delivered_once obs ''pr_comment''" "idempotent branch_again \<longleftrightarrow> delivered_once obs ''branch_check''"
    "field (part_of obs ''redelivery'' ''pr_comment'') ''initial_url'' = ru_publication pr"
    "field (part_of obs ''redelivery'' ''branch_check'') ''initial_url'' = ru_publication branch"
proof -
  obtain d where d: "section_of obs ''redelivery'' [''pr_comment'', ''branch_check''] = Inr d"
    "parse_redelivery_item objection repository d ''pr_comment'' COMMENT_PATH = Inr pr_again"
    "parse_redelivery_item objection repository d ''branch_check'' CHECK_PATH = Inr branch_again"
    "re_initial pr_again = ru_publication pr" "re_initial branch_again = ru_publication branch"
    using assms unfolding parse_redelivery_def bindE_eq_Inr by (auto split: if_splits)
  obtain x where x: "field d ''pr_comment'' = JObj x"
    using d(2) unfolding parse_redelivery_item_def Let_def bindE_eq_Inr by (auto dest!: item_field)
  obtain y where y: "field d ''branch_check'' = JObj y"
    using d(3) unfolding parse_redelivery_item_def Let_def bindE_eq_Inr by (auto dest!: item_field)
  note p = part_of_def section_of_field[OF d(1)] x y json.case
  show "idempotent pr_again \<longleftrightarrow> delivered_once obs ''pr_comment''" "idempotent branch_again \<longleftrightarrow> delivered_once obs ''branch_check''"
    by (simp_all only: delivered_once_def Let_def p redelivery_item_fields(2)[OF d(2) x] redelivery_item_fields(2)[OF d(3) y])
  show "field (part_of obs ''redelivery'' ''pr_comment'') ''initial_url'' = ru_publication pr"
    "field (part_of obs ''redelivery'' ''branch_check'') ''initial_url'' = ru_publication branch"
    using redelivery_item_fields(1)[OF d(2) x] redelivery_item_fields(1)[OF d(3) y] d(4,5) by (simp_all only: p)
qed

lemma scan_count_fields:
  assumes "parse_secret_scan obs = Inr scan" "k \<in> set SCAN_COUNTS"
  shows "field (fst (snd scan)) k = raw_field obs ''seeded_secret_scan'' k"
proof -
  let ?l = "u ''seeded_secret_scan''"
  obtain d counts where d: "section_of obs ''seeded_secret_scan'' ([''seeded_secret_sha256''] @ SCAN_COUNTS @ [''checked_at'']) = Inr d"
    "checked_fields d ?l (map (\<lambda>k. (k, non_negative_int)) SCAN_COUNTS) = Inr counts" "fst (snd scan) = counts"
    using assms(1) unfolding parse_secret_scan_def Let_def bindE_eq_Inr by auto
  from assms(2) show ?thesis
    using kept_field[OF d(2), of k non_negative_int] by (auto simp: d(3) section_of_field[OF d(1)] SCAN_COUNTS_def)
qed

lemma fork_fields:
  assumes "parse_fork objection repository obs = Inr f"
  shows "fk_llm_invocations f = raw_field obs ''external_fork'' ''llm_invocations''"
    "fk_check_publications f = raw_field obs ''external_fork'' ''commit_check_publications''"
    "on_repository objection repository (raw_field obs ''external_fork'' ''run_url'') RUN_PATH"
    "on_repository objection repository (raw_field obs ''external_fork'' ''warning_comment_url'') COMMENT_PATH"
proof -
  let ?l = "u ''external_fork''"
  obtain d run_parts parts where d: "section_of obs ''external_fork'' ([''run_id'', ''run_url'', ''pull_request_number''] @ FORK_TIME_KEYS
       @ [''warning_comment_url'', ''llm_invocations'', ''commit_check_publications'']) = Inr d"
    "own_url objection repository d ?l ''run_url'' RUN_PATH = Inr run_parts"
    "own_url objection repository d ?l ''warning_comment_url'' COMMENT_PATH = Inr parts"
    "get_checked non_negative_int d ?l ''llm_invocations'' = Inr (fk_llm_invocations f)"
    "get_checked non_negative_int d ?l ''commit_check_publications'' = Inr (fk_check_publications f)"
    using assms unfolding parse_fork_def Let_def bindE_eq_Inr by auto
  note f = section_of_field[OF d(1)]
  show "fk_llm_invocations f = raw_field obs ''external_fork'' ''llm_invocations''"
    "fk_check_publications f = raw_field obs ''external_fork'' ''commit_check_publications''"
    using get_checked_kept[OF d(4)] get_checked_kept[OF d(5)] by (simp_all add: f)
  show "on_repository objection repository (raw_field obs ''external_fork'' ''run_url'') RUN_PATH"
    "on_repository objection repository (raw_field obs ''external_fork'' ''warning_comment_url'') COMMENT_PATH"
    using own_url_on[OF d(2)] own_url_on[OF d(3)] by (simp_all add: f)
qed

lemma permission_fields: "parse_permissions obs = Inr d \<Longrightarrow> raw_field obs ''permissions'' k = field d k"
  by (auto simp: parse_permissions_def bindE_eq_Inr section_of_field split: if_splits)

text \<open>Everything the observation points to is in one repository.\<close>

definition app_in_repository :: "(pystr \<Rightarrow> pystr option) \<Rightarrow> mapping \<Rightarrow> bool" where
  "app_in_repository objection obs \<longleftrightarrow> (\<exists>label repository.
     github_url objection (field obs ''repository_url'') label REPOSITORY_PATH = Inr repository
     \<and> on_repository objection repository (raw_field obs ''pr_run'' ''run_url'') RUN_PATH
     \<and> on_repository objection repository (raw_field obs ''pr_run'' ''comment_url'') COMMENT_PATH
     \<and> on_repository objection repository (raw_field obs ''branch_run'' ''run_url'') RUN_PATH
     \<and> on_repository objection repository (raw_field obs ''branch_run'' ''check_url'') CHECK_PATH
     \<and> on_repository objection repository (raw_field obs ''external_fork'' ''run_url'') RUN_PATH
     \<and> on_repository objection repository (raw_field obs ''external_fork'' ''warning_comment_url'') COMMENT_PATH)"

lemma app_verdict:
  assumes "app_evidence objection T now obs digest = Inr ev"
  shows "evidence_passed ev \<longleftrightarrow> app_met T obs" "app_in_repository objection obs"
proof -
  from assms obtain names repository installation permissions started completed pr branch pr_again branch_again scan fork where
    P: "mapE (\<lambda>k. bindE (item obs k) (\<lambda>v. bindE (safe_identifier v (u k)) (\<lambda>r. Inr (u k, r))))
       [''acceptance_id'', ''source_revision'', ''environment''] = Inr names"
      "bindE (item obs ''repository_url'') (\<lambda>v. github_url objection v (u ''repository_url'') REPOSITORY_PATH) = Inr repository"
      "parse_permissions obs = Inr permissions"
      "parse_run objection repository obs ''pr_run'' ''comment_url'' COMMENT_PATH = Inr pr"
      "parse_run objection repository obs ''branch_run'' ''check_url'' CHECK_PATH = Inr branch"
      "parse_redelivery objection repository pr branch obs = Inr (pr_again, branch_again)"
      "parse_secret_scan obs = Inr scan" "parse_fork objection repository obs = Inr fork"
    and ev: "ev = app_document T digest now names (field obs ''repository_url'') installation permissions started completed pr branch
       pr_again branch_again scan fork"
    unfolding app_evidence_def bindE_eq_Inr guard_Inr by (clarsimp simp del: mapE.simps simp: bindE_eq_Inr)
  have p: "evidence_passed ev \<longleftrightarrow> list_all snd (app_checks T permissions pr branch pr_again branch_again (fst (snd scan)) fork)"
    unfolding ev app_document_def evidence_passed_def Let_def
    by (simp add: field_append field_Cons mapE_keys[OF P(1)] all_passed_def)
  have c: "list_all (\<lambda>k. whole (field (fst (snd scan)) k) = 0) SCAN_COUNTS
      \<longleftrightarrow> list_all (\<lambda>k. whole (raw_field obs ''seeded_secret_scan'' k) = 0) SCAN_COUNTS"
    and f: "list_all (\<lambda>k. flag (field (ru_extra pr) k)) CONTENT_FLAGS \<longleftrightarrow> list_all (yes obs ''pr_run'') CONTENT_FLAGS"
    by (simp_all add: list_all_iff scan_count_fields[OF P(7)] run_fields(5)[OF P(4)])
  show "evidence_passed ev \<longleftrightarrow> app_met T obs"
    unfolding p app_checks_def app_met_def run_in_time_def list.pred_inject snd_conv c f run_fields(1,3,4)[OF P(4)] run_fields(1,3,4)[OF P(5)]
      redelivery_fields(1,2)[OF P(6)] fork_fields(1,2)[OF P(8)] permission_fields[OF P(3)] by (simp only: list.pred_inject simp_thms conj_assoc conj_ac)
  have "github_url objection (field obs ''repository_url'') (u ''repository_url'') REPOSITORY_PATH = Inr repository"
    using P(2) by (auto simp: bindE_eq_Inr dest!: item_field)
  then show "app_in_repository objection obs"
    unfolding app_in_repository_def using run_fields(6,7)[OF P(4)] run_fields(6,7)[OF P(5)] fork_fields(3,4)[OF P(8)] by blast
qed

interpretation av: verifier "app_evidence objection T now" "app_met T" for objection T now
  by unfold_locales (rule app_verdict(1))

text \<open>The verdict on an acceptance run: when the verifier writes its evidence, every address of the observation is on GitHub and in
  the repository it names, and the exit code is 0 exactly when the permissions are the expected ones, both runs were
  analysed in time and published once, no seeded secret was found and the fork was isolated.\<close>

theorem app_exit_code:
  assumes "verifier_main (app_evidence objection T now) same_path input = Written ev code"
  shows "\<exists>obs digest. load_observation input = Inr (obs, digest) \<and> app_in_repository objection obs \<and> code = (if app_met T obs then 0 else 1)"
  using av.main_written[OF assms] app_verdict(2) by blast

end
