(* ===== verification/PyHost.thy ===== *)
theory PyHost
  imports PyUrl JsonText
begin

text \<open>
  The host and the port of an address split by \<open>urlsplit\<close>, and the texts that \<open>ipaddress.ip_address\<close> of the standard library accepts.
\<close>

section \<open>Host and port\<close>

definition url_hostinfo :: "SplitResult \<Rightarrow> pystr \<times> pystr" where
  "url_hostinfo r =
     (let hostinfo = (if 64 \<in> set (url_netloc r) then rev (takeWhile (\<lambda>c. c \<noteq> 64) (rev (url_netloc r))) else url_netloc r)
      in if 91 \<in> set hostinfo
         then (let (hostname, rest) = partition_at 93 (snd (partition_at 91 hostinfo)) in (hostname, snd (partition_at 58 rest)))
         else partition_at 58 hostinfo)"

definition url_hostname :: "unicode \<Rightarrow> SplitResult \<Rightarrow> pystr option" where
  "url_hostname U r = (let hostname = fst (url_hostinfo r) in
     if hostname = [] then None
     else Some (uc_lower U (fst (partition_at 37 hostname)) @ dropWhile (\<lambda>c. c \<noteq> 37) hostname))"

text \<open>The port is a number of at most 65535; \<open>int\<close> refuses longer texts with the same exception.\<close>

definition url_port :: "SplitResult \<Rightarrow> exn + nat option" where
  "url_port r = (let port = snd (url_hostinfo r) in
     if port = [] then Inr None
     else if \<not> list_all ascii_digit port then Inl (ValueError (u ''Port could not be cast to integer value''))
     else if 65535 < nat_of_digits port then Inl (ValueError (u ''Port out of range 0-65535''))
     else Inr (Some (nat_of_digits port)))"

section \<open>Internet addresses\<close>

text \<open>Whether \<open>ipaddress.ip_address\<close> accepts a text.\<close>

definition ipv4_octet :: "pystr \<Rightarrow> bool" where
  "ipv4_octet s \<longleftrightarrow> s \<noteq> [] \<and> list_all ascii_digit s \<and> length s \<le> 3 \<and> (s = u ''0'' \<or> hd s \<noteq> 48) \<and> nat_of_digits s \<le> 255"

definition ipv4_address :: "pystr \<Rightarrow> bool" where
  "ipv4_address s = (let octets = split_on (u ''.'') s in 47 \<notin> set s \<and> length octets = 4 \<and> list_all ipv4_octet octets)"

definition ipv6_hextet :: "pystr \<Rightarrow> bool" where
  "ipv6_hextet s \<longleftrightarrow> s \<noteq> [] \<and> length s \<le> 4 \<and> list_all (\<lambda>c. ascii_digit c \<or> 97 \<le> c \<and> c \<le> 102 \<or> 65 \<le> c \<and> c \<le> 70) s"

text \<open>The parts between the colons: all eight, or fewer around one empty part; at an end the empty part is written twice.\<close>

definition ipv6_parts :: "pystr list \<Rightarrow> bool" where
  "ipv6_parts parts =
     (let n = length parts; inner = filter (\<lambda>i. parts ! i = []) [1 ..< n - 1]
      in 3 \<le> n \<and> n \<le> 9 \<and>
        (case inner of
           [] \<Rightarrow> n = 8 \<and> list_all ipv6_hextet parts
         | [i] \<Rightarrow> (let hi = (if hd parts = [] then i - 1 else i); lo = (if last parts = [] then n - i - 2 else n - i - 1)
             in (hd parts \<noteq> [] \<or> hi = 0) \<and> (last parts \<noteq> [] \<or> lo = 0) \<and> hi + lo \<le> 7
                \<and> list_all ipv6_hextet (take hi parts) \<and> list_all ipv6_hextet (drop (n - lo) parts))
         | _ \<Rightarrow> False))"

definition ipv6_address :: "pystr \<Rightarrow> bool" where
  "ipv6_address s =
     (let (addr, zone) = partition_at 37 s; parts = split_on (u '':'') addr
      in 47 \<notin> set s \<and> (37 \<in> set s \<longrightarrow> zone \<noteq> [] \<and> 37 \<notin> set zone) \<and> 3 \<le> length parts
         \<and> (if 46 \<in> set (last parts) then ipv4_address (last parts) \<and> ipv6_parts (butlast parts @ [u ''0'', u ''0''])
            else ipv6_parts parts))"

definition ip_address :: "pystr \<Rightarrow> bool" where
  "ip_address s \<longleftrightarrow> ipv4_address s \<or> ipv6_address s"

end
