(* ===== verification/Https_Evidence.thy ===== *)
theory Https_Evidence
  imports Rotation_Evidence PyHost
begin

text \<open>
  The verdict on an acceptance run over HTTPS, \<open>ops/acceptance/verify_https_e2e_evidence.py\<close>: a sign-in through GitHub in a browser, the
  forwarding of the proxy and a signed webhook, all on one public origin.
\<close>

section \<open>Origins\<close>

definition TOP_LEVEL_KEYS_https :: "string list" where
  "TOP_LEVEL_KEYS_https = [''schema_version'', ''acceptance_id'', ''source_revision'', ''environment'', ''origin'', ''started_at'', ''completed_at'',
     ''preflight'', ''configured_urls'', ''browser_flow'', ''forwarding'', ''webhook'']"

definition DNS_LABEL :: "pystr \<Rightarrow> bool" where
  "DNS_LABEL s \<longleftrightarrow> s \<noteq> [] \<and> length s \<le> 63 \<and> alphanumeric (hd s) \<and> alphanumeric (last s) \<and> list_all (\<lambda>c. alphanumeric c \<or> c = 45) s"

definition public_dns_name :: "pystr \<Rightarrow> bool" where
  "public_dns_name hostname \<longleftrightarrow> \<not> ip_address hostname \<and>
     (let labels = split_on (u ''.'') (rev (dropWhile (\<lambda>c. c = 46) (rev hostname)))
      in 2 \<le> length labels \<and> \<not> suffix (u ''.local'') hostname \<and> list_all DNS_LABEL labels)"

definition bare_origin :: "SplitResult \<Rightarrow> pystr \<Rightarrow> bool" where
  "bare_origin parsed hostname \<longleftrightarrow> \<not> (url_scheme parsed \<noteq> u ''https'' \<or> hostname = [] \<or> url_username parsed \<noteq> None \<or> url_password parsed \<noteq> None
     \<or> url_path parsed \<notin> {[], u ''/''} \<or> url_query parsed \<noteq> [] \<or> url_fragment parsed \<noteq> [])"

definition origin_text :: "unicode \<Rightarrow> pystr \<Rightarrow> nat option \<Rightarrow> pystr" where
  "origin_text U hostname port = u ''https://'' @ uc_lower U hostname @ (case port of None \<Rightarrow> [] | Some n \<Rightarrow> u '':'' @ str_nat n)"

definition public_https_origin :: "unicode \<Rightarrow> (pystr \<Rightarrow> pystr option) \<Rightarrow> json \<Rightarrow> pystr \<Rightarrow> exn + pystr" where
  "public_https_origin U objection v label = (case v of
       JStr s \<Rightarrow> bindE (urlsplit objection s) (\<lambda>parsed.
         bindE (case url_port parsed of
             Inl (ValueError _) \<Rightarrow> invalid label '' contains an invalid port'' | Inl e \<Rightarrow> Inl e | Inr port \<Rightarrow> Inr port) (\<lambda>port.
         let hostname = (case url_hostname U parsed of None \<Rightarrow> [] | Some h \<Rightarrow> h) in
         if \<not> bare_origin parsed hostname then invalid label '' must be a credential-free HTTPS origin''
         else if \<not> public_dns_name hostname then invalid label '' must use a public DNS hostname''
         else Inr (origin_text U hostname port)))
     | _ \<Rightarrow> invalid label '' must be a public HTTPS origin'')"

definition same_origin_url :: "unicode \<Rightarrow> (pystr \<Rightarrow> pystr option) \<Rightarrow> pystr \<Rightarrow> json \<Rightarrow> pystr \<Rightarrow> exn + json" where
  "same_origin_url U objection origin v label = (case v of
       JStr s \<Rightarrow> bindE (urlsplit objection s) (\<lambda>parsed. bindE (urlsplit objection origin) (\<lambda>origin_parts.
         if url_scheme parsed \<noteq> u ''https'' \<or> uc_lower U (url_netloc parsed) \<noteq> uc_lower U (url_netloc origin_parts)
            \<or> url_username parsed \<noteq> None \<or> url_password parsed \<noteq> None \<or> \<not> startswith (url_path parsed) (u ''/'')
            \<or> url_query parsed \<noteq> [] \<or> url_fragment parsed \<noteq> []
         then invalid label '' must be a credential-free URL on origin'' else Inr (JStr s)))
     | _ \<Rightarrow> invalid label '' must be an HTTPS URL'')"

section \<open>The sections\<close>

definition lowered :: "unicode \<Rightarrow> json \<Rightarrow> json" where
  "lowered U v = JStr (uc_lower U (string_of v))"

definition parse_cookie :: "unicode \<Rightarrow> mapping \<Rightarrow> pystr \<Rightarrow> string \<Rightarrow> exn + mapping" where
  "parse_cookie U browser parent name = bindE (item browser name) (\<lambda>v. let label = dotted parent name in
     bindE (require_mapping v label) (\<lambda>d.
     bindE (require_exact_keys d [''secure'', ''httponly'', ''samesite''] label) (\<lambda>_.
     bindE (get_checked safe_identifier d label ''samesite'') (\<lambda>samesite.
     bindE (checked_fields d label [(''secure'', require_bool), (''httponly'', require_bool)]) (\<lambda>flags.
       Inr (flags @ [(u ''samesite'', lowered U samesite)]))))))"

record preflight_part =
  pf_hash :: json
  pf_checked_at :: int
  pf_origin :: pystr
  pf_passed :: json

definition parse_preflight :: "unicode \<Rightarrow> (pystr \<Rightarrow> pystr option) \<Rightarrow> mapping \<Rightarrow> exn + preflight_part" where
  "parse_preflight U objection observation = (let label = u ''preflight'' in
     bindE (section_of observation ''preflight'' [''evidence_sha256'', ''checked_at'', ''origin'', ''passed'']) (\<lambda>d.
     bindE (get_checked sha256_value d label ''evidence_sha256'') (\<lambda>digest.
     bindE (get_time d label ''checked_at'') (\<lambda>checked.
     bindE (bindE (item d ''origin'') (\<lambda>v. public_https_origin U objection v (dotted label ''origin''))) (\<lambda>origin.
     bindE (get_checked require_bool d label ''passed'') (\<lambda>passed.
       Inr \<lparr>pf_hash = digest, pf_checked_at = checked, pf_origin = origin, pf_passed = passed\<rparr>))))))"

definition URL_KEYS :: "string list" where
  "URL_KEYS = [''oauth_callback'', ''setup'', ''webhook'']"

definition parse_urls :: "unicode \<Rightarrow> (pystr \<Rightarrow> pystr option) \<Rightarrow> pystr \<Rightarrow> mapping \<Rightarrow> exn + mapping" where
  "parse_urls U objection origin observation = bindE (section_of observation ''configured_urls'' URL_KEYS) (\<lambda>d.
     checked_fields d (u ''configured_urls'') (map (\<lambda>k. (k, same_origin_url U objection origin)) URL_KEYS))"

definition expected_urls :: "pystr \<Rightarrow> (string \<times> pystr) list" where
  "expected_urls origin = [(''oauth_callback'', origin @ u ''/auth/github/callback''), (''setup'', origin @ u ''/github/setup''),
     (''webhook'', origin @ u ''/webhooks/github'')]"

definition BROWSER_TIME_KEYS :: "string list" where
  "BROWSER_TIME_KEYS = [''started_at'', ''oauth_authorized_at'', ''installation_selected_at'', ''dashboard_loaded_at'', ''logout_completed_at'',
     ''captured_at'']"

record browser_part =
  br_times :: "(string \<times> int) list"
  br_installation_count :: json
  br_state_cookie :: mapping
  br_session_cookie :: mapping
  br_session_invalid :: json
  br_screenshot_hash :: json

definition parse_browser :: "unicode \<Rightarrow> mapping \<Rightarrow> exn + browser_part" where
  "parse_browser U observation = (let label = u ''browser_flow'' in
     bindE (section_of observation ''browser_flow'' (BROWSER_TIME_KEYS @ [''installation_count'', ''oauth_state_cookie'', ''session_cookie'',
       ''session_invalid_after_logout'', ''screenshot_evidence_sha256''])) (\<lambda>d.
     bindE (ordered_timestamps d BROWSER_TIME_KEYS label) (\<lambda>ts.
     bindE (get_checked non_negative_int d label ''installation_count'') (\<lambda>n.
     bindE (parse_cookie U d label ''oauth_state_cookie'') (\<lambda>state_cookie.
     bindE (parse_cookie U d label ''session_cookie'') (\<lambda>session_cookie.
     bindE (get_checked require_bool d label ''session_invalid_after_logout'') (\<lambda>session_invalid.
     bindE (get_checked sha256_value d label ''screenshot_evidence_sha256'') (\<lambda>screenshot.
       Inr \<lparr>br_times = ts, br_installation_count = n, br_state_cookie = state_cookie, br_session_cookie = session_cookie,
         br_session_invalid = session_invalid, br_screenshot_hash = screenshot\<rparr>))))))))"

record forwarding_part =
  fw_checked_at :: int
  fw_scheme :: json
  fw_host :: json
  fw_origin :: pystr
  fw_redirect_uri :: json
  fw_hash :: json

definition parse_forwarding :: "unicode \<Rightarrow> (pystr \<Rightarrow> pystr option) \<Rightarrow> pystr \<Rightarrow> mapping \<Rightarrow> exn + forwarding_part" where
  "parse_forwarding U objection origin observation = (let label = u ''forwarding'' in
     bindE (section_of observation ''forwarding'' [''checked_at'', ''observed_scheme'', ''observed_host'', ''application_origin'',
       ''oauth_redirect_uri'', ''request_evidence_sha256'']) (\<lambda>d.
     bindE (get_time d label ''checked_at'') (\<lambda>checked.
     bindE (get_checked safe_identifier d label ''observed_scheme'') (\<lambda>scheme.
     bindE (get_checked safe_identifier d label ''observed_host'') (\<lambda>host.
     bindE (bindE (item d ''application_origin'') (\<lambda>v. public_https_origin U objection v (dotted label ''application_origin''))) (\<lambda>application.
     bindE (get_checked (same_origin_url U objection origin) d label ''oauth_redirect_uri'') (\<lambda>redirect.
     bindE (get_checked sha256_value d label ''request_evidence_sha256'') (\<lambda>digest.
       Inr \<lparr>fw_checked_at = checked, fw_scheme = lowered U scheme, fw_host = lowered U host, fw_origin = application,
         fw_redirect_uri = redirect, fw_hash = digest\<rparr>))))))))"

definition WEBHOOK_TIME_KEYS :: "string list" where
  "WEBHOOK_TIME_KEYS = [''received_at'', ''signature_verified_at'', ''persisted_at'', ''responded_at'']"

record webhook_part =
  wh_event :: json
  wh_action :: json
  wh_delivery_hash :: json
  wh_hash :: json
  wh_times :: "(string \<times> int) list"
  wh_signature_valid :: json
  wh_status :: json

definition parse_webhook :: "mapping \<Rightarrow> exn + webhook_part" where
  "parse_webhook observation = (let label = u ''webhook'' in
     bindE (section_of observation ''webhook'' ([''event'', ''action'', ''delivery_id_sha256''] @ WEBHOOK_TIME_KEYS
       @ [''signature_valid'', ''response_status_code'', ''request_evidence_sha256''])) (\<lambda>d.
     bindE (get_checked safe_identifier d label ''event'') (\<lambda>event.
     bindE (get_checked safe_identifier d label ''action'') (\<lambda>action.
     bindE (get_checked sha256_value d label ''delivery_id_sha256'') (\<lambda>delivery.
     bindE (get_checked sha256_value d label ''request_evidence_sha256'') (\<lambda>digest.
     bindE (ordered_timestamps d WEBHOOK_TIME_KEYS label) (\<lambda>ts.
     bindE (get_checked require_bool d label ''signature_valid'') (\<lambda>valid.
     bindE (get_checked non_negative_int d label ''response_status_code'') (\<lambda>status.
       Inr \<lparr>wh_event = event, wh_action = action, wh_delivery_hash = delivery, wh_hash = digest, wh_times = ts, wh_signature_valid = valid,
         wh_status = status\<rparr>)))))))))"

definition response_seconds :: "webhook_part \<Rightarrow> rat" where
  "response_seconds w = duration_seconds (time_at (wh_times w) ''received_at'') (time_at (wh_times w) ''responded_at'')"

section \<open>The verdict\<close>

definition check_window :: "int \<Rightarrow> int \<Rightarrow> int \<Rightarrow> preflight_part \<Rightarrow> browser_part \<Rightarrow> forwarding_part \<Rightarrow> webhook_part \<Rightarrow> exn + unit" where
  "check_window now started completed pf br fw wh =
     (if pf_checked_at pf < started \<or> time_at (br_times br) ''started_at'' < pf_checked_at pf \<or> completed < time_at (br_times br) ''captured_at''
      then Inl (ValueError (u ''preflight and browser events must be within the acceptance window''))
      else if fw_checked_at fw < time_at (br_times br) ''started_at'' \<or> time_at (br_times br) ''dashboard_loaded_at'' < fw_checked_at fw
        \<or> time_at (wh_times wh) ''received_at'' < started \<or> completed < time_at (wh_times wh) ''responded_at''
      then Inl (ValueError (u ''forwarding and webhook events must be within the acceptance window''))
      else if now < completed then Inl (ValueError (u ''observation must not contain future events''))
      else Inr ())"

definition secure_cookie :: "mapping \<Rightarrow> bool" where
  "secure_cookie d \<longleftrightarrow> flag (field d ''secure'') \<and> flag (field d ''httponly'') \<and> field d ''samesite'' = JStr (u ''lax'')"

definition https_checks :: "rat \<Rightarrow> pystr \<Rightarrow> pystr \<Rightarrow> preflight_part \<Rightarrow> mapping \<Rightarrow> browser_part \<Rightarrow> forwarding_part \<Rightarrow> webhook_part
    \<Rightarrow> (string \<times> bool) list" where
  "https_checks max_seconds origin expected_host pf urls br fw wh =
     [(''preflight_passed'', flag (pf_passed pf) \<and> pf_origin pf = origin),
      (''configured_urls_exact'', list_all (\<lambda>(k, s). field urls k = JStr s) (expected_urls origin)),
      (''browser_flow_complete'', 0 < whole (br_installation_count br) \<and> flag (br_session_invalid br)),
      (''cookie_security'', secure_cookie (br_state_cookie br) \<and> secure_cookie (br_session_cookie br)),
      (''forwarding_exact'', fw_scheme fw = JStr (u ''https'') \<and> fw_host fw = JStr expected_host \<and> fw_origin fw = origin
         \<and> fw_redirect_uri fw = JStr (origin @ u ''/auth/github/callback'')),
      (''signed_workflow_webhook'', wh_event wh = JStr (u ''workflow_run'') \<and> wh_action wh = JStr (u ''completed'')
         \<and> flag (wh_signature_valid wh) \<and> whole (wh_status wh) = 202),
      (''webhook_response_slo'', response_seconds wh \<le> max_seconds)]"

definition browser_json :: "browser_part \<Rightarrow> json" where
  "browser_json br = JObj [(u ''timeline'', timeline (br_times br)), (u ''installation_count'', br_installation_count br),
     (u ''oauth_state_cookie'', JObj (br_state_cookie br)), (u ''session_cookie'', JObj (br_session_cookie br)),
     (u ''session_invalid_after_logout'', br_session_invalid br), (u ''screenshot_evidence_sha256'', br_screenshot_hash br)]"

definition webhook_json :: "webhook_part \<Rightarrow> json" where
  "webhook_json wh = JObj [(u ''event'', wh_event wh), (u ''action'', wh_action wh), (u ''delivery_id_sha256'', wh_delivery_hash wh),
     (u ''timeline'', timeline (wh_times wh)), (u ''signature_valid'', wh_signature_valid wh), (u ''response_status_code'', wh_status wh),
     (u ''response_seconds'', JFloat (response_seconds wh)), (u ''request_evidence_sha256'', wh_hash wh)]"

definition https_document :: "rat \<Rightarrow> pystr \<Rightarrow> int \<Rightarrow> mapping \<Rightarrow> pystr \<Rightarrow> pystr \<Rightarrow> int \<Rightarrow> int \<Rightarrow> preflight_part \<Rightarrow> mapping \<Rightarrow> browser_part
    \<Rightarrow> forwarding_part \<Rightarrow> webhook_part \<Rightarrow> json" where
  "https_document max_seconds digest now names origin expected_host started completed pf urls br fw wh =
     (let checks = https_checks max_seconds origin expected_host pf urls br fw wh in
      JObj ([(u ''schema_version'', JInt 1), (u ''checked_at'', utc_timestamp now)] @ names
        @ [(u ''origin'', JStr origin),
           (u ''acceptance_window'', JObj [(u ''started_at'', utc_timestamp started), (u ''completed_at'', utc_timestamp completed)]),
           (u ''preflight'', JObj [(u ''evidence_sha256'', pf_hash pf), (u ''checked_at'', utc_timestamp (pf_checked_at pf)),
              (u ''origin'', JStr (pf_origin pf)), (u ''passed'', pf_passed pf)]),
           (u ''configured_urls'', JObj urls), (u ''browser_flow'', browser_json br),
           (u ''forwarding'', JObj [(u ''checked_at'', utc_timestamp (fw_checked_at fw)), (u ''observed_scheme'', fw_scheme fw),
              (u ''observed_host'', fw_host fw), (u ''application_origin'', JStr (fw_origin fw)), (u ''oauth_redirect_uri'', fw_redirect_uri fw),
              (u ''request_evidence_sha256'', fw_hash fw)]),
           (u ''webhook'', webhook_json wh), (u ''threshold_seconds'', JObj [(u ''webhook_response'', JFloat max_seconds)]),
           (u ''checks'', checks_json checks), (u ''passed'', all_passed checks), (u ''input_sha256'', JStr digest)]))"

definition https_evidence :: "unicode \<Rightarrow> (pystr \<Rightarrow> pystr option) \<Rightarrow> rat \<Rightarrow> int \<Rightarrow> mapping \<Rightarrow> pystr \<Rightarrow> exn + json" where
  "https_evidence U objection max_seconds now observation digest =
     bindE (require_exact_keys observation TOP_LEVEL_KEYS_https (u ''observation'')) (\<lambda>_.
     bindE (schema_1 observation) (\<lambda>_.
     if \<not> is_finite max_seconds \<or> max_seconds < 0 then Inl (ValueError (u ''threshold must be a non-negative finite number''))
     else bindE (mapE (\<lambda>k. bindE (item observation k) (\<lambda>v. bindE (safe_identifier v (u k)) (\<lambda>r. Inr (u k, r))))
       [''acceptance_id'', ''source_revision'', ''environment'']) (\<lambda>names.
     bindE (bindE (item observation ''origin'') (\<lambda>v. public_https_origin U objection v (u ''origin''))) (\<lambda>origin.
     bindE (bindE (item observation ''started_at'') (\<lambda>v. parse_timestamp v (u ''started_at''))) (\<lambda>started.
     bindE (bindE (item observation ''completed_at'') (\<lambda>v. parse_timestamp v (u ''completed_at''))) (\<lambda>completed.
     if completed \<le> started then Inl (ValueError (u ''completed_at must follow started_at''))
     else bindE (parse_preflight U objection observation) (\<lambda>pf.
     bindE (parse_urls U objection origin observation) (\<lambda>urls.
     bindE (parse_browser U observation) (\<lambda>br.
     bindE (parse_forwarding U objection origin observation) (\<lambda>fw.
     bindE (parse_webhook observation) (\<lambda>wh.
     bindE (check_window now started completed pf br fw wh) (\<lambda>_.
     bindE (urlsplit objection origin) (\<lambda>origin_parts.
       Inr (https_document max_seconds digest now names origin (uc_lower U (url_netloc origin_parts)) started completed pf urls br fw wh))))))))))))))"

section \<open>What the verdict means\<close>

text \<open>The origin an address stands for, and the conditions on the observation as it was submitted.\<close>

definition origin_of :: "unicode \<Rightarrow> (pystr \<Rightarrow> pystr option) \<Rightarrow> json \<Rightarrow> pystr" where
  "origin_of U objection v = (case public_https_origin U objection v [] of Inr s \<Rightarrow> s | Inl _ \<Rightarrow> [])"

definition cookie_secured :: "unicode \<Rightarrow> mapping \<Rightarrow> string \<Rightarrow> bool" where
  "cookie_secured U obs name = (let d = part_of obs ''browser_flow'' name
     in flag (field d ''secure'') \<and> flag (field d ''httponly'') \<and> lowered U (field d ''samesite'') = JStr (u ''lax''))"

definition on_host :: "unicode \<Rightarrow> (pystr \<Rightarrow> pystr option) \<Rightarrow> pystr \<Rightarrow> json \<Rightarrow> bool" where
  "on_host U objection origin v \<longleftrightarrow> (\<exists>parts. urlsplit objection origin = Inr parts \<and> lowered U v = JStr (uc_lower U (url_netloc parts)))"

definition https_met :: "unicode \<Rightarrow> (pystr \<Rightarrow> pystr option) \<Rightarrow> rat \<Rightarrow> mapping \<Rightarrow> bool" where
  "https_met U objection max_seconds obs = (let origin = origin_of U objection (field obs ''origin'') in
     raw_field obs ''preflight'' ''passed'' = JBool True \<and> origin_of U objection (raw_field obs ''preflight'' ''origin'') = origin
     \<and> list_all (\<lambda>(k, s). raw_field obs ''configured_urls'' k = JStr s) (expected_urls origin)
     \<and> 0 < whole (raw_field obs ''browser_flow'' ''installation_count'')
     \<and> raw_field obs ''browser_flow'' ''session_invalid_after_logout'' = JBool True
     \<and> cookie_secured U obs ''oauth_state_cookie'' \<and> cookie_secured U obs ''session_cookie''
     \<and> lowered U (raw_field obs ''forwarding'' ''observed_scheme'') = JStr (u ''https'')
     \<and> on_host U objection origin (raw_field obs ''forwarding'' ''observed_host'')
     \<and> origin_of U objection (raw_field obs ''forwarding'' ''application_origin'') = origin
     \<and> raw_field obs ''forwarding'' ''oauth_redirect_uri'' = JStr (origin @ u ''/auth/github/callback'')
     \<and> raw_field obs ''webhook'' ''event'' = JStr (u ''workflow_run'') \<and> raw_field obs ''webhook'' ''action'' = JStr (u ''completed'')
     \<and> raw_field obs ''webhook'' ''signature_valid'' = JBool True \<and> whole (raw_field obs ''webhook'' ''response_status_code'') = 202
     \<and> duration_seconds (instant (raw_field obs ''webhook'' ''received_at'')) (instant (raw_field obs ''webhook'' ''responded_at'')) \<le> max_seconds)"

lemma port_Inr: "(case r of Inl (ValueError _) \<Rightarrow> invalid label m | Inl e \<Rightarrow> Inl e | Inr p \<Rightarrow> Inr p) = Inr port \<longleftrightarrow> r = Inr port"
  by (auto simp: invalid_def split: sum.splits exn.splits)

lemma refused_Inr: "(if c then invalid label m else k) = Inr r \<longleftrightarrow> \<not> c \<and> k = Inr r"
  by (simp add: invalid_def)

lemma invalid_Inr: "invalid label m = Inr r \<longleftrightarrow> False"
  by (simp add: invalid_def)

lemma origin_Inr:
  "public_https_origin U objection v label = Inr r \<longleftrightarrow> (\<exists>s parsed port h. v = JStr s \<and> urlsplit objection s = Inr parsed
     \<and> url_port parsed = Inr port \<and> h = (case url_hostname U parsed of None \<Rightarrow> [] | Some h \<Rightarrow> h) \<and> bare_origin parsed h \<and> public_dns_name h
     \<and> r = origin_text U h port)"
  unfolding public_https_origin_def
  by (cases v) (auto simp only: json.case bindE_eq_Inr port_Inr Let_def refused_Inr simp_thms json.inject json.distinct invalid_Inr sum.inject)

lemma origin_of_eq: "public_https_origin U objection v label = Inr s \<Longrightarrow> origin_of U objection v = s"
  unfolding origin_of_def using origin_Inr[of U objection v label s] origin_Inr[of U objection v "[]" s] by simp

lemma same_origin_keeps [simp]: "keeper (same_origin_url U objection origin)"
  by (auto simp: keeper_def same_origin_url_def invalid_def bindE_eq_Inr split: json.splits if_splits)

lemma preflight_fields:
  assumes "parse_preflight U objection obs = Inr pf"
  shows "pf_passed pf = raw_field obs ''preflight'' ''passed''" "pf_origin pf = origin_of U objection (raw_field obs ''preflight'' ''origin'')"
proof -
  obtain d where d: "section_of obs ''preflight'' [''evidence_sha256'', ''checked_at'', ''origin'', ''passed''] = Inr d"
    "public_https_origin U objection (field d ''origin'') (dotted (u ''preflight'') ''origin'') = Inr (pf_origin pf)"
    "get_checked require_bool d (u ''preflight'') ''passed'' = Inr (pf_passed pf)"
    using assms unfolding parse_preflight_def Let_def bindE_eq_Inr by (auto dest!: item_field)
  show "pf_passed pf = raw_field obs ''preflight'' ''passed''" "pf_origin pf = origin_of U objection (raw_field obs ''preflight'' ''origin'')"
    using get_checked_kept[OF d(3)] origin_of_eq[OF d(2)] by (simp_all add: section_of_field[OF d(1)])
qed

lemma url_fields:
  assumes "parse_urls U objection origin obs = Inr urls" "k \<in> set URL_KEYS"
  shows "field urls k = raw_field obs ''configured_urls'' k"
proof -
  let ?specs = "map (\<lambda>k. (k, same_origin_url U objection origin)) URL_KEYS"
  obtain d where d: "section_of obs ''configured_urls'' URL_KEYS = Inr d" "checked_fields d (u ''configured_urls'') ?specs = Inr urls"
    using assms(1) unfolding parse_urls_def bindE_eq_Inr by auto
  have "map_of ?specs k = Some (same_origin_url U objection origin)" using assms(2) by (auto simp: URL_KEYS_def)
  from kept_field[OF d(2) this] show ?thesis by (simp add: section_of_field[OF d(1)] URL_KEYS_def)
qed

lemma cookie_fields:
  assumes "parse_cookie U d label name = Inr c"
  shows "\<exists>x. field d name = JObj x \<and> secure_cookie c = (flag (field x ''secure'') \<and> flag (field x ''httponly'')
    \<and> lowered U (field x ''samesite'') = JStr (u ''lax''))"
proof -
  let ?specs = "[(''secure'', require_bool), (''httponly'', require_bool)]"
  obtain x samesite flags where x: "field d name = JObj x" "get_checked safe_identifier x (dotted label name) ''samesite'' = Inr samesite"
    "checked_fields x (dotted label name) ?specs = Inr flags" "c = flags @ [(u ''samesite'', lowered U samesite)]"
    using assms unfolding parse_cookie_def Let_def bindE_eq_Inr by (auto dest!: item_field)
  have "secure_cookie c = (flag (field x ''secure'') \<and> flag (field x ''httponly'') \<and> lowered U (field x ''samesite'') = JStr (u ''lax''))"
    using kept_field[OF x(3), of "''secure''" require_bool] kept_field[OF x(3), of "''httponly''" require_bool] checked_fields_keys[OF x(3)]
      get_checked_kept[OF x(2)]
    by (simp add: secure_cookie_def x(4) field_append field_Cons)
  with x(1) show ?thesis by blast
qed

lemma browser_fields:
  assumes "parse_browser U obs = Inr br"
  shows "br_installation_count br = raw_field obs ''browser_flow'' ''installation_count''"
    "br_session_invalid br = raw_field obs ''browser_flow'' ''session_invalid_after_logout''"
    "secure_cookie (br_state_cookie br) \<longleftrightarrow> cookie_secured U obs ''oauth_state_cookie''"
    "secure_cookie (br_session_cookie br) \<longleftrightarrow> cookie_secured U obs ''session_cookie''"
proof -
  let ?l = "u ''browser_flow''"
  obtain d where d: "section_of obs ''browser_flow'' (BROWSER_TIME_KEYS @ [''installation_count'', ''oauth_state_cookie'', ''session_cookie'',
       ''session_invalid_after_logout'', ''screenshot_evidence_sha256'']) = Inr d"
    "get_checked non_negative_int d ?l ''installation_count'' = Inr (br_installation_count br)"
    "get_checked require_bool d ?l ''session_invalid_after_logout'' = Inr (br_session_invalid br)"
    "parse_cookie U d ?l ''oauth_state_cookie'' = Inr (br_state_cookie br)" "parse_cookie U d ?l ''session_cookie'' = Inr (br_session_cookie br)"
    using assms unfolding parse_browser_def Let_def bindE_eq_Inr by auto
  note f = section_of_field[OF d(1)]
  show "br_installation_count br = raw_field obs ''browser_flow'' ''installation_count''"
    "br_session_invalid br = raw_field obs ''browser_flow'' ''session_invalid_after_logout''"
    using get_checked_kept[OF d(2)] get_checked_kept[OF d(3)] by (simp_all add: f)
  show "secure_cookie (br_state_cookie br) \<longleftrightarrow> cookie_secured U obs ''oauth_state_cookie''"
    "secure_cookie (br_session_cookie br) \<longleftrightarrow> cookie_secured U obs ''session_cookie''"
    using cookie_fields[OF d(4)] cookie_fields[OF d(5)] by (auto simp: cookie_secured_def part_of_def f)
qed

lemma forwarding_fields:
  assumes "parse_forwarding U objection origin obs = Inr fw"
  shows "fw_scheme fw = lowered U (raw_field obs ''forwarding'' ''observed_scheme'')" "fw_host fw = lowered U (raw_field obs ''forwarding'' ''observed_host'')"
    "fw_origin fw = origin_of U objection (raw_field obs ''forwarding'' ''application_origin'')"
    "fw_redirect_uri fw = raw_field obs ''forwarding'' ''oauth_redirect_uri''"
proof -
  let ?l = "u ''forwarding''"
  obtain d scheme host where d: "section_of obs ''forwarding'' [''checked_at'', ''observed_scheme'', ''observed_host'', ''application_origin'',
       ''oauth_redirect_uri'', ''request_evidence_sha256''] = Inr d"
    "get_checked safe_identifier d ?l ''observed_scheme'' = Inr scheme" "get_checked safe_identifier d ?l ''observed_host'' = Inr host"
    "public_https_origin U objection (field d ''application_origin'') (dotted ?l ''application_origin'') = Inr (fw_origin fw)"
    "get_checked (same_origin_url U objection origin) d ?l ''oauth_redirect_uri'' = Inr (fw_redirect_uri fw)"
    "fw_scheme fw = lowered U scheme" "fw_host fw = lowered U host"
    using assms unfolding parse_forwarding_def Let_def bindE_eq_Inr by (auto dest!: item_field)
  show "fw_scheme fw = lowered U (raw_field obs ''forwarding'' ''observed_scheme'')" "fw_host fw = lowered U (raw_field obs ''forwarding'' ''observed_host'')"
    "fw_origin fw = origin_of U objection (raw_field obs ''forwarding'' ''application_origin'')"
    "fw_redirect_uri fw = raw_field obs ''forwarding'' ''oauth_redirect_uri''"
    using get_checked_kept[OF d(2)] get_checked_kept[OF d(3)] origin_of_eq[OF d(4)] get_checked_kept[OF d(5)]
    by (simp_all add: section_of_field[OF d(1)] d(6,7))
qed

lemma webhook_fields:
  assumes "parse_webhook obs = Inr wh"
  shows "wh_event wh = raw_field obs ''webhook'' ''event''" "wh_action wh = raw_field obs ''webhook'' ''action''"
    "wh_signature_valid wh = raw_field obs ''webhook'' ''signature_valid''" "wh_status wh = raw_field obs ''webhook'' ''response_status_code''"
    "response_seconds wh = duration_seconds (instant (raw_field obs ''webhook'' ''received_at'')) (instant (raw_field obs ''webhook'' ''responded_at''))"
proof -
  let ?l = "u ''webhook''"
  obtain d where d: "section_of obs ''webhook'' ([''event'', ''action'', ''delivery_id_sha256''] @ WEBHOOK_TIME_KEYS
       @ [''signature_valid'', ''response_status_code'', ''request_evidence_sha256'']) = Inr d"
    "get_checked safe_identifier d ?l ''event'' = Inr (wh_event wh)" "get_checked safe_identifier d ?l ''action'' = Inr (wh_action wh)"
    "get_checked require_bool d ?l ''signature_valid'' = Inr (wh_signature_valid wh)"
    "get_checked non_negative_int d ?l ''response_status_code'' = Inr (wh_status wh)" "ordered_timestamps d WEBHOOK_TIME_KEYS ?l = Inr (wh_times wh)"
    using assms unfolding parse_webhook_def Let_def bindE_eq_Inr by auto
  note f = section_of_field[OF d(1)]
  show "wh_event wh = raw_field obs ''webhook'' ''event''" "wh_action wh = raw_field obs ''webhook'' ''action''"
    "wh_signature_valid wh = raw_field obs ''webhook'' ''signature_valid''" "wh_status wh = raw_field obs ''webhook'' ''response_status_code''"
    using get_checked_kept[OF d(2)] get_checked_kept[OF d(3)] get_checked_kept[OF d(4)] get_checked_kept[OF d(5)] by (simp_all add: f)
  show "response_seconds wh = duration_seconds (instant (raw_field obs ''webhook'' ''received_at'')) (instant (raw_field obs ''webhook'' ''responded_at''))"
    using ordered_instant[OF d(6), of "''received_at''"] ordered_instant[OF d(6), of "''responded_at''"]
    by (simp add: response_seconds_def f WEBHOOK_TIME_KEYS_def)
qed

text \<open>The host of an accepted origin is a public name in DNS, and no address by number.\<close>

definition public_origin :: "unicode \<Rightarrow> pystr \<Rightarrow> bool" where
  "public_origin U origin \<longleftrightarrow> (\<exists>h port. public_dns_name h \<and> origin = origin_text U h port)"

lemma https_verdict:
  assumes "https_evidence U objection max_seconds now obs digest = Inr ev"
  shows "evidence_passed ev \<longleftrightarrow> https_met U objection max_seconds obs" "public_origin U (origin_of U objection (field obs ''origin''))"
proof -
  from assms obtain names origin started completed pf urls br fw wh parts where
    P: "mapE (\<lambda>k. bindE (item obs k) (\<lambda>v. bindE (safe_identifier v (u k)) (\<lambda>r. Inr (u k, r))))
       [''acceptance_id'', ''source_revision'', ''environment''] = Inr names"
      "bindE (item obs ''origin'') (\<lambda>v. public_https_origin U objection v (u ''origin'')) = Inr origin"
      "parse_preflight U objection obs = Inr pf" "parse_urls U objection origin obs = Inr urls" "parse_browser U obs = Inr br"
      "parse_forwarding U objection origin obs = Inr fw" "parse_webhook obs = Inr wh" "urlsplit objection origin = Inr parts"
    and ev: "ev = https_document max_seconds digest now names origin (uc_lower U (url_netloc parts)) started completed pf urls br fw wh"
    unfolding https_evidence_def bindE_eq_Inr guard_Inr by (clarsimp simp del: mapE.simps simp: bindE_eq_Inr)
  have o: "public_https_origin U objection (field obs ''origin'') (u ''origin'') = Inr origin"
    using P(2) by (auto simp: bindE_eq_Inr dest!: item_field)
  note origin = origin_of_eq[OF o]
  have p: "evidence_passed ev \<longleftrightarrow> list_all snd (https_checks max_seconds origin (uc_lower U (url_netloc parts)) pf urls br fw wh)"
    unfolding ev https_document_def evidence_passed_def Let_def
    by (simp add: field_append field_Cons mapE_keys[OF P(1)] all_passed_def)
  have urls: "list_all (\<lambda>(k, s). field urls k = JStr s) (expected_urls origin)
      \<longleftrightarrow> list_all (\<lambda>(k, s). raw_field obs ''configured_urls'' k = JStr s) (expected_urls origin)"
    by (simp add: expected_urls_def url_fields[OF P(4)] URL_KEYS_def)
  have host: "on_host U objection origin v \<longleftrightarrow> lowered U v = JStr (uc_lower U (url_netloc parts))" for v
    by (simp add: on_host_def P(8))
  show "evidence_passed ev \<longleftrightarrow> https_met U objection max_seconds obs"
    unfolding p https_checks_def https_met_def origin Let_def list.pred_inject snd_conv urls host preflight_fields[OF P(3)] browser_fields[OF P(5)]
      forwarding_fields[OF P(6)] webhook_fields[OF P(7)] flag_JBool
    by (simp only: list.pred_inject simp_thms conj_assoc conj_ac)
  from o show "public_origin U (origin_of U objection (field obs ''origin''))"
    unfolding origin origin_Inr public_origin_def by blast
qed

interpretation hv: verifier "https_evidence U objection max_seconds now" "https_met U objection max_seconds" for U objection max_seconds now
  by unfold_locales (rule https_verdict(1))

text \<open>The verdict on an acceptance run over HTTPS: when the verifier writes its evidence the origin has a public host name, and the exit code is 0
  exactly when the preflight passed on this origin, the configured addresses are the expected ones, the sign-in ended with secure cookies and a
  closed session, the proxy forwarded scheme, host and origin, and a signed webhook was answered in time.\<close>

theorem https_exit_code:
  assumes "verifier_main (https_evidence U objection max_seconds now) same_path input = Written ev code"
  shows "\<exists>obs digest. load_observation input = Inr (obs, digest) \<and> public_origin U (origin_of U objection (field obs ''origin''))
    \<and> code = (if https_met U objection max_seconds obs then 0 else 1)"
  using hv.main_written[OF assms] https_verdict(2) by blast

text \<open>The tests for numeric addresses and for \<open>.local\<close> see the name with its trailing dot, which the labels no longer have, so that local names
  pass when they are written with one.\<close>

lemma trailing_dot_passes: "\<not> public_dns_name (u ''127.0.0.1'')" "public_dns_name (u ''127.0.0.1.'')"
  "\<not> public_dns_name (u ''printer.local'')" "public_dns_name (u ''printer.local.'')"
  by code_simp+

end
