(* ===== verification/Retention_Audit.thy ===== *)
theory Retention_Audit
  imports Evidence
begin

text \<open>
  The audit of the image registry, \<open>ops/ghcr/audit_retention.py\<close>: the tags of each package are its releases and one attestation for every
  release, and all packages have the same releases. Registry requests are network input; \<open>repr\<close> is the text Python prints for a string.
\<close>

section \<open>Tags\<close>

definition semver_number :: "pystr \<Rightarrow> bool" where
  "semver_number s \<longleftrightarrow> s = u ''0'' \<or> s \<noteq> [] \<and> hd s \<noteq> 48 \<and> list_all ascii_digit s"

definition SEMVER_TAG :: "pystr \<Rightarrow> bool" where
  "SEMVER_TAG s \<longleftrightarrow> startswith s (u ''v'') \<and> (case split_on (u ''.'') (drop 1 s) of
     [a, b, c] \<Rightarrow> semver_number a \<and> semver_number b \<and> semver_number c | _ \<Rightarrow> False)"

definition DIGEST :: "pystr \<Rightarrow> bool" where
  "DIGEST s \<longleftrightarrow> startswith s (u ''sha256:'') \<and> SHA256 (drop 7 s)"

definition DIGEST_TAG :: "pystr \<Rightarrow> bool" where
  "DIGEST_TAG s \<longleftrightarrow> startswith s (u ''sha256-'') \<and> SHA256 (drop 7 s)"

record PackageInventory =
  pi_name :: pystr
  pi_tags :: "pystr list"
  pi_release_digests :: "(pystr \<times> pystr) list"

definition audit_error :: "pystr \<Rightarrow> exn" where
  "audit_error m = OtherError m"

text \<open>\<open>digest.replace(":", "-", 1)\<close> replaces the first colon.\<close>

definition digest_tag :: "(pystr \<Rightarrow> pystr) \<Rightarrow> pystr \<Rightarrow> exn + pystr" where
  "digest_tag repr digest = (if \<not> DIGEST digest then Inl (audit_error (u ''invalid manifest digest: '' @ repr digest))
     else Inr (takeWhile (\<lambda>c. c \<noteq> 58) digest @ u ''-'' @ drop 1 (dropWhile (\<lambda>c. c \<noteq> 58) digest)))"

section \<open>The audit\<close>

definition sorted_set :: "pystr list \<Rightarrow> pystr list" where
  "sorted_set xs = sort (remdups xs)"

definition list_repr :: "(pystr \<Rightarrow> pystr) \<Rightarrow> pystr list \<Rightarrow> pystr" where
  "list_repr repr xs = u ''['' @ join (u '', '') (map repr (sorted_set xs)) @ u '']''"

definition release_tags :: "PackageInventory \<Rightarrow> pystr list" where
  "release_tags inventory = filter SEMVER_TAG (pi_tags inventory)"

definition digest_tags :: "PackageInventory \<Rightarrow> pystr list" where
  "digest_tags inventory = filter DIGEST_TAG (pi_tags inventory)"

fun expected_digest_tags :: "(pystr \<Rightarrow> pystr) \<Rightarrow> (pystr \<times> pystr) list \<Rightarrow> pystr list" where
  "expected_digest_tags repr [] = []"
| "expected_digest_tags repr ((_, d) # rest) = (case digest_tag repr d of Inl _ \<Rightarrow> [] | Inr t \<Rightarrow> [t]) @ expected_digest_tags repr rest"

fun digest_errors :: "(pystr \<Rightarrow> pystr) \<Rightarrow> pystr \<Rightarrow> (pystr \<times> pystr) list \<Rightarrow> pystr list" where
  "digest_errors repr name [] = []"
| "digest_errors repr name ((tag, d) # rest) =
     (if DIGEST d then [] else [name @ u '':'' @ tag @ u '': invalid manifest digest: '' @ repr d]) @ digest_errors repr name rest"

definition inventory_errors :: "(pystr \<Rightarrow> pystr) \<Rightarrow> PackageInventory \<Rightarrow> pystr list" where
  "inventory_errors repr inventory =
     (let name = pi_name inventory; releases = release_tags inventory; digests = digest_tags inventory;
          unexpected = filter (\<lambda>t. t \<notin> set releases \<and> t \<notin> set digests) (pi_tags inventory);
          expected = expected_digest_tags repr (pi_release_digests inventory);
          missing = filter (\<lambda>t. t \<notin> set digests) expected; orphaned = filter (\<lambda>t. t \<notin> set expected) digests
      in (if unexpected \<noteq> [] then [name @ u '': unexpected tags: '' @ list_repr repr unexpected] else [])
         @ (if releases = [] then [name @ u '': no SemVer release tags''] else [])
         @ (if fst ` set (pi_release_digests inventory) \<noteq> set releases then [name @ u '': digest inventory does not match release tags''] else [])
         @ digest_errors repr name (pi_release_digests inventory)
         @ (if missing \<noteq> [] then [name @ u '': missing attestation tags: '' @ list_repr repr missing] else [])
         @ (if orphaned \<noteq> [] then [name @ u '': orphaned attestation tags: '' @ list_repr repr orphaned] else []))"

definition release_errors :: "(pystr \<Rightarrow> pystr) \<Rightarrow> PackageInventory \<Rightarrow> PackageInventory \<Rightarrow> pystr list" where
  "release_errors repr first inventory = (if set (release_tags inventory) \<noteq> set (release_tags first)
     then [pi_name inventory @ u '': release tags differ from '' @ pi_name first @ u '': '' @ list_repr repr (release_tags inventory) @ u '' != ''
       @ list_repr repr (release_tags first)] else [])"

definition validate_inventories :: "(pystr \<Rightarrow> pystr) \<Rightarrow> PackageInventory list \<Rightarrow> exn + pystr list" where
  "validate_inventories repr invs =
     (if length invs < 2 then Inl (audit_error (u ''at least two package inventories are required''))
      else (let errors = concat (map (inventory_errors repr) invs) @ concat (map (release_errors repr (hd invs)) (tl invs))
            in if errors \<noteq> [] then Inl (audit_error (join [10] errors)) else Inr (sorted_set (release_tags (hd invs)))))"

section \<open>What the audit establishes\<close>

text \<open>The tag under which the attestation of an image is kept.\<close>

definition attestation :: "pystr \<Rightarrow> pystr" where
  "attestation digest = u ''sha256-'' @ drop 7 digest"

text \<open>The policy: a package's tags are its releases and the attestations of the images they stand for.\<close>

definition retained :: "PackageInventory \<Rightarrow> bool" where
  "retained inventory \<longleftrightarrow> release_tags inventory \<noteq> [] \<and> fst ` set (pi_release_digests inventory) = set (release_tags inventory)
     \<and> (\<forall>d \<in> snd ` set (pi_release_digests inventory). DIGEST d)
     \<and> set (pi_tags inventory) = set (release_tags inventory) \<union> attestation ` snd ` set (pi_release_digests inventory)"

lemma digest_tag_valid: "DIGEST d \<Longrightarrow> digest_tag repr d = Inr (attestation d)"
proof -
  assume d: "DIGEST d"
  then obtain h where "d = u ''sha256:'' @ h" by (auto simp: DIGEST_def startswith_def prefix_def)
  with d show ?thesis by (simp add: digest_tag_def attestation_def u_def)
qed

lemma digest_tag_invalid: "\<not> DIGEST d \<Longrightarrow> \<exists>e. digest_tag repr d = Inl e"
  by (simp add: digest_tag_def)

lemma digest_errors_Nil: "digest_errors repr name ds = [] \<longleftrightarrow> (\<forall>d \<in> snd ` set ds. DIGEST d)"
  by (induction repr name ds rule: digest_errors.induct) simp_all

lemma expected_digest_tags_set: "\<forall>d \<in> snd ` set ds. DIGEST d \<Longrightarrow> set (expected_digest_tags repr ds) = attestation ` snd ` set ds"
  by (induction repr ds rule: expected_digest_tags.induct) (simp_all add: digest_tag_valid)

lemma attestation_is_tag: "DIGEST d \<Longrightarrow> DIGEST_TAG (attestation d)"
  by (simp add: DIGEST_def DIGEST_TAG_def attestation_def startswith_def u_def)

lemma release_no_attestation: "SEMVER_TAG t \<Longrightarrow> \<not> DIGEST_TAG t"
  by (auto simp: SEMVER_TAG_def DIGEST_TAG_def startswith_def prefix_def u_def)

lemma two_kinds:
  assumes "\<And>t. P t \<Longrightarrow> \<not> Q t" "A \<subseteq> Collect Q"
  shows "T \<subseteq> {t \<in> T. P t} \<union> {t \<in> T. Q t} \<and> A = {t \<in> T. Q t} \<longleftrightarrow> T = {t \<in> T. P t} \<union> A"
proof
  assume "T = {t \<in> T. P t} \<union> A"
  with assms show "T \<subseteq> {t \<in> T. P t} \<union> {t \<in> T. Q t} \<and> A = {t \<in> T. Q t}" by (auto simp: subset_iff)
qed blast

lemma inventory_ok: "inventory_errors repr inventory = [] \<longleftrightarrow> retained inventory"
proof (cases "\<forall>d \<in> snd ` set (pi_release_digests inventory). DIGEST d")
  case True
  let ?A = "attestation ` snd ` set (pi_release_digests inventory)" and ?T = "set (pi_tags inventory)"
  have E: "set (expected_digest_tags repr (pi_release_digests inventory)) = ?A" by (rule expected_digest_tags_set[OF True])
  have "inventory_errors repr inventory = [] \<longleftrightarrow> ?T \<subseteq> set (release_tags inventory) \<union> set (digest_tags inventory) \<and> release_tags inventory \<noteq> []
      \<and> fst ` set (pi_release_digests inventory) = set (release_tags inventory) \<and> ?A = set (digest_tags inventory)"
    unfolding inventory_errors_def Let_def E[symmetric] using True by (auto simp: digest_errors_Nil filter_empty_conv split: if_splits)
  moreover have "?A \<subseteq> Collect DIGEST_TAG" using True attestation_is_tag by auto
  then have "?T \<subseteq> set (release_tags inventory) \<union> set (digest_tags inventory) \<and> ?A = set (digest_tags inventory)
      \<longleftrightarrow> ?T = set (release_tags inventory) \<union> ?A"
    unfolding release_tags_def digest_tags_def set_filter by (intro two_kinds release_no_attestation)
  ultimately show ?thesis using True unfolding retained_def by argo
next
  case False
  then show ?thesis by (auto simp: retained_def inventory_errors_def Let_def digest_errors_Nil)
qed

text \<open>The audit passes exactly for registries that follow the policy with the same releases in every package, which it returns sorted.\<close>

theorem validate_inventories_exact:
  "validate_inventories repr invs = Inr rs \<longleftrightarrow> 2 \<le> length invs \<and> (\<forall>inventory \<in> set invs. retained inventory)
     \<and> (\<forall>inventory \<in> set invs. set (release_tags inventory) = set rs) \<and> sorted rs \<and> distinct rs"
proof (cases invs)
  case (Cons first rest)
  have errors: "concat (map (inventory_errors repr) invs) @ concat (map (release_errors repr (hd invs)) (tl invs)) = []
      \<longleftrightarrow> (\<forall>inventory \<in> set invs. retained inventory) \<and> (\<forall>inventory \<in> set rest. set (release_tags inventory) = set (release_tags first))"
    unfolding append_is_Nil_conv concat_eq_Nil_conv set_map ball_simps inventory_ok release_errors_def Cons list.sel by simp
  have "validate_inventories repr invs = Inr rs \<longleftrightarrow> 2 \<le> length invs \<and> (\<forall>inventory \<in> set invs. retained inventory)
     \<and> (\<forall>inventory \<in> set rest. set (release_tags inventory) = set (release_tags first)) \<and> sorted_set (release_tags first) = rs"
    unfolding validate_inventories_def Let_def errors by (auto simp: Cons Suc_le_eq)
  moreover have "sorted_set (release_tags first) = rs \<longleftrightarrow> set (release_tags first) = set rs \<and> sorted rs \<and> distinct rs"
    unfolding sorted_set_def using sorted_distinct_set_unique[of "sort (remdups (release_tags first))" rs] by auto
  ultimately show ?thesis using Cons by auto
qed (simp add: validate_inventories_def)

end
