(* ===== verification/Spec2Isabelle.thy ===== *)
theory Spec2Isabelle
  imports Evaluation Worker_Tasks Queue_Spec Access_Props Soak_Evidence Drill_Evidence Channel_Evidence App_Evidence Https_Evidence
    Retention_Audit
begin

text \<open>
  PipeLens, a service that analyses failed GitHub Actions runs, and the tools that operate it.

  \<^bold>\<open>The program.\<close> GitHub posts a webhook for every completed workflow run (\<open>main.py\<close>). A signed event of a failed run becomes
  a row of the database (\<open>store.py\<close>) and a job of the queue (\<open>queue.py\<close>, in memory or in Redis). A worker (\<open>worker.py\<close>) takes
  jobs and runs the pipeline (\<open>pipeline.py\<close>): it collects the logs and the repository context from GitHub (\<open>github.py\<close> over
  \<open>http_retry.py\<close>), removes credentials (\<open>sanitizer.py\<close>, \<open>preprocessing.py\<close>), classifies the failure (\<open>classifier.py\<close>), ranks
  the changed files (\<open>relevance.py\<close>), diagnoses by rule and, for trusted runs, by a language model (\<open>diagnosis.py\<close>, \<open>llm.py\<close>),
  checks the proposed diffs (\<open>patching.py\<close>) and publishes a report (\<open>publication.py\<close>). Users sign in through GitHub
  (\<open>auth.py\<close>, \<open>security.py\<close>) and read the analyses of their installations. \<open>bootstrap.py\<close> wires the parts from the settings
  (\<open>config.py\<close>), \<open>metrics.py\<close> counts. \<open>evaluation.py\<close> and \<open>patch_evaluation.py\<close> gate changes on recorded cases, and the
  verifiers under \<open>ops/\<close> judge the observations of soak tests and drills.

  \<^bold>\<open>How it is modelled.\<close> Text is a list of code points (\<open>pystr\<close>), exceptions are the datatype \<open>exn\<close>, code that may raise
  returns \<open>exn + 'a\<close> (\<open>bindE\<close>, \<open>mapE\<close>), code with state is a \<open>prog\<close> that returns a result or an exception together with the
  state reached (\<open>bindS\<close>, \<open>tryS\<close>), so that effects before an exception are kept. The state is explicit: the database as
  tables of row records, the queue, the metrics, and a web server that answers every request from its history. What
  belongs to a library outside the repository is a parameter: parsers of YAML and TOML, the JSON schema of pydantic, the
  cipher of \<open>cryptography\<close> with its laws, Unicode tables, clocks and random numbers.

  \<^item> \<^bold>\<open>Foundations.\<close> \<open>Prelude\<close> (exceptions, programs, SQL on lists), \<open>PyText\<close>, \<open>PyPath\<close>, \<open>PyRegex\<close> (a backtracking matcher with
    the leftmost, prioritised matches of \<open>re\<close>), \<open>PyJson\<close>, \<open>JsonText\<close>, \<open>Json_Bytes\<close>, \<open>PyCodec\<close> (UTF-8, base64), \<open>PyDate\<close>, \<open>PyFloat\<close>
    (rounding to doubles), \<open>PyUrl\<close>, \<open>PyHost\<close> (\<open>urlsplit\<close>, \<open>ip_address\<close>), \<open>Sha256\<close> (on words of 32 bits). Round trips of the codecs, of dates and of JSON are proved.
  \<^item> \<^bold>\<open>Database.\<close> \<open>Models\<close>, \<open>Tables\<close>, \<open>Store\<close>: every method of \<open>AnalysisStore\<close> as a transaction. \<open>Store_Props\<close>: every reachable
    database satisfies the constraints, and a superseded attempt cannot write. \<open>Store_Queries\<close>: pagination returns every
    match once, records read back, follow-ups resolve the right failure, resolutions are final.
  \<^item> \<^bold>\<open>Queue and worker.\<close> \<open>Queue\<close>: both backends, the Lua scripts as atomic steps. \<open>Queue_Props\<close>: under any interleaving of
    any number of workers a queued run is in one place and is not lost. \<open>Queue_Spec\<close>: both backends refine one
    first-in-first-out specification. \<open>Worker\<close>, \<open>Worker_Props\<close>: the loops drain the queue and survive outages. \<open>Worker_Tasks\<close>: the two
    tasks of a worker process cut at their awaits, interleaved with other processes; lost connections and stopping at any
    await lose no run, and a job whose retry is lost stays with the worker.
  \<^item> \<^bold>\<open>Analysis.\<close> \<open>Sanitizer\<close>, \<open>Preprocessing\<close>, \<open>Classifier\<close>, \<open>Relevance\<close>, \<open>Diagnosing\<close>, \<open>LLM_Client\<close>, \<open>Patching\<close>, \<open>Patch_Check\<close>,
    \<open>Publication\<close>: each with the property that makes it correct. \<open>Http_Retry\<close>, \<open>GitHub\<close>, \<open>GitHub_Props\<close>: bounded retries, trust
    only for runs of the repository itself, comments of others untouched. \<open>Pipeline\<close>, \<open>Pipeline_Props\<close>: whatever the servers
    answer, only verified diffs are published and an untrusted run is contained.
  \<^item> \<^bold>\<open>Service.\<close> \<open>Config\<close>, \<open>Bootstrap\<close>, \<open>Metrics\<close>, \<open>Auth\<close>, \<open>Main_App\<close>: settings, wiring, login and every handler. \<open>Auth_Props\<close>,
    \<open>Main_Props\<close>, \<open>Access_Props\<close>: only signed events have an effect, no accepted run is lost between database and queue,
    analyses are shown to members only, sessions survive the rotation of keys, the cursor of a page reads back.
  \<^item> \<^bold>\<open>Tools.\<close> \<open>Evaluation\<close>: both evaluations and their gate. \<open>Evidence\<close> (the shared validators), \<open>Soak_Evidence\<close>,
    \<open>Rotation_Evidence\<close>, \<open>Drill_Evidence\<close>, \<open>Channel_Evidence\<close>, \<open>App_Evidence\<close>, \<open>Https_Evidence\<close>: a verdict is positive exactly when
    the submitted facts meet every condition. \<open>Retention_Audit\<close>: the audit passes exactly for registries that follow the policy.

  \<^bold>\<open>Interfaces.\<close> Where a client relies on a provider the contract is a locale, interpreted on the model's definitions: the
  laws of a queue (\<open>analysis_queue\<close>), extended by \<open>worker_queue\<close> for the worker, the contract \<open>timed_queue\<close> from which both
  queues refine the same list, and the contract of a verifier (\<open>verifier\<close>), interpreted for all six.

  \<^bold>\<open>Bounds.\<close> Loops that the code runs for ever carry fuel: the start-up loop of the worker (\<open>Worker_Props\<close> gives the fuel that
  an outage of any length needs) and the turns of its processing loop (the tries the jobs have left are enough). The
  regular expression matcher, the JSON reader and the paging loops recurse on the rest of the text or on the pages left
  and terminate. Times are integers of microseconds, as \<open>datetime\<close> has them. Floats of the verifiers and of the accuracy
  are rounded to doubles; scores of the classifier and the ranking are sums of a few decimal constants and are kept as
  rationals.

  \<^bold>\<open>Not modelled.\<close> The scheduling of asyncio: the tasks of the worker take their steps in any order. Connections, HTTP routing, the exposition format of the metrics.
  The migrations, whose result the tables are. The frontend, which is TypeScript. The scripts under \<open>ops/\<close> that drive
  containers, databases, dashboards and live servers, since they consist of process and network input and output.
\<close>

end
